(* ===== verification/Prelude.thy ===== *)
theory Prelude
  imports Complex_Main "HOL-Library.Char_ord" "HOL-Library.List_Lexorder" "HOL-Library.Sublist"
    "HOL-Library.Multiset"
begin

text \<open>
  What the theories of the development share: the Python idioms the code uses everywhere
  (\<open>x or default\<close> on optional numbers and strings, \<open>str.upper\<close>, \<open>in\<close> on strings,
  \<open>round\<close>, \<open>sorted(set(...))\<close>, a stable sort with a key, first match in a list), the
  list of reasons that most guards build, and the two interfaces that several components
  implement: a gate that collects reasons, and a table of status transitions.

  Python's \<open>float\<close> is modelled by exact rationals: comparisons, \<open>min\<close>, \<open>max\<close> and the
  decimal literals are exact, \<open>round(x, n)\<close> rounds half to even at the n-th decimal, and
  the rounding error of binary arithmetic, infinities and NaN are not represented.
  Strings are lists of 8-bit characters, and \<open>upper\<close> and \<open>lower\<close> act on ASCII letters.
  A reading of the clock is a number of milliseconds that the caller passes in.
\<close>

section \<open>Types and collections of facts\<close>

type_synonym num = rat
type_synonym timestamp = int

named_theorems py_simps \<open>unfolding of the Python idioms\<close>
named_theorems reason_simps \<open>the reasons a guard collects\<close>

section \<open>Optional values and defaults\<close>

text \<open>\<open>float(d.get(k) or dflt)\<close>: a missing key, \<open>None\<close> and \<open>0\<close> all take the default.\<close>

definition num_or :: "num option \<Rightarrow> num \<Rightarrow> num" where
  "num_or v d = (case v of None \<Rightarrow> d | Some x \<Rightarrow> if x = 0 then d else x)"

definition int_or :: "int option \<Rightarrow> int \<Rightarrow> int" where
  "int_or v d = (case v of None \<Rightarrow> d | Some x \<Rightarrow> if x = 0 then d else x)"

text \<open>\<open>str(d.get(k) or dflt)\<close>: the empty string takes the default too.\<close>

definition str_or :: "string option \<Rightarrow> string \<Rightarrow> string" where
  "str_or v d = (case v of None \<Rightarrow> d | Some s \<Rightarrow> if s = [] then d else s)"

text \<open>\<open>d.get(k, dflt)\<close>: only a missing key takes the default.\<close>

definition get_or :: "'a option \<Rightarrow> 'a \<Rightarrow> 'a" where
  "get_or v d = (case v of None \<Rightarrow> d | Some x \<Rightarrow> x)"

text \<open>\<open>int(x)\<close> truncates towards zero.\<close>

definition py_int :: "num \<Rightarrow> int" where
  "py_int x = (if x < 0 then - \<lfloor>- x\<rfloor> else \<lfloor>x\<rfloor>)"

lemma num_or_simps [simp, py_simps]:
  "num_or None d = d"
  "num_or (Some 0) d = d"
  "x \<noteq> 0 \<Longrightarrow> num_or (Some x) d = x"
  "num_or (Some x) 0 = x"
  by (simp_all add: num_or_def)

lemma int_or_simps [simp, py_simps]:
  "int_or None d = d"
  "int_or (Some 0) d = d"
  "n \<noteq> 0 \<Longrightarrow> int_or (Some n) d = n"
  "int_or (Some n) 0 = n"
  by (simp_all add: int_or_def)

lemma str_or_simps [simp, py_simps]:
  "str_or None d = d"
  "str_or (Some []) d = d"
  "str_or (Some (c # cs)) d = c # cs"
  by (simp_all add: str_or_def)

lemma get_or_simps [simp, py_simps]:
  "get_or None d = d"
  "get_or (Some y) d = y"
  by (simp_all add: get_or_def)

lemma num_or_pos: "0 < d \<Longrightarrow> (\<And>x. v = Some x \<Longrightarrow> 0 \<le> x) \<Longrightarrow> 0 < num_or v d"
  by (cases v) (auto simp: num_or_def order_less_le)

section \<open>Strings\<close>

definition upper_char :: "char \<Rightarrow> char" where
  "upper_char c = (let n = of_char c :: nat in if 97 \<le> n \<and> n \<le> 122 then char_of (n - 32) else c)"

definition lower_char :: "char \<Rightarrow> char" where
  "lower_char c = (let n = of_char c :: nat in if 65 \<le> n \<and> n \<le> 90 then char_of (n + 32) else c)"

definition upper :: "string \<Rightarrow> string" where
  "upper = map upper_char"

definition lower :: "string \<Rightarrow> string" where
  "lower = map lower_char"

text \<open>Characters that \<open>str.strip\<close> and the regular expression class \<open>\s\<close> take as white space.\<close>

definition is_space :: "char \<Rightarrow> bool" where
  "is_space c = (let n = of_char c :: nat in n = 32 \<or> (9 \<le> n \<and> n \<le> 13) \<or> (28 \<le> n \<and> n \<le> 31) \<or> n = 133 \<or> n = 160)"

definition strip :: "string \<Rightarrow> string" where
  "strip s = rev (dropWhile is_space (rev (dropWhile is_space s)))"

text \<open>\<open>needle in s\<close> on strings.\<close>

fun contains :: "string \<Rightarrow> string \<Rightarrow> bool" where
  "contains needle [] = (needle = [])"
| "contains needle (c # cs) = (prefix needle (c # cs) \<or> contains needle cs)"

text \<open>\<open>s.endswith(q)\<close>.\<close>

definition endswith :: "string \<Rightarrow> string \<Rightarrow> bool" where
  "endswith s q = suffix q s"

lemma of_char_upper_char:
  "(of_char (upper_char c) :: nat) =
     (let n = of_char c in if 97 \<le> n \<and> n \<le> 122 then n - 32 else n)"
proof -
  have "(of_char c :: nat) < 256" by simp
  then show ?thesis by (auto simp: upper_char_def Let_def take_bit_eq_mod)
qed

lemma upper_char_idem: "upper_char (upper_char c) = upper_char c"
  by (subst upper_char_def) (auto simp: of_char_upper_char Let_def)

lemma upper_idem [simp]: "upper (upper s) = upper s"
  by (simp add: upper_def upper_char_idem)

lemma length_upper [simp]: "length (upper s) = length s"
  by (simp add: upper_def)

lemma upper_Nil [simp]: "upper [] = []"
  by (simp add: upper_def)

lemma upper_Nil_iff [simp]: "upper s = [] \<longleftrightarrow> s = []"
  by (simp add: upper_def)

text \<open>\<open>str(v or dflt).upper()\<close>.\<close>

definition upper_or :: "string option \<Rightarrow> string \<Rightarrow> string" where
  "upper_or v d = upper (str_or v d)"

lemma length_strip_le: "length (strip s) \<le> length s"
proof -
  have "length (strip s) \<le> length (dropWhile is_space s)"
    unfolding strip_def by (metis length_dropWhile_le length_rev)
  then show ?thesis by (meson length_dropWhile_le order_trans)
qed

lemma contains_iff_sublist: "contains needle s \<longleftrightarrow> sublist needle s"
  by (induction s) (auto simp: sublist_Cons_right)

section \<open>Decimal numerals\<close>

text \<open>\<open>str(n)\<close> for a natural number.\<close>

definition digit_char :: "nat \<Rightarrow> char" where
  "digit_char d = char_of (48 + d)"

fun nat_str :: "nat \<Rightarrow> string" where
  "nat_str n = (if n < 10 then [digit_char n] else nat_str (n div 10) @ [digit_char (n mod 10)])"

declare nat_str.simps [simp del]

lemma digit_char_inj: "a < 10 \<Longrightarrow> b < 10 \<Longrightarrow> digit_char a = digit_char b \<longleftrightarrow> a = b"
proof
  assume "a < 10" "b < 10" "digit_char a = digit_char b"
  then have "of_char (digit_char a) = (of_char (digit_char b) :: nat)" by simp
  with \<open>a < 10\<close> \<open>b < 10\<close> show "a = b" by (simp add: digit_char_def take_bit_eq_mod)
qed simp

lemma nat_str_nonempty [simp]: "nat_str n \<noteq> []" "[] \<noteq> nat_str n"
  by (simp_all add: nat_str.simps [of n])

lemma nat_str_inj [simp]: "nat_str m = nat_str n \<longleftrightarrow> m = n"
proof (induction m arbitrary: n rule: less_induct)
  case (less m)
  have dig: "m mod 10 < 10" "n mod 10 < 10" by simp_all
  show ?case
  proof (cases "m < 10"; cases "n < 10")
    assume "\<not> m < 10" "\<not> n < 10"
    then have "nat_str m = nat_str n \<longleftrightarrow> m div 10 = n div 10 \<and> m mod 10 = n mod 10"
      using less [of "m div 10" "n div 10"] digit_char_inj [OF dig]
      by (subst nat_str.simps [of m], subst nat_str.simps [of n]) simp
    then show ?thesis by (metis div_mult_mod_eq)
  qed (use digit_char_inj in \<open>auto simp: nat_str.simps [of m] nat_str.simps [of n]\<close>)
qed

section \<open>Rounding\<close>

definition round_half_even :: "num \<Rightarrow> int" where
  "round_half_even x =
     (let f = \<lfloor>x\<rfloor>; d = x - of_int f
      in if d < 1 / 2 then f else if 1 / 2 < d then f + 1 else if even f then f else f + 1)"

text \<open>\<open>round(x, n)\<close>.\<close>

definition py_round :: "nat \<Rightarrow> num \<Rightarrow> num" where
  "py_round n x = of_int (round_half_even (x * 10 ^ n)) / 10 ^ n"

text \<open>A value with at most \<open>n\<close> decimals, which \<open>round(_, n)\<close> leaves alone.\<close>

definition on_grid :: "nat \<Rightarrow> num \<Rightarrow> bool" where
  "on_grid n x \<longleftrightarrow> of_int \<lfloor>x * 10 ^ n\<rfloor> = x * 10 ^ n"

lemma round_half_even_of_int [simp]: "round_half_even (of_int k) = k"
  by (simp add: round_half_even_def)

lemma round_half_even_error: "\<bar>of_int (round_half_even x) - x\<bar> \<le> 1 / 2"
proof -
  have "of_int \<lfloor>x\<rfloor> \<le> x" "x < of_int \<lfloor>x\<rfloor> + 1" by linarith+
  then show ?thesis by (auto simp: round_half_even_def Let_def abs_le_iff)
qed

lemma round_half_even_mono:
  assumes "x \<le> y" shows "round_half_even x \<le> round_half_even y"
proof (cases "\<lfloor>x\<rfloor> = \<lfloor>y\<rfloor>")
  case True
  with assms show ?thesis by (auto simp: round_half_even_def Let_def)
next
  case False
  have "\<lfloor>x\<rfloor> \<le> \<lfloor>y\<rfloor>" using assms by (rule floor_mono)
  with False have "\<lfloor>x\<rfloor> + 1 \<le> \<lfloor>y\<rfloor>" by linarith
  moreover have "round_half_even x \<le> \<lfloor>x\<rfloor> + 1" by (simp add: round_half_even_def Let_def)
  moreover have "\<lfloor>y\<rfloor> \<le> round_half_even y" by (simp add: round_half_even_def Let_def)
  ultimately show ?thesis by linarith
qed

lemma py_round_mono: "x \<le> y \<Longrightarrow> py_round n x \<le> py_round n y"
  by (simp add: py_round_def divide_right_mono round_half_even_mono)

lemma py_round_on_grid: "on_grid n x \<Longrightarrow> py_round n x = x"
  unfolding on_grid_def py_round_def
  by (metis nonzero_mult_div_cancel_right power_not_zero round_half_even_of_int zero_neq_numeral)

lemma py_round_0 [simp]: "py_round n 0 = 0"
  by (simp add: py_round_def round_half_even_def)

lemma py_round_1 [simp]: "py_round n 1 = 1"
  by (rule py_round_on_grid) (simp add: on_grid_def)

lemma py_round_numeral [simp]: "py_round n (numeral k) = numeral k"
  by (rule py_round_on_grid) (simp add: on_grid_def)

lemma py_round_ge: "on_grid n a \<Longrightarrow> a \<le> x \<Longrightarrow> a \<le> py_round n x"
  using py_round_mono [of a x n] by (simp add: py_round_on_grid)

lemma py_round_le: "on_grid n b \<Longrightarrow> x \<le> b \<Longrightarrow> py_round n x \<le> b"
  using py_round_mono [of x b n] by (simp add: py_round_on_grid)

lemma on_grid_const [simp]: "on_grid n 0" "on_grid n 1" "on_grid n (numeral k)"
  by (simp_all add: on_grid_def)

lemma py_round_error: "\<bar>py_round n x - x\<bar> \<le> 1 / (2 * 10 ^ n)"
proof -
  have p: "(0::num) < 10 ^ n" by simp
  have "py_round n x - x = (of_int (round_half_even (x * 10 ^ n)) - x * 10 ^ n) / 10 ^ n"
    by (simp add: py_round_def diff_divide_distrib)
  then have "\<bar>py_round n x - x\<bar> = \<bar>of_int (round_half_even (x * 10 ^ n)) - x * 10 ^ n\<bar> / 10 ^ n"
    by simp
  also have "\<dots> \<le> (1 / 2) / 10 ^ n"
    by (rule divide_right_mono [OF round_half_even_error]) simp
  finally show ?thesis by simp
qed

text \<open>\<open>max(low, min(high, value))\<close>.\<close>

definition clamp :: "num \<Rightarrow> num \<Rightarrow> num \<Rightarrow> num" where
  "clamp low high v = max low (min high v)"

lemma clamp_bounds: "low \<le> high \<Longrightarrow> low \<le> clamp low high v \<and> clamp low high v \<le> high"
  by (simp add: clamp_def)

lemma clamp_mono: "v \<le> w \<Longrightarrow> clamp low high v \<le> clamp low high w"
  by (auto simp: clamp_def max_def min_def)

section \<open>Lists\<close>

text \<open>\<open>sorted(xs, key=f, reverse=True)\<close>: descending, equal keys in their old order.\<close>

definition sort_desc :: "('a \<Rightarrow> num) \<Rightarrow> 'a list \<Rightarrow> 'a list" where
  "sort_desc f = sort_key (\<lambda>x. - f x)"

text \<open>\<open>max(xs, key=f)\<close>: the first of the elements with the greatest key.\<close>

fun arg_max_list :: "('a \<Rightarrow> 'b::linorder) \<Rightarrow> 'a \<Rightarrow> 'a list \<Rightarrow> 'a" where
  "arg_max_list f x [] = x"
| "arg_max_list f x (y # ys) = (if f x < f y then arg_max_list f y ys else arg_max_list f x ys)"

text \<open>\<open>sorted(set(xs))\<close>.\<close>

definition sorted_set :: "'a::linorder list \<Rightarrow> 'a list" where
  "sorted_set xs = sort (remdups xs)"

lemma mset_sort_desc [simp]: "mset (sort_desc f xs) = mset xs"
  by (simp add: sort_desc_def)

lemma set_sort_desc [simp]: "set (sort_desc f xs) = set xs"
  by (simp add: sort_desc_def)

lemma length_sort_desc [simp]: "length (sort_desc f xs) = length xs"
  by (simp add: sort_desc_def)

lemma sorted_sort_desc: "sorted_wrt (\<lambda>x y. f y \<le> f x) (sort_desc f xs)"
  using sorted_sort_key [of "\<lambda>x. - f x" xs] by (simp add: sort_desc_def sorted_map)

lemma set_sorted_set [simp]: "set (sorted_set xs) = set xs"
  by (simp add: sorted_set_def)

lemma sorted_sorted_set: "sorted (sorted_set xs) \<and> distinct (sorted_set xs)"
  by (simp add: sorted_set_def)

lemma arg_max_list_in: "arg_max_list f x ys \<in> set (x # ys)"
  by (induction ys arbitrary: x) auto

lemma arg_max_list_ge: "y \<in> set (x # ys) \<Longrightarrow> f y \<le> f (arg_max_list f x ys)"
proof (induction ys arbitrary: x y)
  case Nil
  then show ?case by simp
next
  case (Cons z zs)
  have "f (if f x < f z then z else x) \<le> f (arg_max_list f (if f x < f z then z else x) zs)"
    by (rule Cons.IH) simp
  then have "f x \<le> f (arg_max_list f x (z # zs)) \<and> f z \<le> f (arg_max_list f x (z # zs))"
    by (simp split: if_splits)
  moreover have "\<And>w. w \<in> set zs \<Longrightarrow> f w \<le> f (arg_max_list f x (z # zs))"
    using Cons.IH by simp
  ultimately show ?case using Cons.prems by auto
qed

section \<open>Collected reasons\<close>

text \<open>
  A guard appends the reason of each check that fails, in order, and reports the first.
\<close>

definition collect :: "(bool \<times> 'a) list \<Rightarrow> 'a list" where
  "collect checks = map snd (filter fst checks)"

definition headline :: "string list \<Rightarrow> string" where
  "headline rs = (case rs of [] \<Rightarrow> ''PASS'' | r # _ \<Rightarrow> r)"

lemma collect_simps [simp, reason_simps]:
  "collect [] = []"
  "collect ((b, r) # cs) = (if b then r # collect cs else collect cs)"
  by (simp_all add: collect_def)

lemma collect_empty_iff: "collect cs = [] \<longleftrightarrow> (\<forall>c \<in> set cs. \<not> fst c)"
  by (simp add: collect_def filter_empty_conv)

lemma set_collect: "r \<in> set (collect cs) \<longleftrightarrow> (True, r) \<in> set cs"
  by (force simp: collect_def)

lemma headline_simps [simp, reason_simps]:
  "headline [] = ''PASS''"
  "headline (r # rs) = r"
  by (simp_all add: headline_def)

text \<open>What a hard gate answers, from the reasons it has collected.\<close>

record gate_result =
  gr_pass :: bool
  gr_reason :: string
  gr_reasons :: "string list"

definition gate_report :: "string list \<Rightarrow> gate_result" where
  "gate_report rs = \<lparr>gr_pass = (rs = []), gr_reason = headline rs, gr_reasons = rs\<rparr>"

lemma gate_report_simps [simp]:
  "gr_pass (gate_report rs) = (rs = [])"
  "gr_reason (gate_report rs) = headline rs"
  "gr_reasons (gate_report rs) = rs"
  by (simp_all add: gate_report_def)

text \<open>The contract of a hard gate: it passes iff it has nothing to report.\<close>

locale reason_gate =
  fixes passes :: "'i \<Rightarrow> bool"
    and reasons_of :: "'i \<Rightarrow> string list"
    and headline_of :: "'i \<Rightarrow> string"
  assumes passes_iff: "passes i \<longleftrightarrow> reasons_of i = []"
    and headline_eq: "headline_of i = headline (reasons_of i)"
    and pass_is_no_reason: "''PASS'' \<notin> set (reasons_of i)"
begin

lemma rejected_headline: "\<not> passes i \<Longrightarrow> headline_of i \<in> set (reasons_of i)"
  by (cases "reasons_of i") (simp_all add: passes_iff headline_eq)

lemma passes_iff_headline: "passes i \<longleftrightarrow> headline_of i = ''PASS''"
proof
  show "passes i \<Longrightarrow> headline_of i = ''PASS''" by (simp add: passes_iff headline_eq)
next
  assume "headline_of i = ''PASS''"
  then show "passes i"
    using rejected_headline [of i] pass_is_no_reason [of i] by metis
qed

end

end
