(* ===== verification/Status_Machine.thy ===== *)
theory Status_Machine
  imports Prelude
begin

text \<open>
  The interface of a status table: a map from a status to the statuses that may follow it.
  Orders (\<open>STATE_TRANSITIONS\<close> of the execution engine), execution intents
  (\<open>EXECUTION_INTENT_ALLOWED_TRANSITIONS\<close>) and the approval requests of the risk policy
  (\<open>APPROVAL_STATE_TRANSITIONS\<close>) are driven by such a table and check it in the same way
  before they write the new status. What follows from the shape of a table is proved once here,
  in the locale \<open>status_flow\<close> and, where every status can be finished, \<open>status_table\<close>.
\<close>

text \<open>A sequence of statuses, each of which the table admits after the one before it.\<close>

fun follows :: "(string \<Rightarrow> string list) \<Rightarrow> string \<Rightarrow> string list \<Rightarrow> bool" where
  "follows allowed s [] = True"
| "follows allowed s (t # ts) = (t \<in> set (allowed s) \<and> follows allowed t ts)"

lemma follows_append:
  "follows allowed s (ts @ us) \<longleftrightarrow> follows allowed s ts \<and> follows allowed (last (s # ts)) us"
  by (induction ts arbitrary: s) auto

locale status_flow =
  fixes allowed :: "string \<Rightarrow> string list"
    and known :: "string \<Rightarrow> bool"
    and final :: "string \<Rightarrow> bool"
  assumes final_stuck: "final s \<Longrightarrow> allowed s = []"
    and unknown_stuck: "\<not> known s \<Longrightarrow> allowed s = []"
    and known_closed: "t \<in> set (allowed s) \<Longrightarrow> known t"
begin

lemma follows_final: "final s \<Longrightarrow> follows allowed s ts \<Longrightarrow> ts = []"
  by (cases ts) (simp_all add: final_stuck)

lemma follows_unknown: "\<not> known s \<Longrightarrow> follows allowed s ts \<Longrightarrow> ts = []"
  by (cases ts) (simp_all add: unknown_stuck)

lemma final_is_last:
  assumes "follows allowed s (ts @ t # us)" and "final t"
  shows "us = []"
  using assms by (auto simp: follows_append intro: follows_final)

lemma follows_known: "known s \<Longrightarrow> follows allowed s ts \<Longrightarrow> \<forall>t \<in> set ts. known t"
  by (induction ts arbitrary: s) (auto intro: known_closed)

lemma no_revival:
  assumes "follows allowed s (ts @ us)" and "final (last (s # ts))"
  shows "us = []"
  using assms by (auto simp: follows_append intro: follows_final)

end

text \<open>A table in which every status that is not final can end in the next step.\<close>

locale status_table = status_flow +
  assumes can_finish: "known s \<Longrightarrow> \<not> final s \<Longrightarrow> \<exists>t \<in> set (allowed s). final t"
begin

lemma finishes_in_one:
  assumes "known s" obtains ts where "follows allowed s ts" "final (last (s # ts))" "length ts \<le> 1"
proof (cases "final s")
  case True
  show ?thesis by (rule that [of "[]"]) (simp_all add: True)
next
  case False
  with assms obtain t where "t \<in> set (allowed s)" "final t" using can_finish by blast
  then show ?thesis by (intro that [of "[t]"]) simp_all
qed

end

end
