(* ===== verification/Runtime_Store.thy ===== *)
theory Runtime_Store
  imports Prelude
begin

text \<open>
  The store of the execution runtime: the rows of the tables \<open>execution_jobs\<close>,
  \<open>orders\<close>, \<open>positions\<close>, \<open>execution_metrics\<close> and \<open>commercial_trades\<close> that the engine
  reads and writes (\<open>src/backend/model_domains/execution_runtime_core.py\<close>), the Redis
  queue of jobs and the two kill switch keys, and the audit log, the timeline stream and
  the system alerts as lists of what was written. A session keeps what was assigned to a row
  when an exception is raised later, and so do the operations on this state: an operation that
  raises returns the error and the state it has reached.
\<close>

section \<open>Rows\<close>

record order =
  order_id :: string
  order_job_id :: string
  order_user_id :: string
  order_symbol :: string
  order_side :: string
  order_size :: num
  order_state :: string
  external_order_id :: "string option"
  avg_fill_price :: "num option"
  filled_size :: num
  order_reject_reason :: "string option"
  order_fail_reason :: "string option"
  order_sent_at :: "timestamp option"
  order_partial_filled_at :: "timestamp option"
  order_filled_at :: "timestamp option"
  order_failed_at :: "timestamp option"
  order_canceled_at :: "timestamp option"
  order_last_transition_at :: timestamp

text \<open>
  The payload of the Redis queue. \<open>retry_at_ts\<close> is written by the retry path only.
\<close>

record queue_payload =
  qp_job_id :: string
  qp_idempotency_key :: string
  qp_user_id :: string
  qp_symbol :: string
  qp_side :: string
  qp_size :: num
  qp_strategy_name :: string
  qp_created_at :: timestamp
  qp_enqueued_at :: "timestamp option"
  qp_retry_count :: int
  qp_retry_at_ts :: "int option"

text \<open>
  \<open>meta_payload\<close>: of the nested \<open>microstructure_guard\<close> the engine reads the selected venue
  and the predicted slippage.
\<close>

record job_meta =
  meta_confidence :: num
  meta_mark_price :: "num option"
  meta_leverage :: "int option"
  meta_requested_size :: num
  meta_order_type :: "string option"
  meta_limit_price :: "num option"
  meta_guard_venue :: "string option"
  meta_guard_expected_slippage_bps :: "num option"

record job =
  job_id :: string
  idempotency_key :: string
  job_user_id :: string
  job_symbol :: string
  job_side :: string
  job_size :: num
  job_strategy_name :: string
  job_state :: string
  job_reject_reason :: "string option"
  job_fail_reason :: "string option"
  last_error :: "string option"
  retry_count :: int
  max_retry :: int
  job_queue_payload :: "queue_payload option"
  meta_payload :: job_meta
  queue_wait_ms :: "int option"
  execution_ms :: "int option"
  total_ms :: "int option"
  failure_class :: "string option"
  job_created_at :: timestamp
  job_sent_at :: "timestamp option"
  job_filled_at :: "timestamp option"
  job_failed_at :: "timestamp option"
  job_last_transition_at :: timestamp
  job_updated_at :: timestamp

record position =
  position_id :: string
  pos_user_id :: string
  pos_symbol :: string
  pos_size :: num
  pos_entry_price :: num
  pos_current_price :: "num option"
  pos_unrealized_pnl :: num
  pos_leverage :: int
  pos_status :: string
  pos_external_order_id :: "string option"
  pos_last_transition_at :: timestamp

record trade =
  trade_user_id :: string
  trade_realized_pnl_usd :: num
  trade_time :: timestamp

section \<open>What is only written\<close>

record audit_entry =
  audit_action :: string
  audit_entity_id :: string
  audit_actor :: string
  audit_severity :: string

record timeline_event =
  ev_severity :: string
  ev_order_id :: "string option"
  ev_user_id :: string
  ev_symbol :: string
  ev_side :: string
  ev_state :: string
  ev_previous_state :: "string option"
  ev_filled_qty :: num
  ev_remaining_qty :: num
  ev_reject_reason :: "string option"
  ev_fail_reason :: "string option"

record system_alert =
  alert_type :: string
  alert_severity :: string
  alert_threshold :: num
  alert_actual :: num
  alert_user_id :: "string option"
  alert_root_cause :: "string option"

record execution_metric =
  metric_order_id :: string
  metric_user_id :: string
  metric_symbol :: string
  metric_exchange_order_id :: string
  metric_client_order_id :: string
  metric_exchange :: string
  metric_side :: string
  metric_quote_qty :: num
  metric_mid_price :: num
  metric_price_avg :: "num option"
  metric_executed_qty :: "num option"
  metric_slippage_pct :: "num option"
  metric_execution_time_ms :: num
  metric_status :: string
  metric_failure_code :: "string option"
  metric_quality_score :: num
  metric_predicted_slippage_bps :: num
  metric_realized_slippage_bps :: num
  metric_slippage_error_bps :: num
  metric_state_path :: "string list"

text \<open>
  The value of the kill switch key: a payload, or a string that is not JSON.
  The fields are optional because a payload may lack them.
\<close>

record kill_payload =
  ks_active :: "bool option"
  ks_source :: "string option"
  ks_reason :: "string option"
  ks_updated_at :: "timestamp option"
  ks_metadata :: "(string \<times> num) list"

datatype kill_value = KillJson kill_payload | KillMalformed

section \<open>The state\<close>

record store =
  jobs :: "job list"
  orders :: "order list"
  positions :: "position list"
  trades :: "trade list"
  metrics :: "execution_metric list"
  queue :: "queue_payload list"
  kill_switch_state :: "kill_value option"
  kill_switch_global :: "string option"
  audit_log :: "audit_entry list"
  timeline :: "timeline_event list"
  alerts :: "system_alert list"

definition empty_store :: store where
  "empty_store = \<lparr>jobs = [], orders = [], positions = [], trades = [], metrics = [], queue = [],
     kill_switch_state = None, kill_switch_global = None, audit_log = [], timeline = [], alerts = []\<rparr>"

definition create_audit_log :: "string \<Rightarrow> string \<Rightarrow> string \<Rightarrow> string \<Rightarrow> store \<Rightarrow> store" where
  "create_audit_log action entity actor severity s =
     s\<lparr>audit_log := audit_log s @ [\<lparr>audit_action = action, audit_entity_id = entity,
        audit_actor = actor, audit_severity = severity\<rparr>]\<rparr>"

definition emit_timeline_event :: "timeline_event \<Rightarrow> store \<Rightarrow> store" where
  "emit_timeline_event e s = s\<lparr>timeline := timeline s @ [e]\<rparr>"

definition create_system_alert :: "system_alert \<Rightarrow> store \<Rightarrow> store" where
  "create_system_alert a s = s\<lparr>alerts := alerts s @ [a]\<rparr>"

section \<open>Tables\<close>

text \<open>
  A query by primary key and the write-back of a row. The code holds a reference to the row
  object; here a changed row is saved under its key.
\<close>

definition find_row :: "('r \<Rightarrow> 'k) \<Rightarrow> 'k \<Rightarrow> 'r list \<Rightarrow> 'r option" where
  "find_row key k rows = List.find (\<lambda>r. key r = k) rows"

definition save_row :: "('r \<Rightarrow> 'k) \<Rightarrow> 'r \<Rightarrow> 'r list \<Rightarrow> 'r list" where
  "save_row key r rows = map (\<lambda>x. if key x = key r then r else x) rows"

lemma find_row_Nil [simp]: "find_row key k [] = None"
  by (simp add: find_row_def)

lemma find_row_Cons [simp]:
  "find_row key k (r # rs) = (if key r = k then Some r else find_row key k rs)"
  by (simp add: find_row_def)

lemma find_row_append [simp]:
  "find_row key k (rs @ ts) = (case find_row key k rs of None \<Rightarrow> find_row key k ts | Some r \<Rightarrow> Some r)"
  by (induction rs) auto

lemma find_row_key: "find_row key k rs = Some r \<Longrightarrow> key r = k"
  by (induction rs) (auto split: if_splits)

lemma find_row_in: "find_row key k rs = Some r \<Longrightarrow> r \<in> set rs"
  by (induction rs) (auto split: if_splits)

lemma find_row_None_iff: "find_row key k rs = None \<longleftrightarrow> k \<notin> key ` set rs"
  by (induction rs) auto

lemma find_row_save:
  "find_row key k (save_row key r rs) =
     (if k = key r \<and> find_row key k rs \<noteq> None then Some r else find_row key k rs)"
  by (induction rs) (auto simp: save_row_def)

lemma map_key_save_row [simp]: "map key (save_row key r rs) = map key rs"
  by (induction rs) (auto simp: save_row_def)

lemma length_save_row [simp]: "length (save_row key r rs) = length rs"
  by (simp add: save_row_def)

lemma set_save_row: "x \<in> set (save_row key r rs) \<Longrightarrow> x = r \<or> x \<in> set rs"
  by (auto simp: save_row_def split: if_splits)

lemma save_row_absent: "find_row key (key r) rs = None \<Longrightarrow> save_row key r rs = rs"
  by (induction rs) (auto simp: save_row_def split: if_splits)

lemma find_row_unique:
  "distinct (map key rs) \<Longrightarrow> r \<in> set rs \<Longrightarrow> find_row key (key r) rs = Some r"
  by (induction rs) auto

lemma map_save_row:
  assumes "distinct (map key rs)" "find_row key (key r) rs = Some old" "f r = f old"
  shows "map f (save_row key r rs) = map f rs"
proof -
  have "f (if key x = key r then r else x) = f x" if "x \<in> set rs" for x
    using find_row_unique [OF assms(1) that] assms(2,3) by auto
  then show ?thesis by (simp add: save_row_def)
qed

text \<open>
  The contract the engine relies on: a saved row is what the next query returns, and no
  other row changes.
\<close>

locale row_table =
  fixes key :: "'r \<Rightarrow> 'k"
    and lookup :: "'k \<Rightarrow> 's \<Rightarrow> 'r option"
    and save :: "'r \<Rightarrow> 's \<Rightarrow> 's"
  assumes lookup_key: "lookup k s = Some r \<Longrightarrow> key r = k"
    and lookup_save_same: "lookup (key r) s \<noteq> None \<Longrightarrow> lookup (key r) (save r s) = Some r"
    and lookup_save_other: "k \<noteq> key r \<Longrightarrow> lookup k (save r s) = lookup k s"
    and save_absent: "lookup (key r) s = None \<Longrightarrow> lookup k (save r s) = lookup k s"
begin

lemma lookup_save:
  "lookup k (save r s) = (if k = key r \<and> lookup k s \<noteq> None then Some r else lookup k s)"
proof (cases "k = key r")
  case True
  then show ?thesis
    using lookup_save_same [of r s] save_absent [of r s k] by (cases "lookup k s") auto
next
  case False
  then show ?thesis by (simp add: lookup_save_other)
qed

lemma present_save: "lookup k (save r s) = None \<longleftrightarrow> lookup k s = None"
  by (auto simp: lookup_save)

lemma save_overwrites: "key r = key q \<Longrightarrow> lookup k (save r (save q s)) = lookup k (save r s)"
  by (auto simp: lookup_save)

lemma save_commutes:
  "key r \<noteq> key q \<Longrightarrow> lookup k (save r (save q s)) = lookup k (save q (save r s))"
  by (auto simp: lookup_save)

end

definition job_row :: "string \<Rightarrow> store \<Rightarrow> job option" where
  "job_row i s = find_row job_id i (jobs s)"

definition save_job :: "job \<Rightarrow> store \<Rightarrow> store" where
  "save_job j s = s\<lparr>jobs := save_row job_id j (jobs s)\<rparr>"

definition order_row :: "string \<Rightarrow> store \<Rightarrow> order option" where
  "order_row i s = find_row order_id i (orders s)"

definition save_order :: "order \<Rightarrow> store \<Rightarrow> store" where
  "save_order ord s = s\<lparr>orders := save_row order_id ord (orders s)\<rparr>"

definition position_row :: "string \<Rightarrow> store \<Rightarrow> position option" where
  "position_row i s = find_row position_id i (positions s)"

definition save_position :: "position \<Rightarrow> store \<Rightarrow> store" where
  "save_position p s = s\<lparr>positions := save_row position_id p (positions s)\<rparr>"

interpretation job_table: row_table job_id job_row save_job
  by unfold_locales (auto simp: job_row_def save_job_def find_row_save dest: find_row_key)

interpretation order_table: row_table order_id order_row save_order
  by unfold_locales (auto simp: order_row_def save_order_def find_row_save dest: find_row_key)

interpretation position_table: row_table position_id position_row save_position
  by unfold_locales (auto simp: position_row_def save_position_def find_row_save dest: find_row_key)

end
