(* ===== verification/Order_Lifecycle.thy ===== *)
theory Order_Lifecycle
  imports Status_Machine Runtime_Store
begin

text \<open>
  The life of an order in \<open>src/backend/core/execution_engine.py\<close>: the table
  \<open>STATE_TRANSITIONS\<close> and \<open>advance_order_state\<close>, the position that a fill opens or
  enlarges, the metric recorded for an order, and \<open>handle_execution_result\<close>, which applies
  the states an exchange adapter reports, one after the other. From the adapters
  (\<open>src/backend/core/exchanges\<close>) comes the map from an exchange status to such states.
\<close>

section \<open>The state table\<close>

definition TERMINAL_STATES :: "string list" where
  "TERMINAL_STATES = [''FILLED'', ''FAILED'', ''CANCELED'']"

definition STATE_TRANSITIONS :: "(string \<times> string list) list" where
  "STATE_TRANSITIONS =
    [(''CREATED'', [''SENT'', ''FAILED'', ''CANCELED'']),
     (''SENT'', [''PARTIALLY_FILLED'', ''FILLED'', ''FAILED'', ''CANCELED'']),
     (''PARTIALLY_FILLED'', [''PARTIALLY_FILLED'', ''FILLED'', ''FAILED'', ''CANCELED'']),
     (''FILLED'', []),
     (''FAILED'', []),
     (''CANCELED'', [])]"

text \<open>\<open>STATE_TRANSITIONS.get(current, set())\<close>.\<close>

definition order_successors :: "string \<Rightarrow> string list" where
  "order_successors current = get_or (map_of STATE_TRANSITIONS current) []"

text \<open>\<open>str(order.state or "CREATED").upper()\<close>.\<close>

definition current_state :: "order \<Rightarrow> string" where
  "current_state ord = upper (str_or (Some (order_state ord)) ''CREATED'')"

definition advance_order_state ::
  "timestamp \<Rightarrow> string \<Rightarrow> string option \<Rightarrow> order \<Rightarrow> string + order" where
  "advance_order_state now new_state reason ord =
     (let target = upper new_state in
      if target \<notin> set (order_successors (current_state ord))
      then Inl ''invalid_order_state_transition''
      else
        let moved = ord\<lparr>order_state := target, order_last_transition_at := now\<rparr> in
        Inr (if target = ''SENT'' then moved\<lparr>order_sent_at := Some now\<rparr>
             else if target = ''PARTIALLY_FILLED'' then moved\<lparr>order_partial_filled_at := Some now\<rparr>
             else if target = ''FILLED'' then moved\<lparr>order_filled_at := Some now\<rparr>
             else if target = ''FAILED'' then
               moved\<lparr>order_failed_at := Some now, order_fail_reason := reason\<rparr>
             else if target = ''CANCELED'' then
               moved\<lparr>order_canceled_at := Some now, order_reject_reason := reason\<rparr>
             else moved))"

section \<open>What an adapter reports\<close>

record exchange_result =
  xr_external_order_id :: "string option"
  xr_states :: "string list"
  xr_avg_fill_price :: "num option"
  xr_filled_size :: "num option"

text \<open>\<open>BinanceExecutionAdapter._map_status_to_states\<close>.\<close>

definition status_mapping :: "(string \<times> string list) list" where
  "status_mapping =
    [(''NEW'', [''SENT'']),
     (''PARTIALLY_FILLED'', [''SENT'', ''PARTIALLY_FILLED'']),
     (''FILLED'', [''SENT'', ''FILLED'']),
     (''CANCELED'', [''SENT'', ''CANCELED'']),
     (''REJECTED'', [''SENT'', ''FAILED'']),
     (''EXPIRED'', [''SENT'', ''FAILED''])]"

definition map_status_to_states :: "string \<Rightarrow> string list" where
  "map_status_to_states status = get_or (map_of status_mapping (upper status)) [''SENT'']"

text \<open>
  \<open>SimExecutionAdapter.submit_order\<close>: the seed is the number read from the SHA-256 digest
  of the idempotency key, which is not modelled and comes in as an argument.
\<close>

definition sim_submit_order :: "int \<Rightarrow> string \<Rightarrow> num option \<Rightarrow> num option \<Rightarrow> exchange_result" where
  "sim_submit_order seed idem mark_price size0 =
     \<lparr>xr_external_order_id = Some (''SIM-'' @ take 12 idem),
      xr_states = [''SENT''] @ (if seed mod 3 = 0 then [''PARTIALLY_FILLED''] else [])
        @ (if seed mod 7 = 0 then [''FAILED''] else [''FILLED'']),
      xr_avg_fill_price = Some (num_or mark_price 1),
      xr_filled_size = Some (num_or size0 0)\<rparr>"

section \<open>Positions and metrics\<close>

text \<open>\<open>_sync_position_after_fill\<close>.\<close>

definition sync_position_after_fill :: "timestamp \<Rightarrow> order \<Rightarrow> store \<Rightarrow> store" where
  "sync_position_after_fill now ord s =
     (let pid = order_user_id ord @ '':'' @ order_symbol ord;
          qty = num_or (Some (filled_size ord)) (order_size ord)
      in case position_row pid s of
        None \<Rightarrow> s\<lparr>positions := positions s @
          [\<lparr>position_id = pid, pos_user_id = order_user_id ord, pos_symbol = order_symbol ord,
            pos_size = qty, pos_entry_price = num_or (avg_fill_price ord) 1,
            pos_current_price = Some (num_or (avg_fill_price ord) 1), pos_unrealized_pnl = 0,
            pos_leverage = 1, pos_status = ''open'',
            pos_external_order_id = external_order_id ord, pos_last_transition_at = now\<rparr>]\<rparr>
      | Some row \<Rightarrow> save_position
          (row\<lparr>pos_size := pos_size row + qty,
               pos_current_price :=
                 Some (num_or (avg_fill_price ord) (num_or (pos_current_price row) 1)),
               pos_external_order_id := external_order_id ord,
               pos_last_transition_at := now, pos_status := ''open''\<rparr>) s)"

text \<open>\<open>str(a or b or ...)\<close> over optional strings, the empty string when all are falsy.\<close>

fun first_str :: "string option list \<Rightarrow> string" where
  "first_str [] = []"
| "first_str (v # vs) = (case v of Some (c # cs) \<Rightarrow> c # cs | _ \<Rightarrow> first_str vs)"

definition job_duration_ms :: "job \<Rightarrow> int" where
  "job_duration_ms j = int_or (total_ms j) (int_or (execution_ms j) 0)"

text \<open>\<open>_record_execution_metric\<close>.\<close>

definition execution_metric_of :: "job \<Rightarrow> order \<Rightarrow> exchange_result \<Rightarrow> execution_metric" where
  "execution_metric_of j ord xr =
     (let meta = meta_payload j;
          mid_price = num_or (meta_mark_price meta) 0;
          price = num_or (avg_fill_price ord) mid_price;
          avg_price = (if price = 0 then None else Some price);
          qty = num_or (Some (filled_size ord)) (job_size j);
          executed_qty = (if qty = 0 then None else Some qty);
          priced = (price \<noteq> 0 \<and> 0 < mid_price);
          slippage_pct = (if priced then Some (py_round 6 (\<bar>price - mid_price\<bar> / mid_price * 100)) else None);
          realized = (if priced then py_round 6 (\<bar>price - mid_price\<bar> / mid_price * 10000) else 0);
          predicted = num_or (meta_guard_expected_slippage_bps meta) 0;
          error_bps = py_round 6 \<bar>realized - predicted\<bar>;
          quality = max 0 (min 100 (100 - realized * (15 / 10) - of_int (job_duration_ms j) / 120));
          failure = first_str [order_reject_reason ord, order_fail_reason ord, job_reject_reason j, job_fail_reason j]
      in \<lparr>metric_order_id = order_id ord, metric_user_id = job_user_id j, metric_symbol = job_symbol j,
          metric_exchange_order_id = str_or (external_order_id ord) (''runtime-'' @ job_id j),
          metric_client_order_id = idempotency_key j,
          metric_exchange = str_or (meta_guard_venue meta) ''binance'',
          metric_side = str_or (Some (job_side j)) ''BUY'',
          metric_quote_qty = num_or executed_qty (job_size j) * max mid_price 0,
          metric_mid_price = max mid_price 0, metric_price_avg = avg_price,
          metric_executed_qty = executed_qty, metric_slippage_pct = slippage_pct,
          metric_execution_time_ms = of_int (job_duration_ms j),
          metric_status = str_or (Some (order_state ord)) (str_or (Some (job_state j)) ''NEW''),
          metric_failure_code = (if failure = [] then None else Some failure),
          metric_quality_score = py_round 4 quality,
          metric_predicted_slippage_bps = predicted, metric_realized_slippage_bps = realized,
          metric_slippage_error_bps = error_bps, metric_state_path = xr_states xr\<rparr>)"

definition record_execution_metric :: "job \<Rightarrow> order \<Rightarrow> exchange_result \<Rightarrow> store \<Rightarrow> store" where
  "record_execution_metric j ord xr s =
     (if \<exists>m \<in> set (metrics s). metric_order_id m = order_id ord then s
      else s\<lparr>metrics := metrics s @ [execution_metric_of j ord xr]\<rparr>)"

section \<open>Applying a result\<close>

definition job_enters_state :: "timestamp \<Rightarrow> string \<Rightarrow> job \<Rightarrow> job" where
  "job_enters_state now st j =
     (let moved = j\<lparr>job_state := st, job_last_transition_at := now, job_updated_at := now\<rparr> in
      if st = ''SENT'' then moved\<lparr>job_sent_at := Some now\<rparr>
      else if st = ''FILLED'' then moved\<lparr>job_filled_at := Some now\<rparr>
      else moved)"

definition state_changed_event :: "job \<Rightarrow> order \<Rightarrow> string \<Rightarrow> string \<Rightarrow> timeline_event" where
  "state_changed_event j ord st previous =
     \<lparr>ev_severity = (if st \<in> set [''FAILED'', ''CANCELED''] then ''CRITICAL'' else ''INFO''),
      ev_order_id = Some (order_id ord), ev_user_id = job_user_id j, ev_symbol = job_symbol j,
      ev_side = job_side j, ev_state = st, ev_previous_state = Some previous,
      ev_filled_qty = filled_size ord, ev_remaining_qty = max 0 (order_size ord - filled_size ord),
      ev_reject_reason = order_reject_reason ord, ev_fail_reason = order_fail_reason ord\<rparr>"

text \<open>One accepted state: the rows are written, a fill is booked, the stream is told.\<close>

definition book_state :: "timestamp \<Rightarrow> string \<Rightarrow> string \<Rightarrow> job \<Rightarrow> order \<Rightarrow> store \<Rightarrow> store" where
  "book_state now previous st j ord s =
     (let s1 = save_job j (save_order ord s);
          s2 = (if st = ''FILLED'' then sync_position_after_fill now ord s1 else s1)
      in emit_timeline_event (state_changed_event j ord st previous) s2)"

text \<open>
  The loop of \<open>handle_execution_result\<close>. It stops at the first state that the order may not
  enter, and what the earlier states have changed stays.
\<close>

fun apply_states ::
  "timestamp \<Rightarrow> string \<Rightarrow> string list \<Rightarrow> job \<Rightarrow> order \<Rightarrow> store \<Rightarrow> string option \<times> job \<times> order \<times> store" where
  "apply_states now previous [] j ord s = (None, j, ord, s)"
| "apply_states now previous (st # sts) j ord s =
     (case advance_order_state now st None ord of
        Inl e \<Rightarrow> (Some e, j, ord, s)
      | Inr ord' \<Rightarrow>
          let j' = job_enters_state now st j
          in apply_states now st sts j' ord' (book_state now previous st j' ord' s))"

record handled =
  handled_job_id :: string
  handled_order_id :: string
  handled_state :: string
  handled_external_order_id :: "string option"

definition handle_execution_result ::
  "timestamp \<Rightarrow> job \<Rightarrow> order \<Rightarrow> exchange_result \<Rightarrow> store \<Rightarrow> (string + handled) \<times> job \<times> order \<times> store" where
  "handle_execution_result now j ord xr s =
     (let ord0 = ord\<lparr>external_order_id := xr_external_order_id xr,
                     avg_fill_price := Some (num_or (xr_avg_fill_price xr) 0),
                     filled_size := num_or (xr_filled_size xr) 0\<rparr>;
          previous = str_or (Some (order_state ord0)) ''CREATED''
      in case apply_states now previous (xr_states xr) j ord0 (save_order ord0 s) of
        (Some e, j', ord', s') \<Rightarrow> (Inl e, j', ord', s')
      | (None, j', ord', s') \<Rightarrow>
          (Inr \<lparr>handled_job_id = job_id j', handled_order_id = order_id ord',
                handled_state = job_state j', handled_external_order_id = external_order_id ord'\<rparr>,
           j', ord', record_execution_metric j' ord' xr s'))"

section \<open>The table has the shape of a status table\<close>

definition is_terminal :: "string \<Rightarrow> bool" where
  "is_terminal st \<longleftrightarrow> st \<in> set TERMINAL_STATES"

definition is_order_state :: "string \<Rightarrow> bool" where
  "is_order_state st \<longleftrightarrow> st \<in> fst ` set STATE_TRANSITIONS"

lemmas order_table_defs = order_successors_def STATE_TRANSITIONS_def TERMINAL_STATES_def
  is_terminal_def is_order_state_def

text \<open>
  The laws of a status table over a table that is a list, checked by evaluation.
\<close>

lemma order_table_checked:
  "list_all (\<lambda>(st, succs). (st \<in> set TERMINAL_STATES \<longrightarrow> succs = [])
      \<and> list_all (\<lambda>t. t \<noteq> [] \<and> t \<in> set (map fst STATE_TRANSITIONS)) succs
      \<and> (st \<notin> set TERMINAL_STATES \<longrightarrow> list_ex (\<lambda>t. t \<in> set TERMINAL_STATES) succs)) STATE_TRANSITIONS"
  by code_simp

lemma order_successors_cases:
  obtains "order_successors st = []" "\<not> is_order_state st"
  | "(st, order_successors st) \<in> set STATE_TRANSITIONS" "is_order_state st"
proof (cases "map_of STATE_TRANSITIONS st")
  case None
  then have "order_successors st = []" by (simp add: order_successors_def)
  moreover have "\<not> is_order_state st"
    using None by (simp add: is_order_state_def map_of_eq_None_iff)
  ultimately show ?thesis by (rule that(1))
next
  case (Some succs)
  then have "(st, succs) \<in> set STATE_TRANSITIONS" by (rule map_of_SomeD)
  with Some show ?thesis
    using that(2) by (force simp: order_successors_def is_order_state_def)
qed

lemma order_successors_checked:
  "is_terminal st \<Longrightarrow> order_successors st = []"
  "t \<in> set (order_successors st) \<Longrightarrow> t \<noteq> [] \<and> is_order_state t"
  "is_order_state st \<Longrightarrow> \<not> is_terminal st \<Longrightarrow> \<exists>t \<in> set (order_successors st). is_terminal t"
  by (cases st rule: order_successors_cases;
      use order_table_checked in \<open>fastforce simp: list_all_iff list_ex_iff is_terminal_def is_order_state_def\<close>)+

interpretation order_states: status_table order_successors is_order_state is_terminal
proof
  show "\<not> is_order_state st \<Longrightarrow> order_successors st = []" for st
    by (cases st rule: order_successors_cases) simp_all
qed (auto dest: order_successors_checked)

lemma upper_state_names [simp]:
  "upper ''CREATED'' = ''CREATED''" "upper ''SENT'' = ''SENT''"
  "upper ''PARTIALLY_FILLED'' = ''PARTIALLY_FILLED''" "upper ''FILLED'' = ''FILLED''"
  "upper ''FAILED'' = ''FAILED''" "upper ''CANCELED'' = ''CANCELED''"
  by code_simp+

section \<open>One transition\<close>

lemma advance_ok_iff:
  "(\<exists>ord'. advance_order_state now t r ord = Inr ord') \<longleftrightarrow>
     upper t \<in> set (order_successors (current_state ord))"
  by (simp add: advance_order_state_def Let_def)

lemma advance_order_state_Inr:
  assumes "advance_order_state now t r ord = Inr ord'"
  shows "order_state ord' = upper t" "current_state ord' = upper t"
    "upper t \<in> set (order_successors (current_state ord))"
    "order_id ord' = order_id ord" "order_user_id ord' = order_user_id ord"
    "order_symbol ord' = order_symbol ord" "order_size ord' = order_size ord"
    "filled_size ord' = filled_size ord" "avg_fill_price ord' = avg_fill_price ord"
    "external_order_id ord' = external_order_id ord" "order_job_id ord' = order_job_id ord"
proof -
  show succ: "upper t \<in> set (order_successors (current_state ord))"
    using assms advance_ok_iff by blast
  show st: "order_state ord' = upper t"
    using assms by (auto simp: advance_order_state_def Let_def split: if_splits)
  have "upper t \<noteq> []" using order_successors_checked(2) [OF succ] by simp
  then show "current_state ord' = upper t"
    by (cases "upper t") (simp_all add: current_state_def st, metis upper_idem)
qed (use assms in \<open>auto simp: advance_order_state_def Let_def split: if_splits\<close>)

lemma advance_order_state_terminal:
  "is_terminal (current_state ord) \<Longrightarrow>
     advance_order_state now t r ord = Inl ''invalid_order_state_transition''"
  by (simp add: advance_order_state_def Let_def order_states.final_stuck)

section \<open>The sequence of states of a result\<close>

lemma apply_states_ok_iff:
  "fst (apply_states now prev sts j ord s) = None \<longleftrightarrow>
     follows order_successors (current_state ord) (map upper sts)"
proof (induction sts arbitrary: prev j ord s)
  case Nil
  then show ?case by simp
next
  case (Cons st sts)
  show ?case
  proof (cases "advance_order_state now st None ord")
    case (Inl e)
    then have "upper st \<notin> set (order_successors (current_state ord))"
      using advance_ok_iff [of now st None ord] by auto
    with Inl show ?thesis by simp
  next
    case (Inr ord')
    with Cons.IH show ?thesis
      by (simp add: Let_def advance_order_state_Inr(2,3) [OF Inr])
  qed
qed

lemma job_enters_state_simps [simp]:
  "job_id (job_enters_state now st j) = job_id j"
  "job_state (job_enters_state now st j) = st"
  by (simp_all add: job_enters_state_def Let_def)

lemma apply_states_frame:
  "apply_states now prev sts j ord s = (e, j', ord', s') \<Longrightarrow>
     order_id ord' = order_id ord \<and> order_user_id ord' = order_user_id ord \<and>
     order_symbol ord' = order_symbol ord \<and> order_size ord' = order_size ord \<and>
     filled_size ord' = filled_size ord \<and> job_id j' = job_id j"
proof (induction sts arbitrary: prev j ord s)
  case Nil
  then show ?case by simp
next
  case (Cons st sts)
  then show ?case
  proof (cases "advance_order_state now st None ord")
    case (Inl e)
    with Cons.prems show ?thesis by simp
  next
    case (Inr ord1)
    note Cons.IH [of st "job_enters_state now st j" ord1]
    with Cons.prems Inr show ?thesis
      by (simp add: Let_def advance_order_state_Inr [OF Inr])
  qed
qed

lemma apply_states_final:
  "apply_states now prev sts j ord s = (None, j', ord', s') \<Longrightarrow>
     current_state ord' = last (current_state ord # map upper sts) \<and>
     job_state j' = last (job_state j # sts)"
proof (induction sts arbitrary: prev j ord s)
  case Nil
  then show ?case by simp
next
  case (Cons st sts)
  then obtain ord1 where Inr: "advance_order_state now st None ord = Inr ord1"
    by (auto split: sum.splits)
  have "current_state ord' = last (current_state ord1 # map upper sts) \<and>
      job_state j' = last (job_state (job_enters_state now st j) # sts)"
    by (rule Cons.IH) (use Cons.prems Inr in \<open>simp add: Let_def\<close>)
  then show ?case by (simp add: advance_order_state_Inr(2) [OF Inr])
qed

section \<open>Results as a whole\<close>

lemma status_mapping_checked:
  "list_all (\<lambda>states. states \<noteq> [] \<and> hd states = ''SENT'' \<and>
      follows order_successors ''CREATED'' (map upper states)) ([''SENT''] # map snd status_mapping)"
  by code_simp

lemma map_status_to_states_in:
  "map_status_to_states status \<in> set ([''SENT''] # map snd status_mapping)"
proof (cases "map_of status_mapping (upper status)")
  case None
  then show ?thesis by (simp add: map_status_to_states_def)
next
  case (Some v)
  from map_of_SomeD [OF Some] have "v \<in> snd ` set status_mapping" by force
  then show ?thesis by (simp add: map_status_to_states_def Some)
qed

lemma reported_states_checked:
  "map_status_to_states status \<noteq> [] \<and> hd (map_status_to_states status) = ''SENT'' \<and>
     follows order_successors ''CREATED'' (map upper (map_status_to_states status))"
  by (rule list_all_iff [THEN iffD1, OF status_mapping_checked, rule_format,
      OF map_status_to_states_in])

lemmas reported_states_follow = reported_states_checked [THEN conjunct2, THEN conjunct2]

lemma map_status_to_states_starts:
  obtains rest where "map_status_to_states status = ''SENT'' # rest"
proof (cases "map_status_to_states status")
  case Nil
  then show ?thesis using reported_states_checked [of status] by blast
next
  case (Cons st rest)
  then have "st = ''SENT''" using reported_states_checked [of status] by (metis list.sel(1))
  with Cons show ?thesis by (intro that) simp
qed

lemma sim_states_follow:
  "follows order_successors ''CREATED'' (map upper (xr_states (sim_submit_order seed idem px sz)))"
proof -
  have "follows order_successors ''CREATED'' (map upper ([''SENT''] @ (if a then [''PARTIALLY_FILLED''] else [])
      @ (if b then [''FAILED''] else [''FILLED''])))" for a b
    by (cases a; cases b; simp; code_simp)
  then show ?thesis by (simp add: sim_submit_order_def)
qed

lemma handle_execution_result_cases:
  assumes "handle_execution_result now j ord xr s = (r, j', ord', s')"
  obtains (raised) e where "r = Inl e"
    "\<not> follows order_successors (current_state ord) (map upper (xr_states xr))"
  | (handled) h ord0 s1 where "r = Inr h"
    "follows order_successors (current_state ord) (map upper (xr_states xr))"
    "ord0 = ord\<lparr>external_order_id := xr_external_order_id xr,
        avg_fill_price := Some (num_or (xr_avg_fill_price xr) 0),
        filled_size := num_or (xr_filled_size xr) 0\<rparr>"
    "apply_states now (str_or (Some (order_state ord)) ''CREATED'') (xr_states xr) j ord0
        (save_order ord0 s) = (None, j', ord', s1)"
    "s' = record_execution_metric j' ord' xr s1"
    "h = \<lparr>handled_job_id = job_id j', handled_order_id = order_id ord',
           handled_state = job_state j', handled_external_order_id = external_order_id ord'\<rparr>"
proof -
  let ?o = "ord\<lparr>external_order_id := xr_external_order_id xr,
        avg_fill_price := Some (num_or (xr_avg_fill_price xr) 0),
        filled_size := num_or (xr_filled_size xr) 0\<rparr>"
  obtain e j1 o1 s1 where run: "apply_states now (str_or (Some (order_state ord)) ''CREATED'')
      (xr_states xr) j ?o (save_order ?o s) = (e, j1, o1, s1)"
    by (metis prod_cases4)
  have st: "current_state ?o = current_state ord" by (simp add: current_state_def)
  have iff: "e = None \<longleftrightarrow> follows order_successors (current_state ord) (map upper (xr_states xr))"
    using apply_states_ok_iff [of now "str_or (Some (order_state ord)) ''CREATED''" "xr_states xr" j ?o "save_order ?o s"]
    unfolding run st by simp
  show ?thesis
  proof (cases e)
    case None
    with assms run iff show ?thesis
      by (intro handled) (auto simp: handle_execution_result_def Let_def)
  next
    case (Some msg)
    with assms run iff show ?thesis
      by (intro raised) (auto simp: handle_execution_result_def Let_def)
  qed
qed

section \<open>The quantity held in a position\<close>

definition position_qty :: "string \<Rightarrow> store \<Rightarrow> num" where
  "position_qty k s = (case position_row k s of None \<Rightarrow> 0 | Some r \<Rightarrow> pos_size r)"

lemma position_qty_empty [simp]: "position_qty k empty_store = 0"
  by (simp add: position_qty_def position_row_def empty_store_def)

lemma position_qty_frame [simp]:
  "position_qty k (save_order ord s) = position_qty k s"
  "position_qty k (save_job j s) = position_qty k s"
  "position_qty k (emit_timeline_event e s) = position_qty k s"
  "position_qty k (record_execution_metric j ord xr s) = position_qty k s"
  by (simp_all add: position_qty_def position_row_def save_order_def save_job_def
      emit_timeline_event_def record_execution_metric_def)

lemma position_qty_sync:
  "position_qty k (sync_position_after_fill now ord s) = position_qty k s +
     (if k = order_user_id ord @ '':'' @ order_symbol ord
      then num_or (Some (filled_size ord)) (order_size ord) else 0)"
proof (cases "position_row (order_user_id ord @ '':'' @ order_symbol ord) s")
  case None
  then show ?thesis
    by (auto simp: sync_position_after_fill_def Let_def position_qty_def position_row_def split: option.splits)
next
  case (Some row)
  let ?row = "row\<lparr>pos_size := pos_size row + num_or (Some (filled_size ord)) (order_size ord),
       pos_current_price := Some (num_or (avg_fill_price ord) (num_or (pos_current_price row) 1)),
       pos_external_order_id := external_order_id ord,
       pos_last_transition_at := now, pos_status := ''open''\<rparr>"
  have key: "position_id row = order_user_id ord @ '':'' @ order_symbol ord"
    using Some by (rule position_table.lookup_key)
  have "sync_position_after_fill now ord s = save_position ?row s"
    using Some by (simp add: sync_position_after_fill_def Let_def)
  then show ?thesis
    using Some key by (auto simp: position_qty_def position_table.lookup_save)
qed

lemma position_qty_book:
  "position_qty k (book_state now prev st j ord s) = position_qty k s +
     (if st = ''FILLED'' \<and> k = order_user_id ord @ '':'' @ order_symbol ord
      then num_or (Some (filled_size ord)) (order_size ord) else 0)"
  by (simp add: book_state_def Let_def position_qty_sync)

lemma filled_is_last:
  assumes "follows order_successors st (upper ''FILLED'' # map upper sts)"
  shows "sts = []"
  using assms order_states.follows_final [of "''FILLED''" "map upper sts"]
  by (simp add: is_terminal_def TERMINAL_STATES_def)

lemma position_qty_apply_states:
  "apply_states now prev sts j ord s = (None, j', ord', s') \<Longrightarrow>
     position_qty k s' = position_qty k s +
       (if ''FILLED'' \<in> set sts \<and> k = order_user_id ord @ '':'' @ order_symbol ord
        then num_or (Some (filled_size ord)) (order_size ord) else 0)"
proof (induction sts arbitrary: prev j ord s)
  case Nil
  then show ?case by simp
next
  case (Cons st sts)
  have ok: "follows order_successors (current_state ord) (map upper (st # sts))"
    using Cons.prems apply_states_ok_iff [of now prev "st # sts" j ord s] by simp
  from Cons.prems obtain ord1 where adv: "advance_order_state now st None ord = Inr ord1"
    by (auto split: sum.splits)
  let ?j1 = "job_enters_state now st j"
  have run: "apply_states now st sts ?j1 ord1 (book_state now prev st ?j1 ord1 s) = (None, j', ord', s')"
    using Cons.prems adv by (simp add: Let_def)
  note frame = advance_order_state_Inr [OF adv]
  have once: "\<not> (st = ''FILLED'' \<and> ''FILLED'' \<in> set sts)"
  proof
    assume "st = ''FILLED'' \<and> ''FILLED'' \<in> set sts"
    with ok filled_is_last [of "current_state ord" sts] show False by auto
  qed
  show ?case
    using Cons.IH [OF run] once by (auto simp: position_qty_book frame)
qed

lemma sent_only_from_created: "''SENT'' \<in> set (order_successors st) \<Longrightarrow> st = ''CREATED''"
  by (cases st rule: order_successors_cases) (auto simp: STATE_TRANSITIONS_def)

lemma accepted_iff_follows:
  "(\<exists>h. fst (handle_execution_result now j ord xr s) = Inr h) \<longleftrightarrow>
     follows order_successors (current_state ord) (map upper (xr_states xr))"
proof -
  obtain r j' ord' s' where run: "handle_execution_result now j ord xr s = (r, j', ord', s')"
    by (metis prod_cases4)
  show ?thesis
    by (cases rule: handle_execution_result_cases [OF run]) (simp_all add: run)
qed

lemma fresh_order_accepts_report_sim:
  "current_state ord = ''CREATED'' \<Longrightarrow>
     \<exists>h. fst (handle_execution_result now j ord (sim_submit_order seed idem px sz) s) = Inr h"
  by (simp add: accepted_iff_follows sim_states_follow)

section \<open>Properties\<close>

definition sample_order :: order where
  "sample_order = \<lparr>order_id = ''o1'', order_job_id = ''j1'', order_user_id = ''u1'',
     order_symbol = ''BTCUSDT'', order_side = ''BUY'', order_size = 2, order_state = ''CREATED'',
     external_order_id = None, avg_fill_price = None, filled_size = 0, order_reject_reason = None,
     order_fail_reason = None, order_sent_at = None, order_partial_filled_at = None,
     order_filled_at = None, order_failed_at = None, order_canceled_at = None,
     order_last_transition_at = 0\<rparr>"

definition sample_job :: job where
  "sample_job = \<lparr>job_id = ''j1'', idempotency_key = ''k1'', job_user_id = ''u1'',
     job_symbol = ''BTCUSDT'', job_side = ''BUY'', job_size = 2, job_strategy_name = ''ema_rsi'',
     job_state = ''CREATED'', job_reject_reason = None, job_fail_reason = None, last_error = None,
     retry_count = 0, max_retry = 3, job_queue_payload = None,
     meta_payload = \<lparr>meta_confidence = 0, meta_mark_price = Some 100, meta_leverage = Some 1,
       meta_requested_size = 2, meta_order_type = None, meta_limit_price = None,
       meta_guard_venue = None, meta_guard_expected_slippage_bps = None\<rparr>,
     queue_wait_ms = None, execution_ms = None, total_ms = None, failure_class = None,
     job_created_at = 0, job_sent_at = None, job_filled_at = None, job_failed_at = None,
     job_last_transition_at = 0, job_updated_at = 0\<rparr>"

lemma sample_order_created: "current_state sample_order = ''CREATED''"
  by code_simp

text \<open>
  C13: A result is applied without an error exactly when its states, one after the other, are
  admitted by \<open>STATE_TRANSITIONS\<close> from the current state of the order; the order and the
  job then end in the last of them.
\<close>

theorem handle_result_follows_table:
  assumes "handle_execution_result now j ord xr s = (r, j', ord', s')"
  shows "case r of
     Inl e \<Rightarrow> \<not> follows order_successors (current_state ord) (map upper (xr_states xr))
   | Inr h \<Rightarrow> follows order_successors (current_state ord) (map upper (xr_states xr))
        \<and> current_state ord' = last (current_state ord # map upper (xr_states xr))
        \<and> job_state j' = last (job_state j # xr_states xr) \<and> handled_state h = job_state j'"
proof (cases rule: handle_execution_result_cases [OF assms])
  case (1 e)
  then show ?thesis by simp
next
  case (2 h ord0 s1)
  then show ?thesis using apply_states_final [OF 2(4)] by (simp add: current_state_def)
qed

theorem handle_result_follows_table_witness:
  "case handle_execution_result 7 sample_job sample_order
      (sim_submit_order 1 ''k1'' (Some 100) (Some 2)) empty_store of
    (r, j', ord', s') \<Rightarrow> (\<exists>h. r = Inr h \<and> handled_state h = ''FILLED'' \<and> current_state ord' = ''FILLED'')"
proof -
  obtain r j' ord' s' where run: "handle_execution_result 7 sample_job sample_order
      (sim_submit_order 1 ''k1'' (Some 100) (Some 2)) empty_store = (r, j', ord', s')"
    by (metis prod_cases4)
  have st: "xr_states (sim_submit_order 1 ''k1'' (Some 100) (Some 2)) = [''SENT'', ''FILLED'']"
    by (simp add: sim_submit_order_def)
  have cur: "current_state sample_order = ''CREATED''" by code_simp
  have "follows order_successors ''CREATED'' (map upper [''SENT'', ''FILLED''])" by code_simp
  then show ?thesis
    using handle_result_follows_table [OF run] unfolding st cur run
    by (cases r) (auto simp: run)
qed

text \<open>
  Every status a Binance order can report, known or not, is accepted for an order that has
  just been created, and so is everything the simulated adapter reports.
\<close>

theorem fresh_order_accepts_report:
  assumes "current_state ord = ''CREATED''"
    and "xr_states xr = map_status_to_states status \<or>
         xr_states xr = xr_states (sim_submit_order seed idem px sz)"
  shows "\<exists>h. fst (handle_execution_result now j ord xr s) = Inr h"
  using assms(2) by (auto simp: accepted_iff_follows assms(1) reported_states_follow sim_states_follow)

theorem fresh_order_accepts_report_witness:
  "\<exists>h. fst (handle_execution_result 7 sample_job sample_order
     \<lparr>xr_external_order_id = Some ''42'', xr_states = map_status_to_states ''expired'',
      xr_avg_fill_price = None, xr_filled_size = None\<rparr> empty_store) = Inr h"
  by (rule fresh_order_accepts_report [where status = "''expired''"])
    (simp_all add: current_state_def sample_order_def)

text \<open>
  An order that has left \<open>CREATED\<close> (a job that is retried after its order was sent) can
  take no further report of the adapter: the result is always the transition error, the order
  and the job keep their state, no position moves and no metric is recorded. Only the exchange
  id, price and filled size of the new submission overwrite those of the first.
\<close>

theorem resubmission_is_refused:
  assumes "current_state ord \<noteq> ''CREATED''"
    and "xr_states xr = map_status_to_states status"
  shows "handle_execution_result now j ord xr s =
     (let ord0 = ord\<lparr>external_order_id := xr_external_order_id xr,
           avg_fill_price := Some (num_or (xr_avg_fill_price xr) 0),
           filled_size := num_or (xr_filled_size xr) 0\<rparr>
      in (Inl ''invalid_order_state_transition'', j, ord0, save_order ord0 s))"
proof -
  let ?o = "ord\<lparr>external_order_id := xr_external_order_id xr,
           avg_fill_price := Some (num_or (xr_avg_fill_price xr) 0),
           filled_size := num_or (xr_filled_size xr) 0\<rparr>"
  obtain rest where states: "map_status_to_states status = ''SENT'' # rest"
    by (rule map_status_to_states_starts)
  have "''SENT'' \<notin> set (order_successors (current_state ord))"
    using assms(1) sent_only_from_created by blast
  then have "advance_order_state now ''SENT'' None ?o = Inl ''invalid_order_state_transition''"
    by (simp add: advance_order_state_def current_state_def)
  then show ?thesis
    by (simp add: handle_execution_result_def Let_def assms(2) states)
qed

theorem resubmission_is_refused_witness:
  "fst (handle_execution_result 7 sample_job (sample_order\<lparr>order_state := ''SENT''\<rparr>)
     \<lparr>xr_external_order_id = Some ''43'', xr_states = map_status_to_states ''FILLED'',
      xr_avg_fill_price = Some 100, xr_filled_size = Some 2\<rparr> empty_store)
   = Inl ''invalid_order_state_transition''"
  by (subst resubmission_is_refused [where status = "''FILLED''"])
    (simp_all add: current_state_def sample_order_def Let_def)

text \<open>
  A fill is booked exactly once. When a result is accepted, the position of the order's
  user and symbol grows by the filled quantity (the order's size when the exchange reports
  none) if the result contains a fill, and every other position keeps its quantity.
\<close>

theorem fill_booked_once:
  assumes "handle_execution_result now j ord xr s = (Inr h, j', ord', s')"
  shows "position_qty k s' = position_qty k s +
     (if ''FILLED'' \<in> set (xr_states xr) \<and> k = order_user_id ord @ '':'' @ order_symbol ord
      then num_or (Some (num_or (xr_filled_size xr) 0)) (order_size ord) else 0)"
proof (cases rule: handle_execution_result_cases [OF assms])
  case (1 e)
  then show ?thesis by simp
next
  case (2 h' ord0 s1)
  then show ?thesis
    using position_qty_apply_states [OF 2(4), of k] by (simp add: 2(3,5))
qed

theorem fill_booked_once_witness:
  "case handle_execution_result 7 sample_job sample_order
      (sim_submit_order 1 ''k1'' (Some 100) (Some 2)) empty_store of
    (r, j', ord', s') \<Rightarrow> position_qty ''u1:BTCUSDT'' s' = 2"
proof -
  obtain r j' ord' s' where run: "handle_execution_result 7 sample_job sample_order
      (sim_submit_order 1 ''k1'' (Some 100) (Some 2)) empty_store = (r, j', ord', s')"
    by (metis prod_cases4)
  obtain h where "r = Inr h"
    using fresh_order_accepts_report_sim [OF sample_order_created,
        of 7 sample_job 1 "''k1''" "Some 100" "Some 2" empty_store]
    by (auto simp: run)
  from fill_booked_once [OF run [unfolded this], of "''u1:BTCUSDT''"]
  have "position_qty ''u1:BTCUSDT'' s' = 2"
    by (simp add: sim_submit_order_def sample_order_def)
  then show ?thesis by (simp add: run)
qed

end
