(* ===== verification/Runtime_Guards.thy ===== *)
theory Runtime_Guards
  imports Runtime_Store
begin

text \<open>
  The guards in front of the execution engine: the kill switch
  (\<open>src/backend/core/safety/kill_switch.py\<close>), the canary constraints
  (\<open>src/backend/core/safety/canary_mode.py\<close>) and the runtime risk check with its own, global
  kill switch key (\<open>src/backend/core/risk_engine.py\<close>), with the alert triggers of
  \<open>src/backend/core/alerts/runtime_alert_triggers.py\<close> that the engine calls. Thresholds and
  environment variables are read outside the model and come in as records. The expiry of the
  global key after 24 hours is not modelled: it stays until it is cleared.
\<close>

record thresholds =
  failed_orders_window :: int
  failed_orders_threshold :: int
  queue_depth_threshold :: int
  execution_latency_ms_threshold :: int

section \<open>The kill switch\<close>

definition get_kill_switch_state :: "timestamp \<Rightarrow> store \<Rightarrow> kill_payload" where
  "get_kill_switch_state now s =
     (case kill_switch_state s of
        None \<Rightarrow> \<lparr>ks_active = Some False, ks_source = None, ks_reason = None, ks_updated_at = None,
          ks_metadata = []\<rparr>
      | Some KillMalformed \<Rightarrow> \<lparr>ks_active = Some True, ks_source = Some ''unknown'',
          ks_reason = Some ''malformed_state'', ks_updated_at = Some now, ks_metadata = []\<rparr>
      | Some (KillJson p) \<Rightarrow> p\<lparr>ks_active := Some (get_or (ks_active p) True)\<rparr>)"

definition activate_kill_switch ::
  "timestamp \<Rightarrow> string \<Rightarrow> string \<Rightarrow> (string \<times> num) list \<Rightarrow> store \<Rightarrow> kill_payload \<times> store" where
  "activate_kill_switch now source reason metadata s =
     (let payload = \<lparr>ks_active = Some True, ks_source = Some source, ks_reason = Some reason,
            ks_updated_at = Some now, ks_metadata = metadata\<rparr>
      in (payload, s\<lparr>kill_switch_state := Some (KillJson payload)\<rparr>))"

definition deactivate_kill_switch ::
  "timestamp \<Rightarrow> string \<Rightarrow> string \<Rightarrow> store \<Rightarrow> kill_payload \<times> store" where
  "deactivate_kill_switch now source reason s =
     (let payload = \<lparr>ks_active = Some False, ks_source = Some source, ks_reason = Some reason,
            ks_updated_at = Some now, ks_metadata = []\<rparr>
      in (payload, s\<lparr>kill_switch_state := Some (KillJson payload)\<rparr>))"

definition is_kill_switch_active :: "timestamp \<Rightarrow> store \<Rightarrow> bool" where
  "is_kill_switch_active now s = get_or (ks_active (get_kill_switch_state now s)) False"

text \<open>The rows \<open>order_by(created_at.desc()).limit(window)\<close>.\<close>

definition recent_jobs :: "int \<Rightarrow> store \<Rightarrow> job list" where
  "recent_jobs window s = take (nat window) (sort_key (\<lambda>j. - job_created_at j) (jobs s))"

definition failed_count :: "job list \<Rightarrow> int" where
  "failed_count rows = int (length (filter (\<lambda>j. upper (job_state j) = ''FAILED'') rows))"

definition latency_spikes :: "int \<Rightarrow> job list \<Rightarrow> int" where
  "latency_spikes limit rows = int (length (filter (\<lambda>j. limit \<le> int_or (total_ms j) 0) rows))"

text \<open>
  The sum that \<open>evaluate_auto_kill_switch\<close> calls the daily realised total: the query has no
  condition on the time of a trade.
\<close>

definition realized_total :: "store \<Rightarrow> num" where
  "realized_total s = sum_list (map trade_realized_pnl_usd (trades s))"

definition auto_kill_reason :: "thresholds \<Rightarrow> store \<Rightarrow> string option" where
  "auto_kill_reason th s =
     (let rows = recent_jobs (int_or (Some (failed_orders_window th)) 20) s in
      if 6 \<le> failed_count rows then Some ''fail_rate_spike''
      else if 6 \<le> latency_spikes 2000 rows then Some ''latency_spike''
      else if realized_total s \<le> - \<bar>250\<bar> then Some ''daily_loss_limit_breach''
      else None)"

definition evaluate_auto_kill_switch ::
  "timestamp \<Rightarrow> thresholds \<Rightarrow> store \<Rightarrow> kill_payload \<times> store" where
  "evaluate_auto_kill_switch now th s =
     (case auto_kill_reason th s of
        None \<Rightarrow> (get_kill_switch_state now s, s)
      | Some reason \<Rightarrow>
          let rows = recent_jobs (int_or (Some (failed_orders_window th)) 20) s;
              (state, s') = activate_kill_switch now ''auto'' reason
                [(''failed_count'', of_int (failed_count rows)),
                 (''latency_spikes'', of_int (latency_spikes 2000 rows)),
                 (''daily_realized_total'', realized_total s), (''daily_loss_limit'', 250)] s
          in (state, create_system_alert \<lparr>alert_type = ''runtime_kill_switch_activated'',
                alert_severity = ''CRITICAL'', alert_threshold = 0, alert_actual = 0,
                alert_user_id = None, alert_root_cause = Some reason\<rparr> s'))"

section \<open>Alert triggers\<close>

definition threshold_alert :: "string \<Rightarrow> string \<Rightarrow> num \<Rightarrow> num \<Rightarrow> string option \<Rightarrow> string \<Rightarrow> system_alert" where
  "threshold_alert kind severity limit actual user cause =
     \<lparr>alert_type = kind, alert_severity = severity, alert_threshold = limit, alert_actual = actual,
      alert_user_id = user, alert_root_cause = Some cause\<rparr>"

definition check_queue_depth_trigger :: "thresholds \<Rightarrow> store \<Rightarrow> store" where
  "check_queue_depth_trigger th s =
     (let depth = int (length (queue s)) in
      if queue_depth_threshold th \<le> depth
      then create_system_alert (threshold_alert ''runtime_queue_depth_high'' ''WARNING''
             (of_int (queue_depth_threshold th)) (of_int depth) None ''queue_depth_threshold'') s
      else s)"

definition check_failed_orders_trigger :: "thresholds \<Rightarrow> store \<Rightarrow> store" where
  "check_failed_orders_trigger th s =
     (let failed = failed_count (recent_jobs (failed_orders_window th) s) in
      if failed_orders_threshold th \<le> failed
      then create_system_alert (threshold_alert ''runtime_failed_orders_high'' ''CRITICAL''
             (of_int (failed_orders_threshold th)) (of_int failed) None ''failed_orders_threshold'') s
      else s)"

text \<open>Failed jobs whose row changed in the last \<open>window_minutes\<close>.\<close>

definition check_worker_failure_trigger :: "timestamp \<Rightarrow> int \<Rightarrow> int \<Rightarrow> store \<Rightarrow> store" where
  "check_worker_failure_trigger now limit window_minutes s =
     (let since = now - window_minutes * 60 * 1000;
          failed = int (length (filter (\<lambda>j. job_state j = ''FAILED'' \<and> since \<le> job_updated_at j) (jobs s)))
      in if limit \<le> failed
         then create_system_alert (threshold_alert ''runtime_worker_failures_high'' ''CRITICAL''
                (of_int limit) (of_int failed) None ''worker_failure_threshold'') s
         else s)"

definition check_daily_loss_trigger :: "string \<Rightarrow> num \<Rightarrow> num \<Rightarrow> store \<Rightarrow> store" where
  "check_daily_loss_trigger user loss limit s =
     (if \<bar>limit\<bar> \<le> \<bar>loss\<bar>
      then create_system_alert (threshold_alert ''runtime_daily_loss_limit'' ''CRITICAL''
             \<bar>limit\<bar> \<bar>loss\<bar> (Some user) ''daily_loss_threshold'') s
      else s)"

section \<open>The runtime risk check\<close>

definition DEFAULT_RUNTIME_LIMITS :: "(string \<times> num) list" where
  "DEFAULT_RUNTIME_LIMITS =
     [(''max_position_pct'', 10), (''max_daily_loss_usd'', 250), (''leverage_cap'', 3),
      (''per_user_notional_cap'', 5000), (''kill_switch_drawdown_threshold_usd'', 250)]"

text \<open>\<open>cfg = {**DEFAULT_RUNTIME_LIMITS, **(limits or {})}\<close>, read at a key of the defaults.\<close>

definition limit_of :: "(string \<times> num) list \<Rightarrow> string \<Rightarrow> num" where
  "limit_of limits k = get_or (map_of limits k) (get_or (map_of DEFAULT_RUNTIME_LIMITS k) 0)"

definition is_global_kill_active :: "store \<Rightarrow> bool" where
  "is_global_kill_active s = (str_or (kill_switch_global s) [] \<noteq> [])"

definition block_all_trades :: "string \<Rightarrow> store \<Rightarrow> store" where
  "block_all_trades reason s = s\<lparr>kill_switch_global := Some reason\<rparr>"

definition clear_kill_switch :: "store \<Rightarrow> store" where
  "clear_kill_switch s = s\<lparr>kill_switch_global := None\<rparr>"

definition open_notional :: "string \<Rightarrow> store \<Rightarrow> num" where
  "open_notional user s =
     (\<Sum>p \<leftarrow> filter (\<lambda>p. pos_user_id p = user \<and> pos_status p = ''open'') (positions s).
        case pos_current_price p of None \<Rightarrow> 0 | Some c \<Rightarrow> \<bar>pos_size p * c\<bar>)"

definition day_ms :: timestamp where
  "day_ms = 24 * 60 * 60 * 1000"

definition daily_realized_pnl :: "timestamp \<Rightarrow> string \<Rightarrow> store \<Rightarrow> num" where
  "daily_realized_pnl now user s =
     (\<Sum>t \<leftarrow> filter (\<lambda>t. trade_user_id t = user \<and> now - day_ms \<le> trade_time t) (trades s).
        trade_realized_pnl_usd t)"

record risk_request =
  rq_user_id :: string
  rq_symbol :: string
  rq_side :: string
  rq_size :: num
  rq_leverage :: int
  rq_mark_price :: num

record risk_decision =
  rd_allowed :: bool
  rd_reject_reason :: "string option"
  rd_reject_reasons :: "string list"
  rd_proposed_notional :: num
  rd_open_notional :: num
  rd_daily_realized_pnl :: num
  rd_leverage :: int

definition proposed_notional :: "risk_request \<Rightarrow> num" where
  "proposed_notional rq = max 0 (rq_size rq * max (rq_mark_price rq) 0)"

definition loss_limit_hit :: "timestamp \<Rightarrow> (string \<times> num) list \<Rightarrow> string \<Rightarrow> store \<Rightarrow> bool" where
  "loss_limit_hit now limits user s \<longleftrightarrow>
     daily_realized_pnl now user s \<le> - \<bar>limit_of limits ''max_daily_loss_usd''\<bar>"

definition drawdown_hit :: "timestamp \<Rightarrow> (string \<times> num) list \<Rightarrow> string \<Rightarrow> store \<Rightarrow> bool" where
  "drawdown_hit now limits user s \<longleftrightarrow>
     loss_limit_hit now limits user s \<and>
     \<bar>limit_of limits ''kill_switch_drawdown_threshold_usd''\<bar> < \<bar>daily_realized_pnl now user s\<bar>"

definition risk_reasons :: "timestamp \<Rightarrow> (string \<times> num) list \<Rightarrow> risk_request \<Rightarrow> store \<Rightarrow> string list" where
  "risk_reasons now limits rq s =
     (let cap = limit_of limits ''per_user_notional_cap'';
          proposed = proposed_notional rq;
          max_position_notional = cap * (limit_of limits ''max_position_pct'' / 100)
      in collect
        [(is_global_kill_active s, ''kill_switch_active''),
         (max_position_notional < proposed, ''max_position_pct_exceeded''),
         (py_int (limit_of limits ''leverage_cap'') < rq_leverage rq, ''leverage_cap_exceeded''),
         (cap < open_notional (rq_user_id rq) s + proposed, ''per_user_notional_cap_exceeded''),
         (loss_limit_hit now limits (rq_user_id rq) s, ''max_daily_loss_exceeded''),
         (drawdown_hit now limits (rq_user_id rq) s, ''kill_switch_triggered'')])"

definition evaluate_risk ::
  "timestamp \<Rightarrow> (string \<times> num) list \<Rightarrow> risk_request \<Rightarrow> store \<Rightarrow> risk_decision \<times> store" where
  "evaluate_risk now limits rq s =
     (let user = rq_user_id rq;
          reasons = risk_reasons now limits rq s;
          pnl = daily_realized_pnl now user s;
          s1 = (if loss_limit_hit now limits user s
                then check_daily_loss_trigger user \<bar>pnl\<bar> \<bar>limit_of limits ''max_daily_loss_usd''\<bar> s
                else s);
          s2 = (if drawdown_hit now limits user s
                then block_all_trades ''daily_drawdown_threshold_breached'' s1 else s1);
          allowed = (reasons = []);
          decision = \<lparr>rd_allowed = allowed,
            rd_reject_reason = (case reasons of [] \<Rightarrow> None | r # _ \<Rightarrow> Some r),
            rd_reject_reasons = reasons,
            rd_proposed_notional = py_round 8 (proposed_notional rq),
            rd_open_notional = py_round 8 (open_notional user s),
            rd_daily_realized_pnl = py_round 8 pnl, rd_leverage = rq_leverage rq\<rparr>
      in (decision,
          if allowed then s2
          else create_audit_log ''runtime_risk_reject''
                 (user @ '':'' @ rq_symbol rq @ '':'' @ rq_side rq) user ''warning'' s2))"

section \<open>Canary constraints\<close>

record canary_env =
  CANARY_MODE :: "string option"
  CANARY_MAX_NOTIONAL :: "num option"
  CANARY_ALLOWED_STRATEGIES :: "string option"
  CANARY_ALLOWED_USER_IDS :: "string option"

record canary_decision =
  cd_allowed :: bool
  cd_mode :: string
  cd_reject_reason :: "string option"
  cd_max_notional :: "num option"
  cd_actual_notional :: "num option"

text \<open>\<open>s.split(sep)\<close> for a separator of one character.\<close>

fun split_on :: "char \<Rightarrow> string \<Rightarrow> string list" where
  "split_on sep [] = [[]]"
| "split_on sep (c # cs) =
     (if c = sep then [] # split_on sep cs
      else case split_on sep cs of [] \<Rightarrow> [[c]] | w # ws \<Rightarrow> (c # w) # ws)"

definition comma_items :: "string \<Rightarrow> string list" where
  "comma_items s = filter (\<lambda>w. w \<noteq> []) (map strip (split_on (CHR '','') s))"

definition is_true :: "string option \<Rightarrow> bool" where
  "is_true v = (lower (strip (str_or v ''false'')) = ''true'')"

text \<open>
  \<open>role\<close> is the role of the user's row, if there is such a row.
\<close>

definition canary_user_allowed :: "canary_env \<Rightarrow> string option \<Rightarrow> string \<Rightarrow> bool" where
  "canary_user_allowed env role user =
     (let ids = comma_items (str_or (CANARY_ALLOWED_USER_IDS env) [])
      in if ids \<noteq> [] then user \<in> set ids
         else (case role of None \<Rightarrow> False | Some r \<Rightarrow> r \<in> set [''super_admin'', ''admin'', ''ops'']))"

definition evaluate_canary_constraints ::
  "canary_env \<Rightarrow> string option \<Rightarrow> string \<Rightarrow> string \<Rightarrow> num \<Rightarrow> num \<Rightarrow> store \<Rightarrow> canary_decision \<times> store" where
  "evaluate_canary_constraints env role user strategy size0 mark_price s =
     (if \<not> is_true (CANARY_MODE env)
      then (\<lparr>cd_allowed = True, cd_mode = ''disabled'', cd_reject_reason = None,
             cd_max_notional = None, cd_actual_notional = None\<rparr>, s)
      else
        let max_notional = num_or (CANARY_MAX_NOTIONAL env) 100;
            strategies = comma_items (str_or (CANARY_ALLOWED_STRATEGIES env) ''ema_rsi'');
            notional = size0 * mark_price;
            rejected = (\<lambda>reason. \<lparr>cd_allowed = False, cd_mode = ''enabled'',
              cd_reject_reason = Some reason, cd_max_notional = None, cd_actual_notional = None\<rparr>);
            audited = create_audit_log ''canary_reject'' (user @ '':'' @ strategy) user ''warning'' s
        in if \<not> canary_user_allowed env role user then (rejected ''canary_user_not_allowed'', audited)
           else if strategy \<notin> set strategies then (rejected ''canary_strategy_not_allowed'', s)
           else if max_notional < notional then (rejected ''canary_max_notional_exceeded'', audited)
           else (\<lparr>cd_allowed = True, cd_mode = ''enabled'', cd_reject_reason = None,
                  cd_max_notional = Some max_notional, cd_actual_notional = Some (py_round 8 notional)\<rparr>, s))"

section \<open>Lemmas\<close>

lemma kill_switch_frame [simp]:
  "kill_switch_state (create_audit_log a b c d s) = kill_switch_state s"
  "kill_switch_global (create_audit_log a b c d s) = kill_switch_global s"
  "kill_switch_state (create_system_alert al s) = kill_switch_state s"
  "kill_switch_global (create_system_alert al s) = kill_switch_global s"
  "kill_switch_global (block_all_trades r s) = Some r"
  "kill_switch_state (block_all_trades r s) = kill_switch_state s"
  by (simp_all add: create_audit_log_def create_system_alert_def block_all_trades_def)

lemma active_after_activate: "is_kill_switch_active t (snd (activate_kill_switch now src r md s))"
  by (simp add: is_kill_switch_active_def get_kill_switch_state_def activate_kill_switch_def Let_def)

lemma inactive_after_deactivate: "\<not> is_kill_switch_active t (snd (deactivate_kill_switch now src r s))"
  by (simp add: is_kill_switch_active_def get_kill_switch_state_def deactivate_kill_switch_def Let_def)

lemma auto_kill_store:
  "snd (evaluate_auto_kill_switch now th s) =
     (case auto_kill_reason th s of None \<Rightarrow> s
      | Some reason \<Rightarrow> create_system_alert \<lparr>alert_type = ''runtime_kill_switch_activated'',
                alert_severity = ''CRITICAL'', alert_threshold = 0, alert_actual = 0,
                alert_user_id = None, alert_root_cause = Some reason\<rparr>
          (snd (activate_kill_switch now ''auto'' reason
                [(''failed_count'', of_int (failed_count (recent_jobs (int_or (Some (failed_orders_window th)) 20) s))),
                 (''latency_spikes'', of_int (latency_spikes 2000 (recent_jobs (int_or (Some (failed_orders_window th)) 20) s))),
                 (''daily_realized_total'', realized_total s), (''daily_loss_limit'', 250)] s)))"
  by (simp add: evaluate_auto_kill_switch_def Let_def activate_kill_switch_def split: option.splits)

lemma is_active_create_alert [simp]:
  "is_kill_switch_active t (create_system_alert al s) = is_kill_switch_active t s"
  by (simp add: is_kill_switch_active_def get_kill_switch_state_def)

lemma evaluate_risk_allowed_iff:
  "rd_allowed (fst (evaluate_risk now limits rq s)) \<longleftrightarrow> risk_reasons now limits rq s = []"
  by (simp add: evaluate_risk_def Let_def)

lemma risk_reasons_empty_iff:
  "risk_reasons now limits rq s = [] \<longleftrightarrow>
     \<not> is_global_kill_active s \<and>
     proposed_notional rq \<le> limit_of limits ''per_user_notional_cap'' * (limit_of limits ''max_position_pct'' / 100) \<and>
     rq_leverage rq \<le> py_int (limit_of limits ''leverage_cap'') \<and>
     open_notional (rq_user_id rq) s + proposed_notional rq \<le> limit_of limits ''per_user_notional_cap'' \<and>
     \<not> loss_limit_hit now limits (rq_user_id rq) s"
  by (auto simp: risk_reasons_def Let_def drawdown_hit_def not_less)

lemma evaluate_risk_global_kill:
  "is_global_kill_active s \<Longrightarrow> is_global_kill_active (snd (evaluate_risk now limits rq s))"
  by (simp add: evaluate_risk_def Let_def is_global_kill_active_def check_daily_loss_trigger_def)

lemma evaluate_risk_frame:
  "jobs (snd (evaluate_risk now limits rq s)) = jobs s"
  "queue (snd (evaluate_risk now limits rq s)) = queue s"
  "orders (snd (evaluate_risk now limits rq s)) = orders s"
  "positions (snd (evaluate_risk now limits rq s)) = positions s"
  by (simp_all add: evaluate_risk_def Let_def check_daily_loss_trigger_def create_audit_log_def
      create_system_alert_def block_all_trades_def)

lemma evaluate_canary_frame:
  "jobs (snd (evaluate_canary_constraints env role user strat sz px s)) = jobs s"
  "queue (snd (evaluate_canary_constraints env role user strat sz px s)) = queue s"
  "kill_switch_global (snd (evaluate_canary_constraints env role user strat sz px s)) = kill_switch_global s"
  by (simp_all add: evaluate_canary_constraints_def Let_def create_audit_log_def)

section \<open>Properties\<close>

text \<open>
  The runtime risk check allows an order exactly when the global kill switch is off, the
  proposed notional is within the user's position share and, with the notional already open,
  within the user's cap, the leverage is within its cap, and the realised loss of the last
  24 hours is above the limit; and when it allows the order it writes nothing.
\<close>

theorem risk_allows_exactly:
  "rd_allowed (fst (evaluate_risk now limits rq s)) =
     (\<not> is_global_kill_active s \<and>
      proposed_notional rq \<le> limit_of limits ''per_user_notional_cap'' * (limit_of limits ''max_position_pct'' / 100) \<and>
      rq_leverage rq \<le> py_int (limit_of limits ''leverage_cap'') \<and>
      open_notional (rq_user_id rq) s + proposed_notional rq \<le> limit_of limits ''per_user_notional_cap'' \<and>
      \<not> loss_limit_hit now limits (rq_user_id rq) s)
   \<and> \<not> (rd_allowed (fst (evaluate_risk now limits rq s)) \<and> snd (evaluate_risk now limits rq s) \<noteq> s)"
proof -
  have "snd (evaluate_risk now limits rq s) = s" if "risk_reasons now limits rq s = []"
  proof -
    have "\<not> loss_limit_hit now limits (rq_user_id rq) s" using that risk_reasons_empty_iff by blast
    with that show ?thesis by (simp add: evaluate_risk_def Let_def drawdown_hit_def)
  qed
  then have "\<not> (rd_allowed (fst (evaluate_risk now limits rq s)) \<and> snd (evaluate_risk now limits rq s) \<noteq> s)"
    by (auto simp: evaluate_risk_allowed_iff)
  then show ?thesis unfolding evaluate_risk_allowed_iff risk_reasons_empty_iff by blast
qed

text \<open>
  A user whose loss of the day passes the drawdown threshold stops everybody: after the check
  that saw it, every check of any user, with any limits, is rejected, and its first reason is the
  active kill switch.
\<close>

theorem drawdown_stops_all_users:
  assumes "drawdown_hit now limits (rq_user_id rq) s"
  shows "rd_reject_reason (fst (evaluate_risk now' limits' rq' (snd (evaluate_risk now limits rq s))))
           = Some ''kill_switch_active''
         \<and> \<not> rd_allowed (fst (evaluate_risk now' limits' rq' (snd (evaluate_risk now limits rq s))))"
proof -
  let ?t = "snd (evaluate_risk now limits rq s)"
  have "is_global_kill_active ?t"
    using assms by (simp add: evaluate_risk_def Let_def is_global_kill_active_def)
  then have "\<exists>rs. risk_reasons now' limits' rq' ?t = ''kill_switch_active'' # rs"
    by (simp add: risk_reasons_def Let_def)
  then show ?thesis by (auto simp: evaluate_risk_def Let_def)
qed

theorem drawdown_stops_all_users_witness:
  "let s = empty_store\<lparr>trades := [\<lparr>trade_user_id = ''u1'', trade_realized_pnl_usd = - 300, trade_time = 0\<rparr>]\<rparr>;
       rq = \<lparr>rq_user_id = ''u1'', rq_symbol = ''BTCUSDT'', rq_side = ''BUY'', rq_size = 1,
             rq_leverage = 1, rq_mark_price = 1\<rparr>
   in rd_reject_reason (fst (evaluate_risk 9 [] (rq\<lparr>rq_user_id := ''u2''\<rparr>) (snd (evaluate_risk 5 [] rq s))))
        = Some ''kill_switch_active''"
proof -
  have "drawdown_hit 5 [] ''u1''
      (empty_store\<lparr>trades := [\<lparr>trade_user_id = ''u1'', trade_realized_pnl_usd = - 300, trade_time = 0\<rparr>]\<rparr>)"
    by (simp add: drawdown_hit_def loss_limit_hit_def daily_realized_pnl_def limit_of_def
        DEFAULT_RUNTIME_LIMITS_def day_ms_def)
  then show ?thesis
    unfolding Let_def by (intro drawdown_stops_all_users [THEN conjunct1]) simp
qed

text \<open>
  The kill switch fails safe. A state that cannot be parsed, or that does not say whether the
  switch is on, counts as on; only an absent state or one that says it is off counts as off. The
  automatic evaluation never turns a switch off, and it turns it on whenever it finds a reason.
\<close>

theorem kill_switch_fails_safe:
  "(is_kill_switch_active now s \<longleftrightarrow>
      (case kill_switch_state s of None \<Rightarrow> False | Some KillMalformed \<Rightarrow> True
       | Some (KillJson p) \<Rightarrow> ks_active p \<noteq> Some False))
   \<and> is_kill_switch_active now (snd (evaluate_auto_kill_switch now th s))
       = (if auto_kill_reason th s = None then is_kill_switch_active now s else True)"
proof
  show "is_kill_switch_active now s \<longleftrightarrow>
      (case kill_switch_state s of None \<Rightarrow> False | Some KillMalformed \<Rightarrow> True
       | Some (KillJson p) \<Rightarrow> ks_active p \<noteq> Some False)"
    by (auto simp: is_kill_switch_active_def get_kill_switch_state_def get_or_def
        split: option.splits kill_value.splits)
  show "is_kill_switch_active now (snd (evaluate_auto_kill_switch now th s))
       = (if auto_kill_reason th s = None then is_kill_switch_active now s else True)"
    by (auto simp: auto_kill_store active_after_activate split: option.splits)
qed

text \<open>
  The loss test of the automatic kill switch looks at every trade ever recorded, not at those
  of the day: moving a trade in time never changes its reason.
\<close>

theorem auto_kill_ignores_trade_time:
  "auto_kill_reason th (s\<lparr>trades := map (\<lambda>t. t\<lparr>trade_time := f t\<rparr>) (trades s)\<rparr>) = auto_kill_reason th s"
  by (simp add: auto_kill_reason_def Let_def recent_jobs_def realized_total_def comp_def)

end
