(* ===== verification/Execution_Engine.thy ===== *)
theory Execution_Engine
  imports Order_Lifecycle Runtime_Guards
begin

text \<open>
  The execution engine of \<open>src/backend/core/execution_engine.py\<close>: a signal is checked, stored
  as a job and put on the queue (\<open>submit_signal\<close>, \<open>enqueue_execution\<close>); the worker takes the
  head of the queue and executes it (\<open>consume_execution_queue_once\<close>, \<open>execute_queued_job\<close>),
  with retries and an exponential back-off when an attempt raises.

  What the engine gets from outside is an argument: the clock and the measured duration of the
  call to the exchange, the identifiers that \<open>uuid4\<close> draws, the result of
  \<open>validate_order_precheck\<close>, the role of the user and the exchange adapter, which answers with
  a value or raises.
\<close>

section \<open>What comes from outside\<close>

record run_env =
  env_now :: timestamp
  env_now_iso :: string
  env_thresholds :: thresholds
  env_canary :: canary_env
  env_role :: "string \<Rightarrow> string option"
  env_execution_ms :: int

record signal =
  sig_symbol :: "string option"
  sig_side :: "string option"
  sig_size :: "num option"
  sig_strategy_name :: "string option"
  sig_mark_price :: "num option"
  sig_leverage :: "int option"
  sig_confidence :: "num option"
  sig_timestamp :: "string option"

record precheck =
  pc_valid :: bool
  pc_adjusted_size :: "num option"
  pc_guard_venue :: "string option"
  pc_guard_expected_slippage_bps :: "num option"

record order_request =
  req_job_id :: string
  req_idempotency_key :: string
  req_symbol :: string
  req_side :: string
  req_size :: num
  req_strategy_name :: string
  req_mark_price :: num
  req_order_type :: string
  req_limit_price :: "num option"

record adapter =
  available_balance :: "string + num option"
  submit_order :: "order_request \<Rightarrow> string + exchange_result"

text \<open>
  \<open>get_execution_adapter\<close>: it raises unless the environment says \<open>live\<close> and is not frozen.
\<close>

definition get_execution_adapter ::
  "string option \<Rightarrow> string option \<Rightarrow> string option \<Rightarrow> adapter \<Rightarrow> string + adapter" where
  "get_execution_adapter execution_mode prod_freeze env_lock binance =
     (let lock = lower (strip (str_or env_lock [])) in
      if lower (strip (str_or execution_mode ''live'')) \<noteq> ''live'' then Inl ''live_only_mode_enforced''
      else if lock \<noteq> [] \<and> lock \<noteq> ''live'' then Inl ''environment_lock_blocked''
      else if is_true prod_freeze then Inl ''prod_freeze_active''
      else Inr binance)"

section \<open>Submitting a signal\<close>

definition build_idempotency_key ::
  "string \<Rightarrow> string \<Rightarrow> string \<Rightarrow> string \<Rightarrow> string option \<Rightarrow> string \<Rightarrow> string" where
  "build_idempotency_key user symbol side strategy source_timestamp now_iso =
     user @ '':'' @ upper symbol @ '':'' @ upper side @ '':'' @ strategy @ '':''
       @ str_or source_timestamp now_iso"

definition run_risk_checks ::
  "timestamp \<Rightarrow> signal \<Rightarrow> string \<Rightarrow> (string \<times> num) list \<Rightarrow> store \<Rightarrow> risk_decision \<times> store" where
  "run_risk_checks now sg user limits s =
     evaluate_risk now limits
       \<lparr>rq_user_id = user, rq_symbol = str_or (sig_symbol sg) ''UNKNOWN'',
        rq_side = str_or (sig_side sg) ''BUY'', rq_size = num_or (sig_size sg) 0,
        rq_leverage = int_or (sig_leverage sg) 1, rq_mark_price = num_or (sig_mark_price sg) 1\<rparr> s"

definition enqueue_execution :: "timestamp \<Rightarrow> thresholds \<Rightarrow> job \<Rightarrow> store \<Rightarrow> queue_payload \<times> store" where
  "enqueue_execution now th j s =
     (let payload = \<lparr>qp_job_id = job_id j, qp_idempotency_key = idempotency_key j,
            qp_user_id = job_user_id j, qp_symbol = job_symbol j, qp_side = job_side j,
            qp_size = job_size j, qp_strategy_name = job_strategy_name j,
            qp_created_at = job_created_at j, qp_enqueued_at = Some now,
            qp_retry_count = retry_count j, qp_retry_at_ts = None\<rparr>;
          s1 = s\<lparr>queue := queue s @ [payload]\<rparr>;
          s2 = save_job (j\<lparr>job_queue_payload := Some payload, job_updated_at := now\<rparr>) s1
      in (payload, check_queue_depth_trigger th s2))"

record submit_result =
  sr_status :: string
  sr_job_id :: "string option"
  sr_idempotency_key :: "string option"
  sr_state :: string
  sr_reject_reason :: "string option"

definition new_job ::
  "timestamp \<Rightarrow> string \<Rightarrow> string \<Rightarrow> string \<Rightarrow> string \<Rightarrow> string \<Rightarrow> num \<Rightarrow> string \<Rightarrow> signal \<Rightarrow> precheck \<Rightarrow> job" where
  "new_job now fresh key user symbol side size0 strategy sg pc =
     \<lparr>job_id = fresh, idempotency_key = key, job_user_id = user, job_symbol = symbol,
      job_side = side, job_size = size0, job_strategy_name = strategy, job_state = ''CREATED'',
      job_reject_reason = None, job_fail_reason = None, last_error = None, retry_count = 0,
      max_retry = 3, job_queue_payload = None,
      meta_payload = \<lparr>meta_confidence = num_or (sig_confidence sg) 0,
        meta_mark_price = Some (num_or (sig_mark_price sg) 1),
        meta_leverage = Some (int_or (sig_leverage sg) 1),
        meta_requested_size = num_or (sig_size sg) size0,
        meta_order_type = None, meta_limit_price = None, meta_guard_venue = pc_guard_venue pc,
        meta_guard_expected_slippage_bps = pc_guard_expected_slippage_bps pc\<rparr>,
      queue_wait_ms = None, execution_ms = None, total_ms = None, failure_class = None,
      job_created_at = now, job_sent_at = None, job_filled_at = None, job_failed_at = None,
      job_last_transition_at = now, job_updated_at = now\<rparr>"

definition fail_job :: "timestamp \<Rightarrow> string option \<Rightarrow> job \<Rightarrow> job" where
  "fail_job now reason j = j\<lparr>job_state := ''FAILED'', job_reject_reason := reason,
     job_failed_at := Some now, job_last_transition_at := now, job_updated_at := now\<rparr>"

definition job_event ::
  "string \<Rightarrow> string \<Rightarrow> string option \<Rightarrow> string option \<Rightarrow> job \<Rightarrow> timeline_event" where
  "job_event severity st previous reason j =
     \<lparr>ev_severity = severity, ev_order_id = None, ev_user_id = job_user_id j,
      ev_symbol = job_symbol j, ev_side = job_side j, ev_state = st, ev_previous_state = previous,
      ev_filled_qty = 0, ev_remaining_qty = job_size j, ev_reject_reason = reason,
      ev_fail_reason = None\<rparr>"

text \<open>The part of \<open>submit_signal\<close> after the new job row is added.\<close>

definition admit_job ::
  "run_env \<Rightarrow> (string \<times> num) list \<Rightarrow> signal \<Rightarrow> job \<Rightarrow> store \<Rightarrow> submit_result \<times> store" where
  "admit_job env limits sg j s =
     (let now = env_now env;
          result = (\<lambda>status st reason. \<lparr>sr_status = status, sr_job_id = Some (job_id j),
            sr_idempotency_key = Some (idempotency_key j), sr_state = st, sr_reject_reason = reason\<rparr>);
          (canary, s1) = evaluate_canary_constraints (env_canary env) (env_role env (job_user_id j))
            (job_user_id j) (job_strategy_name j) (job_size j) (num_or (sig_mark_price sg) 1) s
      in if \<not> cd_allowed canary
         then (result ''rejected'' ''FAILED'' (cd_reject_reason canary),
               save_job (fail_job now (cd_reject_reason canary) j) s1)
         else
           let (risk, s2) = run_risk_checks now sg (job_user_id j) limits s1
           in if \<not> rd_allowed risk
              then let failed = fail_job now (rd_reject_reason risk) j;
                       s3 = create_audit_log ''execution_signal_rejected'' (job_id j) (job_user_id j)
                         ''warning'' (save_job failed s2);
                       s4 = emit_timeline_event (job_event ''CRITICAL'' ''FAILED'' (Some ''CREATED'')
                         (rd_reject_reason risk) failed) s3
                   in (result ''rejected'' ''FAILED'' (rd_reject_reason risk), s4)
              else let s3 = emit_timeline_event (job_event ''INFO'' ''CREATED'' None None j) s2;
                       (payload, s4) = enqueue_execution now (env_thresholds env) j s3;
                       (_, s5) = evaluate_auto_kill_switch now (env_thresholds env) s4
                   in (result ''enqueued'' ''CREATED'' None,
                       create_audit_log ''execution_signal_enqueued'' (job_id j) (job_user_id j) ''info'' s5))"

definition submit_signal ::
  "run_env \<Rightarrow> precheck \<Rightarrow> string \<Rightarrow> string \<Rightarrow> signal \<Rightarrow> string option \<Rightarrow> (string \<times> num) list \<Rightarrow> store
     \<Rightarrow> (string + submit_result) \<times> store" where
  "submit_signal env pc fresh user sg0 key limits s =
     (let now = env_now env;
          symbol = upper (str_or (sig_symbol sg0) []);
          side = upper (str_or (sig_side sg0) ''BUY'');
          size0 = num_or (sig_size sg0) 0;
          strategy = str_or (sig_strategy_name sg0) ''runtime_strategy'';
          entity = str_or key (user @ '':'' @ symbol)
      in if symbol = [] \<or> side \<notin> set [''BUY'', ''SELL''] \<or> size0 \<le> 0
         then (Inl ''invalid_signal_payload'', s)
         else
           let s1 = (if is_kill_switch_active now s
                     then create_audit_log ''runtime_execution_kill_switch_advisory'' entity user ''warning'' s
                     else s)
           in if \<not> pc_valid pc
              then (Inr \<lparr>sr_status = ''rejected'', sr_job_id = None, sr_idempotency_key = None,
                         sr_state = ''FAILED'', sr_reject_reason = Some ''precheck_failed''\<rparr>, s1)
              else
                let adjusted = num_or (pc_adjusted_size pc) size0;
                    shrink = (0 < adjusted \<and> adjusted < size0);
                    size1 = (if shrink then adjusted else size0);
                    sg = (if shrink then sg0\<lparr>sig_size := Some adjusted\<rparr> else sg0);
                    s2 = (if shrink
                          then create_audit_log ''runtime_execution_microstructure_adjusted'' entity user ''warning'' s1
                          else s1);
                    idem_key = str_or key (build_idempotency_key user symbol side strategy
                                 (sig_timestamp sg) (env_now_iso env))
                in case find_row idempotency_key idem_key (jobs s2) of
                     Some existing \<Rightarrow>
                       (Inr \<lparr>sr_status = ''duplicate'', sr_job_id = Some (job_id existing),
                          sr_idempotency_key = Some idem_key, sr_state = job_state existing,
                          sr_reject_reason = None\<rparr>, s2)
                   | None \<Rightarrow>
                       let j = new_job now fresh idem_key user symbol side size1 strategy sg pc;
                           (r, s3) = admit_job env limits sg j (s2\<lparr>jobs := jobs s2 @ [j]\<rparr>)
                       in (Inr r, s3))"

end
