(* ===== verification/Execution_Worker.thy ===== *)
theory Execution_Worker
  imports Execution_Engine
begin

text \<open>
  The worker side of \<open>src/backend/core/execution_engine.py\<close>: \<open>execute_queued_job\<close> with the
  order it creates, the attempt on the exchange and the handler of its exceptions (retry,
  back-off, alerts), and \<open>consume_execution_queue_once\<close>, which takes the head of the queue.
  The exception handler of the code is a branch of its own: every error of the attempt reaches
  it as a message, and what the attempt has changed before stays.
\<close>

section \<open>Operations\<close>

text \<open>\<open>_create_or_get_order\<close>: the identifier of a new order is drawn outside.\<close>

definition create_or_get_order :: "timestamp \<Rightarrow> string \<Rightarrow> job \<Rightarrow> store \<Rightarrow> order \<times> store" where
  "create_or_get_order now fresh j s =
     (case find_row order_job_id (job_id j) (orders s) of
        Some ord \<Rightarrow> (ord, s)
      | None \<Rightarrow>
          let ord = \<lparr>order_id = fresh, order_job_id = job_id j, order_user_id = job_user_id j,
                order_symbol = job_symbol j, order_side = job_side j, order_size = job_size j,
                order_state = ''CREATED'', external_order_id = None, avg_fill_price = None,
                filled_size = 0, order_reject_reason = None, order_fail_reason = None,
                order_sent_at = None, order_partial_filled_at = None, order_filled_at = None,
                order_failed_at = None, order_canceled_at = None, order_last_transition_at = now\<rparr>
          in (ord, s\<lparr>orders := orders s @ [ord]\<rparr>))"

definition required_margin :: "job \<Rightarrow> num" where
  "required_margin j =
     job_size j * num_or (meta_mark_price (meta_payload j)) 1
       / of_int (max (int_or (meta_leverage (meta_payload j)) 1) 1)"

definition request_of :: "job \<Rightarrow> order_request" where
  "request_of j =
     \<lparr>req_job_id = job_id j, req_idempotency_key = idempotency_key j, req_symbol = job_symbol j,
      req_side = job_side j, req_size = job_size j, req_strategy_name = job_strategy_name j,
      req_mark_price = num_or (meta_mark_price (meta_payload j)) 1,
      req_order_type = str_or (meta_order_type (meta_payload j)) ''MARKET'',
      req_limit_price = meta_limit_price (meta_payload j)\<rparr>"

definition check_latency :: "thresholds \<Rightarrow> int \<Rightarrow> job \<Rightarrow> store \<Rightarrow> store" where
  "check_latency th elapsed j s =
     (let limit = int_or (Some (execution_latency_ms_threshold th)) 1200 in
      if limit \<le> elapsed
      then create_system_alert (threshold_alert ''runtime_execution_latency_high'' ''WARNING''
             (of_int limit) (of_int elapsed) (Some (job_user_id j)) ''execution_latency_threshold'') s
      else s)"

text \<open>The body of the \<open>try\<close> up to \<open>handle_execution_result\<close>.\<close>

definition attempt_execution ::
  "run_env \<Rightarrow> adapter \<Rightarrow> int option \<Rightarrow> job \<Rightarrow> order \<Rightarrow> store \<Rightarrow> (string + handled) \<times> job \<times> order \<times> store" where
  "attempt_execution env ad wait j ord s =
     (case available_balance ad of
        Inl e \<Rightarrow> (Inl e, j, ord, s)
      | Inr balance \<Rightarrow>
          if num_or balance 0 < required_margin j
          then (Inl ''insufficient_balance'', j, ord, s)
          else case submit_order ad (request_of j) of
                 Inl e \<Rightarrow> (Inl e, j, ord, s)
               | Inr xr \<Rightarrow>
                   let elapsed = int_or wait 0 + env_execution_ms env;
                       j1 = j\<lparr>execution_ms := Some (env_execution_ms env), total_ms := Some elapsed,
                              failure_class := None, job_updated_at := env_now env\<rparr>
                   in handle_execution_result (env_now env) j1 ord xr
                        (check_latency (env_thresholds env) elapsed j1 (save_job j1 s)))"

definition classify_failure :: "string \<Rightarrow> string" where
  "classify_failure lowered =
     (if contains ''insufficient_balance'' lowered then ''insufficient_balance''
      else if contains ''network'' lowered then ''network_error''
      else if contains ''timeout'' lowered then ''timeout''
      else if contains ''guard'' lowered then ''adapter_guard''
      else if contains ''reject'' lowered then ''exchange_reject''
      else ''unknown'')"

definition auth_markers :: "string list" where
  "auth_markers = [''invalid api-key'', ''invalid api key'', ''signature'', ''-2015'',
     ''x-proxy-token'', ''proxy token'', ''permission'', ''unauthorized'']"

definition backoff_ms :: "int \<Rightarrow> int" where
  "backoff_ms retries = min 8000 (1000 * 2 ^ nat (max 0 (retries - 1)))"

text \<open>The job as the exception handler leaves it.\<close>

definition failed_attempt :: "run_env \<Rightarrow> string \<Rightarrow> int option \<Rightarrow> job \<Rightarrow> job" where
  "failed_attempt env msg wait j =
     (let retries = retry_count j + 1;
          j1 = j\<lparr>execution_ms := Some (env_execution_ms env),
                 total_ms := Some (int_or wait 0 + env_execution_ms env),
                 retry_count := retries, last_error := Some (take 250 msg),
                 job_fail_reason := Some (take 250 msg),
                 failure_class := Some (classify_failure (lower msg)),
                 job_last_transition_at := env_now env, job_updated_at := env_now env\<rparr>
      in if max_retry j \<le> retries
         then j1\<lparr>job_state := ''FAILED'', job_failed_at := Some (env_now env)\<rparr> else j1)"

definition is_failed :: "job \<Rightarrow> bool" where
  "is_failed j \<longleftrightarrow> upper (job_state j) = ''FAILED''"

definition check_auth_reject :: "string \<Rightarrow> job \<Rightarrow> store \<Rightarrow> store" where
  "check_auth_reject lowered j s =
     (if failure_class j = Some ''exchange_reject'' \<and> list_ex (\<lambda>m. contains m lowered) auth_markers
      then create_system_alert (threshold_alert ''runtime_exchange_auth_invalid'' ''CRITICAL'' 1 1
             (Some (job_user_id j)) ''exchange_auth_invalid'') s
      else s)"

record execution_outcome =
  eo_status :: string
  eo_reason :: "string option"
  eo_job_id :: "string option"
  eo_state :: "string option"
  eo_retry_count :: "int option"
  eo_error :: "string option"

definition outcome :: "string \<Rightarrow> string option \<Rightarrow> execution_outcome" where
  "outcome status reason = \<lparr>eo_status = status, eo_reason = reason, eo_job_id = None,
     eo_state = None, eo_retry_count = None, eo_error = None\<rparr>"

definition final_failure_event :: "job \<Rightarrow> order \<Rightarrow> timeline_event" where
  "final_failure_event j ord =
     \<lparr>ev_severity = ''CRITICAL'', ev_order_id = Some (order_id ord), ev_user_id = job_user_id j,
      ev_symbol = job_symbol j, ev_side = job_side j, ev_state = ''FAILED'',
      ev_previous_state = Some (str_or (Some (order_state ord)) ''SENT''),
      ev_filled_qty = filled_size ord, ev_remaining_qty = max 0 (order_size ord - filled_size ord),
      ev_reject_reason = order_reject_reason ord, ev_fail_reason = job_fail_reason j\<rparr>"

definition requeue :: "timestamp \<Rightarrow> job \<Rightarrow> queue_payload \<Rightarrow> store \<Rightarrow> store" where
  "requeue now j payload s =
     s\<lparr>queue := queue s @ [payload\<lparr>qp_retry_count := retry_count j,
         qp_retry_at_ts := Some (now + backoff_ms (retry_count j))\<rparr>]\<rparr>"

definition handle_failure ::
  "run_env \<Rightarrow> string \<Rightarrow> int option \<Rightarrow> queue_payload \<Rightarrow> job \<Rightarrow> order \<Rightarrow> store \<Rightarrow> execution_outcome \<times> store" where
  "handle_failure env msg wait payload j ord s =
     (let now = env_now env; th = env_thresholds env;
          j1 = failed_attempt env msg wait j;
          s1 = save_job j1 s;
          s2 = (if is_failed j1 then emit_timeline_event (final_failure_event j1 ord) s1
                else requeue now j1 payload s1);
          s3 = check_failed_orders_trigger th (check_worker_failure_trigger now 3 15 s2);
          s4 = check_auth_reject (lower msg) j1 s3;
          (_, s5) = evaluate_auto_kill_switch now th s4
      in ((outcome (if is_failed j1 then ''failed'' else ''retry'') None)
            \<lparr>eo_job_id := Some (job_id j1), eo_state := Some (job_state j1),
             eo_retry_count := Some (retry_count j1), eo_error := Some (take 250 msg)\<rparr>, s5))"

text \<open>
  \<open>adapter\<close> is what \<open>get_execution_adapter\<close> returns or raises; it is called outside the
  \<open>try\<close>, after the order row is added.
\<close>

definition execute_queued_job ::
  "run_env \<Rightarrow> string + adapter \<Rightarrow> string \<Rightarrow> queue_payload \<Rightarrow> store \<Rightarrow> (string + execution_outcome) \<times> store" where
  "execute_queued_job env adapter fresh payload s =
     (let now = env_now env; th = env_thresholds env; jid = qp_job_id payload;
          retry_at = int_or (qp_retry_at_ts payload) 0
      in if jid = [] then (Inr (outcome ''ignored'' (Some ''missing_execution_job_id'')), s)
         else case job_row jid s of
           None \<Rightarrow> (Inr ((outcome ''ignored'' (Some ''execution_job_not_found''))\<lparr>eo_job_id := Some jid\<rparr>), s)
         | Some j \<Rightarrow>
             if upper (job_state j) \<in> set TERMINAL_STATES
             then (Inr ((outcome ''ignored'' (Some ''already_terminal''))
                     \<lparr>eo_job_id := Some jid, eo_state := Some (job_state j)\<rparr>), s)
             else if retry_at \<noteq> 0 \<and> now < retry_at
             then (Inr ((outcome ''deferred'' None)\<lparr>eo_job_id := Some jid\<rparr>), s\<lparr>queue := queue s @ [payload]\<rparr>)
             else
               let (ord, s1) = create_or_get_order now fresh j s
               in case adapter of
                 Inl e \<Rightarrow> (Inl e, s1)
               | Inr ad \<Rightarrow>
                   let wait = map_option (\<lambda>t. max 0 (now - t)) (qp_enqueued_at payload);
                       j1 = (case wait of None \<Rightarrow> j
                             | Some w \<Rightarrow> j\<lparr>queue_wait_ms := Some w, job_updated_at := now\<rparr>)
                   in case attempt_execution env ad wait j1 ord (save_job j1 s1) of
                     (Inr h, j2, ord2, s2) \<Rightarrow>
                       let s3 = create_audit_log ''execution_job_processed'' (job_id j2) (job_user_id j2) ''info'' s2;
                           (_, s4) = evaluate_auto_kill_switch now th (check_failed_orders_trigger th s3)
                       in (Inr ((outcome ''processed'' None)
                             \<lparr>eo_job_id := Some (handled_job_id h), eo_state := Some (handled_state h)\<rparr>), s4)
                   | (Inl msg, j2, ord2, s2) \<Rightarrow>
                       let (r, s3) = handle_failure env msg wait payload j2 ord2 s2 in (Inr r, s3))"

definition consume_execution_queue_once ::
  "run_env \<Rightarrow> string + adapter \<Rightarrow> string \<Rightarrow> store \<Rightarrow> (string + execution_outcome) option \<times> store" where
  "consume_execution_queue_once env adapter fresh s =
     (case queue s of
        [] \<Rightarrow> (None, s)
      | payload # rest \<Rightarrow>
          let (r, s') = execute_queued_job env adapter fresh payload (s\<lparr>queue := rest\<rparr>) in (Some r, s'))"

end
