(* ===== verification/Runtime_Invariants.thy ===== *)
theory Runtime_Invariants
  imports Execution_Worker
begin

text \<open>
  What the operations of the runtime keep. The invariant relates the tables to one another:
  identifiers and idempotency keys are unique, a job has one order, an order that is over belongs
  to a job that is over, no job is tried more often than its limit, every queued payload names a
  job, and the positions hold what the filled orders have bought, up to a gap that the operations
  of this theory leave alone.
\<close>

section \<open>Steps that do not touch the tables\<close>

text \<open>The tables the invariant speaks about.\<close>

definition tables :: "store \<Rightarrow> job list \<times> order list \<times> position list \<times> queue_payload list" where
  "tables s = (jobs s, orders s, positions s, queue s)"

named_theorems tables_simps \<open>operations that leave the tables alone\<close>

lemma tables_writes [tables_simps]:
  "tables (create_audit_log a b c d s) = tables s"
  "tables (emit_timeline_event e s) = tables s"
  "tables (create_system_alert al s) = tables s"
  "tables (block_all_trades r s) = tables s"
  "tables (clear_kill_switch s) = tables s"
  "tables (snd (activate_kill_switch now src r md s)) = tables s"
  "tables (snd (deactivate_kill_switch now src r s)) = tables s"
  "tables (record_execution_metric j ord xr s) = tables s"
  by (simp_all add: tables_def create_audit_log_def emit_timeline_event_def create_system_alert_def
      block_all_trades_def clear_kill_switch_def activate_kill_switch_def deactivate_kill_switch_def
      Let_def record_execution_metric_def)

lemma tables_guards [tables_simps]:
  "tables (check_queue_depth_trigger th s) = tables s"
  "tables (check_failed_orders_trigger th s) = tables s"
  "tables (check_worker_failure_trigger now th0 win s) = tables s"
  "tables (check_daily_loss_trigger user loss th1 s) = tables s"
  "tables (check_latency th elapsed j s) = tables s"
  "tables (check_auth_reject msg j s) = tables s"
  by (simp_all add: check_queue_depth_trigger_def check_failed_orders_trigger_def
      check_worker_failure_trigger_def check_daily_loss_trigger_def check_latency_def
      check_auth_reject_def Let_def tables_writes)

lemma tables_decisions [tables_simps]:
  "tables (snd (evaluate_auto_kill_switch now th s)) = tables s"
  "tables (snd (evaluate_risk now limits rq s)) = tables s"
  "tables (snd (run_risk_checks now sg user limits s)) = tables s"
  "tables (snd (evaluate_canary_constraints ce role user strat sz px s)) = tables s"
  by (simp_all add: auto_kill_store evaluate_risk_def run_risk_checks_def Let_def
      evaluate_canary_constraints_def tables_writes tables_guards split: option.splits)

lemma tables_eq_iff:
  "tables s = tables t \<longleftrightarrow>
     jobs s = jobs t \<and> orders s = orders t \<and> positions s = positions t \<and> queue s = queue t"
  by (simp add: tables_def)

section \<open>The invariant\<close>

definition job_done :: "job \<Rightarrow> bool" where
  "job_done j \<longleftrightarrow> upper (job_state j) \<in> set TERMINAL_STATES"

definition retries_ok :: "job \<Rightarrow> bool" where
  "retries_ok j \<longleftrightarrow> 0 \<le> retry_count j \<and> retry_count j \<le> max_retry j
     \<and> (job_done j \<or> retry_count j < max_retry j)"

definition linked :: "job list \<Rightarrow> order \<Rightarrow> bool" where
  "linked js ord = (case find_row job_id (order_job_id ord) js of
     None \<Rightarrow> False | Some j \<Rightarrow> is_terminal (current_state ord) \<longrightarrow> job_done j)"

text \<open>What an order has added to the position \<open>k\<close>.\<close>

definition booked_qty :: "string \<Rightarrow> order \<Rightarrow> num" where
  "booked_qty k ord =
     (if current_state ord = ''FILLED'' \<and> k = order_user_id ord @ '':'' @ order_symbol ord
      then num_or (Some (filled_size ord)) (order_size ord) else 0)"

definition rows_unique :: "store \<Rightarrow> bool" where
  "rows_unique s \<longleftrightarrow> distinct (map job_id (jobs s)) \<and> distinct (map idempotency_key (jobs s))
     \<and> distinct (map order_id (orders s)) \<and> distinct (map order_job_id (orders s))"

definition book_balanced :: "(string \<Rightarrow> num) \<Rightarrow> store \<Rightarrow> bool" where
  "book_balanced gap s \<longleftrightarrow> (\<forall>k. position_qty k s + gap k = sum_list (map (booked_qty k) (orders s)))"

definition runtime_inv :: "(string \<Rightarrow> num) \<Rightarrow> store \<Rightarrow> bool" where
  "runtime_inv gap s \<longleftrightarrow> rows_unique s \<and> list_all (linked (jobs s)) (orders s) \<and>
     list_all retries_ok (jobs s) \<and>
     list_all (\<lambda>p. job_row (qp_job_id p) s \<noteq> None) (queue s) \<and> book_balanced gap s"

lemma runtime_inv_tables: "tables s = tables t \<Longrightarrow> runtime_inv gap s = runtime_inv gap t"
  by (simp add: tables_eq_iff runtime_inv_def rows_unique_def book_balanced_def position_qty_def
      position_row_def job_row_def cong: list.pred_cong)

lemma runtime_inv_empty: "runtime_inv (\<lambda>_. 0) empty_store"
  by (simp add: runtime_inv_def rows_unique_def book_balanced_def)
     (simp add: empty_store_def)

section \<open>Rows with a unique key\<close>

lemma sum_save_row:
  fixes f :: "'a \<Rightarrow> num"
  assumes "distinct (map key rs)" "find_row key (key r) rs = Some old"
  shows "sum_list (map f (save_row key r rs)) = sum_list (map f rs) - f old + f r"
  using assms
proof (induction rs)
  case Nil
  then show ?case by simp
next
  case (Cons x xs)
  show ?case
  proof (cases "key x = key r")
    case True
    with Cons.prems have "find_row key (key r) xs = None" "old = x"
      by (auto simp: find_row_None_iff)
    then have "save_row key r xs = xs" by (intro save_row_absent)
    with True \<open>old = x\<close> show ?thesis by (simp add: save_row_def)
  next
    case False
    with Cons show ?thesis by (simp add: save_row_def)
  qed
qed

lemma list_all_save_row:
  "list_all P rs \<Longrightarrow> P r \<Longrightarrow> list_all P (save_row key r rs)"
  by (auto simp: list_all_iff dest: set_save_row)

text \<open>
  The row of an order and the row of its job are changed together, or one of them alone: what
  has to be shown of the new rows for the invariant to survive.
\<close>

lemma list_all_linked_save_job:
  assumes "list_all (linked js) ords" "find_row job_id (job_id j) js = Some old"
    and "job_done old \<Longrightarrow> job_done j"
  shows "list_all (linked (save_row job_id j js)) ords"
proof -
  have "linked (save_row job_id j js) ord" if "linked js ord" for ord
    using that assms(2,3) by (auto simp: linked_def find_row_save split: option.splits if_splits)
  with assms(1) show ?thesis by (auto simp: list_all_iff)
qed

lemma runtime_inv_save_job:
  assumes "runtime_inv gap s" "job_row (job_id j) s = Some old"
    and "idempotency_key j = idempotency_key old" "job_done old \<Longrightarrow> job_done j" "retries_ok j"
  shows "runtime_inv gap (save_job j s)"
proof -
  have u: "distinct (map job_id (jobs s))" using assms(1) by (simp add: runtime_inv_def rows_unique_def)
  have find: "find_row job_id (job_id j) (jobs s) = Some old" using assms(2) by (simp add: job_row_def)
  have "rows_unique (save_job j s)"
    using assms(1) map_save_row [OF u find assms(3)]
    by (simp add: runtime_inv_def rows_unique_def save_job_def)
  moreover have "list_all (linked (jobs (save_job j s))) (orders (save_job j s))"
    using assms(1,4) list_all_linked_save_job [OF _ find] by (simp add: runtime_inv_def save_job_def)
  moreover have "list_all retries_ok (jobs (save_job j s))"
    using assms(1,5) by (simp add: runtime_inv_def save_job_def list_all_save_row)
  moreover have "list_all (\<lambda>p. job_row (qp_job_id p) (save_job j s) \<noteq> None) (queue (save_job j s))"
    using assms(1) by (simp add: runtime_inv_def job_table.present_save) (simp add: save_job_def)
  moreover have "book_balanced gap (save_job j s)"
    using assms(1) by (simp add: runtime_inv_def book_balanced_def) (simp add: save_job_def)
  ultimately show ?thesis by (simp add: runtime_inv_def)
qed

text \<open>Everything but the balance of the book.\<close>

definition rows_inv :: "store \<Rightarrow> bool" where
  "rows_inv s \<longleftrightarrow> rows_unique s \<and> list_all (linked (jobs s)) (orders s) \<and>
     list_all retries_ok (jobs s) \<and> list_all (\<lambda>p. job_row (qp_job_id p) s \<noteq> None) (queue s)"

lemma runtime_inv_rows: "runtime_inv gap s \<longleftrightarrow> rows_inv s \<and> book_balanced gap s"
  by (auto simp: runtime_inv_def rows_inv_def)

lemma rows_inv_save_order:
  assumes "rows_inv s" "order_row (order_id ord) s = Some old"
    and "order_job_id ord = order_job_id old" "linked (jobs s) ord"
  shows "rows_inv (save_order ord s)"
proof -
  have u: "distinct (map order_id (orders s))" using assms(1) by (simp add: rows_inv_def rows_unique_def)
  have find: "find_row order_id (order_id ord) (orders s) = Some old" using assms(2) by (simp add: order_row_def)
  show ?thesis
    using assms(1,4) map_save_row [OF u find assms(3)]
    by (simp add: rows_inv_def rows_unique_def save_order_def job_row_def list_all_save_row)
qed

lemma book_balanced_save_order:
  assumes "book_balanced gap s" "rows_inv s" "order_row (order_id ord) s = Some old"
    and "\<And>k. booked_qty k ord = booked_qty k old"
  shows "book_balanced gap (save_order ord s)"
proof -
  have u: "distinct (map order_id (orders s))" using assms(2) by (simp add: rows_inv_def rows_unique_def)
  have "map (booked_qty k) (save_row order_id ord (orders s)) = map (booked_qty k) (orders s)" for k
    by (rule map_save_row [OF u]) (use assms in \<open>simp_all add: order_row_def\<close>)
  then show ?thesis using assms(1) by (simp add: book_balanced_def) (simp add: save_order_def)
qed


section \<open>Applying the states of a report\<close>

text \<open>A job and its only order, both as they are in their tables, while an attempt runs.\<close>

definition attempting :: "job \<Rightarrow> order \<Rightarrow> store \<Rightarrow> bool" where
  "attempting j ord s \<longleftrightarrow> job_row (job_id j) s = Some j \<and> order_row (order_id ord) s = Some ord
     \<and> order_job_id ord = job_id j \<and> 0 \<le> retry_count j \<and> retry_count j < max_retry j
     \<and> (job_done j \<longrightarrow> is_terminal (current_state ord))"

lemma rows_inv_tables:
  "jobs s = jobs t \<Longrightarrow> orders s = orders t \<Longrightarrow> queue s = queue t \<Longrightarrow> rows_inv s = rows_inv t"
  by (simp add: rows_inv_def rows_unique_def job_row_def)

lemma attempting_tables:
  "jobs s = jobs t \<Longrightarrow> orders s = orders t \<Longrightarrow> attempting j ord s = attempting j ord t"
  by (simp add: attempting_def job_row_def order_row_def)

lemma sync_frame [simp]:
  "jobs (sync_position_after_fill now ord s) = jobs s"
  "orders (sync_position_after_fill now ord s) = orders s"
  "queue (sync_position_after_fill now ord s) = queue s"
  by (simp_all add: sync_position_after_fill_def Let_def save_position_def split: option.splits)

lemma book_state_frame:
  "jobs (book_state now prev st j ord s) = save_row job_id j (jobs s)"
  "orders (book_state now prev st j ord s) = save_row order_id ord (orders s)"
  "queue (book_state now prev st j ord s) = queue s"
  by (simp_all add: book_state_def Let_def emit_timeline_event_def save_job_def save_order_def)

lemma job_enters_state_keys [simp]:
  "idempotency_key (job_enters_state now st j) = idempotency_key j"
  "retry_count (job_enters_state now st j) = retry_count j"
  "max_retry (job_enters_state now st j) = max_retry j"
  by (simp_all add: job_enters_state_def Let_def)

lemma rows_inv_save_job:
  assumes "rows_inv s" "job_row (job_id j) s = Some old"
    and "idempotency_key j = idempotency_key old" "job_done old \<Longrightarrow> job_done j" "retries_ok j"
  shows "rows_inv (save_job j s)"
proof -
  have u: "distinct (map job_id (jobs s))" using assms(1) by (simp add: rows_inv_def rows_unique_def)
  have find: "find_row job_id (job_id j) (jobs s) = Some old" using assms(2) by (simp add: job_row_def)
  have "list_all (linked (jobs (save_job j s))) (orders (save_job j s))"
    using assms(1,4) list_all_linked_save_job [OF _ find] by (simp add: rows_inv_def save_job_def)
  moreover have "list_all (\<lambda>p. job_row (qp_job_id p) (save_job j s) \<noteq> None) (queue (save_job j s))"
    using assms(1) by (simp add: rows_inv_def job_table.present_save) (simp add: save_job_def)
  ultimately show ?thesis
    using assms(1,5) map_save_row [OF u find assms(3)]
    by (simp add: rows_inv_def rows_unique_def save_job_def list_all_save_row)
qed

lemma book_state_keeps:
  assumes inv: "runtime_inv gap s" and att: "attempting j ord s" and up: "upper st = st"
    and adv: "advance_order_state now st None ord = Inr ord'"
  shows "runtime_inv gap (book_state now prev st (job_enters_state now st j) ord' s)
    \<and> attempting (job_enters_state now st j) ord' (book_state now prev st (job_enters_state now st j) ord' s)"
proof -
  let ?j = "job_enters_state now st j"
  let ?t = "book_state now prev st ?j ord' s"
  let ?u = "save_order ord' (save_job ?j s)"
  note adv_facts = advance_order_state_Inr [OF adv]
  have live: "\<not> is_terminal (current_state ord)"
    using adv advance_order_state_terminal [of ord now st None] by auto
  then have not_done: "\<not> job_done j" using att by (auto simp: attempting_def)
  have state: "current_state ord' = st" using adv_facts(2) up by simp
  have done_iff: "job_done ?j \<longleftrightarrow> is_terminal (current_state ord')"
    by (simp add: job_done_def is_terminal_def state up)
  have job: "job_row (job_id j) s = Some j" and ord: "order_row (order_id ord) s = Some ord"
    and link: "order_job_id ord = job_id j"
    using att by (simp_all add: attempting_def)
  have rows1: "rows_inv (save_job ?j s)"
    using inv job not_done att
    by (intro rows_inv_save_job [where old = j])
       (simp_all add: runtime_inv_rows retries_ok_def attempting_def)
  have job': "job_row (job_id j) (save_job ?j s) = Some ?j"
    using job by (simp add: job_table.lookup_save)
  have rows2: "rows_inv ?u"
  proof (rule rows_inv_save_order [where old = ord])
    show "rows_inv (save_job ?j s)" by (rule rows1)
    show "order_row (order_id ord') (save_job ?j s) = Some ord"
      using ord by (simp add: adv_facts(4) order_row_def save_job_def)
    show "order_job_id ord' = order_job_id ord" by (rule adv_facts(11))
    show "linked (jobs (save_job ?j s)) ord'"
      using job' done_iff by (simp add: linked_def job_row_def adv_facts(11) link)
  qed
  have same: "jobs ?t = jobs ?u" "orders ?t = orders ?u" "queue ?t = queue ?u"
    by (simp_all add: book_state_frame save_job_def save_order_def)
  have rows: "rows_inv ?t" using rows2 rows_inv_tables [OF same] by simp
  have ord': "order_row (order_id ord') ?u = Some ord'"
    using ord adv_facts(4) by (simp add: order_row_def save_job_def save_order_def find_row_save)
  have att': "attempting ?j ord' ?t"
  proof -
    have "attempting ?j ord' ?u"
      using ord' job' done_iff att adv_facts(11) link
      by (auto simp: attempting_def job_row_def save_order_def)
    then show ?thesis using attempting_tables [OF same(1,2)] by simp
  qed
  have "book_balanced gap ?t"
    unfolding book_balanced_def
  proof
    fix k
    have u: "distinct (map order_id (orders s))"
      using inv by (simp add: runtime_inv_def rows_unique_def)
    have find: "find_row order_id (order_id ord') (orders s) = Some ord"
      using ord by (simp add: adv_facts(4) order_row_def)
    have old: "booked_qty k ord = 0"
      using live by (auto simp: booked_qty_def is_terminal_def TERMINAL_STATES_def)
    have "sum_list (map (booked_qty k) (orders ?t)) = sum_list (map (booked_qty k) (orders s)) + booked_qty k ord'"
      using sum_save_row [OF u find, of "booked_qty k"] old by (simp add: book_state_frame)
    also have "sum_list (map (booked_qty k) (orders s)) = position_qty k s + gap k"
      using inv by (simp add: runtime_inv_def book_balanced_def)
    finally show "position_qty k ?t + gap k = sum_list (map (booked_qty k) (orders ?t))"
      by (simp add: position_qty_book booked_qty_def [of k ord'] state)
  qed
  with rows att' show ?thesis by (simp add: runtime_inv_rows)
qed

lemma apply_states_keeps:
  "runtime_inv gap s \<Longrightarrow> attempting j ord s \<Longrightarrow> list_all (\<lambda>st. upper st = st) sts \<Longrightarrow>
   apply_states now prev sts j ord s = (e, j', ord', s') \<Longrightarrow> runtime_inv gap s' \<and> attempting j' ord' s'"
proof (induction sts arbitrary: prev j ord s)
  case Nil
  then show ?case by simp
next
  case (Cons st sts)
  show ?case
  proof (cases "advance_order_state now st None ord")
    case (Inl err)
    with Cons.prems show ?thesis by simp
  next
    case (Inr ord1)
    have up: "upper st = st" "list_all (\<lambda>st. upper st = st) sts" using Cons.prems(3) by simp_all
    note kept = book_state_keeps [OF Cons.prems(1,2) up(1) Inr]
    show ?thesis
      by (rule Cons.IH [OF kept [THEN conjunct1] kept [THEN conjunct2] up(2)])
         (use Cons.prems(4) Inr in \<open>simp add: Let_def\<close>)
  qed
qed


lemma job_row_save_order: "job_row k (save_order ord s) = job_row k s"
  by (simp add: job_row_def save_order_def)

lemma order_row_save_job: "order_row k (save_job j s) = order_row k s"
  by (simp add: order_row_def save_job_def)

lemma handle_execution_result_keeps:
  assumes inv: "runtime_inv gap s" and att: "attempting j ord s"
    and live: "\<not> is_terminal (current_state ord)"
    and up: "list_all (\<lambda>st. upper st = st) (xr_states xr)"
    and run: "handle_execution_result now j ord xr s = (r, j', ord', s')"
  shows "runtime_inv gap s' \<and> attempting j' ord' s'"
proof -
  let ?o = "ord\<lparr>external_order_id := xr_external_order_id xr,
      avg_fill_price := Some (num_or (xr_avg_fill_price xr) 0),
      filled_size := num_or (xr_filled_size xr) 0\<rparr>"
  have st: "current_state ?o = current_state ord" by (simp add: current_state_def)
  have ord: "order_row (order_id ?o) s = Some ord" using att by (simp add: attempting_def)
  have booked: "booked_qty k ?o = booked_qty k ord" for k
    using live by (auto simp: booked_qty_def st is_terminal_def TERMINAL_STATES_def)
  have link: "linked (jobs s) ?o"
    using att live by (simp add: linked_def st attempting_def job_row_def)
  have inv0: "runtime_inv gap (save_order ?o s)"
    using inv booked ord link
    by (auto simp: runtime_inv_rows intro!: rows_inv_save_order [where old = ord]
        book_balanced_save_order [where old = ord])
  have att0: "attempting j ?o (save_order ?o s)"
    using att st by (auto simp: attempting_def order_table.lookup_save job_row_save_order)
  obtain e j1 o1 s1 where loop: "apply_states now (str_or (Some (order_state ord)) ''CREATED'')
      (xr_states xr) j ?o (save_order ?o s) = (e, j1, o1, s1)"
    by (metis prod_cases4)
  note kept = apply_states_keeps [OF inv0 att0 up loop]
  have same: "tables (record_execution_metric j1 o1 xr s1) = tables s1" by (simp add: tables_simps)
  show ?thesis
  proof (cases e)
    case None
    with run loop have "j' = j1" "ord' = o1" "s' = record_execution_metric j1 o1 xr s1"
      by (auto simp: handle_execution_result_def Let_def)
    then show ?thesis
      using kept runtime_inv_tables [OF same] attempting_tables [of s' s1 j1 o1] same
      by (simp add: tables_eq_iff)
  next
    case (Some msg)
    with run loop have "j' = j1" "ord' = o1" "s' = s1"
      by (auto simp: handle_execution_result_def Let_def)
    with kept show ?thesis by simp
  qed
qed

section \<open>Executing a job\<close>

text \<open>
  What is relied on of an adapter: it names states in capitals. Both adapters of the repository
  do (\<open>reports_upper_binance\<close>, \<open>reports_upper_sim\<close>).
\<close>

definition reports_upper :: "adapter \<Rightarrow> bool" where
  "reports_upper ad \<longleftrightarrow>
     (\<forall>req xr. submit_order ad req = Inr xr \<longrightarrow> list_all (\<lambda>st. upper st = st) (xr_states xr))"

lemma status_mapping_upper:
  "list_all (list_all (\<lambda>st. upper st = st)) ([''SENT''] # map snd status_mapping)"
  by code_simp

lemma reports_upper_binance: "list_all (\<lambda>st. upper st = st) (map_status_to_states status)"
  by (rule bspec [OF list_all_iff [THEN iffD1, OF status_mapping_upper] map_status_to_states_in])

lemma reports_upper_sim: "list_all (\<lambda>st. upper st = st) (xr_states (sim_submit_order seed idem px sz))"
  by (simp add: sim_submit_order_def)

lemma failed_attempt_simps [simp]:
  "job_id (failed_attempt env msg wait j) = job_id j"
  "idempotency_key (failed_attempt env msg wait j) = idempotency_key j"
  "retry_count (failed_attempt env msg wait j) = retry_count j + 1"
  "max_retry (failed_attempt env msg wait j) = max_retry j"
  "job_state (failed_attempt env msg wait j) =
     (if max_retry j \<le> retry_count j + 1 then ''FAILED'' else job_state j)"
  by (simp_all add: failed_attempt_def Let_def)

lemma handle_failure_tables:
  "tables (snd (handle_failure env msg wait payload j ord s)) =
     tables (let j1 = failed_attempt env msg wait j; s1 = save_job j1 s
             in if is_failed j1 then s1 else requeue (env_now env) j1 payload s1)"
  by (simp add: handle_failure_def Let_def tables_simps split_def)

lemma FAILED_is_done: "job_state j = ''FAILED'' \<Longrightarrow> job_done j"
  by (simp add: job_done_def TERMINAL_STATES_def)

lemma runtime_inv_queue:
  "runtime_inv gap (s\<lparr>queue := q\<rparr>) \<longleftrightarrow>
     rows_unique s \<and> list_all (linked (jobs s)) (orders s) \<and> list_all retries_ok (jobs s) \<and>
     list_all (\<lambda>p. job_row (qp_job_id p) s \<noteq> None) q \<and> book_balanced gap s"
  by (simp add: runtime_inv_def rows_unique_def job_row_def book_balanced_def position_qty_def position_row_def)

lemma handle_failure_keeps:
  assumes inv: "runtime_inv gap s" and att: "attempting j ord s"
    and payload: "qp_job_id payload = job_id j"
  shows "runtime_inv gap (snd (handle_failure env msg wait payload j ord s))"
proof -
  let ?j = "failed_attempt env msg wait j"
  have "retries_ok ?j"
    using att by (auto simp: retries_ok_def attempting_def FAILED_is_done)
  moreover have "job_done j \<Longrightarrow> job_done ?j" by (simp add: job_done_def TERMINAL_STATES_def)
  ultimately have saved: "runtime_inv gap (save_job ?j s)"
    using inv att by (intro runtime_inv_save_job [where old = j]) (simp_all add: attempting_def)
  have "job_row (job_id j) (save_job ?j s) \<noteq> None"
    using att by (simp add: job_table.present_save attempting_def)
  then have "runtime_inv gap (requeue (env_now env) ?j payload (save_job ?j s))"
    using saved payload unfolding requeue_def runtime_inv_queue by (simp add: runtime_inv_def)
  with saved show ?thesis
    by (subst runtime_inv_tables [OF handle_failure_tables]) (simp add: Let_def)
qed


lemma attempt_execution_keeps:
  assumes inv: "runtime_inv gap s" and att: "attempting j ord s"
    and live: "\<not> is_terminal (current_state ord)" and ad: "reports_upper ad"
    and run: "attempt_execution env ad wait j ord s = (r, j', ord', s')"
  shows "runtime_inv gap s' \<and> attempting j' ord' s'"
proof (cases "\<exists>e. r = Inl e \<and> j' = j \<and> ord' = ord \<and> s' = s")
  case True
  with inv att show ?thesis by auto
next
  case False
  let ?total = "int_or wait 0 + env_execution_ms env"
  let ?j = "j\<lparr>execution_ms := Some (env_execution_ms env), total_ms := Some ?total,
              failure_class := None, job_updated_at := env_now env\<rparr>"
  let ?t = "check_latency (env_thresholds env) ?total ?j (save_job ?j s)"
  from False run obtain xr where sub: "submit_order ad (request_of j) = Inr xr"
    and res: "handle_execution_result (env_now env) ?j ord xr ?t = (r, j', ord', s')"
    by (auto simp: attempt_execution_def Let_def split: sum.splits if_splits)
  have job: "job_row (job_id ?j) s = Some j" using att by (simp add: attempting_def)
  have "retries_ok ?j" using att by (simp add: retries_ok_def attempting_def)
  then have saved: "runtime_inv gap (save_job ?j s)"
    by (intro runtime_inv_save_job [OF inv job]) (simp_all add: job_done_def)
  have same: "tables ?t = tables (save_job ?j s)" by (simp add: tables_simps)
  have "attempting ?j ord (save_job ?j s)"
    using att job by (auto simp: attempting_def job_table.lookup_save job_done_def order_row_save_job)
  then have att1: "attempting ?j ord ?t"
    using same attempting_tables [of ?t "save_job ?j s" ?j ord] by (simp add: tables_eq_iff)
  have inv1: "runtime_inv gap ?t" using saved runtime_inv_tables [OF same] by simp
  have "list_all (\<lambda>st. upper st = st) (xr_states xr)" using ad sub by (simp add: reports_upper_def)
  then show ?thesis by (rule handle_execution_result_keeps [OF inv1 att1 live _ res])
qed

lemma create_or_get_order_keeps:
  assumes inv: "runtime_inv gap s" and job: "job_row (job_id j) s = Some j"
    and live: "\<not> job_done j" and fresh: "fresh \<notin> order_id ` set (orders s)"
    and run: "create_or_get_order now fresh j s = (ord, s')"
  shows "runtime_inv gap s' \<and> attempting j ord s' \<and> \<not> is_terminal (current_state ord)"
proof -
  have j_in: "j \<in> set (jobs s)" using job by (auto simp: job_row_def dest: find_row_in)
  have retries: "0 \<le> retry_count j" "retry_count j < max_retry j"
    using inv j_in live by (auto simp: runtime_inv_def list_all_iff retries_ok_def)
  show ?thesis
  proof (cases "find_row order_job_id (job_id j) (orders s)")
    case (Some o1)
    with run have same: "ord = o1" "s' = s" by (simp_all add: create_or_get_order_def)
    have link: "order_job_id ord = job_id j" using Some find_row_key same by fastforce
    have o_in: "ord \<in> set (orders s)" using Some same by (auto dest: find_row_in)
    then have "linked (jobs s) ord" using inv by (simp add: runtime_inv_def list_all_iff)
    then have nt: "\<not> is_terminal (current_state ord)"
      using job live by (simp add: linked_def link job_row_def)
    have "order_row (order_id ord) s = Some ord"
      using inv o_in by (simp add: order_row_def runtime_inv_def rows_unique_def find_row_unique)
    with nt link job retries live inv same show ?thesis by (simp add: attempting_def)
  next
    case None
    then have no: "job_id j \<notin> order_job_id ` set (orders s)" by (simp add: find_row_None_iff)
    from run None have ord: "order_id ord = fresh" "order_job_id ord = job_id j"
        "order_state ord = ''CREATED''" and s': "s' = s\<lparr>orders := orders s @ [ord]\<rparr>"
      by (auto simp: create_or_get_order_def Let_def)
    have st: "current_state ord = ''CREATED''" by (simp add: current_state_def ord)
    have nt: "\<not> is_terminal (current_state ord)" by (simp add: st is_terminal_def TERMINAL_STATES_def)
    have "find_row order_id fresh (orders s) = None" using fresh by (simp add: find_row_None_iff)
    then have row: "order_row (order_id ord) s' = Some ord" by (simp add: order_row_def s' ord)
    have "linked (jobs s) ord" using job nt by (simp add: linked_def ord(2) job_row_def)
    moreover have "booked_qty k ord = 0" for k by (simp add: booked_qty_def st)
    ultimately have "runtime_inv gap s'"
      using inv fresh no by (simp add: runtime_inv_def rows_unique_def s' ord book_balanced_def
          job_row_def position_qty_def position_row_def)
    with nt row job retries live ord(2) show ?thesis by (simp add: attempting_def s' job_row_def)
  qed
qed

text \<open>The payload may be executed now.\<close>

definition is_due :: "timestamp \<Rightarrow> queue_payload \<Rightarrow> bool" where
  "is_due now payload \<longleftrightarrow>
     \<not> (int_or (qp_retry_at_ts payload) 0 \<noteq> 0 \<and> now < int_or (qp_retry_at_ts payload) 0)"

definition waited :: "timestamp \<Rightarrow> queue_payload \<Rightarrow> int option" where
  "waited now payload = map_option (\<lambda>t. max 0 (now - t)) (qp_enqueued_at payload)"

definition job_waited :: "timestamp \<Rightarrow> queue_payload \<Rightarrow> job \<Rightarrow> job" where
  "job_waited now payload j = (case waited now payload of None \<Rightarrow> j
     | Some w \<Rightarrow> j\<lparr>queue_wait_ms := Some w, job_updated_at := now\<rparr>)"

lemma job_waited_simps [simp]:
  "job_id (job_waited now p j) = job_id j" "idempotency_key (job_waited now p j) = idempotency_key j"
  "job_state (job_waited now p j) = job_state j" "retry_count (job_waited now p j) = retry_count j"
  "max_retry (job_waited now p j) = max_retry j"
  by (simp_all add: job_waited_def split: option.split)

lemma execute_queued_job_attempts:
  assumes "job_row (qp_job_id payload) s = Some j" "\<not> job_done j" "qp_job_id payload \<noteq> []"
    and "is_due (env_now env) payload"
    and "create_or_get_order (env_now env) fresh j s = (ord, s1)"
  shows "execute_queued_job env adapter fresh payload s =
    (case adapter of
       Inl e \<Rightarrow> (Inl e, s1)
     | Inr ad \<Rightarrow>
         case attempt_execution env ad (waited (env_now env) payload) (job_waited (env_now env) payload j) ord
                (save_job (job_waited (env_now env) payload j) s1) of
           (Inr h, j2, ord2, s2) \<Rightarrow>
             (Inr ((outcome ''processed'' None)\<lparr>eo_job_id := Some (handled_job_id h), eo_state := Some (handled_state h)\<rparr>),
              snd (evaluate_auto_kill_switch (env_now env) (env_thresholds env)
                (check_failed_orders_trigger (env_thresholds env)
                  (create_audit_log ''execution_job_processed'' (job_id j2) (job_user_id j2) ''info'' s2))))
         | (Inl msg, j2, ord2, s2) \<Rightarrow>
             map_prod Inr id (handle_failure env msg (waited (env_now env) payload) payload j2 ord2 s2))"
  using assms
  by (auto simp: execute_queued_job_def Let_def is_due_def waited_def job_waited_def job_done_def
      map_prod_def split: sum.split prod.split option.split)

lemma handle_execution_result_job_id:
  "handle_execution_result now j ord xr s = (r, j', ord', s') \<Longrightarrow> job_id j' = job_id j"
  by (auto simp: handle_execution_result_def Let_def dest: apply_states_frame
      split: option.splits prod.splits)

lemma attempt_execution_job_id:
  "attempt_execution env ad wait j ord s = (r, j', ord', s') \<Longrightarrow> job_id j' = job_id j"
  by (auto simp: attempt_execution_def Let_def dest: handle_execution_result_job_id
      split: sum.splits if_splits)

lemma execute_queued_job_keeps:
  assumes inv: "runtime_inv gap s" and fresh: "fresh \<notin> order_id ` set (orders s)"
    and ad: "case adapter of Inl e \<Rightarrow> True | Inr a \<Rightarrow> reports_upper a"
    and payload: "job_row (qp_job_id payload) s \<noteq> None"
  shows "runtime_inv gap (snd (execute_queued_job env adapter fresh payload s))"
proof -
  let ?now = "env_now env"
  obtain j where job: "job_row (qp_job_id payload) s = Some j" using payload by auto
  then have jid: "job_id j = qp_job_id payload" by (rule job_table.lookup_key)
  let ?j = "job_waited ?now payload j"
  consider (early) "job_done j \<or> qp_job_id payload = []"
    | (deferred) "\<not> job_done j" "qp_job_id payload \<noteq> []" "\<not> is_due ?now payload"
    | (attempt) "\<not> job_done j" "qp_job_id payload \<noteq> []" "is_due ?now payload"
    by blast
  then show ?thesis
  proof cases
    case early
    with inv job show ?thesis by (auto simp: execute_queued_job_def Let_def job_done_def)
  next
    case deferred
    with job have "snd (execute_queued_job env adapter fresh payload s) = s\<lparr>queue := queue s @ [payload]\<rparr>"
      by (simp add: execute_queued_job_def Let_def job_done_def is_due_def)
    with inv payload show ?thesis by (simp add: runtime_inv_queue) (simp add: runtime_inv_def)
  next
    case attempt
    obtain ord s1 where created: "create_or_get_order ?now fresh j s = (ord, s1)" by fastforce
    have "runtime_inv gap s1 \<and> attempting j ord s1 \<and> \<not> is_terminal (current_state ord)"
      using create_or_get_order_keeps [OF inv _ attempt(1) fresh created] job jid by simp
    then have inv1: "runtime_inv gap s1" and att1: "attempting j ord s1"
      and live: "\<not> is_terminal (current_state ord)" by simp_all
    note unfold = execute_queued_job_attempts [OF job attempt created]
    show ?thesis
    proof (cases adapter)
      case (Inl e)
      with inv1 show ?thesis by (simp add: unfold)
    next
      case (Inr a)
      have row1: "job_row (job_id ?j) s1 = Some j" using att1 by (simp add: attempting_def)
      have "retries_ok ?j" using att1 by (simp add: retries_ok_def attempting_def job_done_def)
      then have inv2: "runtime_inv gap (save_job ?j s1)"
        by (intro runtime_inv_save_job [OF inv1 row1]) (simp_all add: job_done_def)
      have att2: "attempting ?j ord (save_job ?j s1)"
        using att1 row1 by (auto simp: attempting_def job_table.lookup_save job_done_def order_row_save_job)
      obtain r j2 ord2 s2 where run: "attempt_execution env a (waited ?now payload) ?j ord (save_job ?j s1) = (r, j2, ord2, s2)"
        by (metis prod_cases4)
      have kept: "runtime_inv gap s2 \<and> attempting j2 ord2 s2"
        using attempt_execution_keeps [OF inv2 att2 live _ run] ad Inr by simp
      show ?thesis
      proof (cases r)
        case h: (Inr h)
        have "tables (snd (execute_queued_job env adapter fresh payload s)) = tables s2"
          by (simp add: unfold Inr run h tables_simps)
        with kept show ?thesis using runtime_inv_tables by metis
      next
        case msg: (Inl msg)
        have same: "snd (execute_queued_job env adapter fresh payload s) =
            snd (handle_failure env msg (waited ?now payload) payload j2 ord2 s2)"
          by (simp add: unfold Inr run msg)
        show ?thesis
          unfolding same using kept attempt_execution_job_id [OF run]
          by (intro handle_failure_keeps) (simp_all add: jid)
      qed
    qed
  qed
qed


section \<open>Consuming and submitting\<close>

lemma consume_keeps:
  assumes inv: "runtime_inv gap s" and fresh: "fresh \<notin> order_id ` set (orders s)"
    and ad: "case adapter of Inl e \<Rightarrow> True | Inr a \<Rightarrow> reports_upper a"
  shows "runtime_inv gap (snd (consume_execution_queue_once env adapter fresh s))"
proof (cases "queue s")
  case Nil
  with inv show ?thesis by (simp add: consume_execution_queue_once_def)
next
  case (Cons payload rest)
  have "runtime_inv gap (s\<lparr>queue := rest\<rparr>)" and "job_row (qp_job_id payload) (s\<lparr>queue := rest\<rparr>) \<noteq> None"
    using inv Cons by (simp_all add: runtime_inv_queue) (simp_all add: runtime_inv_def job_row_def)
  then have "runtime_inv gap (snd (execute_queued_job env adapter fresh payload (s\<lparr>queue := rest\<rparr>)))"
    using fresh ad by (intro execute_queued_job_keeps) simp_all
  with Cons show ?thesis by (simp add: consume_execution_queue_once_def split_def Let_def)
qed

lemma tables_save_job: "tables s = tables t \<Longrightarrow> tables (save_job j s) = tables (save_job j t)"
  by (simp add: tables_def save_job_def)

lemma tables_enqueue:
  "tables s = tables t \<Longrightarrow>
     tables (snd (enqueue_execution now th j s)) = tables (snd (enqueue_execution now th j t))"
  by (simp add: enqueue_execution_def Let_def tables_simps) (simp add: tables_def save_job_def)

text \<open>The three ways \<open>submit_signal\<close> treats the job it has added.\<close>

lemma admit_job_cases:
  obtains (rejected) reason where "sr_status (fst (admit_job env limits sg j s)) = ''rejected''"
      "tables (snd (admit_job env limits sg j s)) = tables (save_job (fail_job (env_now env) reason j) s)"
  | (enqueued) s2 where "sr_status (fst (admit_job env limits sg j s)) = ''enqueued''"
      "tables s2 = tables s" "kill_switch_global s2 = kill_switch_global s" "trades s2 = trades s"
      "rd_allowed (fst (run_risk_checks (env_now env) sg (job_user_id j) limits s2))"
      "tables (snd (admit_job env limits sg j s)) =
         tables (snd (enqueue_execution (env_now env) (env_thresholds env) j s))"
proof -
  let ?can = "evaluate_canary_constraints (env_canary env) (env_role env (job_user_id j))
            (job_user_id j) (job_strategy_name j) (job_size j) (num_or (sig_mark_price sg) 1) s"
  obtain canary s1 where can: "?can = (canary, s1)" by fastforce
  have t1: "tables s1 = tables s" using tables_decisions(4) [of "env_canary env"] can by (metis snd_conv)
  have g1: "kill_switch_global s1 = kill_switch_global s"
    using evaluate_canary_frame(3) can by (metis snd_conv)
  have "trades (snd ?can) = trades s"
    by (simp add: evaluate_canary_constraints_def Let_def create_audit_log_def)
  then have tr1: "trades s1 = trades s" by (simp add: can)
  obtain risk s2 where rk: "run_risk_checks (env_now env) sg (job_user_id j) limits s1 = (risk, s2)"
    by fastforce
  have t2: "tables s2 = tables s" using tables_decisions(3) rk t1 by (metis snd_conv)
  show ?thesis
  proof (cases "cd_allowed canary")
    case False
    then show ?thesis
      by (intro rejected [of "cd_reject_reason canary"])
         (simp_all add: admit_job_def Let_def can tables_save_job [OF t1])
  next
    case allowed: True
    show ?thesis
    proof (cases "rd_allowed risk")
      case False
      with allowed show ?thesis
        by (intro rejected [of "rd_reject_reason risk"])
           (simp_all add: admit_job_def Let_def can rk tables_simps tables_save_job [OF t2])
    next
      case True
      let ?t = "emit_timeline_event (job_event ''INFO'' ''CREATED'' None None j) s2"
      have t3: "tables ?t = tables s" using t2 by (simp add: tables_simps)
      from allowed True t1 g1 tr1 rk show ?thesis
        by (intro enqueued [of s1])
           (simp_all add: admit_job_def Let_def can split_def tables_simps tables_enqueue [OF t3])
    qed
  qed
qed

lemma runtime_inv_new_job:
  assumes inv: "runtime_inv gap s" and "job_id j \<notin> job_id ` set (jobs s)"
    and "idempotency_key j \<notin> idempotency_key ` set (jobs s)" and "retries_ok j"
  shows "runtime_inv gap (s\<lparr>jobs := jobs s @ [j]\<rparr>)"
proof -
  have "linked (jobs s @ [j]) ord" if "linked (jobs s) ord" for ord
    using that by (simp add: linked_def split: option.splits)
  then have "list_all (linked (jobs s @ [j])) (orders s)"
    using inv by (auto simp: runtime_inv_def list_all_iff)
  moreover have "list_all (\<lambda>p. find_row job_id (qp_job_id p) (jobs s @ [j]) \<noteq> None) (queue s)"
    using inv by (auto simp: runtime_inv_def list_all_iff job_row_def split: option.splits)
  ultimately show ?thesis
    using assms by (simp add: runtime_inv_def rows_unique_def book_balanced_def position_qty_def
        position_row_def job_row_def)
qed

lemma enqueue_execution_keeps:
  assumes inv: "runtime_inv gap s" and job: "job_row (job_id j) s = Some j"
  shows "runtime_inv gap (snd (enqueue_execution now th j s))"
proof -
  let ?p = "fst (enqueue_execution now th j s)"
  obtain payload where p: "qp_job_id payload = job_id j"
    and t: "tables (snd (enqueue_execution now th j s)) =
      tables (save_job (j\<lparr>job_queue_payload := Some payload, job_updated_at := now\<rparr>)
        (s\<lparr>queue := queue s @ [payload]\<rparr>))"
    by (rule that [of ?p]) (simp_all add: enqueue_execution_def Let_def tables_simps)
  have "j \<in> set (jobs s)" using job by (auto simp: job_row_def dest: find_row_in)
  then have ok: "retries_ok j" using inv by (simp add: runtime_inv_def list_all_iff)
  have "runtime_inv gap (s\<lparr>queue := queue s @ [payload]\<rparr>)"
    using inv job p by (simp add: runtime_inv_queue) (simp add: runtime_inv_def)
  then have "runtime_inv gap (save_job (j\<lparr>job_queue_payload := Some payload, job_updated_at := now\<rparr>)
        (s\<lparr>queue := queue s @ [payload]\<rparr>))"
    by (rule runtime_inv_save_job [where old = j])
       (use job ok in \<open>simp_all add: job_row_def job_done_def retries_ok_def\<close>)
  then show ?thesis using runtime_inv_tables [OF t] by simp
qed

lemma admit_job_keeps:
  assumes inv: "runtime_inv gap s" and job: "job_row (job_id j) s = Some j"
  shows "runtime_inv gap (snd (admit_job env limits sg j s))"
proof (cases rule: admit_job_cases [of env limits sg j s])
  case (rejected reason)
  have "j \<in> set (jobs s)" using job by (auto simp: job_row_def dest: find_row_in)
  then have ok: "retries_ok j" using inv by (simp add: runtime_inv_def list_all_iff)
  have "runtime_inv gap (save_job (fail_job (env_now env) reason j) s)"
    by (rule runtime_inv_save_job [OF inv, where old = j])
       (use job ok in \<open>simp_all add: fail_job_def retries_ok_def job_done_def TERMINAL_STATES_def\<close>)
  then show ?thesis using runtime_inv_tables [OF rejected(2)] by simp
next
  case (enqueued s2)
  then show ?thesis using enqueue_execution_keeps [OF inv job] runtime_inv_tables by metis
qed

lemma new_job_simps [simp]:
  "job_id (new_job now fresh key user symbol side sz strat sg pc) = fresh"
  "idempotency_key (new_job now fresh key user symbol side sz strat sg pc) = key"
  "retry_count (new_job now fresh key user symbol side sz strat sg pc) = 0"
  "max_retry (new_job now fresh key user symbol side sz strat sg pc) = 3"
  "job_user_id (new_job now fresh key user symbol side sz strat sg pc) = user"
  "job_symbol (new_job now fresh key user symbol side sz strat sg pc) = symbol"
  "job_size (new_job now fresh key user symbol side sz strat sg pc) = sz"
  "job_state (new_job now fresh key user symbol side sz strat sg pc) = ''CREATED''"
  by (simp_all add: new_job_def)

text \<open>Either nothing is stored, or one new job is admitted on the tables as they were.\<close>

lemma submit_signal_cases:
  obtains (refused) "tables (snd (submit_signal env pc fresh user sg key limits s)) = tables s"
      "\<nexists>r. fst (submit_signal env pc fresh user sg key limits s) = Inr r \<and> sr_status r = ''enqueued''"
  | (admitted) idem symbol side sz strat sg' t where
      "idem \<notin> idempotency_key ` set (jobs s)"
      "tables t = tables s" "kill_switch_global t = kill_switch_global s" "trades t = trades s"
      "submit_signal env pc fresh user sg key limits s =
         apfst Inr (admit_job env limits sg' (new_job (env_now env) fresh idem user symbol side sz strat sg' pc)
           (t\<lparr>jobs := jobs t @ [new_job (env_now env) fresh idem user symbol side sz strat sg' pc]\<rparr>))"
      "sg' = sg \<or> sg' = sg\<lparr>sig_size := Some sz\<rparr>" "sz = num_or (sig_size sg') 0" "0 < sz" "symbol \<noteq> []"
      "idem = str_or key (build_idempotency_key user symbol side strat (sig_timestamp sg) (env_now_iso env))"
      "symbol = upper (str_or (sig_symbol sg) [])" "side = upper (str_or (sig_side sg) ''BUY'')"
      "strat = str_or (sig_strategy_name sg) ''runtime_strategy''"
proof -
  let ?res = "submit_signal env pc fresh user sg key limits s"
  let ?now = "env_now env"
  let ?symbol = "upper (str_or (sig_symbol sg) [])"
  let ?side = "upper (str_or (sig_side sg) ''BUY'')"
  let ?size = "num_or (sig_size sg) 0"
  let ?strat = "str_or (sig_strategy_name sg) ''runtime_strategy''"
  let ?entity = "str_or key (user @ '':'' @ ?symbol)"
  let ?adj = "num_or (pc_adjusted_size pc) ?size"
  let ?shrink = "0 < ?adj \<and> ?adj < ?size"
  let ?sg = "if ?shrink then sg\<lparr>sig_size := Some ?adj\<rparr> else sg"
  let ?s1 = "if is_kill_switch_active ?now s
      then create_audit_log ''runtime_execution_kill_switch_advisory'' ?entity user ''warning'' s else s"
  let ?s2 = "if ?shrink then create_audit_log ''runtime_execution_microstructure_adjusted'' ?entity user ''warning'' ?s1
      else ?s1"
  let ?idem = "str_or key (build_idempotency_key user ?symbol ?side ?strat (sig_timestamp ?sg) (env_now_iso env))"
  have t1: "tables ?s1 = tables s" and t2: "tables ?s2 = tables s" by (simp_all add: tables_simps)
  have g2: "kill_switch_global ?s2 = kill_switch_global s" "trades ?s2 = trades s"
    by (simp_all add: create_audit_log_def)
  consider "?symbol = [] \<or> ?side \<notin> set [''BUY'', ''SELL''] \<or> ?size \<le> 0"
    | "\<not> (?symbol = [] \<or> ?side \<notin> set [''BUY'', ''SELL''] \<or> ?size \<le> 0)" "\<not> pc_valid pc"
    | "\<not> (?symbol = [] \<or> ?side \<notin> set [''BUY'', ''SELL''] \<or> ?size \<le> 0)" "pc_valid pc"
    by blast
  then show ?thesis
  proof cases
    case 1
    then have "?res = (Inl ''invalid_signal_payload'', s)"
      unfolding submit_signal_def Let_def by (simp only: if_True)
    then show ?thesis by (intro refused) simp_all
  next
    case 2
    then have "?res = (Inr \<lparr>sr_status = ''rejected'', sr_job_id = None, sr_idempotency_key = None,
                         sr_state = ''FAILED'', sr_reject_reason = Some ''precheck_failed''\<rparr>, ?s1)"
      unfolding submit_signal_def Let_def by (simp only: if_False if_True simp_thms)
    with t1 show ?thesis by (intro refused) simp_all
  next
    case 3
    let ?sz = "if ?shrink then ?adj else ?size"
    have unfolded: "?res = (case find_row idempotency_key ?idem (jobs ?s2) of
        Some existing \<Rightarrow> (Inr \<lparr>sr_status = ''duplicate'', sr_job_id = Some (job_id existing),
                          sr_idempotency_key = Some ?idem, sr_state = job_state existing,
                          sr_reject_reason = None\<rparr>, ?s2)
      | None \<Rightarrow> apfst Inr (admit_job env limits ?sg (new_job ?now fresh ?idem user ?symbol ?side ?sz ?strat ?sg pc)
           (?s2\<lparr>jobs := jobs ?s2 @ [new_job ?now fresh ?idem user ?symbol ?side ?sz ?strat ?sg pc]\<rparr>)))"
      unfolding submit_signal_def Let_def using 3
      by (simp only: if_False if_True simp_thms split_def apfst_def map_prod_def id_apply not_not)
    show ?thesis
    proof (cases "find_row idempotency_key ?idem (jobs ?s2)")
      case (Some e)
      with unfolded t2 show ?thesis by (intro refused) simp_all
    next
      case None
      have "jobs ?s2 = jobs s" using t2 by (simp only: tables_eq_iff)
      with None have "?idem \<notin> idempotency_key ` set (jobs s)" by (simp only: find_row_None_iff not_False_eq_True)
      moreover have "?sg = sg \<or> ?sg = sg\<lparr>sig_size := Some ?sz\<rparr>" by simp
      moreover have "?sz = num_or (sig_size ?sg) 0" by simp
      moreover have "0 < ?sz" using 3 by (auto simp: not_le)
      moreover have "?symbol \<noteq> []" using 3 by blast
      moreover have "?res = apfst Inr (admit_job env limits ?sg (new_job ?now fresh ?idem user ?symbol ?side ?sz ?strat ?sg pc)
           (?s2\<lparr>jobs := jobs ?s2 @ [new_job ?now fresh ?idem user ?symbol ?side ?sz ?strat ?sg pc]\<rparr>))"
        using unfolded None by (simp only: option.case)
      moreover have "?idem = str_or key (build_idempotency_key user ?symbol ?side ?strat (sig_timestamp sg) (env_now_iso env))"
        by simp
      ultimately show ?thesis using t2 g2 by (intro admitted [OF _ _ _ _ _ _ _ _ _ _ refl refl refl])
    qed
  qed
qed

lemma submit_signal_keeps:
  assumes inv: "runtime_inv gap s" and fresh: "fresh \<notin> job_id ` set (jobs s)"
  shows "runtime_inv gap (snd (submit_signal env pc fresh user sg key limits s))"
proof (cases rule: submit_signal_cases [of env pc fresh user sg key limits s])
  case refused
  then show ?thesis using inv runtime_inv_tables by blast
next
  case (admitted idem symbol side sz strat sg' t)
  let ?j = "new_job (env_now env) fresh idem user symbol side sz strat sg' pc"
  have js: "jobs t = jobs s" using admitted(2) by (simp add: tables_eq_iff)
  have inv_t: "runtime_inv gap t" using inv runtime_inv_tables [OF admitted(2)] by simp
  have "retries_ok ?j" by (simp add: retries_ok_def)
  then have "runtime_inv gap (t\<lparr>jobs := jobs t @ [?j]\<rparr>)"
    using admitted(1) fresh by (intro runtime_inv_new_job [OF inv_t]) (simp_all add: js)
  moreover have "find_row job_id fresh (jobs s) = None" using fresh by (simp add: find_row_None_iff)
  then have "job_row (job_id ?j) (t\<lparr>jobs := jobs t @ [?j]\<rparr>) = Some ?j"
    by (simp add: job_row_def js)
  ultimately show ?thesis using admit_job_keeps by (simp add: admitted(5) apfst_def)
qed

end
