(* ===== verification/Order_Reconciliation.thy ===== *)
theory Order_Reconciliation
  imports Runtime_Invariants
begin

text \<open>
  \<open>run_order_reconciliation\<close> of \<open>src/backend/core/reconciliation/order_reconciliation.py\<close>: it
  asks the exchange for the status of the open orders and writes it into the tables. The
  answers of the exchange and the column \<open>updated_at\<close>, which the database maintains, are
  arguments.
\<close>

definition OPEN_STATES :: "string list" where
  "OPEN_STATES = [''CREATED'', ''SENT'', ''PARTIALLY_FILLED'']"

record order_status =
  os_status :: "string option"
  os_executed_qty :: "num option"
  os_avg_fill_price :: "num option"

record reconcile_issue =
  ri_order_id :: string
  ri_issue :: string
  ri_previous_state :: "string option"
  ri_exchange_state :: "string option"

record reconcile_report =
  rr_checked :: nat
  rr_mismatches :: nat
  rr_corrected :: nat
  rr_issues :: "reconcile_issue list"

definition open_orders :: "(order \<Rightarrow> timestamp) \<Rightarrow> int \<Rightarrow> store \<Rightarrow> order list" where
  "open_orders updated_at limit s =
     take (nat (max 1 (min limit 300)))
       (sort_key (\<lambda>ord. - updated_at ord)
         (filter (\<lambda>ord. order_state ord \<in> set OPEN_STATES \<and> external_order_id ord \<noteq> None) (orders s)))"

text \<open>The row of an order whose status differs, and the row of its job.\<close>

definition corrected_order :: "timestamp \<Rightarrow> string \<Rightarrow> order_status \<Rightarrow> order \<Rightarrow> order" where
  "corrected_order now exchange_state st ord =
     (let moved = ord\<lparr>order_state := exchange_state, order_last_transition_at := now\<rparr> in
      if exchange_state = ''FILLED''
      then moved\<lparr>filled_size := num_or (os_executed_qty st) (num_or (Some (filled_size ord)) (order_size ord)),
             avg_fill_price := Some (num_or (os_avg_fill_price st) (num_or (avg_fill_price ord) 0)),
             order_filled_at := Some now\<rparr>
      else moved)"

definition corrected_job :: "timestamp \<Rightarrow> string \<Rightarrow> job \<Rightarrow> job" where
  "corrected_job now exchange_state j =
     (if exchange_state = ''FILLED''
      then j\<lparr>job_state := ''FILLED'', job_filled_at := Some now, job_updated_at := now\<rparr>
      else if exchange_state \<in> set [''CANCELED'', ''FAILED'']
      then j\<lparr>job_state := exchange_state, job_failed_at := Some now, job_updated_at := now\<rparr>
      else j)"

definition save_corrected_job :: "timestamp \<Rightarrow> string \<Rightarrow> order \<Rightarrow> store \<Rightarrow> store" where
  "save_corrected_job now exchange_state ord s =
     (case job_row (order_job_id ord) s of None \<Rightarrow> s
      | Some j \<Rightarrow> save_job (corrected_job now exchange_state j) s)"

fun reconcile_orders ::
  "timestamp \<Rightarrow> (string \<Rightarrow> string option \<Rightarrow> string + order_status) \<Rightarrow> order list \<Rightarrow>
     reconcile_report \<Rightarrow> store \<Rightarrow> reconcile_report \<times> store" where
  "reconcile_orders now get_order_status [] rep s = (rep, s)"
| "reconcile_orders now get_order_status (ord # ords) rep s =
     (let rep1 = rep\<lparr>rr_checked := rr_checked rep + 1\<rparr>;
          note = (\<lambda>kind prev st. \<lparr>ri_order_id = order_id ord, ri_issue = kind,
                    ri_previous_state = prev, ri_exchange_state = st\<rparr>)
      in case get_order_status (order_symbol ord) (external_order_id ord) of
        Inl e \<Rightarrow> reconcile_orders now get_order_status ords
          (rep1\<lparr>rr_issues := rr_issues rep1 @ [note ''status_fetch_failed'' None None]\<rparr>) s
      | Inr st \<Rightarrow>
          let exchange_state = upper (str_or (os_status st) []) in
          if exchange_state = [] \<or> exchange_state = upper (order_state ord)
          then reconcile_orders now get_order_status ords rep1 s
          else reconcile_orders now get_order_status ords
            (rep1\<lparr>rr_mismatches := rr_mismatches rep1 + 1, rr_corrected := rr_corrected rep1 + 1,
                  rr_issues := rr_issues rep1 @
                    [note ''state_mismatch_corrected'' (Some (order_state ord)) (Some exchange_state)]\<rparr>)
            (save_corrected_job now exchange_state ord
              (save_order (corrected_order now exchange_state st ord) s)))"

definition run_order_reconciliation ::
  "timestamp \<Rightarrow> (string \<Rightarrow> string option \<Rightarrow> string + order_status) \<Rightarrow> (order \<Rightarrow> timestamp) \<Rightarrow> int \<Rightarrow>
     store \<Rightarrow> reconcile_report \<times> store" where
  "run_order_reconciliation now get_order_status updated_at limit s =
     reconcile_orders now get_order_status (open_orders updated_at limit s)
       \<lparr>rr_checked = 0, rr_mismatches = 0, rr_corrected = 0, rr_issues = []\<rparr> s"

section \<open>Lemmas\<close>

lemma order_id_corrected [simp]: "order_id (corrected_order now es st ord) = order_id ord"
  by (simp add: corrected_order_def Let_def)

lemma order_state_corrected [simp]: "order_state (corrected_order now es st ord) = es"
  by (simp add: corrected_order_def Let_def)

lemma save_corrected_job_frame [simp]:
  "orders (save_corrected_job now es ord s) = orders s"
  "positions (save_corrected_job now es ord s) = positions s"
  "order_row k (save_corrected_job now es ord s) = order_row k s"
  by (simp_all add: save_corrected_job_def save_job_def order_row_def split: option.split)

text \<open>What the exchange says of an order, when it answers.\<close>

definition reported_state ::
  "(string \<Rightarrow> string option \<Rightarrow> string + order_status) \<Rightarrow> order \<Rightarrow> string" where
  "reported_state get_order_status ord =
     (case get_order_status (order_symbol ord) (external_order_id ord) of
        Inl e \<Rightarrow> [] | Inr st \<Rightarrow> upper (str_or (os_status st) []))"

lemma reconcile_other_order:
  "k \<notin> order_id ` set ords \<Longrightarrow> order_row k (snd (reconcile_orders now g ords rep s)) = order_row k s"
  by (induction ords arbitrary: rep s)
     (auto simp: Let_def order_table.lookup_save split: sum.split)

lemma reconcile_keeps_rows:
  "order_row k (snd (reconcile_orders now g ords rep s)) = None \<longleftrightarrow> order_row k s = None"
  by (induction ords arbitrary: rep s)
     (auto simp: Let_def order_table.present_save split: sum.split)

lemma reconcile_writes_report:
  "distinct (map order_id ords) \<Longrightarrow> ord \<in> set ords \<Longrightarrow> order_row (order_id ord) s = Some ord \<Longrightarrow>
     reported_state g ord \<noteq> [] \<Longrightarrow>
     \<exists>ord'. order_row (order_id ord) (snd (reconcile_orders now g ords rep s)) = Some ord' \<and>
        upper (order_state ord') = reported_state g ord"
proof (induction ords arbitrary: rep s)
  case Nil
  then show ?case by simp
next
  case (Cons o1 ords)
  show ?case
  proof (cases "o1 = ord")
    case True
    then have away: "order_id ord \<notin> order_id ` set ords" using Cons.prems(1) by auto
    obtain st where st: "g (order_symbol ord) (external_order_id ord) = Inr st"
      and rep: "reported_state g ord = upper (str_or (os_status st) [])"
      using Cons.prems(4) by (auto simp: reported_state_def split: sum.splits)
    show ?thesis
      using Cons.prems(3,4) True st rep
      by (auto simp: Let_def reconcile_other_order [OF away] order_table.lookup_save)
  next
    case False
    then have o_in: "ord \<in> set ords" and diff: "order_id o1 \<noteq> order_id ord"
      using Cons.prems(1,2) by auto
    have kept: "order_row (order_id ord) (save_order (corrected_order now es st o1) s) = Some ord" for es st
      using Cons.prems(3) diff by (simp add: order_table.lookup_save)
    have ord_distinct: "distinct (map order_id ords)" using Cons.prems(1) by simp
    show ?thesis
      using Cons.IH [OF ord_distinct o_in _ Cons.prems(4)] Cons.prems(3) kept
      by (auto simp: Let_def split: sum.split)
  qed
qed

lemma reconcile_positions [simp]: "positions (snd (reconcile_orders now g ords rep s)) = positions s"
  by (induction ords arbitrary: rep s) (auto simp: Let_def save_order_def split: sum.split)

lemma reconcile_checked:
  "rr_checked (fst (reconcile_orders now g ords rep s)) = rr_checked rep + length ords"
  by (induction ords arbitrary: rep s) (auto simp: Let_def split: sum.split)

lemma open_orders_in:
  "ord \<in> set (open_orders u limit s) \<Longrightarrow> ord \<in> set (orders s) \<and> order_state ord \<in> set OPEN_STATES"
  by (auto simp: open_orders_def dest!: in_set_takeD)

lemma distinct_open_orders:
  "distinct (map order_id (orders s)) \<Longrightarrow> distinct (map order_id (open_orders u limit s))"
proof -
  assume "distinct (map order_id (orders s))"
  then have d: "distinct (orders s)" "inj_on order_id (set (orders s))"
    by (simp_all add: distinct_map)
  let ?xs = "open_orders u limit s"
  have "distinct ?xs" using d(1) by (simp add: open_orders_def distinct_take)
  moreover have "inj_on order_id (set ?xs)"
    using d(2) by (rule inj_on_subset) (auto dest: open_orders_in)
  ultimately show ?thesis by (simp add: distinct_map)
qed

section \<open>The tables under reconciliation\<close>

text \<open>The rows that a run changes are the open orders it looked at; each keeps its identifier and its job.\<close>

lemma save_row_as_map:
  assumes "distinct (map key rs)" and "find_row key (key r) rs = Some old"
  shows "save_row key r rs = map (\<lambda>x. if x = old then r else x) rs"
proof -
  have old: "old \<in> set rs" "key old = key r" using assms(2) find_row_in find_row_key by fastforce+
  have inj: "inj_on key (set rs)" using assms(1) by (simp add: distinct_map)
  have "(key x = key r) = (x = old)" if "x \<in> set rs" for x
    using inj_on_eq_iff [OF inj that old(1)] old(2) by simp
  then show ?thesis by (simp add: save_row_def)
qed

definition corrected_by :: "(order \<Rightarrow> order) \<Rightarrow> order list \<Rightarrow> bool" where
  "corrected_by f ords \<longleftrightarrow> list_all (\<lambda>x. f x = x \<or> order_state x \<in> set OPEN_STATES \<and> order_id (f x) = order_id x) ords"

lemma corrected_job_keeps [simp]:
  "job_id (corrected_job now es j) = job_id j" "idempotency_key (corrected_job now es j) = idempotency_key j"
  "retry_count (corrected_job now es j) = retry_count j" "max_retry (corrected_job now es j) = max_retry j"
  by (simp_all add: corrected_job_def)

lemma corrected_job_done: "job_done j \<or> upper es = es \<and> is_terminal es \<Longrightarrow> job_done (corrected_job now es j)"
  by (auto simp: corrected_job_def job_done_def is_terminal_def TERMINAL_STATES_def)

text \<open>A correction keeps the rows: the job of an order that is over is over as well.\<close>

lemma rows_inv_corrected:
  assumes inv: "rows_inv s" and ord: "order_row (order_id ord) s = Some ord" and up: "upper es = es" "es \<noteq> []"
  shows "rows_inv (save_corrected_job now es ord (save_order (corrected_order now es st ord) s))"
proof -
  let ?o = "corrected_order now es st ord"
  have in_table: "ord \<in> set (orders s)" using ord by (auto simp: order_row_def dest: find_row_in)
  then have "linked (jobs s) ord" using inv by (simp add: rows_inv_def list_all_iff)
  then obtain j where j: "job_row (order_job_id ord) s = Some j" by (auto simp: linked_def job_row_def split: option.splits)
  have id: "job_id j = order_job_id ord" using j by (rule job_table.lookup_key)
  let ?j = "corrected_job now es j"
  have "j \<in> set (jobs s)" using j by (auto simp: job_row_def dest: find_row_in)
  then have ok: "retries_ok j" using inv by (simp add: rows_inv_def list_all_iff)
  then have ok': "retries_ok ?j" using corrected_job_done by (auto simp: retries_ok_def)
  have rows: "rows_inv (save_job ?j s)"
    using j id ok' corrected_job_done by (intro rows_inv_save_job [OF inv, where old = j]) auto
  have "job_row (order_job_id ord) (save_job ?j s) = Some ?j"
    using j id by (simp add: job_table.lookup_save)
  moreover have "order_job_id ?o = order_job_id ord" by (simp add: corrected_order_def Let_def)
  moreover have "current_state ?o = es" using up by (simp add: current_state_def str_or_def)
  moreover have "is_terminal es \<longrightarrow> job_done ?j" using up(1) corrected_job_done by blast
  ultimately have link: "linked (jobs (save_job ?j s)) ?o" by (simp add: linked_def job_row_def)
  have "rows_inv (save_order ?o (save_job ?j s))"
    by (rule rows_inv_save_order [OF rows _ _ link, where old = ord])
      (use ord in \<open>simp_all add: order_row_save_job corrected_order_def Let_def\<close>)
  moreover have "save_corrected_job now es ord (save_order ?o s) = save_order ?o (save_job ?j s)"
    using j by (simp add: save_corrected_job_def job_row_save_order) (simp add: save_job_def save_order_def)
  ultimately show ?thesis by simp
qed

lemma reconcile_tables:
  "rows_inv s \<Longrightarrow> distinct (map order_id ords) \<Longrightarrow>
   list_all (\<lambda>ord. order_row (order_id ord) s = Some ord \<and> order_state ord \<in> set OPEN_STATES) ords \<Longrightarrow>
   rows_inv (snd (reconcile_orders now g ords rep s)) \<and>
   (\<exists>f. orders (snd (reconcile_orders now g ords rep s)) = map f (orders s) \<and> corrected_by f (orders s))"
proof (induction ords arbitrary: rep s)
  case Nil
  show ?case using Nil.prems(1) by (auto simp: corrected_by_def list_all_iff intro: exI [of _ "\<lambda>x. x"])
next
  case (Cons ord ords)
  have later: "list_all (\<lambda>ord. order_row (order_id ord) s = Some ord \<and> order_state ord \<in> set OPEN_STATES) ords"
    "distinct (map order_id ords)" and ord: "order_row (order_id ord) s = Some ord" "order_state ord \<in> set OPEN_STATES"
    using Cons.prems(2,3) by simp_all
  show ?case
  proof (cases "reported_state g ord = [] \<or> reported_state g ord = upper (order_state ord)")
    case True
    then show ?thesis
      using Cons.IH [OF Cons.prems(1) later(2,1)] by (auto simp: Let_def reported_state_def split: sum.split)
  next
    case False
    let ?es = "reported_state g ord"
    obtain st where st: "g (order_symbol ord) (external_order_id ord) = Inr st" and es: "?es = upper (str_or (os_status st) [])"
      using False by (auto simp: reported_state_def split: sum.splits)
    let ?o = "corrected_order now ?es st ord"
    let ?s = "save_corrected_job now ?es ord (save_order ?o s)"
    have inv: "rows_inv ?s" using False es by (intro rows_inv_corrected [OF Cons.prems(1) ord(1)]) simp_all
    have "list_all (\<lambda>x. order_row (order_id x) ?s = Some x \<and> order_state x \<in> set OPEN_STATES) ords"
      using later(1) Cons.prems(2) by (auto simp: list_all_iff order_table.lookup_save image_iff)
    then obtain f rep' where f: "orders (snd (reconcile_orders now g (ord # ords) rep s)) = map f (orders ?s)" "corrected_by f (orders ?s)"
      "rows_inv (snd (reconcile_orders now g (ord # ords) rep s))"
      using Cons.IH [OF inv later(2)] False st es by (simp add: Let_def) blast
    have ids: "distinct (map order_id (orders s))" using Cons.prems(1) by (simp add: rows_inv_def rows_unique_def)
    have "orders ?s = map (\<lambda>x. if x = ord then ?o else x) (orders s)"
      using save_row_as_map [OF ids, of ?o ord] ord(1) by (simp add: order_row_def) (simp add: save_order_def)
    moreover have "corrected_by (\<lambda>x. f (if x = ord then ?o else x)) (orders s)"
      using f(2) ord(2) unfolding \<open>orders ?s = _\<close> corrected_by_def list_all_iff by force
    ultimately show ?thesis using f(1,3) by (intro conjI exI [of _ "\<lambda>x. f (if x = ord then ?o else x)"]) simp_all
  qed
qed

text \<open>The orders of a store that a run has set to \<open>FILLED\<close>.\<close>

definition newly_filled :: "store \<Rightarrow> store \<Rightarrow> order list" where
  "newly_filled s t = filter (\<lambda>ord. current_state ord = ''FILLED'' \<and>
     (case order_row (order_id ord) s of None \<Rightarrow> True | Some old \<Rightarrow> current_state old \<noteq> ''FILLED'')) (orders t)"

lemma open_not_filled: "order_state ord \<in> set OPEN_STATES \<Longrightarrow> current_state ord \<noteq> ''FILLED''"
  by (auto simp: OPEN_STATES_def current_state_def str_or_def upper_def)

lemma booked_corrected:
  assumes "corrected_by f ords" and "list_all (\<lambda>x. order_row (order_id x) s = Some x) ords"
  shows "sum_list (map (booked_qty k) (map f ords)) = sum_list (map (booked_qty k) ords) +
    sum_list (map (booked_qty k) (filter (\<lambda>ord. current_state ord = ''FILLED'' \<and>
      (case order_row (order_id ord) s of None \<Rightarrow> True | Some old \<Rightarrow> current_state old \<noteq> ''FILLED'')) (map f ords)))"
  using assms
proof (induction ords)
  case (Cons x xs)
  have row: "order_row (order_id (f x)) s = Some x" using Cons.prems by (auto simp: corrected_by_def)
  consider "f x = x" | "current_state x \<noteq> ''FILLED''" using Cons.prems(1) open_not_filled by (auto simp: corrected_by_def)
  then show ?case
  proof cases
    case 1
    then show ?thesis using Cons row by (simp add: corrected_by_def booked_qty_def)
  next
    case 2
    then have "booked_qty k x = 0" by (simp add: booked_qty_def)
    moreover have "current_state (f x) \<noteq> ''FILLED'' \<Longrightarrow> booked_qty k (f x) = 0" by (simp add: booked_qty_def)
    ultimately show ?thesis using Cons row 2 by (auto simp: corrected_by_def)
  qed
qed simp

lemma reconciliation_keeps:
  assumes inv: "runtime_inv gap s" and run: "run_order_reconciliation now g u limit s = (rep, t)"
  shows "runtime_inv (\<lambda>k. gap k + sum_list (map (booked_qty k) (newly_filled s t))) t"
proof -
  let ?r0 = "\<lparr>rr_checked = 0, rr_mismatches = 0, rr_corrected = 0, rr_issues = []\<rparr>"
  have t: "t = snd (reconcile_orders now g (open_orders u limit s) ?r0 s)"
    using run by (simp add: run_order_reconciliation_def)
  have rows: "rows_inv s" using inv by (simp add: runtime_inv_rows)
  have ids: "distinct (map order_id (orders s))" using rows by (simp add: rows_inv_def rows_unique_def)
  have own: "order_row (order_id x) s = Some x" if "x \<in> set (orders s)" for x
    using find_row_unique [OF ids that] by (simp add: order_row_def)
  have "list_all (\<lambda>ord. order_row (order_id ord) s = Some ord \<and> order_state ord \<in> set OPEN_STATES) (open_orders u limit s)"
    using open_orders_in [of _ u limit s] own by (auto simp: list_all_iff)
  from reconcile_tables [OF rows distinct_open_orders [OF ids] this, of now g ?r0]
  obtain f where f: "rows_inv t" "orders t = map f (orders s)" "corrected_by f (orders s)" unfolding t by auto
  have "list_all (\<lambda>x. order_row (order_id x) s = Some x) (orders s)" using own by (simp add: list_all_iff)
  from booked_corrected [OF f(3) this] have sums: "sum_list (map (booked_qty k) (orders t)) =
      sum_list (map (booked_qty k) (orders s)) + sum_list (map (booked_qty k) (newly_filled s t))" for k
    by (simp add: newly_filled_def f(2))
  have "positions t = positions s" by (simp add: t)
  then have "position_qty k t = position_qty k s" for k by (simp add: position_qty_def position_row_def)
  then have "book_balanced (\<lambda>k. gap k + sum_list (map (booked_qty k) (newly_filled s t))) t"
    using inv by (simp add: runtime_inv_rows book_balanced_def sums add.assoc [symmetric])
  then show ?thesis using f(1) by (simp add: runtime_inv_rows)
qed

end
