(* ===== verification/Runtime_Properties.thy ===== *)
theory Runtime_Properties
  imports Order_Reconciliation
begin

text \<open>
  The properties of the execution runtime as a whole: what holds in every reachable state, what
  an accepted signal guarantees, and how the retries of a job end.
\<close>

section \<open>Reachable states\<close>

text \<open>
  Signals are submitted, the worker consumes the queue, and the two kill switches are set and
  cleared; an administrator or the go-live checklist reconciles the orders with the exchange. All in
  any order.
\<close>

inductive engine_step :: "store \<Rightarrow> store \<Rightarrow> bool" where
  submit: "fresh \<notin> job_id ` set (jobs s) \<Longrightarrow>
     engine_step s (snd (submit_signal env pc fresh user sg key limits s))"
| consume: "fresh \<notin> order_id ` set (orders s) \<Longrightarrow>
     (case adapter of Inl e \<Rightarrow> True | Inr a \<Rightarrow> reports_upper a) \<Longrightarrow>
     engine_step s (snd (consume_execution_queue_once env adapter fresh s))"
| activate: "engine_step s (snd (activate_kill_switch now src reason md s))"
| deactivate: "engine_step s (snd (deactivate_kill_switch now src reason s))"
| block: "engine_step s (block_all_trades reason s)"
| clear: "engine_step s (clear_kill_switch s)"

inductive runtime_step :: "store \<Rightarrow> store \<Rightarrow> bool" where
  engine: "engine_step s t \<Longrightarrow> runtime_step s t"
| reconcile: "runtime_step s (snd (run_order_reconciliation now g u limit s))"

inductive reachable :: "store \<Rightarrow> bool" where
  start: "reachable empty_store"
| step: "reachable s \<Longrightarrow> runtime_step s t \<Longrightarrow> reachable t"

inductive_cases runtime_stepE: "runtime_step s t"

text \<open>
  The reachable states with the history of the reconciliation: the rows of the orders that its runs
  have set to \<open>FILLED\<close>, as they were written.
\<close>

inductive reaches :: "order list \<Rightarrow> store \<Rightarrow> bool" where
  start: "reaches [] empty_store"
| engine: "reaches fills s \<Longrightarrow> engine_step s t \<Longrightarrow> reaches fills t"
| reconcile: "reaches fills s \<Longrightarrow> t = snd (run_order_reconciliation now g u limit s) \<Longrightarrow>
     reaches (fills @ newly_filled s t) t"

lemma reachable_reaches: "reachable s \<longleftrightarrow> (\<exists>fills. reaches fills s)"
proof
  show "reachable s \<Longrightarrow> \<exists>fills. reaches fills s"
    by (induction rule: reachable.induct) (blast intro: reaches.start, blast elim: runtime_stepE intro: reaches.intros)
  show "\<exists>fills. reaches fills s \<Longrightarrow> reachable s"
  proof (elim exE)
    show "reaches fills s \<Longrightarrow> reachable s" for fills
      by (induction rule: reaches.induct) (blast intro: reachable.intros runtime_step.intros)+
  qed
qed

lemma engine_step_keeps: "engine_step s t \<Longrightarrow> runtime_inv gap s \<Longrightarrow> runtime_inv gap t"
proof (induction rule: engine_step.induct)
  case (submit fresh s env pc user sg key limits)
  then show ?case by (simp add: submit_signal_keeps)
next
  case (consume fresh s adapter env)
  then show ?case by (simp add: consume_keeps)
qed (auto simp: tables_simps intro: runtime_inv_tables [THEN iffD1, rotated])

text \<open>The gap between the book and the orders is what the reconciliation has filled.\<close>

lemma reaches_inv: "reaches fills s \<Longrightarrow> runtime_inv (\<lambda>k. sum_list (map (booked_qty k) fills)) s"
proof (induction rule: reaches.induct)
  case start
  show ?case using runtime_inv_empty by simp
next
  case (engine fills s t)
  show ?case by (rule engine_step_keeps [OF engine.hyps(2) engine.IH])
next
  case (reconcile fills s t now g u limit)
  obtain rep where "run_order_reconciliation now g u limit s = (rep, t)" using reconcile.hyps(2) by (metis prod.collapse)
  from reconciliation_keeps [OF reconcile.IH this] show ?case by simp
qed

lemma reachable_rows: "reachable s \<Longrightarrow> rows_inv s"
  using reaches_inv by (auto simp: reachable_reaches runtime_inv_rows)

lemma job_of_reachable:
  assumes "reachable s" "j \<in> set (jobs s)"
  shows "retries_ok j"
  using reachable_rows [OF assms(1)] assms(2) by (simp add: rows_inv_def list_all_iff)

section \<open>Rounds of the worker\<close>

fun work_rounds :: "(run_env \<times> string) list \<Rightarrow> adapter \<Rightarrow> store \<Rightarrow> store" where
  "work_rounds [] ad s = s"
| "work_rounds ((env, fresh) # rounds) ad s =
     work_rounds rounds ad (snd (consume_execution_queue_once env (Inr ad) fresh s))"

text \<open>Rounds at least 8 seconds apart, the longest back-off.\<close>

fun spaced :: "(run_env \<times> string) list \<Rightarrow> bool" where
  "spaced [] = True"
| "spaced [_] = True"
| "spaced (r # q # rs) = (env_now (fst r) + 8000 \<le> env_now (fst q) \<and> spaced (q # rs))"

definition unreachable_exchange :: "adapter \<Rightarrow> bool" where
  "unreachable_exchange ad \<longleftrightarrow>
     (\<exists>e. available_balance ad = Inl e) \<or> (\<forall>req. \<exists>e. submit_order ad req = Inl e)"

lemma unreachable_attempt:
  "unreachable_exchange ad \<Longrightarrow> \<exists>e. attempt_execution env ad wait j ord s = (Inl e, j, ord, s)"
  by (auto simp: unreachable_exchange_def attempt_execution_def dest: spec [of _ "request_of j"]
      split: sum.splits)

lemma backoff_bounds: "1000 \<le> backoff_ms r \<and> backoff_ms r \<le> 8000"
  by (simp add: backoff_ms_def)

lemma is_failed_attempt:
  "\<not> job_done j \<Longrightarrow> is_failed (failed_attempt env msg wait j) \<longleftrightarrow> max_retry j \<le> retry_count j + 1"
  by (auto simp: is_failed_def job_done_def TERMINAL_STATES_def)

lemma find_row_Some_key: "find_row key k rs = Some r \<Longrightarrow> k \<in> key ` set rs"
  by (metis find_row_None_iff option.distinct(1))

lemma create_or_get_order_orders:
  assumes "create_or_get_order now fresh j (s\<lparr>queue := q\<rparr>) = (ord, s\<lparr>queue := q, orders := ords\<rparr>)"
  shows "orders (snd (create_or_get_order now fresh j s)) = ords"
proof -
  have "orders (snd (create_or_get_order now fresh j (s\<lparr>queue := q\<rparr>))) = orders (snd (create_or_get_order now fresh j s))"
    by (simp add: create_or_get_order_def Let_def split: option.split)
  then show ?thesis by (simp add: assms)
qed

lemma create_or_get_order_frame:
  "create_or_get_order now fresh j s = (ord, s') \<Longrightarrow>
     jobs s' = jobs s \<and> queue s' = queue s \<and> positions s' = positions s \<and>
     s' = s\<lparr>orders := orders s'\<rparr> \<and> order_job_id ord = job_id j \<and> ord \<in> set (orders s') \<and>
     (job_id j \<notin> order_job_id ` set (orders s) \<longrightarrow> orders s' = orders s @ [ord] \<and> order_state ord = ''CREATED'')"
  by (auto simp: create_or_get_order_def Let_def find_row_None_iff
      dest: find_row_key find_row_in find_row_Some_key split: option.splits)

lemma failed_round:
  assumes q: "queue s = p # q" and row: "job_row (qp_job_id p) s = Some j"
    and live: "\<not> job_done j" "qp_job_id p \<noteq> []" "is_due (env_now env) p"
    and ad: "unreachable_exchange ad"
    and round: "consume_execution_queue_once env (Inr ad) fresh s = (r, s')"
  shows "\<exists>j' ord. job_row (qp_job_id p) s' = Some j' \<and> retry_count j' = retry_count j + 1 \<and>
    max_retry j' = max_retry j \<and>
    job_state j' = (if max_retry j \<le> retry_count j + 1 then ''FAILED'' else job_state j) \<and>
    queue s' = q @ (if max_retry j \<le> retry_count j + 1 then []
      else [p\<lparr>qp_retry_count := retry_count j + 1,
               qp_retry_at_ts := Some (env_now env + backoff_ms (retry_count j + 1))\<rparr>]) \<and>
    create_or_get_order (env_now env) fresh j (s\<lparr>queue := q\<rparr>) = (ord, s\<lparr>queue := q, orders := orders s'\<rparr>) \<and>
    positions s' = positions s"
proof -
  let ?s = "s\<lparr>queue := q\<rparr>"
  have row': "job_row (qp_job_id p) ?s = Some j" using row by (simp add: job_row_def)
  have jid: "job_id j = qp_job_id p" using row by (rule job_table.lookup_key)
  obtain ord s1 where created: "create_or_get_order (env_now env) fresh j ?s = (ord, s1)" by fastforce
  note frame = create_or_get_order_frame [OF created]
  let ?w = "waited (env_now env) p"
  let ?j = "job_waited (env_now env) p j"
  obtain msg where att: "attempt_execution env ad ?w ?j ord (save_job ?j s1) = (Inl msg, ?j, ord, save_job ?j s1)"
    using unreachable_attempt [OF ad] by blast
  have s': "s' = snd (handle_failure env msg ?w p ?j ord (save_job ?j s1))"
    using round by (simp add: consume_execution_queue_once_def q
        execute_queued_job_attempts [OF row' live created] att map_prod_def split_def)
  let ?f = "failed_attempt env msg ?w ?j"
  let ?t = "if max_retry j \<le> retry_count j + 1 then save_job ?f (save_job ?j s1)
      else requeue (env_now env) ?f p (save_job ?f (save_job ?j s1))"
  have live': "\<not> job_done ?j" using live(1) by (simp add: job_done_def)
  have t: "tables s' = tables ?t"
    by (simp add: s' handle_failure_tables Let_def is_failed_attempt [OF live'])
  have jobs: "job_row (qp_job_id p) s' = Some ?f"
  proof -
    have "job_row (qp_job_id p) s' = job_row (qp_job_id p) (save_job ?f (save_job ?j s1))"
      using t by (simp add: tables_eq_iff job_row_def requeue_def split: if_splits)
    also have "\<dots> = Some ?f"
      using row frame jid by (simp add: job_table.lookup_save) (simp add: job_row_def)
    finally show ?thesis .
  qed
  have rest: "orders s' = orders s1" "positions s' = positions s"
    "queue s' = q @ (if max_retry j \<le> retry_count j + 1 then []
      else [p\<lparr>qp_retry_count := retry_count j + 1,
               qp_retry_at_ts := Some (env_now env + backoff_ms (retry_count j + 1))\<rparr>])"
    using t frame by (auto simp: tables_eq_iff requeue_def save_job_def split: if_splits)
  have "s1 = s\<lparr>queue := q, orders := orders s'\<rparr>" using frame rest(1) by simp
  with jobs rest created show ?thesis by (intro exI [of _ ?f] exI [of _ ord]) simp
qed

lemma due_after_backoff:
  "t + 8000 \<le> now \<Longrightarrow> is_due now (p\<lparr>qp_retry_count := c, qp_retry_at_ts := Some (t + backoff_ms r)\<rparr>)"
  using backoff_bounds [of r] by (auto simp: is_due_def int_or_def)

lemma work_rounds_fail:
  "queue s = [p] \<Longrightarrow> job_row (qp_job_id p) s = Some j \<Longrightarrow> \<not> job_done j \<Longrightarrow> qp_job_id p \<noteq> [] \<Longrightarrow>
   unreachable_exchange ad \<Longrightarrow> spaced ((env, fresh) # rounds) \<Longrightarrow> is_due (env_now env) p \<Longrightarrow>
   int (length rounds) = max_retry j - retry_count j - 1 \<Longrightarrow>
   queue (work_rounds ((env, fresh) # rounds) ad s) = [] \<and>
   positions (work_rounds ((env, fresh) # rounds) ad s) = positions s \<and>
   (\<exists>j'. job_row (qp_job_id p) (work_rounds ((env, fresh) # rounds) ad s) = Some j' \<and>
      job_state j' = ''FAILED'' \<and> retry_count j' = max_retry j \<and>
      orders (work_rounds ((env, fresh) # rounds) ad s) =
        orders (snd (create_or_get_order (env_now env) fresh j s)))"
proof (induction rounds arbitrary: env fresh s p j)
  case Nil
  obtain r s' where round: "consume_execution_queue_once env (Inr ad) fresh s = (r, s')" by fastforce
  obtain ord where "create_or_get_order (env_now env) fresh j (s\<lparr>queue := []\<rparr>) = (ord, s\<lparr>queue := [], orders := orders s'\<rparr>)"
    using failed_round [OF Nil(1-4) Nil(7) Nil(5) round] by blast
  then have "orders (snd (create_or_get_order (env_now env) fresh j s)) = orders s'"
    by (rule create_or_get_order_orders)
  with failed_round [OF Nil(1-4) Nil(7) Nil(5) round] Nil(8) round show ?case by auto
next
  case (Cons r rounds)
  obtain env2 fresh2 where r: "r = (env2, fresh2)" by fastforce
  obtain o1 s' where round: "consume_execution_queue_once env (Inr ad) fresh s = (o1, s')" by fastforce
  let ?p = "p\<lparr>qp_retry_count := retry_count j + 1,
               qp_retry_at_ts := Some (env_now env + backoff_ms (retry_count j + 1))\<rparr>"
  have more: "\<not> max_retry j \<le> retry_count j + 1" using Cons.prems(8) by simp
  obtain j' ord where j': "job_row (qp_job_id p) s' = Some j'" "retry_count j' = retry_count j + 1"
      "max_retry j' = max_retry j" "job_state j' = job_state j" "queue s' = [?p]"
      "positions s' = positions s"
    and created: "create_or_get_order (env_now env) fresh j (s\<lparr>queue := []\<rparr>) = (ord, s\<lparr>queue := [], orders := orders s'\<rparr>)"
    using failed_round [OF Cons.prems(1-4) Cons.prems(7) Cons.prems(5) round] more by auto
  have due: "is_due (env_now env2) ?p"
    by (rule due_after_backoff) (use Cons.prems(6) r in simp)
  have "job_id j' = job_id j" using j'(1) Cons.prems(2) job_table.lookup_key by metis
  moreover have "order_job_id ord = job_id j \<and> ord \<in> set (orders s')"
    using create_or_get_order_frame [OF created] by simp
  ultimately have "job_id j' \<in> order_job_id ` set (orders s')" by (metis imageI)
  then have "\<exists>o2. find_row order_job_id (job_id j') (orders s') = Some o2"
    using find_row_None_iff [of order_job_id "job_id j'" "orders s'"]
    by (cases "find_row order_job_id (job_id j') (orders s')") blast+
  then have same: "orders (snd (create_or_get_order (env_now env2) fresh2 j' s')) = orders s'"
    by (auto simp: create_or_get_order_def)
  have same': "orders (snd (create_or_get_order (env_now env) fresh j s)) = orders s'"
    using created by (rule create_or_get_order_orders)
  have "\<not> job_done j'" using Cons.prems(3) j'(4) by (simp add: job_done_def)
  then have "queue (work_rounds ((env2, fresh2) # rounds) ad s') = [] \<and>
     positions (work_rounds ((env2, fresh2) # rounds) ad s') = positions s' \<and>
     (\<exists>j''. job_row (qp_job_id ?p) (work_rounds ((env2, fresh2) # rounds) ad s') = Some j'' \<and>
        job_state j'' = ''FAILED'' \<and> retry_count j'' = max_retry j' \<and>
        orders (work_rounds ((env2, fresh2) # rounds) ad s') =
          orders (snd (create_or_get_order (env_now env2) fresh2 j' s')))"
    by (intro Cons.IH) (use Cons.prems j' due r in simp_all)
  then show ?case using round r j' same same' by simp
qed


section \<open>Properties\<close>

definition sample_env :: run_env where
  "sample_env = \<lparr>env_now = 1000, env_now_iso = ''2024-01-01T00:00:01'',
     env_thresholds = \<lparr>failed_orders_window = 20, failed_orders_threshold = 5,
       queue_depth_threshold = 50, execution_latency_ms_threshold = 1200\<rparr>,
     env_canary = \<lparr>CANARY_MODE = None, CANARY_MAX_NOTIONAL = None,
       CANARY_ALLOWED_STRATEGIES = None, CANARY_ALLOWED_USER_IDS = None\<rparr>,
     env_role = (\<lambda>_. None), env_execution_ms = 5\<rparr>"

definition sample_signal :: signal where
  "sample_signal = \<lparr>sig_symbol = Some ''btcusdt'', sig_side = Some ''buy'', sig_size = Some 2,
     sig_strategy_name = None, sig_mark_price = Some 100, sig_leverage = Some 1,
     sig_confidence = None, sig_timestamp = Some ''t0''\<rparr>"

definition sample_precheck :: precheck where
  "sample_precheck = \<lparr>pc_valid = True, pc_adjusted_size = None, pc_guard_venue = None,
     pc_guard_expected_slippage_bps = None\<rparr>"

definition sim_adapter :: adapter where
  "sim_adapter = \<lparr>available_balance = Inr (Some 1000000),
     submit_order = (\<lambda>req. Inr (sim_submit_order 1 (req_idempotency_key req)
        (Some (req_mark_price req)) (Some (req_size req))))\<rparr>"

text \<open>A signal submitted to the empty store and executed by the simulated adapter.\<close>

definition sample_submitted :: store where
  "sample_submitted = snd (submit_signal sample_env sample_precheck ''j1'' ''u1'' sample_signal None [] empty_store)"

definition sample_executed :: store where
  "sample_executed = snd (consume_execution_queue_once sample_env (Inr sim_adapter) ''o1'' sample_submitted)"

lemma sim_adapter_reports: "reports_upper sim_adapter"
  by (simp add: reports_upper_def sim_adapter_def reports_upper_sim)

lemma sample_submitted_reachable: "reachable sample_submitted"
  unfolding sample_submitted_def
  by (rule reachable.step [OF reachable.start], rule runtime_step.engine, rule engine_step.submit) (simp add: empty_store_def)

definition sample_payload :: queue_payload where
  "sample_payload = \<lparr>qp_job_id = ''j1'', qp_idempotency_key = ''u1:BTCUSDT:BUY:runtime_strategy:t0'',
     qp_user_id = ''u1'', qp_symbol = ''BTCUSDT'', qp_side = ''BUY'', qp_size = 2,
     qp_strategy_name = ''runtime_strategy'', qp_created_at = 1000, qp_enqueued_at = Some 1000,
     qp_retry_count = 0, qp_retry_at_ts = None\<rparr>"

lemma sample_submitted_row:
  obtains j where "job_row ''j1'' sample_submitted = Some j" "job_state j = ''CREATED''"
    "retry_count j = 0" "max_retry j = 3" "required_margin j = 200"
proof -
  have "map_option (\<lambda>j. (job_state j, retry_count j, max_retry j, required_margin j)) (job_row ''j1'' sample_submitted)
      = Some (''CREATED'', 0, 3, 200)"
    by code_simp
  then show ?thesis using that by (auto simp: map_option_eq_Some)
qed

lemma sample_submitted_queue: "queue sample_submitted = [sample_payload]"
  by code_simp

lemma sample_submitted_orders: "orders sample_submitted = []"
  by code_simp

lemma sample_reachable: "reachable sample_executed"
  unfolding sample_executed_def
  by (intro reachable.step [OF sample_submitted_reachable] runtime_step.engine engine_step.consume)
    (simp_all add: sim_adapter_reports sample_submitted_orders)

text \<open>
  C4: In every reachable state the tables agree: identifiers of jobs and orders are unique, no
  two jobs share an idempotency key, no two orders belong to one job, and every order belongs to
  a stored job, which is over as soon as the order is.
\<close>

theorem reachable_tables_agree:
  assumes "reachable s"
  shows "distinct (map job_id (jobs s)) \<and> distinct (map order_id (orders s)) \<and>
     distinct (map idempotency_key (jobs s)) \<and> distinct (map order_job_id (orders s)) \<and>
     list_all (\<lambda>ord. case job_row (order_job_id ord) s of None \<Rightarrow> False
       | Some j \<Rightarrow> if is_terminal (current_state ord) then is_terminal (upper (job_state j)) else True) (orders s)"
proof -
  have "linked (jobs s) ord \<Longrightarrow> (case job_row (order_job_id ord) s of None \<Rightarrow> False
       | Some j \<Rightarrow> if is_terminal (current_state ord) then is_terminal (upper (job_state j)) else True)" for ord
    by (auto simp: linked_def job_row_def job_done_def is_terminal_def split: option.splits)
  then show ?thesis
    using reachable_rows [OF assms] by (auto simp: rows_inv_def rows_unique_def list_all_iff)
qed

theorem reachable_tables_agree_witness:
  "distinct (map idempotency_key (jobs sample_executed))"
  using reachable_tables_agree [OF sample_reachable] by blast


text \<open>An order that the exchange has only acknowledged, until a reconciliation finds it filled.\<close>

definition sample_report :: "string \<Rightarrow> string \<Rightarrow> string option \<Rightarrow> string + order_status" where
  "sample_report status symbol ext =
     Inr \<lparr>os_status = Some status, os_executed_qty = Some 2, os_avg_fill_price = Some 100\<rparr>"

definition slow_adapter :: adapter where
  "slow_adapter = \<lparr>available_balance = Inr (Some 1000000),
     submit_order = (\<lambda>req. Inr ((sim_submit_order 1 (req_idempotency_key req)
        (Some (req_mark_price req)) (Some (req_size req)))\<lparr>xr_states := [''SENT''], xr_filled_size := Some 0\<rparr>))\<rparr>"

definition sample_sent :: store where
  "sample_sent = snd (consume_execution_queue_once sample_env (Inr slow_adapter) ''o1'' sample_submitted)"

definition sample_reconciled :: store where
  "sample_reconciled = snd (run_order_reconciliation 9 (sample_report ''FILLED'') order_last_transition_at 100 sample_sent)"

lemma sample_reconciled_reaches: "reaches (newly_filled sample_sent sample_reconciled) sample_reconciled"
proof -
  have submitted: "reaches [] sample_submitted"
    unfolding sample_submitted_def
    by (rule reaches.engine [OF reaches.start], rule engine_step.submit) (simp add: empty_store_def)
  have "reports_upper slow_adapter" by (simp add: reports_upper_def slow_adapter_def)
  then have "reaches [] sample_sent"
    unfolding sample_sent_def
    by (intro reaches.engine [OF submitted] engine_step.consume) (simp_all add: sample_submitted_orders)
  from reaches.reconcile [OF this sample_reconciled_def] show ?thesis by simp
qed

lemma sample_sent_orders: "\<exists>ord ext. orders sample_sent = [ord] \<and> order_id ord = ''o1'' \<and> order_state ord = ''SENT'' \<and> external_order_id ord = Some ext"
proof -
  obtain j where j: "job_row ''j1'' sample_submitted = Some j" "job_state j = ''CREATED''" "required_margin j = 200"
    by (rule sample_submitted_row)
  let ?s = "sample_submitted\<lparr>queue := []\<rparr>"
  have row: "job_row (qp_job_id sample_payload) ?s = Some j" using j(1) by (simp add: job_row_def sample_payload_def)
  have live: "\<not> job_done j" using j(2) by (simp add: job_done_def TERMINAL_STATES_def)
  have key: "qp_job_id sample_payload \<noteq> []" by (simp add: sample_payload_def)
  have due: "is_due (env_now sample_env) sample_payload" by (simp add: is_due_def sample_payload_def)
  let ?j = "job_waited (env_now sample_env) sample_payload j"
  have margin: "required_margin ?j = 200" using j(3) by (simp add: job_waited_def required_margin_def split: option.split)
  obtain ord where created: "create_or_get_order (env_now sample_env) ''o1'' j ?s = (ord, ?s\<lparr>orders := [ord]\<rparr>)"
    and ord: "order_id ord = ''o1''" "order_state ord = ''CREATED''"
    by (simp add: create_or_get_order_def sample_submitted_orders Let_def)
  obtain xr ext where xr: "submit_order slow_adapter (request_of ?j) = Inr xr" "xr_states xr = [''SENT'']" "xr_external_order_id xr = Some ext"
    by (simp add: slow_adapter_def sim_submit_order_def)
  let ?o = "ord\<lparr>external_order_id := xr_external_order_id xr, avg_fill_price := Some (num_or (xr_avg_fill_price xr) 0),
      filled_size := num_or (xr_filled_size xr) 0\<rparr>"
  have "''SENT'' \<in> set (order_successors ''CREATED'')" "upper ''SENT'' = ''SENT''" "upper ''CREATED'' = ''CREATED''" by code_simp+
  then obtain o' where adv: "advance_order_state (env_now sample_env) ''SENT'' None ?o = Inr o'"
    and o': "order_id o' = ''o1''" "order_state o' = ''SENT''" "external_order_id o' = Some ext"
    using ord xr(3) by (simp add: advance_order_state_def current_state_def Let_def str_or_def)
  let ?t = "save_job ?j (?s\<lparr>orders := [ord]\<rparr>)"
  have balance: "available_balance slow_adapter = Inr (Some 1000000)" by (simp add: slow_adapter_def)
  obtain r j2 ord2 s2 where run: "attempt_execution sample_env slow_adapter (waited (env_now sample_env) sample_payload) ?j ord ?t = (Inr r, j2, ord2, s2)"
    "orders s2 = [o']"
  proof -
    let ?j1 = "?j\<lparr>execution_ms := Some (env_execution_ms sample_env), total_ms := Some (int_or (waited (env_now sample_env) sample_payload) 0 + env_execution_ms sample_env),
        failure_class := None, job_updated_at := env_now sample_env\<rparr>"
    let ?u = "check_latency (env_thresholds sample_env) (int_or (waited (env_now sample_env) sample_payload) 0 + env_execution_ms sample_env) ?j1 (save_job ?j1 ?t)"
    have "tables ?u = tables (save_job ?j1 ?t)" by (rule tables_guards)
    then have "orders ?u = [ord]" by (simp add: tables_eq_iff save_job_def)
    then have booked: "orders (book_state now prev st j' o' (save_order ?o ?u)) = [o']" for now prev st j'
      using ord(1) o'(1) by (simp add: book_state_frame save_order_def save_row_def)
    have "attempt_execution sample_env slow_adapter (waited (env_now sample_env) sample_payload) ?j ord ?t =
        handle_execution_result (env_now sample_env) ?j1 ord xr ?u"
      by (simp add: attempt_execution_def balance margin xr(1) Let_def num_or_def)
    also have "\<dots> = (Inr h, j', o', record_execution_metric j' o' xr (book_state (env_now sample_env) ''CREATED'' ''SENT'' j' o' (save_order ?o ?u)))"
      if "j' = job_enters_state (env_now sample_env) ''SENT'' ?j1" "h = \<lparr>handled_job_id = job_id j', handled_order_id = order_id o',
        handled_state = job_state j', handled_external_order_id = external_order_id o'\<rparr>" for j' h
      unfolding handle_execution_result_def Let_def xr(2) apply_states.simps adv using that ord(2) by (simp add: str_or_def)
    finally show ?thesis using booked by (intro that) (auto simp: record_execution_metric_def)
  qed
  have "tables sample_sent = tables s2"
    unfolding sample_sent_def consume_execution_queue_once_def sample_submitted_queue list.case
      execute_queued_job_attempts [OF row live key due created]
    by (simp add: run(1) Let_def tables_simps)
  then show ?thesis using o' run(2) by (simp add: tables_eq_iff)
qed


text \<open>
  C26: A job is never executed more often than its limit allows: in every reachable state its
  failed attempts are counted between 0 and the limit, and when they have reached the limit the
  job is over. A job that is over is never executed again, whatever the queue delivers.
\<close>

theorem attempts_are_bounded:
  assumes "reachable s" and "job_row (qp_job_id p) s = Some j" and "qp_job_id p \<noteq> []"
  shows "0 \<le> retry_count j \<and> retry_count j \<le> max_retry j \<and>
     (if retry_count j = max_retry j then is_terminal (upper (job_state j)) else True) \<and>
     (if is_terminal (upper (job_state j)) then snd (execute_queued_job env adapter fresh p s) = s else True)"
proof -
  have "j \<in> set (jobs s)" using assms(2) by (auto simp: job_row_def dest: find_row_in)
  then have "retries_ok j" using job_of_reachable assms(1) by blast
  then show ?thesis
    using assms(2,3) by (auto simp: retries_ok_def job_done_def is_terminal_def execute_queued_job_def Let_def)
qed

theorem attempts_are_bounded_witness:
  "\<exists>j. job_row ''j1'' sample_submitted = Some j \<and> 0 \<le> retry_count j \<and> retry_count j \<le> max_retry j"
proof -
  obtain j where j: "job_row ''j1'' sample_submitted = Some j" by (rule sample_submitted_row)
  then have "job_row (qp_job_id sample_payload) sample_submitted = Some j" by (simp add: sample_payload_def)
  from attempts_are_bounded [OF sample_submitted_reachable this] j show ?thesis
    by (simp add: sample_payload_def)
qed

text \<open>
  C29: A signal that is enqueued has passed the risk check on the store it was submitted to: the
  global kill switch is off, the notional of the (possibly reduced) order is within the
  user's position share and, with what is open, within the user's cap, the leverage is within
  its cap and the daily loss is not reached. Exactly one payload is added to the queue, it names
  the one new job, and no order or position is touched.
\<close>

theorem enqueued_signal_is_within_limits:
  assumes "submit_signal env pc fresh user sg key limits s = (Inr r, s')"
    and "sr_status r = ''enqueued''" and "fresh \<notin> job_id ` set (jobs s)"
  shows "\<exists>payload j sz. \<not> is_global_kill_active s \<and> 0 < sz \<and>
     (let notional = max 0 (sz * max (num_or (sig_mark_price sg) 1) 0);
          cap = limit_of limits ''per_user_notional_cap''
      in notional \<le> cap * (limit_of limits ''max_position_pct'' / 100) \<and>
         open_notional user s + notional \<le> cap) \<and>
     int_or (sig_leverage sg) 1 \<le> py_int (limit_of limits ''leverage_cap'') \<and>
     \<not> loss_limit_hit (env_now env) limits user s \<and>
     queue s' = queue s @ [payload] \<and> qp_job_id payload = fresh \<and> qp_size payload = sz \<and>
     jobs s' = jobs s @ [j] \<and> job_id j = fresh \<and> job_size j = sz \<and>
     orders s' = orders s \<and> positions s' = positions s"
proof (cases rule: submit_signal_cases [of env pc fresh user sg key limits s])
  case refused
  with assms show ?thesis by auto
next
  case (admitted idem symbol side sz strat sg' t)
  let ?j = "new_job (env_now env) fresh idem user symbol side sz strat sg' pc"
  let ?t = "t\<lparr>jobs := jobs t @ [?j]\<rparr>"
  have r: "r = fst (admit_job env limits sg' ?j ?t)" and s': "s' = snd (admit_job env limits sg' ?j ?t)"
    using assms(1) admitted(5) by (simp_all add: apfst_def map_prod_def split_def)
  show ?thesis
  proof (cases rule: admit_job_cases [of env limits sg' ?j ?t])
    case (rejected reason)
    with assms(2) r show ?thesis by simp
  next
    case (enqueued s2)
    have pos: "positions s2 = positions s" "kill_switch_global s2 = kill_switch_global s" "trades s2 = trades s"
      using enqueued admitted(2-4) by (simp_all add: tables_eq_iff)
    have sg': "sig_mark_price sg' = sig_mark_price sg" "sig_leverage sg' = sig_leverage sg"
      using admitted(6) by auto
    have here: "is_global_kill_active s2 = is_global_kill_active s"
      "open_notional user s2 = open_notional user s"
      "loss_limit_hit (env_now env) limits user s2 = loss_limit_hit (env_now env) limits user s"
      using pos by (simp_all add: is_global_kill_active_def open_notional_def loss_limit_hit_def daily_realized_pnl_def)
    have lim: "risk_reasons (env_now env) limits
        \<lparr>rq_user_id = user, rq_symbol = str_or (sig_symbol sg') ''UNKNOWN'',
         rq_side = str_or (sig_side sg') ''BUY'', rq_size = sz,
         rq_leverage = int_or (sig_leverage sg) 1, rq_mark_price = num_or (sig_mark_price sg) 1\<rparr> s2 = []"
      using enqueued(5) by (simp add: run_risk_checks_def evaluate_risk_allowed_iff sg' admitted(7) [symmetric])
    obtain payload where p: "qp_job_id payload = fresh" "qp_size payload = sz"
      and e: "tables (snd (enqueue_execution (env_now env) (env_thresholds env) ?j ?t)) =
        tables (save_job (?j\<lparr>job_queue_payload := Some payload, job_updated_at := env_now env\<rparr>)
          (?t\<lparr>queue := queue ?t @ [payload]\<rparr>))"
      by (rule that [of "fst (enqueue_execution (env_now env) (env_thresholds env) ?j ?t)"])
         (simp_all add: enqueue_execution_def Let_def tables_simps)
    have "queue s' = queue s @ [payload]" "orders s' = orders s" "positions s' = positions s"
      using enqueued(6) e s' admitted(2) by (simp_all add: tables_eq_iff save_job_def)
    moreover have "jobs s' = save_row job_id (?j\<lparr>job_queue_payload := Some payload, job_updated_at := env_now env\<rparr>) (jobs s @ [?j])"
      using enqueued(6) e s' admitted(2) by (simp add: tables_eq_iff save_job_def)
    then have "jobs s' = jobs s @ [?j\<lparr>job_queue_payload := Some payload, job_updated_at := env_now env\<rparr>]"
      using assms(3) by (auto simp: save_row_def intro!: map_idI)
    ultimately show ?thesis
      using lim admitted(8) p unfolding risk_reasons_empty_iff
      by (intro exI [of _ payload] exI [of _ "?j\<lparr>job_queue_payload := Some payload, job_updated_at := env_now env\<rparr>"] exI [of _ sz])
         (simp add: here proposed_notional_def Let_def)
  qed
qed


theorem enqueued_signal_is_within_limits_witness:
  "\<exists>payload j. queue sample_submitted = [payload] \<and> qp_job_id payload = ''j1'' \<and>
     jobs sample_submitted = [j] \<and> job_id j = ''j1''"
proof -
  obtain r where run: "submit_signal sample_env sample_precheck ''j1'' ''u1'' sample_signal None [] empty_store
      = (Inr r, sample_submitted)" and enq: "sr_status r = ''enqueued''"
  proof -
    have "(case submit_signal sample_env sample_precheck ''j1'' ''u1'' sample_signal None [] empty_store of
        (Inr r, _) \<Rightarrow> sr_status r = ''enqueued'' | _ \<Rightarrow> False)"
      by code_simp
    then show ?thesis using that by (auto simp: sample_submitted_def split: prod.splits sum.splits)
  qed
  from enqueued_signal_is_within_limits [OF run enq] show ?thesis by (auto simp: empty_store_def)
qed

text \<open>
  A signal whose idempotency key is known is not stored again: no job, order, position or
  queue entry changes and the answer is not \<open>enqueued\<close>, whether the key was given by the caller
  or built from user, symbol, side, strategy and the time of the signal.
\<close>

theorem known_key_stores_nothing:
  assumes "str_or key (build_idempotency_key user (upper (str_or (sig_symbol sg) []))
       (upper (str_or (sig_side sg) ''BUY'')) (str_or (sig_strategy_name sg) ''runtime_strategy'')
       (sig_timestamp sg) (env_now_iso env)) \<in> idempotency_key ` set (jobs s)"
    and "submit_signal env pc fresh user sg key limits s = (r, s')"
  shows "jobs s' = jobs s \<and> queue s' = queue s \<and> orders s' = orders s \<and> positions s' = positions s \<and>
     (case r of Inl e \<Rightarrow> True | Inr res \<Rightarrow> sr_status res \<noteq> ''enqueued'')"
proof (cases rule: submit_signal_cases [of env pc fresh user sg key limits s])
  case refused
  with assms(2) show ?thesis by (auto simp: tables_eq_iff split: sum.split)
next
  case (admitted idem symbol side sz strat sg' t)
  with assms(1) show ?thesis by simp
qed


lemma list_ex_eqD: "list_ex (\<lambda>k. k = x) (map f rows) \<Longrightarrow> x \<in> f ` set rows"
  by (auto simp: list_ex_iff)

theorem known_key_stores_nothing_witness:
  "queue (snd (submit_signal sample_env sample_precheck ''j2'' ''u1'' sample_signal None [] sample_submitted))
     = queue sample_submitted"
proof -
  obtain r s' where run: "submit_signal sample_env sample_precheck ''j2'' ''u1'' sample_signal None [] sample_submitted = (r, s')"
    by fastforce
  have "list_ex (\<lambda>k. k = str_or None (build_idempotency_key ''u1'' (upper (str_or (sig_symbol sample_signal) []))
       (upper (str_or (sig_side sample_signal) ''BUY'')) (str_or (sig_strategy_name sample_signal) ''runtime_strategy'')
       (sig_timestamp sample_signal) (env_now_iso sample_env))) (map idempotency_key (jobs sample_submitted))"
    by code_simp
  then have "str_or None (build_idempotency_key ''u1'' (upper (str_or (sig_symbol sample_signal) []))
       (upper (str_or (sig_side sample_signal) ''BUY'')) (str_or (sig_strategy_name sample_signal) ''runtime_strategy'')
       (sig_timestamp sample_signal) (env_now_iso sample_env)) \<in> idempotency_key ` set (jobs sample_submitted)"
    by (rule list_ex_eqD)
  from known_key_stores_nothing [OF this run] show ?thesis by (simp add: run)
qed

text \<open>
  C17: The retries of a job end. When the exchange cannot be reached, the job has no order yet and
  the worker looks at the queue as many times as the job has attempts left, at least 8 seconds
  (the longest back-off) apart, then the queue is empty, the job is \<open>FAILED\<close> with its counter at
  the limit, and no position has moved. Its order stays \<open>CREATED\<close>, a state that is not terminal.
\<close>

theorem retries_end_in_failure:
  assumes "queue s = [p]" and "job_row (qp_job_id p) s = Some j" and "qp_job_id p \<noteq> []"
    and "\<not> is_terminal (upper (job_state j))"
    and "qp_job_id p \<notin> order_job_id ` set (orders s)"
    and "unreachable_exchange ad" and "is_due (env_now (fst rd)) p"
    and "spaced (rd # rounds)" and "int (length (rd # rounds)) = max_retry j - retry_count j"
  shows "queue (work_rounds (rd # rounds) ad s) = [] \<and>
     positions (work_rounds (rd # rounds) ad s) = positions s \<and>
     (\<exists>j'. job_row (qp_job_id p) (work_rounds (rd # rounds) ad s) = Some j' \<and>
        job_state j' = ''FAILED'' \<and> retry_count j' = max_retry j) \<and>
     (\<exists>ord. orders (work_rounds (rd # rounds) ad s) = orders s @ [ord] \<and>
        order_job_id ord = qp_job_id p \<and> order_state ord = ''CREATED'')"
proof -
  obtain env fresh where r: "rd = (env, fresh)" by fastforce
  have jid: "job_id j = qp_job_id p" using assms(2) by (rule job_table.lookup_key)
  obtain ord s1 where created: "create_or_get_order (env_now env) fresh j s = (ord, s1)" by fastforce
  have "\<not> job_done j" using assms(4) by (simp add: job_done_def is_terminal_def)
  note finished = work_rounds_fail [OF assms(1,2) this assms(3,6), of env fresh rounds]
  have "orders s1 = orders s @ [ord] \<and> order_job_id ord = qp_job_id p \<and> order_state ord = ''CREATED''"
    using create_or_get_order_frame [OF created] assms(5) jid by simp
  with finished assms(7-9) created show ?thesis by (auto simp: r)
qed

theorem retries_end_in_failure_witness:
  "let s = work_rounds [(sample_env, ''o1''), (sample_env\<lparr>env_now := 9000\<rparr>, ''o2''), (sample_env\<lparr>env_now := 17000\<rparr>, ''o3'')]
         \<lparr>available_balance = Inl ''timeout'', submit_order = (\<lambda>req. Inl ''timeout'')\<rparr> sample_submitted
   in queue s = [] \<and> (\<exists>ord. orders s = [ord] \<and> order_state ord = ''CREATED'')"
proof -
  obtain j where j: "job_row ''j1'' sample_submitted = Some j" "job_state j = ''CREATED''"
    "retry_count j = 0" "max_retry j = 3"
    by (rule sample_submitted_row)
  have row: "job_row (qp_job_id sample_payload) sample_submitted = Some j" using j by (simp add: sample_payload_def)
  have "unreachable_exchange \<lparr>available_balance = Inl ''timeout'', submit_order = (\<lambda>req. Inl ''timeout'')\<rparr>"
    by (simp add: unreachable_exchange_def)
  from retries_end_in_failure [OF sample_submitted_queue row _ _ _ this,
      of "(sample_env, ''o1'')" "[(sample_env\<lparr>env_now := 9000\<rparr>, ''o2''), (sample_env\<lparr>env_now := 17000\<rparr>, ''o3'')]"]
  show ?thesis
    unfolding Let_def
    by (simp add: j sample_payload_def sample_submitted_orders is_terminal_def TERMINAL_STATES_def
        is_due_def sample_env_def) blast
qed

text \<open>
  A worker that is not configured for live trading loses jobs: \<open>get_execution_adapter\<close> raises
  after the payload has left the queue, so the job of the head payload is neither tried, failed
  nor queued again; it only gets an order.
\<close>

theorem misconfigured_worker_loses_job:
  assumes "queue s = p # q" and "job_row (qp_job_id p) s = Some j" and "qp_job_id p \<noteq> []"
    and "\<not> is_terminal (upper (job_state j))" and "is_due (env_now env) p"
    and "lower (strip (str_or mode ''live'')) \<noteq> ''live''"
  shows "\<exists>s'. consume_execution_queue_once env (get_execution_adapter mode freeze lock ad) fresh s
         = (Some (Inl ''live_only_mode_enforced''), s')
     \<and> queue s' = q \<and> job_row (qp_job_id p) s' = Some j"
proof -
  let ?s = "s\<lparr>queue := q\<rparr>"
  have row: "job_row (qp_job_id p) ?s = Some j" using assms(2) by (simp add: job_row_def)
  have live: "\<not> job_done j" using assms(4) by (simp add: job_done_def is_terminal_def)
  obtain ord s1 where created: "create_or_get_order (env_now env) fresh j ?s = (ord, s1)" by fastforce
  have "get_execution_adapter mode freeze lock ad = Inl ''live_only_mode_enforced''"
    using assms(6) by (simp add: get_execution_adapter_def Let_def)
  then show ?thesis
    using create_or_get_order_frame [OF created] assms(1,2)
    by (simp add: consume_execution_queue_once_def
        execute_queued_job_attempts [OF row live assms(3,5) created] job_row_def)
qed

theorem misconfigured_worker_loses_job_witness:
  "queue (snd (consume_execution_queue_once sample_env
      (get_execution_adapter (Some ''paper'') None None sim_adapter) ''o1'' sample_submitted)) = []"
proof -
  obtain j where j: "job_row ''j1'' sample_submitted = Some j" "job_state j = ''CREATED''"
    by (rule sample_submitted_row)
  have row: "job_row (qp_job_id sample_payload) sample_submitted = Some j" using j by (simp add: sample_payload_def)
  have paper: "lower (strip (str_or (Some ''paper'') ''live'')) \<noteq> ''live''" by code_simp
  from misconfigured_worker_loses_job [OF sample_submitted_queue row _ _ _ paper,
      of sample_env None None sim_adapter "''o1''"] j(2)
  show ?thesis
    by (auto simp: sample_payload_def is_terminal_def TERMINAL_STATES_def is_due_def)
qed

end
