(* ===== verification/Reconciliation_Properties.thy ===== *)
theory Reconciliation_Properties
  imports Runtime_Properties
begin

text \<open>
  What a run of the reconciliation does to the orders: it writes the status of the exchange as it is,
  books no position, and leaves orders in states that the transition table does not know.
\<close>

section \<open>Properties\<close>

text \<open>
  After a reconciliation of a reachable state, every order it looked at and for which the
  exchange gave a status carries that status; every order it did not look at is unchanged, and
  it looked at no more than the limit, itself between 1 and 300.
\<close>

theorem reconciliation_adopts_status:
  assumes "reachable s"
    and "run_order_reconciliation now g u limit s = (rep, s')"
  shows "list_all (\<lambda>ord. case order_row (order_id ord) s' of None \<Rightarrow> False
       | Some ord' \<Rightarrow>
           (if ord \<in> set (open_orders u limit s)
            then (if reported_state g ord = [] then True else upper (order_state ord') = reported_state g ord)
            else ord' = ord)) (orders s)
     \<and> rr_checked rep = length (open_orders u limit s) \<and> rr_checked rep \<le> 300"
proof -
  have uniq: "distinct (map order_id (orders s))"
    using reachable_rows [OF assms(1)] by (simp add: rows_inv_def rows_unique_def)
  let ?os = "open_orders u limit s"
  let ?r0 = "\<lparr>rr_checked = 0, rr_mismatches = 0, rr_corrected = 0, rr_issues = []\<rparr>"
  have s': "s' = snd (reconcile_orders now g ?os ?r0 s)" and rep: "fst (reconcile_orders now g ?os ?r0 s) = rep"
    using assms(2) by (simp_all add: run_order_reconciliation_def)
  have "case order_row (order_id ord) s' of None \<Rightarrow> False
       | Some ord' \<Rightarrow> (if ord \<in> set ?os
            then (if reported_state g ord = [] then True else upper (order_state ord') = reported_state g ord)
            else ord' = ord)" if mem: "ord \<in> set (orders s)" for ord
  proof -
    have row: "order_row (order_id ord) s = Some ord"
      using find_row_unique [OF uniq mem] by (simp add: order_row_def)
    show ?thesis
    proof (cases "ord \<in> set ?os")
      case True
      show ?thesis
      proof (cases "reported_state g ord = []")
        case False
        with reconcile_writes_report [OF distinct_open_orders [OF uniq] True row False, of now ?r0]
        show ?thesis using True s' by auto
      next
        case silent: True
        have "order_row (order_id ord) s' \<noteq> None"
          unfolding s' by (subst reconcile_keeps_rows) (simp add: row)
        then show ?thesis using True silent by auto
      qed
    next
      case False
      have "order_id ord \<notin> order_id ` set ?os"
      proof
        assume "order_id ord \<in> order_id ` set ?os"
        then obtain o2 where "o2 \<in> set ?os" "order_id o2 = order_id ord" by auto
        then have "o2 = ord"
          using uniq mem open_orders_in [of o2 u limit s] by (auto simp: distinct_map inj_on_def)
        with False \<open>o2 \<in> set ?os\<close> show False by simp
      qed
      with False row show ?thesis by (simp add: s' reconcile_other_order)
    qed
  qed
  moreover have "rr_checked rep = length ?os" using reconcile_checked [of now g ?os ?r0 s] rep by simp
  moreover have "length ?os \<le> 300" by (simp add: open_orders_def)
  ultimately show ?thesis by (simp add: list_all_iff)
qed

theorem reconciliation_adopts_status_witness:
  "rr_checked (fst (run_order_reconciliation 9 (sample_report ''FILLED'') order_last_transition_at 100 sample_executed)) \<le> 300"
proof -
  obtain rep s' where run: "run_order_reconciliation 9 (sample_report ''FILLED'') order_last_transition_at 100 sample_executed = (rep, s')"
    by fastforce
  from reconciliation_adopts_status [OF sample_reachable run] show ?thesis by (simp add: run)
qed

text \<open>
  Reconciliation books no position: when the exchange says that an open order is filled, the
  order becomes \<open>FILLED\<close> with the executed quantity, but the positions stay what they were, so
  the quantity is missing from the book.
\<close>

theorem reconciled_fill_is_not_booked:
  assumes "distinct (map order_id (orders s))" and "ord \<in> set (open_orders u limit s)"
    and "reported_state g ord = ''FILLED''"
    and "run_order_reconciliation now g u limit s = (rep, s')"
  shows "(\<exists>ord'. order_row (order_id ord) s' = Some ord' \<and> current_state ord' = ''FILLED'')
     \<and> position_qty k s' = position_qty k s"
proof -
  have mem: "ord \<in> set (orders s)" using open_orders_in [OF assms(2)] by simp
  have row: "order_row (order_id ord) s = Some ord"
    using find_row_unique [OF assms(1) mem] by (simp add: order_row_def)
  let ?r0 = "\<lparr>rr_checked = 0, rr_mismatches = 0, rr_corrected = 0, rr_issues = []\<rparr>"
  have s': "s' = snd (reconcile_orders now g (open_orders u limit s) ?r0 s)"
    using assms(4) by (simp add: run_order_reconciliation_def)
  have said: "reported_state g ord \<noteq> []" by (simp add: assms(3))
  obtain ord' where ord': "order_row (order_id ord) s' = Some ord'" "upper (order_state ord') = ''FILLED''"
    using reconcile_writes_report [OF distinct_open_orders [OF assms(1)] assms(2) row said, of now ?r0]
    unfolding s' assms(3) by blast
  then have "current_state ord' = ''FILLED''"
    by (cases "order_state ord'") (simp_all add: current_state_def upper_def)
  moreover have "positions s' = positions s" by (simp add: s')
  then have "position_qty k s' = position_qty k s" by (simp add: position_qty_def position_row_def)
  ultimately show ?thesis using ord'(1) by blast
qed

definition sent_store :: store where
  "sent_store = empty_store\<lparr>orders := [sample_order\<lparr>order_state := ''SENT'', external_order_id := Some ''42''\<rparr>]\<rparr>"

lemma sent_store_open: "open_orders order_last_transition_at 100 sent_store = orders sent_store"
  by (simp add: open_orders_def sent_store_def OPEN_STATES_def)

theorem reconciled_fill_is_not_booked_witness:
  "position_qty ''u1:BTCUSDT''
     (snd (run_order_reconciliation 9 (sample_report ''FILLED'') order_last_transition_at 100 sent_store)) = 0"
proof -
  obtain rep s' where run: "run_order_reconciliation 9 (sample_report ''FILLED'') order_last_transition_at 100 sent_store = (rep, s')"
    by fastforce
  have "position_qty ''u1:BTCUSDT'' s' = position_qty ''u1:BTCUSDT'' sent_store"
    by (rule reconciled_fill_is_not_booked [OF _ _ _ run, THEN conjunct2])
       (simp_all add: sent_store_open, simp_all add: sent_store_def reported_state_def sample_report_def)
  moreover have "position_qty ''u1:BTCUSDT'' sent_store = 0"
    by (simp add: sent_store_def position_qty_def position_row_def empty_store_def)
  ultimately show ?thesis by (simp only: run snd_conv)
qed

text \<open>
  The status of the exchange is written as it is, without the map to order states that the
  adapter applies on submission. An order for which the exchange reports \<open>NEW\<close> is left in a
  state that \<open>STATE_TRANSITIONS\<close> does not know: no transition is admitted any more and the next
  reconciliation does not look at it.
\<close>

theorem reconciled_new_order_is_stuck:
  assumes "distinct (map order_id (orders s))" and "ord \<in> set (open_orders u limit s)"
    and "reported_state g ord = ''NEW''"
    and "run_order_reconciliation now g u limit s = (rep, s')"
  shows "\<exists>ord'. order_row (order_id ord) s' = Some ord' \<and>
     advance_order_state t target reason ord' = Inl ''invalid_order_state_transition'' \<and>
     ord' \<notin> set (open_orders u' limit' s')"
proof -
  have mem: "ord \<in> set (orders s)" using open_orders_in [OF assms(2)] by simp
  have row: "order_row (order_id ord) s = Some ord"
    using find_row_unique [OF assms(1) mem] by (simp add: order_row_def)
  let ?r0 = "\<lparr>rr_checked = 0, rr_mismatches = 0, rr_corrected = 0, rr_issues = []\<rparr>"
  have s': "s' = snd (reconcile_orders now g (open_orders u limit s) ?r0 s)"
    using assms(4) by (simp add: run_order_reconciliation_def)
  have said: "reported_state g ord \<noteq> []" by (simp add: assms(3))
  obtain ord' where ord': "order_row (order_id ord) s' = Some ord'" "upper (order_state ord') = ''NEW''"
    using reconcile_writes_report [OF distinct_open_orders [OF assms(1)] assms(2) row said, of now ?r0]
    unfolding s' assms(3) by blast
  have cur: "current_state ord' = ''NEW''"
    using ord'(2) by (cases "order_state ord'") (simp_all add: current_state_def upper_def)
  have "order_successors ''NEW'' = []" by code_simp
  then have "advance_order_state t target reason ord' = Inl ''invalid_order_state_transition''"
    by (simp add: advance_order_state_def Let_def cur)
  moreover have "upper (order_state ord') \<noteq> order_state ord' \<or> order_state ord' \<notin> set OPEN_STATES"
    using ord'(2) by (auto simp: OPEN_STATES_def)
  then have "ord' \<notin> set (open_orders u' limit' s')"
    using open_orders_in [of ord' u' limit' s'] ord'(2) by (auto simp: OPEN_STATES_def)
  ultimately show ?thesis using ord'(1) by blast
qed

theorem reconciled_new_order_is_stuck_witness:
  "\<exists>ord'. order_row ''o1'' (snd (run_order_reconciliation 9 (sample_report ''new'') order_last_transition_at 100 sent_store)) = Some ord'
     \<and> advance_order_state 10 ''FILLED'' None ord' = Inl ''invalid_order_state_transition''"
proof -
  obtain rep s' where run: "run_order_reconciliation 9 (sample_report ''new'') order_last_transition_at 100 sent_store = (rep, s')"
    by fastforce
  have "upper ''new'' = ''NEW''" by code_simp
  then have "\<exists>ord'. order_row (order_id (hd (orders sent_store))) s' = Some ord' \<and>
     advance_order_state 10 ''FILLED'' None ord' = Inl ''invalid_order_state_transition'' \<and>
     ord' \<notin> set (open_orders order_last_transition_at 100 s')"
    by (intro reconciled_new_order_is_stuck [OF _ _ _ run])
       (simp_all add: sent_store_open, simp_all add: sent_store_def reported_state_def sample_report_def)
  moreover have "order_id (hd (orders sent_store)) = ''o1''"
    by (simp add: sent_store_def sample_order_def)
  ultimately show ?thesis unfolding run snd_conv by metis
qed

end
