(* ===== verification/Query_Parser.thy ===== *)
theory Query_Parser
  imports Prelude
begin

text \<open>
  The indicator screener's query language, \<open>src/backend/services/indicator_screener/query_parser.py\<close>:
  the tokenizer, the recursive descent parser, the fields a query needs and its evaluation on a
  row of indicator values. The class \<open>_Parser\<close> keeps the tokens and a cursor; here the state
  is the list of tokens that the cursor has not passed. Every \<open>QueryParseError\<close> is an error
  of its own. The text that a comparison carries for display is kept as its three parts.
\<close>

section \<open>Tokens\<close>

datatype query_error =
    Empty_Query
  | Unknown_Token string nat
  | Unexpected_End
  | Missing_Comparison
  | Unclosed_Parenthesis
  | Expected_Token string string
  | Unexpected_Token string
  | Keyword_As_Field string
  | Unsupported_Field string
  | Unsupported_Operator string
  | Not_A_Value string
  | Missing_Field_Value string
  | Missing_Rhs_Value string
  | Unknown_Comparison string
  | Unsupported_Logical string
  | Invalid_Node

record query_token =
  tok_value :: string
  tok_position :: nat

definition is_digit :: "char \<Rightarrow> bool" where
  "is_digit c = (let n = of_char c :: nat in 48 \<le> n \<and> n \<le> 57)"

definition is_ident_start :: "char \<Rightarrow> bool" where
  "is_ident_start c = (let n = of_char c :: nat in (65 \<le> n \<and> n \<le> 90) \<or> (97 \<le> n \<and> n \<le> 122) \<or> n = 95)"

definition is_word_char :: "char \<Rightarrow> bool" where
  "is_word_char c \<longleftrightarrow> is_ident_start c \<or> is_digit c"

definition symbol_tokens :: "string list" where
  "symbol_tokens = [''<='', ''>='', ''!='', ''='', ''<'', ''>'', ''('', '')'']"

text \<open>
  One match of \<open>_TOKEN_PATTERN\<close>: the group and what follows it. The alternatives \<open>AND\b\<close> and
  \<open>OR\b\<close> match what the identifier alternative matches at the same place.
\<close>

definition match_token :: "string \<Rightarrow> (string \<times> string) option" where
  "match_token src =
     (let s = dropWhile is_space src in
      case List.find (\<lambda>t. prefix t s) symbol_tokens of
        Some t \<Rightarrow> Some (t, drop (length t) s)
      | None \<Rightarrow>
          (case s of [] \<Rightarrow> None
           | c # cs \<Rightarrow>
               if is_ident_start c then Some (takeWhile is_word_char s, dropWhile is_word_char s)
               else if is_digit c then
                 (let whole = takeWhile is_digit s; rest = dropWhile is_digit s in
                  case rest of
                    d # e # es \<Rightarrow>
                      if d = CHR ''.'' \<and> is_digit e
                      then Some (whole @ [d] @ takeWhile is_digit (e # es), dropWhile is_digit (e # es))
                      else Some (whole, rest)
                  | _ \<Rightarrow> Some (whole, rest))
               else None))"

lemma symbol_tokens_nonempty: "t \<in> set symbol_tokens \<Longrightarrow> t \<noteq> []"
  by (auto simp: symbol_tokens_def)

lemma find_Some: "List.find P xs = Some x \<Longrightarrow> x \<in> set xs \<and> P x"
  by (induction xs) (auto split: if_splits)

lemma length_dropWhile_head: "P c \<Longrightarrow> length (dropWhile P (c # cs)) < length (c # cs)"
  by (simp add: le_imp_less_Suc length_dropWhile_le)

lemma match_token_shorter: "match_token src = Some (v, rest) \<Longrightarrow> length rest < length src"
proof -
  assume match: "match_token src = Some (v, rest)"
  let ?s = "dropWhile is_space src"
  have "length rest < length ?s"
  proof (cases "List.find (\<lambda>t. prefix t ?s) symbol_tokens")
    case (Some t)
    with match have "rest = drop (length t) ?s" by (auto simp: match_token_def Let_def)
    moreover have "t \<noteq> []" "prefix t ?s" using find_Some [OF Some] symbol_tokens_nonempty by auto
    ultimately show ?thesis by (cases ?s) (auto simp: prefix_def)
  next
    case None
    show ?thesis
    proof (cases ?s)
      case Nil
      with match None show ?thesis by (simp add: match_token_def)
    next
      case (Cons c cs)
      have word: "is_ident_start c \<Longrightarrow> is_word_char c" by (simp add: is_word_char_def)
      show ?thesis
      proof (cases "is_ident_start c")
        case True
        with match None Cons have "rest = dropWhile is_word_char (c # cs)"
          by (simp add: match_token_def)
        then show ?thesis unfolding Cons using length_dropWhile_head [of is_word_char c cs, OF word [OF True]] by simp
      next
        case False
        with match None Cons have d: "is_digit c"
          and cases: "rest = dropWhile is_digit (c # cs) \<or>
            (\<exists>x y es. dropWhile is_digit (c # cs) = x # y # es \<and> rest = dropWhile is_digit (y # es))"
          by (auto simp: match_token_def Let_def split: if_splits list.splits)
        have "length (dropWhile is_digit (y # es)) \<le> length (y # es)" for y es
          by (rule length_dropWhile_le)
        then have "length rest \<le> length (dropWhile is_digit (c # cs))"
          using cases by (metis Suc_leD Suc_le_mono le_refl length_Cons)
        with length_dropWhile_head [of is_digit c cs, OF d] show ?thesis unfolding Cons by simp
      qed
    qed
  qed
  then show ?thesis using length_dropWhile_le [of is_space src] by simp
qed

text \<open>The loop of \<open>tokenize_query_expression\<close>: \<open>pos\<close> is the cursor.\<close>

function tokens_from :: "nat \<Rightarrow> string \<Rightarrow> query_error + query_token list" where
  "tokens_from pos src =
     (if src = [] then Inr []
      else case match_token src of
        None \<Rightarrow> Inl (Unknown_Token (take 16 src) (pos + 1))
      | Some (v, rest) \<Rightarrow>
          (case tokens_from (pos + (length src - length rest)) rest of
             Inl e \<Rightarrow> Inl e
           | Inr ts \<Rightarrow> Inr (\<lparr>tok_value = v, tok_position = pos\<rparr> # ts)))"
  by auto
termination by (relation "measure (length \<circ> snd)") (auto dest: match_token_shorter)

declare tokens_from.simps [simp del]

definition tokenize_query_expression :: "string \<Rightarrow> query_error + query_token list" where
  "tokenize_query_expression query_expression =
     (let source = strip query_expression in
      if source = [] then Inl Empty_Query else tokens_from 0 source)"

section \<open>Fields, operators and values\<close>

definition ALLOWED_QUERY_FIELDS :: "string list" where
  "ALLOWED_QUERY_FIELDS =
     [''rsi14'', ''rsi7'', ''close'', ''open'', ''high'', ''low'', ''volume'', ''ema20'', ''ema50'',
      ''sma20'', ''sma50'', ''fibo_161_8'', ''fibo_127_2'', ''fibo_100'', ''fibo_78_6'', ''last_price'']"

definition ALLOWED_COMPARISON_OPERATORS :: "string list" where
  "ALLOWED_COMPARISON_OPERATORS = [''<'', ''<='', ''>'', ''>='', ''='', ''!='']"

definition dynamic_prefixes :: "string list" where
  "dynamic_prefixes = [''rsi'', ''ema'', ''sma'', ''boll_upper'', ''boll_mid'', ''boll_lower'']"

text \<open>\<open>_DYNAMIC_FIELD_PATTERN\<close>: one of the prefixes and one to three digits.\<close>

definition is_dynamic_field :: "string \<Rightarrow> bool" where
  "is_dynamic_field s = list_ex (\<lambda>p. prefix p s \<and>
     (let ds = drop (length p) s in list_all is_digit ds \<and> 1 \<le> length ds \<and> length ds \<le> 3)) dynamic_prefixes"

definition is_supported_field :: "string \<Rightarrow> bool" where
  "is_supported_field field_name =
     (let lowered = lower (strip field_name) in
      lowered \<in> set ALLOWED_QUERY_FIELDS \<or> is_dynamic_field lowered)"

text \<open>
  \<open>float(text)\<close> on the text of a token: digits with an optional fraction, or one of the names
  of the special values, which \<open>float\<close> reads too.
\<close>

datatype query_value = Number num | Infinity | Not_A_Number

definition digit_value :: "char \<Rightarrow> nat" where
  "digit_value c = of_char c - 48"

definition digits_value :: "string \<Rightarrow> nat" where
  "digits_value ds = foldl (\<lambda>n c. 10 * n + digit_value c) 0 ds"

definition parse_float :: "string \<Rightarrow> query_value option" where
  "parse_float s =
     (if s \<in> set [''inf'', ''infinity''] then Some Infinity
      else if s = ''nan'' then Some Not_A_Number
      else
        (let whole = takeWhile is_digit s; rest = dropWhile is_digit s in
         if whole = [] then None
         else case rest of
           [] \<Rightarrow> Some (Number (of_nat (digits_value whole)))
         | d # fr \<Rightarrow>
             if d = CHR ''.'' \<and> fr \<noteq> [] \<and> list_all is_digit fr
             then Some (Number (of_nat (digits_value whole) + of_nat (digits_value fr) / 10 ^ length fr))
             else None))"

section \<open>The syntax tree\<close>

record query_comparison =
  cmp_field :: string
  cmp_operator :: string
  cmp_value :: query_value
  cmp_value_type :: string
  cmp_rhs_field :: "string option"

text \<open>\<open>Malformed\<close> stands for a dictionary whose \<open>type\<close> is none of the two.\<close>

datatype query_ast =
    Comparison query_comparison
  | Logical string query_ast query_ast
  | Malformed

section \<open>The parser\<close>

definition consume_token :: "query_token list \<Rightarrow> query_error + query_token \<times> query_token list" where
  "consume_token ts = (case ts of [] \<Rightarrow> Inl Unexpected_End | t # rest \<Rightarrow> Inr (t, rest))"

text \<open>\<open>_parse_comparison\<close> up to the value, and the value.\<close>

definition comparison_value :: "string \<Rightarrow> string \<Rightarrow> query_token \<Rightarrow> query_error + query_ast" where
  "comparison_value field_name operator value_token =
     (let value_raw = lower (strip (tok_value value_token)) in
      case parse_float value_raw of
        Some v \<Rightarrow> Inr (Comparison \<lparr>cmp_field = field_name, cmp_operator = operator, cmp_value = v,
          cmp_value_type = ''number'', cmp_rhs_field = None\<rparr>)
      | None \<Rightarrow>
          if \<not> is_supported_field value_raw then Inl (Not_A_Value (tok_value value_token))
          else Inr (Comparison \<lparr>cmp_field = field_name, cmp_operator = operator, cmp_value = Number 0,
            cmp_value_type = ''field'', cmp_rhs_field = Some value_raw\<rparr>))"

definition parse_comparison :: "query_token list \<Rightarrow> query_error + query_ast \<times> query_token list" where
  "parse_comparison ts =
     (case consume_token ts of Inl e \<Rightarrow> Inl e | Inr (field_token, ts1) \<Rightarrow>
        let field_name = lower (tok_value field_token) in
        if upper field_name \<in> set [''AND'', ''OR''] then Inl (Keyword_As_Field (tok_value field_token))
        else if \<not> is_supported_field field_name then Inl (Unsupported_Field (tok_value field_token))
        else case consume_token ts1 of Inl e \<Rightarrow> Inl e | Inr (operator_token, ts2) \<Rightarrow>
          if tok_value operator_token \<notin> set ALLOWED_COMPARISON_OPERATORS
          then Inl (Unsupported_Operator (tok_value operator_token))
          else case consume_token ts2 of Inl e \<Rightarrow> Inl e | Inr (value_token, ts3) \<Rightarrow>
            (case comparison_value field_name (tok_value operator_token) value_token of
               Inl e \<Rightarrow> Inl e | Inr node \<Rightarrow> Inr (node, ts3)))"

lemma parse_comparison_shorter:
  "parse_comparison ts = Inr (node, rest) \<Longrightarrow> length rest < length ts"
  by (auto simp: parse_comparison_def consume_token_def Let_def split: list.splits if_splits sum.splits)

text \<open>\<open>_accept_keyword\<close> as a test; the token is consumed by the caller.\<close>

definition at_keyword :: "string \<Rightarrow> query_token list \<Rightarrow> bool" where
  "at_keyword k ts = (case ts of [] \<Rightarrow> False | t # _ \<Rightarrow> upper (tok_value t) = k)"

text \<open>
  \<open>_parse_or\<close>, \<open>_parse_and\<close> and \<open>_parse_factor\<close>; the two loops are functions of the node
  built so far.
\<close>

function (sequential, domintros)
  parse_or :: "query_token list \<Rightarrow> query_error + query_ast \<times> query_token list" and
  or_loop :: "query_ast \<Rightarrow> query_token list \<Rightarrow> query_error + query_ast \<times> query_token list" and
  parse_and :: "query_token list \<Rightarrow> query_error + query_ast \<times> query_token list" and
  and_loop :: "query_ast \<Rightarrow> query_token list \<Rightarrow> query_error + query_ast \<times> query_token list" and
  parse_factor :: "query_token list \<Rightarrow> query_error + query_ast \<times> query_token list"
where
  "parse_or ts = (case parse_and ts of Inl e \<Rightarrow> Inl e | Inr (node, rest) \<Rightarrow> or_loop node rest)"
| "or_loop node ts =
     (if at_keyword ''OR'' ts
      then (case parse_and (tl ts) of Inl e \<Rightarrow> Inl e
            | Inr (right, rest) \<Rightarrow> or_loop (Logical ''OR'' node right) rest)
      else Inr (node, ts))"
| "parse_and ts = (case parse_factor ts of Inl e \<Rightarrow> Inl e | Inr (node, rest) \<Rightarrow> and_loop node rest)"
| "and_loop node ts =
     (if at_keyword ''AND'' ts
      then (case parse_factor (tl ts) of Inl e \<Rightarrow> Inl e
            | Inr (right, rest) \<Rightarrow> and_loop (Logical ''AND'' node right) rest)
      else Inr (node, ts))"
| "parse_factor [] = Inl Missing_Comparison"
| "parse_factor (t # ts) =
     (if tok_value t = ''(''
      then (case parse_or ts of Inl e \<Rightarrow> Inl e
            | Inr (node, []) \<Rightarrow> Inl Unclosed_Parenthesis
            | Inr (node, c # rest) \<Rightarrow>
                if tok_value c = '')'' then Inr (node, rest) else Inl (Expected_Token '')'' (tok_value c)))
      else parse_comparison (t # ts))"
  by pat_completeness auto


abbreviation pdom where
  "pdom \<equiv> parse_or_or_loop_parse_and_and_loop_parse_factor_dom"

text \<open>Every function of the parser leaves a shorter rest, the loops no longer one.\<close>

lemma parse_rest_shorter_dom:
  "pdom (Inl (Inl ts)) \<Longrightarrow> parse_or ts = Inr (n, r) \<Longrightarrow> length r < length ts"
  "pdom (Inl (Inr (node, ts))) \<Longrightarrow> or_loop node ts = Inr (n, r) \<Longrightarrow> length r \<le> length ts"
  "pdom (Inr (Inl ts)) \<Longrightarrow> parse_and ts = Inr (n, r) \<Longrightarrow> length r < length ts"
  "pdom (Inr (Inr (Inl (node, ts)))) \<Longrightarrow> and_loop node ts = Inr (n, r) \<Longrightarrow> length r \<le> length ts"
  "pdom (Inr (Inr (Inr ts))) \<Longrightarrow> parse_factor ts = Inr (n, r) \<Longrightarrow> length r < length ts"
proof (induction ts and node ts and ts and node ts and ts arbitrary: n r and n r and n r and n r and n r
    rule: parse_or_or_loop_parse_and_and_loop_parse_factor.pinduct)
  case (1 ts)
  then show ?case by (fastforce simp: parse_or.psimps split: sum.splits)
next
  case (2 node ts)
  then show ?case by (cases ts) (fastforce simp: or_loop.psimps at_keyword_def split: sum.splits if_splits)+
next
  case (3 ts)
  then show ?case by (fastforce simp: parse_and.psimps split: sum.splits)
next
  case (4 node ts)
  then show ?case by (cases ts) (fastforce simp: and_loop.psimps at_keyword_def split: sum.splits if_splits)+
next
  case 5
  then show ?case by (simp add: parse_factor.psimps)
next
  case (6 t ts)
  then show ?case
    by (fastforce simp: parse_factor.psimps dest: parse_comparison_shorter split: sum.splits if_splits list.splits)
qed

termination parse_or
  apply (relation "measure (\<lambda>x. case x of
    Inl (Inl ts) \<Rightarrow> 3 * length ts + 2
  | Inl (Inr (_, ts)) \<Rightarrow> 3 * length ts
  | Inr (Inl ts) \<Rightarrow> 3 * length ts + 1
  | Inr (Inr (Inl (_, ts))) \<Rightarrow> 3 * length ts
  | Inr (Inr (Inr ts)) \<Rightarrow> 3 * length ts)")
         apply (auto simp: at_keyword_def dest: parse_rest_shorter_dom split: list.splits)
  done

declare parse_or.simps [simp del] or_loop.simps [simp del] parse_and.simps [simp del]
  and_loop.simps [simp del] parse_factor.simps [simp del]

definition parse_tokens :: "query_token list \<Rightarrow> query_error + query_ast" where
  "parse_tokens ts =
     (case parse_or ts of Inl e \<Rightarrow> Inl e
      | Inr (ast, []) \<Rightarrow> Inr ast
      | Inr (ast, t # _) \<Rightarrow> Inl (Unexpected_Token (tok_value t)))"

definition parse_query_expression :: "string \<Rightarrow> query_error + query_ast" where
  "parse_query_expression query_expression =
     (case tokenize_query_expression query_expression of Inl e \<Rightarrow> Inl e | Inr ts \<Rightarrow> parse_tokens ts)"

section \<open>Fields and evaluation\<close>

fun collect_query_fields :: "query_ast \<Rightarrow> string set" where
  "collect_query_fields (Comparison c) =
     ({lower (cmp_field c)} \<union> (case cmp_rhs_field c of None \<Rightarrow> {} | Some f \<Rightarrow> {lower f})) - {[]}"
| "collect_query_fields (Logical op left right) = collect_query_fields left \<union> collect_query_fields right"
| "collect_query_fields Malformed = {}"

text \<open>\<open>_compare\<close>; the values of the row are finite, the literal may be special.\<close>

definition tolerance :: num where
  "tolerance = 1 / 10 ^ 9"

definition compare_values :: "num \<Rightarrow> string \<Rightarrow> query_value \<Rightarrow> query_error + bool" where
  "compare_values lhs operator rhs =
     (if operator = ''<'' then Inr (case rhs of Number v \<Rightarrow> lhs < v | Infinity \<Rightarrow> True | Not_A_Number \<Rightarrow> False)
      else if operator = ''<='' then Inr (case rhs of Number v \<Rightarrow> lhs \<le> v | Infinity \<Rightarrow> True | Not_A_Number \<Rightarrow> False)
      else if operator = ''>'' then Inr (case rhs of Number v \<Rightarrow> v < lhs | _ \<Rightarrow> False)
      else if operator = ''>='' then Inr (case rhs of Number v \<Rightarrow> v \<le> lhs | _ \<Rightarrow> False)
      else if operator = ''='' then Inr (case rhs of Number v \<Rightarrow> \<bar>lhs - v\<bar> \<le> tolerance | _ \<Rightarrow> False)
      else if operator = ''!='' then Inr (case rhs of Number v \<Rightarrow> tolerance < \<bar>lhs - v\<bar> | Infinity \<Rightarrow> True | Not_A_Number \<Rightarrow> False)
      else Inl (Unknown_Comparison operator))"

text \<open>The parts of the text of a comparison.\<close>

datatype rule_text = Value_Rule string string query_value | Field_Rule string string string

definition comparison_text :: "query_comparison \<Rightarrow> rule_text" where
  "comparison_text c = (case cmp_rhs_field c of
     None \<Rightarrow> Value_Rule (cmp_field c) (cmp_operator c) (cmp_value c)
   | Some f \<Rightarrow> Field_Rule (cmp_field c) (cmp_operator c) f)"

definition evaluate_comparison ::
  "query_comparison \<Rightarrow> (string \<rightharpoonup> num) \<Rightarrow> query_error + bool \<times> rule_text list \<times> string list" where
  "evaluate_comparison c values =
     (case values (cmp_field c) of
        None \<Rightarrow> Inl (Missing_Field_Value (cmp_field c))
      | Some lhs \<Rightarrow>
          let rhs_field = str_or (cmp_rhs_field c) [];
              finish = (\<lambda>rhs. case compare_values lhs (cmp_operator c) rhs of
                Inl e \<Rightarrow> Inl e
              | Inr result \<Rightarrow>
                  if result then Inr (True, [comparison_text c],
                    cmp_field c # (if rhs_field = [] then [] else [rhs_field]))
                  else Inr (False, [], []))
          in if cmp_value_type c = ''field''
             then (case values rhs_field of
                     None \<Rightarrow> Inl (Missing_Rhs_Value rhs_field) | Some v \<Rightarrow> finish (Number v))
             else finish (cmp_value c))"

fun evaluate_query_ast ::
  "query_ast \<Rightarrow> (string \<rightharpoonup> num) \<Rightarrow> query_error + bool \<times> rule_text list \<times> string list" where
  "evaluate_query_ast (Comparison c) values = evaluate_comparison c values"
| "evaluate_query_ast (Logical operator left right) values =
     (case evaluate_query_ast left values of Inl e \<Rightarrow> Inl e | Inr (left_ok, left_rules, left_fields) \<Rightarrow>
      (case evaluate_query_ast right values of Inl e \<Rightarrow> Inl e | Inr (right_ok, right_rules, right_fields) \<Rightarrow>
        if operator = ''AND''
        then (if left_ok \<and> right_ok then Inr (True, left_rules @ right_rules, left_fields @ right_fields)
              else Inr (False, [], []))
        else if operator = ''OR''
        then (if left_ok \<and> right_ok then Inr (True, left_rules @ right_rules, left_fields @ right_fields)
              else if left_ok then Inr (True, left_rules, left_fields)
              else if right_ok then Inr (True, right_rules, right_fields)
              else Inr (False, [], []))
        else Inl (Unsupported_Logical operator)))"
| "evaluate_query_ast Malformed values = Inl Invalid_Node"

section \<open>The grammar\<close>

text \<open>
  What the parser is meant to accept: \<open>OR\<close> binds weaker than \<open>AND\<close>, both associate to the left,
  parentheses group.
\<close>

definition comparison_phrase :: "query_token \<Rightarrow> query_token \<Rightarrow> query_token \<Rightarrow> query_ast \<Rightarrow> bool" where
  "comparison_phrase f p v node \<longleftrightarrow>
     upper (lower (tok_value f)) \<notin> set [''AND'', ''OR''] \<and> is_supported_field (lower (tok_value f)) \<and>
     tok_value p \<in> set ALLOWED_COMPARISON_OPERATORS \<and>
     comparison_value (lower (tok_value f)) (tok_value p) v = Inr node"

inductive or_phrase :: "query_token list \<Rightarrow> query_ast \<Rightarrow> bool"
  and and_phrase :: "query_token list \<Rightarrow> query_ast \<Rightarrow> bool"
  and factor_phrase :: "query_token list \<Rightarrow> query_ast \<Rightarrow> bool" where
  or_one: "and_phrase ts n \<Longrightarrow> or_phrase ts n"
| or_more: "or_phrase ts l \<Longrightarrow> upper (tok_value k) = ''OR'' \<Longrightarrow> and_phrase us r \<Longrightarrow>
     or_phrase (ts @ k # us) (Logical ''OR'' l r)"
| and_one: "factor_phrase ts n \<Longrightarrow> and_phrase ts n"
| and_more: "and_phrase ts l \<Longrightarrow> upper (tok_value k) = ''AND'' \<Longrightarrow> factor_phrase us r \<Longrightarrow>
     and_phrase (ts @ k # us) (Logical ''AND'' l r)"
| factor_group: "tok_value a = ''('' \<Longrightarrow> or_phrase ts n \<Longrightarrow> tok_value b = '')'' \<Longrightarrow>
     factor_phrase (a # ts @ [b]) n"
| factor_comparison: "comparison_phrase f p v n \<Longrightarrow> factor_phrase [f, p, v] n"

lemma parenthesis_is_no_field: "\<not> is_supported_field (lower ''('')"
  by code_simp

lemma parenthesis_is_no_keyword: "upper '')'' \<noteq> ''AND''" "upper '')'' \<noteq> ''OR''"
  by code_simp+

lemma parse_comparison_iff:
  "parse_comparison ts = Inr (n, rest) \<longleftrightarrow>
     (\<exists>f p v. ts = f # p # v # rest \<and> comparison_phrase f p v n)"
  by (auto simp: parse_comparison_def consume_token_def comparison_phrase_def Let_def
      split: list.splits if_splits sum.splits)

lemma phrase_parses:
  "or_phrase ts n \<Longrightarrow> \<not> at_keyword ''AND'' rest \<Longrightarrow> parse_or (ts @ rest) = or_loop n rest"
  "and_phrase ts n \<Longrightarrow> parse_and (ts @ rest') = and_loop n rest'"
  "factor_phrase ts n \<Longrightarrow> parse_factor (ts @ rest'') = Inr (n, rest'')"
proof (induction arbitrary: rest and rest' and rest'' rule: or_phrase_and_phrase_factor_phrase.inducts)
  case (or_one ts n)
  then show ?case by (simp add: parse_or.simps and_loop.simps)
next
  case (or_more ts l k us r)
  have "parse_or (ts @ k # us @ rest) = or_loop l (k # us @ rest)"
    using or_more by (simp add: at_keyword_def)
  also have "\<dots> = or_loop (Logical ''OR'' l r) rest"
    using or_more by (simp add: or_loop.simps [of l] at_keyword_def and_loop.simps)
  finally show ?case by simp
next
  case (and_one ts n)
  then show ?case by (simp add: parse_and.simps)
next
  case (and_more ts l k us r)
  have "parse_and (ts @ k # us @ rest') = and_loop l (k # us @ rest')" using and_more by simp
  also have "\<dots> = and_loop (Logical ''AND'' l r) rest'"
    using and_more by (simp add: and_loop.simps [of l] at_keyword_def)
  finally show ?case by simp
next
  case (factor_group a ts n b)
  have "parse_or (ts @ b # rest'') = or_loop n (b # rest'')"
    using factor_group by (simp add: at_keyword_def parenthesis_is_no_keyword)
  also have "\<dots> = Inr (n, b # rest'')"
    using factor_group by (simp add: or_loop.simps at_keyword_def parenthesis_is_no_keyword)
  finally show ?case using factor_group by (simp add: parse_factor.simps)
next
  case (factor_comparison f p v n)
  then have "tok_value f \<noteq> ''(''"
    using parenthesis_is_no_field by (auto simp: comparison_phrase_def)
  then show ?case using factor_comparison by (simp add: parse_factor.simps parse_comparison_iff)
qed

lemma parsed_is_phrase:
  "parse_or ts = Inr (n, rest) \<Longrightarrow> \<exists>us. ts = us @ rest \<and> or_phrase us n"
  "or_loop node ts = Inr (n, rest) \<Longrightarrow> or_phrase pre node \<Longrightarrow> \<exists>us. ts = us @ rest \<and> or_phrase (pre @ us) n"
  "parse_and ts = Inr (n, rest) \<Longrightarrow> \<exists>us. ts = us @ rest \<and> and_phrase us n"
  "and_loop node ts = Inr (n, rest) \<Longrightarrow> and_phrase pre node \<Longrightarrow> \<exists>us. ts = us @ rest \<and> and_phrase (pre @ us) n"
  "parse_factor ts = Inr (n, rest) \<Longrightarrow> \<exists>us. ts = us @ rest \<and> factor_phrase us n"
proof (induction ts and node ts and ts and node ts and ts
    arbitrary: n rest and n rest pre and n rest and n rest pre and n rest
    rule: parse_or_or_loop_parse_and_and_loop_parse_factor.induct)
  case (1 ts)
  then obtain m r1 where m: "parse_and ts = Inr (m, r1)" "or_loop m r1 = Inr (n, rest)"
    by (auto simp: parse_or.simps [of ts] split: sum.splits)
  from "1.IH"(1) [OF m(1)] obtain us where us: "ts = us @ r1" "and_phrase us m" by blast
  from "1.IH"(2) [OF m(1) refl m(2) or_one [OF us(2)]] us(1) show ?case by auto
next
  case (2 node ts)
  show ?case
  proof (cases "at_keyword ''OR'' ts")
    case True
    with 2(3) obtain m r1 where m: "parse_and (tl ts) = Inr (m, r1)"
        "or_loop (Logical ''OR'' node m) r1 = Inr (n, rest)"
      by (auto simp: or_loop.simps [of node ts] split: sum.splits)
    from True obtain k tl' where k: "ts = k # tl'" "upper (tok_value k) = ''OR''"
      by (auto simp: at_keyword_def split: list.splits)
    from "2.IH"(1) [OF True m(1)] obtain us where us: "tl ts = us @ r1" "and_phrase us m" by blast
    have "or_phrase (pre @ k # us) (Logical ''OR'' node m)" using 2(4) k(2) us(2) by (rule or_more)
    from "2.IH"(2) [OF True m(1) refl m(2) this] us(1) k(1) show ?thesis by auto
  next
    case False
    with 2(3,4) show ?thesis by (auto simp: or_loop.simps [of node ts])
  qed
next
  case (3 ts)
  then obtain m r1 where m: "parse_factor ts = Inr (m, r1)" "and_loop m r1 = Inr (n, rest)"
    by (auto simp: parse_and.simps [of ts] split: sum.splits)
  from "3.IH"(1) [OF m(1)] obtain us where us: "ts = us @ r1" "factor_phrase us m" by blast
  from "3.IH"(2) [OF m(1) refl m(2) and_one [OF us(2)]] us(1) show ?case by auto
next
  case (4 node ts)
  show ?case
  proof (cases "at_keyword ''AND'' ts")
    case True
    with 4(3) obtain m r1 where m: "parse_factor (tl ts) = Inr (m, r1)"
        "and_loop (Logical ''AND'' node m) r1 = Inr (n, rest)"
      by (auto simp: and_loop.simps [of node ts] split: sum.splits)
    from True obtain k tl' where k: "ts = k # tl'" "upper (tok_value k) = ''AND''"
      by (auto simp: at_keyword_def split: list.splits)
    from "4.IH"(1) [OF True m(1)] obtain us where us: "tl ts = us @ r1" "factor_phrase us m" by blast
    have "and_phrase (pre @ k # us) (Logical ''AND'' node m)" using 4(4) k(2) us(2) by (rule and_more)
    from "4.IH"(2) [OF True m(1) refl m(2) this] us(1) k(1) show ?thesis by auto
  next
    case False
    with 4(3,4) show ?thesis by (auto simp: and_loop.simps [of node ts])
  qed
next
  case 5
  then show ?case by (simp add: parse_factor.simps)
next
  case (6 t ts)
  show ?case
  proof (cases "tok_value t = ''(''")
    case True
    with 6(2) obtain m c r1 where m: "parse_or ts = Inr (m, c # r1)" and c: "tok_value c = '')''" "n = m" "rest = r1"
      by (auto simp: parse_factor.simps split: sum.splits list.splits if_splits)
    from "6.IH" [OF True m] obtain us where "ts = us @ c # r1" "or_phrase us m" by blast
    then show ?thesis using factor_group [OF True _ c(1)] c(2,3)
      by (intro exI [of _ "t # us @ [c]"]) simp
  next
    case False
    with 6(2) obtain p v where "ts = p # v # rest" "comparison_phrase t p v n"
      by (auto simp: parse_factor.simps parse_comparison_iff)
    then show ?thesis by (intro exI [of _ "[t, p, v]"]) (simp add: factor_comparison)
  qed
qed


section \<open>Well-formed trees and the meaning of a query\<close>

fun wf_ast :: "query_ast \<Rightarrow> bool" where
  "wf_ast (Comparison c) \<longleftrightarrow>
     is_supported_field (cmp_field c) \<and> lower (cmp_field c) = cmp_field c \<and>
     cmp_operator c \<in> set ALLOWED_COMPARISON_OPERATORS \<and>
     (case cmp_rhs_field c of
        None \<Rightarrow> cmp_value_type c = ''number''
      | Some f \<Rightarrow> cmp_value_type c = ''field'' \<and> f \<noteq> [] \<and> lower f = f)"
| "wf_ast (Logical operator left right) \<longleftrightarrow> operator \<in> set [''AND'', ''OR''] \<and> wf_ast left \<and> wf_ast right"
| "wf_ast Malformed \<longleftrightarrow> False"

fun holds :: "(string \<rightharpoonup> num) \<Rightarrow> query_ast \<Rightarrow> bool" where
  "holds values (Comparison c) \<longleftrightarrow>
     (let rhs = (case cmp_rhs_field c of None \<Rightarrow> cmp_value c | Some f \<Rightarrow> Number (get_or (values f) 0))
      in compare_values (get_or (values (cmp_field c)) 0) (cmp_operator c) rhs = Inr True)"
| "holds values (Logical operator left right) \<longleftrightarrow>
     (if operator = ''AND'' then holds values left \<and> holds values right
      else holds values left \<or> holds values right)"
| "holds values Malformed \<longleftrightarrow> False"

lemma lower_char_idem: "lower_char (lower_char c) = lower_char c"
proof -
  have "(of_char c :: nat) < 256" by simp
  then have "(of_char (lower_char c) :: nat) = (let n = of_char c in if 65 \<le> n \<and> n \<le> 90 then n + 32 else n)"
    by (auto simp: lower_char_def Let_def take_bit_eq_mod)
  then show ?thesis by (subst lower_char_def) (auto simp: Let_def)
qed

lemma lower_idem [simp]: "lower (lower s) = lower s"
  by (simp add: lower_def lower_char_idem)

lemma no_field_is_empty: "is_supported_field f \<Longrightarrow> f \<noteq> []"
proof
  assume f: "is_supported_field f" and e: "f = []"
  have "\<not> is_supported_field []" by code_simp
  with f e show False by simp
qed

lemma phrase_wf:
  "or_phrase ts n \<Longrightarrow> wf_ast n" "and_phrase ts n \<Longrightarrow> wf_ast n" "factor_phrase ts n \<Longrightarrow> wf_ast n"
proof (induction rule: or_phrase_and_phrase_factor_phrase.inducts)
  case (factor_comparison f p v n)
  then show ?case
    by (auto simp: comparison_phrase_def comparison_value_def Let_def no_field_is_empty
        split: option.splits if_splits)
qed simp_all

lemma compare_values_allowed:
  assumes "operator \<in> set ALLOWED_COMPARISON_OPERATORS"
  obtains b where "compare_values lhs operator rhs = Inr b"
  using assms by (auto simp: compare_values_def ALLOWED_COMPARISON_OPERATORS_def)

text \<open>A well-formed tree has a value exactly when its fields have one, and then it is \<open>holds\<close>.\<close>

lemma evaluate_comparison_ok:
  assumes "wf_ast (Comparison c)"
  shows "if collect_query_fields (Comparison c) \<subseteq> dom values
     then \<exists>rules fields. evaluate_comparison c values = Inr (holds values (Comparison c), rules, fields) \<and>
       set fields \<subseteq> collect_query_fields (Comparison c) \<and> (rules \<noteq> [] \<longleftrightarrow> holds values (Comparison c))
     else \<exists>e. evaluate_comparison c values = Inl e"
proof -
  have field: "cmp_field c \<noteq> []" "lower (cmp_field c) = cmp_field c"
    using assms no_field_is_empty by auto
  have op: "cmp_operator c \<in> set ALLOWED_COMPARISON_OPERATORS" using assms by simp
  show ?thesis
  proof (cases "values (cmp_field c)")
    case None
    with field show ?thesis by (auto simp: evaluate_comparison_def domIff)
  next
    case (Some lhs)
    show ?thesis
    proof (cases "cmp_rhs_field c")
      case None
      obtain b where b: "compare_values lhs (cmp_operator c) (cmp_value c) = Inr b"
        by (rule compare_values_allowed [OF op])
      show ?thesis
        using assms None Some field b by (cases b) (auto simp: evaluate_comparison_def)
    next
      case (Some f)
      with assms have f: "f \<noteq> []" "lower f = f" "cmp_value_type c = ''field''" by auto
      then have rhs: "str_or (cmp_rhs_field c) [] = f" using Some by (simp add: str_or_def)
      show ?thesis
      proof (cases "values f")
        case None
        with \<open>values (cmp_field c) = Some lhs\<close> Some f field rhs show ?thesis
          by (auto simp: evaluate_comparison_def Let_def domIff)
      next
        case v: (Some v)
        obtain b where b: "compare_values lhs (cmp_operator c) (Number v) = Inr b"
          by (rule compare_values_allowed [OF op])
        show ?thesis
          using \<open>values (cmp_field c) = Some lhs\<close> Some f field rhs v b
          by (cases b) (auto simp: evaluate_comparison_def Let_def domIff)
      qed
    qed
  qed
qed

lemma evaluate_query_ast_ok:
  "wf_ast ast \<Longrightarrow>
   (if collect_query_fields ast \<subseteq> dom values
    then \<exists>rules fields. evaluate_query_ast ast values = Inr (holds values ast, rules, fields) \<and>
       set fields \<subseteq> collect_query_fields ast \<and> (rules \<noteq> [] \<longleftrightarrow> holds values ast)
    else \<exists>e. evaluate_query_ast ast values = Inl e)"
proof (induction ast)
  case (Comparison c)
  then show ?case using evaluate_comparison_ok by (simp del: collect_query_fields.simps wf_ast.simps holds.simps)
next
  case (Logical operator left right)
  have op: "operator = ''AND'' \<or> operator = ''OR''" using Logical.prems by auto
  have l: "wf_ast left" and r: "wf_ast right" using Logical.prems by simp_all
  show ?case
  proof (cases "collect_query_fields left \<subseteq> dom values \<and> collect_query_fields right \<subseteq> dom values")
    case True
    then obtain lr lf rr rf where
      "evaluate_query_ast left values = Inr (holds values left, lr, lf)" "set lf \<subseteq> collect_query_fields left"
      "lr \<noteq> [] \<longleftrightarrow> holds values left"
      "evaluate_query_ast right values = Inr (holds values right, rr, rf)" "set rf \<subseteq> collect_query_fields right"
      "rr \<noteq> [] \<longleftrightarrow> holds values right"
      using Logical.IH(1) [OF l] Logical.IH(2) [OF r] by auto
    with True op show ?thesis by (cases "holds values left"; cases "holds values right") auto
  next
    case False
    then have "(\<exists>e. evaluate_query_ast left values = Inl e) \<or> (\<exists>e. evaluate_query_ast right values = Inl e)"
      using Logical.IH(1) [OF l] Logical.IH(2) [OF r]
      by (cases "collect_query_fields left \<subseteq> dom values") simp_all
    then show ?thesis using False by (auto split: sum.split)
  qed
next
  case Malformed
  then show ?case by simp
qed

lemma parse_tokens_iff: "parse_tokens ts = Inr ast \<longleftrightarrow> or_phrase ts ast"
proof
  assume "parse_tokens ts = Inr ast"
  then have "parse_or ts = Inr (ast, [])"
    by (auto simp: parse_tokens_def split: sum.splits list.splits prod.splits)
  from parsed_is_phrase(1) [OF this] show "or_phrase ts ast" by auto
next
  assume "or_phrase ts ast"
  then have "parse_or (ts @ []) = or_loop ast []"
    by (rule phrase_parses(1)) (simp add: at_keyword_def)
  then show "parse_tokens ts = Inr ast" by (simp add: parse_tokens_def or_loop.simps at_keyword_def)
qed

section \<open>Sources with one space between tokens\<close>

definition is_identifier :: "string \<Rightarrow> bool" where
  "is_identifier w = (case w of [] \<Rightarrow> False | c # cs \<Rightarrow> is_ident_start c \<and> list_all is_word_char cs)"

definition is_number :: "string \<Rightarrow> bool" where
  "is_number w = (let whole = takeWhile is_digit w; rest = dropWhile is_digit w in
     whole \<noteq> [] \<and> (case rest of [] \<Rightarrow> True
       | d # fr \<Rightarrow> d = CHR ''.'' \<and> fr \<noteq> [] \<and> list_all is_digit fr))"

definition is_token :: "string \<Rightarrow> bool" where
  "is_token w \<longleftrightarrow> w \<in> set symbol_tokens \<or> is_identifier w \<or> is_number w"

definition spaced_source :: "string list \<Rightarrow> string" where
  "spaced_source ws = (case ws of [] \<Rightarrow> [] | w # vs \<Rightarrow> w @ concat (map (\<lambda>v. CHR '' '' # v) vs))"

text \<open>Where a token ends: at the end of the source or at a space.\<close>

definition token_end :: "string \<Rightarrow> bool" where
  "token_end rest = (case rest of [] \<Rightarrow> True | c # _ \<Rightarrow> c = CHR '' '')"

lemma char_classes:
  "is_space (CHR '' '')" "\<not> is_word_char (CHR '' '')" "\<not> is_digit (CHR '' '')" "\<not> is_digit (CHR ''.'')"
  by code_simp+

lemma class_starts:
  "is_ident_start c \<Longrightarrow> \<not> is_space c" "is_digit c \<Longrightarrow> \<not> is_space c"
  "is_ident_start c \<Longrightarrow> \<not> is_digit c"
  by (auto simp: is_ident_start_def is_digit_def is_space_def Let_def)

lemma symbols_are_no_words:
  "list_all (\<lambda>t. case t of [] \<Rightarrow> False | c # _ \<Rightarrow> \<not> is_word_char c \<and> \<not> is_space c) symbol_tokens"
  by code_simp

lemma no_symbol_at_word:
  assumes "is_word_char c" shows "List.find (\<lambda>t. prefix t (c # cs)) symbol_tokens = None"
proof -
  have "\<not> prefix t (c # cs)" if "t \<in> set symbol_tokens" for t
  proof -
    have "case t of [] \<Rightarrow> False | c # _ \<Rightarrow> \<not> is_word_char c \<and> \<not> is_space c"
      using symbols_are_no_words that unfolding list_all_iff by blast
    with assms show ?thesis by (cases t) auto
  qed
  then show ?thesis by (simp add: find_None_iff)
qed


lemma token_end_stops:
  "token_end rest \<Longrightarrow> \<not> P (CHR '' '') \<Longrightarrow> takeWhile P rest = [] \<and> dropWhile P rest = rest"
  by (cases rest) (auto simp: token_end_def)

lemma split_at_end:
  assumes "list_all P w" "token_end rest" "\<not> P (CHR '' '')"
  shows "takeWhile P (w @ rest) = w \<and> dropWhile P (w @ rest) = rest"
  using assms token_end_stops [where P = P, OF assms(2,3)]
  by (simp add: takeWhile_append dropWhile_append list_all_iff)

lemma match_identifier:
  assumes "is_identifier w" "token_end rest"
  shows "match_token (w @ rest) = Some (w, rest)"
proof -
  obtain c cs where w: "w = c # cs" "is_ident_start c" "list_all is_word_char cs"
    using assms(1) by (auto simp: is_identifier_def split: list.splits)
  have c: "is_word_char c" "\<not> is_space c" using w(2) class_starts by (auto simp: is_word_char_def)
  have "list_all is_word_char w" using w c by simp
  then have "takeWhile is_word_char (c # cs @ rest) = c # cs \<and> dropWhile is_word_char (c # cs @ rest) = rest"
    using split_at_end [where P = is_word_char, OF _ assms(2) char_classes(2)] w(1) by simp
  with w c show ?thesis
    unfolding match_token_def Let_def by (simp add: no_symbol_at_word)
qed

lemma match_number:
  assumes "is_number w" "token_end rest"
  shows "match_token (w @ rest) = Some (w, rest)"
proof -
  let ?whole = "takeWhile is_digit w" and ?rest = "dropWhile is_digit w"
  have whole: "?whole \<noteq> []" using assms(1) by (simp add: is_number_def Let_def)
  then obtain c cs where w: "w = c # cs" and c: "is_digit c"
    by (cases w) (auto split: if_splits)
  have c': "is_word_char c" "\<not> is_space c" "\<not> is_ident_start c"
    using c class_starts by (auto simp: is_word_char_def)
  have parts: "w = ?whole @ ?rest" by simp
  have run: "takeWhile is_digit (w @ rest) = ?whole \<and> dropWhile is_digit (w @ rest) = ?rest @ rest"
  proof (cases ?rest)
    case Nil
    then have "list_all is_digit w" by (simp add: dropWhile_eq_Nil_conv list_all_iff)
    with split_at_end [where P = is_digit, OF this assms(2) char_classes(3)] Nil show ?thesis
      by (simp add: takeWhile_eq_all_conv [THEN iffD2] list_all_iff)
  next
    case (Cons d fr)
    then have "\<not> is_digit d" using hd_dropWhile [of is_digit w] by simp
    moreover have "d \<in> set w" using Cons set_dropWhileD [of d is_digit w] parts by (metis list.set_intros(1) in_set_conv_decomp append_Cons append_assoc)
    ultimately show ?thesis using Cons takeWhile_append1 [of d w is_digit rest] dropWhile_append1 [of d w is_digit rest] by simp
  qed
  have reduce: "match_token (w @ rest) =
      (case ?rest @ rest of
         d # e # es \<Rightarrow> if d = CHR ''.'' \<and> is_digit e
           then Some (?whole @ [d] @ takeWhile is_digit (e # es), dropWhile is_digit (e # es))
           else Some (?whole, ?rest @ rest)
       | _ \<Rightarrow> Some (?whole, ?rest @ rest))"
  proof -
    have no_space: "dropWhile is_space (w @ rest) = w @ rest" using w c' by simp
    have no_symbol: "List.find (\<lambda>t. prefix t (w @ rest)) symbol_tokens = None"
      using w c' no_symbol_at_word by simp
    have start: "(case w @ rest of [] \<Rightarrow> None | c # cs \<Rightarrow>
        if is_ident_start c then a c cs else if is_digit c then b c cs else None) = b c (cs @ rest)"
      for a :: "char \<Rightarrow> string \<Rightarrow> (string \<times> string) option" and b
      using w c c' by simp
    show ?thesis
      unfolding match_token_def Let_def no_space no_symbol option.case start run [THEN conjunct1] run [THEN conjunct2] ..
  qed
  show ?thesis
  proof (cases ?rest)
    case Nil
    then have whole_w: "?whole = w" by (metis append_Nil2 takeWhile_dropWhile_id)
    show ?thesis
      unfolding reduce unfolding Nil whole_w append_Nil
      using assms(2) by (auto simp: token_end_def split: list.split)
  next
    case (Cons d fr)
    then have fr: "d = CHR ''.''" "fr \<noteq> []" "list_all is_digit fr"
      using assms(1) by (auto simp: is_number_def Let_def)
    then obtain e es where e: "fr = e # es" by (cases fr) auto
    have "takeWhile is_digit (e # es @ rest) = fr \<and> dropWhile is_digit (e # es @ rest) = rest"
      using split_at_end [where P = is_digit, OF fr(3) assms(2) char_classes(3)] e by simp
    with reduce Cons fr e parts show ?thesis by simp
  qed
qed

lemma symbols_checked:
  "list_all (\<lambda>t. 1 \<le> length t \<and> length t \<le> 2 \<and> \<not> is_space (hd t) \<and>
      List.find (\<lambda>u. prefix u t) symbol_tokens = Some t \<and>
      List.find (\<lambda>u. prefix u (t @ '' '')) symbol_tokens = Some t) symbol_tokens"
  by code_simp

lemma symbolsD:
  assumes "t \<in> set symbol_tokens"
  shows "t \<noteq> []" "length t \<le> 2" "\<not> is_space (hd t)"
    "List.find (\<lambda>u. prefix u t) symbol_tokens = Some t"
    "List.find (\<lambda>u. prefix u (t @ '' '')) symbol_tokens = Some t"
  using bspec [OF symbols_checked [unfolded list_all_iff] assms] by auto

lemma match_symbol:
  assumes "w \<in> set symbol_tokens" "token_end rest"
  shows "match_token (w @ rest) = Some (w, rest)"
proof -
  have found: "List.find (\<lambda>u. prefix u (w @ rest)) symbol_tokens = Some w"
  proof (cases rest)
    case Nil
    with symbolsD(4) [OF assms(1)] show ?thesis by simp
  next
    case (Cons c r)
    then have c: "c = CHR '' ''" using assms(2) by (simp add: token_end_def)
    have "prefix u (w @ rest) \<longleftrightarrow> prefix u (w @ '' '')" if "u \<in> set symbol_tokens" for u
    proof -
      have "length u \<le> length (w @ '' '')"
        using symbolsD(1) [OF assms(1)] symbolsD(2) [OF that] by (cases w) auto
      then have "prefix u ((w @ '' '') @ r) \<longleftrightarrow> prefix u (w @ '' '')"
        by (metis prefix_length_prefix prefix_prefix prefixI)
      then show ?thesis by (simp add: Cons c)
    qed
    then have "List.find (\<lambda>u. prefix u (w @ rest)) symbol_tokens = List.find (\<lambda>u. prefix u (w @ '' '')) symbol_tokens"
      by (intro find_cong) auto
    with symbolsD(5) [OF assms(1)] show ?thesis by simp
  qed
  have "dropWhile is_space (w @ rest) = w @ rest"
    using symbolsD(1,3) [OF assms(1)] by (cases w) auto
  with found show ?thesis by (simp add: match_token_def)
qed

lemma match_any:
  "is_token w \<Longrightarrow> token_end rest \<Longrightarrow> match_token (w @ rest) = Some (w, rest)"
  by (auto simp: is_token_def match_symbol match_identifier match_number)

lemma match_after_space: "match_token (CHR '' '' # src) = match_token src"
  by (simp add: match_token_def char_classes)

lemma token_nonempty: "is_token w \<Longrightarrow> w \<noteq> []"
  by (auto simp: is_token_def is_identifier_def is_number_def Let_def dest: symbolsD(1))

lemma token_end_source: "token_end (concat (map (\<lambda>v. CHR '' '' # v) ws))"
  by (cases ws) (simp_all add: token_end_def)

lemma tokens_from_spaced:
  "list_all is_token ws \<Longrightarrow>
     \<exists>ts. tokens_from pos (concat (map (\<lambda>v. CHR '' '' # v) ws)) = Inr ts \<and> map tok_value ts = ws"
proof (induction ws arbitrary: pos)
  case Nil
  then show ?case by (simp add: tokens_from.simps)
next
  case (Cons w ws)
  let ?rest = "concat (map (\<lambda>v. CHR '' '' # v) ws)"
  have match: "match_token (CHR '' '' # w @ ?rest) = Some (w, ?rest)"
    using Cons.prems match_any [OF _ token_end_source, of w ws] by (simp add: match_after_space)
  obtain ts where "tokens_from (pos + (length (CHR '' '' # w @ ?rest) - length ?rest)) ?rest = Inr ts"
      "map tok_value ts = ws"
    using Cons.IH Cons.prems by fastforce
  with match show ?case by (simp add: tokens_from.simps [of pos "CHR '' '' # w @ ?rest"])
qed


lemma strip_no_space:
  assumes "s \<noteq> []" "\<not> is_space (hd s)" "\<not> is_space (last s)"
  shows "strip s = s"
proof -
  have "dropWhile is_space s = s" using assms(1,2) by (cases s) auto
  moreover have "dropWhile is_space (rev s) = rev s"
    using assms(1,3) by (cases s rule: rev_cases) auto
  ultimately show ?thesis by (simp add: strip_def)
qed

lemma digits_no_space: "list_all is_digit ds \<Longrightarrow> x \<in> set ds \<Longrightarrow> \<not> is_space x"
  using class_starts(2) by (auto simp: list_all_iff)

lemma token_no_space:
  assumes "is_token w" shows "\<not> is_space (hd w) \<and> \<not> is_space (last w)"
proof -
  have sym: "list_all (\<lambda>t. \<not> is_space (hd t) \<and> \<not> is_space (last t)) symbol_tokens" by code_simp
  have word: "is_word_char c \<Longrightarrow> \<not> is_space c" for c
    using class_starts by (auto simp: is_word_char_def)
  from assms consider "w \<in> set symbol_tokens" | "is_identifier w" | "is_number w"
    by (auto simp: is_token_def)
  then show ?thesis
  proof cases
    case 1
    with sym show ?thesis unfolding list_all_iff by blast
  next
    case 2
    then have "w \<noteq> []" "list_all is_word_char w"
      by (auto simp: is_identifier_def is_word_char_def split: list.splits)
    then show ?thesis using word by (auto simp: list_all_iff)
  next
    case 3
    let ?whole = "takeWhile is_digit w" and ?rest = "dropWhile is_digit w"
    have whole: "?whole \<noteq> []" "list_all is_digit ?whole"
      using 3 by (auto simp: is_number_def Let_def list_all_iff dest: set_takeWhileD)
    have w: "w = ?whole @ ?rest" by simp
    have "hd w = hd ?whole" using whole(1) by (cases w) (auto split: if_splits)
    moreover have "\<not> is_space (hd ?whole)" using digits_no_space [OF whole(2)] whole(1) by simp
    moreover have "\<not> is_space (last w)"
    proof (cases ?rest)
      case Nil
      then have "w = ?whole" by (metis append_Nil2 takeWhile_dropWhile_id)
      then have "last w = last ?whole" by simp
      then show ?thesis using digits_no_space [OF whole(2)] whole(1) by simp
    next
      case (Cons d fr)
      then have fr: "fr \<noteq> []" "list_all is_digit fr" using 3 by (auto simp: is_number_def Let_def)
      have "last w = last fr" using w Cons fr(1) by (metis last_ConsR last_appendR list.distinct(1))
      then show ?thesis using digits_no_space [OF fr(2)] fr(1) by simp
    qed
    ultimately show ?thesis by simp
  qed
qed

lemma last_spaced: "list_all is_token (w # ws) \<Longrightarrow> \<not> is_space (last (spaced_source (w # ws)))"
proof (cases ws rule: rev_cases)
  case Nil
  moreover assume "list_all is_token (w # ws)"
  ultimately show ?thesis by (simp add: spaced_source_def token_no_space)
next
  case (snoc vs v)
  moreover assume "list_all is_token (w # ws)"
  ultimately have v: "is_token v" by simp
  then have "last (spaced_source (w # ws)) = last v"
    using snoc token_nonempty [OF v] by (simp add: spaced_source_def)
  then show ?thesis using token_no_space [OF v] by simp
qed

lemma tokenize_spaced:
  assumes "list_all is_token (w # ws)"
  shows "\<exists>ts. tokenize_query_expression (spaced_source (w # ws)) = Inr ts \<and> map tok_value ts = w # ws"
proof -
  let ?rest = "concat (map (\<lambda>v. CHR '' '' # v) ws)"
  let ?src = "w @ ?rest"
  have src: "spaced_source (w # ws) = ?src" by (simp add: spaced_source_def)
  have w: "is_token w" "w \<noteq> []" using assms token_nonempty by auto
  have "hd ?src = hd w" using w(2) by simp
  then have "strip ?src = ?src"
    using w token_no_space [OF w(1)] last_spaced [OF assms] by (intro strip_no_space) (auto simp: src)
  moreover have "match_token ?src = Some (w, ?rest)" using match_any [OF w(1) token_end_source] .
  moreover obtain ts where "tokens_from (0 + (length ?src - length ?rest)) ?rest = Inr ts" "map tok_value ts = ws"
    using tokens_from_spaced assms by fastforce
  ultimately show ?thesis
    using w(2) by (simp add: src tokenize_query_expression_def Let_def tokens_from.simps [of 0 ?src])
qed

section \<open>Properties\<close>

text \<open>
  C6: The parser implements the grammar: it returns a tree for a list of tokens exactly when the
  tokens are a phrase of the grammar for that tree (\<open>AND\<close> before \<open>OR\<close>, both to the left,
  parentheses around a whole query, a supported field, an operator, then a number or a field).
  The grammar is therefore unambiguous, and the parser terminates on every input.
\<close>

theorem parser_implements_grammar: "parse_tokens ts = Inr ast \<longleftrightarrow> or_phrase ts ast"
  by (rule parse_tokens_iff)

text \<open>
  Evaluating a parsed query on a row of values succeeds exactly when the row has a value for
  every field the query needs (\<open>collect_query_fields\<close>); it then returns the truth of the query,
  names at least one satisfied rule exactly when the query is true, and only fields of the query.
\<close>

theorem parsed_query_evaluates:
  assumes "parse_query_expression src = Inr ast"
  shows "if collect_query_fields ast \<subseteq> dom values
     then \<exists>rules fields. evaluate_query_ast ast values = Inr (holds values ast, rules, fields) \<and>
       set fields \<subseteq> collect_query_fields ast \<and> (rules \<noteq> [] \<longleftrightarrow> holds values ast)
     else \<exists>e. evaluate_query_ast ast values = Inl e"
proof -
  obtain ts where "parse_tokens ts = Inr ast"
    using assms by (auto simp: parse_query_expression_def split: sum.splits)
  then have "wf_ast ast" using phrase_wf(1) by (simp add: parse_tokens_iff)
  then show ?thesis by (rule evaluate_query_ast_ok)
qed

definition sample_ast :: query_ast where
  "sample_ast = Comparison \<lparr>cmp_field = ''rsi14'', cmp_operator = ''<'', cmp_value = Number 30,
     cmp_value_type = ''number'', cmp_rhs_field = None\<rparr>"

definition sample_row :: "string \<rightharpoonup> num" where
  "sample_row = [''rsi14'' \<mapsto> 20]"

theorem parsed_query_evaluates_witness:
  "\<exists>rules fields. evaluate_query_ast sample_ast sample_row = Inr (True, rules, fields) \<and> rules \<noteq> []"
proof -
  have parsed: "parse_query_expression ''RSI14 < 30'' = Inr sample_ast" by code_simp
  have "collect_query_fields sample_ast \<subseteq> dom sample_row"
    by (simp add: sample_ast_def sample_row_def lower_def lower_char_def)
  moreover have "holds sample_row sample_ast"
    by (simp add: compare_values_def sample_ast_def sample_row_def)
  ultimately show ?thesis using parsed_query_evaluates [OF parsed, of sample_row] by auto
qed

text \<open>
  C40: Tokenizing undoes writing tokens down: for every non-empty list of operators, parentheses,
  identifiers and numbers, written with one space between them, the tokenizer returns that list.
\<close>

theorem tokenize_inverts_spacing:
  assumes "ws \<noteq> []" and "list_all is_token ws"
  shows "\<exists>ts. tokenize_query_expression (spaced_source ws) = Inr ts \<and> map tok_value ts = ws"
  using assms tokenize_spaced by (cases ws) auto

theorem tokenize_inverts_spacing_witness:
  "\<exists>ts. tokenize_query_expression ''rsi14 < 30.5'' = Inr ts \<and> map tok_value ts = [''rsi14'', ''<'', ''30.5'']"
proof -
  have "list_all is_token [''rsi14'', ''<'', ''30.5'']" by code_simp
  from tokenize_inverts_spacing [OF _ this] show ?thesis by (simp add: spaced_source_def)
qed

end
