(* ===== verification/Quote_Policy.thy ===== *)
theory Quote_Policy
  imports Prelude
begin

text \<open>
  The quote asset policy, \<open>src/backend/core/policy/quote_policy.py\<close>: which assets are allowed
  as quotes (the list of the configuration file, cleaned), which quote a symbol has, and the
  normalisation of symbols on which the order paths rely.
\<close>

section \<open>Operations\<close>

text \<open>The items of \<open>allowed_quote_assets\<close>; an item that is \<open>None\<close> reads as the empty string.\<close>

fun clean_quotes :: "string set \<Rightarrow> string option list \<Rightarrow> string list" where
  "clean_quotes seen [] = []"
| "clean_quotes seen (item # items) =
     (let candidate = upper (strip (str_or item [])) in
      if candidate = [] \<or> candidate \<in> seen then clean_quotes seen items
      else candidate # clean_quotes (insert candidate seen) items)"

definition load_allowed_quotes :: "string option list option \<Rightarrow> string + string list" where
  "load_allowed_quotes quote_assets =
     (case quote_assets of
        None \<Rightarrow> Inl ''trading_config_allowed_quote_assets_required''
      | Some items \<Rightarrow>
          let normalized = clean_quotes {} items in
          if normalized = [] then Inl ''trading_config_allowed_quote_assets_empty'' else Inr normalized)"

text \<open>Longest quotes first.\<close>

definition extract_quote :: "string list \<Rightarrow> string option \<Rightarrow> string option" where
  "extract_quote quotes symbol =
     (let normalized = upper (strip (str_or symbol [])) in
      if normalized = [] then None
      else List.find (\<lambda>q. endswith normalized q \<and> length q < length normalized)
             (sort_key (\<lambda>q. - int (length q)) quotes))"

definition is_allowed_quote :: "string list \<Rightarrow> string option \<Rightarrow> bool" where
  "is_allowed_quote quotes symbol =
     (case extract_quote quotes symbol of None \<Rightarrow> False | Some q \<Rightarrow> q \<in> set quotes)"

definition validate_symbol :: "string list \<Rightarrow> string \<Rightarrow> string \<Rightarrow> string option \<Rightarrow> string + string" where
  "validate_symbol quotes missing_error invalid_error symbol =
     (let normalized = upper (strip (str_or symbol [])) in
      if normalized = [] then Inl missing_error
      else if \<not> is_allowed_quote quotes (Some normalized) then Inl invalid_error
      else Inr normalized)"

definition normalize_symbol :: "string list \<Rightarrow> string \<Rightarrow> string \<Rightarrow> string option \<Rightarrow> string + string" where
  "normalize_symbol = validate_symbol"

definition filter_allowed_symbols :: "string list \<Rightarrow> string option list \<Rightarrow> string list" where
  "filter_allowed_symbols quotes symbols =
     sorted_set (filter (\<lambda>c. c \<noteq> [] \<and> is_allowed_quote quotes (Some c))
       (map (\<lambda>s. upper (strip (str_or s []))) symbols))"

section \<open>Lemmas\<close>

lemma find_first_sorted:
  assumes "sorted_wrt R xs" "List.find P xs = Some x" "y \<in> set xs" "P y"
  shows "y = x \<or> R x y"
  using assms by (induction xs) (auto split: if_splits)

lemma find_in: "List.find P xs = Some x \<Longrightarrow> x \<in> set xs \<and> P x"
  by (induction xs) (auto split: if_splits)

lemma extract_quote_in: "extract_quote quotes s = Some q \<Longrightarrow> q \<in> set quotes"
  by (auto simp: extract_quote_def Let_def split: if_splits dest: find_in)

lemma is_allowed_quote_iff: "is_allowed_quote quotes s \<longleftrightarrow> extract_quote quotes s \<noteq> None"
  using extract_quote_in by (auto simp: is_allowed_quote_def split: option.splits)

lemma upper_space: "is_space (upper_char c) = is_space c"
  unfolding is_space_def of_char_upper_char by (auto simp: Let_def)

lemma dropWhile_map_upper: "dropWhile is_space (map upper_char s) = map upper_char (dropWhile is_space s)"
  by (induction s) (auto simp: upper_space)

lemma strip_upper: "strip (upper s) = upper (strip s)"
  by (simp add: strip_def upper_def dropWhile_map_upper rev_map)

lemma dropWhile_idem: "dropWhile P (dropWhile P s) = dropWhile P s"
  by (induction s) auto

lemma dropWhile_suffix_head:
  assumes "dropWhile P s = s"
  shows "dropWhile P (rev (dropWhile P (rev s))) = rev (dropWhile P (rev s))"
proof (cases "rev (dropWhile P (rev s))")
  case Nil
  show ?thesis unfolding Nil by simp
next
  case (Cons c cs)
  have "\<exists>t. s = rev (dropWhile P (rev s)) @ t"
    by (metis rev_append rev_rev_ident takeWhile_dropWhile_id)
  then obtain t where "s = c # cs @ t" using Cons by auto
  have "\<not> P c"
  proof
    assume "P c"
    then have "length (dropWhile P s) \<le> length (cs @ t)"
      using \<open>s = c # cs @ t\<close> length_dropWhile_le [of P "cs @ t"] by simp
    with assms \<open>s = c # cs @ t\<close> show False by simp
  qed
  with Cons show ?thesis by simp
qed

lemma strip_idem [simp]: "strip (strip s) = strip s"
proof -
  let ?a = "dropWhile is_space s"
  have "dropWhile is_space ?a = ?a" by (rule dropWhile_idem)
  from dropWhile_suffix_head [OF this]
  show ?thesis by (simp add: strip_def dropWhile_idem)
qed

section \<open>Properties\<close>

text \<open>
  The quote of a symbol is the longest allowed asset that is a proper suffix of the trimmed,
  capitalised symbol: it is allowed, it is such a suffix, and no allowed asset that is one is
  longer; there is none exactly when no allowed asset is a proper suffix.
\<close>

theorem extract_quote_longest:
  "case extract_quote quotes symbol of
     None \<Rightarrow> list_all (\<lambda>q. \<not> (suffix q (upper (strip (str_or symbol []))) \<and>
         length q < length (upper (strip (str_or symbol []))))) quotes
   | Some q \<Rightarrow> q \<in> set quotes \<and> suffix q (upper (strip (str_or symbol []))) \<and>
       length q < length (upper (strip (str_or symbol []))) \<and>
       list_all (\<lambda>p. \<not> (suffix p (upper (strip (str_or symbol []))) \<and>
         length p < length (upper (strip (str_or symbol []))) \<and> length q < length p)) quotes"
proof -
  let ?n = "upper (strip (str_or symbol []))"
  let ?P = "\<lambda>q. endswith ?n q \<and> length q < length ?n"
  let ?qs = "sort_key (\<lambda>q. - int (length q)) quotes"
  show ?thesis
  proof (cases "extract_quote quotes symbol")
    case None
    have "\<not> ?P q" if "q \<in> set quotes" for q
    proof (cases "?n = []")
      case True
      then show ?thesis by simp
    next
      case False
      with None have "List.find ?P ?qs = None" by (simp add: extract_quote_def Let_def)
      with that show ?thesis by (auto simp: find_None_iff)
    qed
    then show ?thesis using None by (auto simp: list_all_iff endswith_def)
  next
    case (Some q)
    then have find: "List.find ?P ?qs = Some q"
      by (auto simp: extract_quote_def Let_def split: if_splits)
    have sorted: "sorted_wrt (\<lambda>x y. length y \<le> length x) ?qs"
      using sorted_sort_key [of "\<lambda>q. - int (length q)" quotes] by (simp add: sorted_map)
    have "length p \<le> length q" if "p \<in> set quotes" "?P p" for p
      using find_first_sorted [OF sorted find _ that(2)] that(1) by auto
    moreover have "q \<in> set quotes \<and> ?P q" using find_in [OF find] by simp
    ultimately show ?thesis using Some by (fastforce simp: list_all_iff endswith_def)
  qed
qed

text \<open>
  A symbol that was accepted is accepted again unchanged, so normalising twice is normalising
  once, and a list of symbols comes back sorted, without duplicates, and all accepted.
\<close>

theorem normalize_symbol_stable:
  "(case normalize_symbol quotes missing invalid symbol of
      Inl e \<Rightarrow> e = missing \<or> e = invalid
    | Inr s \<Rightarrow> normalize_symbol quotes missing invalid (Some s) = Inr s)
   \<and> sorted (filter_allowed_symbols quotes symbols) \<and> distinct (filter_allowed_symbols quotes symbols)
   \<and> list_all (\<lambda>s. normalize_symbol quotes missing invalid (Some s) = Inr s) (filter_allowed_symbols quotes symbols)"
proof -
  have again: "normalize_symbol quotes missing invalid (Some (upper (strip x))) = Inr (upper (strip x))"
    if "upper (strip x) \<noteq> []" "is_allowed_quote quotes (Some (upper (strip x)))" for x
  proof -
    have "str_or (Some (upper (strip x))) [] = upper (strip x)" by (simp add: str_or_def)
    with that show ?thesis by (simp add: normalize_symbol_def validate_symbol_def Let_def strip_upper)
  qed
  then show ?thesis
    using sorted_sorted_set
    by (auto simp: filter_allowed_symbols_def list_all_iff)
       (auto simp: normalize_symbol_def validate_symbol_def Let_def split: sum.split)
qed

end
