(* ===== verification/Futures_Position.thy ===== *)
theory Futures_Position
  imports Prelude
begin

text \<open>
  The futures position and the formulas over it: \<open>src/backend/core/futures/position_model.py\<close>,
  \<open>liquidation_engine.py\<close>, \<open>funding_bias_engine.py\<close>, \<open>leverage_model.py\<close> and
  \<open>capital_reporting.py\<close>. A position that \<open>__post_init__\<close> refuses is an error value.
\<close>

record futures_position =
  fp_symbol :: string
  fp_side :: string
  fp_entry_price :: num
  fp_mark_price :: num
  fp_position_size :: num
  fp_notional_value :: num
  fp_leverage :: num
  fp_initial_margin :: num
  fp_maintenance_margin :: num
  fp_unrealized_pnl :: num
  fp_liquidation_price :: num
  fp_margin_ratio :: num
  fp_distance_to_liquidation :: num

definition post_init :: "futures_position \<Rightarrow> string + futures_position" where
  "post_init p0 =
     (let p = p0\<lparr>fp_symbol := upper (fp_symbol p0), fp_side := upper (fp_side p0)\<rparr>
      in if fp_side p \<notin> set [''LONG'', ''SHORT''] then Inl ''invalid_side''
         else if fp_entry_price p \<le> 0 \<or> fp_mark_price p \<le> 0 then Inl ''invalid_price''
         else if fp_position_size p \<le> 0 then Inl ''invalid_position_size''
         else if fp_leverage p \<le> 0 then Inl ''invalid_leverage''
         else Inr p)"

section \<open>Liquidation\<close>

definition calculate_margin_ratio :: "futures_position \<Rightarrow> num" where
  "calculate_margin_ratio p =
     (if fp_initial_margin p \<le> 0 then 999
      else py_round 4 (max (fp_initial_margin p + fp_unrealized_pnl p - fp_maintenance_margin p) 0
             / fp_initial_margin p * 100))"

definition liquidation_gap :: "futures_position \<Rightarrow> num" where
  "liquidation_gap p =
     (let notional = max (fp_notional_value p) (1 / 10000)
      in max (fp_initial_margin p / notional - fp_maintenance_margin p / notional) (1 / 10000))"

definition calculate_liquidation_price :: "futures_position \<Rightarrow> num" where
  "calculate_liquidation_price p =
     py_round 6 (max (if fp_side p = ''LONG'' then fp_entry_price p * (1 - liquidation_gap p)
                      else fp_entry_price p * (1 + liquidation_gap p)) (1 / 10000))"

definition calculate_distance_to_liquidation :: "futures_position \<Rightarrow> num" where
  "calculate_distance_to_liquidation p =
     py_round 4 (if fp_mark_price p = 0 then 0
       else \<bar>(fp_mark_price p - calculate_liquidation_price p) / fp_mark_price p\<bar> * 100)"

definition liquidation_risk_level :: "num \<Rightarrow> string" where
  "liquidation_risk_level d = (if d < 8 then ''CRITICAL'' else if d \<le> 15 then ''WARNING'' else ''SAFE'')"

section \<open>Funding, leverage and capital\<close>

record funding_bias =
  fb_rate :: num
  fb_trend :: num
  fb_score :: num
  fb_direction :: "string option"
  fb_pressure_state :: "string option"

definition calculate_funding_bias :: "num \<Rightarrow> num list \<Rightarrow> funding_bias" where
  "calculate_funding_bias rate history =
     (let trend = (if history = [] then 0
            else if 1 < length history then last history - hd history else last history);
          pressure = \<bar>rate\<bar> + \<bar>trend\<bar>
      in \<lparr>fb_rate = rate, fb_trend = py_round 8 trend, fb_score = py_round 4 (min 100 (pressure * 100000)),
          fb_direction = Some (if 0 < rate then ''SHORT_BIAS'' else if rate < 0 then ''LONG_BIAS'' else ''NEUTRAL''),
          fb_pressure_state = Some (if 15 / 10000 \<le> pressure then ''HIGH''
            else if 7 / 10000 \<le> pressure then ''MEDIUM'' else ''LOW'')\<rparr>)"

definition suggest_dynamic_leverage :: "num \<Rightarrow> num \<Rightarrow> num \<Rightarrow> num \<Rightarrow> num \<Rightarrow> num \<Rightarrow> num \<times> num" where
  "suggest_dynamic_leverage strategy volatility liquidity funding base_leverage max_leverage =
     (let composite = strategy * (40 / 100) + volatility * (20 / 100) + liquidity * (20 / 100) + funding * (20 / 100);
          scaled = base_leverage + composite / 100 * (5 / 2)
      in (py_round 4 (min (max scaled 1) max_leverage), py_round 4 composite))"

record capital_recommendation =
  cr_futures_ratio :: num
  cr_spot_ratio :: num
  cr_deviation :: num

definition futures_capital_recommendation :: "num \<Rightarrow> num \<Rightarrow> capital_recommendation" where
  "futures_capital_recommendation total_equity futures_notional =
     (let current = (if 0 < total_equity then futures_notional / total_equity else 0)
      in \<lparr>cr_futures_ratio = py_round 4 current, cr_spot_ratio = py_round 4 (max (1 - current) 0),
          cr_deviation = py_round 4 (current - 30 / 100)\<rparr>)"

section \<open>Lemmas\<close>

lemma post_init_valid:
  assumes "post_init p0 = Inr p"
  shows "fp_side p \<in> {''LONG'', ''SHORT''}" "0 < fp_entry_price p" "0 < fp_mark_price p"
    "0 < fp_position_size p" "0 < fp_leverage p"
  using assms by (auto simp: post_init_def Let_def split: if_splits)

text \<open>A long position is liquidated below its entry price, a short one above it.\<close>

lemma liquidation_price_side:
  assumes "post_init p0 = Inr p" and "1 / 10000 \<le> fp_entry_price p" and "on_grid 6 (fp_entry_price p)"
  shows "if fp_side p = ''LONG'' then calculate_liquidation_price p \<le> fp_entry_price p
    else fp_entry_price p \<le> calculate_liquidation_price p"
proof -
  have "0 < liquidation_gap p" by (simp add: liquidation_gap_def Let_def less_max_iff_disj)
  then show ?thesis
    using assms(2,3) unfolding calculate_liquidation_price_def
    by (auto intro!: py_round_le py_round_ge simp: algebra_simps le_max_iff_disj)
qed

end
