(* ===== verification/Futures_Protection.thy ===== *)
theory Futures_Protection
  imports Futures_Position "HOL-Library.Product_Lexorder"
begin

text \<open>
  Liquidation and ADL protection of the futures portfolio: the modules of
  \<open>src/backend/core/futures/liquidation_protection/\<close> and \<open>src/backend/core/futures/adl/\<close>. The
  dictionaries that describe a position there are records of optional fields, because every
  reader supplies a default of its own.
\<close>

section \<open>Positions at risk\<close>

record adl_market =
  am_indicator :: "num option"
  am_funding_rate :: "num option"
  am_funding_skew :: "num option"
  am_open_interest_change :: "num option"
  am_long_short_ratio :: "num option"
  am_liquidation_volume :: "num option"
  am_volatility_regime :: "string option"

record exposure =
  ex_symbol :: "string option"
  ex_side :: "string option"
  ex_notional :: "num option"
  ex_leverage :: "num option"
  ex_initial_margin :: num
  ex_distance :: "num option"
  ex_margin_ratio :: "num option"
  ex_funding_score :: "num option"
  ex_funding_direction :: "string option"
  ex_volatility :: "num option"
  ex_execution :: "num option"
  ex_cluster_exposure :: "num option"
  ex_adl :: adl_market
  ex_risk_score :: "num option"
  ex_risk_level :: "string option"
  ex_dominant_factor :: "string option"

record position_risk =
  pk_score :: num
  pk_level :: string
  pk_dominant :: string

definition risk_level_of :: "num \<Rightarrow> string" where
  "risk_level_of score =
     (if 75 \<le> score then ''EMERGENCY'' else if 55 \<le> score then ''CRITICAL''
      else if 35 \<le> score then ''WARNING'' else ''SAFE'')"

definition risk_factors :: "exposure \<Rightarrow> (string \<times> num) list" where
  "risk_factors ex =
     [(''LIQUIDATION_DISTANCE'', max 0 (min 100 (100 - get_or (ex_distance ex) 0 * 5))),
      (''MARGIN_USAGE'', max 0 (min 100 (100 - get_or (ex_margin_ratio ex) 0))),
      (''VOLATILITY'', get_or (ex_volatility ex) 0),
      (''FUNDING'', get_or (ex_funding_score ex) 0),
      (''EXECUTION'', get_or (ex_execution ex) 0)]"

definition factor :: "string \<Rightarrow> (string \<times> num) list \<Rightarrow> num" where
  "factor k fs = get_or (map_of fs k) 0"

definition evaluate_position :: "exposure \<Rightarrow> position_risk" where
  "evaluate_position ex =
     (let fs = risk_factors ex;
          score = min 100 (factor ''LIQUIDATION_DISTANCE'' fs * (45 / 100) + factor ''MARGIN_USAGE'' fs * (25 / 100)
            + factor ''VOLATILITY'' fs * (15 / 100) + factor ''FUNDING'' fs * (1 / 10) + factor ''EXECUTION'' fs * (5 / 100))
      in \<lparr>pk_score = py_round 4 score, pk_level = risk_level_of score,
          pk_dominant = fst (arg_max_list snd (hd fs) (tl fs))\<rparr>)"

record portfolio_risk =
  pf_positions :: "exposure list"
  pf_position_score :: num
  pf_portfolio_score :: num
  pf_level :: string
  pf_dominant :: string

definition scored :: "exposure \<Rightarrow> exposure" where
  "scored ex = (let r = evaluate_position ex in
     ex\<lparr>ex_risk_score := Some (pk_score r), ex_risk_level := Some (pk_level r), ex_dominant_factor := Some (pk_dominant r)\<rparr>)"

definition evaluate_portfolio :: "exposure list \<Rightarrow> portfolio_risk" where
  "evaluate_portfolio exs =
     (if exs = [] then \<lparr>pf_positions = [], pf_position_score = 0, pf_portfolio_score = 0, pf_level = ''SAFE'', pf_dominant = ''NONE''\<rparr>
      else
        let risks = map evaluate_position exs; scores = map pk_score risks;
            portfolio = sum_list scores / of_nat (length scores);
            rollup = map (\<lambda>k. (k, sum_list (map pk_score (filter (\<lambda>r. pk_dominant r = k) risks))))
              [''LIQUIDATION_DISTANCE'', ''MARGIN_USAGE'', ''VOLATILITY'', ''FUNDING'', ''EXECUTION'']
        in \<lparr>pf_positions = map scored exs, pf_position_score = py_round 4 (Max (set scores)),
            pf_portfolio_score = py_round 4 portfolio, pf_level = risk_level_of portfolio,
            pf_dominant = fst (arg_max_list snd (hd rollup) (tl rollup))\<rparr>)"

section \<open>Cascade, margin and policy\<close>

record cascade_input =
  ci_positions_at_risk :: int
  ci_volatility_spike :: bool
  ci_spread_widening :: bool
  ci_reject_rate :: num
  ci_slippage_spike :: bool
  ci_correlated_cluster_risk :: bool

record cascade_result =
  cs_state :: string
  cs_score :: int
  cs_risk_symbols :: "string list"

definition detect_cascade :: "cascade_input \<Rightarrow> exposure list \<Rightarrow> cascade_result" where
  "detect_cascade ci exs =
     (let points = (\<lambda>b n. if b then n else 0);
          score = points (2 \<le> ci_positions_at_risk ci) 30 + points (ci_volatility_spike ci) 20
            + points (ci_spread_widening ci) 15 + points (25 / 100 \<le> ci_reject_rate ci) 15
            + points (ci_slippage_spike ci) 10 + points (ci_correlated_cluster_risk ci) 10
      in \<lparr>cs_state = (if 70 \<le> score then ''CASCADE_CONFIRMED'' else if 40 \<le> score then ''CASCADE_WARNING'' else ''NONE''),
          cs_score = score,
          cs_risk_symbols = [str_or (ex_symbol ex) []. ex \<leftarrow> exs, str_or (ex_symbol ex) [] \<noteq> [] \<and> num_or (ex_distance ex) 100 \<le> 15]\<rparr>)"

definition margin_state :: "num \<Rightarrow> string \<times> bool" where
  "margin_state usage =
     (if 80 \<le> usage then (''EMERGENCY'', False) else if 72 \<le> usage then (''CRITICAL'', False)
      else if 60 < usage then (''WARNING'', True) else (''SAFE'', True))"

definition RISK_ORDER :: "(string \<times> int) list" where
  "RISK_ORDER = [(''SAFE'', 0), (''WARNING'', 1), (''CRITICAL'', 2), (''EMERGENCY'', 3)]"

definition risk_order :: "string \<Rightarrow> int" where
  "risk_order level = get_or (map_of RISK_ORDER level) 0"

definition adl_policy_level :: "string \<Rightarrow> string" where
  "adl_policy_level st = get_or (map_of [(''LOW'', ''SAFE''), (''MEDIUM'', ''WARNING''), (''HIGH'', ''CRITICAL''),
     (''EXTREME'', ''EMERGENCY'')] st) ''SAFE''"

definition cascade_policy_level :: "string \<Rightarrow> string" where
  "cascade_policy_level st = get_or (map_of [(''NONE'', ''SAFE''), (''CASCADE_WARNING'', ''WARNING''),
     (''CASCADE_CONFIRMED'', ''EMERGENCY'')] st) ''SAFE''"

record policy_decision =
  pd_state :: string
  pd_action :: string
  pd_reduce_ratio :: num
  pd_leverage_cap :: num
  pd_reason :: string

text \<open>The decision for a merged state, and the state as the worst of the four inputs.\<close>

definition policy_for :: "bool \<Rightarrow> string \<Rightarrow> policy_decision" where
  "policy_for cascade_confirmed st =
     (let verdict = (\<lambda>st action ratio cap reason. \<lparr>pd_state = st, pd_action = action, pd_reduce_ratio = ratio,
            pd_leverage_cap = cap, pd_reason = reason\<rparr>)
      in if cascade_confirmed \<and> st \<in> set [''CRITICAL'', ''EMERGENCY'']
         then verdict ''EMERGENCY'' ''FREEZE'' (1 / 2) 2 ''CASCADE_EMERGENCY''
         else if st = ''EMERGENCY'' then verdict st ''FORCE_REDUCE'' (35 / 100) 2 ''EMERGENCY_RISK''
         else if st = ''CRITICAL'' then verdict st ''REDUCE'' (25 / 100) 3 ''CRITICAL_RISK''
         else if st = ''WARNING'' then verdict st ''LIMIT_NEW'' (1 / 10) 4 ''WARNING_RISK''
         else verdict ''SAFE'' ''ALLOW'' 0 5 ''SAFE'')"

definition evaluate_policy :: "string \<Rightarrow> string \<Rightarrow> string \<Rightarrow> string \<Rightarrow> policy_decision" where
  "evaluate_policy liquidation cascade margin adl =
     policy_for (upper_or (Some cascade) ''NONE'' = ''CASCADE_CONFIRMED'')
       (arg_max_list risk_order (upper_or (Some liquidation) ''SAFE'')
          [upper_or (Some margin) ''SAFE'', adl_policy_level (upper_or (Some adl) ''LOW''),
           cascade_policy_level (upper_or (Some cascade) ''NONE'')])"

section \<open>Emergency deleveraging\<close>

record reduction =
  re_symbol :: string
  re_side :: "string option"
  re_notional :: num
  re_priority :: nat
  re_reason :: string

record execution_plan =
  ep_positions :: "reduction list"
  ep_reduce_ratio :: num
  ep_priority :: "string list"

definition deleverage_key :: "exposure \<Rightarrow> num \<times> num \<times> num" where
  "deleverage_key ex = (num_or (ex_distance ex) 999, - num_or (ex_leverage ex) 0, - num_or (ex_risk_score ex) 0)"

definition reduction_of :: "num \<Rightarrow> exposure \<Rightarrow> num" where
  "reduction_of ratio ex = max (num_or (ex_notional ex) 0 * ratio) 0"

definition execute_deleverage :: "string \<Rightarrow> num \<Rightarrow> exposure list \<Rightarrow> execution_plan" where
  "execute_deleverage action ratio exs =
     (let action = upper action in
      if action \<notin> set [''REDUCE'', ''FORCE_REDUCE'', ''FREEZE'', ''LIMIT_NEW'']
      then \<lparr>ep_positions = [], ep_reduce_ratio = 0, ep_priority = []\<rparr>
      else
        let ranked = zip [1 ..< Suc (length exs)] (sort_key deleverage_key exs);
            taken = filter (\<lambda>(n, ex). 0 < reduction_of ratio ex) ranked
        in \<lparr>ep_positions = map (\<lambda>(n, ex). \<lparr>re_symbol = str_or (ex_symbol ex) ''UNKNOWN'', re_side = ex_side ex,
              re_notional = py_round 4 (reduction_of ratio ex), re_priority = n,
              re_reason = (if action = ''FREEZE'' then ''forced_exit'' else ''risk_reduce'')\<rparr>) taken,
            ep_reduce_ratio = py_round 4 ratio,
            ep_priority = map (\<lambda>(n, ex). str_or (ex_symbol ex) ''UNKNOWN'') taken\<rparr>)"

definition forced_reduce_volume :: "execution_plan \<Rightarrow> num" where
  "forced_reduce_volume plan = py_round 4 (sum_list (map re_notional (ep_positions plan)))"

section \<open>The liquidation gate\<close>

record liquidation_check =
  lc_distance :: num
  lc_margin_usage :: num
  lc_cascade_confirmed :: bool
  lc_emergency_policy :: bool
  lc_leverage :: num
  lc_leverage_cap :: num

definition liquidation_reasons :: "liquidation_check \<Rightarrow> string list" where
  "liquidation_reasons lc = collect
     [(lc_distance lc < 10, ''LIQUIDATION_DISTANCE_TOO_LOW''),
      (72 \<le> lc_margin_usage lc, ''MARGIN_USAGE_CRITICAL''),
      (lc_cascade_confirmed lc, ''CASCADE_CONFIRMED''),
      (lc_emergency_policy lc, ''EMERGENCY_POLICY_ACTIVE''),
      (lc_leverage_cap lc < lc_leverage lc, ''LEVERAGE_ABOVE_CAP'')]"

definition liquidation_gate :: "liquidation_check \<Rightarrow> gate_result" where
  "liquidation_gate lc = gate_report (liquidation_reasons lc)"

section \<open>Auto-deleveraging risk\<close>

record adl_risk =
  ad_symbol :: "string option"
  ad_score :: num
  ad_level :: string
  ad_side :: string

definition adl_level_of :: "num \<Rightarrow> string" where
  "adl_level_of score =
     (if 75 / 100 \<le> score then ''EXTREME'' else if 55 / 100 \<le> score then ''HIGH''
      else if 3 / 10 \<le> score then ''MEDIUM'' else ''LOW'')"

definition adl_score :: "adl_market \<Rightarrow> num" where
  "adl_score am =
     clamp 0 1 (clamp 0 1 (num_or (am_indicator am) 0) * (33 / 100)
       + clamp 0 1 (\<bar>num_or (am_funding_rate am) 0\<bar> * 100) * (12 / 100)
       + clamp 0 1 (\<bar>num_or (am_funding_skew am) 0\<bar> * 20) * (1 / 10)
       + clamp 0 1 (\<bar>num_or (am_open_interest_change am) 0\<bar> / 8) * (15 / 100)
       + clamp 0 1 (\<bar>num_or (am_long_short_ratio am) 1 - 1\<bar> / (8 / 10)) * (1 / 10)
       + clamp 0 1 (num_or (am_liquidation_volume am) 0 / 25000000) * (1 / 10)
       + get_or (map_of [(''LOW'', 15 / 100), (''NORMAL'', 35 / 100), (''HIGH'', 7 / 10), (''EXTREME'', 95 / 100)]
           (upper_or (am_volatility_regime am) ''NORMAL'')) (35 / 100) * (1 / 10))"

definition adl_symbol_risk :: "string option \<Rightarrow> adl_market \<Rightarrow> adl_risk" where
  "adl_symbol_risk symbol am =
     (let ratio = num_or (am_long_short_ratio am) 1; skew = num_or (am_funding_skew am) 0
      in \<lparr>ad_symbol = symbol, ad_score = py_round 4 (adl_score am), ad_level = adl_level_of (adl_score am),
          ad_side = (if 108 / 100 \<le> ratio \<or> 2 / 100 \<le> skew then ''LONG''
            else if ratio \<le> 92 / 100 \<or> skew \<le> - (2 / 100) then ''SHORT'' else ''NONE'')\<rparr>)"

record adl_state =
  as_portfolio_risk :: num
  as_level :: string
  as_dominant_side :: string
  as_risk_symbols :: "string list"
  as_details :: "adl_risk list"

definition adl_pressure :: "string \<Rightarrow> adl_risk list \<Rightarrow> num" where
  "adl_pressure side rows = sum_list (map ad_score (filter (\<lambda>r. upper_or (Some (ad_side r)) ''NONE'' = side) rows))"

definition aggregate_adl :: "adl_risk list \<Rightarrow> adl_state" where
  "aggregate_adl rows =
     (if rows = [] then \<lparr>as_portfolio_risk = 0, as_level = ''LOW'', as_dominant_side = ''NONE'', as_risk_symbols = [], as_details = []\<rparr>
      else
        let risk = sum_list (map ad_score rows) / of_nat (length rows);
            long = adl_pressure ''LONG'' rows; short = adl_pressure ''SHORT'' rows;
            sorted_rows = sort_desc ad_score rows
        in \<lparr>as_portfolio_risk = py_round 4 risk, as_level = adl_level_of risk,
            as_dominant_side = (if long = 0 \<and> short = 0 then ''NONE'' else if short \<le> long then ''LONG'' else ''SHORT''),
            as_risk_symbols = [str_or (ad_symbol r) []. r \<leftarrow> sorted_rows, str_or (ad_symbol r) [] \<noteq> [] \<and>
              upper (ad_level r) \<in> set [''HIGH'', ''EXTREME'']],
            as_details = sorted_rows\<rparr>)"

record adl_policy =
  ap_state :: string
  ap_action :: string
  ap_blocked_side :: string
  ap_reduce_ratio :: num
  ap_leverage_cap :: num

definition evaluate_adl_policy :: "adl_state \<Rightarrow> adl_policy" where
  "evaluate_adl_policy st =
     (let level = upper_or (Some (as_level st)) ''LOW''; side = upper_or (Some (as_dominant_side st)) ''NONE'';
          policy = (\<lambda>l action s ratio cap. \<lparr>ap_state = l, ap_action = action, ap_blocked_side = s,
            ap_reduce_ratio = ratio, ap_leverage_cap = cap\<rparr>)
      in if level = ''EXTREME'' then policy level ''FREEZE_SIDE'' side (4 / 10) 2
         else if level = ''HIGH'' then policy level ''REDUCE_EXPOSURE'' side (25 / 100) 3
         else if level = ''MEDIUM'' then policy level ''LIMIT_NEW_POSITIONS'' side (1 / 10) 4
         else policy ''LOW'' ''ALLOW'' ''NONE'' 0 5)"

record adl_check =
  ac_level :: string
  ac_pressure_side :: string
  ac_portfolio_risk :: num
  ac_trade_side :: string

definition adl_reasons :: "adl_check \<Rightarrow> string list" where
  "adl_reasons ac =
     (let level = upper_or (Some (ac_level ac)) ''LOW''; pressure = upper_or (Some (ac_pressure_side ac)) ''NONE'';
          side = upper_or (Some (ac_trade_side ac)) ''NONE''
      in collect
        [(level = ''EXTREME'', ''ADL_RISK_EXTREME''),
         (65 / 100 < ac_portfolio_risk ac, ''ADL_PORTFOLIO_RISK_HIGH''),
         (pressure \<in> set [''LONG'', ''SHORT''] \<and> pressure = side \<and> level \<in> set [''HIGH'', ''EXTREME''],
          ''ADL_PRESSURE_'' @ pressure)])"

definition adl_gate :: "adl_check \<Rightarrow> gate_result" where
  "adl_gate ac = gate_report (adl_reasons ac)"

record adl_plan =
  al_actions :: "reduction list"
  al_notional :: num
  al_reduce_ratio :: num

definition adl_key :: "exposure \<Rightarrow> num \<times> num \<times> num \<times> num" where
  "adl_key ex = (- num_or (ex_leverage ex) 0, num_or (ex_distance ex) 100, - num_or (ex_funding_score ex) 0,
     - num_or (ex_cluster_exposure ex) 0)"

definition build_adl_plan :: "exposure list \<Rightarrow> adl_policy \<Rightarrow> adl_plan" where
  "build_adl_plan exs po =
     (let action = upper_or (Some (ap_action po)) ''ALLOW''; blocked = upper_or (Some (ap_blocked_side po)) ''NONE'';
          ratio = ap_reduce_ratio po
      in if action \<notin> set [''REDUCE_EXPOSURE'', ''FREEZE_SIDE'']
         then \<lparr>al_actions = [], al_notional = 0, al_reduce_ratio = 0\<rparr>
         else
           let side = (\<lambda>ex. upper_or (ex_side ex) ''NONE'');
               cut = (\<lambda>ex. num_or (ex_notional ex) 0 * ratio);
               taken = filter (\<lambda>(n, ex). \<not> (action = ''FREEZE_SIDE'' \<and> blocked \<in> set [''LONG'', ''SHORT''] \<and> side ex \<noteq> blocked)
                   \<and> 0 < cut ex) (zip [1 ..< Suc (length exs)] (sort_key adl_key exs))
           in \<lparr>al_actions = map (\<lambda>(n, ex). \<lparr>re_symbol = str_or (ex_symbol ex) [], re_side = Some (side ex),
                 re_notional = py_round 4 (cut ex), re_priority = n, re_reason = ''ADL_PRESSURE_REDUCTION''\<rparr>) taken,
               al_notional = py_round 4 (sum_list (map (\<lambda>(n, ex). cut ex) taken)), al_reduce_ratio = py_round 4 ratio\<rparr>)"

section \<open>Lemmas\<close>

interpretation liquidation_gate: reason_gate "\<lambda>lc. gr_pass (liquidation_gate lc)" liquidation_reasons
    "\<lambda>lc. gr_reason (liquidation_gate lc)"
  by unfold_locales (simp_all add: liquidation_gate_def liquidation_reasons_def)

interpretation adl_gate: reason_gate "\<lambda>ac. gr_pass (adl_gate ac)" adl_reasons "\<lambda>ac. gr_reason (adl_gate ac)"
  by unfold_locales (simp_all add: adl_gate_def adl_reasons_def Let_def)

subsection \<open>The policy as a function of the risk order\<close>

lemma risk_order_cases:
  obtains "risk_order st = 0" "st \<noteq> ''WARNING''" "st \<noteq> ''CRITICAL''" "st \<noteq> ''EMERGENCY''"
  | "risk_order st = 1" "st = ''WARNING''"
  | "risk_order st = 2" "st = ''CRITICAL''"
  | "risk_order st = 3" "st = ''EMERGENCY''"
proof -
  have code: "risk_order ''WARNING'' = 1" "risk_order ''CRITICAL'' = 2" "risk_order ''EMERGENCY'' = 3" "risk_order ''SAFE'' = 0"
    by code_simp+
  consider "st \<in> fst ` set RISK_ORDER" | "st \<notin> fst ` set RISK_ORDER" by blast
  then show ?thesis
  proof cases
    case 1
    then have "st \<in> {''SAFE'', ''WARNING'', ''CRITICAL'', ''EMERGENCY''}" by (simp add: RISK_ORDER_def)
    then show ?thesis using that code by auto
  next
    case 2
    then have "risk_order st = 0" by (simp add: risk_order_def map_of_eq_None_iff [THEN iffD2])
    moreover have "st \<noteq> ''WARNING''" "st \<noteq> ''CRITICAL''" "st \<noteq> ''EMERGENCY''"
      using 2 by (auto simp: RISK_ORDER_def)
    ultimately show ?thesis by (rule that(1))
  qed
qed

lemma risk_order_iff:
  "st = ''EMERGENCY'' \<longleftrightarrow> risk_order st = 3" "st = ''CRITICAL'' \<longleftrightarrow> risk_order st = 2"
  "st = ''WARNING'' \<longleftrightarrow> risk_order st = 1" "risk_order st \<le> 3" "0 \<le> risk_order st"
  by (cases st rule: risk_order_cases; simp)+

text \<open>The risk order of the state a policy is made from.\<close>

definition merged_order :: "string \<Rightarrow> string \<Rightarrow> string \<Rightarrow> string \<Rightarrow> int" where
  "merged_order liquidation cascade margin adl = Max (set (map risk_order
     [upper_or (Some liquidation) ''SAFE'', upper_or (Some margin) ''SAFE'',
      adl_policy_level (upper_or (Some adl) ''LOW''), cascade_policy_level (upper_or (Some cascade) ''NONE'')]))"

lemma arg_max_list_Max: "f (arg_max_list f x ys) = Max (set (map f (x # ys)))"
proof (rule Max_eqI [symmetric])
  show "f (arg_max_list f x ys) \<in> set (map f (x # ys))"
    using arg_max_list_in [of f x ys] by auto
qed (auto intro: arg_max_list_ge)

lemma confirmed_order: "cascade_policy_level ''CASCADE_CONFIRMED'' = ''EMERGENCY''"
  by code_simp

lemma cascade_order_3:
  "risk_order (cascade_policy_level st) = 3 \<longleftrightarrow> st = ''CASCADE_CONFIRMED''"
proof -
  have "st \<in> fst ` set [(''NONE'', ''SAFE''), (''CASCADE_WARNING'', ''WARNING''), (''CASCADE_CONFIRMED'', ''EMERGENCY'')]
      \<or> cascade_policy_level st = ''SAFE''"
    by (auto simp: cascade_policy_level_def map_of_eq_None_iff [THEN iffD2])
  moreover have "risk_order (cascade_policy_level ''NONE'') = 0" "risk_order (cascade_policy_level ''CASCADE_WARNING'') = 1"
    "risk_order (cascade_policy_level ''CASCADE_CONFIRMED'') = 3" "risk_order ''SAFE'' = 0"
    by code_simp+
  ultimately show ?thesis by auto
qed

lemma merged_order_bounds: "0 \<le> merged_order liquidation cascade margin adl" "merged_order liquidation cascade margin adl \<le> 3"
  by (auto simp: merged_order_def risk_order_iff intro: max.coboundedI1)

definition is_confirmed :: "string \<Rightarrow> bool" where
  "is_confirmed cascade \<longleftrightarrow> upper_or (Some cascade) ''NONE'' = ''CASCADE_CONFIRMED''"

lemma confirmed_merged: "is_confirmed cascade \<Longrightarrow> merged_order liquidation cascade margin adl = 3"
  by (rule antisym [OF merged_order_bounds(2)])
    (simp add: merged_order_def is_confirmed_def confirmed_order le_max_iff_disj
      risk_order_iff(1) [THEN iffD1, of "''EMERGENCY''"])

lemma policy_has_state:
  "\<exists>st. evaluate_policy liquidation cascade margin adl = policy_for (is_confirmed cascade) st \<and>
     merged_order liquidation cascade margin adl = risk_order st"
  unfolding evaluate_policy_def merged_order_def is_confirmed_def
  by (rule exI, rule conjI [OF refl]) (simp only: arg_max_list_Max list.map)

lemma policy_by_order:
  shows "pd_reduce_ratio (evaluate_policy liquidation cascade margin adl) =
      (if is_confirmed cascade then 1 / 2
       else if merged_order liquidation cascade margin adl = 3 then 35 / 100
       else if merged_order liquidation cascade margin adl = 2 then 25 / 100
       else if merged_order liquidation cascade margin adl = 1 then 1 / 10 else 0)"
    and "pd_leverage_cap (evaluate_policy liquidation cascade margin adl) =
      (if merged_order liquidation cascade margin adl = 3 then 2
       else 5 - of_int (merged_order liquidation cascade margin adl))"
    and "is_confirmed cascade \<Longrightarrow> pd_action (evaluate_policy liquidation cascade margin adl) = ''FREEZE''"
proof -
  obtain st where st: "evaluate_policy liquidation cascade margin adl = policy_for (is_confirmed cascade) st"
    and n: "merged_order liquidation cascade margin adl = risk_order st"
    using policy_has_state by blast
  have three: "is_confirmed cascade \<Longrightarrow> risk_order st = 3"
    using confirmed_merged [of cascade liquidation margin adl] n by simp
  show "pd_reduce_ratio (evaluate_policy liquidation cascade margin adl) =
      (if is_confirmed cascade then 1 / 2
       else if merged_order liquidation cascade margin adl = 3 then 35 / 100
       else if merged_order liquidation cascade margin adl = 2 then 25 / 100
       else if merged_order liquidation cascade margin adl = 1 then 1 / 10 else 0)"
    unfolding n st using three by (cases st rule: risk_order_cases) (auto simp: policy_for_def)
  show "pd_leverage_cap (evaluate_policy liquidation cascade margin adl) =
      (if merged_order liquidation cascade margin adl = 3 then 2
       else 5 - of_int (merged_order liquidation cascade margin adl))"
    unfolding n st using three by (cases st rule: risk_order_cases) (auto simp: policy_for_def)
  show "is_confirmed cascade \<Longrightarrow> pd_action (evaluate_policy liquidation cascade margin adl) = ''FREEZE''"
    unfolding st using three by (cases st rule: risk_order_cases) (auto simp: policy_for_def)
qed

lemma merged_order_max:
  "merged_order l c m a = max (risk_order (upper_or (Some l) ''SAFE'')) (max (risk_order (upper_or (Some m) ''SAFE''))
     (max (risk_order (adl_policy_level (upper_or (Some a) ''LOW''))) (risk_order (cascade_policy_level (upper_or (Some c) ''NONE'')))))"
  by (simp add: merged_order_def)

lemma policy_monotone:
  assumes "risk_order (upper_or (Some l) ''SAFE'') \<le> risk_order (upper_or (Some l') ''SAFE'')"
    and "risk_order (cascade_policy_level (upper_or (Some c) ''NONE'')) \<le> risk_order (cascade_policy_level (upper_or (Some c') ''NONE''))"
    and "risk_order (upper_or (Some m) ''SAFE'') \<le> risk_order (upper_or (Some m') ''SAFE'')"
    and "risk_order (adl_policy_level (upper_or (Some a) ''LOW'')) \<le> risk_order (adl_policy_level (upper_or (Some a') ''LOW''))"
  shows "pd_reduce_ratio (evaluate_policy l c m a) \<le> pd_reduce_ratio (evaluate_policy l' c' m' a')"
    "pd_leverage_cap (evaluate_policy l' c' m' a') \<le> pd_leverage_cap (evaluate_policy l c m a)"
proof -
  have le: "merged_order l c m a \<le> merged_order l' c' m' a'"
    unfolding merged_order_max by (intro max.mono assms)
  have conf: "is_confirmed c \<Longrightarrow> is_confirmed c'"
    using assms(2) risk_order_iff(4) [of "cascade_policy_level (upper_or (Some c') ''NONE'')"]
    unfolding is_confirmed_def cascade_order_3 [symmetric] by linarith
  consider "merged_order l c m a = 0" | "merged_order l c m a = 1" | "merged_order l c m a = 2" | "merged_order l c m a = 3"
    using merged_order_bounds [of l c m a] by linarith
  note n = this
  consider "merged_order l' c' m' a' = 0" | "merged_order l' c' m' a' = 1" | "merged_order l' c' m' a' = 2" | "merged_order l' c' m' a' = 3"
    using merged_order_bounds [of l' c' m' a'] by linarith
  note n' = this
  show "pd_reduce_ratio (evaluate_policy l c m a) \<le> pd_reduce_ratio (evaluate_policy l' c' m' a')"
    by (cases rule: n; cases rule: n'; use le conf confirmed_merged [of c l m a] in \<open>simp add: policy_by_order\<close>)
  show "pd_leverage_cap (evaluate_policy l' c' m' a') \<le> pd_leverage_cap (evaluate_policy l c m a)"
    by (cases rule: n; cases rule: n'; use le in \<open>simp add: policy_by_order\<close>)
qed

subsection \<open>The order of a deleveraging\<close>

text \<open>The key the ranking sorts by starts with the distance, and \<open>0\<close> counts as \<open>999\<close>.\<close>

lemma last_of_sorted_key:
  assumes "q \<in> set xs" and "list_all (\<lambda>x. x = q \<or> f x < f q) xs"
  shows "last (sort_key f xs) = q"
proof -
  have "xs \<noteq> []" using assms(1) by auto
  then have ne: "sort_key f xs \<noteq> []" by (metis length_0_conv length_sort)
  have "sorted (map f (butlast (sort_key f xs) @ [last (sort_key f xs)]))"
    by (simp only: append_butlast_last_id [OF ne] sorted_sort_key)
  then have le: "x \<in> set (butlast (sort_key f xs)) \<Longrightarrow> f x \<le> f (last (sort_key f xs))" for x
    by (simp add: sorted_append)
  have "q \<in> set (butlast (sort_key f xs) @ [last (sort_key f xs)])"
    using assms(1) by (simp only: append_butlast_last_id [OF ne] set_sort)
  then have "f q \<le> f (last (sort_key f xs))" using le by auto
  moreover have "last (sort_key f xs) \<in> set xs" using ne last_in_set by fastforce
  ultimately show ?thesis using assms(2) by (auto simp: list_all_iff)
qed

lemma last_filter: "xs \<noteq> [] \<Longrightarrow> P (last xs) \<Longrightarrow> last (filter P xs) = last xs"
  by (induction xs) (auto simp: filter_empty_conv split: if_splits)

lemma last_zip_same: "length ns = length xs \<Longrightarrow> xs \<noteq> [] \<Longrightarrow> last (zip ns xs) = (last ns, last xs)"
  by (induction ns xs rule: list_induct2) auto

lemma priority_ends_with:
  assumes "upper action \<in> set [''REDUCE'', ''FORCE_REDUCE'', ''FREEZE'', ''LIMIT_NEW'']"
    and "exs \<noteq> []" and "last (sort_key deleverage_key exs) = q" and "0 < reduction_of ratio q"
  shows "last (ep_priority (execute_deleverage action ratio exs)) = str_or (ex_symbol q) ''UNKNOWN''"
proof -
  let ?ranked = "zip [1 ..< Suc (length exs)] (sort_key deleverage_key exs)"
  let ?P = "\<lambda>(n :: nat, ex). 0 < reduction_of ratio ex"
  have ne: "sort_key deleverage_key exs \<noteq> []" using assms(2) by (metis length_0_conv length_sort)
  have l: "last ?ranked = (length exs, q)"
    using last_zip_same [of "[1 ..< Suc (length exs)]" "sort_key deleverage_key exs"] ne assms(2,3)
    by (simp del: upt_Suc)
  have nz: "?ranked \<noteq> []" using ne assms(2) by (auto simp: zip_eq_Nil_iff simp del: upt_Suc)
  have "last (filter ?P ?ranked) = (length exs, q)"
    using last_filter [OF nz, of ?P] l assms(4) by (simp del: upt_Suc)
  moreover have "filter ?P ?ranked \<noteq> []"
    using l assms(4) last_in_set [OF nz] by (auto simp: filter_empty_conv simp del: upt_Suc)
  ultimately show ?thesis
    using assms(1) by (auto simp: execute_deleverage_def Let_def last_map case_prod_beta simp del: upt_Suc)
qed

lemma filter_zip_snd: "length ns = length xs \<Longrightarrow> map snd (filter (\<lambda>(n, x). P x) (zip ns xs)) = filter P xs"
  by (induction ns xs rule: list_induct2) auto

text \<open>What is taken from the positions, whatever the order.\<close>

lemma plan_reductions:
  assumes "upper action \<in> set [''REDUCE'', ''FORCE_REDUCE'', ''FREEZE'', ''LIMIT_NEW'']"
  shows "mset (map re_notional (ep_positions (execute_deleverage action ratio exs))) =
    {#py_round 4 (reduction_of ratio ex). ex \<in># filter_mset (\<lambda>ex. 0 < reduction_of ratio ex) (mset exs)#}"
proof -
  let ?taken = "filter (\<lambda>(n :: nat, ex). 0 < reduction_of ratio ex) (zip [1 ..< Suc (length exs)] (sort_key deleverage_key exs))"
  have "map re_notional (ep_positions (execute_deleverage action ratio exs)) =
      map (\<lambda>ex. py_round 4 (reduction_of ratio ex)) (map snd ?taken)"
    using assms by (auto simp: execute_deleverage_def Let_def case_prod_beta comp_def simp del: upt_Suc)
  also have "map snd ?taken = filter (\<lambda>ex. 0 < reduction_of ratio ex) (sort_key deleverage_key exs)"
    by (rule filter_zip_snd) (simp del: upt_Suc)
  finally show ?thesis by simp
qed

section \<open>Properties\<close>

text \<open>
  The protection policy is monotone: when none of liquidation risk, cascade, margin and ADL
  state is less severe than before, the policy reduces at least as much and allows at most as
  much leverage. A confirmed cascade asks for the largest reduction of all.
\<close>

theorem protection_policy_monotone:
  assumes "risk_order (upper_or (Some l) ''SAFE'') \<le> risk_order (upper_or (Some l') ''SAFE'')"
    and "risk_order (cascade_policy_level (upper_or (Some c) ''NONE'')) \<le> risk_order (cascade_policy_level (upper_or (Some c') ''NONE''))"
    and "risk_order (upper_or (Some m) ''SAFE'') \<le> risk_order (upper_or (Some m') ''SAFE'')"
    and "risk_order (adl_policy_level (upper_or (Some a) ''LOW'')) \<le> risk_order (adl_policy_level (upper_or (Some a') ''LOW''))"
  shows "pd_reduce_ratio (evaluate_policy l c m a) \<le> pd_reduce_ratio (evaluate_policy l' c' m' a') \<and>
    pd_leverage_cap (evaluate_policy l' c' m' a') \<le> pd_leverage_cap (evaluate_policy l c m a) \<and>
    pd_reduce_ratio (evaluate_policy l c m a) \<le> pd_reduce_ratio (evaluate_policy l ''CASCADE_CONFIRMED'' m a)"
proof -
  have "is_confirmed ''CASCADE_CONFIRMED''" by code_simp
  then show ?thesis
    using policy_monotone [OF assms] by (simp add: policy_by_order(1))
qed

theorem protection_policy_monotone_witness:
  "pd_reduce_ratio (evaluate_policy ''WARNING'' ''NONE'' ''SAFE'' ''LOW'') \<le>
     pd_reduce_ratio (evaluate_policy ''CRITICAL'' ''CASCADE_WARNING'' ''SAFE'' ''HIGH'')"
proof -
  have "risk_order (upper_or (Some ''WARNING'') ''SAFE'') \<le> risk_order (upper_or (Some ''CRITICAL'') ''SAFE'')" by code_simp
  moreover have "risk_order (cascade_policy_level (upper_or (Some ''NONE'') ''NONE''))
      \<le> risk_order (cascade_policy_level (upper_or (Some ''CASCADE_WARNING'') ''NONE''))" by code_simp
  moreover have "risk_order (adl_policy_level (upper_or (Some ''LOW'') ''LOW''))
      \<le> risk_order (adl_policy_level (upper_or (Some ''HIGH'') ''LOW''))" by code_simp
  ultimately show ?thesis
    using protection_policy_monotone [of "''WARNING''" "''CRITICAL''" "''NONE''" "''CASCADE_WARNING''"
        "''SAFE''" "''SAFE''" "''LOW''" "''HIGH''"] by simp
qed

text \<open>
  The position that is most at risk is reduced last. The ranking reads the distance with
  \<open>or 999\<close>, so a position whose distance to liquidation is exactly 0 comes after every other
  position, however far those are from their liquidation price.
\<close>

theorem liquidated_position_is_last:
  assumes "q \<in> set exs" and "ex_distance q = Some 0" and "0 < reduction_of ratio q"
    and "list_all (\<lambda>ex. ex = q \<or> (case ex_distance ex of None \<Rightarrow> False | Some d \<Rightarrow> 0 < d \<and> d < 999)) exs"
    and "upper action \<in> set [''REDUCE'', ''FORCE_REDUCE'', ''FREEZE'', ''LIMIT_NEW'']"
  shows "last (ep_priority (execute_deleverage action ratio exs)) = str_or (ex_symbol q) ''UNKNOWN''"
proof (rule priority_ends_with [OF assms(5) _ _ assms(3)])
  show "exs \<noteq> []" using assms(1) by auto
  have "ex = q \<or> deleverage_key ex < deleverage_key q" if "ex \<in> set exs" for ex
    using assms(2,4) that by (auto simp: list_all_iff deleverage_key_def split: option.splits)
  then show "last (sort_key deleverage_key exs) = q"
    by (intro last_of_sorted_key assms(1)) (auto simp: list_all_iff)
qed

definition sample_exposure :: "string \<Rightarrow> num \<Rightarrow> exposure" where
  "sample_exposure symbol distance =
     \<lparr>ex_symbol = Some symbol, ex_side = Some ''LONG'', ex_notional = Some 1000, ex_leverage = Some 5,
      ex_initial_margin = 200, ex_distance = Some distance, ex_margin_ratio = Some 90, ex_funding_score = Some 0,
      ex_funding_direction = None, ex_volatility = None, ex_execution = None, ex_cluster_exposure = None,
      ex_adl = \<lparr>am_indicator = None, am_funding_rate = None, am_funding_skew = None, am_open_interest_change = None,
        am_long_short_ratio = None, am_liquidation_volume = None, am_volatility_regime = None\<rparr>,
      ex_risk_score = None, ex_risk_level = None, ex_dominant_factor = None\<rparr>"

theorem liquidated_position_is_last_witness:
  "last (ep_priority (execute_deleverage ''REDUCE'' (25 / 100)
     [sample_exposure ''AAAUSDT'' 0, sample_exposure ''BBBUSDT'' 20])) = ''AAAUSDT''"
proof -
  have "upper ''REDUCE'' = ''REDUCE''" by code_simp
  then show ?thesis
    using liquidated_position_is_last [of "sample_exposure ''AAAUSDT'' 0"
        "[sample_exposure ''AAAUSDT'' 0, sample_exposure ''BBBUSDT'' 20]" "25 / 100" "''REDUCE''"]
    by (simp add: sample_exposure_def reduction_of_def)
qed

end
