(* ===== verification/Position_Actions.thy ===== *)
theory Position_Actions
  imports Runtime_Store Quote_Policy
begin

text \<open>
  Execution intents and paper positions: the rows of \<open>user_execution_intents\<close> and
  \<open>paper_positions\<close> (\<open>src/backend/model_domains/risk_execution_positions.py\<close>), and what the
  release of an intent does to positions
  (\<open>_open_position_from_intent\<close>, \<open>_apply_position_action_intent\<close> and \<open>_calc_realized_pnl\<close> of
  \<open>src/backend/services/execution_intent_service.py\<close>, \<open>sync_position_state\<close> of
  \<open>src/backend/services/position_management_service.py\<close>). The bot profile that the code attaches
  to a position has no influence on it and is left out; prices come in as arguments.
\<close>

section \<open>Rows\<close>

record state_log =
  sl_at :: timestamp
  sl_from_status :: string
  sl_to_status :: string
  sl_actor_id :: "string option"
  sl_reason :: string

record decision_gate =
  dg_state_history :: "state_log list"
  dg_detail_version :: "string option"
  dg_read_acknowledged :: bool
  dg_double_confirmation :: bool
  dg_override_execute :: bool
  dg_approved_by :: "string option"
  dg_approved_at :: "timestamp option"
  dg_rejected_at :: "timestamp option"

record wallet_refresh =
  wr_ok :: bool
  wr_reason_code :: "string option"
  wr_available_balance :: "num option"
  wr_wallet_balance :: "num option"
  wr_connection_id :: "string option"

text \<open>\<open>normalized_order_payload\<close>: the keys that the modelled code reads or writes.\<close>

record order_payload =
  np_symbol :: "string option"
  np_side :: "string option"
  np_market_type :: "string option"
  np_leverage :: "int option"
  np_order_type :: "string option"
  np_margin_mode :: "string option"
  np_strategy_binding :: "string option"
  np_exchange_connection_id :: "string option"
  np_wallet_refresh :: "wallet_refresh option"
  np_precheck_valid :: "bool option"
  np_first_precheck_failure_code :: "string option"
  np_pipeline_action :: "string option"
  np_execution_mode_applied :: "string option"
  np_edited :: "(string \<times> num) list"
  np_manual_edit_reason :: "string option"
  np_gate :: decision_gate

record intent =
  in_id :: string
  in_token :: string
  in_user_id :: string
  in_type :: string
  in_position_id :: "string option"
  in_status :: string
  in_preview_hash :: string
  in_queue_mode :: string
  in_symbol :: string
  in_market_type :: string
  in_side :: string
  in_notional :: num
  in_size :: num
  in_reduce_only :: bool
  in_price :: "num option"
  in_stop_price :: "num option"
  in_take_profit_price :: "num option"
  in_payload :: order_payload
  in_reject_reason_codes :: "string list"
  in_risk_flags :: "string list"
  in_risk_score :: num
  in_cluster_id :: "string option"
  in_submitted_at :: "timestamp option"
  in_approved_at :: "timestamp option"
  in_released_at :: "timestamp option"
  in_cancelled_at :: "timestamp option"
  in_admin_user_id :: "string option"
  in_admin_note :: string
  in_created_at :: timestamp
  in_updated_at :: timestamp

record paper_position =
  pp_id :: string
  pp_user_id :: string
  pp_symbol :: string
  pp_market_type :: string
  pp_side :: string
  pp_quantity :: num
  pp_leverage :: int
  pp_entry_price :: num
  pp_stop_loss :: num
  pp_take_profit :: num
  pp_status :: string
  pp_unrealized_pnl :: num
  pp_realized_pnl :: num
  pp_closed_at :: "timestamp option"

record position_state =
  ps_position_id :: string
  ps_user_id :: string
  ps_symbol :: string
  ps_size :: num
  ps_entry_price :: num
  ps_current_price :: num
  ps_unrealized_pnl :: num
  ps_leverage :: int
  ps_strategy_id :: "string option"
  ps_cluster_id :: "string option"
  ps_status :: string

record ledger_event =
  le_position_id :: string
  le_event_type :: string
  le_intent_id :: string

record decision_trace =
  tr_type :: string
  tr_entity_id :: string
  tr_decision_status :: string
  tr_reason_codes :: "string list"

record intent_store =
  intents :: "intent list"
  papers :: "paper_position list"
  states :: "position_state list"
  ledger :: "ledger_event list"
  traces :: "decision_trace list"
  intent_audit :: "audit_entry list"

definition intent_row :: "string \<Rightarrow> intent_store \<Rightarrow> intent option" where
  "intent_row i s = find_row in_id i (intents s)"

definition save_intent :: "intent \<Rightarrow> intent_store \<Rightarrow> intent_store" where
  "save_intent it s = s\<lparr>intents := save_row in_id it (intents s)\<rparr>"

definition paper_row :: "string \<Rightarrow> intent_store \<Rightarrow> paper_position option" where
  "paper_row i s = find_row pp_id i (papers s)"

definition save_paper :: "paper_position \<Rightarrow> intent_store \<Rightarrow> intent_store" where
  "save_paper p s = s\<lparr>papers := save_row pp_id p (papers s)\<rparr>"

interpretation intent_table: row_table in_id intent_row save_intent
  by unfold_locales (auto simp: intent_row_def save_intent_def find_row_save dest: find_row_key)

interpretation paper_table: row_table pp_id paper_row save_paper
  by unfold_locales (auto simp: paper_row_def save_paper_def find_row_save dest: find_row_key)

definition record_ledger :: "string \<Rightarrow> string \<Rightarrow> string \<Rightarrow> intent_store \<Rightarrow> intent_store" where
  "record_ledger pos event_type intent_key s = s\<lparr>ledger := ledger s @
     [\<lparr>le_position_id = pos, le_event_type = event_type, le_intent_id = intent_key\<rparr>]\<rparr>"

definition record_decision_trace :: "string \<Rightarrow> string \<Rightarrow> string \<Rightarrow> string list \<Rightarrow> intent_store \<Rightarrow> intent_store" where
  "record_decision_trace trace_type entity status reasons s = s\<lparr>traces := traces s @
     [\<lparr>tr_type = trace_type, tr_entity_id = entity, tr_decision_status = status, tr_reason_codes = reasons\<rparr>]\<rparr>"

section \<open>Prices and the synchronised state\<close>

text \<open>
  \<open>_safe_price\<close>: the argument is what the ticker key holds, last and mid price, or \<open>None\<close> when it
  cannot be read; an absent key reads as a payload without prices.
\<close>

definition safe_price :: "(num option \<times> num option) option \<Rightarrow> num" where
  "safe_price ticker = (case ticker of None \<Rightarrow> 100
     | Some (last_price, mid_price) \<Rightarrow> num_or last_price (num_or mid_price 100))"

text \<open>\<open>sync_position_state\<close>; \<open>ticker_price\<close> is 0 unless prices are read from Redis.\<close>

definition synced_price :: "num \<Rightarrow> paper_position \<Rightarrow> num" where
  "synced_price ticker_price p =
     (let implied = (if 0 < pp_quantity p
                     then pp_entry_price p + pp_unrealized_pnl p / pp_quantity p else pp_entry_price p);
          price = (if ticker_price \<le> 0 then implied else ticker_price)
      in if price \<le> 0 then pp_entry_price p else price)"

definition sync_position_state ::
  "num \<Rightarrow> string option \<Rightarrow> string option \<Rightarrow> paper_position \<Rightarrow> intent_store \<Rightarrow> intent_store" where
  "sync_position_state ticker_price strategy_id cluster_id p s =
     (let old = find_row ps_position_id (pp_id p) (states s);
          keep = (\<lambda>new get. case new of Some v \<Rightarrow> Some v | None \<Rightarrow> (case old of None \<Rightarrow> None | Some r \<Rightarrow> get r));
          row = \<lparr>ps_position_id = pp_id p,
             ps_user_id = (case old of None \<Rightarrow> pp_user_id p | Some r \<Rightarrow> ps_user_id r),
             ps_symbol = upper (pp_symbol p), ps_size = pp_quantity p, ps_entry_price = pp_entry_price p,
             ps_current_price = synced_price ticker_price p, ps_unrealized_pnl = pp_unrealized_pnl p,
             ps_leverage = int_or (Some (pp_leverage p)) 1,
             ps_strategy_id = keep strategy_id ps_strategy_id,
             ps_cluster_id = keep cluster_id ps_cluster_id,
             ps_status = (if pp_status p = ''open'' then ''open'' else ''closed'')\<rparr>
      in case old of None \<Rightarrow> s\<lparr>states := states s @ [row]\<rparr>
         | Some r \<Rightarrow> s\<lparr>states := save_row ps_position_id row (states s)\<rparr>)"

section \<open>Opening a position\<close>

definition calc_realized_pnl :: "paper_position \<Rightarrow> num \<Rightarrow> num \<Rightarrow> num" where
  "calc_realized_pnl p exit_price quantity =
     py_round 6 ((exit_price - pp_entry_price p) * quantity
       * (if pp_side p = ''long'' then 1 else -1)
       * of_int (max (int_or (Some (pp_leverage p)) 1) 1))"

text \<open>What the order paths read from other services.\<close>

record market_env =
  me_quotes :: "string list"
  me_ticker :: "string \<Rightarrow> (num option \<times> num option) option"
  me_synced_ticker :: "string \<Rightarrow> num"
  me_market_type :: "string \<Rightarrow> string"

definition opened_position :: "market_env \<Rightarrow> string \<Rightarrow> intent \<Rightarrow> string \<Rightarrow> paper_position" where
  "opened_position me fresh it symbol =
     (let np = in_payload it;
          requested = lower (strip (str_or (np_market_type np) []));
          market_type = (if requested \<in> set [''spot'', ''futures''] then requested else me_market_type me symbol);
          entry_price = safe_price (me_ticker me symbol);
          side = lower (str_or (np_side np) ''buy'')
      in \<lparr>pp_id = fresh, pp_user_id = in_user_id it, pp_symbol = symbol, pp_market_type = market_type,
          pp_side = (if side \<in> set [''buy'', ''long''] then ''long'' else ''short''),
          pp_quantity = py_round 6 (max (in_notional it / max entry_price 1) (1 / 1000)),
          pp_leverage = int_or (np_leverage np) (if market_type = ''futures'' then 3 else 1),
          pp_entry_price = entry_price,
          pp_stop_loss = get_or (in_stop_price it) (py_round 6 (entry_price * (99 / 100))),
          pp_take_profit = get_or (in_take_profit_price it) (py_round 6 (entry_price * (102 / 100))),
          pp_status = ''open'', pp_unrealized_pnl = 0, pp_realized_pnl = 0, pp_closed_at = None\<rparr>)"

definition open_position_from_intent ::
  "market_env \<Rightarrow> string \<Rightarrow> intent \<Rightarrow> intent_store \<Rightarrow> (string + paper_position) \<times> intent_store" where
  "open_position_from_intent me fresh it s =
     (case normalize_symbol (me_quotes me) ''symbol_required_for_execution_order'' ''invalid_quote_asset''
             (Some (str_or (np_symbol (in_payload it)) (in_symbol it))) of
        Inl e \<Rightarrow> (Inl e, s)
      | Inr symbol \<Rightarrow>
          let p = opened_position me fresh it symbol;
              s1 = record_ledger fresh ''execution_order_released'' (in_id it) (s\<lparr>papers := papers s @ [p]\<rparr>)
          in (Inr p, sync_position_state (me_synced_ticker me (upper symbol))
                (np_strategy_binding (in_payload it)) (in_cluster_id it) p s1))"

section \<open>Acting on a position\<close>

definition closed_position :: "timestamp \<Rightarrow> num \<Rightarrow> paper_position \<Rightarrow> paper_position" where
  "closed_position now exit_price p =
     p\<lparr>pp_realized_pnl := pp_realized_pnl p + calc_realized_pnl p exit_price (pp_quantity p),
       pp_unrealized_pnl := 0, pp_quantity := 0, pp_status := ''closed'', pp_closed_at := Some now\<rparr>"

definition partially_closed :: "timestamp \<Rightarrow> num \<Rightarrow> num \<Rightarrow> paper_position \<Rightarrow> paper_position" where
  "partially_closed now exit_price close_qty p =
     (let remaining = max (pp_quantity p - close_qty) 0;
          p1 = p\<lparr>pp_realized_pnl := pp_realized_pnl p + calc_realized_pnl p exit_price close_qty,
                 pp_quantity := remaining\<rparr>
      in if remaining \<le> 1 / 10 ^ 8
         then p1\<lparr>pp_status := ''closed'', pp_closed_at := Some now, pp_unrealized_pnl := 0\<rparr> else p1)"

definition reversed_position :: "num \<Rightarrow> string \<Rightarrow> intent \<Rightarrow> paper_position \<Rightarrow> paper_position" where
  "reversed_position open_price fresh it p =
     (let new_side = (if pp_side p = ''long'' then ''short'' else ''long'') in
      \<lparr>pp_id = fresh, pp_user_id = in_user_id it, pp_symbol = pp_symbol p,
       pp_market_type = pp_market_type p, pp_side = new_side,
       pp_quantity = max (num_or (Some (in_size it)) (pp_quantity p)) (1 / 1000),
       pp_leverage = int_or (Some (pp_leverage p)) 1, pp_entry_price = open_price,
       pp_stop_loss = get_or (in_stop_price it)
         (py_round 6 (open_price * (if new_side = ''short'' then 101 / 100 else 99 / 100))),
       pp_take_profit = get_or (in_take_profit_price it)
         (py_round 6 (open_price * (if new_side = ''short'' then 98 / 100 else 102 / 100))),
       pp_status = ''open'', pp_unrealized_pnl = 0, pp_realized_pnl = 0, pp_closed_at = None\<rparr>)"

definition actionable_position :: "intent \<Rightarrow> intent_store \<Rightarrow> paper_position option" where
  "actionable_position it s =
     (case in_position_id it of None \<Rightarrow> None
      | Some i \<Rightarrow> List.find (\<lambda>p. pp_id p = i \<and> pp_user_id p = in_user_id it \<and> pp_status p = ''open'') (papers s))"

text \<open>
  \<open>_apply_position_action_intent\<close>: the position afterwards and the type of the ledger event the
  caller records.
\<close>

definition apply_position_action_intent ::
  "market_env \<Rightarrow> timestamp \<Rightarrow> string \<Rightarrow> intent \<Rightarrow> intent_store \<Rightarrow>
     (string + paper_position \<times> string) \<times> intent_store" where
  "apply_position_action_intent me now fresh it s =
     (if str_or (in_position_id it) [] = [] then (Inl ''position_id_required'', s)
      else case actionable_position it s of
        None \<Rightarrow> (Inl ''position_not_found'', s)
      | Some p \<Rightarrow>
          let price = safe_price (me_ticker me (pp_symbol p));
              exit_price = get_or (in_price it) price;
              sync = (\<lambda>q. sync_position_state (me_synced_ticker me (upper (pp_symbol q)))
                        (np_strategy_binding (in_payload it)) (in_cluster_id it) q);
              finish = (\<lambda>q kind. (Inr (q, kind), sync q (save_paper q s)))
          in if in_type it = ''CLOSE_POSITION''
             then finish (closed_position now exit_price p) ''position_closed''
             else if in_type it = ''PARTIAL_CLOSE''
             then let close_qty = min (in_size it) (pp_quantity p) in
                  if close_qty \<le> 0 then (Inl ''position_action_size_invalid'', s)
                  else finish (partially_closed now exit_price close_qty p) ''position_partial_close''
             else if in_type it = ''REVERSE_POSITION''
             then let closed = closed_position now exit_price p;
                      opened = reversed_position price fresh it p;
                      s1 = record_ledger (pp_id p) ''position_reversed_close_leg'' (in_id it) (save_paper closed s);
                      s2 = s1\<lparr>papers := papers s1 @ [opened]\<rparr>
                  in (Inr (opened, ''position_reversed''), sync opened (sync closed s2))
             else if in_type it = ''MOVE_STOP''
             then (case in_stop_price it of None \<Rightarrow> (Inl ''stop_price_required'', s)
                   | Some v \<Rightarrow> finish (p\<lparr>pp_stop_loss := v\<rparr>) ''position_stop_updated'')
             else if in_type it = ''MOVE_TAKE_PROFIT''
             then (case in_take_profit_price it of None \<Rightarrow> (Inl ''take_profit_price_required'', s)
                   | Some v \<Rightarrow> finish (p\<lparr>pp_take_profit := v\<rparr>) ''position_take_profit_updated'')
             else (Inl ''unsupported_intent_type'', s))"

section \<open>Previewing an action\<close>

definition POSITION_ACTION_TYPES :: "string list" where
  "POSITION_ACTION_TYPES =
     [''CLOSE_POSITION'', ''PARTIAL_CLOSE'', ''REVERSE_POSITION'', ''MOVE_STOP'', ''MOVE_TAKE_PROFIT'']"

record action_request =
  ar_intent_type :: "string option"
  ar_position_id :: "string option"
  ar_strategy_binding :: "string option"
  ar_size :: "num option"
  ar_reduce_only :: "bool option"
  ar_price :: "num option"
  ar_stop_price :: "num option"
  ar_take_profit_price :: "num option"

record action_preview =
  ap_validation_status :: string
  ap_reject_reason_codes :: "string list"
  ap_position_id :: string
  ap_side :: string
  ap_position_size_value :: num
  ap_strategy_binding :: string
  ap_size :: num
  ap_notional :: num
  ap_reduce_only :: bool

definition action_size :: "string \<Rightarrow> num option \<Rightarrow> num \<Rightarrow> num" where
  "action_size intent_type size0 quantity =
     (let requested = get_or size0 0;
          s1 = (if requested \<le> 0 then quantity else requested);
          s2 = (if intent_type = ''CLOSE_POSITION'' then quantity else s1);
          s3 = (if intent_type = ''PARTIAL_CLOSE'' then min s2 quantity else s2)
      in if intent_type = ''REVERSE_POSITION'' \<and> s3 \<le> 0 then quantity else s3)"

text \<open>\<open>_build_position_action_preview_payload\<close>; the strategy of the state row is looked up there.\<close>

definition build_position_action_preview ::
  "market_env \<Rightarrow> string \<Rightarrow> action_request \<Rightarrow> intent_store \<Rightarrow> string + action_preview" where
  "build_position_action_preview me user rq s =
     (let intent_type = upper (str_or (ar_intent_type rq) []);
          wanted = strip (str_or (ar_position_id rq) [])
      in if intent_type \<notin> set POSITION_ACTION_TYPES then Inl ''unsupported_intent_type''
         else if wanted = [] then Inl ''position_id_required''
         else case List.find (\<lambda>p. pp_id p = wanted \<and> pp_user_id p = user \<and> pp_status p = ''open'') (papers s) of
           None \<Rightarrow> Inl ''position_not_found''
         | Some p \<Rightarrow>
             let bound = (case find_row ps_position_id (pp_id p) (states s) of None \<Rightarrow> None | Some r \<Rightarrow> ps_strategy_id r);
                 strategy = str_or (ar_strategy_binding rq) (str_or bound ''manual_execution'');
                 requested = action_size intent_type (ar_size rq) (pp_quantity p);
                 reasons = collect
                   [(requested \<le> 0, ''position_action_size_invalid''),
                    (intent_type = ''MOVE_STOP'' \<and> ar_stop_price rq = None, ''stop_price_required''),
                    (intent_type = ''MOVE_TAKE_PROFIT'' \<and> ar_take_profit_price rq = None, ''take_profit_price_required'')];
                 notional = max (requested * safe_price (me_ticker me (pp_symbol p))) 0
             in Inr \<lparr>ap_validation_status = (if reasons = [] then ''valid'' else ''rejected''),
                     ap_reject_reason_codes = reasons, ap_position_id = pp_id p,
                     ap_side = (if pp_side p = ''long'' then ''sell'' else ''buy''),
                     ap_position_size_value = py_round 6 notional, ap_strategy_binding = strategy,
                     ap_size = py_round 6 requested, ap_notional = notional,
                     ap_reduce_only = get_or (ar_reduce_only rq)
                       (intent_type \<in> set [''CLOSE_POSITION'', ''PARTIAL_CLOSE''])\<rparr>)"

end
