(* ===== verification/Futures_Monitor.thy ===== *)
theory Futures_Monitor
  imports Futures_Protection Position_Actions
begin

text \<open>
  The risk monitor of futures, \<open>src/backend/services/futures_risk_monitor_service.py\<close>: it describes
  every open futures position of a user (\<open>_build_futures_positions\<close>), and
  \<open>build_futures_risk_status\<close> composes the protection modules: risk of the portfolio, cascade, ADL
  state, policy, the two gates for every position, and the plans that reduce exposure. Equity
  comes from the sizing service, the other inputs from the cache. The reports and metrics the
  service builds from these values are not modelled.
\<close>

section \<open>Describing the positions\<close>

record market_pressure =
  mp_mark_price :: "num option"
  mp_funding_rate :: "num option"
  mp_funding_history :: "num list"
  mp_funding_skew :: "num option"
  mp_adl :: adl_market
  mp_cluster_exposure :: "num option"

definition funding_payload :: "market_pressure \<Rightarrow> funding_bias" where
  "funding_payload mp =
     (let rate = get_or (mp_funding_rate mp) 0
      in calculate_funding_bias rate (if mp_funding_history mp = [] then [rate] else mp_funding_history mp))"

text \<open>The position object: notional and margins from entry price, quantity and leverage.\<close>

definition position_of_row :: "market_pressure \<Rightarrow> paper_position \<Rightarrow> string + futures_position" where
  "position_of_row mp p =
     (let entry = pp_entry_price p; mark = get_or (mp_mark_price mp) entry; qty = pp_quantity p;
          notional = entry * qty; leverage = of_int (max (pp_leverage p) 1); long = (pp_side p = ''long'')
      in post_init \<lparr>fp_symbol = pp_symbol p, fp_side = (if long then ''LONG'' else ''SHORT''),
           fp_entry_price = entry, fp_mark_price = mark, fp_position_size = qty, fp_notional_value = notional,
           fp_leverage = leverage, fp_initial_margin = notional / leverage, fp_maintenance_margin = notional * (5 / 1000),
           fp_unrealized_pnl = (if long then (mark - entry) * qty else (entry - mark) * qty),
           fp_liquidation_price = 0, fp_margin_ratio = 0, fp_distance_to_liquidation = 0\<rparr>)"

definition exposure_of :: "market_pressure \<Rightarrow> paper_position \<Rightarrow> futures_position \<Rightarrow> exposure" where
  "exposure_of mp p fp =
     (let fb = funding_payload mp; am = mp_adl mp;
          distance = calculate_distance_to_liquidation fp
      in \<lparr>ex_symbol = Some (pp_symbol p), ex_side = Some (if pp_side p = ''long'' then ''LONG'' else ''SHORT''),
          ex_notional = Some (fp_notional_value fp), ex_leverage = Some (fp_leverage fp),
          ex_initial_margin = fp_initial_margin fp, ex_distance = Some distance,
          ex_margin_ratio = Some (calculate_margin_ratio fp), ex_funding_score = Some (fb_score fb),
          ex_funding_direction = fb_direction fb, ex_volatility = None, ex_execution = None,
          ex_cluster_exposure = Some (get_or (mp_cluster_exposure mp) 0),
          ex_adl = \<lparr>am_indicator = Some (get_or (am_indicator am) (min (\<bar>fb_rate fb\<bar> * 400) 1)),
            am_funding_rate = Some (fb_rate fb),
            am_funding_skew = Some (get_or (am_funding_skew am) (get_or (mp_funding_skew mp) (fb_trend fb))),
            am_open_interest_change = Some (get_or (am_open_interest_change am) 0),
            am_long_short_ratio = Some (get_or (am_long_short_ratio am) 1),
            am_liquidation_volume = Some (get_or (am_liquidation_volume am) 0),
            am_volatility_regime = Some (upper (get_or (am_volatility_regime am) ''NORMAL''))\<rparr>,
          ex_risk_score = None, ex_risk_level = Some (liquidation_risk_level distance), ex_dominant_factor = None\<rparr>)"

text \<open>The first position that the constructor refuses makes the whole call raise.\<close>

fun build_exposures :: "(string \<Rightarrow> market_pressure) \<Rightarrow> paper_position list \<Rightarrow> string + exposure list" where
  "build_exposures mp [] = Inr []"
| "build_exposures mp (p # ps) =
     (case position_of_row (mp (pp_symbol p)) p of Inl e \<Rightarrow> Inl e
      | Inr fp \<Rightarrow> (case build_exposures mp ps of Inl e \<Rightarrow> Inl e
          | Inr exs \<Rightarrow> Inr (exposure_of (mp (pp_symbol p)) p fp # exs)))"

definition build_futures_positions ::
  "(string \<Rightarrow> market_pressure) \<Rightarrow> string \<Rightarrow> intent_store \<Rightarrow> string + exposure list" where
  "build_futures_positions mp user s = build_exposures mp
     (filter (\<lambda>p. pp_user_id p = user \<and> pp_market_type p = ''futures'' \<and> pp_status p = ''open'') (papers s))"

section \<open>The state of the portfolio\<close>

record gate_rejection =
  gj_symbol :: "string option"
  gj_reason :: string
  gj_reasons :: "string list"
  gj_gate :: string

record risk_status =
  rs_portfolio_leverage :: num
  rs_margin_usage :: num
  rs_portfolio :: portfolio_risk
  rs_cascade :: cascade_result
  rs_margin_state :: string
  rs_adl_state :: adl_state
  rs_adl_policy :: adl_policy
  rs_policy :: policy_decision
  rs_gate_rejections :: "gate_rejection list"
  rs_plan :: execution_plan
  rs_adl_plan :: adl_plan

definition rejections_of :: "num \<Rightarrow> cascade_result \<Rightarrow> policy_decision \<Rightarrow> adl_state \<Rightarrow> exposure \<Rightarrow> gate_rejection list" where
  "rejections_of usage cs pd st ex =
     (let gate = liquidation_gate \<lparr>lc_distance = get_or (ex_distance ex) 0, lc_margin_usage = usage,
            lc_cascade_confirmed = (cs_state cs = ''CASCADE_CONFIRMED''), lc_emergency_policy = (pd_action pd = ''FREEZE''),
            lc_leverage = get_or (ex_leverage ex) 0, lc_leverage_cap = pd_leverage_cap pd\<rparr>;
          adl = adl_gate \<lparr>ac_level = as_level st, ac_pressure_side = as_dominant_side st,
            ac_portfolio_risk = as_portfolio_risk st, ac_trade_side = get_or (ex_side ex) []\<rparr>;
          rejection = (\<lambda>g kind. \<lparr>gj_symbol = ex_symbol ex, gj_reason = gr_reason g, gj_reasons = gr_reasons g, gj_gate = kind\<rparr>)
      in (if gr_pass gate then [] else [rejection gate ''LIQUIDATION'']) @ (if gr_pass adl then [] else [rejection adl ''ADL'']))"

text \<open>
  \<open>build_futures_risk_status\<close>: \<open>spread_bps\<close> and \<open>reject_rate\<close> are read from the cache, \<open>equity\<close> is
  computed elsewhere. Every position of the service has a distance, a leverage and a side.
\<close>

definition build_risk_status :: "num \<Rightarrow> num \<Rightarrow> num \<Rightarrow> exposure list \<Rightarrow> risk_status" where
  "build_risk_status equity spread_bps reject_rate exs =
     (let notional = sum_list (map (\<lambda>ex. get_or (ex_notional ex) 0) exs);
          margin = sum_list (map ex_initial_margin exs);
          leverage = (if 0 < equity then notional / equity else 0);
          usage = (if 0 < equity then margin / equity * 100 else 0);
          spike = (30 < \<bar>spread_bps\<bar>);
          pf = evaluate_portfolio exs;
          cs = detect_cascade \<lparr>ci_positions_at_risk = int (length (filter (\<lambda>ex. get_or (ex_distance ex) 0 < 15) exs)),
                 ci_volatility_spike = spike, ci_spread_widening = spike, ci_reject_rate = reject_rate,
                 ci_slippage_spike = False, ci_correlated_cluster_risk = False\<rparr> (pf_positions pf);
          st = aggregate_adl (map (\<lambda>ex. adl_symbol_risk (ex_symbol ex) (ex_adl ex)) (pf_positions pf));
          po = evaluate_adl_policy st;
          pd = evaluate_policy (pf_level pf) (cs_state cs) (fst (margin_state usage)) (as_level st)
      in \<lparr>rs_portfolio_leverage = py_round 4 leverage, rs_margin_usage = py_round 4 usage, rs_portfolio = pf,
          rs_cascade = cs, rs_margin_state = fst (margin_state usage), rs_adl_state = st, rs_adl_policy = po,
          rs_policy = pd, rs_gate_rejections = concat (map (rejections_of usage cs pd st) exs),
          rs_plan = execute_deleverage (pd_action pd) (pd_reduce_ratio pd) (pf_positions pf),
          rs_adl_plan = build_adl_plan (pf_positions pf) po\<rparr>)"


section \<open>Lemmas\<close>

lemma scored_frame [simp]:
  "ex_notional (scored ex) = ex_notional ex" "ex_symbol (scored ex) = ex_symbol ex"
  "reduction_of ratio (scored ex) = reduction_of ratio ex"
  by (simp_all add: scored_def Let_def reduction_of_def)

lemma pf_positions_portfolio: "pf_positions (evaluate_portfolio exs) = map scored exs"
  by (simp add: evaluate_portfolio_def Let_def)

lemma status_parts:
  "rs_policy (build_risk_status equity sp rr exs) =
     evaluate_policy (pf_level (evaluate_portfolio exs)) (cs_state (rs_cascade (build_risk_status equity sp rr exs)))
       (rs_margin_state (build_risk_status equity sp rr exs)) (as_level (rs_adl_state (build_risk_status equity sp rr exs)))"
  "rs_plan (build_risk_status equity sp rr exs) =
     execute_deleverage (pd_action (rs_policy (build_risk_status equity sp rr exs)))
       (pd_reduce_ratio (rs_policy (build_risk_status equity sp rr exs))) (map scored exs)"
  unfolding build_risk_status_def Let_def risk_status.select_convs pf_positions_portfolio by (rule refl)+

lemma status_cascade_score:
  "cs_score (rs_cascade (build_risk_status equity sp rr exs)) =
     (if 2 \<le> int (length (filter (\<lambda>ex. get_or (ex_distance ex) 0 < 15) exs)) then 30 else 0)
     + (if 30 < \<bar>sp\<bar> then 35 else 0) + (if 25 / 100 \<le> rr then 15 else 0)"
  by (simp add: build_risk_status_def Let_def detect_cascade_def)

lemma cascade_confirmed_iff:
  "cs_state (rs_cascade (build_risk_status equity sp rr exs)) = ''CASCADE_CONFIRMED'' \<longleftrightarrow>
     70 \<le> cs_score (rs_cascade (build_risk_status equity sp rr exs))"
  by (simp add: build_risk_status_def Let_def detect_cascade_def)

lemma confirmed_rejects_all:
  assumes "cs_state cs = ''CASCADE_CONFIRMED''"
  shows "ex_symbol ex \<in> gj_symbol ` set (filter (\<lambda>r. gj_gate r = ''LIQUIDATION'') (rejections_of usage cs pd st ex))"
proof -
  have "\<not> gr_pass (liquidation_gate lc)" if "lc_cascade_confirmed lc" for lc
    using that by (simp add: liquidation_gate_def liquidation_reasons_def)
  then show ?thesis using assms by (simp add: rejections_of_def Let_def)
qed

lemma scored_cuts:
  "{#py_round 4 (reduction_of (1 / 2) ex). ex \<in># filter_mset (\<lambda>ex. 0 < reduction_of (1 / 2) ex) (mset (map scored exs))#} =
   {#py_round 4 (num_or (ex_notional ex) 0 / 2). ex \<in># filter_mset (\<lambda>ex. 0 < num_or (ex_notional ex) 0) (mset exs)#}"
  by (induction exs) (auto simp: reduction_of_def max_def)

section \<open>Properties\<close>

text \<open>
  A confirmed cascade freezes the portfolio: the policy freezes, the liquidation gate rejects
  every position, and the plan cuts every position with a notional by half, to four decimals.
\<close>

theorem cascade_freezes_portfolio:
  assumes "build_risk_status equity spread_bps reject_rate exs = st"
    and "cs_state (rs_cascade st) = ''CASCADE_CONFIRMED''"
  shows "pd_action (rs_policy st) = ''FREEZE'' \<and>
    list_all (\<lambda>ex. ex_symbol ex \<in> gj_symbol ` set (filter (\<lambda>r. gj_gate r = ''LIQUIDATION'') (rs_gate_rejections st))) exs \<and>
    mset (map re_notional (ep_positions (rs_plan st))) =
      {#py_round 4 (num_or (ex_notional ex) 0 / 2). ex \<in># filter_mset (\<lambda>ex. 0 < num_or (ex_notional ex) 0) (mset exs)#}"
proof -
  have conf: "is_confirmed (cs_state (rs_cascade st))" unfolding assms(2) by code_simp
  have action: "pd_action (rs_policy st) = ''FREEZE''" and ratio: "pd_reduce_ratio (rs_policy st) = 1 / 2"
    using conf unfolding status_parts(1) [of equity spread_bps reject_rate exs, unfolded assms(1)]
    by (simp_all add: policy_by_order)
  have gates: "list_all (\<lambda>ex. ex_symbol ex \<in> gj_symbol ` set (filter (\<lambda>r. gj_gate r = ''LIQUIDATION'') (rs_gate_rejections st))) exs"
  proof -
    obtain usage pd ast where rej: "rs_gate_rejections st = concat (map (rejections_of usage (rs_cascade st) pd ast) exs)"
      unfolding assms(1) [symmetric] build_risk_status_def Let_def risk_status.select_convs by blast
    show ?thesis
      unfolding rej list_all_iff using confirmed_rejects_all [OF assms(2)] by fastforce
  qed
  have up: "upper ''FREEZE'' \<in> set [''REDUCE'', ''FORCE_REDUCE'', ''FREEZE'', ''LIMIT_NEW'']" by code_simp
  have plan: "rs_plan st = execute_deleverage ''FREEZE'' (1 / 2) (map scored exs)"
    using status_parts(2) [of equity spread_bps reject_rate exs] by (simp only: assms(1) action ratio)
  have "mset (map re_notional (ep_positions (rs_plan st))) =
      {#py_round 4 (num_or (ex_notional ex) 0 / 2). ex \<in># filter_mset (\<lambda>ex. 0 < num_or (ex_notional ex) 0) (mset exs)#}"
    unfolding plan plan_reductions [OF up] by (rule scored_cuts)
  then show ?thesis using action gates by blast
qed

theorem cascade_freezes_portfolio_witness:
  "pd_action (rs_policy (build_risk_status 1000 40 (3 / 10)
     [sample_exposure ''AAAUSDT'' 4, sample_exposure ''BBBUSDT'' 9])) = ''FREEZE''"
proof -
  have "cs_state (rs_cascade (build_risk_status 1000 40 (3 / 10)
     [sample_exposure ''AAAUSDT'' 4, sample_exposure ''BBBUSDT'' 9])) = ''CASCADE_CONFIRMED''"
    unfolding cascade_confirmed_iff status_cascade_score by (simp add: sample_exposure_def)
  from cascade_freezes_portfolio [OF refl this] show ?thesis by blast
qed

end
