(* ===== verification/Futures_Microstructure.thy ===== *)
theory Futures_Microstructure
  imports Prelude "HOL-Library.Product_Lexorder"
begin

text \<open>
  The microstructure layer of futures trading: the snapshot of
  \<open>src/backend/core/futures/microstructure/microstructure_snapshot.py\<close>, the six detectors, the
  aggregator, the gate and the suitability evaluator beside it, and their composition in
  \<open>src/backend/services/futures_microstructure_service.py\<close> (\<open>_symbol_microstructure\<close>, which keeps
  the last observation as the baseline of the next one, and the portfolio state of
  \<open>build_microstructure_status\<close>). The payloads of the cache are records of optional numbers,
  with the time stamps parsed; the cache holds one baseline per symbol.
\<close>

section \<open>The snapshot\<close>

record ticker_payload =
  tk_updated_at :: "timestamp option"
  tk_last_price :: "num option"
  tk_quote_volume :: "num option"

record spread_payload =
  sp_updated_at :: "timestamp option"
  sp_top_bid :: "num option"
  sp_top_ask :: "num option"
  sp_spread_bps :: "num option"

record orderbook_payload =
  ob_updated_at :: "timestamp option"
  ob_best_bid :: "num option"
  ob_best_ask :: "num option"
  ob_bid_depth_top_n :: "num option"
  ob_ask_depth_top_n :: "num option"
  ob_top_of_book_size :: "num option"

record trade_stats_payload =
  ts_updated_at :: "timestamp option"
  ts_bid_depth_top_n :: "num option"
  ts_ask_depth_top_n :: "num option"
  ts_recent_trade_volume :: "num option"
  ts_recent_trade_count :: "int option"
  ts_short_window_volatility :: "num option"
  ts_quote_update_rate :: "num option"
  ts_estimated_quote_update_rate :: "num option"

record market_input =
  mk_symbol :: string
  mk_now :: timestamp
  mk_ticker :: ticker_payload
  mk_spread :: spread_payload
  mk_orderbook :: orderbook_payload
  mk_trade_stats :: trade_stats_payload

record snapshot =
  sn_symbol :: string
  sn_timestamp :: timestamp
  sn_data_state :: string
  sn_best_bid :: num
  sn_best_ask :: num
  sn_mid_price :: num
  sn_spread_bps :: num
  sn_bid_depth_top_n :: num
  sn_ask_depth_top_n :: num
  sn_depth_imbalance :: num
  sn_top_of_book_size :: num
  sn_recent_trade_volume :: num
  sn_recent_trade_count :: int
  sn_short_window_volatility :: num
  sn_quote_update_rate :: num
  sn_liquidity_gap_score :: num
  sn_price_jump_score :: num
  sn_stale_data :: bool

text \<open>The newest of the time stamps that are there.\<close>

definition latest_ts :: "timestamp option list \<Rightarrow> timestamp option" where
  "latest_ts ts = (case [t. Some t \<leftarrow> ts] of [] \<Rightarrow> None | x # xs \<Rightarrow> Some (fold max xs x))"

definition is_stale :: "timestamp \<Rightarrow> int \<Rightarrow> timestamp option \<Rightarrow> bool" where
  "is_stale now stale_after_seconds latest =
     (case latest of None \<Rightarrow> True | Some t \<Rightarrow> stale_after_seconds * 1000 < now - t)"

definition best_bid_of :: "market_input \<Rightarrow> num" where
  "best_bid_of mk = num_or (sp_top_bid (mk_spread mk)) (num_or (ob_best_bid (mk_orderbook mk)) 0)"

definition best_ask_of :: "market_input \<Rightarrow> num" where
  "best_ask_of mk = num_or (sp_top_ask (mk_spread mk)) (num_or (ob_best_ask (mk_orderbook mk)) 0)"

definition bid_depth_of :: "market_input \<Rightarrow> num" where
  "bid_depth_of mk = num_or (ob_bid_depth_top_n (mk_orderbook mk)) (num_or (ts_bid_depth_top_n (mk_trade_stats mk)) 0)"

definition ask_depth_of :: "market_input \<Rightarrow> num" where
  "ask_depth_of mk = num_or (ob_ask_depth_top_n (mk_orderbook mk)) (num_or (ts_ask_depth_top_n (mk_trade_stats mk)) 0)"

definition book_valid :: "market_input \<Rightarrow> bool" where
  "book_valid mk \<longleftrightarrow> 0 < best_bid_of mk \<and> 0 < best_ask_of mk \<and> 0 < bid_depth_of mk \<and> 0 < ask_depth_of mk"

definition input_stale :: "market_input \<Rightarrow> bool" where
  "input_stale mk = is_stale (mk_now mk) 30 (latest_ts [tk_updated_at (mk_ticker mk),
     sp_updated_at (mk_spread mk), ob_updated_at (mk_orderbook mk), ts_updated_at (mk_trade_stats mk)])"

definition build_microstructure_snapshot :: "market_input \<Rightarrow> snapshot" where
  "build_microstructure_snapshot mk =
     (let tk = mk_ticker mk; ts = mk_trade_stats mk; ob = mk_orderbook mk;
          bid = best_bid_of mk; ask = best_ask_of mk;
          mid = (if 0 < bid \<and> 0 < ask then (bid + ask) / 2 else num_or (tk_last_price tk) 0);
          spread0 = num_or (sp_spread_bps (mk_spread mk)) 0;
          spread = (if spread0 \<le> 0 \<and> 0 < bid \<and> 0 < ask then (ask - bid) / ask * 10000 else spread0);
          bid_depth = bid_depth_of mk; ask_depth = ask_depth_of mk;
          valid = book_valid mk;
          total_depth = bid_depth + ask_depth;
          imbalance = (if 0 < total_depth then (bid_depth - ask_depth) / total_depth else 0);
          top = num_or (ob_top_of_book_size ob) (min bid_depth ask_depth);
          volume = num_or (ts_recent_trade_volume ts) (num_or (tk_quote_volume tk) 0);
          count0 = int_or (ts_recent_trade_count ts) 0;
          trade_count = (if count0 \<le> 0 then py_int (max (volume / max mid 1) 0) else count0);
          volatility = num_or (ts_short_window_volatility ts) 0;
          rate0 = num_or (ts_quote_update_rate ts) 0;
          rate = (if rate0 \<le> 0
                  then num_or (ts_estimated_quote_update_rate ts) (max (of_int trade_count / 30) (1 / 10))
                  else rate0);
          gap = min 100 (max 0 (spread * (9 / 10) + 40 / max top (1 / 2)));
          jump = min 100 (max 0 (volatility * 6000 + \<bar>imbalance\<bar> * 30))
      in \<lparr>sn_symbol = upper (mk_symbol mk), sn_timestamp = mk_now mk,
          sn_data_state = (if valid then ''VALID'' else ''INVALID''),
          sn_best_bid = py_round 8 bid, sn_best_ask = py_round 8 ask, sn_mid_price = py_round 8 mid,
          sn_spread_bps = py_round 4 spread,
          sn_bid_depth_top_n = py_round 6 bid_depth, sn_ask_depth_top_n = py_round 6 ask_depth,
          sn_depth_imbalance = py_round 6 imbalance, sn_top_of_book_size = py_round 6 top,
          sn_recent_trade_volume = py_round 4 volume, sn_recent_trade_count = trade_count,
          sn_short_window_volatility = py_round 6 volatility, sn_quote_update_rate = py_round 4 rate,
          sn_liquidity_gap_score = py_round 4 gap, sn_price_jump_score = py_round 4 jump,
          sn_stale_data = (input_stale mk \<or> \<not> valid)\<rparr>)"

section \<open>The detectors\<close>

record spread_result =
  spr_state :: string
  spr_spread_bps :: num
  spr_baseline_bps :: num
  spr_shock_ratio :: num

definition spread_shock :: "snapshot \<Rightarrow> num option \<Rightarrow> spread_result" where
  "spread_shock sn baseline_spread_bps =
     (let baseline = max (num_or baseline_spread_bps 8) (1 / 10);
          ratio = sn_spread_bps sn / baseline
      in \<lparr>spr_state = (if 5 / 2 \<le> ratio then ''SHOCK'' else if 3 / 2 \<le> ratio then ''ELEVATED'' else ''NORMAL''),
          spr_spread_bps = py_round 4 (sn_spread_bps sn), spr_baseline_bps = py_round 4 baseline,
          spr_shock_ratio = py_round 4 ratio\<rparr>)"

record thinning_result =
  thr_state :: string
  thr_bid_change :: num
  thr_ask_change :: num
  thr_dominant_side :: string

definition depth_change :: "num option \<Rightarrow> num \<Rightarrow> num" where
  "depth_change baseline depth =
     (let base = max (num_or baseline (num_or (Some depth) 1)) (1 / 10000) in (depth - base) / base)"

definition orderbook_thinning :: "snapshot \<Rightarrow> num option \<Rightarrow> num option \<Rightarrow> thinning_result" where
  "orderbook_thinning sn baseline_bid baseline_ask =
     (let bid = depth_change baseline_bid (sn_bid_depth_top_n sn);
          ask = depth_change baseline_ask (sn_ask_depth_top_n sn);
          worst = min bid ask
      in \<lparr>thr_state = (if worst \<le> - (6 / 10) then ''CRITICAL''
            else if worst \<le> - (35 / 100) then ''WARNING'' else ''NORMAL''),
          thr_bid_change = py_round 4 bid, thr_ask_change = py_round 4 ask,
          thr_dominant_side = (if bid < ask then ''BID'' else if ask < bid then ''ASK'' else ''NONE'')\<rparr>)"

record vacuum_result =
  vcr_score :: num
  vcr_state :: string
  vcr_slippage_risk :: num

definition liquidity_vacuum :: "snapshot \<Rightarrow> thinning_result \<Rightarrow> vacuum_result" where
  "liquidity_vacuum sn th =
     (let top = min 1 (1 / max (sn_top_of_book_size sn) (1 / 4));
          imbalance = min 1 (\<bar>sn_depth_imbalance sn\<bar> / (6 / 10));
          gap = min 1 (sn_liquidity_gap_score sn / 60);
          thinning = get_or (map_of [(''NORMAL'', 1 / 10), (''WARNING'', 5 / 10), (''CRITICAL'', 95 / 100)]
            (upper_or (Some (thr_state th)) ''NORMAL'')) (1 / 10);
          score = min 1 (top * (35 / 100) + imbalance * (2 / 10) + gap * (3 / 10) + thinning * (15 / 100))
      in \<lparr>vcr_score = py_round 4 score,
          vcr_state = (if 75 / 100 \<le> score then ''HIGH'' else if 45 / 100 \<le> score then ''MEDIUM'' else ''LOW''),
          vcr_slippage_risk = py_round 4 (min 100 (score * 100))\<rparr>)"

record quote_result =
  qtr_state :: string
  qtr_update_rate :: num
  qtr_flicker_score :: num

definition quote_stability :: "snapshot \<Rightarrow> quote_result" where
  "quote_stability sn =
     (let rate = sn_quote_update_rate sn;
          flicker = min 100 (sn_price_jump_score sn * (7 / 10) + sn_spread_bps sn * (8 / 10) + max (rate - 8) 0 * 3)
      in \<lparr>qtr_state = (if 10 < rate \<or> 75 \<le> flicker then ''CHAOTIC''
            else if 5 < rate \<or> 40 \<le> flicker then ''UNSTABLE'' else ''STABLE''),
          qtr_update_rate = py_round 4 rate, qtr_flicker_score = py_round 4 flicker\<rparr>)"

record slippage_result =
  slr_expected_bps :: num
  slr_state :: string
  slr_anomaly_score :: num

definition slippage_anomaly :: "snapshot \<Rightarrow> spread_result \<Rightarrow> vacuum_result \<Rightarrow> slippage_result" where
  "slippage_anomaly sn spr vcr =
     (let spread = num_or (Some (spr_spread_bps spr)) (sn_spread_bps sn);
          ratio = num_or (Some (spr_shock_ratio spr)) 1;
          expected = spread * (8 / 10 + ratio * (4 / 10) + vcr_score vcr * (9 / 10));
          anomaly = min 1 (expected / 40)
      in \<lparr>slr_expected_bps = py_round 4 expected,
          slr_state = (if 75 / 100 \<le> anomaly then ''ANOMALY'' else if 45 / 100 \<le> anomaly then ''ELEVATED'' else ''NORMAL''),
          slr_anomaly_score = py_round 4 anomaly\<rparr>)"

record disappearance_result =
  dsr_score :: num
  dsr_state :: string
  dsr_affected_side :: string

definition liquidity_disappearance :: "snapshot \<Rightarrow> thinning_result \<Rightarrow> quote_result \<Rightarrow> disappearance_result" where
  "liquidity_disappearance sn th qt =
     (let rate = num_or (Some (qtr_update_rate qt)) (sn_quote_update_rate sn);
          thinning = get_or (map_of [(''NORMAL'', 1 / 10), (''WARNING'', 6 / 10), (''CRITICAL'', 95 / 100)]
            (upper_or (Some (thr_state th)) ''NORMAL'')) (1 / 10);
          side = upper_or (Some (thr_dominant_side th)) ''NONE'';
          score = min 1 (thinning * (5 / 10) + min 1 (\<bar>rate - 4\<bar> / 8) * (25 / 100)
            + min 1 (sn_liquidity_gap_score sn / 70) * (25 / 100))
      in \<lparr>dsr_score = py_round 4 score,
          dsr_state = (if 75 / 100 \<le> score then ''STRONG'' else if 45 / 100 \<le> score then ''SUSPECTED'' else ''NONE''),
          dsr_affected_side = (if side = ''BID'' then ''LONG'' else if side = ''ASK'' then ''SHORT'' else ''NONE'')\<rparr>)"

section \<open>Aggregation, gate and suitability\<close>

record micro_aggregate =
  mag_risk_score :: num
  mag_risk_level :: string
  mag_dominant_factor :: string
  mag_side_risk :: string
  mag_factor_scores :: "(string \<times> num) list"

definition aggregate_microstructure ::
  "snapshot \<Rightarrow> spread_result \<Rightarrow> thinning_result \<Rightarrow> vacuum_result \<Rightarrow> quote_result \<Rightarrow> slippage_result
     \<Rightarrow> disappearance_result \<Rightarrow> micro_aggregate" where
  "aggregate_microstructure sn spr th vc qt sl ds =
     (let spread = get_or (map_of [(''NORMAL'', 1 / 10), (''ELEVATED'', 55 / 100), (''SHOCK'', 1)]
            (upper_or (Some (spr_state spr)) ''NORMAL'')) (1 / 10);
          thinning = get_or (map_of [(''NORMAL'', 1 / 10), (''WARNING'', 6 / 10), (''CRITICAL'', 1)]
            (upper_or (Some (thr_state th)) ''NORMAL'')) (1 / 10);
          vacuum = vcr_score vc;
          quote = get_or (map_of [(''STABLE'', 1 / 10), (''UNSTABLE'', 55 / 100), (''CHAOTIC'', 1)]
            (upper_or (Some (qtr_state qt)) ''STABLE'')) (1 / 10);
          slippage = slr_anomaly_score sl;
          disappearance = dsr_score ds;
          stale = (if sn_stale_data sn then 1 else 0);
          factors = [(''SPREAD_SHOCK'', spread), (''ORDERBOOK_THINNING'', thinning), (''LIQUIDITY_VACUUM'', vacuum),
            (''QUOTE_INSTABILITY'', quote), (''SLIPPAGE_ANOMALY'', slippage),
            (''LIQUIDITY_DISAPPEARANCE'', disappearance), (''STALE_DATA'', stale)];
          score = min 1 (spread * (2 / 10) + thinning * (2 / 10) + vacuum * (15 / 100) + quote * (15 / 100)
            + slippage * (15 / 100) + disappearance * (1 / 10) + stale * (5 / 100))
      in \<lparr>mag_risk_score = py_round 4 score,
          mag_risk_level = (if 1 \<le> stale \<or> 85 / 100 \<le> score then ''BLOCKED''
            else if 65 / 100 \<le> score then ''CRITICAL'' else if 4 / 10 \<le> score then ''WARNING'' else ''SAFE''),
          mag_dominant_factor = fst (arg_max_list snd (hd factors) (tl factors)),
          mag_side_risk = upper_or (Some (dsr_affected_side ds)) ''NONE'',
          mag_factor_scores = map (\<lambda>(k, v). (k, py_round 4 v)) factors\<rparr>)"

definition micro_gate_reasons ::
  "spread_result \<Rightarrow> thinning_result \<Rightarrow> vacuum_result \<Rightarrow> quote_result \<Rightarrow> slippage_result \<Rightarrow> micro_aggregate \<Rightarrow> bool
     \<Rightarrow> string list" where
  "micro_gate_reasons spr th vc qt sl ag stale = collect
     [(stale, ''MICROSTRUCTURE_STALE_DATA''),
      (upper_or (Some (spr_state spr)) ''NORMAL'' = ''SHOCK'', ''MICROSTRUCTURE_SPREAD_SHOCK''),
      (upper_or (Some (thr_state th)) ''NORMAL'' = ''CRITICAL'', ''MICROSTRUCTURE_DEPTH_COLLAPSE''),
      (upper_or (Some (vcr_state vc)) ''LOW'' = ''HIGH'', ''MICROSTRUCTURE_LIQUIDITY_VACUUM_HIGH''),
      (upper_or (Some (qtr_state qt)) ''STABLE'' = ''CHAOTIC'', ''MICROSTRUCTURE_QUOTE_CHAOTIC''),
      (upper_or (Some (slr_state sl)) ''NORMAL'' = ''ANOMALY'', ''MICROSTRUCTURE_SLIPPAGE_ANOMALY''),
      (upper_or (Some (mag_risk_level ag)) ''SAFE'' = ''BLOCKED'', ''MICROSTRUCTURE_RISK_BLOCKED'')]"

record suitability =
  su_suitable :: bool
  su_severity :: string
  su_size_ratio :: num
  su_leverage_cap :: int
  su_side_risk :: string

definition execution_suitability :: "micro_aggregate \<Rightarrow> gate_result \<Rightarrow> suitability" where
  "execution_suitability ag gate =
     (let level = upper_or (Some (mag_risk_level ag)) ''SAFE'';
          side = upper_or (Some (mag_side_risk ag)) ''NONE'';
          verdict = (\<lambda>ok severity ratio cap. \<lparr>su_suitable = ok, su_severity = severity, su_size_ratio = ratio,
            su_leverage_cap = cap, su_side_risk = side\<rparr>)
      in if \<not> gr_pass gate \<or> level = ''BLOCKED'' then verdict False ''BLOCKED'' 0 1
         else if level = ''CRITICAL'' then verdict True ''HIGH'' (35 / 100) 2
         else if level = ''WARNING'' then verdict True ''MEDIUM'' (65 / 100) 3
         else verdict True ''LOW'' (py_round 4 (max (7 / 10) (1 - mag_risk_score ag * (3 / 10)))) 5)"

section \<open>One symbol\<close>

record baseline =
  bl_spread_bps :: "num option"
  bl_bid_depth :: "num option"
  bl_ask_depth :: "num option"

record microstructure =
  mi_symbol :: string
  mi_snapshot :: snapshot
  mi_spread :: spread_result
  mi_thinning :: thinning_result
  mi_vacuum :: vacuum_result
  mi_quote :: quote_result
  mi_slippage :: slippage_result
  mi_disappearance :: disappearance_result
  mi_aggregate :: micro_aggregate
  mi_gate :: gate_result
  mi_suitability :: suitability

definition no_baseline :: baseline where
  "no_baseline = \<lparr>bl_spread_bps = None, bl_bid_depth = None, bl_ask_depth = None\<rparr>"

definition next_baseline :: "snapshot \<Rightarrow> baseline" where
  "next_baseline sn = \<lparr>bl_spread_bps = Some (py_round 4 (sn_spread_bps sn)),
     bl_bid_depth = Some (py_round 6 (num_or (Some (sn_bid_depth_top_n sn)) 1)),
     bl_ask_depth = Some (py_round 6 (num_or (Some (sn_ask_depth_top_n sn)) 1))\<rparr>"

definition symbol_microstructure :: "baseline \<Rightarrow> market_input \<Rightarrow> microstructure \<times> baseline" where
  "symbol_microstructure bl mk =
     (let sn = build_microstructure_snapshot mk;
          depth_baseline = (\<lambda>b depth. Some (num_or b (num_or (Some depth) 1)));
          spr = spread_shock sn (Some (num_or (bl_spread_bps bl) 8));
          th = orderbook_thinning sn (depth_baseline (bl_bid_depth bl) (sn_bid_depth_top_n sn))
            (depth_baseline (bl_ask_depth bl) (sn_ask_depth_top_n sn));
          vc = liquidity_vacuum sn th; qt = quote_stability sn; sl = slippage_anomaly sn spr vc;
          ds = liquidity_disappearance sn th qt;
          ag = aggregate_microstructure sn spr th vc qt sl ds;
          gate = gate_report (micro_gate_reasons spr th vc qt sl ag (sn_stale_data sn))
      in (\<lparr>mi_symbol = mk_symbol mk, mi_snapshot = sn, mi_spread = spr, mi_thinning = th, mi_vacuum = vc,
           mi_quote = qt, mi_slippage = sl, mi_disappearance = ds, mi_aggregate = ag, mi_gate = gate,
           mi_suitability = execution_suitability ag gate\<rparr>, next_baseline sn))"

text \<open>Repeated calls on the same symbol: the cache keeps the baseline between them.\<close>

fun observe :: "baseline \<Rightarrow> market_input list \<Rightarrow> microstructure list" where
  "observe bl [] = []"
| "observe bl (mk # mks) = (let (m, bl') = symbol_microstructure bl mk in m # observe bl' mks)"

section \<open>The portfolio\<close>

definition risk_rank :: "string \<Rightarrow> int" where
  "risk_rank level = get_or (map_of [(''SAFE'', 0), (''WARNING'', 1), (''CRITICAL'', 2), (''BLOCKED'', 3)] level) 0"

record micro_status =
  ms_state :: string
  ms_risk_score :: num
  ms_symbols_at_risk :: "(string \<times> string \<times> num \<times> string) list"
  ms_gate_rejections :: "(string \<times> string) list"
  ms_suitability :: suitability
  ms_spread_shocks :: nat
  ms_depth_collapses :: nat

definition suitability_key :: "suitability \<Rightarrow> int \<times> int \<times> num" where
  "suitability_key su =
     (if su_suitable su then 1 else 0,
      - get_or (map_of [(''LOW'', 0), (''MEDIUM'', 1), (''HIGH'', 2), (''BLOCKED'', 3)]
          (upper_or (Some (su_severity su)) ''LOW'')) 0,
      su_size_ratio su)"

definition microstructure_status :: "microstructure list \<Rightarrow> micro_status" where
  "microstructure_status rows =
     (case rows of
        [] \<Rightarrow> \<lparr>ms_state = ''SAFE'', ms_risk_score = 0, ms_symbols_at_risk = [], ms_gate_rejections = [],
          ms_suitability = \<lparr>su_suitable = True, su_severity = ''LOW'', su_size_ratio = 1, su_leverage_cap = 5,
            su_side_risk = ''NONE''\<rparr>, ms_spread_shocks = 0, ms_depth_collapses = 0\<rparr>
      | r # rs \<Rightarrow>
          let level = (\<lambda>m. mag_risk_level (mi_aggregate m)); score = (\<lambda>m. mag_risk_score (mi_aggregate m)) in
          \<lparr>ms_state = arg_max_list risk_rank (level r) (map level rs),
           ms_risk_score = py_round 4 (sum_list (map score rows) / of_nat (length rows)),
           ms_symbols_at_risk = map (\<lambda>m. (mi_symbol m, level m, score m, mag_dominant_factor (mi_aggregate m)))
             (filter (\<lambda>m. level m \<in> set [''WARNING'', ''CRITICAL'', ''BLOCKED'']) rows),
           ms_gate_rejections = map (\<lambda>m. (mi_symbol m, gr_reason (mi_gate m)))
             (filter (\<lambda>m. \<not> gr_pass (mi_gate m)) rows),
           ms_suitability = arg_min_list suitability_key (map mi_suitability rows),
           ms_spread_shocks = length (filter (\<lambda>m. spr_state (mi_spread m) = ''SHOCK'') rows),
           ms_depth_collapses = length (filter (\<lambda>m. thr_state (mi_thinning m) = ''CRITICAL'') rows)\<rparr>)"

section \<open>Lemmas\<close>

lemma upper_or_Some [simp]: "s \<noteq> [] \<Longrightarrow> upper_or (Some s) d = upper s"
  by (cases s) (simp_all add: upper_or_def)

lemma on_grid_py_round [simp]: "on_grid n (py_round n x)"
  by (simp add: on_grid_def py_round_def)

lemma py_round_idem [simp]: "py_round n (py_round n x) = py_round n x"
  by (simp add: py_round_on_grid)

lemma micro_gate_pass_not_reason: "''PASS'' \<notin> set (micro_gate_reasons spr th vc qt sl ag stale)"
  by (simp add: micro_gate_reasons_def set_collect del: collect_simps)

definition gate_reasons_of :: "microstructure \<Rightarrow> string list" where
  "gate_reasons_of m = micro_gate_reasons (mi_spread m) (mi_thinning m)
     (mi_vacuum m) (mi_quote m) (mi_slippage m) (mi_aggregate m) (sn_stale_data (mi_snapshot m))"

interpretation micro_gate: reason_gate "\<lambda>m. gr_pass (gate_report (gate_reasons_of m))" gate_reasons_of
    "\<lambda>m. gr_reason (gate_report (gate_reasons_of m))"
  by unfold_locales (simp_all add: gate_reasons_of_def micro_gate_pass_not_reason)

lemma sn_stale_data_build [simp]:
  "sn_stale_data (build_microstructure_snapshot mk) \<longleftrightarrow> input_stale mk \<or> \<not> book_valid mk"
  "sn_bid_depth_top_n (build_microstructure_snapshot mk) = py_round 6 (bid_depth_of mk)"
  "sn_ask_depth_top_n (build_microstructure_snapshot mk) = py_round 6 (ask_depth_of mk)"
  by (simp_all add: build_microstructure_snapshot_def Let_def)

lemma symbol_microstructure_parts:
  assumes "symbol_microstructure bl mk = (m, bl')"
  shows "mi_snapshot m = build_microstructure_snapshot mk" "bl' = next_baseline (mi_snapshot m)"
    "mi_gate m = gate_report (gate_reasons_of m)"
    "mi_suitability m = execution_suitability (mi_aggregate m) (mi_gate m)"
    "mi_aggregate m = aggregate_microstructure (mi_snapshot m) (mi_spread m) (mi_thinning m) (mi_vacuum m)
       (mi_quote m) (mi_slippage m) (mi_disappearance m)"
proof -
  have m: "m = fst (symbol_microstructure bl mk)" and b: "bl' = snd (symbol_microstructure bl mk)"
    by (simp_all add: assms)
  show "mi_snapshot m = build_microstructure_snapshot mk" "bl' = next_baseline (mi_snapshot m)"
    "mi_gate m = gate_report (gate_reasons_of m)"
    "mi_suitability m = execution_suitability (mi_aggregate m) (mi_gate m)"
    "mi_aggregate m = aggregate_microstructure (mi_snapshot m) (mi_spread m) (mi_thinning m) (mi_vacuum m)
       (mi_quote m) (mi_slippage m) (mi_disappearance m)"
    unfolding m b by (simp_all only: symbol_microstructure_def gate_reasons_of_def Let_def fst_conv snd_conv microstructure.select_convs)
qed

lemma if_chain_in: "(if a then x else if b then y else if c then z else w) \<in> {x, y, z, w}"
  by simp

lemma aggregate_levels:
  "mag_risk_level (aggregate_microstructure sn spr th vc qt sl ds) \<in> {''BLOCKED'', ''CRITICAL'', ''WARNING'', ''SAFE''}"
  unfolding aggregate_microstructure_def Let_def micro_aggregate.select_convs by (rule if_chain_in)

lemma upper_levels [simp]:
  "upper ''BLOCKED'' = ''BLOCKED''" "upper ''CRITICAL'' = ''CRITICAL''"
  "upper ''WARNING'' = ''WARNING''" "upper ''SAFE'' = ''SAFE''" "upper ''NORMAL'' = ''NORMAL''"
  by code_simp+

lemma suitability_of_level:
  assumes "mag_risk_level ag \<in> {''BLOCKED'', ''CRITICAL'', ''WARNING'', ''SAFE''}"
  shows "su_suitable (execution_suitability ag g) \<longleftrightarrow> gr_pass g \<and> mag_risk_level ag \<noteq> ''BLOCKED''"
    and "\<not> su_suitable (execution_suitability ag g) \<Longrightarrow>
      su_size_ratio (execution_suitability ag g) = 0 \<and> su_leverage_cap (execution_suitability ag g) = 1"
    and "su_suitable (execution_suitability ag g) \<Longrightarrow>
      35 / 100 \<le> su_size_ratio (execution_suitability ag g) \<and> 2 \<le> su_leverage_cap (execution_suitability ag g)"
proof -
  have ge: "35 / 100 \<le> py_round 4 (max (7 / 10) x)" for x
    by (rule py_round_ge) (simp_all add: on_grid_def le_max_iff_disj)
  show "su_suitable (execution_suitability ag g) \<longleftrightarrow> gr_pass g \<and> mag_risk_level ag \<noteq> ''BLOCKED''"
    using assms by (auto simp: execution_suitability_def Let_def)
  show "\<not> su_suitable (execution_suitability ag g) \<Longrightarrow>
      su_size_ratio (execution_suitability ag g) = 0 \<and> su_leverage_cap (execution_suitability ag g) = 1"
    by (auto simp: execution_suitability_def Let_def split: if_splits)
  show "su_suitable (execution_suitability ag g) \<Longrightarrow>
      35 / 100 \<le> su_size_ratio (execution_suitability ag g) \<and> 2 \<le> su_leverage_cap (execution_suitability ag g)"
    using assms ge by (auto simp: execution_suitability_def Let_def split: if_splits)
qed

lemma micro_gate_clean:
  "micro_gate_reasons spr th vc qt sl ag stale = [] \<Longrightarrow>
     \<not> stale \<and> upper_or (Some (mag_risk_level ag)) ''SAFE'' \<noteq> ''BLOCKED''"
  by (simp add: micro_gate_reasons_def collect_empty_iff del: collect_simps)

lemma gate_passes_clean:
  assumes "symbol_microstructure bl mk = (m, bl')" and "gr_pass (mi_gate m)"
  shows "\<not> input_stale mk" "book_valid mk" "mag_risk_level (mi_aggregate m) \<noteq> ''BLOCKED''"
proof -
  have "gate_reasons_of m = []"
    using assms(2) by (simp add: symbol_microstructure_parts(3) [OF assms(1)])
  from micro_gate_clean [OF this [unfolded gate_reasons_of_def]]
  show "\<not> input_stale mk" "book_valid mk" "mag_risk_level (mi_aggregate m) \<noteq> ''BLOCKED''"
    by (auto simp: symbol_microstructure_parts(1) [OF assms(1)])
qed

lemma suitable_iff_gate:
  assumes "symbol_microstructure bl mk = (m, bl')"
  shows "su_suitable (mi_suitability m) \<longleftrightarrow> gr_pass (mi_gate m)"
  using gate_passes_clean(3) [OF assms] aggregate_levels
  unfolding symbol_microstructure_parts(4) [OF assms]
  by (subst suitability_of_level(1)) (auto simp: symbol_microstructure_parts(5) [OF assms])

subsection \<open>Thinning against the last observation\<close>

definition depth_ok :: "num \<Rightarrow> num \<Rightarrow> bool" where
  "depth_ok before after \<longleftrightarrow> 1 / 10000 \<le> before \<and> before * (65 / 100) < after"

text \<open>Each observation keeps more than 65 percent of both depths of the one before it.\<close>

fun thins_slowly :: "market_input list \<Rightarrow> bool" where
  "thins_slowly (a # b # mks) =
     (depth_ok (py_round 6 (bid_depth_of a)) (py_round 6 (bid_depth_of b)) \<and>
      depth_ok (py_round 6 (ask_depth_of a)) (py_round 6 (ask_depth_of b)) \<and> thins_slowly (b # mks))"
| "thins_slowly mks = True"

lemma depth_change_ok: "depth_ok before after \<Longrightarrow> - (35 / 100) < depth_change (Some before) after"
  by (auto simp: depth_ok_def depth_change_def Let_def num_or_def max_def field_simps split: if_splits)

lemma thinning_normal:
  assumes "symbol_microstructure bl mk = (m, bl')" and "symbol_microstructure bl0 mk0 = (m0, bl)"
    and "depth_ok (py_round 6 (bid_depth_of mk0)) (py_round 6 (bid_depth_of mk))"
    and "depth_ok (py_round 6 (ask_depth_of mk0)) (py_round 6 (ask_depth_of mk))"
  shows "thr_state (mi_thinning m) = ''NORMAL''"
proof -
  let ?b0 = "py_round 6 (bid_depth_of mk0)" and ?a0 = "py_round 6 (ask_depth_of mk0)"
  have nz: "?b0 \<noteq> 0" "?a0 \<noteq> 0" using assms(3,4) by (auto simp: depth_ok_def)
  have "mi_thinning m = orderbook_thinning (build_microstructure_snapshot mk) (Some ?b0) (Some ?a0)"
    using assms(1) nz
    by (auto simp: symbol_microstructure_def Let_def symbol_microstructure_parts [OF assms(2)] next_baseline_def num_or_def)
  then show ?thesis
    using depth_change_ok [OF assms(3)] depth_change_ok [OF assms(4)]
    by (auto simp: orderbook_thinning_def Let_def min_def)
qed

lemma observe_slow_normal:
  assumes "symbol_microstructure bl mk = (m, bl')" and "thins_slowly (mk # mks)"
  shows "list_all (\<lambda>m. thr_state (mi_thinning m) = ''NORMAL'') (observe bl' mks)"
  using assms
proof (induction mks arbitrary: bl mk m bl')
  case Nil
  then show ?case by simp
next
  case (Cons mk' mks)
  obtain m' bl'' where step: "symbol_microstructure bl' mk' = (m', bl'')" by fastforce
  have "thr_state (mi_thinning m') = ''NORMAL''"
    using thinning_normal [OF step Cons.prems(1)] Cons.prems(2) by simp
  moreover have "list_all (\<lambda>m. thr_state (mi_thinning m) = ''NORMAL'') (observe bl'' mks)"
    using Cons.IH [OF step] Cons.prems(2) by simp
  ultimately show ?case by (simp add: step)
qed

lemma direct_collapse_critical:
  assumes "1 / 10000 \<le> b0" and "py_round 6 (bid_depth_of mk) \<le> b0 * (4 / 10)"
  shows "thr_state (orderbook_thinning (build_microstructure_snapshot mk) (Some b0) a0) = ''CRITICAL''"
proof -
  have "b0 \<noteq> 0" using assms(1) by auto
  then have "depth_change (Some b0) (py_round 6 (bid_depth_of mk)) \<le> - (6 / 10)"
    using assms by (auto simp: depth_change_def Let_def num_or_def max_def field_simps)
  then show ?thesis by (simp add: orderbook_thinning_def Let_def min_le_iff_disj)
qed

section \<open>Properties\<close>

text \<open>
  A trade is suitable exactly when the microstructure gate passes, and the gate passes only
  on data of the last 30 seconds with a bid, an ask and depth on both sides, and a risk that is
  not \<open>BLOCKED\<close>. Then at least 35 percent of the size and a leverage of 2 are allowed;
  otherwise the size is 0 and the leverage 1.
\<close>

theorem suitability_needs_clean_gate:
  "let m = fst (symbol_microstructure bl mk); su = mi_suitability m
   in su_suitable su = gr_pass (mi_gate m) \<and>
      (if gr_pass (mi_gate m)
       then \<not> input_stale mk \<and> book_valid mk \<and> mag_risk_level (mi_aggregate m) \<noteq> ''BLOCKED'' \<and>
         35 / 100 \<le> su_size_ratio su \<and> 2 \<le> su_leverage_cap su
       else su_size_ratio su = 0 \<and> su_leverage_cap su = 1)"
proof -
  obtain m bl' where run: "symbol_microstructure bl mk = (m, bl')" by fastforce
  have levels: "mag_risk_level (mi_aggregate m) \<in> {''BLOCKED'', ''CRITICAL'', ''WARNING'', ''SAFE''}"
    unfolding symbol_microstructure_parts(5) [OF run] by (rule aggregate_levels)
  show ?thesis
    using suitable_iff_gate [OF run] gate_passes_clean [OF run] suitability_of_level(2,3) [OF levels, of "mi_gate m"]
    by (simp add: run symbol_microstructure_parts(4) [OF run, symmetric])
qed

text \<open>
  A depth that vanishes in steps is not seen. The baseline of an observation is the one
  before it, so as long as every observation keeps more than 65 percent of the previous depths,
  each is \<open>NORMAL\<close>, however little is left in the end, even when the last observation compared
  with the first is a \<open>CRITICAL\<close> collapse.
\<close>

theorem gradual_thinning_undetected:
  assumes "thins_slowly (mk # mks @ [lst])"
    and "py_round 6 (bid_depth_of lst) \<le> py_round 6 (bid_depth_of mk) * (4 / 10)"
  shows "list_all (\<lambda>m. thr_state (mi_thinning m) = ''NORMAL'')
       (observe (snd (symbol_microstructure bl mk)) (mks @ [lst]))
     \<and> thr_state (orderbook_thinning (build_microstructure_snapshot lst)
         (Some (py_round 6 (bid_depth_of mk))) (Some (py_round 6 (ask_depth_of mk)))) = ''CRITICAL''"
proof -
  obtain m bl' where run: "symbol_microstructure bl mk = (m, bl')" by fastforce
  have "1 / 10000 \<le> py_round 6 (bid_depth_of mk)"
    using assms(1) by (cases mks) (simp_all add: depth_ok_def)
  then show ?thesis
    using observe_slow_normal [OF run assms(1)] direct_collapse_critical assms(2) by (simp add: run)
qed

definition quoted_input :: "num \<Rightarrow> market_input" where
  "quoted_input depth =
     \<lparr>mk_symbol = ''BTCUSDT'', mk_now = 0,
      mk_ticker = \<lparr>tk_updated_at = Some 0, tk_last_price = Some 100, tk_quote_volume = None\<rparr>,
      mk_spread = \<lparr>sp_updated_at = Some 0, sp_top_bid = Some 99, sp_top_ask = Some 100, sp_spread_bps = None\<rparr>,
      mk_orderbook = \<lparr>ob_updated_at = Some 0, ob_best_bid = None, ob_best_ask = None,
        ob_bid_depth_top_n = Some depth, ob_ask_depth_top_n = Some depth, ob_top_of_book_size = None\<rparr>,
      mk_trade_stats = \<lparr>ts_updated_at = None, ts_bid_depth_top_n = None, ts_ask_depth_top_n = None,
        ts_recent_trade_volume = None, ts_recent_trade_count = None, ts_short_window_volatility = None,
        ts_quote_update_rate = None, ts_estimated_quote_update_rate = None\<rparr>\<rparr>"

lemma quoted_input_depth [simp]:
  "bid_depth_of (quoted_input d) = num_or (Some d) 0" "ask_depth_of (quoted_input d) = num_or (Some d) 0"
  by (simp_all add: quoted_input_def bid_depth_of_def ask_depth_of_def num_or_def)

theorem gradual_thinning_undetected_witness:
  "list_all (\<lambda>m. thr_state (mi_thinning m) = ''NORMAL'')
     (observe (snd (symbol_microstructure no_baseline (quoted_input 100)))
        ([quoted_input 70, quoted_input 50] @ [quoted_input 35]))"
proof -
  have "thins_slowly (quoted_input 100 # [quoted_input 70, quoted_input 50] @ [quoted_input 35])"
    by (simp add: depth_ok_def)
  then show ?thesis
    using gradual_thinning_undetected [of "quoted_input 100" "[quoted_input 70, quoted_input 50]" "quoted_input 35" no_baseline]
    by simp
qed

end
