(* ===== verification/Futures_Leverage.thy ===== *)
theory Futures_Leverage
  imports Futures_Position Futures_Microstructure
begin

text \<open>
  Dynamic leverage: \<open>src/backend/core/futures/leverage/\<close>, the four scalers, the portfolio guard
  and the engine that multiplies their factors.
\<close>

section \<open>Scalers\<close>

definition confidence_multiplier :: "num \<Rightarrow> num" where
  "confidence_multiplier confidence =
     (let v = max 0 (min 1 confidence)
      in py_round 4 (if v < 4 / 10 then 7 / 10 else if v \<le> 7 / 10 then 1 else 12 / 10))"

definition funding_multiplier :: "string \<Rightarrow> funding_bias \<Rightarrow> num" where
  "funding_multiplier side fb =
     (let direction = upper_or (fb_direction fb) ''NEUTRAL''; pressure = upper_or (fb_pressure_state fb) ''LOW'';
          trade_side = upper_or (Some side) ''NONE'';
          strong = (pressure \<in> set [''MEDIUM'', ''HIGH'']);
          cut = (if pressure = ''MEDIUM'' then 85 / 100 else 7 / 10)
      in py_round 4 (if trade_side = ''LONG''
           then (if direction = ''LONG_BIAS'' \<and> strong then cut else if direction = ''SHORT_BIAS'' then 108 / 100 else 1)
           else if trade_side = ''SHORT''
           then (if direction = ''SHORT_BIAS'' \<and> strong then cut else if direction = ''LONG_BIAS'' then 108 / 100 else 1)
           else 1))"

text \<open>Leverage multiplier and size clamp for a distance to liquidation.\<close>

definition liquidation_scaler :: "num \<Rightarrow> num \<times> num" where
  "liquidation_scaler distance =
     (if distance < 8 then (45 / 100, 35 / 100) else if distance < 12 then (65 / 100, 6 / 10)
      else if distance < 18 then (85 / 100, 8 / 10) else (1, 1))"

record micro_evidence =
  mv_gate_pass :: "bool option"
  mv_gate_reason :: "string option"
  mv_gate_risk_score :: "num option"
  mv_suitable :: "bool option"
  mv_severity :: "string option"
  mv_size_ratio :: "num option"
  mv_risk_score :: "num option"
  mv_spread_state :: "string option"
  mv_depth_state :: "string option"

definition microstructure_multiplier :: "micro_evidence \<Rightarrow> num" where
  "microstructure_multiplier mv =
     (let risk = max 0 (min 1 (num_or (mv_risk_score mv) 0));
          state = get_or (map_of [(''BLOCKED'', 2 / 10), (''HIGH'', 55 / 100), (''MEDIUM'', 8 / 10), (''LOW'', 1)]
            (upper_or (mv_severity mv) ''LOW'')) 1;
          spread = get_or (map_of [(''SHOCK'', 5 / 10), (''ELEVATED'', 8 / 10), (''NORMAL'', 1)]
            (upper_or (mv_spread_state mv) ''NORMAL'')) 1;
          depth = get_or (map_of [(''CRITICAL'', 55 / 100), (''WARNING'', 8 / 10), (''NORMAL'', 1)]
            (upper_or (mv_depth_state mv) ''NORMAL'')) 1
      in py_round 4 (max (2 / 10) (state * spread * depth * (1 - risk * (35 / 100)))))"

definition size_clamp :: "micro_evidence \<Rightarrow> num" where
  "size_clamp mv =
     (let r0 = max 0 (min (num_or (mv_size_ratio mv) 1) 1);
          r1 = (if upper_or (mv_spread_state mv) ''NORMAL'' = ''SHOCK'' then min r0 (35 / 100) else r0)
      in py_round 4 (if upper_or (mv_depth_state mv) ''NORMAL'' = ''CRITICAL'' then min r1 (4 / 10) else r1))"

definition portfolio_multiplier :: "num \<Rightarrow> num" where
  "portfolio_multiplier portfolio_leverage =
     (if 5 / 2 \<le> portfolio_leverage then 55 / 100 else if 2 \<le> portfolio_leverage then 75 / 100 else 1)"

text \<open>What the gates of one symbol say, as the decision flow reads it.\<close>

definition evidence_of :: "microstructure \<Rightarrow> micro_evidence" where
  "evidence_of m =
     \<lparr>mv_gate_pass = Some (gr_pass (mi_gate m)), mv_gate_reason = Some (gr_reason (mi_gate m)),
      mv_gate_risk_score = Some (mag_risk_score (mi_aggregate m)),
      mv_suitable = Some (su_suitable (mi_suitability m)), mv_severity = Some (su_severity (mi_suitability m)),
      mv_size_ratio = Some (su_size_ratio (mi_suitability m)), mv_risk_score = Some (mag_risk_score (mi_aggregate m)),
      mv_spread_state = Some (spr_state (mi_spread m)), mv_depth_state = Some (thr_state (mi_thinning m))\<rparr>"

section \<open>The engine\<close>

record leverage_decision =
  ld_base :: num
  ld_confidence :: num
  ld_microstructure :: num
  ld_liquidation :: num
  ld_funding :: num
  ld_portfolio :: num
  ld_final_leverage :: num
  ld_size_ratio :: num

definition evaluate_leverage ::
  "string \<Rightarrow> num option \<Rightarrow> num \<Rightarrow> micro_evidence \<Rightarrow> num \<Rightarrow> funding_bias \<Rightarrow> num \<Rightarrow> leverage_decision" where
  "evaluate_leverage side base_leverage confidence mv distance fb portfolio_leverage =
     (let base = max 1 (min 5 (num_or base_leverage 1));
          conf = confidence_multiplier confidence; micro = microstructure_multiplier mv;
          liq = liquidation_scaler distance; fund = funding_multiplier side fb;
          preliminary = base * conf * micro * fst liq * fund;
          final = min (max 1 (preliminary * portfolio_multiplier portfolio_leverage)) 5;
          ratio0 = min 1 (size_clamp mv * snd liq);
          ratio = (if final \<le> 12 / 10 then min ratio0 (65 / 100) else ratio0)
      in \<lparr>ld_base = py_round 4 base, ld_confidence = conf, ld_microstructure = micro, ld_liquidation = fst liq,
          ld_funding = fund, ld_portfolio = portfolio_multiplier portfolio_leverage,
          ld_final_leverage = py_round 4 final, ld_size_ratio = py_round 4 ratio\<rparr>)"

section \<open>Lemmas\<close>

lemma percent_on_grid: "on_grid 4 (of_int k / 10000)"
  by (simp add: on_grid_def)

lemma round4_percent [simp]: "py_round 4 (7 / 10) = 7 / 10" "py_round 4 (12 / 10) = 12 / 10"
  "py_round 4 (85 / 100) = 85 / 100" "py_round 4 (108 / 100) = 108 / 100"
  "py_round 4 (6 / 5) = 6 / 5" "py_round 4 (17 / 20) = 17 / 20" "py_round 4 (27 / 25) = 27 / 25"
  using py_round_on_grid [OF percent_on_grid [of 7000]] py_round_on_grid [OF percent_on_grid [of 12000]]
    py_round_on_grid [OF percent_on_grid [of 8500]] py_round_on_grid [OF percent_on_grid [of 10800]] by simp_all

lemma confidence_bounds: "0 < confidence_multiplier c" "confidence_multiplier c \<le> 12 / 10"
  by (simp_all add: confidence_multiplier_def Let_def)

lemma funding_bounds: "0 < funding_multiplier side fb" "funding_multiplier side fb \<le> 108 / 100"
  by (simp_all add: funding_multiplier_def Let_def)

lemma liquidation_bounds:
  "0 < fst (liquidation_scaler d)" "fst (liquidation_scaler d) \<le> (if d < 8 then 45 / 100 else 1)"
  "0 \<le> snd (liquidation_scaler d)" "snd (liquidation_scaler d) \<le> (if d < 8 then 35 / 100 else 1)"
  by (simp_all add: liquidation_scaler_def)

lemma portfolio_bounds: "0 < portfolio_multiplier l" "portfolio_multiplier l \<le> 1"
  by (simp_all add: portfolio_multiplier_def)

lemma table_bounds:
  assumes "list_all (\<lambda>(k, v). 0 \<le> v \<and> v \<le> (1 :: num)) table"
  shows "0 \<le> get_or (map_of table k) 1 \<and> get_or (map_of table k) 1 \<le> 1"
proof (cases "map_of table k")
  case (Some v)
  then have "(k, v) \<in> set table" by (rule map_of_SomeD)
  with assms Some show ?thesis by (auto simp: list_all_iff)
qed simp

lemma microstructure_bounds: "0 < microstructure_multiplier mv" "microstructure_multiplier mv \<le> 1"
proof -
  let ?s = "get_or (map_of [(''BLOCKED'', 2 / 10), (''HIGH'', 55 / 100), (''MEDIUM'', 8 / 10), (''LOW'', 1)]
    (upper_or (mv_severity mv) ''LOW'')) 1 :: num"
  let ?p = "get_or (map_of [(''SHOCK'', 5 / 10), (''ELEVATED'', 8 / 10), (''NORMAL'', 1)]
    (upper_or (mv_spread_state mv) ''NORMAL'')) 1 :: num"
  let ?d = "get_or (map_of [(''CRITICAL'', 55 / 100), (''WARNING'', 8 / 10), (''NORMAL'', 1)]
    (upper_or (mv_depth_state mv) ''NORMAL'')) 1 :: num"
  let ?r = "max 0 (min 1 (num_or (mv_risk_score mv) 0))"
  have tables: "0 \<le> ?s \<and> ?s \<le> 1" "0 \<le> ?p \<and> ?p \<le> 1" "0 \<le> ?d \<and> ?d \<le> 1"
    by (rule table_bounds; simp)+
  have eq0: "microstructure_multiplier mv = py_round 4 (max (2 / 10) (?s * ?p * ?d * (1 - ?r * (35 / 100))))"
    unfolding microstructure_multiplier_def Let_def by (rule refl)
  obtain s p d r where eq: "microstructure_multiplier mv = py_round 4 (max (2 / 10) (s * p * d * (1 - r * (35 / 100))))"
    and b: "0 \<le> s" "s \<le> 1" "0 \<le> p" "p \<le> 1" "0 \<le> d" "d \<le> 1" "0 \<le> r" "r \<le> (1 :: num)"
    by (rule that [OF eq0 tables(1) [THEN conjunct1] tables(1) [THEN conjunct2] tables(2) [THEN conjunct1]
          tables(2) [THEN conjunct2] tables(3) [THEN conjunct1] tables(3) [THEN conjunct2]]) simp_all
  have "s * p * d * (1 - r * (35 / 100)) \<le> 1"
    using b by (intro mult_le_one mult_nonneg_nonneg) auto
  then have "py_round 4 (max (2 / 10) (s * p * d * (1 - r * (35 / 100)))) \<le> 1"
    by (intro py_round_le) simp_all
  moreover have "2 / 10 \<le> py_round 4 (max (2 / 10) (s * p * d * (1 - r * (35 / 100))))"
    using percent_on_grid [of 2000] by (intro py_round_ge) simp_all
  ultimately show "0 < microstructure_multiplier mv" "microstructure_multiplier mv \<le> 1"
    unfolding eq by linarith+
qed

lemma size_clamp_bounds: "0 \<le> size_clamp mv" "size_clamp mv \<le> 1"
  unfolding size_clamp_def Let_def by (auto intro!: py_round_ge py_round_le simp: min_le_iff_disj)

lemma five_factors:
  fixes a b c d e f :: num
  assumes "0 < a" "a \<le> A" "0 < b" "b \<le> B" "0 < c" "c \<le> C" "0 < d" "d \<le> D" "0 < e" "e \<le> E" "0 < f" "f \<le> F"
  shows "a * b * c * d * e * f \<le> A * B * C * D * E * F"
  using assms by (intro mult_mono mult_nonneg_nonneg) auto

section \<open>Properties\<close>

text \<open>
  Leverage is bounded whatever the inputs: between 1 and 5, with a size ratio between 0 and 1;
  within 8 percent of liquidation the leverage is at most 2.916 and the size ratio at most
  35 percent.
\<close>

theorem leverage_is_bounded:
  "let ld = evaluate_leverage side base_leverage confidence mv distance fb portfolio_leverage
   in 1 \<le> ld_final_leverage ld \<and> ld_final_leverage ld \<le> (if distance < 8 then 2916 / 1000 else 5) \<and>
      0 \<le> ld_size_ratio ld \<and> ld_size_ratio ld \<le> (if distance < 8 then 35 / 100 else 1)"
proof -
  let ?base = "max 1 (min 5 (num_or base_leverage 1))"
  let ?liq = "fst (liquidation_scaler distance)" and ?clamp = "snd (liquidation_scaler distance)"
  obtain p where p: "p = ?base * confidence_multiplier confidence * microstructure_multiplier mv * ?liq
      * funding_multiplier side fb * portfolio_multiplier portfolio_leverage" by blast
  have "p \<le> 5 * (12 / 10) * 1 * (if distance < 8 then 45 / 100 else 1) * (108 / 100) * 1"
    unfolding p
    by (rule five_factors) (use confidence_bounds microstructure_bounds liquidation_bounds funding_bounds portfolio_bounds in simp_all)
  then have le: "min (max 1 p) 5 \<le> (if distance < 8 then 2916 / 1000 else 5)" by (simp split: if_splits)
  have grid: "on_grid 4 (if distance < 8 then 2916 / 1000 else (5 :: num))"
    "on_grid 4 (if distance < 8 then 35 / 100 else (1 :: num))"
    using percent_on_grid [of 29160] percent_on_grid [of 3500] by simp_all
  have s: "0 \<le> size_clamp mv * ?clamp" "size_clamp mv * ?clamp \<le> 1 * (if distance < 8 then 35 / 100 else 1)"
    using size_clamp_bounds [of mv] liquidation_bounds(3,4) [of distance]
    by (simp, intro mult_mono) (simp_all split: if_splits)
  obtain q where q: "q = (if min (max 1 p) 5 \<le> 12 / 10 then min (min 1 (size_clamp mv * ?clamp)) (65 / 100)
      else min 1 (size_clamp mv * ?clamp))" by blast
  have qb: "0 \<le> q" "q \<le> (if distance < 8 then 35 / 100 else 1)"
    unfolding q using s by (auto simp: min_le_iff_disj)
  have "ld_final_leverage (evaluate_leverage side base_leverage confidence mv distance fb portfolio_leverage) = py_round 4 (min (max 1 p) 5)"
    "ld_size_ratio (evaluate_leverage side base_leverage confidence mv distance fb portfolio_leverage) = py_round 4 q"
    by (simp_all only: evaluate_leverage_def Let_def leverage_decision.select_convs p q)
  then show ?thesis
    using py_round_le [OF grid(1) le] py_round_le [OF grid(2) qb(2)] py_round_ge [OF on_grid_const(1) qb(1)]
      py_round_ge [OF on_grid_const(2), of "min (max 1 p) 5" 4] by simp
qed

end
