(* ===== verification/Futures_Decision.thy ===== *)
theory Futures_Decision
  imports Futures_Leverage Futures_Protection
begin

text \<open>
  The decision on a futures signal: the risk check of \<open>src/backend/core/risk/futures_risk_engine.py\<close>,
  the attribution of \<open>src/backend/core/futures/decision/\<close>, the flow that runs every layer in
  \<open>src/backend/core/strategy/futures_paper_decision_flow.py\<close>, and the strategy engine with its
  trend strategy in \<open>src/backend/core/strategy/futures/\<close>. The two enumerations of the code are
  datatypes; the layers are ordered as they are declared, which is the order in which the
  attribution tries them. Trace identifiers and timestamps are not modelled.
\<close>

section \<open>Reasons and layers\<close>

datatype reason_code =
    SIGNAL_WEAK
  | MICROSTRUCTURE_SPREAD_SHOCK
  | MICROSTRUCTURE_DEPTH_COLLAPSE
  | MICROSTRUCTURE_SLIPPAGE_ANOMALY
  | RISK_LEVERAGE_LIMIT
  | RISK_MARGIN_USAGE
  | LIQUIDATION_DISTANCE_TOO_LOW
  | CASCADE_DETECTED
  | ADL_PRESSURE_LONG
  | ADL_PRESSURE_SHORT
  | POLICY_BLOCK
  | GATE_REJECT
  | ALLOW

datatype decision_layer = STRATEGY | MICROSTRUCTURE | RISK_ENGINE | LIQUIDATION | ADL | POLICY | GATE

fun layer_rank :: "decision_layer \<Rightarrow> nat" where
  "layer_rank STRATEGY = 0"
| "layer_rank MICROSTRUCTURE = 1"
| "layer_rank RISK_ENGINE = 2"
| "layer_rank LIQUIDATION = 3"
| "layer_rank ADL = 4"
| "layer_rank POLICY = 5"
| "layer_rank GATE = 6"

lemma layer_rank_eq_iff: "layer_rank x = layer_rank y \<longleftrightarrow> x = y"
  by (cases x; cases y) simp_all

instantiation decision_layer :: linorder
begin

definition less_eq_decision_layer :: "decision_layer \<Rightarrow> decision_layer \<Rightarrow> bool" where
  "x \<le> y \<longleftrightarrow> layer_rank x \<le> layer_rank y"

definition less_decision_layer :: "decision_layer \<Rightarrow> decision_layer \<Rightarrow> bool" where
  "x < y \<longleftrightarrow> layer_rank x < layer_rank y"

instance
  by standard (auto simp: less_eq_decision_layer_def less_decision_layer_def layer_rank_eq_iff)

end

definition microstructure_code :: "string \<Rightarrow> reason_code" where
  "microstructure_code raw =
     (let reason = upper raw in
      if contains ''SPREAD_SHOCK'' reason then MICROSTRUCTURE_SPREAD_SHOCK
      else if contains ''THINNING'' reason \<or> contains ''DEPTH'' reason then MICROSTRUCTURE_DEPTH_COLLAPSE
      else if contains ''SLIPPAGE'' reason then MICROSTRUCTURE_SLIPPAGE_ANOMALY
      else GATE_REJECT)"

definition risk_code :: "string \<Rightarrow> reason_code" where
  "risk_code raw =
     (let reason = upper raw in
      if contains ''LEVERAGE'' reason then RISK_LEVERAGE_LIMIT
      else if contains ''MARGIN'' reason then RISK_MARGIN_USAGE
      else if contains ''LIQUIDATION'' reason then LIQUIDATION_DISTANCE_TOO_LOW
      else GATE_REJECT)"

definition liquidation_code :: "string \<Rightarrow> reason_code" where
  "liquidation_code raw =
     (let reason = upper raw in
      if contains ''DISTANCE'' reason then LIQUIDATION_DISTANCE_TOO_LOW
      else if contains ''CASCADE'' reason then CASCADE_DETECTED
      else if contains ''MARGIN'' reason then RISK_MARGIN_USAGE
      else if contains ''LEVERAGE'' reason then RISK_LEVERAGE_LIMIT
      else GATE_REJECT)"

definition adl_code :: "string \<Rightarrow> string \<Rightarrow> reason_code" where
  "adl_code raw pressure_side =
     (let reason = upper raw; side = upper_or (Some pressure_side) ''NONE'' in
      if contains ''LONG'' reason then ADL_PRESSURE_LONG
      else if contains ''SHORT'' reason then ADL_PRESSURE_SHORT
      else if side = ''LONG'' then ADL_PRESSURE_LONG
      else if side = ''SHORT'' then ADL_PRESSURE_SHORT
      else GATE_REJECT)"

record layer_results =
  lr_signal_valid :: bool
  lr_micro_pass :: bool
  lr_micro_reason :: string
  lr_risk_pass :: bool
  lr_risk_reason :: string
  lr_liquidation_pass :: bool
  lr_liquidation_reason :: string
  lr_adl_pass :: bool
  lr_adl_reason :: string
  lr_adl_side :: string
  lr_policy_pass :: bool
  lr_gate_pass :: bool

record attribution =
  at_decision :: string
  at_reason :: reason_code
  at_layer :: decision_layer

definition attribute_decision :: "layer_results \<Rightarrow> attribution" where
  "attribute_decision lr =
     (let reject = (\<lambda>reason layer. \<lparr>at_decision = ''REJECT'', at_reason = reason, at_layer = layer\<rparr>) in
      if \<not> lr_signal_valid lr then reject SIGNAL_WEAK STRATEGY
      else if \<not> lr_micro_pass lr then reject (microstructure_code (lr_micro_reason lr)) MICROSTRUCTURE
      else if \<not> lr_risk_pass lr then reject (risk_code (lr_risk_reason lr)) RISK_ENGINE
      else if \<not> lr_liquidation_pass lr then reject (liquidation_code (lr_liquidation_reason lr)) LIQUIDATION
      else if \<not> lr_adl_pass lr then reject (adl_code (lr_adl_reason lr) (lr_adl_side lr)) ADL
      else if \<not> lr_policy_pass lr then reject POLICY_BLOCK POLICY
      else if \<not> lr_gate_pass lr then reject GATE_REJECT GATE
      else \<lparr>at_decision = ''ALLOW'', at_reason = ALLOW, at_layer = GATE\<rparr>)"

section \<open>The risk check\<close>

record portfolio_state =
  po_leverage :: "num option"
  po_margin_usage :: "num option"
  po_distance :: "num option"

definition DEFAULT_THRESHOLDS :: "(string \<times> num) list" where
  "DEFAULT_THRESHOLDS = [(''max_leverage_per_trade'', 5), (''portfolio_leverage_limit'', 5 / 2),
     (''margin_usage_limit'', 60), (''liquidation_distance_min'', 10)]"

definition threshold_of :: "(string \<times> num) list \<Rightarrow> string \<Rightarrow> num" where
  "threshold_of cfg k = get_or (map_of cfg k) (get_or (map_of DEFAULT_THRESHOLDS k) 0)"

definition futures_risk_reasons :: "(string \<times> num) list \<Rightarrow> num \<Rightarrow> portfolio_state \<Rightarrow> string list" where
  "futures_risk_reasons cfg leverage po = collect
     [(threshold_of cfg ''max_leverage_per_trade'' < leverage, ''max_leverage_per_trade_exceeded''),
      (threshold_of cfg ''portfolio_leverage_limit'' < get_or (po_leverage po) 0, ''portfolio_leverage_limit_exceeded''),
      (threshold_of cfg ''margin_usage_limit'' < get_or (po_margin_usage po) 0, ''margin_usage_limit_exceeded''),
      (get_or (po_distance po) 0 < threshold_of cfg ''liquidation_distance_min'', ''liquidation_distance_too_low'')]"

record futures_risk =
  fr_result :: string
  fr_reasons :: "string list"
  fr_score :: int

definition evaluate_futures_risk :: "(string \<times> num) list \<Rightarrow> futures_position \<Rightarrow> portfolio_state \<Rightarrow> futures_risk" where
  "evaluate_futures_risk cfg p po =
     (let reasons = futures_risk_reasons cfg (fp_leverage p) po
      in \<lparr>fr_result = (if reasons = [] then ''allow'' else ''reject''), fr_reasons = reasons,
          fr_score = min 100 (int (length reasons) * 25 + py_int (fp_leverage p * 5))\<rparr>)"

section \<open>The flow\<close>

record futures_signal =
  fs_symbol :: "string option"
  fs_side :: "string option"
  fs_confidence :: "num option"
  fs_regime :: "string option"
  fs_strategy_type :: "string option"
  fs_signal_strength :: "num option"

record policy_state =
  pt_cascade_status :: "string option"
  pt_policy_action :: "string option"
  pt_policy_state :: "string option"
  pt_adl_level :: "string option"
  pt_adl_side :: "string option"
  pt_adl_risk :: "num option"

record flow_input =
  fi_signal :: futures_signal
  fi_position :: futures_position
  fi_portfolio :: portfolio_state
  fi_policy :: policy_state
  fi_funding :: funding_bias
  fi_micro :: micro_evidence
  fi_strategy :: string

record futures_trace =
  ft_symbol :: string
  ft_strategy :: string
  ft_side :: string
  ft_confidence :: num
  ft_regime :: string
  ft_strategy_type :: string
  ft_signal_strength :: num
  ft_results :: "string list"
  ft_leverage :: leverage_decision
  ft_decision :: string
  ft_reason :: reason_code
  ft_layer :: decision_layer

record flow_result =
  fw_decision :: string
  fw_reason :: reason_code
  fw_layer :: decision_layer
  fw_hard_gate :: bool
  fw_risk :: futures_risk
  fw_liquidation_gate :: gate_result
  fw_adl_gate :: gate_result
  fw_leverage :: leverage_decision
  fw_reasons :: "string list"
  fw_trace :: "string list"
  fw_trace_model :: futures_trace

definition signal_side :: "flow_input \<Rightarrow> string" where
  "signal_side fi = upper_or (fs_side (fi_signal fi)) ''NONE''"

definition flow_liquidation_gate :: "flow_input \<Rightarrow> gate_result" where
  "flow_liquidation_gate fi = liquidation_gate
     \<lparr>lc_distance = get_or (po_distance (fi_portfolio fi)) 100, lc_margin_usage = get_or (po_margin_usage (fi_portfolio fi)) 0,
      lc_cascade_confirmed = (pt_cascade_status (fi_policy fi) = Some ''CASCADE_CONFIRMED''),
      lc_emergency_policy = (pt_policy_action (fi_policy fi) = Some ''FREEZE''),
      lc_leverage = fp_leverage (fi_position fi), lc_leverage_cap = 5\<rparr>"

definition flow_adl_gate :: "flow_input \<Rightarrow> gate_result" where
  "flow_adl_gate fi = adl_gate
     \<lparr>ac_level = str_or (pt_adl_level (fi_policy fi)) ''LOW'', ac_pressure_side = str_or (pt_adl_side (fi_policy fi)) ''NONE'',
      ac_portfolio_risk = num_or (pt_adl_risk (fi_policy fi)) 0, ac_trade_side = str_or (fs_side (fi_signal fi)) ''NONE''\<rparr>"

definition flow_leverage :: "flow_input \<Rightarrow> leverage_decision" where
  "flow_leverage fi = evaluate_leverage (signal_side fi) (Some (fp_leverage (fi_position fi)))
     (num_or (fs_confidence (fi_signal fi)) 0) (fi_micro fi) (get_or (po_distance (fi_portfolio fi)) 100)
     (fi_funding fi) (get_or (po_leverage (fi_portfolio fi)) 0)"

definition policy_block :: "policy_state \<Rightarrow> bool" where
  "policy_block pt \<longleftrightarrow> upper_or (pt_policy_state pt) ''SAFE'' \<in> set [''CRITICAL'', ''EMERGENCY''] \<or>
     upper_or (pt_policy_action pt) ''ALLOW'' \<in> set [''FREEZE'', ''FORCE_REDUCE'']"

definition funding_conflict :: "flow_input \<Rightarrow> bool" where
  "funding_conflict fi \<longleftrightarrow> fb_pressure_state (fi_funding fi) = Some ''HIGH'' \<and>
     fb_direction (fi_funding fi) = Some ''SHORT_BIAS'' \<and> signal_side fi = ''LONG''"

definition layers_of :: "flow_input \<Rightarrow> layer_results" where
  "layers_of fi =
     (let mv = fi_micro fi; risk = evaluate_futures_risk [] (fi_position fi) (fi_portfolio fi);
          valid = (signal_side fi \<in> set [''LONG'', ''SHORT'']);
          micro = (get_or (mv_gate_pass mv) True \<and> get_or (mv_suitable mv) True);
          risk_ok = (fr_result risk \<noteq> ''reject''); liq = flow_liquidation_gate fi; adl = flow_adl_gate fi;
          policy = (\<not> policy_block (fi_policy fi) \<and> \<not> funding_conflict fi)
      in \<lparr>lr_signal_valid = valid, lr_micro_pass = micro, lr_micro_reason = get_or (mv_gate_reason mv) [],
          lr_risk_pass = risk_ok, lr_risk_reason = (case fr_reasons risk of [] \<Rightarrow> [] | r # _ \<Rightarrow> r),
          lr_liquidation_pass = gr_pass liq, lr_liquidation_reason = gr_reason liq,
          lr_adl_pass = gr_pass adl, lr_adl_reason = gr_reason adl,
          lr_adl_side = str_or (pt_adl_side (fi_policy fi)) ''NONE'', lr_policy_pass = policy,
          lr_gate_pass = (valid \<and> micro \<and> risk_ok \<and> gr_pass liq \<and> gr_pass adl \<and> policy)\<rparr>)"

definition flow_reasons :: "flow_input \<Rightarrow> string list" where
  "flow_reasons fi =
     (let lr = layers_of fi in
      (if lr_signal_valid lr then [] else [''SIGNAL_WEAK''])
      @ (if lr_micro_pass lr then [] else [str_or (mv_gate_reason (fi_micro fi)) ''GATE_REJECT''])
      @ (if lr_risk_pass lr then [] else fr_reasons (evaluate_futures_risk [] (fi_position fi) (fi_portfolio fi)))
      @ (if lr_liquidation_pass lr then [] else gr_reasons (flow_liquidation_gate fi))
      @ (if lr_adl_pass lr then [] else gr_reasons (flow_adl_gate fi))
      @ (if funding_conflict fi then [''POLICY_BLOCK''] else [])
      @ (if policy_block (fi_policy fi) then [''POLICY_BLOCK''] else []))"

definition verdict :: "bool \<Rightarrow> string" where
  "verdict ok = (if ok then ''PASS'' else ''REJECT'')"

definition run_decision_flow :: "flow_input \<Rightarrow> flow_result" where
  "run_decision_flow fi =
     (let sg = fi_signal fi; lr = layers_of fi; att = attribute_decision lr; ld = flow_leverage fi;
          confidence = num_or (fs_confidence sg) 0
      in \<lparr>fw_decision = at_decision att, fw_reason = at_reason att, fw_layer = at_layer att,
          fw_hard_gate = lr_gate_pass lr, fw_risk = evaluate_futures_risk [] (fi_position fi) (fi_portfolio fi),
          fw_liquidation_gate = flow_liquidation_gate fi, fw_adl_gate = flow_adl_gate fi, fw_leverage = ld,
          fw_reasons = sorted_set (flow_reasons fi),
          fw_trace = [''signal'', ''microstructure_guard'', ''risk_engine'', ''liquidation_protection'', ''adl_shield'',
            ''dynamic_leverage_engine'', ''policy_engine'', ''hard_gate'', ''attribution'', ''decision_trace'',
            if at_decision att = ''ALLOW'' then ''paper_execution'' else ''decision_reject''],
          fw_trace_model = \<lparr>ft_symbol = str_or (fs_symbol sg) ''UNKNOWN'', ft_strategy = fi_strategy fi,
            ft_side = signal_side fi, ft_confidence = py_round 4 confidence, ft_regime = str_or (fs_regime sg) ''UNKNOWN'',
            ft_strategy_type = str_or (fs_strategy_type sg) (fi_strategy fi),
            ft_signal_strength = py_round 4 (num_or (fs_signal_strength sg) confidence),
            ft_results = map verdict [lr_micro_pass lr, lr_risk_pass lr, lr_liquidation_pass lr, lr_adl_pass lr],
            ft_leverage = ld, ft_decision = at_decision att, ft_reason = at_reason att, ft_layer = at_layer att\<rparr>\<rparr>)"

section \<open>Strategies\<close>

record market_state =
  mt_symbol :: "string option"
  mt_trend_strength :: "num option"
  mt_trend_direction :: "string option"
  mt_volatility_regime :: "string option"
  mt_spread_state :: "string option"
  mt_funding_alignment :: "bool option"
  mt_latest_price :: "num option"
  mt_funding :: funding_bias

record strategy_signal =
  ss_symbol :: string
  ss_side :: string
  ss_confidence :: num
  ss_regime :: string
  ss_reason :: string

record signal_dict =
  sd_signal :: "string option"
  sd_confidence :: "num option"
  sd_strategy_type :: "string option"

datatype raw_signal = Signal_Object strategy_signal | Signal_Dict signal_dict

definition trend_follow :: "num \<Rightarrow> 'm market_state_scheme \<Rightarrow> strategy_signal" where
  "trend_follow trend_threshold mt =
     (let symbol = upper_or (mt_symbol mt) ''UNKNOWN''; strength = num_or (mt_trend_strength mt) 0;
          direction = upper_or (mt_trend_direction mt) ''NONE''; regime = upper_or (mt_volatility_regime mt) ''RANGING'';
          none = (\<lambda>reason. \<lparr>ss_symbol = symbol, ss_side = ''NONE'', ss_confidence = 0, ss_regime = regime, ss_reason = reason\<rparr>)
      in if upper_or (mt_spread_state mt) ''NORMAL'' = ''SHOCK'' then none ''SPREAD_SHOCK''
         else if regime \<noteq> ''TRENDING'' then none ''REGIME_NOT_TRENDING''
         else if strength \<le> trend_threshold then none ''TREND_STRENGTH_BELOW_THRESHOLD''
         else if direction \<notin> set [''LONG'', ''SHORT''] then none ''TREND_DIRECTION_UNCLEAR''
         else if \<not> get_or (mt_funding_alignment mt) False then none ''FUNDING_BIAS_MISALIGNED''
         else \<lparr>ss_symbol = symbol, ss_side = direction, ss_confidence = py_round 4 (clamp 0 1 (45 / 100 + strength * 40)),
               ss_regime = regime, ss_reason = ''TREND_FUNDING_ALIGNED''\<rparr>)"

record risk_snapshot =
  rk_policy_leverage_cap :: "num option"
  rk_margin_usage :: "num option"
  rk_avg_distance :: "num option"
  rk_portfolio_leverage :: "num option"
  rk_policy :: policy_state
  rk_micro :: "string \<Rightarrow> micro_evidence option"

text \<open>The signal payload the engine makes from either kind of raw signal.\<close>

definition signal_payload :: "string \<Rightarrow> 'm market_state_scheme \<Rightarrow> raw_signal \<Rightarrow> futures_signal" where
  "signal_payload strategy mt raw =
     (case raw of
        Signal_Dict d \<Rightarrow>
          \<lparr>fs_symbol = Some (str_or (mt_symbol mt) ''UNKNOWN''), fs_side = Some (upper_or (sd_signal d) ''NONE''),
           fs_confidence = Some (num_or (sd_confidence d) 0), fs_regime = Some (str_or (mt_volatility_regime mt) ''UNKNOWN''),
           fs_strategy_type = Some (str_or (sd_strategy_type d) strategy),
           fs_signal_strength = Some (num_or (sd_confidence d) 0)\<rparr>
      | Signal_Object ss \<Rightarrow>
          \<lparr>fs_symbol = Some (ss_symbol ss), fs_side = Some (ss_side ss), fs_confidence = Some (ss_confidence ss),
           fs_regime = Some (ss_regime ss), fs_strategy_type = Some strategy, fs_signal_strength = Some (ss_confidence ss)\<rparr>)"

text \<open>Without microstructure of the symbol only the spread state of the market is looked at.\<close>

definition fallback_evidence :: "'m market_state_scheme \<Rightarrow> micro_evidence" where
  "fallback_evidence mt =
     (let shock = (upper_or (mt_spread_state mt) ''NORMAL'' = ''SHOCK'')
      in \<lparr>mv_gate_pass = Some (\<not> shock), mv_gate_reason = Some (if shock then ''MICROSTRUCTURE_SPREAD_SHOCK'' else ''PASS''),
          mv_gate_risk_score = Some 0, mv_suitable = Some True, mv_severity = Some ''LOW'', mv_size_ratio = Some 1,
          mv_risk_score = None, mv_spread_state = None, mv_depth_state = None\<rparr>)"

record symbol_decision =
  sy_symbol :: string
  sy_side :: string
  sy_confidence :: num
  sy_regime :: string
  sy_signal :: futures_signal
  sy_decision :: string
  sy_reason :: reason_code
  sy_layer :: decision_layer
  sy_trace :: "string list"
  sy_flow :: "flow_result option"

definition evaluate_symbol :: "string \<Rightarrow> raw_signal \<Rightarrow> 'm market_state_scheme \<Rightarrow> risk_snapshot \<Rightarrow> string + symbol_decision" where
  "evaluate_symbol strategy raw mt rk =
     (let sg = signal_payload strategy mt raw; side = upper_or (fs_side sg) ''NONE'';
          symbol = str_or (fs_symbol sg) (str_or (mt_symbol mt) ''UNKNOWN'');
          price = num_or (mt_latest_price mt) 0; confidence = num_or (fs_confidence sg) 0;
          regime = str_or (fs_regime sg) (str_or (mt_volatility_regime mt) ''UNKNOWN'')
      in if side = ''NONE''
         then Inr \<lparr>sy_symbol = symbol, sy_side = side, sy_confidence = confidence, sy_regime = regime, sy_signal = sg,
                sy_decision = ''REJECT'', sy_reason = SIGNAL_WEAK, sy_layer = STRATEGY,
                sy_trace = [''signal'', ''attribution'', ''decision_trace'', ''decision_reject''], sy_flow = None\<rparr>
         else case post_init \<lparr>fp_symbol = symbol, fp_side = side, fp_entry_price = max price (1 / 100),
                fp_mark_price = max price (1 / 100), fp_position_size = 1, fp_notional_value = max price (1 / 100),
                fp_leverage = num_or (rk_policy_leverage_cap rk) 3, fp_initial_margin = max (price / 3) (1 / 100),
                fp_maintenance_margin = max (price * (5 / 1000)) (1 / 100), fp_unrealized_pnl = 0,
                fp_liquidation_price = max (price * (9 / 10)) (1 / 100), fp_margin_ratio = num_or (rk_margin_usage rk) 0,
                fp_distance_to_liquidation = num_or (rk_avg_distance rk) 100\<rparr> of
           Inl e \<Rightarrow> Inl e
         | Inr p \<Rightarrow>
             let fw = run_decision_flow \<lparr>fi_signal = sg, fi_position = p,
                   fi_portfolio = \<lparr>po_leverage = Some (num_or (rk_portfolio_leverage rk) 0),
                     po_margin_usage = Some (num_or (rk_margin_usage rk) 0), po_distance = Some (num_or (rk_avg_distance rk) 100)\<rparr>,
                   fi_policy = rk_policy rk, fi_funding = mt_funding mt,
                   fi_micro = get_or (rk_micro rk symbol) (fallback_evidence mt), fi_strategy = strategy\<rparr>
             in Inr \<lparr>sy_symbol = symbol, sy_side = side, sy_confidence = confidence, sy_regime = regime, sy_signal = sg,
                     sy_decision = fw_decision fw, sy_reason = fw_reason fw,
                     sy_layer = fw_layer fw, sy_trace = fw_trace fw, sy_flow = Some fw\<rparr>)"

text \<open>\<open>run_cycle\<close>: one decision per market, and the first exception ends the cycle.\<close>

fun run_symbols ::
  "('m market_state_scheme \<Rightarrow> raw_signal) \<Rightarrow> string \<Rightarrow> risk_snapshot \<Rightarrow> 'm market_state_scheme list \<Rightarrow> string + symbol_decision list" where
  "run_symbols strategy name rk [] = Inr []"
| "run_symbols strategy name rk (mt # mts) =
     (case evaluate_symbol name (strategy mt) mt rk of Inl e \<Rightarrow> Inl e
      | Inr d \<Rightarrow> (case run_symbols strategy name rk mts of Inl e \<Rightarrow> Inl e | Inr ds \<Rightarrow> Inr (d # ds)))"

definition run_cycle ::
  "(string \<Rightarrow> ('m market_state_scheme \<Rightarrow> raw_signal) option) \<Rightarrow> string \<Rightarrow> 'm market_state_scheme list \<Rightarrow> risk_snapshot
     \<Rightarrow> string + symbol_decision list" where
  "run_cycle registry name mts rk =
     (case registry name of None \<Rightarrow> Inl ''strategy_not_registered'' | Some strategy \<Rightarrow> run_symbols strategy name rk mts)"

section \<open>Lemmas\<close>

text \<open>The layers that do not pass.\<close>

definition failed_layers :: "layer_results \<Rightarrow> decision_layer list" where
  "failed_layers lr = collect
     [(\<not> lr_signal_valid lr, STRATEGY), (\<not> lr_micro_pass lr, MICROSTRUCTURE), (\<not> lr_risk_pass lr, RISK_ENGINE),
      (\<not> lr_liquidation_pass lr, LIQUIDATION), (\<not> lr_adl_pass lr, ADL), (\<not> lr_policy_pass lr, POLICY)]"

lemma collect_sorted: "sorted (map snd cs) \<Longrightarrow> sorted (collect cs)"
  by (simp add: collect_def sorted_map sorted_wrt_filter)

lemma sorted_failed_layers: "sorted (failed_layers lr)"
  unfolding failed_layers_def by (rule collect_sorted) (simp add: less_eq_decision_layer_def)

lemma Min_sorted: "sorted (x # xs) \<Longrightarrow> Min (set (x # xs)) = x"
  by (rule Min_eqI) auto

lemma codes_not_allow:
  "microstructure_code r \<noteq> ALLOW" "risk_code r \<noteq> ALLOW" "liquidation_code r \<noteq> ALLOW" "adl_code r side \<noteq> ALLOW"
  by (simp_all add: microstructure_code_def risk_code_def liquidation_code_def adl_code_def Let_def)

lemma attribution_first:
  assumes "lr_gate_pass lr \<longleftrightarrow> failed_layers lr = []"
  shows "case failed_layers lr of
      [] \<Rightarrow> at_decision (attribute_decision lr) = ''ALLOW'' \<and> at_reason (attribute_decision lr) = ALLOW
    | l # ls \<Rightarrow> at_decision (attribute_decision lr) = ''REJECT'' \<and> at_layer (attribute_decision lr) = l \<and>
        at_reason (attribute_decision lr) \<noteq> ALLOW"
  using assms by (simp add: attribute_decision_def failed_layers_def Let_def codes_not_allow)

lemma flow_gate_iff: "lr_gate_pass (layers_of fi) \<longleftrightarrow> failed_layers (layers_of fi) = []"
  by (auto simp: layers_of_def failed_layers_def Let_def)

lemma fw_fields [simp]:
  "fw_decision (run_decision_flow fi) = at_decision (attribute_decision (layers_of fi))"
  "fw_reason (run_decision_flow fi) = at_reason (attribute_decision (layers_of fi))"
  "fw_layer (run_decision_flow fi) = at_layer (attribute_decision (layers_of fi))"
  "fw_hard_gate (run_decision_flow fi) = lr_gate_pass (layers_of fi)"
  by (simp_all add: run_decision_flow_def Let_def)

lemma attribution_layer_liquidation:
  "at_layer (attribute_decision lr) = LIQUIDATION \<Longrightarrow> lr_risk_pass lr \<and> \<not> lr_liquidation_pass lr"
  by (auto simp: attribute_decision_def Let_def split: if_splits)

lemma risk_pass_limits:
  assumes "lr_risk_pass (layers_of fi)"
  shows "fp_leverage (fi_position fi) \<le> 5" "get_or (po_margin_usage (fi_portfolio fi)) 0 \<le> 60"
    "10 \<le> get_or (po_distance (fi_portfolio fi)) 100"
proof -
  have th: "threshold_of [] ''max_leverage_per_trade'' = 5" "threshold_of [] ''margin_usage_limit'' = 60"
    "threshold_of [] ''liquidation_distance_min'' = 10"
    by code_simp+
  have "futures_risk_reasons [] (fp_leverage (fi_position fi)) (fi_portfolio fi) = []"
    using assms by (simp add: layers_of_def Let_def evaluate_futures_risk_def split: if_splits)
  then show "fp_leverage (fi_position fi) \<le> 5" "get_or (po_margin_usage (fi_portfolio fi)) 0 \<le> 60"
    "10 \<le> get_or (po_distance (fi_portfolio fi)) 100"
    by (cases "po_distance (fi_portfolio fi)"; simp add: futures_risk_reasons_def collect_empty_iff th del: collect_simps)+
qed

lemma liquidation_reject_cause:
  assumes "lr_risk_pass (layers_of fi)" and "\<not> lr_liquidation_pass (layers_of fi)"
  shows "pt_cascade_status (fi_policy fi) = Some ''CASCADE_CONFIRMED'' \<or> pt_policy_action (fi_policy fi) = Some ''FREEZE''"
proof (rule ccontr)
  assume none: "\<not> ?thesis"
  have "gr_pass (flow_liquidation_gate fi)"
    using risk_pass_limits [OF assms(1)] none
    by (simp add: flow_liquidation_gate_def liquidation_gate_def liquidation_reasons_def)
  then show False using assms(2) by (simp add: layers_of_def Let_def)
qed

lemma upper_funding [simp]:
  "upper ''SHORT_BIAS'' = ''SHORT_BIAS''" "upper ''LONG_BIAS'' = ''LONG_BIAS''" "upper ''HIGH'' = ''HIGH''"
  "upper ''LONG'' = ''LONG''"
  by code_simp+

lemma funding_bias_high:
  assumes "15 / 10000 \<le> \<bar>rate\<bar>"
  shows "fb_pressure_state (calculate_funding_bias rate history) = Some ''HIGH''"
    "fb_direction (calculate_funding_bias rate history) = Some (if 0 < rate then ''SHORT_BIAS'' else ''LONG_BIAS'')"
proof -
  have "15 / 10000 \<le> \<bar>rate\<bar> + \<bar>t\<bar>" for t using assms by (simp add: add_increasing2)
  then show "fb_pressure_state (calculate_funding_bias rate history) = Some ''HIGH''"
    by (simp add: calculate_funding_bias_def Let_def)
  have "rate \<noteq> 0" using assms by auto
  then show "fb_direction (calculate_funding_bias rate history) = Some (if 0 < rate then ''SHORT_BIAS'' else ''LONG_BIAS'')"
    by (auto simp: calculate_funding_bias_def Let_def)
qed

text \<open>What an allowed decision says about the market's microstructure.\<close>

lemma evidence_gate [simp]: "mv_gate_pass (evidence_of m) = Some (gr_pass (mi_gate m))"
  by (simp add: evidence_of_def)

lemma layers_micro: "lr_micro_pass (layers_of fi) =
    (get_or (mv_gate_pass (fi_micro fi)) True \<and> get_or (mv_suitable (fi_micro fi)) True)"
  by (simp add: layers_of_def Let_def)

lemma flow_allow_micro:
  assumes "fw_decision (run_decision_flow fi) = ''ALLOW''"
  shows "get_or (mv_gate_pass (fi_micro fi)) True"
proof -
  have "failed_layers (layers_of fi) = []"
    using attribution_first [OF flow_gate_iff, of fi] assms
    by (cases "failed_layers (layers_of fi)") auto
  then have "lr_micro_pass (layers_of fi)"
    by (simp add: failed_layers_def collect_empty_iff del: collect_simps)
  then show ?thesis by (simp add: layers_micro)
qed

lemma evaluate_symbol_allow:
  assumes "evaluate_symbol strategy raw mt rk = Inr d" and "sy_decision d = ''ALLOW''"
  shows "get_or (mv_gate_pass (get_or (rk_micro rk (sy_symbol d)) (fallback_evidence mt))) True"
proof -
  from assms obtain fi where "fw_decision (run_decision_flow fi) = ''ALLOW''"
    and "fi_micro fi = get_or (rk_micro rk (sy_symbol d)) (fallback_evidence mt)"
    unfolding evaluate_symbol_def Let_def by (auto split: if_splits sum.splits)
  with flow_allow_micro show ?thesis by metis
qed

lemma unseen_market_rejected:
  assumes "evaluate_symbol strategy raw mt rk = Inr d"
    and "rk_micro rk (sy_symbol d) = Some (evidence_of (fst (symbol_microstructure bl mk)))"
    and "input_stale mk \<or> \<not> book_valid mk"
  shows "sy_decision d \<noteq> ''ALLOW''"
proof
  assume "sy_decision d = ''ALLOW''"
  obtain m bl' where run: "symbol_microstructure bl mk = (m, bl')" by fastforce
  have "gr_pass (mi_gate m)"
    using evaluate_symbol_allow [OF assms(1) \<open>sy_decision d = ''ALLOW''\<close>] by (simp add: assms(2) run)
  from gate_passes_clean [OF run this] assms(3) show False by blast
qed

section \<open>Properties\<close>

text \<open>
  C39: The flow allows a trade exactly when every layer passes. Otherwise the decision is a
  rejection, it is attributed to the first layer in the declared order that fails, and its reason
  code is never \<open>ALLOW\<close>.
\<close>

theorem decision_names_first_failing_layer:
  "if failed_layers (layers_of fi) = []
   then fw_decision (run_decision_flow fi) = ''ALLOW'' \<and> fw_reason (run_decision_flow fi) = ALLOW \<and> fw_hard_gate (run_decision_flow fi)
   else fw_decision (run_decision_flow fi) = ''REJECT'' \<and> fw_reason (run_decision_flow fi) \<noteq> ALLOW \<and>
     \<not> fw_hard_gate (run_decision_flow fi) \<and> fw_layer (run_decision_flow fi) = Min (set (failed_layers (layers_of fi)))"
  using attribution_first [OF flow_gate_iff, of fi] sorted_failed_layers [of "layers_of fi"]
  by (cases "failed_layers (layers_of fi)") (simp_all add: flow_gate_iff Min_sorted del: list.set)

text \<open>
  The liquidation layer only ever reports a cascade or a freeze. The risk check before it
  tests the same leverage, margin and distance with limits at least as strict, so a trade
  rejected by the liquidation layer was rejected because of a confirmed cascade or an emergency
  policy, never for its distance, margin or leverage.
\<close>

theorem liquidation_layer_means_cascade_or_freeze:
  assumes "fw_layer (run_decision_flow fi) = LIQUIDATION"
  shows "pt_cascade_status (fi_policy fi) = Some ''CASCADE_CONFIRMED'' \<or> pt_policy_action (fi_policy fi) = Some ''FREEZE''"
  using assms attribution_layer_liquidation liquidation_reject_cause by simp

definition sample_flow :: "string \<Rightarrow> string \<Rightarrow> num \<Rightarrow> flow_input" where
  "sample_flow side action rate =
     \<lparr>fi_signal = \<lparr>fs_symbol = Some ''BTCUSDT'', fs_side = Some side, fs_confidence = Some (8 / 10), fs_regime = None,
        fs_strategy_type = None, fs_signal_strength = None\<rparr>,
      fi_position = \<lparr>fp_symbol = ''BTCUSDT'', fp_side = side, fp_entry_price = 100, fp_mark_price = 100, fp_position_size = 1,
        fp_notional_value = 100, fp_leverage = 3, fp_initial_margin = 33, fp_maintenance_margin = 1, fp_unrealized_pnl = 0,
        fp_liquidation_price = 90, fp_margin_ratio = 0, fp_distance_to_liquidation = 30\<rparr>,
      fi_portfolio = \<lparr>po_leverage = Some 1, po_margin_usage = Some 20, po_distance = Some 30\<rparr>,
      fi_policy = \<lparr>pt_cascade_status = None, pt_policy_action = Some action, pt_policy_state = None, pt_adl_level = None,
        pt_adl_side = None, pt_adl_risk = None\<rparr>,
      fi_funding = calculate_funding_bias rate [rate],
      fi_micro = \<lparr>mv_gate_pass = Some True, mv_gate_reason = Some ''PASS'', mv_gate_risk_score = None, mv_suitable = Some True,
        mv_severity = None, mv_size_ratio = None, mv_risk_score = None, mv_spread_state = None, mv_depth_state = None\<rparr>,
      fi_strategy = ''futures_trend_follow_v1''\<rparr>"

theorem liquidation_layer_means_cascade_or_freeze_witness:
  "fw_layer (run_decision_flow (sample_flow ''LONG'' ''FREEZE'' 0)) = LIQUIDATION \<and>
   pt_policy_action (fi_policy (sample_flow ''LONG'' ''FREEZE'' 0)) = Some ''FREEZE''"
proof -
  have layer: "fw_layer (run_decision_flow (sample_flow ''LONG'' ''FREEZE'' 0)) = LIQUIDATION" by code_simp
  have "pt_cascade_status (fi_policy (sample_flow ''LONG'' ''FREEZE'' 0)) \<noteq> Some ''CASCADE_CONFIRMED''"
    by (simp add: sample_flow_def)
  with layer liquidation_layer_means_cascade_or_freeze [OF layer] show ?thesis by simp
qed

text \<open>
  The two uses of funding contradict each other. When longs pay a high funding rate, the
  flow rejects every long trade as a funding conflict, but the leverage engine raises the
  leverage of the same trade by 8 percent; when shorts pay it, the flow has no objection to a
  long and the engine cuts its leverage by 30 percent.
\<close>

theorem funding_scaler_contradicts_flow:
  assumes "15 / 10000 \<le> rate" and "signal_side fi = ''LONG''"
    and "fi_funding fi = calculate_funding_bias rate history"
  shows "fw_decision (run_decision_flow fi) = ''REJECT'' \<and>
    ld_funding (fw_leverage (run_decision_flow fi)) = 108 / 100 \<and>
    \<not> funding_conflict (fi\<lparr>fi_funding := calculate_funding_bias (- rate) history\<rparr>) \<and>
    ld_funding (fw_leverage (run_decision_flow (fi\<lparr>fi_funding := calculate_funding_bias (- rate) history\<rparr>))) = 7 / 10"
proof -
  have pos: "0 < rate" "15 / 10000 \<le> \<bar>rate\<bar>" "15 / 10000 \<le> \<bar>- rate\<bar>" using assms(1) by auto
  have conflict: "funding_conflict fi"
    using pos assms by (simp add: funding_conflict_def funding_bias_high)
  then have "POLICY \<in> set (failed_layers (layers_of fi))"
    by (simp add: failed_layers_def set_collect layers_of_def Let_def del: collect_simps)
  then have "fw_decision (run_decision_flow fi) = ''REJECT''"
    using attribution_first [OF flow_gate_iff, of fi] by (cases "failed_layers (layers_of fi)") auto
  moreover have lev: "ld_funding (fw_leverage (run_decision_flow f)) = funding_multiplier (signal_side f) (fi_funding f)" for f
    by (simp add: run_decision_flow_def Let_def flow_leverage_def evaluate_leverage_def)
  moreover have side: "signal_side (fi\<lparr>fi_funding := b\<rparr>) = ''LONG''" for b
    using assms(2) by (simp add: signal_side_def)
  moreover have "funding_multiplier ''LONG'' (calculate_funding_bias rate history) = 108 / 100"
    "funding_multiplier ''LONG'' (calculate_funding_bias (- rate) history) = 7 / 10"
    using pos by (simp_all add: funding_multiplier_def Let_def funding_bias_high)
  moreover have "\<not> funding_conflict (fi\<lparr>fi_funding := calculate_funding_bias (- rate) history\<rparr>)"
    using pos by (simp add: funding_conflict_def funding_bias_high)
  ultimately show ?thesis using assms(2,3) by simp
qed

theorem funding_scaler_contradicts_flow_witness:
  "fw_decision (run_decision_flow (sample_flow ''LONG'' ''ALLOW'' (2 / 1000))) = ''REJECT'' \<and>
   ld_funding (fw_leverage (run_decision_flow (sample_flow ''LONG'' ''ALLOW'' (2 / 1000)))) = 108 / 100"
proof -
  have "signal_side (sample_flow ''LONG'' ''ALLOW'' (2 / 1000)) = ''LONG''"
    "fi_funding (sample_flow ''LONG'' ''ALLOW'' (2 / 1000)) = calculate_funding_bias (2 / 1000) [2 / 1000]"
    by (simp_all add: signal_side_def sample_flow_def)
  from funding_scaler_contradicts_flow [OF _ this] show ?thesis by simp
qed

end
