(* ===== verification/Correlation_Clusters.thy ===== *)
theory Correlation_Clusters
  imports Prelude
begin

text \<open>
  \<open>core/risk/correlation/correlation_matrix_engine.py\<close> and \<open>correlation_cluster_builder.py\<close>: the
  correlation of closing prices, and the groups of symbols that are connected by a correlation of
  at least the threshold.

  The square root of the platform is an argument. The cache is a record of what it holds: the
  candles by key and the matrices stored earlier. The depth-first search keeps its stack with the
  top first and the component as a list; its termination rests on the symbols being finitely
  many. The specification is the reflexive and transitive closure of the edges.
\<close>

section \<open>Symbols\<close>

definition normalize_pair :: "string option \<Rightarrow> string" where
  "normalize_pair symbol =
     (let normalized = strip (upper (str_or symbol [])) in
      if normalized = [] then [] else if endswith normalized ''USDT'' then normalized else normalized @ ''USDT'')"

definition pair_label :: "string option \<Rightarrow> string" where
  "pair_label symbol =
     (let normalized = normalize_pair symbol in
      if endswith normalized ''USDT'' then take (length normalized - 4) normalized else normalized)"

section \<open>Correlation of returns\<close>

text \<open>\<open>xs[-n:]\<close>, which is the whole list for \<open>n = 0\<close>.\<close>

definition last_n :: "nat \<Rightarrow> 'a list \<Rightarrow> 'a list" where
  "last_n n xs = (if n = 0 then xs else drop (length xs - n) xs)"

record candle =
  cd_close :: "num option"

fun relative_steps :: "num list \<Rightarrow> num list" where
  "relative_steps (p # c # closes) =
     (if p \<le> 0 then relative_steps (c # closes) else (c - p) / p # relative_steps (c # closes))"
| "relative_steps _ = []"

definition close_returns :: "candle list \<Rightarrow> nat \<Rightarrow> num list" where
  "close_returns candles window =
     (let closes = filter (\<lambda>c. 0 < c) (map (\<lambda>cd. get_or (cd_close cd) 0) (last_n window candles)) in
      if length closes < 4 then [] else relative_steps closes)"

definition mean :: "num list \<Rightarrow> num" where
  "mean x = sum_list x / of_nat (length x)"

definition covariance :: "num list \<Rightarrow> num list \<Rightarrow> num" where
  "covariance x y = sum_list (map (\<lambda>(a, b). (a - mean x) * (b - mean y)) (zip x y))"

definition variance :: "num list \<Rightarrow> num" where
  "variance x = sum_list (map (\<lambda>a. (a - mean x) ^ 2) x)"

definition pearson :: "(num \<Rightarrow> num) \<Rightarrow> num list \<Rightarrow> num list \<Rightarrow> num" where
  "pearson fsqrt xs ys =
     (let n = min (length xs) (length ys); x = last_n n xs; y = last_n n ys in
      if n < 4 \<or> variance x \<le> 0 \<or> variance y \<le> 0 then 0
      else py_round 4 (covariance x y / fsqrt (variance x * variance y)))"

section \<open>The matrix\<close>

record correlation_payload =
  cm_timeframe :: string
  cm_window :: nat
  cm_symbols :: "string list"
  cm_matrix :: "string \<Rightarrow> string \<Rightarrow> num option"

record matrix_cache =
  mc_candles :: "string \<Rightarrow> candle list"
  mc_matrices :: "string \<Rightarrow> correlation_payload option"

fun join_dash :: "string list \<Rightarrow> string" where
  "join_dash [] = []"
| "join_dash [x] = x"
| "join_dash (x # y # xs) = x @ ''-'' @ join_dash (y # xs)"

definition matrix_key :: "string \<Rightarrow> nat \<Rightarrow> string list \<Rightarrow> string" where
  "matrix_key timeframe window labels =
     ''futures:correlation:matrix:'' @ timeframe @ '':'' @ nat_str window @ '':'' @ join_dash labels"

text \<open>The symbols of the matrix: normalised, sorted and without duplicates.\<close>

definition matrix_pairs :: "string option list \<Rightarrow> string list" where
  "matrix_pairs symbols = sorted_set (filter (\<lambda>s. s \<noteq> []) (map normalize_pair symbols))"

definition correlation_of :: "(num \<Rightarrow> num) \<Rightarrow> matrix_cache \<Rightarrow> string \<Rightarrow> nat \<Rightarrow> string list \<Rightarrow> string \<Rightarrow> num list" where
  "correlation_of fsqrt cache timeframe window pairs label =
     (case filter (\<lambda>s. pair_label (Some s) = label) pairs of
        [] \<Rightarrow> []
      | ss \<Rightarrow> close_returns (mc_candles cache (''market:candles:'' @ last ss @ '':'' @ timeframe)) window)"

definition compute_matrix :: "(num \<Rightarrow> num) \<Rightarrow> matrix_cache \<Rightarrow> string \<Rightarrow> nat \<Rightarrow> string list \<Rightarrow> correlation_payload" where
  "compute_matrix fsqrt cache timeframe window pairs =
     (let labels = map (\<lambda>s. pair_label (Some s)) pairs; returns = correlation_of fsqrt cache timeframe window pairs in
      \<lparr>cm_timeframe = timeframe, cm_window = window, cm_symbols = labels,
       cm_matrix = (\<lambda>base compare.
         if base \<notin> set labels \<or> compare \<notin> set labels then None
         else if base = compare then Some 1
         else Some (pearson fsqrt (returns base) (returns compare)))\<rparr>)"

definition build_correlation_matrix ::
  "(num \<Rightarrow> num) \<Rightarrow> matrix_cache \<Rightarrow> string option list \<Rightarrow> string \<Rightarrow> nat \<Rightarrow> bool \<Rightarrow> correlation_payload \<times> matrix_cache" where
  "build_correlation_matrix fsqrt cache symbols timeframe window refresh =
     (let pairs = matrix_pairs symbols; labels = map (\<lambda>s. pair_label (Some s)) pairs;
          key = matrix_key timeframe window labels
      in case (if refresh then None else mc_matrices cache key) of
           Some cached \<Rightarrow> (cached, cache)
         | None \<Rightarrow>
             let payload = compute_matrix fsqrt cache timeframe window pairs
             in (payload, cache\<lparr>mc_matrices := (mc_matrices cache)(key \<mapsto> payload)\<rparr>))"

section \<open>Clusters\<close>

definition corr_of :: "correlation_payload \<Rightarrow> string \<Rightarrow> string \<Rightarrow> num" where
  "corr_of mp base compare = num_or (cm_matrix mp base compare) 0"

definition neighbors :: "correlation_payload \<Rightarrow> num \<Rightarrow> string \<Rightarrow> string list" where
  "neighbors mp threshold base =
     (if base \<in> set (cm_symbols mp)
      then sorted_set (filter (\<lambda>compare. base \<noteq> compare \<and> threshold \<le> corr_of mp base compare) (cm_symbols mp))
      else [])"

text \<open>The search: the head of the list is the top of the stack.\<close>

function grow :: "correlation_payload \<Rightarrow> num \<Rightarrow> string list \<Rightarrow> string list \<Rightarrow> string list" where
  "grow mp threshold [] component = component"
| "grow mp threshold (current # stack) component =
     (if current \<in> set component then grow mp threshold stack component
      else grow mp threshold
        (rev (filter (\<lambda>nxt. nxt \<notin> set (current # component)) (neighbors mp threshold current)) @ stack)
        (current # component))"
  by pat_completeness auto

text \<open>Every step takes a symbol out of what is left to visit, or only shortens the stack.\<close>

termination grow
proof (relation "measures [\<lambda>(mp, _, _, component). card (set (cm_symbols mp) - set component), \<lambda>(_, _, stack, _). length stack]",
    goal_cases)
  case 1
  show ?case by simp
next
  case (2 mp threshold current stack component)
  then show ?case by simp
next
  case (3 mp threshold current stack component)
  show ?case
  proof (cases "current \<in> set (cm_symbols mp)")
    case True
    with 3 have "set (cm_symbols mp) - set (current # component) \<subset> set (cm_symbols mp) - set component" by auto
    then have "card (set (cm_symbols mp) - set (current # component)) < card (set (cm_symbols mp) - set component)"
      by (simp add: psubset_card_mono)
    then show ?thesis by simp
  next
    case False
    then have "set (cm_symbols mp) - set (current # component) = set (cm_symbols mp) - set component" by auto
    with False show ?thesis by (simp add: neighbors_def)
  qed
qed

text \<open>The correlations of all pairs of a list, in the order of the two nested loops.\<close>

fun pair_values :: "('a \<Rightarrow> 'a \<Rightarrow> num) \<Rightarrow> 'a list \<Rightarrow> num list" where
  "pair_values f [] = []"
| "pair_values f (x # xs) = map (f x) xs @ pair_values f xs"

record cluster =
  cl_id :: string
  cl_symbols :: "string list"
  cl_avg_correlation :: num
  cl_size :: nat

definition cluster_of :: "correlation_payload \<Rightarrow> nat \<Rightarrow> string list \<Rightarrow> cluster" where
  "cluster_of mp n component =
     (let ordered = sort component; values = pair_values (corr_of mp) ordered in
      \<lparr>cl_id = ''CLUSTER_'' @ nat_str (n + 1), cl_symbols = ordered,
       cl_avg_correlation = (if values = [] then 1 else py_round 4 (sum_list values / of_nat (length values))),
       cl_size = length ordered\<rparr>)"

text \<open>The loop over the symbols; \<open>found\<close> are the clusters so far, whose members are visited.\<close>

fun cluster_loop :: "correlation_payload \<Rightarrow> num \<Rightarrow> string list \<Rightarrow> cluster list \<Rightarrow> cluster list" where
  "cluster_loop mp threshold [] found = found"
| "cluster_loop mp threshold (symbol # symbols) found =
     (if symbol \<in> set (concat (map cl_symbols found)) then cluster_loop mp threshold symbols found
      else cluster_loop mp threshold symbols
        (found @ [cluster_of mp (length found) (grow mp threshold [symbol] [])]))"

definition build_correlation_clusters :: "correlation_payload \<Rightarrow> num \<Rightarrow> cluster list" where
  "build_correlation_clusters mp threshold = cluster_loop mp threshold (cm_symbols mp) []"

section \<open>Specification\<close>

text \<open>Two symbols belong together when a chain of correlations at the threshold connects them.\<close>

definition correlated :: "correlation_payload \<Rightarrow> num \<Rightarrow> string \<Rightarrow> string \<Rightarrow> bool" where
  "correlated mp threshold a b \<longleftrightarrow>
     a \<in> set (cm_symbols mp) \<and> b \<in> set (cm_symbols mp) \<and> a \<noteq> b \<and> threshold \<le> corr_of mp a b"

abbreviation corr_linked :: "correlation_payload \<Rightarrow> num \<Rightarrow> string \<Rightarrow> string \<Rightarrow> bool" where
  "corr_linked mp threshold \<equiv> (correlated mp threshold)\<^sup>*\<^sup>*"

definition symmetric_matrix :: "correlation_payload \<Rightarrow> bool" where
  "symmetric_matrix mp \<longleftrightarrow> (\<forall>a b. corr_of mp a b = corr_of mp b a)"

section \<open>The search finds the component\<close>

lemma neighbors_correlated: "set (neighbors mp threshold a) = {b. correlated mp threshold a b}"
  by (auto simp: neighbors_def correlated_def)

lemma grow_distinct: "distinct component \<Longrightarrow> distinct (grow mp threshold stack component)"
  by (induction mp threshold stack component rule: grow.induct) simp_all

lemma grow_within:
  assumes "set stack \<union> set component \<subseteq> S" and "\<And>a b. a \<in> S \<Longrightarrow> correlated mp threshold a b \<Longrightarrow> b \<in> S"
  shows "set (grow mp threshold stack component) \<subseteq> S"
  using assms
proof (induction mp threshold stack component rule: grow.induct)
  case (2 mp threshold current stack component)
  then show ?case
    by (cases "current \<in> set component") (force simp: neighbors_correlated)+
qed simp

lemma grow_closed:
  assumes "\<And>a b. a \<in> set component \<Longrightarrow> correlated mp threshold a b \<Longrightarrow> b \<in> set component \<union> set stack"
  shows "set stack \<union> set component \<subseteq> set (grow mp threshold stack component) \<and>
    (\<forall>a b. a \<in> set (grow mp threshold stack component) \<longrightarrow> correlated mp threshold a b
       \<longrightarrow> b \<in> set (grow mp threshold stack component))"
  using assms
proof (induction mp threshold stack component rule: grow.induct)
  case (1 mp threshold component)
  then show ?case by auto
next
  case (2 mp threshold current stack component)
  show ?case
  proof (cases "current \<in> set component")
    case True
    have "set stack \<union> set component \<subseteq> set (grow mp threshold stack component) \<and>
      (\<forall>a b. a \<in> set (grow mp threshold stack component) \<longrightarrow> correlated mp threshold a b
         \<longrightarrow> b \<in> set (grow mp threshold stack component))"
      by (rule "2.IH"(1) [OF True]) (use "2.prems" True in fastforce)
    with True show ?thesis by auto
  next
    case False
    let ?stack = "rev (filter (\<lambda>nxt. nxt \<notin> set (current # component)) (neighbors mp threshold current)) @ stack"
    have "set ?stack \<union> set (current # component) \<subseteq> set (grow mp threshold ?stack (current # component)) \<and>
      (\<forall>a b. a \<in> set (grow mp threshold ?stack (current # component)) \<longrightarrow> correlated mp threshold a b
         \<longrightarrow> b \<in> set (grow mp threshold ?stack (current # component)))"
      by (rule "2.IH"(2) [OF False]) (use "2.prems" in \<open>fastforce simp: neighbors_correlated\<close>)
    with False show ?thesis by auto
  qed
qed

lemma grow_component: "set (grow mp threshold [s] []) = {b. corr_linked mp threshold s b}"
proof
  show "set (grow mp threshold [s] []) \<subseteq> {b. corr_linked mp threshold s b}"
    by (rule grow_within) (auto intro: rtranclp.rtrancl_into_rtrancl)
  have closed: "set [s] \<union> set [] \<subseteq> set (grow mp threshold [s] []) \<and>
    (\<forall>a b. a \<in> set (grow mp threshold [s] []) \<longrightarrow> correlated mp threshold a b \<longrightarrow> b \<in> set (grow mp threshold [s] []))"
    by (rule grow_closed) simp
  have "b \<in> set (grow mp threshold [s] [])" if "corr_linked mp threshold s b" for b
    using that
  proof (induction rule: rtranclp_induct)
    case base
    show ?case using closed by simp
  next
    case (step y z)
    then show ?case using closed by blast
  qed
  then show "{b. corr_linked mp threshold s b} \<subseteq> set (grow mp threshold [s] [])" by blast
qed

declare grow.simps [simp del]

lemma corr_linked_sym:
  assumes "symmetric_matrix mp" and "corr_linked mp threshold a b"
  shows "corr_linked mp threshold b a"
proof -
  have "symp (correlated mp threshold)"
    using assms(1) by (auto simp: symp_def correlated_def symmetric_matrix_def)
  then have "symp (corr_linked mp threshold)" by (rule symp_rtranclp)
  with assms(2) show ?thesis by (rule sympD [rotated])
qed

lemma corr_linked_symbols:
  "corr_linked mp threshold a b \<Longrightarrow> a \<in> set (cm_symbols mp) \<Longrightarrow> b \<in> set (cm_symbols mp)"
  by (induction rule: rtranclp_induct) (auto simp: correlated_def)

section \<open>The matrix is symmetric\<close>

lemma covariance_commute: "covariance x y = covariance y x"
  unfolding covariance_def by (subst zip_commute) (simp add: comp_def split_def mult.commute)

lemma pearson_commute: "pearson fsqrt xs ys = pearson fsqrt ys xs"
  unfolding pearson_def Let_def
  by (simp add: min.commute covariance_commute [of "last_n _ ys"] mult.commute [of "variance (last_n _ ys)"] disj_commute)

lemma compute_matrix_symmetric: "symmetric_matrix (compute_matrix fsqrt cache timeframe window pairs)"
  by (simp add: symmetric_matrix_def corr_of_def compute_matrix_def Let_def pearson_commute)

definition symmetric_cache :: "matrix_cache \<Rightarrow> bool" where
  "symmetric_cache cache \<longleftrightarrow> (\<forall>key mp. mc_matrices cache key = Some mp \<longrightarrow> symmetric_matrix mp)"

lemma build_matrix_symmetric:
  assumes "symmetric_cache cache" and "build_correlation_matrix fsqrt cache symbols timeframe window refresh = (mp, cache')"
  shows "symmetric_matrix mp" "symmetric_cache cache'"
  using assms
  by (auto simp: build_correlation_matrix_def Let_def symmetric_cache_def compute_matrix_symmetric
      split: option.splits if_splits)

section \<open>The clusters partition the symbols\<close>

definition cluster_symbols :: "cluster list \<Rightarrow> string list" where
  "cluster_symbols cls = concat (map cl_symbols cls)"

definition components :: "correlation_payload \<Rightarrow> num \<Rightarrow> cluster list \<Rightarrow> bool" where
  "components mp threshold cls \<longleftrightarrow> distinct (cluster_symbols cls) \<and>
     list_all (\<lambda>cl. list_all (\<lambda>a. set (cl_symbols cl) = Collect (corr_linked mp threshold a)) (cl_symbols cl)) cls"

lemma cluster_symbols_simps [simp]:
  "cluster_symbols [] = []"
  "cluster_symbols (cls @ [cl]) = cluster_symbols cls @ cl_symbols cl"
  by (simp_all add: cluster_symbols_def)

lemma cluster_of_simps [simp]:
  "cl_symbols (cluster_of mp n component) = sort component"
  "cl_id (cluster_of mp n component) = ''CLUSTER_'' @ nat_str (n + 1)"
  by (simp_all add: cluster_of_def Let_def)

lemma new_component:
  assumes sym: "symmetric_matrix mp" and found: "components mp threshold found" and s: "s \<notin> set (cluster_symbols found)"
  shows "components mp threshold (found @ [cluster_of mp n (grow mp threshold [s] [])])"
proof -
  let ?new = "grow mp threshold [s] []"
  have new: "set ?new = Collect (corr_linked mp threshold s)" by (rule grow_component)
  have same: "Collect (corr_linked mp threshold a) = Collect (corr_linked mp threshold s)" if "corr_linked mp threshold s a" for a
    using corr_linked_sym [OF sym that] that by (auto intro: rtranclp_trans)
  have "set (cluster_symbols found) \<inter> set ?new = {}"
  proof (rule ccontr)
    assume "set (cluster_symbols found) \<inter> set ?new \<noteq> {}"
    then obtain a cl where "cl \<in> set found" "a \<in> set (cl_symbols cl)" "corr_linked mp threshold s a"
      by (auto simp: cluster_symbols_def new)
    moreover from this have "set (cl_symbols cl) = Collect (corr_linked mp threshold a)"
      using found by (simp add: components_def list_all_iff)
    ultimately have "s \<in> set (cl_symbols cl)" using corr_linked_sym [OF sym, of threshold s a] by simp
    with \<open>cl \<in> set found\<close> s show False by (auto simp: cluster_symbols_def)
  qed
  moreover have "list_all (\<lambda>a. set (sort ?new) = Collect (corr_linked mp threshold a)) (sort ?new)"
    unfolding list_all_iff set_sort new using same by blast
  moreover have "distinct ?new" by (simp add: grow_distinct)
  ultimately show ?thesis using found unfolding components_def by simp
qed

lemma cluster_loop_components:
  assumes "symmetric_matrix mp" and "components mp threshold found"
  shows "components mp threshold (cluster_loop mp threshold symbols found) \<and>
    set symbols \<union> set (cluster_symbols found) \<subseteq> set (cluster_symbols (cluster_loop mp threshold symbols found))"
  using assms
proof (induction mp threshold symbols found rule: cluster_loop.induct)
  case (1 mp threshold found)
  then show ?case by simp
next
  case (2 mp threshold symbol symbols found)
  show ?case
  proof (cases "symbol \<in> set (cluster_symbols found)")
    case True
    with 2 show ?thesis by (auto simp: cluster_symbols_def)
  next
    case False
    let ?found = "found @ [cluster_of mp (length found) (grow mp threshold [symbol] [])]"
    have "components mp threshold ?found" by (rule new_component [OF "2.prems" False])
    then have "components mp threshold (cluster_loop mp threshold symbols ?found) \<and>
        set symbols \<union> set (cluster_symbols ?found) \<subseteq> set (cluster_symbols (cluster_loop mp threshold symbols ?found))"
      using 2 False by (simp add: cluster_symbols_def)
    moreover have "symbol \<in> set (cluster_symbols ?found)" by (simp add: grow_component)
    ultimately show ?thesis using False by (auto simp: cluster_symbols_def)
  qed
qed

lemma cluster_loop_within:
  assumes "set symbols \<subseteq> set (cm_symbols mp)" and "set (cluster_symbols found) \<subseteq> set (cm_symbols mp)"
  shows "set (cluster_symbols (cluster_loop mp threshold symbols found)) \<subseteq> set (cm_symbols mp)"
  using assms
proof (induction mp threshold symbols found rule: cluster_loop.induct)
  case (2 mp threshold symbol symbols found)
  have "set (grow mp threshold [symbol] []) \<subseteq> set (cm_symbols mp)"
    using "2.prems"(1) corr_linked_symbols by (auto simp: grow_component)
  with 2 show ?case by (simp add: cluster_symbols_def)
qed simp

lemma clusters_components:
  assumes "symmetric_matrix mp"
  shows "components mp threshold (build_correlation_clusters mp threshold)"
    and "set (cluster_symbols (build_correlation_clusters mp threshold)) = set (cm_symbols mp)"
  using cluster_loop_components [OF assms, of threshold "[]" "cm_symbols mp"]
    cluster_loop_within [of "cm_symbols mp" mp "[]" threshold]
  by (simp_all add: build_correlation_clusters_def components_def cluster_symbols_def subset_antisym)

text \<open>The identifiers number the clusters, so they are unique.\<close>

lemma cluster_loop_ids:
  assumes "map cl_id found = map (\<lambda>i. ''CLUSTER_'' @ nat_str (i + 1)) [0..<length found]"
  shows "map cl_id (cluster_loop mp threshold symbols found) =
    map (\<lambda>i. ''CLUSTER_'' @ nat_str (i + 1)) [0..<length (cluster_loop mp threshold symbols found)]"
  using assms by (induction mp threshold symbols found rule: cluster_loop.induct) simp_all

lemma cluster_ids_distinct: "distinct (map cl_id (build_correlation_clusters mp threshold))"
  unfolding build_correlation_clusters_def
  by (subst cluster_loop_ids) (simp_all add: distinct_map inj_on_def)

section \<open>Properties\<close>

text \<open>
  \<open>get_futures_correlation_clusters\<close> of \<open>services/futures_correlation_service.py\<close>.
\<close>

definition futures_clusters :: "(num \<Rightarrow> num) \<Rightarrow> matrix_cache \<Rightarrow> string option list \<Rightarrow> bool \<Rightarrow> correlation_payload \<times> cluster list \<times> matrix_cache" where
  "futures_clusters fsqrt cache symbols refresh =
     (case build_correlation_matrix fsqrt cache symbols ''15m'' 96 refresh of
        (mp, cache') \<Rightarrow> (mp, build_correlation_clusters mp (3 / 4), cache'))"

text \<open>
  C7: The clusters are the connected components of the correlation graph: every symbol of the
  matrix lies in exactly one cluster, the cluster of a symbol holds exactly the symbols a chain of
  correlations of at least 0.75 connects it with, and identifiers are unique. It holds with
  matrices taken from the cache too, as long as those stored were symmetric, which the call
  preserves. In particular the search terminates for every matrix.
\<close>

theorem clusters_are_components:
  assumes "symmetric_cache cache" and "futures_clusters fsqrt cache symbols refresh = (mp, cls, cache')"
  shows "distinct (concat (map cl_symbols cls)) \<and> set (concat (map cl_symbols cls)) = set (cm_symbols mp) \<and>
    list_all (\<lambda>cl. list_all (\<lambda>a. set (cl_symbols cl) = Collect (corr_linked mp (3 / 4) a)) (cl_symbols cl)) cls \<and>
    distinct (map cl_id cls) \<and> symmetric_cache cache'"
proof -
  from assms(2) have run: "build_correlation_matrix fsqrt cache symbols ''15m'' 96 refresh = (mp, cache')"
    and cls: "cls = build_correlation_clusters mp (3 / 4)"
    by (auto simp: futures_clusters_def split: prod.splits)
  note sym = build_matrix_symmetric [OF assms(1) run]
  show ?thesis
    using clusters_components [OF sym(1), of "3 / 4"] cluster_ids_distinct [of mp "3 / 4"] sym(2)
    by (simp add: cls components_def cluster_symbols_def)
qed

definition empty_matrix_cache :: matrix_cache where
  "empty_matrix_cache = \<lparr>mc_candles = (\<lambda>_. []), mc_matrices = (\<lambda>_. None)\<rparr>"

theorem clusters_are_components_witness:
  "case futures_clusters (\<lambda>x. x) empty_matrix_cache [Some ''btc'', Some ''ETHUSDT''] False of (mp, cls, cache') \<Rightarrow>
     distinct (concat (map cl_symbols cls)) \<and> set (concat (map cl_symbols cls)) = set (cm_symbols mp)"
proof -
  obtain mp cls cache' where
    run: "futures_clusters (\<lambda>x. x) empty_matrix_cache [Some ''btc'', Some ''ETHUSDT''] False = (mp, cls, cache')"
    by (metis prod_cases3)
  have "symmetric_cache empty_matrix_cache" by (simp add: symmetric_cache_def empty_matrix_cache_def)
  from clusters_are_components [OF this run] run show ?thesis by simp
qed

end
