(* ===== verification/Decision_Rows.thy ===== *)
theory Decision_Rows
  imports Futures_Decision
begin

text \<open>
  The rows that a futures strategy cycle hands from guard to guard
  (\<open>services/futures_strategy_service.py\<close>, \<open>run_futures_strategy_paper_cycle\<close>): each is a
  dictionary, made of the answer of the strategy engine, that a guard may reject or annotate.
  \<open>decision_guard\<close> is what the cycle relies on: a guard decides about the rows it is given, and
  none that was rejected comes back allowed.

  A row is a record of the keys the guards read or write, a missing key being \<open>None\<close>. The
  nested dictionary \<open>leverage_decision\<close> is spread over the fields \<open>dr_leverage\<close>, \<open>dr_size\<close> and
  \<open>dr_lev_distance\<close>.
\<close>

section \<open>Rows\<close>

record decision_row =
  dr_decision :: "string option"
  dr_symbol :: "string option"
  dr_side :: "string option"
  dr_strategy :: "string option"
  dr_strategy_id :: "string option"
  dr_confidence :: "num option"
  dr_regime :: "string option"
  dr_leverage :: "num option"
  dr_size :: "num option"
  dr_lev_distance :: "num option"
  dr_liquidation_distance :: "num option"
  dr_distance_pct :: "num option"
  dr_reason_code :: "string option"
  dr_layer :: "string option"
  dr_reasons :: "string list"
  dr_reason_codes :: "string list"
  dr_lifecycle :: "string option"
  dr_throttle :: "string option"

definition allowed :: "decision_row \<Rightarrow> bool" where
  "allowed row \<longleftrightarrow> dr_decision row = Some ''ALLOW''"

definition row_strategy :: "decision_row \<Rightarrow> string" where
  "row_strategy row = str_or (dr_strategy row) (str_or (dr_strategy_id row) ''unknown'')"

definition row_confidence :: "decision_row \<Rightarrow> num" where
  "row_confidence row = num_or (dr_confidence row) 0"

definition row_leverage :: "decision_row \<Rightarrow> num" where
  "row_leverage row = num_or (dr_leverage row) 1"

definition row_size :: "decision_row \<Rightarrow> num" where
  "row_size row = num_or (dr_size row) 1"

text \<open>The notional of the order a row would place, as the cluster and capital guards compute it.\<close>

definition order_notional :: "num \<Rightarrow> decision_row \<Rightarrow> num" where
  "order_notional equity row = equity * (8 / 100) * row_leverage row * max (1 / 10) (min (row_size row) 1)"

text \<open>What every guard writes when it rejects or annotates a row.\<close>

definition add_reason :: "string \<Rightarrow> decision_row \<Rightarrow> decision_row" where
  "add_reason reason row = row\<lparr>dr_reasons := sorted_set (dr_reasons row @ [reason])\<rparr>"

definition reject_row :: "string \<Rightarrow> string \<Rightarrow> decision_row \<Rightarrow> decision_row" where
  "reject_row layer reason row =
     (add_reason reason row)\<lparr>dr_decision := Some ''REJECT'', dr_reason_code := Some ''GATE_REJECT'', dr_layer := Some layer\<rparr>"

section \<open>From the engine to a row\<close>

primrec reason_name :: "reason_code \<Rightarrow> string" where
  "reason_name SIGNAL_WEAK = ''SIGNAL_WEAK''"
| "reason_name MICROSTRUCTURE_SPREAD_SHOCK = ''MICROSTRUCTURE_SPREAD_SHOCK''"
| "reason_name MICROSTRUCTURE_DEPTH_COLLAPSE = ''MICROSTRUCTURE_DEPTH_COLLAPSE''"
| "reason_name MICROSTRUCTURE_SLIPPAGE_ANOMALY = ''MICROSTRUCTURE_SLIPPAGE_ANOMALY''"
| "reason_name RISK_LEVERAGE_LIMIT = ''RISK_LEVERAGE_LIMIT''"
| "reason_name RISK_MARGIN_USAGE = ''RISK_MARGIN_USAGE''"
| "reason_name LIQUIDATION_DISTANCE_TOO_LOW = ''LIQUIDATION_DISTANCE_TOO_LOW''"
| "reason_name CASCADE_DETECTED = ''CASCADE_DETECTED''"
| "reason_name ADL_PRESSURE_LONG = ''ADL_PRESSURE_LONG''"
| "reason_name ADL_PRESSURE_SHORT = ''ADL_PRESSURE_SHORT''"
| "reason_name POLICY_BLOCK = ''POLICY_BLOCK''"
| "reason_name GATE_REJECT = ''GATE_REJECT''"
| "reason_name ALLOW = ''ALLOW''"

primrec layer_name :: "decision_layer \<Rightarrow> string" where
  "layer_name STRATEGY = ''STRATEGY''"
| "layer_name MICROSTRUCTURE = ''MICROSTRUCTURE''"
| "layer_name RISK_ENGINE = ''RISK_ENGINE''"
| "layer_name LIQUIDATION = ''LIQUIDATION''"
| "layer_name ADL = ''ADL''"
| "layer_name POLICY = ''POLICY''"
| "layer_name GATE = ''GATE''"

definition row_of_decision :: "string \<Rightarrow> symbol_decision \<Rightarrow> decision_row" where
  "row_of_decision strategy d =
     \<lparr>dr_decision = Some (sy_decision d), dr_symbol = Some (sy_symbol d), dr_side = Some (sy_side d),
      dr_strategy = Some strategy, dr_strategy_id = Some strategy,
      dr_confidence = Some (sy_confidence d),
      dr_regime = fs_regime (sy_signal d),
      dr_leverage = map_option (\<lambda>fw. ld_final_leverage (fw_leverage fw)) (sy_flow d),
      dr_size = map_option (\<lambda>fw. ld_size_ratio (fw_leverage fw)) (sy_flow d),
      dr_lev_distance = None, dr_liquidation_distance = None, dr_distance_pct = None,
      dr_reason_code = Some (reason_name (sy_reason d)), dr_layer = Some (layer_name (sy_layer d)),
      dr_reasons = (case sy_flow d of None \<Rightarrow> [] | Some fw \<Rightarrow> fw_reasons fw), dr_reason_codes = [],
      dr_lifecycle = None, dr_throttle = None\<rparr>"

section \<open>The risk configuration of the cycle\<close>

record risk_config =
  rf_max_leverage :: "num option"
  rf_min_liquidation_distance :: "num option"

definition cap_leverage :: "num \<Rightarrow> decision_row \<Rightarrow> decision_row" where
  "cap_leverage cap row =
     (if cap < row_leverage row
      then row\<lparr>dr_leverage := Some (py_round 4 cap),
               dr_size := Some (py_round 4 (min (row_size row) (max (min (cap / max (row_leverage row) 1) 1) (1 / 10)))),
               dr_reason_codes := dr_reason_codes row @ [''risk_engine_max_leverage_cap'']\<rparr>
      else row)"

definition veto_distance :: "num \<Rightarrow> decision_row \<Rightarrow> decision_row" where
  "veto_distance min_distance row =
     (if num_or (dr_lev_distance row) (num_or (dr_liquidation_distance row) (num_or (dr_distance_pct row) 999)) < min_distance
      then row\<lparr>dr_decision := Some ''REJECT'',
               dr_reason_codes := dr_reason_codes row @ [''risk_engine_liquidation_distance_veto'']\<rparr>
      else row)"

definition apply_risk_config :: "risk_config \<Rightarrow> decision_row list \<Rightarrow> decision_row list" where
  "apply_risk_config rf = map (veto_distance (num_or (rf_min_liquidation_distance rf) 6) \<circ> cap_leverage (num_or (rf_max_leverage rf) 5))"

section \<open>The contract of a guard\<close>

text \<open>What a guard must not touch: the trade a row is about.\<close>

definition row_key :: "decision_row \<Rightarrow> string option \<times> string option \<times> string option \<times> string option" where
  "row_key row = (dr_symbol row, dr_side row, dr_strategy row, dr_strategy_id row)"

lemma row_strategy_key: "row_key a = row_key b \<Longrightarrow> row_strategy a = row_strategy b"
  by (simp add: row_key_def row_strategy_def)

locale decision_guard =
  fixes guard :: "decision_row list \<Rightarrow> decision_row list"
  assumes keeps_rows: "mset (map row_key (guard rows)) = mset (map row_key rows)"
    and never_revives: "mset (map row_key (filter allowed (guard rows))) \<subseteq># mset (map row_key (filter allowed rows))"
begin

lemma keeps_length: "length (guard rows) = length rows"
  using arg_cong [OF keeps_rows, of size rows] by simp

lemma allowed_was_allowed:
  assumes "row \<in> set (guard rows)" and "allowed row"
  shows "\<exists>row' \<in> set rows. allowed row' \<and> row_key row' = row_key row"
proof -
  have "row_key row \<in># mset (map row_key (filter allowed (guard rows)))" using assms by auto
  then have "row_key row \<in># mset (map row_key (filter allowed rows))"
    using never_revives by (rule mset_subset_eqD [rotated])
  then show ?thesis by auto
qed

lemma no_more_allowed: "length (filter allowed (guard rows)) \<le> length (filter allowed rows)"
  using size_mset_mono [OF never_revives, of rows] by (simp only: size_mset length_map)

end

lemma guard_compose:
  assumes "decision_guard f" and "decision_guard g"
  shows "decision_guard (\<lambda>rows. g (f rows))"
proof
  fix rows
  show "mset (map row_key (g (f rows))) = mset (map row_key rows)"
    by (simp only: decision_guard.keeps_rows [OF assms(2)] decision_guard.keeps_rows [OF assms(1)])
  show "mset (map row_key (filter allowed (g (f rows)))) \<subseteq># mset (map row_key (filter allowed rows))"
    using decision_guard.never_revives [OF assms(2)] decision_guard.never_revives [OF assms(1)]
    by (rule subset_mset.order_trans)
qed

text \<open>A guard that looks at one row after the other.\<close>

definition tightens :: "decision_row \<Rightarrow> decision_row \<Rightarrow> bool" where
  "tightens row row' \<longleftrightarrow> row_key row' = row_key row \<and> (allowed row' \<longrightarrow> allowed row)"

lemma tightens_refl [simp]: "tightens row row"
  by (simp add: tightens_def)

lemma tightens_trans: "tightens a b \<Longrightarrow> tightens b c \<Longrightarrow> tightens a c"
  by (simp add: tightens_def)

lemma subset_add_mset: "A \<subseteq># B \<Longrightarrow> A \<subseteq># add_mset x B"
  by (metis add_mset_add_single mset_subset_eq_add_left subset_mset.order_trans)

lemma rowwise_keys:
  assumes "list_all2 tightens rows rows'"
  shows "map row_key rows' = map row_key rows"
    and "mset (map row_key (filter allowed rows')) \<subseteq># mset (map row_key (filter allowed rows))"
  using assms
  by (induction rule: list_all2_induct)
    (auto simp: tightens_def intro: subset_add_mset)

lemma rowwise_guard:
  assumes "\<And>rows. list_all2 tightens rows (f rows)"
  shows "decision_guard f"
  using rowwise_keys [OF assms] by unfold_locales (simp_all only:)

text \<open>
  The loop of the guards that keep a state: a step maps a row and the state to the row it
  appends, the events it records and the next state.
\<close>

fun run_rows ::
  "(decision_row \<Rightarrow> 's \<Rightarrow> decision_row \<times> 'e list \<times> 's) \<Rightarrow> decision_row list \<Rightarrow> 's \<Rightarrow> decision_row list \<times> 'e list \<times> 's" where
  "run_rows step [] s = ([], [], s)"
| "run_rows step (row # rows) s =
     (case step row s of (item, events, s1) \<Rightarrow>
       case run_rows step rows s1 of (items, events', s2) \<Rightarrow> (item # items, events @ events', s2))"

lemma run_rows_tighten:
  assumes "\<And>row s. tightens row (fst (step row s))"
  shows "list_all2 tightens rows (fst (run_rows step rows s))"
proof (induction rows arbitrary: s)
  case (Cons row rows)
  then show ?case using assms [of row s] by (auto split: prod.splits) (metis fst_conv)
qed simp

lemma run_rows_guard:
  "(\<And>row s. tightens row (fst (step row s))) \<Longrightarrow> decision_guard (\<lambda>rows. fst (run_rows step rows s))"
  by (rule rowwise_guard) (rule run_rows_tighten)

lemma run_rows_invariant:
  assumes "P s" and "\<And>row s. P s \<Longrightarrow> P (snd (snd (step row s)))"
  shows "P (snd (snd (run_rows step rows s)))"
  using assms(1)
proof (induction rows arbitrary: s)
  case (Cons row rows)
  then show ?case using assms(2) [of s row] by (auto split: prod.splits) (metis snd_conv)
qed simp

text \<open>
  The orders a guard admitted, as they came in, and a total kept with four decimals: what the guards
  that book orders must have booked in the end.
\<close>

definition admitted_orders :: "(decision_row \<Rightarrow> bool) \<Rightarrow> decision_row list \<Rightarrow> decision_row list \<Rightarrow> decision_row list" where
  "admitted_orders P rows items = map fst (filter (\<lambda>(row, item). allowed item \<and> P row) (zip rows items))"

definition running_total :: "num \<Rightarrow> num list \<Rightarrow> num" where
  "running_total = foldl (\<lambda>total n. py_round 4 (total + n))"

lemma run_rows_total:
  assumes "I s" and "\<And>row s. I s \<Longrightarrow> I (snd (snd (step row s)))"
    and "\<And>row s. I s \<Longrightarrow> g (snd (snd (step row s))) = (if allowed (fst (step row s)) \<and> P row then py_round 4 (g s + n row) else g s)"
  shows "g (snd (snd (run_rows step rows s))) = running_total (g s) (map n (admitted_orders P rows (fst (run_rows step rows s))))"
  using assms(1)
proof (induction rows arbitrary: s)
  case Nil
  then show ?case by (simp add: running_total_def admitted_orders_def)
next
  case (Cons row rows)
  obtain item events s1 where e: "step row s = (item, events, s1)" by (metis prod_cases3)
  have s1: "I s1" "g s1 = (if allowed item \<and> P row then py_round 4 (g s + n row) else g s)"
    using assms(2) [OF Cons.prems, of row] assms(3) [OF Cons.prems, of row] e by simp_all
  from Cons.IH [OF s1(1)] s1(2) e show ?case
    by (auto simp: running_total_def admitted_orders_def split: prod.split)
qed

text \<open>Writing a key no guard looks at leaves the row what it was.\<close>

lemma row_key_update [simp]:
  "row_key (row\<lparr>dr_decision := a\<rparr>) = row_key row" "row_key (row\<lparr>dr_reason_code := a\<rparr>) = row_key row"
  "row_key (row\<lparr>dr_layer := a\<rparr>) = row_key row" "row_key (row\<lparr>dr_reasons := r\<rparr>) = row_key row"
  "row_key (row\<lparr>dr_reason_codes := r\<rparr>) = row_key row" "row_key (row\<lparr>dr_leverage := n\<rparr>) = row_key row"
  "row_key (row\<lparr>dr_size := n\<rparr>) = row_key row" "row_key (row\<lparr>dr_confidence := n\<rparr>) = row_key row"
  "row_key (row\<lparr>dr_lifecycle := a\<rparr>) = row_key row" "row_key (row\<lparr>dr_throttle := a\<rparr>) = row_key row"
  by (simp_all add: row_key_def)

lemma allowed_update [simp]:
  "allowed (row\<lparr>dr_decision := Some ''REJECT''\<rparr>) \<longleftrightarrow> False" "allowed (row\<lparr>dr_reason_code := a\<rparr>) = allowed row"
  "allowed (row\<lparr>dr_layer := a\<rparr>) = allowed row" "allowed (row\<lparr>dr_reasons := r\<rparr>) = allowed row"
  "allowed (row\<lparr>dr_reason_codes := r\<rparr>) = allowed row" "allowed (row\<lparr>dr_leverage := n\<rparr>) = allowed row"
  "allowed (row\<lparr>dr_size := n\<rparr>) = allowed row" "allowed (row\<lparr>dr_confidence := n\<rparr>) = allowed row"
  "allowed (row\<lparr>dr_lifecycle := a\<rparr>) = allowed row" "allowed (row\<lparr>dr_throttle := a\<rparr>) = allowed row"
  by (simp_all add: allowed_def)

lemma add_reason_simps [simp]:
  "row_key (add_reason r row) = row_key row" "allowed (add_reason r row) = allowed row"
  by (simp_all add: add_reason_def)

lemma reject_row_simps [simp]:
  "row_key (reject_row l r row) = row_key row" "\<not> allowed (reject_row l r row)" "tightens row (reject_row l r row)"
  by (simp_all add: reject_row_def tightens_def allowed_def)

interpretation risk_config_guard: decision_guard "apply_risk_config rf"
proof (rule rowwise_guard)
  show "list_all2 tightens rows (apply_risk_config rf rows)" for rows
    by (simp add: apply_risk_config_def list.rel_map list_all2_same tightens_def veto_distance_def cap_leverage_def
        del: fun_upd_apply)
qed

end
