(* ===== verification/Cluster_Guard.thy ===== *)
theory Cluster_Guard
  imports Correlation_Clusters Decision_Rows
begin

text \<open>
  The exposure of clusters and the guard over it: \<open>cluster_exposure_calculator.py\<close>,
  \<open>cluster_risk_governor.py\<close> and \<open>cluster_order_guard.py\<close> under \<open>core/risk/correlation/\<close>, and
  \<open>apply_cluster_order_guard_to_decisions\<close> of \<open>services/futures_correlation_service.py\<close>, which
  keeps a running exposure per cluster while it goes through the rows of a cycle.
\<close>

section \<open>Exposure\<close>

text \<open>\<open>_symbol_label\<close>: here without trimming and without adding the quote.\<close>

definition symbol_label :: "string option \<Rightarrow> string" where
  "symbol_label symbol =
     (let v = upper_or symbol [] in if endswith v ''USDT'' then take (length v - 4) v else v)"

record exposed_position =
  xp_symbol :: "string option"
  xp_side :: "string option"
  xp_notional :: "num option"
  xp_leverage :: "num option"

record cluster_exposure =
  cx_id :: string
  cx_symbols :: "string list"
  cx_exposure :: num
  cx_notional :: num
  cx_direction :: string
  cx_leverage :: num
  cx_count :: nat
  cx_positions :: "exposed_position list"
  cx_risk_state :: "string option"

definition abs_notional :: "exposed_position \<Rightarrow> num" where
  "abs_notional xp = \<bar>get_or (xp_notional xp) 0\<bar>"

definition side_notional :: "string \<Rightarrow> exposed_position list \<Rightarrow> num" where
  "side_notional side ps = sum_list (map abs_notional (filter (\<lambda>xp. upper_or (xp_side xp) [] = side) ps))"

definition cluster_direction :: "exposed_position list \<Rightarrow> string" where
  "cluster_direction ps =
     (let l = side_notional ''LONG'' ps; s = side_notional ''SHORT'' ps in
      if s < l then ''LONG'' else if l < s then ''SHORT'' else if 0 < l \<and> 0 < s then ''MIXED'' else ''NEUTRAL'')"

definition exposure_of_cluster :: "exposed_position list \<Rightarrow> num \<Rightarrow> cluster \<Rightarrow> cluster_exposure" where
  "exposure_of_cluster positions equity cl =
     (let ps = filter (\<lambda>xp. symbol_label (xp_symbol xp) \<in> set (cl_symbols cl)) positions;
          notional = sum_list (map abs_notional ps);
          weighted = sum_list (map (\<lambda>xp. get_or (xp_leverage xp) 1 * abs_notional xp) ps)
      in \<lparr>cx_id = cl_id cl, cx_symbols = cl_symbols cl, cx_exposure = py_round 6 (notional / equity),
          cx_notional = py_round 4 notional, cx_direction = cluster_direction ps,
          cx_leverage = py_round 4 (if 0 < notional then weighted / notional else 0),
          cx_count = length ps, cx_positions = ps, cx_risk_state = None\<rparr>)"

definition calculate_cluster_exposure :: "cluster list \<Rightarrow> exposed_position list \<Rightarrow> num \<Rightarrow> num \<times> cluster_exposure list" where
  "calculate_cluster_exposure clusters positions portfolio_equity =
     (let equity = max portfolio_equity 1
      in (py_round 4 equity, map (exposure_of_cluster positions equity) clusters))"

section \<open>Limits\<close>

record cluster_alert =
  ca_cluster_id :: string
  ca_symbols :: "string list"
  ca_exposure :: num
  ca_direction :: string
  ca_reasons :: "string list"

definition cluster_reasons :: "num \<Rightarrow> nat \<Rightarrow> num \<Rightarrow> cluster_exposure \<Rightarrow> string list" where
  "cluster_reasons exposure_limit position_limit direction_limit cx = collect
     [(exposure_limit < cx_exposure cx, ''CLUSTER_EXPOSURE_LIMIT''),
      (position_limit < cx_count cx, ''CLUSTER_POSITION_LIMIT''),
      (cx_direction cx \<in> set [''LONG'', ''SHORT''] \<and> direction_limit < cx_exposure cx, ''CLUSTER_DIRECTION_LIMIT'')]"

record cluster_risk =
  ck_alerts :: "cluster_alert list"
  ck_risk_state :: string
  ck_exposures :: "cluster_exposure list"

definition evaluate_cluster_risk :: "cluster_exposure list \<Rightarrow> num \<Rightarrow> nat \<Rightarrow> num \<Rightarrow> cluster_risk" where
  "evaluate_cluster_risk xs exposure_limit position_limit direction_limit =
     (let reasons = cluster_reasons exposure_limit position_limit direction_limit;
          alerts = map (\<lambda>cx. \<lparr>ca_cluster_id = cx_id cx, ca_symbols = cx_symbols cx, ca_exposure = cx_exposure cx,
            ca_direction = cx_direction cx, ca_reasons = reasons cx\<rparr>) (filter (\<lambda>cx. reasons cx \<noteq> []) xs)
      in \<lparr>ck_alerts = alerts, ck_risk_state = (if alerts = [] then ''NORMAL'' else ''ALERT''),
          ck_exposures = map (\<lambda>cx. cx\<lparr>cx_risk_state := Some (if reasons cx = [] then ''NORMAL'' else ''LIMIT_HIT'')\<rparr>) xs\<rparr>)"

section \<open>The order guard\<close>

record cluster_order =
  co_symbol :: "string option"
  co_side :: "string option"
  co_notional :: "num option"
  co_size :: "num option"

record cluster_verdict =
  cv_action :: string
  cv_reasons :: "string list"
  cv_size :: num
  cv_event :: "cluster_alert option"

definition allow_order :: "cluster_order \<Rightarrow> cluster_verdict" where
  "allow_order ord = \<lparr>cv_action = ''ALLOW'', cv_reasons = [], cv_size = num_or (co_size ord) 1, cv_event = None\<rparr>"

definition cluster_notional :: "string \<Rightarrow> cluster_exposure list \<Rightarrow> num" where
  "cluster_notional i xs = (case find (\<lambda>cx. cx_id cx = i) xs of None \<Rightarrow> 0 | Some cx \<Rightarrow> cx_notional cx)"

definition evaluate_cluster_order_guard ::
  "cluster_order \<Rightarrow> cluster list \<Rightarrow> cluster_exposure list \<Rightarrow> num \<Rightarrow> num \<Rightarrow> cluster_verdict" where
  "evaluate_cluster_order_guard ord clusters xs portfolio_equity exposure_limit =
     (let symbol = symbol_label (co_symbol ord); notional = \<bar>num_or (co_notional ord) 0\<bar> in
      if notional \<le> 0 then allow_order ord
      else case find (\<lambda>cl. symbol \<in> set (cl_symbols cl)) clusters of
        None \<Rightarrow> allow_order ord
      | Some cl \<Rightarrow>
          let projected = (cluster_notional (cl_id cl) xs + notional) / max portfolio_equity 1 in
          if exposure_limit < projected
          then \<lparr>cv_action = ''REJECT'', cv_reasons = [''CLUSTER_EXPOSURE_LIMIT''], cv_size = 0,
                cv_event = Some \<lparr>ca_cluster_id = cl_id cl, ca_symbols = cl_symbols cl, ca_exposure = py_round 6 projected,
                  ca_direction = upper_or (co_side ord) ''NONE'', ca_reasons = [''CLUSTER_EXPOSURE_LIMIT'']\<rparr>\<rparr>
          else if exposure_limit * (9 / 10) < projected
          then \<lparr>cv_action = ''REDUCE_SIZE'', cv_reasons = [''CLUSTER_EXPOSURE_NEAR_LIMIT''],
                cv_size = max (1 / 5) (py_round 4 (num_or (co_size ord) 1 * (65 / 100))), cv_event = None\<rparr>
          else allow_order ord)"

section \<open>The guard over the rows of a cycle\<close>

definition order_of_row :: "num \<Rightarrow> decision_row \<Rightarrow> cluster_order" where
  "order_of_row equity row =
     \<lparr>co_symbol = dr_symbol row, co_side = dr_side row, co_notional = Some (order_notional equity row),
      co_size = Some (row_size row)\<rparr>"

definition cluster_decide :: "cluster_verdict \<Rightarrow> decision_row \<Rightarrow> decision_row" where
  "cluster_decide cv row =
     (if cv_action cv = ''REJECT'' then reject_row ''CORRELATION_RISK'' ''CLUSTER_TRADE_REJECTED'' row
      else if cv_action cv = ''REDUCE_SIZE''
      then add_reason ''CLUSTER_POSITION_SIZE_REDUCED'' (row\<lparr>dr_size := Some (num_or (Some (cv_size cv)) (row_size row))\<rparr>)
      else row)"

text \<open>The first exposure that holds the symbol takes the notional of the order.\<close>

fun book_exposure :: "num \<Rightarrow> string \<Rightarrow> num \<Rightarrow> cluster_exposure list \<Rightarrow> cluster_exposure list" where
  "book_exposure equity symbol notional [] = []"
| "book_exposure equity symbol notional (cx # xs) =
     (if symbol \<in> set (cx_symbols cx)
      then cx\<lparr>cx_notional := py_round 4 (cx_notional cx + notional),
              cx_exposure := py_round 6 (py_round 4 (cx_notional cx + notional) / max equity 1),
              cx_count := cx_count cx + 1\<rparr> # xs
      else cx # book_exposure equity symbol notional xs)"

definition cluster_step ::
  "num \<Rightarrow> cluster list \<Rightarrow> decision_row \<Rightarrow> cluster_exposure list \<Rightarrow> decision_row \<times> cluster_alert list \<times> cluster_exposure list" where
  "cluster_step equity clusters row xs =
     (if \<not> allowed row then (row, [], xs)
      else let cv = evaluate_cluster_order_guard (order_of_row equity row) clusters xs equity (35 / 100);
               item = cluster_decide cv row
           in (item, (case cv_event cv of None \<Rightarrow> [] | Some e \<Rightarrow> [e]),
               if allowed item then book_exposure equity (symbol_label (dr_symbol row)) (order_notional equity row) xs else xs))"

definition apply_cluster_order_guard ::
  "num \<Rightarrow> cluster list \<Rightarrow> exposed_position list \<Rightarrow> decision_row list \<Rightarrow> decision_row list \<times> cluster_alert list \<times> cluster_exposure list" where
  "apply_cluster_order_guard equity clusters positions rows =
     run_rows (cluster_step equity clusters) rows (snd (calculate_cluster_exposure clusters positions equity))"

section \<open>Lemmas\<close>

lemma cluster_decide_tightens [simp]: "tightens row (cluster_decide cv row)"
  by (simp add: cluster_decide_def tightens_def)

lemma cluster_step_tightens: "tightens row (fst (cluster_step equity clusters row xs))"
  by (simp add: cluster_step_def Let_def)

interpretation cluster_guard: decision_guard "\<lambda>rows. fst (apply_cluster_order_guard equity clusters positions rows)"
  unfolding apply_cluster_order_guard_def by (rule run_rows_guard) (rule cluster_step_tightens)

text \<open>The exposures stay those of the clusters, so both look-ups of the guard mean the same cluster.\<close>

definition exposures_of :: "cluster list \<Rightarrow> cluster_exposure list \<Rightarrow> bool" where
  "exposures_of clusters xs \<longleftrightarrow> map cx_id xs = map cl_id clusters \<and> map cx_symbols xs = map cl_symbols clusters"

lemma exposures_of_calculate: "exposures_of clusters (snd (calculate_cluster_exposure clusters positions equity))"
  by (simp add: exposures_of_def calculate_cluster_exposure_def Let_def exposure_of_cluster_def comp_def)

lemma book_exposure_ids [simp]:
  "map cx_id (book_exposure equity symbol n xs) = map cx_id xs"
  "map cx_symbols (book_exposure equity symbol n xs) = map cx_symbols xs"
  by (induction xs) simp_all

lemma exposures_of_book: "exposures_of clusters xs \<Longrightarrow> exposures_of clusters (book_exposure equity symbol n xs)"
  by (simp add: exposures_of_def)

text \<open>How far the exposures may grow: to the limit, or not at all.\<close>

definition grown :: "num \<Rightarrow> cluster_exposure list \<Rightarrow> cluster_exposure list \<Rightarrow> bool" where
  "grown B xs ys \<longleftrightarrow> list_all2 (\<lambda>a b. cx_notional b \<le> max (cx_notional a) B) xs ys"

lemma grown_refl [simp]: "grown B xs xs"
  by (simp add: grown_def list_all2_same)

lemma grown_trans: "grown B xs ys \<Longrightarrow> grown B ys zs \<Longrightarrow> grown B xs zs"
  unfolding grown_def by (rule list_all2_trans [where ?P2.0 = "\<lambda>a b. cx_notional b \<le> max (cx_notional a) B"]) auto

lemma grown_Cons [simp]: "grown B (x # xs) (y # ys) \<longleftrightarrow> cx_notional y \<le> max (cx_notional x) B \<and> grown B xs ys"
  by (simp add: grown_def)

text \<open>
  Booking an order adds to the exposure that the guard had read for it: no exposure exceeds the
  old one unless it is that of the order's cluster.
\<close>

lemma book_within:
  assumes "exposures_of clusters xs" and "distinct (map cl_id clusters)"
    and "\<And>cl. find (\<lambda>cl. symbol \<in> set (cl_symbols cl)) clusters = Some cl
      \<Longrightarrow> py_round 4 (cluster_notional (cl_id cl) xs + n) \<le> max (cluster_notional (cl_id cl) xs) B"
  shows "grown B xs (book_exposure equity symbol n xs)"
  using assms
proof (induction xs arbitrary: clusters)
  case Nil
  then show ?case by simp
next
  case (Cons cx xs)
  then obtain cl cls where cls: "clusters = cl # cls" "cx_id cx = cl_id cl" "cx_symbols cx = cl_symbols cl" "exposures_of cls xs"
    by (cases clusters) (auto simp: exposures_of_def)
  show ?case
  proof (cases "symbol \<in> set (cl_symbols cl)")
    case True
    with Cons.prems(3) [of cl] cls show ?thesis by (simp add: cluster_notional_def)
  next
    case False
    have "grown B xs (book_exposure equity symbol n xs)"
    proof (rule Cons.IH [OF cls(4)])
      show "distinct (map cl_id cls)" using Cons.prems(2) cls(1) by simp
      fix cl' assume found: "find (\<lambda>cl. symbol \<in> set (cl_symbols cl)) cls = Some cl'"
      then have "cl_id cl' \<in> set (map cl_id cls)" by (auto simp: find_Some_iff)
      then have "cl_id cl' \<noteq> cx_id cx" using Cons.prems(2) cls by auto
      then show "py_round 4 (cluster_notional (cl_id cl') xs + n) \<le> max (cluster_notional (cl_id cl') xs) B"
        using Cons.prems(3) [of cl'] found False cls(1) by (simp add: cluster_notional_def)
    qed
    with False cls show ?thesis by simp
  qed
qed

lemma guard_admits:
  assumes "allowed (cluster_decide (evaluate_cluster_order_guard (order_of_row equity row) clusters xs equity limit) row)"
    and "find (\<lambda>cl. symbol_label (dr_symbol row) \<in> set (cl_symbols cl)) clusters = Some cl"
    and "order_notional equity row \<noteq> 0"
  shows "cluster_notional (cl_id cl) xs + \<bar>order_notional equity row\<bar> \<le> limit * max equity 1"
proof -
  have "0 < max equity 1" by simp
  moreover have "\<not> limit < (cluster_notional (cl_id cl) xs + \<bar>order_notional equity row\<bar>) / max equity 1"
    using assms by (auto simp: evaluate_cluster_order_guard_def order_of_row_def Let_def cluster_decide_def split: if_splits)
  ultimately show ?thesis by (simp add: not_less pos_divide_le_eq)
qed

text \<open>Exposures are rounded to four decimals, so an order of no notional leaves them as they are.\<close>

definition on_cents :: "cluster_exposure list \<Rightarrow> bool" where
  "on_cents xs \<longleftrightarrow> list_all (\<lambda>cx. on_grid 4 (cx_notional cx)) xs"

lemma on_cents_book: "on_cents xs \<Longrightarrow> on_cents (book_exposure equity symbol n xs)"
  by (induction xs) (simp_all add: on_cents_def)

lemma on_cents_calculate: "on_cents (snd (calculate_cluster_exposure clusters positions equity))"
  by (simp add: on_cents_def calculate_cluster_exposure_def Let_def exposure_of_cluster_def list_all_iff)

lemma on_cents_notional: "on_cents xs \<Longrightarrow> on_grid 4 (cluster_notional i xs)"
  by (auto simp: cluster_notional_def on_cents_def list_all_iff find_Some_iff split: option.splits)

abbreviation cluster_limit :: "num \<Rightarrow> num" where
  "cluster_limit equity \<equiv> py_round 4 (35 / 100 * max equity 1)"

lemma cluster_step_within:
  assumes "exposures_of clusters xs \<and> on_cents xs \<and> grown (cluster_limit equity) xs0 xs" and "distinct (map cl_id clusters)"
  shows "exposures_of clusters (snd (snd (cluster_step equity clusters row xs))) \<and>
    on_cents (snd (snd (cluster_step equity clusters row xs))) \<and>
    grown (cluster_limit equity) xs0 (snd (snd (cluster_step equity clusters row xs)))"
proof -
  let ?n = "order_notional equity row" and ?symbol = "symbol_label (dr_symbol row)"
  let ?cv = "evaluate_cluster_order_guard (order_of_row equity row) clusters xs equity (35 / 100)"
  have "grown (cluster_limit equity) xs (book_exposure equity ?symbol ?n xs)" if admitted: "allowed (cluster_decide ?cv row)"
  proof (rule book_within)
    fix cl assume found: "find (\<lambda>cl. ?symbol \<in> set (cl_symbols cl)) clusters = Some cl"
    show "py_round 4 (cluster_notional (cl_id cl) xs + ?n) \<le> max (cluster_notional (cl_id cl) xs) (cluster_limit equity)"
    proof (cases "?n = 0")
      case True
      then show ?thesis using assms(1) on_cents_notional by (simp add: py_round_on_grid)
    next
      case False
      have "cluster_notional (cl_id cl) xs + ?n \<le> 35 / 100 * max equity 1"
        using guard_admits [OF admitted found False] abs_ge_self [of ?n] by linarith
      then show ?thesis by (simp only: py_round_mono max.coboundedI2)
    qed
  qed (use assms in auto)
  then show ?thesis
    using assms(1) by (auto simp: cluster_step_def Let_def exposures_of_book on_cents_book intro: grown_trans)
qed

text \<open>What an order adds goes to the exposure of its cluster, the first that holds the symbol.\<close>

definition order_cluster :: "cluster list \<Rightarrow> decision_row \<Rightarrow> string option" where
  "order_cluster clusters row = map_option cl_id (find (\<lambda>cl. symbol_label (dr_symbol row) \<in> set (cl_symbols cl)) clusters)"

lemma book_exposure_nth:
  assumes "exposures_of clusters xs" and "distinct (map cl_id clusters)" and "i < length xs"
  shows "cx_notional (book_exposure equity symbol n xs ! i) =
    (if map_option cl_id (find (\<lambda>cl. symbol \<in> set (cl_symbols cl)) clusters) = Some (cx_id (xs ! i))
     then py_round 4 (cx_notional (xs ! i) + n) else cx_notional (xs ! i))"
  using assms
proof (induction xs arbitrary: clusters i)
  case (Cons cx xs)
  then obtain cl cls where cls: "clusters = cl # cls" "cx_id cx = cl_id cl" "cx_symbols cx = cl_symbols cl" "exposures_of cls xs"
    by (cases clusters) (auto simp: exposures_of_def)
  have ids: "map cx_id xs = map cl_id cls" using cls(4) by (simp add: exposures_of_def)
  show ?case
  proof (cases i)
    case 0
    have "cl_id c \<noteq> cl_id cl" if "find (\<lambda>cl. symbol \<in> set (cl_symbols cl)) cls = Some c" for c
    proof -
      have "c \<in> set cls" using that by (auto simp: find_Some_iff)
      then have "cl_id c \<in> cl_id ` set cls" by (rule imageI)
      then show ?thesis using Cons.prems(2) cls(1) by (metis distinct.simps(2) list.simps(9) set_map)
    qed
    then show ?thesis using cls 0 by auto
  next
    case (Suc k)
    then have k: "k < length xs" using Cons.prems(3) by simp
    then have "cx_id (xs ! k) \<in> set (map cl_id cls)" using ids by (metis nth_map nth_mem length_map)
    then have "cx_id (xs ! k) \<noteq> cl_id cl" using Cons.prems(2) cls(1) by auto
    then show ?thesis using Cons.IH [OF cls(4) _ k] Cons.prems(2) cls Suc by auto
  qed
qed simp

lemma exposures_of_step: "exposures_of clusters xs \<Longrightarrow> exposures_of clusters (snd (snd (cluster_step equity clusters row xs)))"
  by (simp add: cluster_step_def Let_def exposures_of_book)

lemma exposures_of_nth: "exposures_of clusters xs \<Longrightarrow> i < length clusters \<Longrightarrow> cx_id (xs ! i) = cl_id (clusters ! i) \<and> length xs = length clusters"
  by (metis exposures_of_def length_map nth_map)

lemma cluster_step_books:
  assumes "exposures_of clusters xs" and "distinct (map cl_id clusters)" and "i < length clusters"
  shows "cx_notional (snd (snd (cluster_step equity clusters row xs)) ! i) =
    (if allowed (fst (cluster_step equity clusters row xs)) \<and> order_cluster clusters row = Some (cl_id (clusters ! i))
     then py_round 4 (cx_notional (xs ! i) + order_notional equity row) else cx_notional (xs ! i))"
proof -
  note i = exposures_of_nth [OF assms(1,3)]
  show ?thesis
    using book_exposure_nth [OF assms(1,2), of i equity "symbol_label (dr_symbol row)" "order_notional equity row"] i assms(3)
    by (simp add: cluster_step_def Let_def order_cluster_def del: map_option_eq_Some)
qed

section \<open>Properties\<close>

text \<open>
  C27: The guard keeps every cluster within its limit. After all rows of a cycle, the running exposure of a
  cluster is that of the open positions with the notional of every order added that the guard admitted
  for a symbol of the cluster, and it is at most 35 percent of the equity, to four decimals, or what the
  open positions had already reached: the admitted orders never make it exceed the limit. An order
  counts with the notional it asked for, also when its size is reduced.
\<close>

theorem cluster_exposure_within_limit:
  "case apply_cluster_order_guard equity (build_correlation_clusters mp threshold) positions rows of (adjusted, events, xs) \<Rightarrow>
     list_all2 (\<lambda>before after. cx_id after = cx_id before \<and>
         cx_notional after = running_total (cx_notional before) (map (order_notional equity)
           (admitted_orders (\<lambda>row. order_cluster (build_correlation_clusters mp threshold) row = Some (cx_id before)) rows adjusted)) \<and>
         cx_notional after \<le> max (cx_notional before) (py_round 4 (35 / 100 * max equity 1)))
       (snd (calculate_cluster_exposure (build_correlation_clusters mp threshold) positions equity)) xs"
proof -
  let ?cls = "build_correlation_clusters mp threshold"
  let ?xs0 = "snd (calculate_cluster_exposure ?cls positions equity)"
  let ?run = "run_rows (cluster_step equity ?cls) rows ?xs0"
  let ?P = "\<lambda>xs. exposures_of ?cls xs \<and> on_cents xs \<and> grown (cluster_limit equity) ?xs0 xs"
  have start: "exposures_of ?cls ?xs0" by (rule exposures_of_calculate)
  have end_: "?P (snd (snd ?run))"
  proof (rule run_rows_invariant [of ?P])
    show "?P ?xs0" by (simp add: exposures_of_calculate on_cents_calculate)
    show "?P xs \<Longrightarrow> ?P (snd (snd (cluster_step equity ?cls row xs)))" for row xs
      by (rule cluster_step_within [OF _ cluster_ids_distinct])
  qed
  then have within: "list_all2 (\<lambda>a b. cx_notional b \<le> max (cx_notional a) (cluster_limit equity)) ?xs0 (snd (snd ?run))"
    by (simp add: grown_def)
  have len: "length ?xs0 = length ?cls" "length (snd (snd ?run)) = length ?cls"
    using start end_ by (simp_all add: exposures_of_def) (metis length_map)+
  have booked: "cx_notional (snd (snd ?run) ! i) = running_total (cx_notional (?xs0 ! i)) (map (order_notional equity)
      (admitted_orders (\<lambda>row. order_cluster ?cls row = Some (cx_id (?xs0 ! i))) rows (fst ?run)))" if "i < length ?cls" for i
    using run_rows_total [where I = "exposures_of ?cls" and g = "\<lambda>xs. cx_notional (xs ! i)" and s = ?xs0 and step = "cluster_step equity ?cls"
        and P = "\<lambda>row. order_cluster ?cls row = Some (cl_id (?cls ! i))" and n = "order_notional equity" and rows = rows]
      start exposures_of_step cluster_step_books [OF _ cluster_ids_distinct that] exposures_of_nth [OF start that] by simp
  have ids: "cx_id (snd (snd ?run) ! i) = cx_id (?xs0 ! i)" if "i < length ?cls" for i
    using exposures_of_nth [OF start that] exposures_of_nth [OF _ that, of "snd (snd ?run)"] end_ by simp
  show ?thesis
    unfolding apply_cluster_order_guard_def case_prod_beta
    using within len booked ids by (auto simp: list_all2_conv_all_nth)
qed

text \<open>
  Near its limit the guard enlarges small orders. An order of a size ratio below 0.2, which the
  guard answers with \<open>REDUCE_SIZE\<close>, leaves it with the size ratio 0.2.
\<close>

theorem near_limit_enlarges_small_order:
  assumes "evaluate_cluster_order_guard ord clusters xs equity limit = cv" and "cv_action cv = ''REDUCE_SIZE''"
    and "co_size ord = Some r" and "0 < r" and "r < 1 / 5"
  shows "cv_size cv = 1 / 5 \<and> r < cv_size cv"
proof -
  have "py_round 4 (r * (65 / 100)) \<le> 1 / 5"
    by (rule py_round_le) (use assms in \<open>simp_all add: on_grid_def\<close>)
  moreover have "cv_size cv = max (1 / 5) (py_round 4 (r * (65 / 100)))"
    using assms by (auto simp: evaluate_cluster_order_guard_def allow_order_def Let_def split: if_splits option.splits)
  ultimately show ?thesis using assms(5) by simp
qed

theorem near_limit_enlarges_small_order_witness:
  "cv_size (evaluate_cluster_order_guard
     \<lparr>co_symbol = Some ''BTCUSDT'', co_side = Some ''LONG'', co_notional = Some 34, co_size = Some (1 / 10)\<rparr>
     [\<lparr>cl_id = ''CLUSTER_1'', cl_symbols = [''BTC''], cl_avg_correlation = 1, cl_size = 1\<rparr>] [] 100 (35 / 100)) = 1 / 5"
proof -
  have label: "symbol_label (Some ''BTCUSDT'') = ''BTC''" by code_simp
  show ?thesis
    by (rule near_limit_enlarges_small_order [OF refl, where r = "1 / 10", THEN conjunct1])
      (simp_all add: evaluate_cluster_order_guard_def label Let_def cluster_notional_def)
qed

end
