(* ===== verification/Capital_Guard.thy ===== *)
theory Capital_Guard
  imports Decision_Rows
begin

text \<open>
  The capital of strategies: the modules of \<open>core/risk/capital/\<close>, and the snapshot and the guard over
  the rows of a cycle in \<open>services/futures_capital_service.py\<close>. Equity, used margin and the
  state of the cluster risk are arguments; the service reads them from other services.
\<close>

section \<open>Registry and budgets\<close>

record capital_registry =
  kr_equity :: num
  kr_available :: num
  kr_allocated :: num
  kr_used_margin :: num
  kr_risk_budget :: num

definition build_portfolio_capital_registry :: "num \<Rightarrow> num \<Rightarrow> num \<Rightarrow> num \<Rightarrow> capital_registry" where
  "build_portfolio_capital_registry portfolio_equity used_margin allocated_capital risk_budget_ratio =
     (let equity = max portfolio_equity 0; used = max used_margin 0; allocated = max allocated_capital 0
      in \<lparr>kr_equity = py_round 4 equity, kr_available = py_round 4 (max (equity - used - allocated) 0),
          kr_allocated = py_round 4 allocated, kr_used_margin = py_round 4 used,
          kr_risk_budget = py_round 4 (equity * max 0 (min risk_budget_ratio 1))\<rparr>)"

record budget_row =
  bw_strategy_id :: string
  bw_budget :: num
  bw_used :: num
  bw_available :: num
  bw_warning :: num
  bw_risk_state :: string

definition allocated_row :: "num \<Rightarrow> num \<Rightarrow> num \<Rightarrow> (string \<Rightarrow> num option) \<Rightarrow> string \<Rightarrow> budget_row" where
  "allocated_row equity max_ratio warning_ratio usage strategy =
     (let budget = equity * max_ratio; warning = equity * warning_ratio; used = max (num_or (usage strategy) 0) 0
      in \<lparr>bw_strategy_id = strategy, bw_budget = py_round 4 budget, bw_used = py_round 4 used,
          bw_available = py_round 4 (max (budget - used) 0), bw_warning = py_round 4 warning,
          bw_risk_state = (if budget < used then ''LIMIT_HIT'' else if warning < used then ''WARNING'' else ''NORMAL'')\<rparr>)"

definition allocate_strategy_capital ::
  "string list \<Rightarrow> num \<Rightarrow> (string \<Rightarrow> num option) \<Rightarrow> num \<Rightarrow> num \<Rightarrow> budget_row list" where
  "allocate_strategy_capital strategy_ids portfolio_equity usage max_ratio warning_ratio =
     map (allocated_row (max portfolio_equity 1) max_ratio warning_ratio usage) (sort strategy_ids)"

section \<open>Drift and actions\<close>

record capital_drift =
  df_strategy_id :: string
  df_reasons :: "string list"
  df_severity :: string
  df_used :: num
  df_budget :: num
  df_growth :: num

definition growth_ratio :: "num \<Rightarrow> num \<Rightarrow> num" where
  "growth_ratio prev used = (if 0 < prev then (used - prev) / prev else 0)"

definition drift_reasons :: "(string \<Rightarrow> num option) \<Rightarrow> budget_row \<Rightarrow> string list" where
  "drift_reasons previous_usage bw =
     (let used = bw_used bw; prev = max (num_or (previous_usage (str_or (Some (bw_strategy_id bw)) ''unknown'')) 0) 0 in collect
       [(max (bw_budget bw) 1 < used, ''CAPITAL_USAGE_EXCEEDS_BUDGET''),
        (bw_warning bw < used, ''CAPITAL_USAGE_WARNING''),
        (0 < prev \<and> 35 / 100 < growth_ratio prev used, ''CAPITAL_USAGE_GROWTH_ANOMALY'')])"

definition drift_of :: "(string \<Rightarrow> num option) \<Rightarrow> budget_row \<Rightarrow> capital_drift" where
  "drift_of previous_usage bw =
     (let i = str_or (Some (bw_strategy_id bw)) ''unknown''; reasons = drift_reasons previous_usage bw
      in \<lparr>df_strategy_id = i, df_reasons = reasons,
          df_severity = (if ''CAPITAL_USAGE_EXCEEDS_BUDGET'' \<in> set reasons then ''HIGH'' else ''MEDIUM''),
          df_used = py_round 4 (bw_used bw), df_budget = py_round 4 (max (bw_budget bw) 1),
          df_growth = py_round 4 (growth_ratio (max (num_or (previous_usage i) 0) 0) (bw_used bw))\<rparr>)"

definition detect_capital_drift :: "budget_row list \<Rightarrow> (string \<Rightarrow> num option) \<Rightarrow> capital_drift list" where
  "detect_capital_drift rows previous_usage =
     map (drift_of previous_usage) (filter (\<lambda>bw. drift_reasons previous_usage bw \<noteq> []) rows)"

record capital_action =
  cn_strategy_id :: string
  cn_action :: string
  cn_multiplier :: num
  cn_downshift :: bool
  cn_reasons :: "string list"

definition capital_action_of :: "capital_drift list \<Rightarrow> budget_row \<Rightarrow> capital_action" where
  "capital_action_of drifts bw =
     (let i = str_or (Some (bw_strategy_id bw)) ''unknown'';
          state = str_or (Some (bw_risk_state bw)) ''NORMAL''
      in if state = ''LIMIT_HIT''
         then \<lparr>cn_strategy_id = i, cn_action = ''REJECT_TRADE'', cn_multiplier = 0, cn_downshift = True,
               cn_reasons = [''CAPITAL_LIMIT_BREACH'']\<rparr>
         else if state = ''WARNING'' \<or> i \<in> df_strategy_id ` set drifts
         then \<lparr>cn_strategy_id = i, cn_action = ''REDUCE_POSITION_SIZE'', cn_multiplier = 65 / 100, cn_downshift = True,
               cn_reasons = [''CAPITAL_WARNING'']\<rparr>
         else \<lparr>cn_strategy_id = i, cn_action = ''ALLOW'', cn_multiplier = 1, cn_downshift = False, cn_reasons = []\<rparr>)"

definition enforce_capital_risk :: "budget_row list \<Rightarrow> capital_drift list \<Rightarrow> capital_action list" where
  "enforce_capital_risk rows drifts = map (capital_action_of drifts) rows"

definition capital_limit_events :: "capital_action list \<Rightarrow> capital_action list" where
  "capital_limit_events = filter (\<lambda>cn. cn_action cn \<in> set [''REJECT_TRADE'', ''REDUCE_POSITION_SIZE''])"

section \<open>The order guard and the size policy\<close>

record capital_verdict =
  kv_action :: string
  kv_multiplier :: num
  kv_reasons :: "string list"

definition evaluate_capital_order_guard :: "num \<Rightarrow> budget_row \<Rightarrow> capital_registry \<Rightarrow> string \<Rightarrow> capital_verdict" where
  "evaluate_capital_order_guard projected_notional bw kr cluster_state =
     (let notional = max projected_notional 0; used = bw_used bw;
          over = bw_budget bw < used + notional;
          warn = \<not> over \<and> bw_warning bw < used + notional;
          scarce = kr_available kr < notional * (1 / 2);
          alert = (cluster_state = ''ALERT'');
          action1 = (if over then ''REJECT'' else if warn then ''REDUCE_SIZE'' else ''ALLOW'');
          factor1 = (if over then 0 else if warn then 6 / 10 else 1);
          action2 = (if scarce \<and> action1 \<noteq> ''REJECT'' then ''REDUCE_SIZE'' else action1);
          factor2 = (if scarce then min factor1 (1 / 2) else factor1)
      in \<lparr>kv_action = (if alert \<and> action2 = ''ALLOW'' then ''REDUCE_SIZE'' else action2),
          kv_multiplier = py_round 4 (if alert \<and> action2 = ''ALLOW'' then min factor2 (7 / 10) else factor2),
          kv_reasons = collect [(over, ''STRATEGY_BUDGET_LIMIT''), (warn, ''STRATEGY_BUDGET_WARNING''),
            (scarce, ''PORTFOLIO_RISK_LIMIT''), (alert, ''CLUSTER_RISK_ALIGNMENT'')]\<rparr>)"

text \<open>The ratio that \<open>apply_position_size_policy\<close> returns; the other keys only repeat its factors.\<close>

definition apply_position_size_policy :: "num \<Rightarrow> num \<Rightarrow> num \<Rightarrow> num \<Rightarrow> num \<Rightarrow> num \<Rightarrow> num" where
  "apply_position_size_policy available budget base_ratio risk_weight volatility_modifier cluster_modifier =
     (let b = max budget 1; a = max available 0; base = max (min base_ratio 1) 0;
          capital_factor = max (min (a / b) 1) 0;
          risk_factor = max (min (num_or (Some risk_weight) 1) 1) 0;
          vol_factor = max (min (num_or (Some volatility_modifier) 1) 1) (1 / 5);
          cluster_factor = max (min (num_or (Some cluster_modifier) 1) 1) (1 / 5)
      in py_round 4 (max (5 / 100) (min (base * capital_factor * risk_factor * vol_factor * cluster_factor) 1)))"

section \<open>Snapshot and guard of the service\<close>

text \<open>What the orders admitted in the last cycle use, by strategy.\<close>

definition usage_of :: "(string \<Rightarrow> num option) \<Rightarrow> string \<Rightarrow> num" where
  "usage_of usage strategy = get_or (usage strategy) 0"

definition strategy_usage :: "num \<Rightarrow> decision_row list \<Rightarrow> string \<Rightarrow> num option" where
  "strategy_usage equity rows =
     foldl (\<lambda>usage row. let strategy = str_or (dr_strategy row) ''unknown''
         in usage(strategy \<mapsto> py_round 4 (usage_of usage strategy + order_notional equity row)))
       (\<lambda>_. None) (filter allowed rows)"

record capital_snapshot =
  ks_registry :: capital_registry
  ks_budgets :: "budget_row list"
  ks_drifts :: "capital_drift list"
  ks_actions :: "capital_action list"
  ks_cluster_state :: string

definition capital_snapshot_of ::
  "num \<Rightarrow> num \<Rightarrow> string list \<Rightarrow> decision_row list \<Rightarrow> (string \<Rightarrow> num option) \<Rightarrow> string \<Rightarrow> capital_snapshot" where
  "capital_snapshot_of equity used_margin strategy_ids last_rows previous_usage cluster_state =
     (let budgets = allocate_strategy_capital strategy_ids equity (strategy_usage equity last_rows) (2 / 10) (15 / 100);
          drifts = detect_capital_drift budgets previous_usage
      in \<lparr>ks_registry = build_portfolio_capital_registry equity used_margin
            (equity * min 1 (of_nat (length strategy_ids) * (2 / 10))) (8 / 10),
          ks_budgets = budgets, ks_drifts = drifts, ks_actions = enforce_capital_risk budgets drifts,
          ks_cluster_state = cluster_state\<rparr>)"

definition fallback_budget :: "capital_registry \<Rightarrow> string \<Rightarrow> budget_row" where
  "fallback_budget kr strategy =
     \<lparr>bw_strategy_id = strategy, bw_budget = kr_risk_budget kr * (2 / 10), bw_used = 0,
      bw_available = kr_available kr, bw_warning = kr_risk_budget kr * (15 / 100), bw_risk_state = []\<rparr>"

definition budget_of :: "capital_registry \<Rightarrow> (string \<Rightarrow> budget_row option) \<Rightarrow> string \<Rightarrow> budget_row" where
  "budget_of kr budgets strategy = get_or (budgets strategy) (fallback_budget kr strategy)"

definition use_budget :: "num \<Rightarrow> budget_row \<Rightarrow> budget_row" where
  "use_budget notional bw =
     (let used = py_round 4 (bw_used bw + notional)
      in bw\<lparr>bw_used := used, bw_available := py_round 4 (max (bw_budget bw - used) 0)\<rparr>)"

definition adjusted_size :: "capital_verdict \<Rightarrow> budget_row \<Rightarrow> string \<Rightarrow> decision_row \<Rightarrow> num" where
  "adjusted_size kv bw cluster_state row =
     (let size = row_size row;
          ratio = apply_position_size_policy (bw_available bw) (bw_budget bw) size
            (if kv_action kv = ''REDUCE_SIZE'' then 7 / 10 else 1)
            (if upper_or (dr_regime row) [] = ''HIGH_VOL'' then 8 / 10 else 1)
            (if cluster_state = ''ALERT'' then 8 / 10 else 1);
          capped = min (num_or (Some ratio) size) size
      in if kv_action kv = ''REDUCE_SIZE'' then min capped (size * num_or (Some (kv_multiplier kv)) 1) else capped)"

definition resize_row :: "num \<Rightarrow> decision_row \<Rightarrow> decision_row" where
  "resize_row adjusted row =
     (let item = row\<lparr>dr_size := Some (py_round 4 (max (5 / 100) adjusted))\<rparr>
      in if adjusted < row_size row then add_reason ''CAPITAL_SIZE_REDUCED'' item else item)"

definition capital_step ::
  "capital_registry \<Rightarrow> string \<Rightarrow> decision_row \<Rightarrow> (string \<Rightarrow> budget_row option)
     \<Rightarrow> decision_row \<times> capital_verdict list \<times> (string \<Rightarrow> budget_row option)" where
  "capital_step kr cluster_state row budgets =
     (if \<not> allowed row then (row, [], budgets)
      else let strategy = row_strategy row; bw = budget_of kr budgets strategy;
               notional = order_notional (num_or (Some (kr_equity kr)) 10000) row;
               kv = evaluate_capital_order_guard notional bw kr cluster_state
           in if kv_action kv = ''REJECT'' then (reject_row ''CAPITAL_RISK'' ''CAPITAL_TRADE_REJECTED'' row, [kv], budgets)
              else (resize_row (adjusted_size kv bw cluster_state row) row, [], budgets(strategy \<mapsto> use_budget notional bw)))"

definition apply_capital_order_guard ::
  "capital_snapshot \<Rightarrow> decision_row list \<Rightarrow> decision_row list \<times> capital_verdict list \<times> (string \<Rightarrow> budget_row option)" where
  "apply_capital_order_guard ks rows =
     run_rows (capital_step (ks_registry ks) (str_or (Some (ks_cluster_state ks)) ''NORMAL'')) rows
       (map_of (map (\<lambda>bw. (bw_strategy_id bw, bw)) (rev (ks_budgets ks))))"

section \<open>Lemmas\<close>

lemma resize_row_simps [simp]:
  "row_key (resize_row x row) = row_key row" "allowed (resize_row x row) = allowed row" "tightens row (resize_row x row)"
  by (simp_all add: resize_row_def Let_def tightens_def)

lemma capital_step_tightens: "tightens row (fst (capital_step kr cluster_state row budgets))"
  by (simp add: capital_step_def Let_def)

interpretation capital_guard: decision_guard "\<lambda>rows. fst (apply_capital_order_guard ks rows)"
  unfolding apply_capital_order_guard_def by (rule run_rows_guard) (rule capital_step_tightens)

lemma capital_guard_admits:
  "kv_action (evaluate_capital_order_guard n bw kr cluster_state) \<noteq> ''REJECT'' \<Longrightarrow> bw_used bw + max n 0 \<le> bw_budget bw"
  by (simp add: evaluate_capital_order_guard_def Let_def split: if_splits)

text \<open>The capital a strategy uses, and its budget, which no order changes.\<close>

definition used_capital :: "(string \<Rightarrow> budget_row option) \<Rightarrow> string \<Rightarrow> num" where
  "used_capital budgets strategy = (case budgets strategy of None \<Rightarrow> 0 | Some bw \<Rightarrow> bw_used bw)"

lemma used_of_budget: "bw_used (budget_of kr budgets strategy) = used_capital budgets strategy"
  by (simp add: budget_of_def used_capital_def get_or_def fallback_budget_def split: option.split)

lemma capital_step_cases:
  obtains "snd (snd (capital_step kr cluster_state row budgets)) = budgets" "\<not> allowed (fst (capital_step kr cluster_state row budgets))"
  | n bw where "n = order_notional (num_or (Some (kr_equity kr)) 10000) row" "bw = budget_of kr budgets (row_strategy row)"
      "kv_action (evaluate_capital_order_guard n bw kr cluster_state) \<noteq> ''REJECT''" "allowed (fst (capital_step kr cluster_state row budgets))"
      "snd (snd (capital_step kr cluster_state row budgets)) = budgets(row_strategy row \<mapsto> use_budget n bw)"
  by (cases "allowed row"; cases "kv_action (evaluate_capital_order_guard (order_notional (num_or (Some (kr_equity kr)) 10000) row)
      (budget_of kr budgets (row_strategy row)) kr cluster_state) = ''REJECT''") (simp_all add: capital_step_def Let_def)

lemma capital_step_budget:
  "bw_budget (budget_of kr (snd (snd (capital_step kr cluster_state row budgets))) strategy) = bw_budget (budget_of kr budgets strategy)"
proof (cases rule: capital_step_cases [of kr cluster_state row budgets])
  case (2 n bw)
  have "bw_budget (use_budget n bw) = bw_budget bw" by (simp add: use_budget_def Let_def)
  then show ?thesis unfolding 2(5) 2(2) by (auto simp: budget_of_def get_or_def)
qed simp

lemma capital_step_books:
  "used_capital (snd (snd (capital_step kr cluster_state row budgets))) strategy =
    (if allowed (fst (capital_step kr cluster_state row budgets)) \<and> row_strategy row = strategy
     then py_round 4 (used_capital budgets strategy + order_notional (num_or (Some (kr_equity kr)) 10000) row) else used_capital budgets strategy)"
proof (cases rule: capital_step_cases [of kr cluster_state row budgets])
  case (2 n bw)
  have "bw_used (use_budget n bw) = py_round 4 (used_capital budgets (row_strategy row) + n)"
    by (simp add: use_budget_def Let_def 2(2) used_of_budget)
  then show ?thesis using 2(4) unfolding 2(5) 2(1) by (auto simp: used_capital_def)
qed simp

lemma capital_step_within:
  assumes "used_capital budgets strategy \<le> max u (py_round 4 (bw_budget (budget_of kr budgets strategy)))"
  shows "used_capital (snd (snd (capital_step kr cluster_state row budgets))) strategy
    \<le> max u (py_round 4 (bw_budget (budget_of kr budgets strategy)))"
proof -
  let ?bw = "budget_of kr budgets (row_strategy row)" and ?n = "order_notional (num_or (Some (kr_equity kr)) 10000) row"
  have "py_round 4 (used_capital budgets strategy + ?n) \<le> py_round 4 (bw_budget ?bw)"
    if "allowed (fst (capital_step kr cluster_state row budgets))" "row_strategy row = strategy"
  proof -
    have "kv_action (evaluate_capital_order_guard ?n ?bw kr cluster_state) \<noteq> ''REJECT''"
      using that(1) by (cases rule: capital_step_cases [of kr cluster_state row budgets]) simp_all
    from capital_guard_admits [OF this] have "used_capital budgets strategy + ?n \<le> bw_budget ?bw"
      using that(2) by (simp add: used_of_budget)
    then show ?thesis by (rule py_round_mono)
  qed
  then show ?thesis using assms unfolding capital_step_books by (auto intro: max.coboundedI2)
qed

section \<open>Properties\<close>

text \<open>
  C28: A strategy never uses more than its budget. After all rows of a cycle the capital a strategy uses is
  what it used before with the notional of each of its admitted orders added, and that is at most its
  budget, to four decimals, or what it had used before the cycle: the admitted orders never exceed the
  budget. An order counts with the notional it asked for, also when its size is reduced.
\<close>

theorem strategy_stays_within_budget:
  "case apply_capital_order_guard ks rows of (adjusted, rejected, budgets) \<Rightarrow>
     (let kr = ks_registry ks; start = map_of (map (\<lambda>bw. (bw_strategy_id bw, bw)) (rev (ks_budgets ks)));
          orders = admitted_orders (\<lambda>row. row_strategy row = strategy) rows adjusted
      in used_capital budgets strategy =
           running_total (used_capital start strategy) (map (order_notional (num_or (Some (kr_equity kr)) 10000)) orders) \<and>
         used_capital budgets strategy \<le> max (used_capital start strategy) (py_round 4 (bw_budget (budget_of kr start strategy))))"
proof -
  let ?kr = "ks_registry ks" and ?start = "map_of (map (\<lambda>bw. (bw_strategy_id bw, bw)) (rev (ks_budgets ks)))"
  let ?step = "capital_step ?kr (str_or (Some (ks_cluster_state ks)) ''NORMAL'')"
  let ?run = "run_rows ?step rows ?start" and ?budget = "bw_budget (budget_of ?kr ?start strategy)"
  let ?P = "\<lambda>budgets. bw_budget (budget_of ?kr budgets strategy) = ?budget \<and>
    used_capital budgets strategy \<le> max (used_capital ?start strategy) (py_round 4 ?budget)"
  have "?P (snd (snd ?run))"
  proof (rule run_rows_invariant [of ?P])
    show "?P (snd (snd (?step row budgets)))" if "?P budgets" for row budgets
      using that capital_step_within [of budgets strategy "used_capital ?start strategy" ?kr] capital_step_budget by simp
  qed simp
  moreover have "used_capital (snd (snd ?run)) strategy =
      running_total (used_capital ?start strategy) (map (order_notional (num_or (Some (kr_equity ?kr)) 10000))
        (admitted_orders (\<lambda>row. row_strategy row = strategy) rows (fst ?run)))"
    by (rule run_rows_total [where I = "\<lambda>_. True" and g = "\<lambda>budgets. used_capital budgets strategy"]) (simp_all add: capital_step_books)
  ultimately show ?thesis unfolding apply_capital_order_guard_def case_prod_beta Let_def by simp
qed

text \<open>
  With five or more strategies no order keeps its size. Each is allocated a fifth of the
  equity, so nothing is left as available capital, and the guard answers every order of a positive
  notional with a rejection or with at most half of its size.
\<close>

theorem five_strategies_leave_no_capital:
  assumes "5 \<le> length strategy_ids" and "0 < notional"
    and "ks = capital_snapshot_of equity used_margin strategy_ids last_rows previous_usage cluster_state"
    and "kv = evaluate_capital_order_guard notional bw (ks_registry ks) cluster_state'"
  shows "kr_available (ks_registry ks) = 0 \<and> kv_action kv \<in> set [''REJECT'', ''REDUCE_SIZE''] \<and> kv_multiplier kv \<le> 1 / 2"
proof -
  have "(5::num) \<le> of_nat (length strategy_ids)" using assms(1) by (metis of_nat_le_iff of_nat_numeral)
  then have "min 1 (of_nat (length strategy_ids) * (2 / 10)) = (1::num)" by simp
  then have "max (max equity 0 - max used_margin 0 - max (equity * min 1 (of_nat (length strategy_ids) * (2 / 10))) 0) 0 = 0"
    by (simp add: max_def)
  then have available: "kr_available (ks_registry ks) = 0"
    by (simp add: assms(3) capital_snapshot_of_def Let_def build_portfolio_capital_registry_def)
  have half: "py_round 4 (1 / 2) = 1 / 2" by (rule py_round_on_grid) (simp add: on_grid_def)
  show ?thesis
    using available assms(2) half by (simp add: assms(4) evaluate_capital_order_guard_def Let_def)
qed

theorem five_strategies_leave_no_capital_witness:
  "kr_available (ks_registry (capital_snapshot_of 10000 0 [''a'', ''b'', ''c'', ''d'', ''e''] [] (\<lambda>_. None) ''NORMAL'')) = 0"
  by (rule five_strategies_leave_no_capital [where notional = 1, OF _ _ refl refl, THEN conjunct1]) simp_all

end
