(* ===== verification/Tail_Risk.thy ===== *)
theory Tail_Risk
  imports Decision_Rows
begin

text \<open>
  The tail risk of the market: the modules of \<open>core/risk/tail_risk/\<close>, and the snapshot, the global
  score and the guard over the rows of a cycle in \<open>services/futures_tail_risk_service.py\<close>. The
  metrics, the health of the strategies and the states of cluster and capital risk are arguments.
\<close>

section \<open>Detectors\<close>

record tail_metrics =
  tm_volatility_pct :: "num option"
  tm_liquidation_pressure :: "num option"
  tm_liquidity_depth :: "num option"
  tm_spread_bps :: "num option"
  tm_price_drop :: "num option"
  tm_liquidation_spike :: "num option"
  tm_funding_anomaly :: "num option"
  tm_atr_ratio :: "num option"
  tm_price_delta :: "num option"
  tm_volatility_percentile :: "num option"
  tm_api_latency :: "num option"
  tm_ack_delay :: "num option"
  tm_reject_rate :: "num option"
  tm_heartbeat_age :: "num option"
  tm_fallback :: bool

record tail_score =
  tl_volatility :: num
  tl_liquidation :: num
  tl_liquidity :: num
  tl_spread :: num
  tl_score :: num
  tl_fallback :: bool

definition compute_tail_risk_score :: "tail_metrics \<Rightarrow> tail_score" where
  "compute_tail_risk_score tm =
     (let volatility = clamp 0 100 (num_or (tm_volatility_pct tm) 0 * (95 / 10));
          liquidation = clamp 0 100 (num_or (tm_liquidation_pressure tm) 0 * 100);
          liquidity = clamp 0 100 ((1 - num_or (tm_liquidity_depth tm) 0) * 100);
          spread = clamp 0 100 (num_or (tm_spread_bps tm) 0 * (9 / 10));
          score = volatility * (32 / 100) + liquidation * (28 / 100) + liquidity * (22 / 100) + spread * (18 / 100)
      in \<lparr>tl_volatility = py_round 2 volatility, tl_liquidation = py_round 2 liquidation,
          tl_liquidity = py_round 2 liquidity, tl_spread = py_round 2 spread,
          tl_score = py_round 2 (clamp 0 100 (if tm_fallback tm then max score 62 else score)),
          tl_fallback = tm_fallback tm\<rparr>)"

record tail_alert =
  ta_event :: string
  ta_severity :: string
  ta_reasons :: "string list"

record tail_detection =
  td_active :: bool
  td_severity :: string
  td_reasons :: "string list"
  td_size_multiplier :: num
  td_event :: "tail_alert option"

text \<open>A detector is active with two reasons or more.\<close>

definition detection :: "string \<Rightarrow> string \<Rightarrow> num \<Rightarrow> string list \<Rightarrow> tail_detection" where
  "detection event severity multiplier reasons =
     (let active = 2 \<le> length reasons
      in \<lparr>td_active = active, td_severity = severity, td_reasons = reasons,
          td_size_multiplier = (if active then multiplier else 1),
          td_event = (if active then Some \<lparr>ta_event = event, ta_severity = severity, ta_reasons = reasons\<rparr> else None)\<rparr>)"

definition count_severity :: "string list \<Rightarrow> string" where
  "count_severity reasons = (if 3 \<le> length reasons then ''HIGH'' else if 2 \<le> length reasons then ''MEDIUM'' else ''INFO'')"

definition detect_liquidation_cascade :: "tail_metrics \<Rightarrow> tail_detection" where
  "detect_liquidation_cascade tm =
     (let reasons = collect
        [(num_or (tm_price_drop tm) 0 \<le> - 3, ''RAPID_PRICE_DROP''),
         (22 / 10 \<le> num_or (tm_liquidation_spike tm) 0, ''LIQUIDATION_VOLUME_SPIKE''),
         (2 / 100 \<le> \<bar>num_or (tm_funding_anomaly tm) 0\<bar>, ''FUNDING_RATE_ANOMALY'')]
      in detection ''LIQUIDATION_CASCADE_ALERT'' (count_severity reasons) (45 / 100) reasons)"

definition detect_extreme_volatility :: "tail_metrics \<Rightarrow> tail_detection" where
  "detect_extreme_volatility tm =
     (let reasons = collect
        [(22 / 10 \<le> num_or (tm_atr_ratio tm) 0, ''ATR_EXPLOSION''),
         (28 / 10 \<le> \<bar>num_or (tm_price_delta tm) 0\<bar>, ''PRICE_DELTA_ANOMALY''),
         (92 / 100 \<le> num_or (tm_volatility_percentile tm) 0, ''VOLATILITY_PERCENTILE_SPIKE'')]
      in detection ''EXTREME_VOLATILITY_ALERT'' (count_severity reasons) (6 / 10) reasons)"

definition evaluate_exchange_health :: "tail_metrics \<Rightarrow> tail_detection" where
  "evaluate_exchange_health tm =
     (let reasons = collect
        [(1200 \<le> num_or (tm_api_latency tm) 0, ''API_LATENCY_SPIKE''),
         (1500 \<le> num_or (tm_ack_delay tm) 0, ''ACK_DELAY_SPIKE''),
         (25 / 100 \<le> num_or (tm_reject_rate tm) 0, ''ORDER_REJECT_ANOMALY''),
         (30 \<le> num_or (tm_heartbeat_age tm) 0, ''HEARTBEAT_TIMEOUT'')]
      in detection ''EXCHANGE_HEALTH_ALERT''
           (if ''HEARTBEAT_TIMEOUT'' \<in> set reasons then ''CRITICAL'' else if 2 \<le> length reasons then ''HIGH'' else ''INFO'')
           1 reasons)"

text \<open>\<open>trade_pause\<close> of the exchange health: set exactly when it is active.\<close>

definition trade_pause :: "tail_detection \<Rightarrow> bool" where
  "trade_pause td \<longleftrightarrow> td_active td"

section \<open>The tail risk snapshot\<close>

record tail_snapshot =
  tn_score :: num
  tn_risk_state :: string
  tn_alerts :: "tail_alert list"
  tn_exchange :: tail_detection
  tn_history :: "num list"

definition futures_tail_risk :: "tail_metrics \<Rightarrow> num list \<Rightarrow> tail_snapshot" where
  "futures_tail_risk tm history =
     (let score = tl_score (compute_tail_risk_score tm); cascade = detect_liquidation_cascade tm;
          volatility = detect_extreme_volatility tm; exchange = evaluate_exchange_health tm;
          extended = history @ [score]
      in \<lparr>tn_score = score,
          tn_risk_state = (if 80 < score \<or> td_active exchange then ''HIGH''
            else if 60 < score \<or> td_active cascade \<or> td_active volatility then ''ELEVATED'' else ''NORMAL''),
          tn_alerts = concat (map (\<lambda>td. case td_event td of None \<Rightarrow> [] | Some e \<Rightarrow> [e]) [cascade, volatility, exchange]),
          tn_exchange = exchange,
          tn_history = drop (length extended - 120) extended\<rparr>)"

section \<open>The global score\<close>

definition cluster_score :: "string option \<Rightarrow> num" where
  "cluster_score state = (if upper_or state ''NORMAL'' = ''ALERT'' then 78 else 22)"

definition capital_score :: "string option \<Rightarrow> num" where
  "capital_score state = (if upper_or state ''NORMAL'' = ''ALERT'' then 82 else 24)"

definition DEFAULT_WEIGHTS :: "(string \<times> num) list" where
  "DEFAULT_WEIGHTS = [(''strategy'', 25 / 100), (''cluster'', 25 / 100), (''capital'', 20 / 100), (''tail_risk'', 30 / 100)]"

definition weight_of :: "(string \<times> num) list \<Rightarrow> string \<Rightarrow> num" where
  "weight_of weights k = get_or (map_of (if weights = [] then DEFAULT_WEIGHTS else weights) k) (get_or (map_of DEFAULT_WEIGHTS k) 0)"

definition global_score :: "(string \<times> num) list \<Rightarrow> num \<Rightarrow> string option \<Rightarrow> string option \<Rightarrow> num \<Rightarrow> num" where
  "global_score weights health cluster_state capital_state tail =
     max 0 (min 100 (100 - health)) * weight_of weights ''strategy''
     + cluster_score cluster_state * weight_of weights ''cluster''
     + capital_score capital_state * weight_of weights ''capital''
     + max 0 (min 100 tail) * weight_of weights ''tail_risk''"

definition global_state :: "num \<Rightarrow> string" where
  "global_state score =
     (if 90 < score then ''PAUSE'' else if 80 < score then ''THROTTLE'' else if 60 < score then ''DOWNSHIFT'' else ''NORMAL'')"

definition global_events :: "string \<Rightarrow> string list" where
  "global_events state =
     (if state = ''PAUSE'' then [''TRADE_ENGINE_PAUSED''] else if state = ''THROTTLE'' then [''GLOBAL_RISK_THROTTLE'']
      else if state = ''DOWNSHIFT'' then [''GLOBAL_RISK_ALERT''] else [])"

record global_risk =
  gk_score :: num
  gk_state :: string
  gk_events :: "string list"

definition compute_global_risk_score :: "(string \<times> num) list \<Rightarrow> num \<Rightarrow> string option \<Rightarrow> string option \<Rightarrow> num \<Rightarrow> global_risk" where
  "compute_global_risk_score weights health cluster_state capital_state tail =
     (let score = global_score weights health cluster_state capital_state tail; state = global_state score
      in \<lparr>gk_score = py_round 2 score, gk_state = state, gk_events = global_events state\<rparr>)"

text \<open>\<open>get_futures_global_risk\<close>: without health rows the average is 50.\<close>

definition average_health :: "num list \<Rightarrow> num" where
  "average_health scores = (if scores = [] then 50 else sum_list scores / of_nat (length scores))"

definition futures_global_risk :: "num list \<Rightarrow> string option \<Rightarrow> string option \<Rightarrow> tail_snapshot \<Rightarrow> global_risk" where
  "futures_global_risk health_scores cluster_state capital_state tn =
     (let gk = compute_global_risk_score DEFAULT_WEIGHTS (average_health health_scores) (Some (str_or cluster_state ''NORMAL''))
            (Some (str_or capital_state ''NORMAL'')) (tn_score tn)
      in gk\<lparr>gk_events := map ta_event (tn_alerts tn) @ gk_events gk\<rparr>)"

section \<open>The order guard\<close>

record tail_verdict =
  tv_action :: string
  tv_size_multiplier :: num
  tv_pause :: bool
  tv_reasons :: "string list"

definition evaluate_tail_risk_order_guard :: "string option \<Rightarrow> string list \<Rightarrow> tail_verdict" where
  "evaluate_tail_risk_order_guard risk_state active_alerts =
     (let state = upper_or risk_state ''NORMAL''; verdict = (\<lambda>action m. \<lparr>tv_action = action, tv_size_multiplier = m, tv_pause = False, tv_reasons = []\<rparr>)
      in if state = ''PAUSE''
         then \<lparr>tv_action = ''REJECT'', tv_size_multiplier = 0, tv_pause = True,
               tv_reasons = (if active_alerts = [] then [''TRADE_ENGINE_PAUSED''] else active_alerts)\<rparr>
         else if state = ''THROTTLE'' then verdict ''REDUCE_SIZE'' (45 / 100)
         else if state = ''DOWNSHIFT'' then verdict ''REDUCE_SIZE'' (7 / 10)
         else verdict ''ALLOW'' 1)"

definition tail_decide :: "tail_verdict \<Rightarrow> decision_row \<Rightarrow> decision_row" where
  "tail_decide tv row =
     (if \<not> allowed row then row
      else if tv_action tv = ''REJECT'' then reject_row ''TAIL_RISK'' ''TAIL_RISK_TRADE_REJECTED'' row
      else if tv_action tv = ''REDUCE_SIZE''
      then add_reason ''TAIL_RISK_SIZE_REDUCED''
        (row\<lparr>dr_size := Some (py_round 4 (max (5 / 100) (row_size row * num_or (Some (tv_size_multiplier tv)) 1)))\<rparr>)
      else row)"

definition apply_tail_risk_order_guard :: "global_risk \<Rightarrow> decision_row list \<Rightarrow> decision_row list" where
  "apply_tail_risk_order_guard gk =
     map (tail_decide (evaluate_tail_risk_order_guard (Some (str_or (Some (gk_state gk)) ''NORMAL'')) (gk_events gk)))"

section \<open>Lemmas\<close>

lemma tail_decide_tightens [simp]: "tightens row (tail_decide tv row)"
  by (simp add: tail_decide_def tightens_def)

interpretation tail_guard: decision_guard "apply_tail_risk_order_guard gk"
  by (rule rowwise_guard) (simp add: apply_tail_risk_order_guard_def list.rel_map list_all2_same)

lemma default_weights [simp]:
  "weight_of DEFAULT_WEIGHTS ''strategy'' = 1 / 4" "weight_of DEFAULT_WEIGHTS ''cluster'' = 1 / 4"
  "weight_of DEFAULT_WEIGHTS ''capital'' = 1 / 5" "weight_of DEFAULT_WEIGHTS ''tail_risk'' = 3 / 10"
  by (simp_all add: weight_of_def DEFAULT_WEIGHTS_def)

lemma state_scores: "cluster_score c \<in> {22, 78}" "capital_score k \<in> {24, 82}"
  by (simp_all add: cluster_score_def capital_score_def)

lemma futures_global_state:
  "gk_state (futures_global_risk scores c k tn) =
     global_state (global_score DEFAULT_WEIGHTS (average_health scores) (Some (str_or c ''NORMAL'')) (Some (str_or k ''NORMAL'')) (tn_score tn))"
  by (simp add: futures_global_risk_def compute_global_risk_score_def Let_def)

lemma global_state_cases:
  "global_state s = ''PAUSE'' \<longleftrightarrow> 90 < s" "global_state s = ''NORMAL'' \<longleftrightarrow> s \<le> 60"
  by (auto simp: global_state_def)

section \<open>Properties\<close>

text \<open>
  Tail risk alone never touches an order. While neither the clusters nor the capital are in
  \<open>ALERT\<close> and the average health of the strategies is at least 21.2, every order passes the guard
  as it is, whatever the market metrics: a tail risk score of 100, a detected cascade or an
  exchange outage with its \<open>trade_pause\<close> changes nothing.
\<close>

theorem tail_risk_alone_is_ignored:
  assumes "upper_or cluster_state ''NORMAL'' \<noteq> ''ALERT''" and "upper_or capital_state ''NORMAL'' \<noteq> ''ALERT''"
    and "212 / 10 \<le> average_health health_scores"
  shows "apply_tail_risk_order_guard
      (futures_global_risk health_scores cluster_state capital_state (futures_tail_risk tm history)) rows = rows"
proof -
  let ?gk = "futures_global_risk health_scores cluster_state capital_state (futures_tail_risk tm history)"
  have norm: "upper_or (Some (str_or v ''NORMAL'')) ''NORMAL'' = upper_or v ''NORMAL''" for v
    by (simp add: upper_or_def str_or_def split: option.splits)
  have "max 0 (min 100 (100 - average_health health_scores)) \<le> 788 / 10"
    using assms(3) by (intro max.boundedI min.coboundedI2) simp_all
  moreover have "max 0 (min 100 (tn_score (futures_tail_risk tm history))) \<le> 100" by simp
  ultimately have "gk_state ?gk = ''NORMAL''"
    using assms(1,2)
    unfolding futures_global_state global_state_cases global_score_def cluster_score_def capital_score_def norm default_weights if_False
    by simp
  moreover have "upper_or (Some ''NORMAL'') ''NORMAL'' = ''NORMAL''" by code_simp
  ultimately have "evaluate_tail_risk_order_guard (Some (str_or (Some (gk_state ?gk)) ''NORMAL'')) (gk_events ?gk)
      = \<lparr>tv_action = ''ALLOW'', tv_size_multiplier = 1, tv_pause = False, tv_reasons = []\<rparr>"
    by (simp add: evaluate_tail_risk_order_guard_def Let_def)
  then have "tail_decide (evaluate_tail_risk_order_guard (Some (str_or (Some (gk_state ?gk)) ''NORMAL'')) (gk_events ?gk)) = (\<lambda>row. row)"
    by (simp add: tail_decide_def fun_eq_iff)
  then show ?thesis by (simp only: apply_tail_risk_order_guard_def list.map_ident)
qed

definition outage_metrics :: tail_metrics where
  "outage_metrics = \<lparr>tm_volatility_pct = Some 20, tm_liquidation_pressure = Some 1, tm_liquidity_depth = None,
     tm_spread_bps = Some 200, tm_price_drop = Some (- 10), tm_liquidation_spike = Some 5, tm_funding_anomaly = Some 1,
     tm_atr_ratio = Some 5, tm_price_delta = Some 10, tm_volatility_percentile = Some 1, tm_api_latency = Some 9000,
     tm_ack_delay = Some 9000, tm_reject_rate = Some 1, tm_heartbeat_age = Some 600, tm_fallback = False\<rparr>"

theorem tail_risk_alone_is_ignored_witness:
  "trade_pause (evaluate_exchange_health outage_metrics) \<and>
   apply_tail_risk_order_guard (futures_global_risk [] None None (futures_tail_risk outage_metrics [])) [] = []"
  using tail_risk_alone_is_ignored [of None None "[]" outage_metrics "[]" "[]"]
  by (simp add: trade_pause_def evaluate_exchange_health_def outage_metrics_def detection_def Let_def average_health_def
      upper_or_def upper_def upper_char_def)

text \<open>
  The trade engine pauses only when everything fails at once: the clusters and the capital are
  in \<open>ALERT\<close>, the tail risk score is above 97 and the average health of the strategies is below 3.6.
\<close>

theorem pause_needs_every_alarm:
  assumes "gk_state (futures_global_risk health_scores cluster_state capital_state tn) = ''PAUSE''"
  shows "upper_or cluster_state ''NORMAL'' = ''ALERT'' \<and> upper_or capital_state ''NORMAL'' = ''ALERT'' \<and>
    97 < tn_score tn \<and> average_health health_scores < 36 / 10"
proof -
  let ?c = "Some (str_or cluster_state ''NORMAL'')" and ?k = "Some (str_or capital_state ''NORMAL'')"
  let ?s = "max 0 (min 100 (100 - average_health health_scores))" and ?t = "max 0 (min 100 (tn_score tn))"
  have norm: "upper_or (Some (str_or v ''NORMAL'')) ''NORMAL'' = upper_or v ''NORMAL''" for v
    by (simp add: upper_or_def str_or_def split: option.splits)
  have bounds: "?s \<le> 100" "?t \<le> 100" by simp_all
  have sum: "90 < ?s / 4 + cluster_score ?c / 4 + capital_score ?k / 5 + 3 * ?t / 10"
    using assms unfolding futures_global_state global_state_cases by (simp add: global_score_def)
  have high: "cluster_score ?c = 78" "capital_score ?k = 82"
    using state_scores(1) [of ?c] state_scores(2) [of ?k] sum bounds by (auto, linarith+)
  have "97 < ?t" "964 / 10 < ?s" using sum bounds unfolding high by linarith+
  then have "97 < tn_score tn" "average_health health_scores < 36 / 10" unfolding max_def min_def by (simp_all split: if_splits)
  with high show ?thesis
    by (auto simp: norm cluster_score_def capital_score_def split: if_splits)
qed

theorem pause_needs_every_alarm_witness:
  "(97::num) < 99 \<and> average_health [1, 2] < 36 / 10"
proof -
  let ?tn = "\<lparr>tn_score = 99, tn_risk_state = ''HIGH'', tn_alerts = [], tn_exchange = evaluate_exchange_health outage_metrics, tn_history = []\<rparr>"
  have "upper_or (Some ''ALERT'') ''NORMAL'' = ''ALERT''" by code_simp
  then have "gk_state (futures_global_risk [1, 2] (Some ''ALERT'') (Some ''ALERT'') ?tn) = ''PAUSE''"
    unfolding futures_global_state global_state_cases
    by (simp add: global_score_def cluster_score_def capital_score_def average_health_def)
  from pause_needs_every_alarm [OF this] show ?thesis by simp
qed

end
