(* ===== verification/Live_Integrity.thy ===== *)
theory Live_Integrity
  imports Decision_Rows
begin

text \<open>
  Comparing the engine with the exchange: the modules of \<open>core/live/\<close> and the guard over the rows of
  a cycle in \<open>services/futures_live_readiness_service.py\<close>. What the engine and the exchange report
  are arguments, and so is the verdict of the go-live validator, which the guard reads.
\<close>

section \<open>Positions\<close>

record live_position =
  lp_symbol :: "string option"
  lp_size :: "num option"
  lp_entry_price :: "num option"
  lp_leverage :: "num option"
  lp_pnl :: "num option"

definition lp_key :: "live_position \<Rightarrow> string" where
  "lp_key p = upper_or (lp_symbol p) []"

definition differs :: "num option \<Rightarrow> num option \<Rightarrow> bool" where
  "differs a b \<longleftrightarrow> 1 / 1000000 < \<bar>num_or a 0 - num_or b 0\<bar>"

definition position_mismatches :: "live_position \<Rightarrow> live_position \<Rightarrow> string list" where
  "position_mismatches engine exchange = collect
     [(differs (lp_size engine) (lp_size exchange), ''position_size''),
      (differs (lp_entry_price engine) (lp_entry_price exchange), ''entry_price''),
      (differs (lp_leverage engine) (lp_leverage exchange), ''leverage''),
      (differs (lp_pnl engine) (lp_pnl exchange), ''unrealized_pnl'')]"

record position_drift =
  pf_symbol :: string
  pf_reason :: string
  pf_fields :: "string list"

text \<open>The exchange rows by symbol; of two rows of a symbol the dictionary keeps the last.\<close>

definition exchange_position :: "live_position list \<Rightarrow> string \<Rightarrow> live_position option" where
  "exchange_position exchange symbol = map_of (map (\<lambda>p. (lp_key p, p)) (rev exchange)) symbol"

definition drift_of_position :: "live_position list \<Rightarrow> live_position \<Rightarrow> position_drift option" where
  "drift_of_position exchange engine =
     (case exchange_position exchange (lp_key engine) of
        None \<Rightarrow> Some \<lparr>pf_symbol = lp_key engine, pf_reason = ''MISSING_ON_EXCHANGE'', pf_fields = []\<rparr>
      | Some p \<Rightarrow>
          let fields = position_mismatches engine p
          in if fields = [] then None else Some \<lparr>pf_symbol = lp_key engine, pf_reason = ''FIELD_MISMATCH'', pf_fields = fields\<rparr>)"

record position_sync =
  pn_state :: string
  pn_drifts :: "position_drift list"
  pn_corrections :: "(string \<times> live_position) list"

definition reconcile_position_state :: "live_position list \<Rightarrow> live_position list \<Rightarrow> position_sync" where
  "reconcile_position_state engine exchange =
     (let drifts = List.map_filter (drift_of_position exchange) engine
      in \<lparr>pn_state = (if exchange = [] then if engine = [] then ''SYNCED'' else ''UNVERIFIED''
            else if drifts \<noteq> [] then ''DRIFT'' else ''SYNCED''),
          pn_drifts = drifts,
          pn_corrections = List.map_filter (\<lambda>p. case exchange_position exchange (lp_key p) of None \<Rightarrow> None
            | Some q \<Rightarrow> if position_mismatches p q = [] then None else Some (lp_key p, q)) engine\<rparr>)"

section \<open>Orders\<close>

text \<open>An order with its fields as \<open>str\<close> renders them.\<close>

record live_order =
  lo_order_id :: "string option"
  lo_text :: "string \<Rightarrow> string"

definition lo_id :: "live_order \<Rightarrow> string" where
  "lo_id ord = str_or (lo_order_id ord) []"

definition compared_fields :: "string list" where
  "compared_fields = [''symbol'', ''side'', ''price'', ''quantity'', ''status'']"

record order_issue =
  oi_order_id :: string
  oi_issue :: string
  oi_fields :: "string list"

definition order_mismatches :: "live_order \<Rightarrow> live_order \<Rightarrow> string list" where
  "order_mismatches engine exchange = filter (\<lambda>field. lo_text engine field \<noteq> lo_text exchange field) compared_fields"

definition issues_of_order :: "live_order list \<Rightarrow> live_order \<Rightarrow> order_issue list" where
  "issues_of_order exchange engine =
     (let issue = (\<lambda>kind fields. \<lparr>oi_order_id = lo_id engine, oi_issue = kind, oi_fields = fields\<rparr>) in
      case filter (\<lambda>ord. lo_id ord = lo_id engine) exchange of
        [] \<Rightarrow> [issue ''MISSING_ORDER'' []]
      | first # rest \<Rightarrow>
          (if rest = [] then [] else [issue ''DUPLICATE_ORDER'' []]) @
          (let fields = order_mismatches engine first in if fields = [] then [] else [issue ''EXECUTION_MISMATCH'' fields]))"

definition correction_of_order :: "live_order list \<Rightarrow> live_order \<Rightarrow> (string \<times> live_order) option" where
  "correction_of_order exchange engine =
     (case filter (\<lambda>ord. lo_id ord = lo_id engine) exchange of
        [] \<Rightarrow> None
      | first # rest \<Rightarrow> if order_mismatches engine first = [] then None else Some (lo_id engine, first))"

record order_sync =
  os_state :: string
  os_issues :: "order_issue list"
  os_corrections :: "(string \<times> live_order) list"

definition reconcile_order_state :: "live_order list \<Rightarrow> live_order list \<Rightarrow> order_sync" where
  "reconcile_order_state engine exchange =
     (let issues = concat (map (issues_of_order exchange) engine)
      in \<lparr>os_state = (if exchange = [] then if engine = [] then ''RECONCILED'' else ''UNVERIFIED''
            else if issues \<noteq> [] then ''ERROR'' else ''RECONCILED''),
          os_issues = issues, os_corrections = List.map_filter (correction_of_order exchange) engine\<rparr>)"

section \<open>Balance and latency\<close>

record live_balance =
  lb_wallet :: "num option"
  lb_available :: "num option"
  lb_used_margin :: "num option"

definition balance_drift :: "live_balance \<Rightarrow> live_balance \<Rightarrow> string list" where
  "balance_drift engine exchange = collect
     [(differs (lb_wallet engine) (lb_wallet exchange), ''wallet_balance''),
      (differs (lb_available engine) (lb_available exchange), ''available_balance''),
      (differs (lb_used_margin engine) (lb_used_margin exchange), ''used_margin'')]"

definition validate_balance_integrity :: "live_balance \<Rightarrow> live_balance option \<Rightarrow> string \<times> string list" where
  "validate_balance_integrity engine exchange =
     (case exchange of None \<Rightarrow> (''UNVERIFIED'', [])
      | Some b \<Rightarrow> (if balance_drift engine b = [] then ''INTACT'' else ''ALERT'', balance_drift engine b))"

record latency_metrics =
  lm_ack :: "num option"
  lm_api :: "num option"
  lm_websocket :: "num option"
  lm_heartbeat :: "num option"

definition latency_reasons :: "latency_metrics \<Rightarrow> string list" where
  "latency_reasons lm = collect
     [(1200 < num_or (lm_ack lm) 0, ''ORDER_ACK_LATENCY''), (1000 < num_or (lm_api lm) 0, ''API_RESPONSE_LATENCY''),
      (800 < num_or (lm_websocket lm) 0, ''WEBSOCKET_DELAY''), (20 < num_or (lm_heartbeat lm) 0, ''HEARTBEAT_GAP'')]"

definition evaluate_exchange_latency :: "latency_metrics \<Rightarrow> string \<times> string list" where
  "evaluate_exchange_latency lm =
     (let reasons = latency_reasons lm
      in (if 3 \<le> length reasons then ''ALERT'' else if 1 \<le> length reasons then ''ELEVATED'' else ''NORMAL'', reasons))"

section \<open>Readiness\<close>

definition STATE_SCORE_MAP :: "(string \<times> (string \<times> num) list) list" where
  "STATE_SCORE_MAP =
     [(''position_sync_state'', [(''SYNCED'', 100), (''DRIFT'', 45), (''UNVERIFIED'', 55)]),
      (''order_reconciliation_state'', [(''RECONCILED'', 100), (''ERROR'', 45), (''UNVERIFIED'', 55)]),
      (''balance_integrity_state'', [(''INTACT'', 100), (''ALERT'', 40), (''UNVERIFIED'', 55)]),
      (''exchange_latency_state'', [(''NORMAL'', 100), (''ELEVATED'', 70), (''ALERT'', 40)])]"

definition component_score :: "string \<Rightarrow> string \<Rightarrow> num" where
  "component_score k state = get_or (map_of (get_or (map_of STATE_SCORE_MAP k) []) state) 50"

definition readiness_score :: "string \<Rightarrow> string \<Rightarrow> string \<Rightarrow> string \<Rightarrow> num" where
  "readiness_score position orders balance latency =
     component_score ''position_sync_state'' position * (1 / 4) + component_score ''order_reconciliation_state'' orders * (1 / 4)
     + component_score ''balance_integrity_state'' balance * (1 / 4) + component_score ''exchange_latency_state'' latency * (1 / 4)"

definition compute_readiness_score :: "string \<Rightarrow> string \<Rightarrow> string \<Rightarrow> string \<Rightarrow> num \<times> string" where
  "compute_readiness_score position orders balance latency =
     (let score = readiness_score position orders balance latency
      in (py_round 2 score, if score < 70 then ''BLOCKED'' else if score < 85 then ''WARNING'' else ''READY''))"

record readiness_verdict =
  rv_action :: string
  rv_reject :: bool
  rv_pause :: bool
  rv_multiplier :: num

definition evaluate_live_readiness_guard :: "string option \<Rightarrow> readiness_verdict" where
  "evaluate_live_readiness_guard readiness_state =
     (if str_or readiness_state ''UNKNOWN'' \<noteq> ''READY''
      then \<lparr>rv_action = ''BLOCK'', rv_reject = True, rv_pause = True, rv_multiplier = 0\<rparr>
      else \<lparr>rv_action = ''ALLOW'', rv_reject = False, rv_pause = False, rv_multiplier = 1\<rparr>)"

text \<open>\<open>apply_live_readiness_guard_to_decisions\<close>: a payload without a guard allows.\<close>

definition apply_live_readiness_guard :: "readiness_verdict option \<Rightarrow> decision_row list \<Rightarrow> decision_row list" where
  "apply_live_readiness_guard answer =
     map (\<lambda>row. if allowed row \<and> str_or (map_option rv_action answer) ''ALLOW'' = ''BLOCK''
       then reject_row ''LIVE_READINESS'' ''LIVE_READINESS_BLOCK'' row else row)"

section \<open>Lemmas\<close>

interpretation readiness_guard: decision_guard "apply_live_readiness_guard answer"
  by (rule rowwise_guard) (simp add: apply_live_readiness_guard_def list.rel_map list_all2_same)

lemma not_ready_blocks:
  "str_or state ''UNKNOWN'' \<noteq> ''READY'' \<Longrightarrow> list_all (\<lambda>row. \<not> allowed row) (apply_live_readiness_guard (Some (evaluate_live_readiness_guard state)) rows)"
  by (auto simp: apply_live_readiness_guard_def evaluate_live_readiness_guard_def list_all_iff)

lemma sync_states:
  "pn_state (reconcile_position_state a b) \<in> set [''SYNCED'', ''DRIFT'', ''UNVERIFIED'']"
  "os_state (reconcile_order_state c d) \<in> set [''RECONCILED'', ''ERROR'', ''UNVERIFIED'']"
  "fst (validate_balance_integrity e f) \<in> set [''INTACT'', ''ALERT'', ''UNVERIFIED'']"
  "fst (evaluate_exchange_latency lm) \<in> set [''NORMAL'', ''ELEVATED'', ''ALERT'']"
  by (simp_all add: reconcile_position_state_def reconcile_order_state_def validate_balance_integrity_def
      evaluate_exchange_latency_def Let_def split: option.split)

text \<open>How many of the four checks are not clean.\<close>

definition failed_checks :: "string \<Rightarrow> string \<Rightarrow> string \<Rightarrow> string \<Rightarrow> nat" where
  "failed_checks position orders balance latency = length (filter id
     [position \<noteq> ''SYNCED'', orders \<noteq> ''RECONCILED'', balance \<noteq> ''INTACT'', latency \<noteq> ''NORMAL''])"

lemma readiness_table:
  assumes "position \<in> set [''SYNCED'', ''DRIFT'', ''UNVERIFIED'']" and "orders \<in> set [''RECONCILED'', ''ERROR'', ''UNVERIFIED'']"
    and "balance \<in> set [''INTACT'', ''ALERT'', ''UNVERIFIED'']" and "latency \<in> set [''NORMAL'', ''ELEVATED'', ''ALERT'']"
  shows "snd (compute_readiness_score position orders balance latency) = ''READY'' \<longleftrightarrow> failed_checks position orders balance latency \<le> 1"
proof -
  have "list_all (\<lambda>p. list_all (\<lambda>r. list_all (\<lambda>b. list_all (\<lambda>l.
      (snd (compute_readiness_score p r b l) = ''READY'') = (failed_checks p r b l \<le> 1))
    [''NORMAL'', ''ELEVATED'', ''ALERT'']) [''INTACT'', ''ALERT'', ''UNVERIFIED'']) [''RECONCILED'', ''ERROR'', ''UNVERIFIED''])
    [''SYNCED'', ''DRIFT'', ''UNVERIFIED'']"
    by code_simp
  with assms show ?thesis unfolding list_all_iff by blast
qed

lemma exchange_position_append:
  "symbol \<notin> lp_key ` set extra \<Longrightarrow> exchange_position (exchange @ extra) symbol = exchange_position exchange symbol"
  unfolding exchange_position_def by (force simp: map_add_def dest: map_of_SomeD split: option.split)

section \<open>Properties\<close>

text \<open>
  The integrity score tolerates one failure of any kind. The readiness state computed from the
  four checks is \<open>READY\<close> exactly when at most one of them is not clean: positions that drift,
  orders that do not reconcile, a balance alert, or a latency alert each leave it \<open>READY\<close> on
  their own, and no two of them do.
\<close>

theorem ready_with_one_failure:
  "snd (compute_readiness_score (pn_state (reconcile_position_state engine_positions exchange_positions))
     (os_state (reconcile_order_state engine_orders exchange_orders))
     (fst (validate_balance_integrity engine_balance exchange_balance))
     (fst (evaluate_exchange_latency lm))) = ''READY''
   \<longleftrightarrow> length (filter id
     [pn_state (reconcile_position_state engine_positions exchange_positions) \<noteq> ''SYNCED'',
      os_state (reconcile_order_state engine_orders exchange_orders) \<noteq> ''RECONCILED'',
      fst (validate_balance_integrity engine_balance exchange_balance) \<noteq> ''INTACT'',
      fst (evaluate_exchange_latency lm) \<noteq> ''NORMAL'']) \<le> 1"
  using readiness_table [OF sync_states] by (simp only: failed_checks_def)

text \<open>
  A position only the exchange knows is not seen. Adding to the exchange's report any
  positions in symbols the engine does not hold changes neither the state of the
  synchronisation, nor its drifts, nor its corrections.
\<close>

theorem unknown_exchange_position_is_unseen:
  assumes "exchange \<noteq> []" and "list_all (\<lambda>p. lp_key p \<notin> lp_key ` set engine) extra"
  shows "reconcile_position_state engine (exchange @ extra) = reconcile_position_state engine exchange"
proof -
  have "exchange_position (exchange @ extra) (lp_key p) = exchange_position exchange (lp_key p)" if "p \<in> set engine" for p
    by (rule exchange_position_append) (use assms(2) that in \<open>auto simp: list_all_iff, metis image_eqI\<close>)
  then have "List.map_filter (drift_of_position (exchange @ extra)) engine = List.map_filter (drift_of_position exchange) engine"
    and "pn_corrections (reconcile_position_state engine (exchange @ extra)) = pn_corrections (reconcile_position_state engine exchange)"
    by (auto simp: reconcile_position_state_def Let_def drift_of_position_def List.map_filter_def cong: filter_cong map_cong)
  with assms(1) show ?thesis by (simp add: reconcile_position_state_def Let_def)
qed

theorem unknown_exchange_position_is_unseen_witness:
  "pn_state (reconcile_position_state []
     ([\<lparr>lp_symbol = Some ''BTCUSDT'', lp_size = Some 1, lp_entry_price = Some 100, lp_leverage = Some 5, lp_pnl = None\<rparr>] @
      [\<lparr>lp_symbol = Some ''ETHUSDT'', lp_size = Some 50, lp_entry_price = Some 10, lp_leverage = Some 5, lp_pnl = None\<rparr>])) = ''SYNCED''"
  by (subst unknown_exchange_position_is_unseen) (simp_all add: reconcile_position_state_def List.map_filter_def)

end
