(* ===== verification/Portfolio_Guards.thy ===== *)
theory Portfolio_Guards
  imports Decision_Rows
begin

text \<open>
  The guards over the whole portfolio of a cycle, \<open>core/portfolio/\<close>: \<open>strategy_interaction_guard.py\<close>
  keeps one side per symbol, \<open>strategy_exposure_tracker.py\<close> admits the most confident rows within
  its limits, and \<open>strategy_attribution_engine.py\<close> attributes results to strategies. A row is
  identified by its position in the list, as the code identifies it by its object.
\<close>

section \<open>Groups\<close>

text \<open>\<open>d.setdefault(f(x), []).append(x)\<close>: the keys in the order they appear first.\<close>

definition keys_in_order :: "'k list \<Rightarrow> 'k list" where
  "keys_in_order ks = rev (remdups (rev ks))"

definition rows_with :: "('a \<Rightarrow> 'k) \<Rightarrow> 'k \<Rightarrow> 'a list \<Rightarrow> 'a list" where
  "rows_with f k xs = filter (\<lambda>x. f x = k) xs"

lemma keys_in_order_simps [simp]: "set (keys_in_order ks) = set ks" "distinct (keys_in_order ks)"
  by (simp_all add: keys_in_order_def)

lemma mset_groups_within:
  "distinct ks \<Longrightarrow> mset (concat (map (\<lambda>k. rows_with f k xs) ks)) = filter_mset (\<lambda>x. f x \<in> set ks) (mset xs)"
  by (induction ks) (auto simp: rows_with_def multiset_eq_iff)

lemma mset_groups:
  assumes "distinct ks" and "f ` set xs \<subseteq> set ks"
  shows "mset (concat (map (\<lambda>k. rows_with f k xs) ks)) = mset xs"
  unfolding mset_groups_within [OF assms(1)] filter_mset_eq_conv using assms(2) by auto

lemma list_all2_source: "list_all2 P xs ys \<Longrightarrow> y \<in> set ys \<Longrightarrow> \<exists>x \<in> set xs. P x y"
  by (metis in_set_conv_nth list_all2_conv_all_nth)

section \<open>One side per symbol\<close>

type_synonym indexed_row = "nat \<times> decision_row"

definition row_symbol :: "decision_row \<Rightarrow> string" where
  "row_symbol row = upper_or (dr_symbol row) ''UNKNOWN''"

definition keep_only :: "nat set \<Rightarrow> string \<Rightarrow> indexed_row list \<Rightarrow> decision_row list" where
  "keep_only keep reason rows = map (\<lambda>(i, row). if i \<in> keep \<or> \<not> allowed row then row else reject_row ''GATE'' reason row) rows"

definition on_side :: "string \<Rightarrow> indexed_row list \<Rightarrow> indexed_row list" where
  "on_side side = filter (\<lambda>(i, row). dr_side row = Some side)"

definition interaction_group :: "nat \<Rightarrow> indexed_row list \<Rightarrow> decision_row list" where
  "interaction_group limit rows =
     (let candidates = filter (\<lambda>(i, row). allowed row) rows;
          longs = on_side ''LONG'' candidates; shorts = on_side ''SHORT'' candidates
      in if candidates = [] then map snd rows
         else if longs \<noteq> [] \<and> shorts \<noteq> []
         then keep_only {fst (arg_max_list (\<lambda>(i, row). row_confidence row) (hd candidates) (tl candidates))}
                ''STRATEGY_INTERACTION_CONFLICT'' rows
         else let same_side = (if longs \<noteq> [] then longs else shorts);
                  ordered = sort_desc (\<lambda>(i, row). row_confidence row) same_side
              in keep_only (fst ` set (take limit ordered)) ''STRATEGY_INTERACTION_STACKED'' rows)"

definition symbol_group :: "string \<Rightarrow> decision_row list \<Rightarrow> indexed_row list" where
  "symbol_group symbol rows = rows_with (\<lambda>(i, row). row_symbol row) symbol (enumerate 0 rows)"

text \<open>The guard is constructed with a limit of at least one row per symbol and side.\<close>

definition apply_interaction_guard :: "int \<Rightarrow> decision_row list \<Rightarrow> decision_row list" where
  "apply_interaction_guard max_same_side rows =
     concat (map (\<lambda>symbol. interaction_group (nat (max 1 max_same_side)) (symbol_group symbol rows))
       (keys_in_order (map row_symbol rows)))"

lemma keep_only_tightens: "list_all2 tightens (map snd rows) (keep_only keep reason rows)"
  by (auto simp: keep_only_def list.rel_map list_all2_same)

lemma interaction_group_tightens: "list_all2 tightens (map snd rows) (interaction_group limit rows)"
  by (simp add: interaction_group_def Let_def keep_only_tightens [unfolded list_all2_map1] list_all2_map1 list_all2_map2 list_all2_same)

lemma map_snd_group: "map snd (symbol_group symbol rows) = rows_with row_symbol symbol rows"
proof -
  have "map snd (filter (\<lambda>x. P (snd x)) (enumerate n xs)) = filter P xs" for P :: "decision_row \<Rightarrow> bool" and n xs
    by (induction xs arbitrary: n) simp_all
  then show ?thesis by (simp add: symbol_group_def rows_with_def split_def)
qed

lemma interaction_tightens:
  "list_all2 tightens (concat (map (\<lambda>symbol. rows_with row_symbol symbol rows) ks))
     (concat (map (\<lambda>symbol. interaction_group limit (symbol_group symbol rows)) ks))"
  by (induction ks) (auto intro!: list_all2_appendI simp: interaction_group_tightens map_snd_group [symmetric])

interpretation interaction_guard: decision_guard "apply_interaction_guard max_same_side"
proof
  fix rows
  let ?ks = "keys_in_order (map row_symbol rows)"
  let ?groups = "concat (map (\<lambda>symbol. rows_with row_symbol symbol rows) ?ks)"
  have perm: "mset ?groups = mset rows" by (rule mset_groups) simp_all
  note tight = rowwise_keys [OF interaction_tightens [of rows ?ks "nat (max 1 max_same_side)"], folded apply_interaction_guard_def]
  have "mset (map row_key (apply_interaction_guard max_same_side rows)) = image_mset row_key (mset ?groups)"
    by (simp only: tight(1) mset_map)
  then show "mset (map row_key (apply_interaction_guard max_same_side rows)) = mset (map row_key rows)"
    by (simp only: perm mset_map)
  have "mset (map row_key (filter allowed ?groups)) = mset (map row_key (filter allowed rows))"
    by (simp only: mset_map mset_filter perm)
  with tight(2) show "mset (map row_key (filter allowed (apply_interaction_guard max_same_side rows)))
      \<subseteq># mset (map row_key (filter allowed rows))" by simp
qed

text \<open>What is left of a group.\<close>

lemma keep_only_allowed:
  "filter allowed (keep_only keep reason rows) = map snd (filter (\<lambda>(i, row). allowed row \<and> i \<in> keep) rows)"
  by (induction rows) (auto simp: keep_only_def split: if_splits)

lemma filter_index_length:
  assumes "distinct (map fst rows)" and "finite keep"
  shows "length (filter (\<lambda>(i, row). P row \<and> i \<in> keep) rows) \<le> card keep"
proof -
  have "distinct (map fst (filter (\<lambda>(i, row). P row \<and> i \<in> keep) rows))"
    using assms(1) by (rule distinct_map_filter)
  then have "length (filter (\<lambda>(i, row). P row \<and> i \<in> keep) rows) = card (fst ` set (filter (\<lambda>(i, row). P row \<and> i \<in> keep) rows))"
    by (metis distinct_card length_map list.set_map)
  also have "\<dots> \<le> card keep" by (rule card_mono [OF assms(2)]) auto
  finally show ?thesis .
qed

lemma kept_index:
  "row \<in> set (map snd (filter (\<lambda>(i, row). P row \<and> i \<in> keep) rows)) \<Longrightarrow> \<exists>i. (i, row) \<in> set rows \<and> i \<in> keep"
  by auto

lemma card_image_take: "card (f ` set (take n xs)) \<le> n"
proof -
  have "card (f ` set (take n xs)) \<le> card (set (take n xs))" by (rule card_image_le) simp
  also have "\<dots> \<le> length (take n xs)" by (rule card_length)
  finally show ?thesis by simp
qed

definition one_sided :: "nat \<Rightarrow> decision_row list \<Rightarrow> bool" where
  "one_sided limit rows \<longleftrightarrow> length rows \<le> limit \<and> \<not> (Some ''LONG'' \<in> dr_side ` set rows \<and> Some ''SHORT'' \<in> dr_side ` set rows)"

lemma not_on_side: "S \<subseteq> {row. dr_side row = Some a} \<Longrightarrow> a \<noteq> b \<Longrightarrow> Some b \<notin> dr_side ` S"
  by auto

lemma interaction_group_one_sided:
  assumes "distinct (map fst rows)" and "0 < limit"
  shows "one_sided limit (filter allowed (interaction_group limit rows))"
proof -
  let ?cands = "filter (\<lambda>(i, row). allowed row) rows"
  let ?longs = "on_side ''LONG'' ?cands" and ?shorts = "on_side ''SHORT'' ?cands"
  consider (none) "?cands = []" | (both) "?cands \<noteq> []" "?longs \<noteq> [] \<and> ?shorts \<noteq> []"
    | (one) "?cands \<noteq> []" "\<not> (?longs \<noteq> [] \<and> ?shorts \<noteq> [])" by blast
  then show ?thesis
  proof cases
    case none
    then have "filter allowed (map snd rows) = []" by (auto simp: filter_empty_conv)
    with none show ?thesis by (simp add: interaction_group_def one_sided_def)
  next
    case both
    let ?keep = "{fst (arg_max_list (\<lambda>(i, row). row_confidence row) (hd ?cands) (tl ?cands))}"
    have left: "filter allowed (interaction_group limit rows) = map snd (filter (\<lambda>(i, row). allowed row \<and> i \<in> ?keep) rows)"
      using both by (simp only: interaction_group_def Let_def if_False if_True keep_only_allowed simp_thms)
    have "length (filter (\<lambda>(i, row). allowed row \<and> i \<in> ?keep) rows) \<le> 1"
      using filter_index_length [OF assms(1), of ?keep allowed] by simp
    then have "length (filter allowed (interaction_group limit rows)) \<le> 1" by (simp only: left length_map)
    then show ?thesis using assms(2)
      by (cases "filter allowed (interaction_group limit rows)") (auto simp: one_sided_def eq_commute [of "Some _" "dr_side _"])
  next
    case one
    let ?same = "if ?longs \<noteq> [] then ?longs else ?shorts"
    let ?keep = "fst ` set (take limit (sort_desc (\<lambda>(i, row). row_confidence row) ?same))"
    have left: "filter allowed (interaction_group limit rows) = map snd (filter (\<lambda>(i, row). allowed row \<and> i \<in> ?keep) rows)"
      using one by (simp only: interaction_group_def Let_def if_False keep_only_allowed)
    have "card ?keep \<le> limit" by (rule card_image_take)
    then have short: "length (filter allowed (interaction_group limit rows)) \<le> limit"
      unfolding left length_map using filter_index_length [OF assms(1), of ?keep allowed] by simp
    have "set (filter allowed (interaction_group limit rows)) \<subseteq> snd ` set ?same"
    proof
      fix row assume "row \<in> set (filter allowed (interaction_group limit rows))"
      then obtain i where i: "(i, row) \<in> set rows" "i \<in> ?keep" unfolding left using kept_index by metis
      from i(2) obtain row' where row': "(i, row') \<in> set ?same" by (auto dest!: in_set_takeD)
      then have "(i, row') \<in> set rows" by (auto simp: on_side_def split: if_splits)
      with i(1) assms(1) have "row' = row" by (metis eq_key_imp_eq_value)
      with row' show "row \<in> snd ` set ?same" by force
    qed
    moreover have "snd ` set ?same \<subseteq> {row. dr_side row = Some ''LONG''} \<or> snd ` set ?same \<subseteq> {row. dr_side row = Some ''SHORT''}"
      by (auto simp: on_side_def)
    ultimately have "set (filter allowed (interaction_group limit rows)) \<subseteq> {row. dr_side row = Some ''LONG''} \<or>
      set (filter allowed (interaction_group limit rows)) \<subseteq> {row. dr_side row = Some ''SHORT''}" by blast
    with short show ?thesis unfolding one_sided_def by (elim disjE) (simp_all add: not_on_side del: set_filter)
  qed
qed

lemma interaction_one_sided:
  "one_sided (nat (max 1 m)) (filter (\<lambda>row. allowed row \<and> row_symbol row = symbol) (apply_interaction_guard m rows))"
proof -
  let ?limit = "nat (max 1 m)"
  let ?out = "\<lambda>s. interaction_group ?limit (symbol_group s rows)"
  have sym: "row_symbol row = s" if "row \<in> set (?out s)" for row s
  proof -
    have "list_all2 tightens (rows_with row_symbol s rows) (?out s)"
      unfolding map_snd_group [symmetric] by (rule interaction_group_tightens)
    with that obtain row' where "row' \<in> set (rows_with row_symbol s rows)" "tightens row' row"
      using list_all2_source by metis
    then show ?thesis by (simp add: rows_with_def tightens_def row_key_def row_symbol_def)
  qed
  have other: "filter (\<lambda>row. allowed row \<and> row_symbol row = symbol) (?out s) = (if s = symbol then filter allowed (?out symbol) else [])" for s
    using sym by (auto simp: filter_empty_conv intro!: filter_cong)
  have all: "filter (\<lambda>row. allowed row \<and> row_symbol row = symbol) (concat (map ?out ks)) = (if symbol \<in> set ks then filter allowed (?out symbol) else [])"
    if "distinct ks" for ks
    using that by (induction ks) (auto simp: other)
  have "distinct (map fst (symbol_group symbol rows))"
    unfolding symbol_group_def rows_with_def by (rule distinct_map_filter) simp
  then have "one_sided ?limit (filter allowed (?out symbol))" by (rule interaction_group_one_sided) simp
  then show ?thesis by (simp add: apply_interaction_guard_def all one_sided_def)
qed

section \<open>Exposure\<close>

record exposure_limits =
  xl_symbol :: num
  xl_strategy :: num
  xl_cluster :: num

definition default_limits :: exposure_limits where
  "default_limits = \<lparr>xl_symbol = 6, xl_strategy = 8, xl_cluster = 12\<rparr>"

definition exposure_cluster :: "string \<Rightarrow> string" where
  "exposure_cluster symbol =
     (let s = upper symbol in
      if list_ex (\<lambda>token. contains token s) [''BTC'', ''ETH'', ''SOL'', ''BNB''] then ''MAJOR_CLUSTER''
      else if list_ex (\<lambda>token. contains token s) [''AVAX'', ''LINK'', ''ADA'', ''XRP'', ''DOGE''] then ''HIGH_BETA_CLUSTER''
      else ''ALT_CLUSTER'')"

definition exposure_size :: "decision_row \<Rightarrow> num" where
  "exposure_size row =
     max (5 / 100) (py_round 6 (row_leverage row * max (5 / 100) (min 1 (row_size row)) * (55 / 100 + row_confidence row * (45 / 100))))"

record exposure_book =
  eb_symbol :: "string \<Rightarrow> num"
  eb_strategy :: "string \<Rightarrow> num"
  eb_cluster :: "string \<Rightarrow> num"

definition empty_book :: exposure_book where
  "empty_book = \<lparr>eb_symbol = (\<lambda>_. 0), eb_strategy = (\<lambda>_. 0), eb_cluster = (\<lambda>_. 0)\<rparr>"

definition add_exposure :: "nat \<Rightarrow> decision_row \<Rightarrow> exposure_book \<Rightarrow> exposure_book" where
  "add_exposure decimals row eb =
     (let symbol = row_symbol row; strategy = row_strategy row; cl = exposure_cluster symbol; delta = exposure_size row
      in \<lparr>eb_symbol = (eb_symbol eb)(symbol := py_round decimals (eb_symbol eb symbol + delta)),
          eb_strategy = (eb_strategy eb)(strategy := py_round decimals (eb_strategy eb strategy + delta)),
          eb_cluster = (eb_cluster eb)(cl := py_round decimals (eb_cluster eb cl + delta))\<rparr>)"

definition compute_exposure :: "decision_row list \<Rightarrow> exposure_book" where
  "compute_exposure rows = foldl (\<lambda>eb row. add_exposure 4 row eb) empty_book (filter allowed rows)"

definition exceeds :: "exposure_limits \<Rightarrow> exposure_book \<Rightarrow> decision_row \<Rightarrow> bool" where
  "exceeds xl eb row \<longleftrightarrow>
     (let symbol = row_symbol row; delta = exposure_size row
      in xl_symbol xl < eb_symbol eb symbol + delta \<or> xl_strategy xl < eb_strategy eb (row_strategy row) + delta \<or>
         xl_cluster xl < eb_cluster eb (exposure_cluster symbol) + delta)"

text \<open>The loop over the ranked rows: the positions that are blocked, and the exposures.\<close>

fun rank_loop :: "exposure_limits \<Rightarrow> indexed_row list \<Rightarrow> exposure_book \<Rightarrow> nat list \<times> exposure_book" where
  "rank_loop xl [] eb = ([], eb)"
| "rank_loop xl ((i, row) # ranked) eb =
     (if exceeds xl eb row
      then (case rank_loop xl ranked eb of (blocked, eb') \<Rightarrow> (i # blocked, eb'))
      else rank_loop xl ranked (add_exposure 6 row eb))"

definition ranked_rows :: "decision_row list \<Rightarrow> indexed_row list" where
  "ranked_rows rows = sort_desc (\<lambda>(i, row). row_confidence row) (filter (\<lambda>(i, row). allowed row) (enumerate 0 rows))"

definition apply_exposure_tracker :: "exposure_limits \<Rightarrow> decision_row list \<Rightarrow> decision_row list \<times> exposure_book" where
  "apply_exposure_tracker xl rows =
     (let blocked = fst (rank_loop xl (ranked_rows rows) empty_book);
          output = map (\<lambda>(i, row). if i \<in> set blocked then reject_row ''PORTFOLIO'' ''STRATEGY_EXPOSURE_LIMIT'' row else row) (enumerate 0 rows)
      in (output, compute_exposure output))"

lemma exposure_tightens: "list_all2 tightens rows (fst (apply_exposure_tracker xl rows))"
  by (auto simp: apply_exposure_tracker_def Let_def list_all2_conv_all_nth nth_enumerate_eq)

interpretation exposure_guard: decision_guard "\<lambda>rows. fst (apply_exposure_tracker xl rows)"
  by (rule rowwise_guard) (rule exposure_tightens)

text \<open>Exposures are multiples of a millionth, so the running sums are exact.\<close>

lemma on_grid_add:
  assumes "on_grid n a" and "on_grid n b"
  shows "on_grid n (a + b)"
proof -
  have "(a + b) * 10 ^ n = of_int (\<lfloor>a * 10 ^ n\<rfloor> + \<lfloor>b * 10 ^ n\<rfloor>)"
    using assms unfolding on_grid_def by (simp only: distrib_right of_int_add)
  then show ?thesis unfolding on_grid_def by (simp only: floor_of_int)
qed

lemma on_grid_exposure: "on_grid 6 (exposure_size row)"
proof -
  have "on_grid 6 (5 / 100)" by (simp add: on_grid_def)
  then show ?thesis unfolding exposure_size_def max_def by simp
qed

text \<open>The exposure of the rows with a given key.\<close>

definition exposure_sum :: "(decision_row \<Rightarrow> string) \<Rightarrow> string \<Rightarrow> decision_row list \<Rightarrow> num" where
  "exposure_sum f k rows = sum_list (map exposure_size (filter (\<lambda>row. f row = k) rows))"

definition row_cluster :: "decision_row \<Rightarrow> string" where
  "row_cluster row = exposure_cluster (row_symbol row)"

definition entry_ok :: "(decision_row \<Rightarrow> string) \<Rightarrow> num \<Rightarrow> decision_row list \<Rightarrow> (string \<Rightarrow> num) \<Rightarrow> bool" where
  "entry_ok f bound rows v \<longleftrightarrow> (\<forall>k. v k = exposure_sum f k rows \<and> v k \<le> max 0 bound)"

definition book_of :: "exposure_limits \<Rightarrow> decision_row list \<Rightarrow> exposure_book \<Rightarrow> bool" where
  "book_of xl rows eb \<longleftrightarrow> entry_ok row_symbol (xl_symbol xl) rows (eb_symbol eb) \<and>
     entry_ok row_strategy (xl_strategy xl) rows (eb_strategy eb) \<and> entry_ok row_cluster (xl_cluster xl) rows (eb_cluster eb)"

lemma exposure_sum_simps [simp]:
  "exposure_sum f k [] = 0"
  "exposure_sum f k (rows @ [row]) = exposure_sum f k rows + (if f row = k then exposure_size row else 0)"
  by (simp_all add: exposure_sum_def)

lemma exposure_sum_grid: "on_grid 6 (exposure_sum f k rows)"
  by (induction rows rule: rev_induct) (simp_all add: on_grid_add on_grid_exposure)

lemma exposure_sum_mset:
  assumes "mset rows = mset rows'"
  shows "exposure_sum f k rows = exposure_sum f k rows'"
proof -
  have "mset (map exposure_size (filter (\<lambda>row. f row = k) rows)) = mset (map exposure_size (filter (\<lambda>row. f row = k) rows'))"
    by (simp add: assms)
  then show ?thesis unfolding exposure_sum_def by (simp only: sum_mset_sum_list [symmetric])
qed

lemma entry_ok_add:
  assumes "entry_ok f bound rows v" and "\<not> bound < v (f row) + exposure_size row"
  shows "entry_ok f bound (rows @ [row]) (v(f row := py_round 6 (v (f row) + exposure_size row)))"
proof -
  have v: "v k = exposure_sum f k rows" "v k \<le> max 0 bound" for k
    using assms(1) unfolding entry_ok_def by blast+
  have "py_round 6 (v (f row) + exposure_size row) = v (f row) + exposure_size row"
    by (simp add: v(1) py_round_on_grid on_grid_add on_grid_exposure exposure_sum_grid)
  with assms(2) v show ?thesis by (simp add: entry_ok_def)
qed

lemma add_exposure_book:
  assumes "book_of xl rows eb" and "\<not> exceeds xl eb row"
  shows "book_of xl (rows @ [row]) (add_exposure 6 row eb)"
  using assms unfolding book_of_def exceeds_def add_exposure_def Let_def
  by (auto intro!: entry_ok_add simp: row_cluster_def [symmetric])

lemma rank_loop_book:
  assumes "book_of xl rows eb" and "rank_loop xl ranked eb = (blocked, eb')" and "distinct (map fst ranked)"
  shows "book_of xl (rows @ map snd (filter (\<lambda>(i, row). i \<notin> set blocked) ranked)) eb' \<and> set blocked \<subseteq> fst ` set ranked"
  using assms
proof (induction xl ranked eb arbitrary: rows blocked rule: rank_loop.induct)
  case (1 xl eb)
  then show ?case by simp
next
  case (2 xl i row ranked eb)
  show ?case
  proof (cases "exceeds xl eb row")
    case True
    with "2.prems" obtain bs where run: "rank_loop xl ranked eb = (bs, eb')" and b: "blocked = i # bs"
      by (auto split: prod.splits)
    have "filter (\<lambda>(j, r). j \<notin> set blocked) ranked = filter (\<lambda>(j, r). j \<notin> set bs) ranked"
      using "2.prems"(3) by (force simp: b intro!: filter_cong)
    then show ?thesis using "2.IH"(1) [OF True "2.prems"(1) run] "2.prems"(3) by (auto simp: b)
  next
    case False
    with "2.prems" have run: "rank_loop xl ranked (add_exposure 6 row eb) = (blocked, eb')" by simp
    have IH: "book_of xl ((rows @ [row]) @ map snd (filter (\<lambda>(i, row). i \<notin> set blocked) ranked)) eb' \<and> set blocked \<subseteq> fst ` set ranked"
      by (rule "2.IH"(2) [OF False add_exposure_book [OF "2.prems"(1) False] run]) (use "2.prems"(3) in simp)
    moreover from this have "i \<notin> set blocked" using "2.prems"(3) by auto
    ultimately show ?thesis by auto
  qed
qed

lemma filter_snd_enumerate: "map snd (filter (\<lambda>(i, row). P row) (enumerate n rows)) = filter P rows"
  by (induction rows arbitrary: n) simp_all

lemma exposure_output_sum:
  assumes "apply_exposure_tracker xl rows = (output, snapshot)"
  shows "\<exists>eb. book_of xl (filter allowed output) eb"
proof -
  let ?ranked = "ranked_rows rows"
  obtain blocked eb where run: "rank_loop xl ?ranked empty_book = (blocked, eb)" by fastforce
  have perm: "mset ?ranked = mset (filter (\<lambda>(i, row). allowed row) (enumerate 0 rows))" by (simp add: ranked_rows_def)
  have "distinct (map fst (filter (\<lambda>(i, row). allowed row) (enumerate 0 rows)))" by (rule distinct_map_filter) simp
  then have "distinct (map fst ?ranked)" using perm by (metis mset_eq_imp_distinct_iff mset_map)
  moreover have "book_of xl [] empty_book" by (simp add: book_of_def entry_ok_def empty_book_def)
  ultimately have book: "book_of xl (map snd (filter (\<lambda>(i, row). i \<notin> set blocked) ?ranked)) eb"
    using rank_loop_book [OF _ run, of "[]"] by simp
  have "filter allowed output = map snd (filter (\<lambda>(i, row). i \<notin> set blocked) (filter (\<lambda>(i, row). allowed row) (enumerate 0 rows)))"
    using assms unfolding apply_exposure_tracker_def Let_def run
    by (auto simp: filter_map comp_def split_def intro!: map_cong filter_cong)
  also have "mset \<dots> = mset (map snd (filter (\<lambda>(i, row). i \<notin> set blocked) ?ranked))" by (simp only: mset_map mset_filter perm)
  finally have "mset (filter allowed output) = mset (map snd (filter (\<lambda>(i, row). i \<notin> set blocked) ?ranked))" .
  then have "book_of xl (filter allowed output) eb"
    using book unfolding book_of_def entry_ok_def by (metis exposure_sum_mset)
  then show ?thesis by blast
qed

section \<open>Attribution\<close>

record paper_trade =
  px_strategy :: "string option"
  px_pnl :: "num option"
  px_slippage :: "num option"
  px_latency :: "num option"

record attribution_row =
  ar_strategy :: string
  ar_pnl :: num
  ar_trades :: nat
  ar_wins :: nat
  ar_losses :: nat
  ar_win_rate :: num
  ar_avg_pnl :: num
  ar_signals :: nat
  ar_allowed :: nat
  ar_rejected :: nat
  ar_reject_rate :: num
  ar_avg_confidence :: num
  ar_avg_slippage :: num
  ar_avg_latency :: num
  ar_reasons :: "string list"
  ar_contribution :: num

definition per_unit :: "num \<Rightarrow> nat \<Rightarrow> num" where
  "per_unit x n = (if 0 < n then x / of_nat n else 0)"

definition trade_strategy :: "paper_trade \<Rightarrow> string" where
  "trade_strategy px = str_or (px_strategy px) ''unknown''"

definition sum_of :: "('a \<Rightarrow> num option) \<Rightarrow> 'a list \<Rightarrow> num" where
  "sum_of f xs = sum_list (map (\<lambda>x. get_or (f x) 0) xs)"

definition attribution_of :: "decision_row list \<Rightarrow> paper_trade list \<Rightarrow> string \<Rightarrow> attribution_row" where
  "attribution_of decisions trades strategy =
     (let ds = rows_with row_strategy strategy decisions; ts = rows_with trade_strategy strategy trades;
          n = length ts; wins = length (filter (\<lambda>px. 0 < get_or (px_pnl px) 0) ts); rejected = length (filter (\<lambda>row. dr_decision row = Some ''REJECT'') ds)
      in \<lparr>ar_strategy = strategy, ar_pnl = py_round 6 (sum_of px_pnl ts), ar_trades = n, ar_wins = wins,
          ar_losses = length (filter (\<lambda>px. get_or (px_pnl px) 0 < 0) ts), ar_win_rate = py_round 4 (per_unit (of_nat wins) n),
          ar_avg_pnl = py_round 6 (per_unit (sum_of px_pnl ts) n), ar_signals = length ds, ar_allowed = length (filter allowed ds),
          ar_rejected = rejected, ar_reject_rate = py_round 4 (per_unit (of_nat rejected) (length ds)),
          ar_avg_confidence = py_round 4 (per_unit (sum_of dr_confidence ds) (length ds)),
          ar_avg_slippage = py_round 4 (per_unit (sum_of px_slippage ts) n), ar_avg_latency = py_round 2 (per_unit (sum_of px_latency ts) n),
          ar_reasons = keys_in_order (concat (map dr_reasons ds)), ar_contribution = 0\<rparr>)"

definition attributed_strategies :: "decision_row list \<Rightarrow> paper_trade list \<Rightarrow> string list" where
  "attributed_strategies decisions trades = sorted_set (map row_strategy decisions @ map trade_strategy trades)"

definition total_pnl :: "decision_row list \<Rightarrow> paper_trade list \<Rightarrow> num" where
  "total_pnl decisions trades =
     sum_list (map (\<lambda>strategy. sum_of px_pnl (rows_with trade_strategy strategy trades)) (attributed_strategies decisions trades))"

definition build_strategy_attribution :: "decision_row list \<Rightarrow> paper_trade list \<Rightarrow> attribution_row list \<times> num" where
  "build_strategy_attribution decisions trades =
     (let pnl = total_pnl decisions trades;
          rows = sort_desc ar_pnl (map (attribution_of decisions trades) (attributed_strategies decisions trades))
      in (map (\<lambda>ar. ar\<lparr>ar_contribution := py_round 4 (if pnl \<noteq> 0 then ar_pnl ar / pnl else 0)\<rparr>) rows, py_round 6 pnl))"

text \<open>No result is lost or counted twice: the strategies add up to all trades.\<close>

lemma sum_of_mset: "mset xs = mset ys \<Longrightarrow> sum_of f xs = sum_of f ys"
  unfolding sum_of_def by (metis mset_map sum_mset_sum_list)

lemma sum_of_concat: "sum_of f (concat xss) = sum_list (map (sum_of f) xss)"
  by (induction xss) (simp_all add: sum_of_def)

lemma attribution_adds_up: "total_pnl decisions trades = sum_of px_pnl trades"
proof -
  let ?ks = "attributed_strategies decisions trades"
  have "total_pnl decisions trades = sum_of px_pnl (concat (map (\<lambda>k. rows_with trade_strategy k trades) ?ks))"
    by (simp add: total_pnl_def sum_of_concat comp_def)
  also have "\<dots> = sum_of px_pnl trades"
    by (rule sum_of_mset, rule mset_groups) (auto simp: attributed_strategies_def sorted_set_def)
  finally show ?thesis .
qed

section \<open>Properties\<close>

text \<open>
  One side per symbol. After the interaction guard, no symbol has both a long and a short
  order allowed, and none has more allowed orders than the limit of the guard, at least one.
\<close>

theorem one_side_per_symbol:
  "let left = filter (\<lambda>row. allowed row \<and> row_symbol row = symbol) (apply_interaction_guard limit rows)
   in length left \<le> nat (max 1 limit) \<and> \<not> (Some ''LONG'' \<in> dr_side ` set left \<and> Some ''SHORT'' \<in> dr_side ` set left)"
  using interaction_one_sided [of limit symbol rows] unfolding one_sided_def Let_def .

text \<open>
  The portfolio stays within its exposure limits. The rows the tracker leaves allowed add up,
  exactly, to at most the limit of their symbol, of their strategy and of their cluster.
\<close>

theorem exposure_within_limits:
  "case apply_exposure_tracker xl rows of (output, snapshot) \<Rightarrow>
     sum_list (map exposure_size (filter (\<lambda>row. row_symbol row = symbol) (filter allowed output))) \<le> max 0 (xl_symbol xl) \<and>
     sum_list (map exposure_size (filter (\<lambda>row. row_strategy row = strategy) (filter allowed output))) \<le> max 0 (xl_strategy xl) \<and>
     sum_list (map exposure_size (filter (\<lambda>row. exposure_cluster (row_symbol row) = cl) (filter allowed output))) \<le> max 0 (xl_cluster xl)"
proof -
  obtain out snapshot where run: "apply_exposure_tracker xl rows = (out, snapshot)" by fastforce
  then obtain eb where "book_of xl (filter allowed out) eb" using exposure_output_sum by blast
  then show ?thesis
    unfolding run book_of_def entry_ok_def exposure_sum_def row_cluster_def prod.case by metis
qed

end
