(* ===== verification/Strategy_Governance.thy ===== *)
theory Strategy_Governance
  imports Correlation_Clusters Decision_Rows
begin

text \<open>
  The governance of strategies, \<open>core/strategies/governance/\<close>: health scores from a rolling history,
  decay with persistence, throttle levels, automatic disabling, the registry of lifecycle states,
  and its enforcement on the rows of a cycle; with the way \<open>services/futures_strategy_service.py\<close>
  chains them from cycle to cycle. A dictionary by strategy is a map.
\<close>

section \<open>Health\<close>

text \<open>\<open>str(v)\<close> of an optional string.\<close>

definition py_str :: "string option \<Rightarrow> string" where
  "py_str v = get_or v ''None''"

definition avg :: "num list \<Rightarrow> num \<Rightarrow> num" where
  "avg values d = (if values = [] then d else sum_list values / of_nat (length values))"

record strategy_metric =
  sm_strategy :: "string option"
  sm_pnl :: "num option"
  sm_quality :: "num option"
  sm_confidence :: "num option"

record strategy_attribution =
  sb_strategy :: "string option"
  sb_win_rate :: "num option"

record history_entry =
  he_metrics :: "strategy_metric list"
  he_attribution :: "strategy_attribution list"

type_synonym history_row = "strategy_metric option \<times> strategy_attribution option"

definition history_row_of :: "string \<Rightarrow> history_entry \<Rightarrow> history_row" where
  "history_row_of strategy he =
     (find (\<lambda>sm. py_str (sm_strategy sm) = strategy) (he_metrics he),
      find (\<lambda>sb. py_str (sb_strategy sb) = strategy) (he_attribution he))"

definition history_rows :: "history_entry list \<Rightarrow> string \<Rightarrow> history_row list" where
  "history_rows history strategy = filter (\<lambda>r. r \<noteq> (None, None)) (map (history_row_of strategy) history)"

text \<open>\<open>_safe_float(row.get(key), default)\<close>, where the row itself may be missing.\<close>

definition metric_value :: "(strategy_metric \<Rightarrow> num option) \<Rightarrow> num \<Rightarrow> strategy_metric option \<Rightarrow> num" where
  "metric_value f d m = get_or (case m of None \<Rightarrow> None | Some sm \<Rightarrow> f sm) d"

definition win_rate_value :: "strategy_attribution option \<Rightarrow> num" where
  "win_rate_value a = get_or (case a of None \<Rightarrow> None | Some sb \<Rightarrow> sb_win_rate sb) (1 / 2)"

definition alignment :: "strategy_metric option \<Rightarrow> num" where
  "alignment m = \<bar>metric_value sm_confidence (1 / 2) m - (if 0 < metric_value sm_pnl 0 m then 1 else 0)\<bar>"

record health_row =
  hr_strategy :: string
  hr_pnl :: num
  hr_win_rate :: num
  hr_quality :: num
  hr_divergence :: num
  hr_score :: num
  hr_observations :: nat
  hr_missing :: "string list"
  hr_drawdown :: string

definition health_score :: "num \<Rightarrow> num \<Rightarrow> num \<Rightarrow> num \<Rightarrow> num" where
  "health_score pnl win_rate quality divergence =
     clamp 0 100 (50 + pnl * 15000) * (32 / 100) + clamp 0 100 (win_rate * 100) * (24 / 100)
     + clamp 0 100 (quality * 100) * (24 / 100) + clamp 0 100 ((1 - divergence) * 100) * (20 / 100)"

definition drawdown_state :: "num \<Rightarrow> string" where
  "drawdown_state min_pnl =
     (if min_pnl \<le> - 5 / 1000 then ''LIMIT_BREACH'' else if min_pnl \<le> - 25 / 10000 then ''ELEVATED'' else ''NORMAL'')"

definition health_of ::
  "history_entry list \<Rightarrow> strategy_metric list \<Rightarrow> strategy_attribution list \<Rightarrow> nat \<Rightarrow> nat \<Rightarrow> string \<Rightarrow> health_row" where
  "health_of history metrics attribution window min_observations strategy =
     (let metric = find (\<lambda>sm. py_str (sm_strategy sm) = strategy) metrics;
          attr = find (\<lambda>sb. py_str (sb_strategy sb) = strategy) (rev attribution);
          raw = history_rows (last_n window history) strategy;
          pnls = (if raw = [] then [metric_value sm_pnl 0 metric] else map (\<lambda>(m, a). metric_value sm_pnl 0 m) raw);
          win_rates = (if raw = [] then [win_rate_value attr] else map (\<lambda>(m, a). win_rate_value a) raw);
          qualities = (if raw = [] then [metric_value sm_quality (1 / 2) metric] else map (\<lambda>(m, a). metric_value sm_quality (1 / 2) m) raw);
          alignments = (if raw = [] then [alignment metric] else map (\<lambda>(m, a). alignment m) raw);
          score = health_score (avg pnls 0) (avg win_rates (1 / 2)) (avg qualities (1 / 2)) (avg alignments (1 / 2));
          few = length raw < min_observations
      in \<lparr>hr_strategy = strategy, hr_pnl = py_round 6 (avg pnls 0), hr_win_rate = py_round 4 (avg win_rates (1 / 2)),
          hr_quality = py_round 4 (avg qualities (1 / 2)), hr_divergence = py_round 4 (avg alignments (1 / 2)),
          hr_score = py_round 2 (clamp 0 100 (if few then min score 62 else score)), hr_observations = length raw,
          hr_missing = collect [(metric = None, ''current_metric''), (attr = None, ''current_attribution''),
            (few, ''insufficient_observation'')],
          hr_drawdown = drawdown_state (Min (set pnls))\<rparr>)"

definition build_strategy_health ::
  "history_entry list \<Rightarrow> strategy_metric list \<Rightarrow> strategy_attribution list \<Rightarrow> nat \<Rightarrow> nat \<Rightarrow> health_row list" where
  "build_strategy_health history metrics attribution window min_observations =
     map (health_of history metrics attribution window min_observations)
       (sorted_set (map (\<lambda>sm. str_or (sm_strategy sm) ''unknown'') metrics))"

section \<open>Decay\<close>

record decay_state =
  dy_persistence :: int
  dy_repeated :: int
  dy_reasons :: "string list"
  dy_state :: string

record decay_event =
  de_strategy :: string
  de_severity :: string
  de_type :: string
  de_reasons :: "string list"

definition no_decay :: decay_state where
  "no_decay = \<lparr>dy_persistence = 0, dy_repeated = 0, dy_reasons = [], dy_state = ''STABLE''\<rparr>"

definition decay_triggers :: "health_row \<Rightarrow> string list" where
  "decay_triggers hr = collect
     [(hr_pnl hr < - 16 / 10000, ''PNL_DETERIORATION''), (hr_win_rate hr < 36 / 100, ''WIN_RATE_COLLAPSE''),
      (52 / 100 < hr_divergence hr, ''CONFIDENCE_RESULT_DIVERGENCE''), (hr_quality hr < 45 / 100, ''EXECUTION_QUALITY_DEGRADATION'')]"

definition decay_of :: "nat \<Rightarrow> int \<Rightarrow> health_row \<Rightarrow> decay_state \<Rightarrow> decay_state \<times> decay_event list" where
  "decay_of min_observations persistence_threshold hr dy =
     (if hr_observations hr < min_observations
      then (\<lparr>dy_persistence = max 0 (dy_persistence dy - 1), dy_repeated = dy_repeated dy, dy_reasons = [],
             dy_state = ''INSUFFICIENT_DATA''\<rparr>, [])
      else let triggers = decay_triggers hr; triggered = (triggers \<noteq> []);
               persistence = (if triggered then dy_persistence dy + 1 else max 0 (dy_persistence dy - 1));
               structural = (triggered \<and> persistence_threshold \<le> persistence);
               repeated = (if structural then dy_repeated dy + 1 else dy_repeated dy)
           in (\<lparr>dy_persistence = persistence, dy_repeated = repeated, dy_reasons = triggers,
                dy_state = (if triggered then ''DECAY'' else ''STABLE'')\<rparr>,
               if structural
               then [\<lparr>de_strategy = hr_strategy hr, de_severity = (if 3 \<le> length triggers \<or> 4 \<le> repeated then ''HIGH'' else ''MEDIUM''),
                      de_type = (if 2 \<le> length triggers then ''MULTI_TRIGGER'' else ''SINGLE_TRIGGER''), de_reasons = triggers\<rparr>]
               else []))"

definition detect_strategy_decay ::
  "health_row list \<Rightarrow> (string \<Rightarrow> decay_state option) \<Rightarrow> decay_event list \<times> (string \<Rightarrow> decay_state option)" where
  "detect_strategy_decay rows previous =
     (let one = (\<lambda>hr. decay_of 4 2 hr (get_or (previous (hr_strategy hr)) no_decay))
      in (concat (map (\<lambda>hr. snd (one hr)) rows), map_of (map (\<lambda>hr. (hr_strategy hr, fst (one hr))) (rev rows))))"

section \<open>Throttle\<close>

record throttle_state =
  th_level :: string
  th_confidence :: num
  th_max_signals :: int
  th_max_ratio :: num

definition LEVEL_CONFIG :: "(string \<times> num \<times> int \<times> num) list" where
  "LEVEL_CONFIG = [(''NONE'', 1, 8, 1), (''L1'', 86 / 100, 5, 78 / 100), (''L2'', 74 / 100, 3, 58 / 100), (''L3'', 62 / 100, 1, 35 / 100)]"

definition LEVEL_ORDER :: "string list" where
  "LEVEL_ORDER = [''NONE'', ''L1'', ''L2'', ''L3'']"

definition level_from_health :: "num \<Rightarrow> string" where
  "level_from_health score = (if score < 28 then ''L3'' else if score < 45 then ''L2'' else if score < 62 then ''L1'' else ''NONE'')"

fun index_of :: "'a \<Rightarrow> 'a list \<Rightarrow> nat option" where
  "index_of x [] = None"
| "index_of x (y # ys) = (if x = y then Some 0 else map_option Suc (index_of x ys))"

definition level_rank :: "string \<Rightarrow> nat" where
  "level_rank level = get_or (index_of level LEVEL_ORDER) 0"

definition max_level :: "string \<Rightarrow> string \<Rightarrow> string" where
  "max_level a b = LEVEL_ORDER ! max (level_rank a) (level_rank b)"

definition step_down :: "string \<Rightarrow> string" where
  "step_down level = (if level_rank level = 0 then ''NONE'' else LEVEL_ORDER ! (level_rank level - 1))"

definition throttle_level :: "string \<Rightarrow> num \<Rightarrow> decay_event option \<Rightarrow> string" where
  "throttle_level previous score event =
     (case event of
        Some de \<Rightarrow> max_level (level_from_health score) (if upper_or (Some (de_severity de)) ''MEDIUM'' = ''HIGH'' then ''L3'' else ''L2'')
      | None \<Rightarrow> if 72 \<le> score \<and> previous \<in> set [''L1'', ''L2'', ''L3''] then step_down previous else level_from_health score)"

definition throttle_of :: "string \<Rightarrow> throttle_state" where
  "throttle_of level =
     (case get_or (map_of LEVEL_CONFIG level) (1, 8, 1) of (confidence, signals, ratio) \<Rightarrow>
        \<lparr>th_level = level, th_confidence = confidence, th_max_signals = signals, th_max_ratio = ratio\<rparr>)"

definition level_of :: "(string \<Rightarrow> throttle_state option) \<Rightarrow> string \<Rightarrow> string" where
  "level_of throttles strategy = str_or (map_option th_level (throttles strategy)) ''NONE''"

definition build_strategy_throttle ::
  "health_row list \<Rightarrow> decay_event list \<Rightarrow> (string \<Rightarrow> throttle_state option) \<Rightarrow> (string \<Rightarrow> throttle_state option)" where
  "build_strategy_throttle rows events previous =
     map_of (map (\<lambda>hr. (hr_strategy hr,
       throttle_of (throttle_level (level_of previous (hr_strategy hr)) (hr_score hr)
         (find (\<lambda>de. de_strategy de = hr_strategy hr) (rev events))))) (rev rows))"

section \<open>Lifecycle\<close>

record lifecycle_change =
  lx_from :: "string option"
  lx_to :: string
  lx_reason :: string
  lx_at :: timestamp

record lifecycle =
  lc_state :: "string option"
  lc_at :: timestamp
  lc_reason :: string
  lc_history :: "lifecycle_change list"

definition state_of :: "(string \<Rightarrow> lifecycle option) \<Rightarrow> string \<Rightarrow> string" where
  "state_of registry strategy = str_or (case registry strategy of None \<Rightarrow> None | Some lc \<Rightarrow> lc_state lc) ''ACTIVE''"

record disable_state =
  ds_should_disable :: bool
  ds_reasons :: "string list"

definition disable_reasons :: "health_row \<Rightarrow> int \<Rightarrow> string list" where
  "disable_reasons hr repeated = collect
     [(hr_score hr < 22, ''HEALTH_SCORE_UNDER_THRESHOLD''), (3 \<le> repeated, ''REPEATED_DECAY_LIMIT_REACHED''),
      (hr_pnl hr \<le> - 4 / 1000 \<or> hr_drawdown hr = ''LIMIT_BREACH'', ''PNL_DRAWDOWN_LIMIT_EXCEEDED'')]"

definition disable_of :: "(string \<Rightarrow> decay_state option) \<Rightarrow> (string \<Rightarrow> lifecycle option) \<Rightarrow> health_row \<Rightarrow> disable_state" where
  "disable_of decays registry hr =
     (if state_of registry (hr_strategy hr) = ''DISABLED''
      then \<lparr>ds_should_disable = True, ds_reasons = [''ALREADY_DISABLED'']\<rparr>
      else let reasons = disable_reasons hr (dy_repeated (get_or (decays (hr_strategy hr)) no_decay))
           in \<lparr>ds_should_disable = 2 \<le> length reasons, ds_reasons = reasons\<rparr>)"

definition evaluate_strategy_auto_disable ::
  "health_row list \<Rightarrow> (string \<Rightarrow> decay_state option) \<Rightarrow> (string \<Rightarrow> lifecycle option) \<Rightarrow> (string \<Rightarrow> disable_state option)" where
  "evaluate_strategy_auto_disable rows decays registry =
     map_of (map (\<lambda>hr. (hr_strategy hr, disable_of decays registry hr)) (rev rows))"

definition new_lifecycle :: "timestamp \<Rightarrow> lifecycle" where
  "new_lifecycle now = \<lparr>lc_state = Some ''ACTIVE'', lc_at = now, lc_reason = ''BOOTSTRAP'',
     lc_history = [\<lparr>lx_from = None, lx_to = ''ACTIVE'', lx_reason = ''BOOTSTRAP'', lx_at = now\<rparr>]\<rparr>"

text \<open>The branches of the loop: the next state and its reason, then the lock of \<open>DISABLED\<close>.\<close>

definition next_state :: "string \<Rightarrow> bool \<Rightarrow> string \<Rightarrow> string \<times> string" where
  "next_state current should_disable level =
     (if should_disable then (''DISABLED'', ''AUTO_DISABLE_POLICY'')
      else if current \<noteq> ''DISABLED'' \<and> level \<noteq> ''NONE'' then (''THROTTLED'', ''THROTTLE_'' @ level)
      else if current \<noteq> ''DISABLED'' \<and> level = ''NONE'' then (''ACTIVE'', ''HEALTH_RECOVERY'')
      else if current = ''DISABLED'' \<and> level = ''NONE'' then (''DISABLED'', ''DISABLED_LOCKED_CONTROLLED_RECOVERY'')
      else (current, ''NO_CHANGE''))"

definition is_invalid :: "string \<Rightarrow> string \<Rightarrow> bool" where
  "is_invalid current nxt \<longleftrightarrow> current = ''DISABLED'' \<and> nxt \<in> set [''ACTIVE'', ''THROTTLED'']"

definition locked :: "string \<Rightarrow> string \<times> string \<Rightarrow> string \<times> string" where
  "locked current nr = (if is_invalid current (fst nr) then (''DISABLED'', ''DISABLED_STATE_LOCK'') else nr)"

definition last_50 :: "'a list \<Rightarrow> 'a list" where
  "last_50 xs = drop (length xs - 50) xs"

definition lifecycle_step :: "timestamp \<Rightarrow> lifecycle option \<Rightarrow> bool \<Rightarrow> string \<Rightarrow> lifecycle" where
  "lifecycle_step now existing should_disable level =
     (let lc = get_or existing (new_lifecycle now); current = str_or (lc_state lc) ''ACTIVE'' in
      case locked current (next_state current should_disable level) of (nxt, reason) \<Rightarrow>
        if nxt \<noteq> current
        then \<lparr>lc_state = Some nxt, lc_at = now, lc_reason = reason,
              lc_history = last_50 (lc_history lc @ [\<lparr>lx_from = Some current, lx_to = nxt, lx_reason = reason, lx_at = now\<rparr>])\<rparr>
        else lc\<lparr>lc_state := Some nxt\<rparr>)"

definition apply_lifecycle_transitions ::
  "timestamp \<Rightarrow> string list \<Rightarrow> (string \<Rightarrow> lifecycle option) \<Rightarrow> (string \<Rightarrow> throttle_state option) \<Rightarrow> (string \<Rightarrow> disable_state option)
     \<Rightarrow> (string \<Rightarrow> lifecycle option)" where
  "apply_lifecycle_transitions now strategy_ids registry throttles disables strategy =
     (if strategy \<in> set strategy_ids
      then Some (lifecycle_step now (registry strategy)
        (case disables strategy of None \<Rightarrow> False | Some ds \<Rightarrow> ds_should_disable ds) (level_of throttles strategy))
      else None)"

text \<open>The transitions the call reports, and those it refuses.\<close>

definition lifecycle_inputs ::
  "(string \<Rightarrow> lifecycle option) \<Rightarrow> (string \<Rightarrow> throttle_state option) \<Rightarrow> (string \<Rightarrow> disable_state option) \<Rightarrow> string
     \<Rightarrow> string \<times> string \<times> string" where
  "lifecycle_inputs registry throttles disables strategy =
     (let current = state_of registry strategy
      in (current, next_state current (case disables strategy of None \<Rightarrow> False | Some ds \<Rightarrow> ds_should_disable ds) (level_of throttles strategy)))"

definition reported_transitions ::
  "string list \<Rightarrow> (string \<Rightarrow> lifecycle option) \<Rightarrow> (string \<Rightarrow> throttle_state option) \<Rightarrow> (string \<Rightarrow> disable_state option)
     \<Rightarrow> (string \<times> string \<times> string) list" where
  "reported_transitions strategy_ids registry throttles disables =
     map (\<lambda>i. case lifecycle_inputs registry throttles disables i of (current, nr) \<Rightarrow> (i, current, fst (locked current nr)))
       (filter (\<lambda>i. case lifecycle_inputs registry throttles disables i of (current, nr) \<Rightarrow> fst (locked current nr) \<noteq> current) strategy_ids)"

definition invalid_transitions ::
  "string list \<Rightarrow> (string \<Rightarrow> lifecycle option) \<Rightarrow> (string \<Rightarrow> throttle_state option) \<Rightarrow> (string \<Rightarrow> disable_state option)
     \<Rightarrow> (string \<times> string \<times> string) list" where
  "invalid_transitions strategy_ids registry throttles disables =
     map (\<lambda>i. case lifecycle_inputs registry throttles disables i of (current, nxt, reason) \<Rightarrow> (i, current, nxt))
       (filter (\<lambda>i. case lifecycle_inputs registry throttles disables i of (current, nxt, reason) \<Rightarrow> is_invalid current nxt) strategy_ids)"

section \<open>Enforcement on the rows of a cycle\<close>

datatype enforcement = Disabled_Blocked | Throttled_Modified | Throttled_Rejected

definition throttled_row :: "throttle_state \<Rightarrow> decision_row \<Rightarrow> decision_row" where
  "throttled_row th row =
     row\<lparr>dr_confidence := Some (py_round 4 (min (row_confidence row) (num_or (Some (th_confidence th)) 1))),
         dr_size := Some (py_round 4 (min (row_size row) (num_or (Some (th_max_ratio th)) 1)))\<rparr>"

definition governance_step ::
  "(string \<Rightarrow> lifecycle option) \<Rightarrow> (string \<Rightarrow> throttle_state option) \<Rightarrow> decision_row \<Rightarrow> (string \<Rightarrow> nat)
     \<Rightarrow> decision_row \<times> enforcement list \<times> (string \<Rightarrow> nat)" where
  "governance_step registry throttles row0 accepted =
     (let strategy = row_strategy row0; state = state_of registry strategy; level = level_of throttles strategy;
          row = row0\<lparr>dr_lifecycle := Some state, dr_throttle := Some level\<rparr>
      in if \<not> allowed row then (row, [], accepted)
         else if state = ''DISABLED''
         then (reject_row ''GOVERNANCE'' ''STRATEGY_DISABLED_HARD_BLOCK'' row, [Disabled_Blocked], accepted)
         else case (if level = ''NONE'' then None else throttles strategy) of
             None \<Rightarrow> (row, [], accepted)
           | Some th \<Rightarrow>
               let item = throttled_row th row; count = accepted strategy + 1; accepted' = accepted(strategy := count) in
               if int_or (Some (th_max_signals th)) 8 < int count
               then (reject_row ''GOVERNANCE'' ''STRATEGY_THROTTLE_FREQUENCY'' item, [Throttled_Modified, Throttled_Rejected], accepted')
               else (item, [Throttled_Modified], accepted'))"

definition enforce_strategy_lifecycle ::
  "(string \<Rightarrow> lifecycle option) \<Rightarrow> (string \<Rightarrow> throttle_state option) \<Rightarrow> decision_row list
     \<Rightarrow> decision_row list \<times> enforcement list \<times> (string \<Rightarrow> nat)" where
  "enforce_strategy_lifecycle registry throttles rows = run_rows (governance_step registry throttles) rows (\<lambda>_. 0)"

section \<open>From cycle to cycle\<close>

definition seed_legacy :: "timestamp \<Rightarrow> lifecycle option \<Rightarrow> lifecycle" where
  "seed_legacy now existing =
     (let history = (case existing of None \<Rightarrow> [\<lparr>lx_from = None, lx_to = ''DISABLED'', lx_reason = ''LEGACY_SHADOW_ONLY_BOOTSTRAP'', lx_at = now\<rparr>]
        | Some lc \<Rightarrow> if lc_state lc \<noteq> Some ''DISABLED''
            then lc_history lc @ [\<lparr>lx_from = lc_state lc, lx_to = ''DISABLED'', lx_reason = ''LEGACY_SHADOW_ONLY_LOCK'', lx_at = now\<rparr>]
            else lc_history lc)
      in \<lparr>lc_state = Some ''DISABLED'', lc_at = now, lc_reason = ''LEGACY_SHADOW_ONLY_LOCK'', lc_history = last_50 history\<rparr>)"

definition seed_legacy_disabled :: "timestamp \<Rightarrow> string list \<Rightarrow> (string \<Rightarrow> lifecycle option) \<Rightarrow> (string \<Rightarrow> lifecycle option)" where
  "seed_legacy_disabled now legacy registry strategy =
     (if strategy \<in> set legacy then Some (seed_legacy now (registry strategy)) else registry strategy)"

record governance =
  gv_decay :: "string \<Rightarrow> decay_state option"
  gv_throttle :: "string \<Rightarrow> throttle_state option"
  gv_lifecycle :: "string \<Rightarrow> lifecycle option"

text \<open>What a cycle brings: the clock, the registered and the legacy strategies, and its measurements.\<close>

record cycle_input =
  ci_now :: timestamp
  ci_strategies :: "string list"
  ci_legacy :: "string list"
  ci_history :: "history_entry list"
  ci_metrics :: "strategy_metric list"
  ci_attribution :: "strategy_attribution list"

definition governance_cycle :: "cycle_input \<Rightarrow> governance \<Rightarrow> governance" where
  "governance_cycle ci gv =
     (let registry = seed_legacy_disabled (ci_now ci) (ci_legacy ci) (gv_lifecycle gv);
          health = build_strategy_health (ci_history ci) (ci_metrics ci) (ci_attribution ci) 84 3;
          decay = detect_strategy_decay health (gv_decay gv);
          throttles = build_strategy_throttle health (fst decay) (gv_throttle gv);
          disables = evaluate_strategy_auto_disable health (snd decay) registry;
          disables' = (\<lambda>strategy. if strategy \<in> set (ci_legacy ci)
            then Some \<lparr>ds_should_disable = True, ds_reasons = [''LEGACY_SHADOW_ONLY'']\<rparr> else disables strategy)
      in \<lparr>gv_decay = snd decay, gv_throttle = throttles,
          gv_lifecycle = apply_lifecycle_transitions (ci_now ci) (ci_strategies ci) registry throttles disables'\<rparr>)"

section \<open>Lemmas\<close>

lemma state_update_simps [simp]: "row_strategy (row\<lparr>dr_lifecycle := a, dr_throttle := b\<rparr>) = row_strategy row"
  by (simp add: row_strategy_def)

lemma throttled_row_simps [simp]:
  "row_key (throttled_row th row) = row_key row" "allowed (throttled_row th row) = allowed row"
  by (simp_all add: throttled_row_def)

lemma governance_step_tightens: "tightens row (fst (governance_step registry throttles row accepted))"
  by (simp add: governance_step_def Let_def tightens_def split: option.split)

interpretation governance_guard: decision_guard "\<lambda>rows. fst (enforce_strategy_lifecycle registry throttles rows)"
  unfolding enforce_strategy_lifecycle_def by (rule run_rows_guard) (rule governance_step_tightens)

text \<open>A disabled strategy stays disabled as long as it takes part.\<close>

lemma next_state_disabled: "fst (next_state ''DISABLED'' b level) = ''DISABLED''"
  by (simp add: next_state_def)

lemma never_invalid: "\<not> is_invalid current (fst (next_state current b level))"
  by (auto simp: is_invalid_def next_state_disabled)

lemma lifecycle_step_disabled:
  "str_or (lc_state lc) ''ACTIVE'' = ''DISABLED'' \<Longrightarrow> lc_state (lifecycle_step now (Some lc) b level) = Some ''DISABLED''"
  using next_state_disabled [of b level] never_invalid [of "''DISABLED''" b level]
  by (cases "next_state ''DISABLED'' b level") (auto simp: lifecycle_step_def locked_def Let_def)

lemma cycle_keeps_disabled:
  assumes "state_of (gv_lifecycle gv) i = ''DISABLED''" and "i \<in> set (ci_strategies ci)"
  shows "state_of (gv_lifecycle (governance_cycle ci gv)) i = ''DISABLED''"
proof -
  let ?registry = "seed_legacy_disabled (ci_now ci) (ci_legacy ci) (gv_lifecycle gv)"
  have "state_of ?registry i = ''DISABLED''"
    using assms(1) by (simp add: state_of_def seed_legacy_disabled_def seed_legacy_def Let_def)
  then obtain lc where lc: "?registry i = Some lc" "str_or (lc_state lc) ''ACTIVE'' = ''DISABLED''"
    by (auto simp: state_of_def split: option.splits)
  show ?thesis
    unfolding governance_cycle_def Let_def governance.select_convs state_of_def apply_lifecycle_transitions_def
    using assms(2) by (simp add: lc lifecycle_step_disabled)
qed

text \<open>How many rows of a strategy can still pass.\<close>

definition quota :: "(string \<Rightarrow> lifecycle option) \<Rightarrow> (string \<Rightarrow> throttle_state option) \<Rightarrow> string \<Rightarrow> nat option" where
  "quota registry throttles i =
     (if state_of registry i = ''DISABLED'' then Some 0
      else if level_of throttles i = ''NONE'' then None
      else case throttles i of None \<Rightarrow> None | Some th \<Rightarrow> Some (nat (int_or (Some (th_max_signals th)) 8)))"

definition passing :: "string \<Rightarrow> decision_row list \<Rightarrow> nat" where
  "passing i rows = length (filter (\<lambda>row. allowed row \<and> row_strategy row = i) rows)"

lemma passing_Cons [simp]: "passing i (row # rows) = (if allowed row \<and> row_strategy row = i then 1 else 0) + passing i rows"
  by (simp add: passing_def)

lemma governance_step_quota:
  assumes "governance_step registry throttles row accepted = (item, es, accepted')" and "quota registry throttles i = Some q"
  shows "(if allowed item \<and> row_strategy item = i then 1 else 0) + (q - accepted' i) \<le> q - accepted i \<and> accepted i \<le> accepted' i"
  using assms
  by (auto simp: governance_step_def quota_def Let_def row_strategy_def throttled_row_def reject_row_def add_reason_def
      split: if_splits option.splits)

lemma run_quota:
  assumes "quota registry throttles i = Some q"
  shows "passing i (fst (run_rows (governance_step registry throttles) rows accepted)) \<le> q - accepted i"
proof (induction rows arbitrary: accepted)
  case Nil
  then show ?case by (simp add: passing_def)
next
  case (Cons row rows)
  obtain item es accepted' where step: "governance_step registry throttles row accepted = (item, es, accepted')"
    by (metis prod_cases3)
  have "passing i (fst (run_rows (governance_step registry throttles) rows accepted')) \<le> q - accepted' i" by (rule Cons)
  with governance_step_quota [OF step assms] show ?case
    by (auto simp: step split: prod.splits)
qed

lemma passing_mono: "list_all2 tightens rows rows' \<Longrightarrow> passing i rows' \<le> passing i rows"
proof (induction rule: list_all2_induct)
  case Nil
  then show ?case by (simp add: passing_def)
next
  case (Cons row rows row' rows')
  then show ?case using row_strategy_key [of row' row] by (auto simp: tightens_def)
qed

text \<open>An entry of the registry, whose history ends in its state and has no gaps.\<close>

definition chained :: "lifecycle_change list \<Rightarrow> bool" where
  "chained = successively (\<lambda>a b. lx_from b = Some (lx_to a))"

definition lifecycle_ok :: "lifecycle \<Rightarrow> bool" where
  "lifecycle_ok lc \<longleftrightarrow> lc_state lc \<in> set [Some ''ACTIVE'', Some ''THROTTLED'', Some ''DISABLED''] \<and> lc_history lc \<noteq> [] \<and>
     Some (lx_to (last (lc_history lc))) = lc_state lc \<and> length (lc_history lc) \<le> 50 \<and> chained (lc_history lc)"

lemma chained_drop: "chained xs \<Longrightarrow> chained (drop n xs)"
  unfolding chained_def
proof (induction xs arbitrary: n)
  case (Cons x xs)
  then show ?case by (cases n) (auto simp: successively_Cons)
qed simp

lemma extend_history:
  assumes "chained xs" and "xs \<noteq> [] \<Longrightarrow> lx_from x = Some (lx_to (last xs))"
  shows "last_50 (xs @ [x]) \<noteq> []" "lx_to (last (last_50 (xs @ [x]))) = lx_to x" "length (last_50 (xs @ [x])) \<le> 50"
    "chained (last_50 (xs @ [x]))"
proof -
  have *: "chained (xs @ [x])" using assms by (auto simp: chained_def successively_append_iff)
  show "last_50 (xs @ [x]) \<noteq> []" "lx_to (last (last_50 (xs @ [x]))) = lx_to x" "length (last_50 (xs @ [x])) \<le> 50"
    by (simp_all add: last_50_def)
  show "chained (last_50 (xs @ [x]))"
    unfolding last_50_def by (rule chained_drop [OF *])
qed

lemma locked_states:
  assumes "current \<in> set [''ACTIVE'', ''THROTTLED'', ''DISABLED'']"
  shows "fst (locked current (next_state current b level)) \<in> set [''ACTIVE'', ''THROTTLED'', ''DISABLED'']"
  using assms by (auto simp: locked_def next_state_def is_invalid_def)

lemma lifecycle_step_ok:
  assumes "case existing of None \<Rightarrow> True | Some lc \<Rightarrow> lifecycle_ok lc"
  shows "lifecycle_ok (lifecycle_step now existing b level)"
proof -
  obtain lc where lc: "lc = get_or existing (new_lifecycle now)" by simp
  have ok: "lifecycle_ok lc"
    using assms by (auto simp: lc lifecycle_ok_def new_lifecycle_def chained_def split: option.splits)
  then obtain cur where cur: "lc_state lc = Some cur" "cur \<in> set [''ACTIVE'', ''THROTTLED'', ''DISABLED'']"
    by (auto simp: lifecycle_ok_def)
  obtain nxt reason where nr: "locked cur (next_state cur b level) = (nxt, reason)" by fastforce
  have nxt: "nxt \<in> set [''ACTIVE'', ''THROTTLED'', ''DISABLED'']" using locked_states [OF cur(2), of b level] by (simp add: nr)
  have str: "str_or (Some cur) ''ACTIVE'' = cur" using cur(2) by auto
  have hist: "chained (lc_history lc)" "Some (lx_to (last (lc_history lc))) = Some cur"
    using ok by (simp_all add: lifecycle_ok_def cur(1))
  note ext = extend_history [of "lc_history lc" "\<lparr>lx_from = Some cur, lx_to = nxt, lx_reason = reason, lx_at = now\<rparr>", OF hist(1)]
  show ?thesis
    unfolding lifecycle_step_def lc [symmetric] Let_def cur(1) str nr prod.case
    using ok nxt ext hist(2) by (auto simp: lifecycle_ok_def cur(1))
qed

lemma seed_legacy_ok:
  assumes "case existing of None \<Rightarrow> True | Some lc \<Rightarrow> lifecycle_ok lc"
  shows "lifecycle_ok (seed_legacy now existing)"
proof (cases existing)
  case None
  then show ?thesis by (simp add: seed_legacy_def lifecycle_ok_def last_50_def chained_def)
next
  case (Some lc)
  then have ok: "lifecycle_ok lc" using assms by simp
  note ext = extend_history [of "lc_history lc" "\<lparr>lx_from = lc_state lc, lx_to = ''DISABLED'', lx_reason = ''LEGACY_SHADOW_ONLY_LOCK'', lx_at = now\<rparr>"]
  show ?thesis
    using ok ext by (auto simp: Some seed_legacy_def lifecycle_ok_def last_50_def Let_def)
qed

lemma cycle_lifecycle_ok:
  assumes "\<And>i. case gv_lifecycle gv i of None \<Rightarrow> True | Some lc \<Rightarrow> lifecycle_ok lc"
  shows "case gv_lifecycle (governance_cycle ci gv) i of None \<Rightarrow> True | Some lc \<Rightarrow> lifecycle_ok lc"
proof -
  have "case seed_legacy_disabled (ci_now ci) (ci_legacy ci) (gv_lifecycle gv) i of None \<Rightarrow> True | Some lc \<Rightarrow> lifecycle_ok lc"
    using assms [of i] seed_legacy_ok [OF assms [of i]] by (simp add: seed_legacy_disabled_def)
  then show ?thesis
    unfolding governance_cycle_def Let_def governance.select_convs apply_lifecycle_transitions_def
    by (simp add: lifecycle_step_ok)
qed

definition empty_governance :: governance where
  "empty_governance = \<lparr>gv_decay = (\<lambda>_. None), gv_throttle = (\<lambda>_. None), gv_lifecycle = (\<lambda>_. None)\<rparr>"

section \<open>Properties\<close>

text \<open>
  What the governance lets through. Of the rows of a strategy, none stays allowed when it is
  \<open>DISABLED\<close>, at most the number of signals of its throttle level when it is throttled, and never
  more than were allowed before.
\<close>

theorem governance_limits_signals:
  "length (filter (\<lambda>row. allowed row \<and> row_strategy row = i) (fst (enforce_strategy_lifecycle registry throttles rows)))
   \<le> (if state_of registry i = ''DISABLED'' then 0
      else case (if level_of throttles i = ''NONE'' then None else throttles i) of
          None \<Rightarrow> length (filter (\<lambda>row. allowed row \<and> row_strategy row = i) rows)
        | Some th \<Rightarrow> nat (int_or (Some (th_max_signals th)) 8))"
proof -
  have "passing i (fst (enforce_strategy_lifecycle registry throttles rows)) \<le> passing i rows"
    unfolding enforce_strategy_lifecycle_def by (rule passing_mono [OF run_rows_tighten [OF governance_step_tightens]])
  then show ?thesis
    using run_quota [of registry throttles i _ rows "\<lambda>_. 0"]
    unfolding passing_def [symmetric] enforce_strategy_lifecycle_def
    by (auto simp: quota_def split: option.splits)
qed

text \<open>
  C34: The registry stays well formed. After any cycles, starting from nothing, every entry is
  \<open>ACTIVE\<close>, \<open>THROTTLED\<close> or \<open>DISABLED\<close>, its history has between one and fifty entries, ends in that
  state, and each entry starts where the one before it ended.
\<close>

theorem lifecycle_histories_consistent:
  "case gv_lifecycle (fold governance_cycle cycles empty_governance) i of
     None \<Rightarrow> True
   | Some lc \<Rightarrow> lc_state lc \<in> set [Some ''ACTIVE'', Some ''THROTTLED'', Some ''DISABLED''] \<and>
       0 < length (lc_history lc) \<and> length (lc_history lc) \<le> 50 \<and>
       Some (lx_to (last (lc_history lc))) = lc_state lc \<and>
       successively (\<lambda>a b. lx_from b = Some (lx_to a)) (lc_history lc)"
proof -
  have "case gv_lifecycle (fold governance_cycle cycles gv) i of None \<Rightarrow> True | Some lc \<Rightarrow> lifecycle_ok lc"
    if "\<And>i. case gv_lifecycle gv i of None \<Rightarrow> True | Some lc \<Rightarrow> lifecycle_ok lc" for gv i
    using that
  proof (induction cycles arbitrary: gv)
    case (Cons ci cycles)
    show ?case using Cons.IH [OF cycle_lifecycle_ok [OF Cons.prems]] by simp
  qed simp
  from this [of empty_governance i] show ?thesis
    by (simp add: empty_governance_def lifecycle_ok_def chained_def split: option.splits)
qed

text \<open>
  A disabled strategy stays disabled. Through any number of cycles in which it is
  registered, whatever its health, decay and throttle become, it stays \<open>DISABLED\<close>, and the
  enforcement leaves none of its rows allowed.
\<close>

lemma disabled_stays_disabled:
  assumes "state_of (gv_lifecycle gv) i = ''DISABLED''" and "list_all (\<lambda>ci. i \<in> set (ci_strategies ci)) cycles"
  shows "state_of (gv_lifecycle (fold governance_cycle cycles gv)) i = ''DISABLED'' \<and>
    list_all (\<lambda>row. \<not> (allowed row \<and> row_strategy row = i))
      (fst (enforce_strategy_lifecycle (gv_lifecycle (fold governance_cycle cycles gv)) throttles rows))"
proof -
  have stays: "state_of (gv_lifecycle (fold governance_cycle cycles gv)) i = ''DISABLED''"
    using assms by (induction cycles arbitrary: gv) (simp_all add: cycle_keeps_disabled)
  then have "quota (gv_lifecycle (fold governance_cycle cycles gv)) throttles i = Some 0" by (simp add: quota_def)
  then have "passing i (fst (enforce_strategy_lifecycle (gv_lifecycle (fold governance_cycle cycles gv)) throttles rows)) \<le> 0"
    unfolding enforce_strategy_lifecycle_def using run_quota by fastforce
  with stays show ?thesis by (simp add: passing_def filter_empty_conv list_all_iff)
qed

definition sample_cycle :: "string list \<Rightarrow> cycle_input" where
  "sample_cycle strategies = \<lparr>ci_now = 0, ci_strategies = strategies, ci_legacy = [], ci_history = [], ci_metrics = [], ci_attribution = []\<rparr>"

definition sample_governance :: governance where
  "sample_governance = \<lparr>gv_decay = (\<lambda>_. None), gv_throttle = (\<lambda>_. None),
     gv_lifecycle = [''breakout_v1'' \<mapsto> \<lparr>lc_state = Some ''DISABLED'', lc_at = 0, lc_reason = ''AUTO_DISABLE_POLICY'', lc_history = []\<rparr>]\<rparr>"

lemma sample_disabled: "state_of (gv_lifecycle sample_governance) ''breakout_v1'' = ''DISABLED''"
  by (simp add: state_of_def sample_governance_def)

text \<open>
  A strategy that is absent for one cycle is forgotten. The registry keeps only the strategies
  of the cycle, so a disabled one that was not registered in a cycle counts as \<open>ACTIVE\<close> after it,
  and the enforcement of the next cycle leaves its allowed rows allowed, unless it is throttled.
\<close>

theorem absent_strategy_is_forgotten:
  assumes "i \<notin> set (ci_strategies ci)" and "level_of throttles i = ''NONE''"
    and "allowed row" and "row_strategy row = i"
  shows "state_of (gv_lifecycle (governance_cycle ci gv)) i = ''ACTIVE'' \<and>
    list_all allowed (fst (enforce_strategy_lifecycle (gv_lifecycle (governance_cycle ci gv)) throttles [row]))"
proof -
  have "gv_lifecycle (governance_cycle ci gv) i = None"
    using assms(1) by (simp add: governance_cycle_def Let_def apply_lifecycle_transitions_def)
  then have "state_of (gv_lifecycle (governance_cycle ci gv)) i = ''ACTIVE''" by (simp add: state_of_def)
  then show ?thesis
    using assms(2-4) by (simp add: enforce_strategy_lifecycle_def governance_step_def Let_def)
qed

definition sample_row :: "string \<Rightarrow> decision_row" where
  "sample_row strategy = \<lparr>dr_decision = Some ''ALLOW'', dr_symbol = Some ''BTCUSDT'', dr_side = Some ''LONG'', dr_strategy = Some strategy,
     dr_strategy_id = None, dr_confidence = Some (8 / 10), dr_regime = None, dr_leverage = Some 2, dr_size = Some (1 / 2),
     dr_lev_distance = None, dr_liquidation_distance = None, dr_distance_pct = None, dr_reason_code = Some ''ALLOW'',
     dr_layer = Some ''GATE'', dr_reasons = [], dr_reason_codes = [], dr_lifecycle = None, dr_throttle = None\<rparr>"

theorem absent_strategy_is_forgotten_witness:
  "state_of (gv_lifecycle sample_governance) ''breakout_v1'' = ''DISABLED'' \<and>
   state_of (gv_lifecycle (governance_cycle (sample_cycle [''trend_follow_v1'']) sample_governance)) ''breakout_v1'' = ''ACTIVE''"
proof
  show "state_of (gv_lifecycle (governance_cycle (sample_cycle [''trend_follow_v1'']) sample_governance)) ''breakout_v1'' = ''ACTIVE''"
    by (rule absent_strategy_is_forgotten [where throttles = "\<lambda>_. None" and row = "sample_row ''breakout_v1''", THEN conjunct1])
      (simp_all add: sample_cycle_def sample_row_def level_of_def allowed_def row_strategy_def)
qed (rule sample_disabled)

text \<open>
  A healthier strategy may be throttled more. A strategy throttled at \<open>L2\<close> or \<open>L3\<close>, without a
  decay event, is freed at once by a health score from 62 to below 72, but a score of 72 or
  more only takes it down one level.
\<close>

theorem healthier_strategy_is_throttled_more:
  assumes "previous \<in> set [''L2'', ''L3'']" and "62 \<le> lower_score" and "lower_score < 72" and "72 \<le> higher_score"
  shows "throttle_level previous lower_score None = ''NONE'' \<and>
    throttle_level previous higher_score None = (if previous = ''L3'' then ''L2'' else ''L1'')"
proof -
  have "step_down ''L3'' = ''L2''" "step_down ''L2'' = ''L1''" by code_simp+
  with assms show ?thesis by (auto simp: throttle_level_def level_from_health_def)
qed

theorem healthier_strategy_is_throttled_more_witness:
  "throttle_level ''L3'' 65 None = ''NONE'' \<and> throttle_level ''L3'' 90 None = ''L2''"
  using healthier_strategy_is_throttled_more [of "''L3''" 65 90] by simp

end
