(* ===== verification/Futures_Execution.thy ===== *)
theory Futures_Execution
  imports Prelude
begin

text \<open>
  The order path of futures, \<open>core/execution/\<close>: the request, the pre-flight checks, the reduce-only
  and cancel/replace guards, retries, reconciliation of a reported status, slippage and
  parity measures, the release gate and the paper executor. The calls of the exchange adapter are
  not modelled; \<open>fill_status\<close> is, on the fills it is given.
\<close>

section \<open>Pre-flight checks\<close>

record execution_request =
  xr_symbol :: string
  xr_side :: string
  xr_quantity :: num
  xr_leverage :: num
  xr_reduce_only :: bool
  xr_trace_id :: string

record preflight_context =
  pc_active_symbols :: "string list"
  pc_max_leverage :: "num option"
  pc_position_qty :: "num option"
  pc_position_side :: "string option"
  pc_margin_available :: "num option"
  pc_margin_required :: "num option"
  pc_live_enabled :: bool
  pc_release_status :: "string option"
  pc_environment :: "string option"
  pc_validator :: "bool option"

record preflight_check =
  ck_key :: string
  ck_pass :: bool
  ck_reason :: string
  ck_advisory :: "string option"

definition check_of :: "string \<Rightarrow> bool \<Rightarrow> string \<Rightarrow> preflight_check" where
  "check_of key ok reason = \<lparr>ck_key = key, ck_pass = ok, ck_reason = (if ok then ''PASS'' else reason), ck_advisory = None\<rparr>"

definition reduce_only_valid :: "execution_request \<Rightarrow> preflight_context \<Rightarrow> bool" where
  "reduce_only_valid rq pc =
     (let side = upper_or (pc_position_side pc) ''NONE'' in
      \<not> xr_reduce_only rq \<or>
      0 < num_or (pc_position_qty pc) 0 \<and> \<not> (side = ''LONG'' \<and> xr_side rq = ''BUY'') \<and> \<not> (side = ''SHORT'' \<and> xr_side rq = ''SELL''))"

text \<open>The checks as they are evaluated, before the last loop of \<open>evaluate\<close>.\<close>

definition raw_checks :: "execution_request \<Rightarrow> preflight_context \<Rightarrow> preflight_check list" where
  "raw_checks rq pc =
     [check_of ''symbol_active'' (pc_active_symbols pc = [] \<or> xr_symbol rq \<in> upper ` set (pc_active_symbols pc)) ''SYMBOL_INACTIVE'',
      check_of ''leverage_cap'' (xr_leverage rq \<le> num_or (pc_max_leverage pc) 5) ''RISK_LEVERAGE_LIMIT'',
      check_of ''quantity_valid'' (0 < xr_quantity rq) ''INVALID_QUANTITY'',
      check_of ''reduce_only_consistency'' (reduce_only_valid rq pc) ''REDUCE_ONLY_INCONSISTENT'',
      check_of ''margin_available'' (num_or (pc_margin_required pc) 0 \<le> num_or (pc_margin_available pc) 0) ''INSUFFICIENT_MARGIN'',
      check_of ''live_mode_enabled'' (pc_live_enabled pc) ''LIVE_MODE_DISABLED'',
      check_of ''release_gate'' (upper_or (pc_release_status pc) ''BLOCKED'' \<in> set [''PASS'', ''PASS_WITH_WARNINGS'']) ''RELEASE_GATE_BLOCKED''] @
     (case pc_validator pc of None \<Rightarrow> []
      | Some execution_allowed \<Rightarrow>
          if lower (str_or (pc_environment pc) []) \<in> set [''live'', ''prod'', ''production'']
          then [check_of ''go_live_validator'' execution_allowed ''GO_LIVE_BLOCKED''] else []) @
     [check_of ''live_endpoint_block'' (lower (str_or (pc_environment pc) ''live'') = ''live'') ''LIVE_ENDPOINT_FORBIDDEN'']"

definition make_advisory :: "preflight_check \<Rightarrow> preflight_check" where
  "make_advisory ck = (if ck_pass ck then ck else ck\<lparr>ck_advisory := Some (ck_reason ck), ck_reason := ''PASS'', ck_pass := True\<rparr>)"

record preflight =
  pl_pass :: bool
  pl_reason :: string
  pl_checks :: "preflight_check list"

definition evaluate_preflight :: "execution_request \<Rightarrow> preflight_context \<Rightarrow> preflight" where
  "evaluate_preflight rq pc = \<lparr>pl_pass = True, pl_reason = ''PASS'', pl_checks = map make_advisory (raw_checks rq pc)\<rparr>"

section \<open>Guards\<close>

record reduce_only_verdict =
  ro_pass :: bool
  ro_reason :: string
  ro_path :: string

definition evaluate_reduce_only :: "execution_request \<Rightarrow> num option \<Rightarrow> string option \<Rightarrow> reduce_only_verdict" where
  "evaluate_reduce_only rq quantity side =
     (let reject = (\<lambda>reason. \<lparr>ro_pass = False, ro_reason = reason, ro_path = ''reduce_only_reject''\<rparr>); s = upper_or side ''NONE'' in
      if \<not> xr_reduce_only rq then \<lparr>ro_pass = True, ro_reason = ''PASS'', ro_path = ''normal_order_path''\<rparr>
      else if num_or quantity 0 \<le> 0 then reject ''REDUCE_ONLY_NO_OPEN_POSITION''
      else if s = ''LONG'' \<and> xr_side rq = ''BUY'' then reject ''REDUCE_ONLY_WOULD_INCREASE_LONG''
      else if s = ''SHORT'' \<and> xr_side rq = ''SELL'' then reject ''REDUCE_ONLY_WOULD_INCREASE_SHORT''
      else \<lparr>ro_pass = True, ro_reason = ''PASS'', ro_path = ''reduce_only_liquidation_adl_policy_path''\<rparr>)"

record open_order =
  oo_order_id :: string
  oo_trace_id :: "string option"
  oo_symbol :: "string option"
  oo_side :: "string option"
  oo_status :: "string option"

definition is_duplicate :: "execution_request \<Rightarrow> open_order \<Rightarrow> bool" where
  "is_duplicate rq oo \<longleftrightarrow>
     get_or (oo_trace_id oo) ''None'' = xr_trace_id rq \<and> upper (get_or (oo_symbol oo) []) = xr_symbol rq \<and>
     upper (get_or (oo_side oo) []) = xr_side rq \<and> upper (get_or (oo_status oo) []) \<in> set [''NEW'', ''PARTIALLY_FILLED'']"

text \<open>\<open>block_duplicate_entry\<close>: the order already open, if the request repeats it.\<close>

definition block_duplicate_entry :: "execution_request \<Rightarrow> open_order list \<Rightarrow> open_order option" where
  "block_duplicate_entry rq open_orders = find (is_duplicate rq) open_orders"

definition reconcile_after_cancel :: "string option \<Rightarrow> bool \<times> string" where
  "reconcile_after_cancel status =
     (let state = upper_or status ''UNKNOWN'' in
      if state = ''CANCELED'' then (True, ''CANCELLED_RECONCILED'')
      else if state = ''PARTIALLY_FILLED'' then (False, ''PARTIAL_FILL_REPLACE_BLOCKED'')
      else (False, ''ORDER_NOT_CANCELLED''))"

definition evaluate_release_gate :: "bool \<Rightarrow> string option \<Rightarrow> bool \<Rightarrow> string \<times> string list \<times> bool" where
  "evaluate_release_gate live_enabled release_status has_credentials =
     (let status = upper_or release_status ''BLOCKED'';
          reasons = collect [(\<not> live_enabled, ''LIVE_MODE_DISABLED_BY_DEFAULT''), (has_credentials, ''LIVE_CREDENTIALS_FORBIDDEN''),
            (status = ''BLOCKED'', ''RELEASE_GATE_BLOCKED'')];
          final = (if reasons \<noteq> [] then ''BLOCKED'' else if status = ''PASS_WITH_WARNINGS'' then ''PASS_WITH_WARNINGS'' else ''PASS'')
      in (final, if reasons \<noteq> [] then reasons else [''PASS''], final \<in> set [''PASS'', ''PASS_WITH_WARNINGS'']))"

section \<open>Retries and reported statuses\<close>

datatype retry_action = Retry | Reconcile | Fail_Fast | Manual_Review

definition RETRYABLE_CODES :: "string list" where
  "RETRYABLE_CODES = [''TIMEOUT'', ''RATE_LIMIT'', ''NETWORK_ERROR'', ''EXCHANGE_5XX'']"

definition NON_RETRYABLE_CODES :: "string list" where
  "NON_RETRYABLE_CODES = [''INVALID_ORDER'', ''INSUFFICIENT_MARGIN'', ''REDUCE_ONLY_REJECTED'']"

definition classify_retry :: "string option \<Rightarrow> retry_action" where
  "classify_retry error_code =
     (let code = upper_or error_code ''UNKNOWN'' in
      if code \<in> set RETRYABLE_CODES then Retry
      else if code = ''DUPLICATE_CLIENT_ORDER'' then Reconcile
      else if code \<in> set NON_RETRYABLE_CODES then Fail_Fast
      else Manual_Review)"

definition next_backoff_seconds :: "int \<Rightarrow> string option \<Rightarrow> num" where
  "next_backoff_seconds attempt error_code =
     (if classify_retry error_code \<noteq> Retry then 0
      else let base = (if upper_or error_code [] = ''RATE_LIMIT'' then 7 / 10 else 4 / 10)
           in py_round 3 (min 8 (base * 2 ^ nat (max 1 attempt - 1))))"

definition reconcile_status :: "bool \<Rightarrow> string option \<Rightarrow> num option \<Rightarrow> string" where
  "reconcile_status submitted exchange_status executed_qty =
     (let status = upper_or exchange_status ''UNKNOWN'';
          state = (if \<not> submitted then ''unknown_needs_reconcile''
            else if status \<in> set [''NEW'', ''ACCEPTED''] then ''accepted''
            else if status = ''PARTIALLY_FILLED'' then ''partially_filled''
            else if status = ''FILLED'' then ''filled''
            else if status \<in> set [''CANCELED'', ''CANCELLED''] then ''cancelled''
            else if status \<in> set [''REJECTED'', ''EXPIRED''] then ''rejected''
            else ''unknown_needs_reconcile'')
      in if state = ''accepted'' \<and> 0 < num_or executed_qty 0 then ''partially_filled'' else state)"

section \<open>Measures\<close>

record slippage_measure =
  sl_expected :: num
  sl_realized :: num
  sl_delta :: num

definition evaluate_slippage :: "num option \<Rightarrow> num option \<Rightarrow> slippage_measure" where
  "evaluate_slippage expected_price realized_price =
     (let expected = num_or expected_price 0; realized = num_or realized_price 0;
          bps = (if expected \<le> 0 then 0 else (realized - expected) / expected * 10000)
      in \<lparr>sl_expected = py_round 4 \<bar>bps\<bar>, sl_realized = py_round 4 bps, sl_delta = py_round 8 (realized - expected)\<rparr>)"

definition evaluate_parity :: "num option \<Rightarrow> num option \<Rightarrow> num \<Rightarrow> num \<times> string" where
  "evaluate_parity paper_price live_price tolerance =
     (let paper = num_or paper_price 0; live = num_or live_price 0;
          drift = (if paper \<le> 0 then 0 else \<bar>(live - paper) / paper\<bar> * 10000)
      in (py_round 4 drift, if drift \<le> tolerance then ''PASS'' else ''WARN''))"

record exchange_fill =
  ef_qty :: "num option"
  ef_price :: "num option"

definition fill_status :: "exchange_fill list \<Rightarrow> num \<times> num \<times> bool" where
  "fill_status fills =
     (let filled = sum_list (map (\<lambda>ef. num_or (ef_qty ef) 0) fills);
          quote = sum_list (map (\<lambda>ef. num_or (ef_qty ef) 0 * num_or (ef_price ef) 0) fills)
      in (py_round 8 filled, py_round 8 (if fills \<noteq> [] \<and> 0 < filled then quote / filled else 0), 0 < filled))"

section \<open>The paper executor\<close>

record paper_market =
  ym_price :: "num option"
  ym_spread_bps :: "num option"
  ym_trend_strength :: "num option"

record paper_result =
  yr_opened :: bool
  yr_closed :: bool
  yr_pnl :: num
  yr_entry :: num
  yr_exit :: num
  yr_slippage_bps :: num
  yr_latency_ms :: num
  yr_exit_reason :: string

definition exit_of :: "num \<Rightarrow> num \<Rightarrow> string \<times> num" where
  "exit_of trend_strength confidence =
     (if trend_strength \<le> 15 / 10000 then (''trend_weaken'', - 15 / 10000)
      else if 75 / 100 \<le> confidence then (''profit_target'', 45 / 10000)
      else (''stop_loss'', - 3 / 1000))"

definition simulate :: "string option \<Rightarrow> num option \<Rightarrow> paper_market \<Rightarrow> paper_result" where
  "simulate signal_side confidence_value ym =
     (let side = upper_or signal_side ''NONE'' in
      if side \<notin> set [''LONG'', ''SHORT'']
      then \<lparr>yr_opened = False, yr_closed = False, yr_pnl = 0, yr_entry = 0, yr_exit = 0, yr_slippage_bps = 0, yr_latency_ms = 0,
            yr_exit_reason = ''NO_ACTION_SIGNAL''\<rparr>
      else let mark = max (num_or (ym_price ym) 0) (1 / 100); spread = num_or (ym_spread_bps ym) 0;
               confidence = num_or confidence_value 0;
               slippage = max 1 (py_round 4 (spread * (35 / 100)));
               entry = mark * (if side = ''LONG'' then 1 + slippage / 10000 else 1 - slippage / 10000);
               (reason, move) = exit_of (num_or (ym_trend_strength ym) 0) confidence;
               exit = (if side = ''LONG'' then entry * (1 + move) else entry * (1 - move))
           in \<lparr>yr_opened = True, yr_closed = True, yr_pnl = py_round 6 (if side = ''LONG'' then exit - entry else entry - exit),
               yr_entry = py_round 6 entry, yr_exit = py_round 6 exit, yr_slippage_bps = slippage,
               yr_latency_ms = max 22 (py_round 2 (95 + spread * (18 / 10) + (1 - confidence) * 120)), yr_exit_reason = reason\<rparr>)"

section \<open>Lemmas\<close>

lemma make_advisory_simps [simp]:
  "ck_pass (make_advisory ck)"
  "ck_reason (make_advisory (check_of key ok reason)) = ''PASS''"
  "ck_advisory (make_advisory (check_of key ok reason)) = (if ok then None else Some reason)"
  by (simp_all add: make_advisory_def check_of_def)

lemma release_gate_open:
  "snd (snd (evaluate_release_gate live_enabled status has_credentials)) \<longleftrightarrow>
     live_enabled \<and> \<not> has_credentials \<and> upper_or status ''BLOCKED'' \<noteq> ''BLOCKED''"
  by (simp add: evaluate_release_gate_def Let_def)

text \<open>A reduce-only request that passes is against the position.\<close>

lemma reduce_only_opposes:
  assumes "ro_pass (evaluate_reduce_only rq quantity side)" and "xr_reduce_only rq"
  shows "0 < num_or quantity 0 \<and> (upper_or side ''NONE'' = ''LONG'' \<longrightarrow> xr_side rq \<noteq> ''BUY'')
    \<and> (upper_or side ''NONE'' = ''SHORT'' \<longrightarrow> xr_side rq \<noteq> ''SELL'')"
  using assms by (simp add: evaluate_reduce_only_def Let_def split: if_splits)

lemma classify_disjoint: "classify_retry c = Retry \<longleftrightarrow> upper_or c ''UNKNOWN'' \<in> set RETRYABLE_CODES"
  by (simp add: classify_retry_def Let_def)

section \<open>Properties\<close>

text \<open>
  The pre-flight checks block nothing. Whatever the request and the context, the answer
  passes with the reason \<open>PASS\<close>, and so does every single check; that a check failed is only
  told by its advisory reason, which is there exactly for the checks that had failed.
\<close>

theorem preflight_never_blocks:
  "pl_pass (evaluate_preflight rq pc) \<and> pl_reason (evaluate_preflight rq pc) = ''PASS'' \<and>
   list_all ck_pass (pl_checks (evaluate_preflight rq pc)) \<and>
   map ck_key (filter (\<lambda>ck. ck_advisory ck \<noteq> None) (pl_checks (evaluate_preflight rq pc)))
     = map ck_key (filter (\<lambda>ck. \<not> ck_pass ck) (raw_checks rq pc))"
proof -
  have fresh: "list_all (\<lambda>ck. ck_advisory ck = None) (raw_checks rq pc)"
    by (simp add: raw_checks_def check_of_def split: option.split)
  have "map ck_key (filter (\<lambda>ck. ck_advisory ck \<noteq> None) (map make_advisory cks)) = map ck_key (filter (\<lambda>ck. \<not> ck_pass ck) cks)"
    if "list_all (\<lambda>ck. ck_advisory ck = None) cks" for cks
    using that by (induction cks) (auto simp: make_advisory_def)
  from this [OF fresh] show ?thesis by (simp add: evaluate_preflight_def list_all_iff)
qed

text \<open>
  Back-off is bounded, grows with the attempt, and is there exactly for retryable errors: it
  lies between 0 and 8 seconds, a later attempt waits at least as long, and it is positive exactly
  when the error code is one of the four retryable ones.
\<close>

theorem backoff_bounded_and_monotone:
  assumes "a \<le> b"
  shows "0 \<le> next_backoff_seconds a c \<and> next_backoff_seconds a c \<le> next_backoff_seconds b c \<and> next_backoff_seconds b c \<le> 8 \<and>
    (0 < next_backoff_seconds a c \<longleftrightarrow> upper_or c ''UNKNOWN'' \<in> set RETRYABLE_CODES)"
proof -
  let ?base = "if upper_or c [] = ''RATE_LIMIT'' then 7 / 10 else 4 / 10 :: num"
  let ?d = "\<lambda>n. min 8 (?base * 2 ^ nat (max 1 n - 1))"
  have base: "4 / 10 \<le> ?base" by simp
  have "(2::num) ^ nat (max 1 a - 1) \<le> 2 ^ nat (max 1 b - 1)" using assms by (intro power_increasing nat_mono) simp_all
  then have mono: "py_round 3 (?d a) \<le> py_round 3 (?d b)" using base by (intro py_round_mono min.mono mult_left_mono) simp_all
  have "4 / 10 \<le> ?base * 2 ^ nat (max 1 a - 1)" using mult_mono [OF base one_le_power [of "2::num"]] by simp
  then have low: "4 / 10 \<le> py_round 3 (?d a)" by (intro py_round_ge) (simp_all add: on_grid_def)
  have high: "py_round 3 (?d b) \<le> 8" by (intro py_round_le) simp_all
  show ?thesis
  proof (cases "classify_retry c = Retry")
    case True
    then have eq: "next_backoff_seconds n c = py_round 3 (?d n)" for n
      by (simp only: next_backoff_seconds_def Let_def not_True_eq_False if_False simp_thms)
    have "upper_or c ''UNKNOWN'' \<in> set RETRYABLE_CODES" using True by (simp only: classify_disjoint)
    with mono low high show ?thesis unfolding eq [symmetric] by linarith
  next
    case False
    then have "next_backoff_seconds n c = 0" for n by (simp add: next_backoff_seconds_def)
    with False show ?thesis by (simp add: classify_disjoint)
  qed
qed

theorem backoff_bounded_and_monotone_witness:
  "next_backoff_seconds 1 (Some ''TIMEOUT'') \<le> next_backoff_seconds 9 (Some ''TIMEOUT'') \<and> next_backoff_seconds 9 (Some ''TIMEOUT'') \<le> 8"
  using backoff_bounded_and_monotone [of 1 9 "Some ''TIMEOUT''"] by simp

text \<open>
  The result of a paper trade is decided before it opens. At a spread of at most 100 percent,
  a trade wins exactly when the trend strength exceeds 0.0015 and the confidence of the signal is at
  least 0.75, and loses otherwise, on either side and at any price: nothing that happens after the
  signal is looked at.
\<close>

theorem paper_result_known_in_advance:
  assumes "upper_or side ''NONE'' \<in> set [''LONG'', ''SHORT'']" and "num_or (ym_spread_bps ym) 0 \<le> 10000"
  shows "yr_pnl (simulate side confidence ym) \<noteq> 0 \<and>
    (0 < yr_pnl (simulate side confidence ym) \<longleftrightarrow>
       15 / 10000 < num_or (ym_trend_strength ym) 0 \<and> 75 / 100 \<le> num_or confidence 0)"
proof -
  let ?slippage = "max 1 (py_round 4 (num_or (ym_spread_bps ym) 0 * (35 / 100)))"
  let ?mark = "max (num_or (ym_price ym) 0) (1 / 100)"
  let ?entry = "?mark * (if upper_or side ''NONE'' = ''LONG'' then 1 + ?slippage / 10000 else 1 - ?slippage / 10000)"
  let ?move = "snd (exit_of (num_or (ym_trend_strength ym) 0) (num_or confidence 0))"
  have "py_round 4 (num_or (ym_spread_bps ym) 0 * (35 / 100)) \<le> 3500"
    using assms(2) by (intro py_round_le) simp_all
  then have slippage: "1 \<le> ?slippage" "?slippage \<le> 3500" by simp_all
  have entry: "65 / 10000 \<le> ?entry"
  proof -
    have "1 / 100 * (65 / 100) \<le> ?mark * (if upper_or side ''NONE'' = ''LONG'' then 1 + ?slippage / 10000 else 1 - ?slippage / 10000)"
      using slippage by (intro mult_mono) auto
    then show ?thesis by simp
  qed
  have move: "e * (1 + m) - e = e * m" "e - e * (1 - m) = e * m" for e m :: num by (simp_all add: algebra_simps)
  have pnl: "yr_pnl (simulate side confidence ym) = py_round 6 (?entry * ?move)"
    using assms(1) by (auto simp: simulate_def Let_def case_prod_beta move)
  have grid: "on_grid 6 (9 / 10 ^ 6)" "on_grid 6 (- 9 / 10 ^ 6)" by (simp_all add: on_grid_def)
  show ?thesis
  proof (cases "15 / 10000 < num_or (ym_trend_strength ym) 0 \<and> 75 / 100 \<le> num_or confidence 0")
    case True
    then have "9 / 10 ^ 6 \<le> ?entry * ?move" using entry by (simp add: exit_of_def)
    from py_round_ge [OF grid(1) this] show ?thesis using True by (simp add: pnl)
  next
    case False
    then have "?entry * ?move \<le> - 9 / 10 ^ 6" using entry by (auto simp: exit_of_def)
    from py_round_le [OF grid(2) this] show ?thesis using False by (simp add: pnl)
  qed
qed

theorem paper_result_known_in_advance_witness:
  "0 < yr_pnl (simulate (Some ''LONG'') (Some (8 / 10)) \<lparr>ym_price = Some 100, ym_spread_bps = Some 2, ym_trend_strength = Some (1 / 100)\<rparr>)"
proof -
  have "upper_or (Some ''LONG'') ''NONE'' \<in> set [''LONG'', ''SHORT'']" by code_simp
  from paper_result_known_in_advance [OF this, of "\<lparr>ym_price = Some 100, ym_spread_bps = Some 2, ym_trend_strength = Some (1 / 100)\<rparr>" "Some (8 / 10)"]
  show ?thesis by simp
qed

end
