(* ===== verification/Trading_Strategies.thy ===== *)
theory Trading_Strategies
  imports Correlation_Clusters Futures_Decision
begin

text \<open>
  The market state a futures strategy sees, \<open>_market_state\<close> of
  \<open>services/futures_strategy_service.py\<close>, and the native strategies of
  \<open>core/portfolio/strategy_registry.py\<close>: trend following, mean reversion and breakout, with the
  detectors of \<open>core/strategies/components/\<close>. The market state extends the keys the strategy
  engine reads itself by those only strategies read.
\<close>

section \<open>The market state\<close>

record ohlcv =
  oh_open :: "num option"
  oh_high :: "num option"
  oh_low :: "num option"
  oh_close :: "num option"
  oh_volume :: "num option"

text \<open>What the cache holds of a symbol; of the ticker and the spread only the keys that are read.\<close>

record market_feed =
  mf_candles :: "ohlcv list"
  mf_last_price :: "num option"
  mf_spread_bps :: "num option"
  mf_funding_rate :: "num option"
  mf_funding_history :: "num list option"

record strategy_market = market_state +
  mt_opens :: "num list"
  mt_closes :: "num list"
  mt_highs :: "num list"
  mt_lows :: "num list"
  mt_volumes :: "num list"
  mt_spread_bps :: "num option"
  mt_atr :: "num option"
  mt_atr_baseline :: "num option"
  mt_compression :: "num option"
  mt_persistence :: "num option"
  mt_range_mean :: "num option"
  mt_range_high :: "num option"
  mt_range_low :: "num option"
  mt_volume_spike :: "num option"
  mt_volume_stability :: "num option"
  mt_relative_range :: "num option"
  mt_relative_volume :: "num option"
  mt_liquidity :: "num option"
  mt_volatility :: "num option"
  mt_return_20 :: "num option"
  mt_cluster :: "string option"
  mt_tradable :: "bool option"
  mt_timeframe :: "string option"
  mt_controlled_entry :: "bool option"
  mt_micro_suitable :: "bool option"

text \<open>The positive values of a key of the candles, a missing one counting as 0.\<close>

definition candle_series :: "(ohlcv \<Rightarrow> num option) \<Rightarrow> ohlcv list \<Rightarrow> num list" where
  "candle_series f candles = filter (\<lambda>v. 0 < v) (map (\<lambda>c. get_or (f c) 0) candles)"

text \<open>The mean of the last values, or a default when there are fewer than \<open>n\<close>.\<close>

definition moving_average :: "nat \<Rightarrow> num \<Rightarrow> num list \<Rightarrow> num" where
  "moving_average n d xs = (if n \<le> length xs then sum_list (last_n n xs) / of_nat n else d)"

definition mean_of_last :: "nat \<Rightarrow> num \<Rightarrow> num list \<Rightarrow> num" where
  "mean_of_last n d xs = (if xs = [] then d else sum_list (last_n n xs) / of_nat (length (last_n n xs)))"

definition trend_of :: "num list \<Rightarrow> num \<Rightarrow> num \<times> string" where
  "trend_of closes price =
     (let fast = moving_average 5 price closes; slow = moving_average 20 price closes
      in (if 0 < slow then \<bar>(fast - slow) / slow\<bar> else 0,
          if slow < fast then ''LONG'' else if fast < slow then ''SHORT'' else ''NONE''))"

definition regime_of :: "num \<Rightarrow> num \<Rightarrow> string" where
  "regime_of strength volatility =
     (if 25 / 10000 < strength \<and> volatility \<le> 15 / 1000 then ''TRENDING'' else if 15 / 1000 < volatility then ''VOLATILE'' else ''RANGING'')"

definition spread_state_of :: "num \<Rightarrow> string" where
  "spread_state_of bps = (if 45 \<le> bps then ''SHOCK'' else if 30 \<le> bps then ''ELEVATED'' else ''NORMAL'')"

definition funding_aligned :: "string \<Rightarrow> string \<Rightarrow> bool" where
  "funding_aligned direction bias \<longleftrightarrow>
     (direction = ''LONG'' \<and> bias \<in> set [''LONG_BIAS'', ''NEUTRAL'']) \<or> (direction = ''SHORT'' \<and> bias \<in> set [''SHORT_BIAS'', ''NEUTRAL''])"

definition volume_stability_of :: "num list \<Rightarrow> num \<Rightarrow> num" where
  "volume_stability_of volumes baseline =
     (if 20 \<le> length volumes \<and> 0 < baseline
      then clamp 0 1 (1 - sum_list (map (\<lambda>v. \<bar>v - baseline\<bar>) (last_n 20 volumes)) / (20 * baseline)) else 1)"

definition return_of_20 :: "num list \<Rightarrow> num" where
  "return_of_20 closes =
     (if 21 \<le> length closes \<and> 0 < closes ! (length closes - 21)
      then (last closes - closes ! (length closes - 21)) / closes ! (length closes - 21) else 0)"

definition market_state_of :: "string \<Rightarrow> market_feed \<Rightarrow> strategy_market" where
  "market_state_of symbol mf =
     (let candles = last_n 40 (mf_candles mf);
          closes = candle_series oh_close candles; highs = candle_series oh_high candles; lows = candle_series oh_low candles;
          volumes = filter (\<lambda>v. 0 \<le> v) (map (\<lambda>c. get_or (oh_volume c) 0) candles);
          price = get_or (mf_last_price mf) (if closes = [] then 0 else last closes);
          trend = trend_of closes price;
          steps = map abs (relative_steps closes);
          volatility = mean_of_last 12 0 steps; baseline = mean_of_last 28 volatility steps;
          range_mean = (if 5 \<le> length closes then sum_list (last_n 20 closes) / of_nat (length (last_n 20 closes)) else price);
          recent_range = (if highs \<noteq> [] \<and> lows \<noteq> [] then Max (set (last_n 20 highs)) - Min (set (last_n 20 lows)) else 0);
          volume_recent = moving_average 5 0 volumes; volume_base = moving_average 20 (max volume_recent 1) volumes;
          spread = get_or (mf_spread_bps mf) 0; rate = get_or (mf_funding_rate mf) 0;
          fb = calculate_funding_bias rate (get_or (mf_funding_history mf) [rate])
      in \<lparr>mt_symbol = Some symbol, mt_trend_strength = Some (py_round 6 (fst trend)), mt_trend_direction = Some (snd trend),
          mt_volatility_regime = Some (regime_of (fst trend) volatility), mt_spread_state = Some (spread_state_of spread),
          mt_funding_alignment = Some (funding_aligned (snd trend) (str_or (fb_direction fb) ''NEUTRAL'')),
          mt_latest_price = Some price, mt_funding = fb,
          mt_opens = candle_series oh_open candles, mt_closes = closes, mt_highs = highs, mt_lows = lows, mt_volumes = volumes,
          mt_spread_bps = Some (py_round 4 spread), mt_atr = Some (py_round 6 volatility), mt_atr_baseline = Some (py_round 6 baseline),
          mt_compression = Some (py_round 6 (if 0 < baseline then clamp 0 1 (1 - volatility / baseline) else 0)),
          mt_persistence = Some (py_round 6 (if 0 < range_mean then clamp 0 1 (1 - recent_range / max range_mean 1) else 0)),
          mt_range_mean = Some (py_round 6 range_mean),
          mt_range_high = Some (py_round 6 (if highs = [] then price else Max (set (last_n 20 highs)))),
          mt_range_low = Some (py_round 6 (if lows = [] then price else Min (set (last_n 20 lows)))),
          mt_volume_spike = Some (py_round 6 (if 0 < volume_base then volume_recent / volume_base else 1)),
          mt_volume_stability = Some (py_round 6 (volume_stability_of volumes volume_base)),
          mt_relative_range = Some (py_round 6 (if highs \<noteq> [] \<and> lows \<noteq> [] then (last highs - last lows) / max price (1 / 10 ^ 8) else 0)),
          mt_relative_volume = Some (py_round 6 (if 0 < volume_base then volume_recent / max volume_base (1 / 10 ^ 8) else 0)),
          mt_liquidity = Some (py_round 6 (price * volume_base)), mt_volatility = Some (py_round 6 volatility),
          mt_return_20 = Some (py_round 6 (return_of_20 closes)),
          mt_cluster = Some (if symbol \<in> set [''BTCUSDT'', ''ETHUSDT'', ''BNBUSDT'', ''SOLUSDT''] then ''majors'' else ''alts''),
          mt_tradable = Some True, mt_timeframe = Some ''15m'', mt_controlled_entry = Some True,
          mt_micro_suitable = Some (spread_state_of spread \<noteq> ''SHOCK'')\<rparr>)"

section \<open>Trend following\<close>

definition no_signal :: "string \<Rightarrow> raw_signal" where
  "no_signal strategy_type = Signal_Dict \<lparr>sd_signal = Some ''NONE'', sd_confidence = Some 0, sd_strategy_type = Some strategy_type\<rparr>"

definition signal_of :: "string \<Rightarrow> string \<Rightarrow> num \<Rightarrow> raw_signal" where
  "signal_of strategy_type side confidence =
     Signal_Dict \<lparr>sd_signal = Some side, sd_confidence = Some (py_round 4 confidence), sd_strategy_type = Some strategy_type\<rparr>"

definition trend_follow_adapter :: "strategy_market \<Rightarrow> raw_signal" where
  "trend_follow_adapter mt =
     (let strength = get_or (mt_trend_strength mt) 0; direction = upper (get_or (mt_trend_direction mt) ''NONE'') in
      if upper (get_or (mt_spread_state mt) ''NORMAL'') = ''SHOCK'' \<or> upper (get_or (mt_volatility_regime mt) ''RANGING'') \<noteq> ''TRENDING'' \<or>
         strength < 25 / 10000 \<or> \<not> get_or (mt_funding_alignment mt) False
      then no_signal ''trend_follow_v1''
      else signal_of ''trend_follow_v1'' (if direction \<in> set [''LONG'', ''SHORT''] then direction else ''NONE'')
        (min (95 / 100) (44 / 100 + strength * 38)))"

section \<open>Mean reversion\<close>

definition detect_range_state :: "num \<Rightarrow> num \<Rightarrow> num \<Rightarrow> string \<times> num" where
  "detect_range_state atr volatility_compression range_persistence =
     (let score = min 1 (clamp 0 1 volatility_compression * (55 / 100) + clamp 0 1 range_persistence * (35 / 100)
            + (if max 0 atr < 12 / 1000 then 1 / 10 else 0))
      in (if 72 / 100 \<le> score then ''RANGING'' else if 48 / 100 \<le> score then ''MIXED'' else ''TRENDING'', py_round 4 score))"

definition detect_deviation :: "num \<Rightarrow> num \<Rightarrow> num \<Rightarrow> string \<Rightarrow> string \<times> num \<times> num" where
  "detect_deviation price range_mean atr range_state =
     (if range_mean \<le> 0 then (''NONE'', 0, 0)
      else let distance = (price - range_mean) / range_mean; normalized = \<bar>distance\<bar> / max atr (1 / 100000);
               side = (if 7 / 1000 \<le> distance \<and> 1 \<le> normalized then ''SHORT''
                 else if distance \<le> - 7 / 1000 \<and> 1 \<le> normalized then ''LONG'' else ''NONE'')
           in if upper_or (Some range_state) ''TRENDING'' \<noteq> ''RANGING'' \<and> normalized < 12 / 10 then (''NONE'', 0, py_round 4 normalized)
              else (side, py_round 4 (if side = ''NONE'' then 0 else min (95 / 100) (45 / 100 + normalized * (22 / 100))), py_round 4 normalized))"

definition evaluate_funding_alignment :: "num \<Rightarrow> string \<Rightarrow> string \<times> num" where
  "evaluate_funding_alignment rate direction =
     (let bias = upper_or (Some direction) ''NEUTRAL''; strong = py_round 4 (min (9 / 10) (55 / 100 + \<bar>rate\<bar> * 180)) in
      if 12 / 10000 \<le> rate \<or> bias = ''LONG_BIAS'' then (''SHORT'', strong)
      else if rate \<le> - 12 / 10000 \<or> bias = ''SHORT_BIAS'' then (''LONG'', strong)
      else (''NEUTRAL'', py_round 4 (4 / 10)))"

definition mean_reversion :: "strategy_market \<Rightarrow> raw_signal" where
  "mean_reversion mt =
     (let atr = get_or (mt_atr mt) 0; price = get_or (mt_latest_price mt) 0;
          range = detect_range_state atr (get_or (mt_compression mt) 0) (get_or (mt_persistence mt) 0);
          (side, confidence, normalized) = detect_deviation price (get_or (mt_range_mean mt) price) atr (fst range);
          funding = evaluate_funding_alignment (fb_rate (mt_funding mt)) (get_or (fb_direction (mt_funding mt)) ''NEUTRAL'')
      in if side \<in> set [''LONG'', ''SHORT''] \<and> fst funding \<in> set [side, ''NEUTRAL'']
         then signal_of ''mean_reversion_v1'' side
           (min (95 / 100) (confidence * (7 / 10) + snd range * (2 / 10) + snd funding * (1 / 10)))
         else no_signal ''mean_reversion_v1'')"

section \<open>Breakout\<close>

definition detect_volatility_expansion :: "num \<Rightarrow> num \<Rightarrow> num \<Rightarrow> string \<times> num" where
  "detect_volatility_expansion atr atr_baseline compression =
     (let score = min 1 ((max atr (1 / 100000) / max atr_baseline (1 / 100000) - 1) * (7 / 10) + clamp 0 1 compression * (4 / 10))
      in (if 72 / 100 \<le> score then ''EXPANSION_CONFIRMED'' else if 1 / 2 \<le> score then ''EXPANSION_BUILDING'' else ''NO_EXPANSION'',
          py_round 4 score))"

definition breakout_side :: "num \<Rightarrow> num \<Rightarrow> num \<Rightarrow> string" where
  "breakout_side price high low =
     (if 0 < high \<and> high < price then ''LONG'' else if 0 < low \<and> price < low then ''SHORT'' else ''NONE'')"

definition confirm_breakout :: "num \<Rightarrow> num \<Rightarrow> num \<Rightarrow> num \<Rightarrow> bool \<Rightarrow> string \<times> bool \<times> num" where
  "confirm_breakout price high low volume_ratio suitable =
     (let side = breakout_side price high low; confirmed = (side \<noteq> ''NONE'' \<and> 115 / 100 \<le> volume_ratio \<and> suitable)
      in (side, confirmed, py_round 4 (if confirmed then min (95 / 100) (52 / 100 + min volume_ratio 2 * (18 / 100)) else 0)))"

definition breakout :: "strategy_market \<Rightarrow> raw_signal" where
  "breakout mt =
     (let atr = get_or (mt_atr mt) 0;
          expansion = detect_volatility_expansion atr (get_or (mt_atr_baseline mt) atr) (get_or (mt_compression mt) 0);
          (side, confirmed, confidence) = confirm_breakout (get_or (mt_latest_price mt) 0) (get_or (mt_range_high mt) 0)
            (get_or (mt_range_low mt) 0) (get_or (mt_volume_spike mt) 0) (get_or (mt_micro_suitable mt) True)
      in if confirmed \<and> fst expansion \<in> set [''EXPANSION_BUILDING'', ''EXPANSION_CONFIRMED'']
         then signal_of ''breakout_v1'' side (min (96 / 100) (confidence * (65 / 100) + snd expansion * (35 / 100)))
         else no_signal ''breakout_v1'')"

section \<open>Lemmas\<close>

text \<open>What the engine takes from a strategy's dictionary.\<close>

definition signal_ok :: "raw_signal \<Rightarrow> bool" where
  "signal_ok raw = (case raw of Signal_Object ss \<Rightarrow> False
     | Signal_Dict d \<Rightarrow> sd_signal d \<in> set [Some ''LONG'', Some ''SHORT'', Some ''NONE''] \<and>
         (case sd_confidence d of None \<Rightarrow> False | Some c \<Rightarrow> 0 \<le> c \<and> c \<le> 98 / 100))"

lemma no_signal_ok: "signal_ok (no_signal t)"
  by (simp add: signal_ok_def no_signal_def)

lemma on_grid_98: "on_grid 4 (98 / 100)" "on_grid 4 (95 / 100)"
  by (simp_all add: on_grid_def)

lemma signal_of_ok:
  assumes "side \<in> set [''LONG'', ''SHORT'', ''NONE'']" and "0 \<le> c" and "c \<le> 98 / 100"
  shows "signal_ok (signal_of t side c)"
  using assms py_round_ge [of 4 0 c] py_round_le [OF on_grid_98(1), of c] by (auto simp: signal_ok_def signal_of_def)

lemma signal_of_min_ok:
  "side \<in> set [''LONG'', ''SHORT'', ''NONE''] \<Longrightarrow> 0 \<le> c \<Longrightarrow> 0 \<le> m \<Longrightarrow> m \<le> 98 / 100 \<Longrightarrow> signal_ok (signal_of t side (min m c))"
  by (rule signal_of_ok) auto

lemma range_score_bounds: "0 \<le> snd (detect_range_state a c p) \<and> snd (detect_range_state a c p) \<le> 1"
proof -
  have "0 \<le> clamp 0 1 c" "0 \<le> clamp 0 1 p" by (simp_all add: clamp_bounds)
  then show ?thesis
    unfolding detect_range_state_def Let_def snd_conv by (intro conjI py_round_ge py_round_le) simp_all
qed

lemma deviation_confidence:
  "detect_deviation price m a st = (side, c, n) \<Longrightarrow> side \<in> set [''LONG'', ''SHORT'', ''NONE''] \<and> 0 \<le> c"
proof -
  have n: "0 \<le> \<bar>d\<bar> / max a (1 / 100000)" for d :: num by (simp add: le_max_iff_disj)
  have pos: "0 \<le> py_round 4 (min (95 / 100) (45 / 100 + \<bar>d\<bar> / max a (1 / 100000) * (22 / 100)))" for d
    using n [of d] by (intro py_round_ge) simp_all
  assume "detect_deviation price m a st = (side, c, n)"
  then show ?thesis
    using pos [of "(price - m) / m"] unfolding detect_deviation_def Let_def
    by (auto split: if_splits)
qed

lemma funding_confidence: "0 \<le> snd (evaluate_funding_alignment r d)"
proof -
  have "0 \<le> py_round 4 (min (9 / 10) (55 / 100 + \<bar>r\<bar> * 180))" "0 \<le> py_round 4 (4 / 10)"
    by (intro py_round_ge; simp)+
  then show ?thesis by (simp add: evaluate_funding_alignment_def Let_def)
qed

lemma trend_follow_ok: "signal_ok (trend_follow_adapter mt)"
  unfolding trend_follow_adapter_def Let_def by (auto intro!: no_signal_ok signal_of_min_ok)

lemma mean_reversion_ok: "signal_ok (mean_reversion mt)"
proof -
  let ?range = "detect_range_state (get_or (mt_atr mt) 0) (get_or (mt_compression mt) 0) (get_or (mt_persistence mt) 0)"
  obtain side c n where dev: "detect_deviation (get_or (mt_latest_price mt) 0) (get_or (mt_range_mean mt) (get_or (mt_latest_price mt) 0))
      (get_or (mt_atr mt) 0) (fst ?range) = (side, c, n)" by (metis prod_cases3)
  show ?thesis
    unfolding mean_reversion_def Let_def dev prod.case
    using deviation_confidence [OF dev] range_score_bounds [of "get_or (mt_atr mt) 0"] funding_confidence
    by (auto intro!: no_signal_ok signal_of_min_ok add_nonneg_nonneg simp: range_score_bounds)
qed

lemma breakout_side_cases: "breakout_side p h l \<in> set [''LONG'', ''SHORT'', ''NONE'']"
  by (simp add: breakout_side_def)

lemma breakout_confidence: "confirm_breakout p h l v s = (side, True, c) \<Longrightarrow> 0 \<le> c \<and> side \<in> set [''LONG'', ''SHORT'', ''NONE'']"
proof -
  assume a: "confirm_breakout p h l v s = (side, True, c)"
  then have "115 / 100 \<le> v" by (auto simp: confirm_breakout_def Let_def)
  then have "0 \<le> py_round 4 (min (95 / 100) (52 / 100 + min v 2 * (18 / 100)))" by (intro py_round_ge) (auto simp: min_def)
  then show ?thesis using a breakout_side_cases [of p h l] by (auto simp: confirm_breakout_def Let_def)
qed

lemma expansion_score:
  "fst (detect_volatility_expansion a b c) \<in> set [''EXPANSION_BUILDING'', ''EXPANSION_CONFIRMED''] \<Longrightarrow> 0 \<le> snd (detect_volatility_expansion a b c)"
proof -
  obtain s where "detect_volatility_expansion a b c = (if 72 / 100 \<le> s then ''EXPANSION_CONFIRMED''
      else if 1 / 2 \<le> s then ''EXPANSION_BUILDING'' else ''NO_EXPANSION'', py_round 4 s)"
    unfolding detect_volatility_expansion_def Let_def by blast
  moreover assume "fst (detect_volatility_expansion a b c) \<in> set [''EXPANSION_BUILDING'', ''EXPANSION_CONFIRMED'']"
  ultimately show ?thesis by (auto intro!: py_round_ge split: if_splits)
qed

lemma breakout_ok: "signal_ok (breakout mt)"
proof -
  let ?price = "get_or (mt_latest_price mt) 0"
  obtain side ok c where conf: "confirm_breakout ?price (get_or (mt_range_high mt) 0) (get_or (mt_range_low mt) 0) (get_or (mt_volume_spike mt) 0)
      (get_or (mt_micro_suitable mt) True) = (side, ok, c)" by (metis prod_cases3)
  show ?thesis
    unfolding breakout_def Let_def conf prod.case
    using breakout_confidence conf expansion_score [of "get_or (mt_atr mt) 0" "get_or (mt_atr_baseline mt) (get_or (mt_atr mt) 0)" "get_or (mt_compression mt) 0"]
    by (cases ok) (auto intro!: no_signal_ok signal_of_min_ok add_nonneg_nonneg)
qed

text \<open>A candle whose prices are positive, ordered and have at most six decimals.\<close>

definition sound_candle :: "ohlcv \<Rightarrow> bool" where
  "sound_candle c = (case (oh_low c, oh_close c, oh_high c) of
     (Some l, Some p, Some h) \<Rightarrow> 0 < l \<and> l \<le> p \<and> p \<le> h \<and> on_grid 6 l \<and> on_grid 6 h
   | _ \<Rightarrow> False)"

lemma sound_candle_parts:
  assumes "sound_candle c"
  shows "0 < get_or (oh_low c) 0" "get_or (oh_low c) 0 \<le> get_or (oh_close c) 0" "get_or (oh_close c) 0 \<le> get_or (oh_high c) 0"
    "on_grid 6 (get_or (oh_low c) 0)" "on_grid 6 (get_or (oh_high c) 0)"
  using assms by (auto simp: sound_candle_def split: option.splits)

lemma sound_series:
  assumes "list_all sound_candle cs"
  shows "candle_series oh_close cs = map (\<lambda>c. get_or (oh_close c) 0) cs" "candle_series oh_high cs = map (\<lambda>c. get_or (oh_high c) 0) cs"
    "candle_series oh_low cs = map (\<lambda>c. get_or (oh_low c) 0) cs"
proof -
  have "0 < get_or (oh_low c) 0" "0 < get_or (oh_close c) 0" "0 < get_or (oh_high c) 0" if "c \<in> set cs" for c
    using sound_candle_parts [of c] assms that by (auto simp: list_all_iff)
  then show "candle_series oh_close cs = map (\<lambda>c. get_or (oh_close c) 0) cs" "candle_series oh_high cs = map (\<lambda>c. get_or (oh_high c) 0) cs"
    "candle_series oh_low cs = map (\<lambda>c. get_or (oh_low c) 0) cs"
    by (auto simp: candle_series_def filter_id_conv)
qed

lemma set_last_n: "set (last_n n xs) \<subseteq> set xs"
  by (auto simp: last_n_def dest: in_set_dropD)

lemma last_in_last_n: "xs \<noteq> [] \<Longrightarrow> last xs \<in> set (last_n n xs)"
proof -
  assume "xs \<noteq> []"
  then have "n = 0 \<or> length xs - n < length xs" by (cases n) auto
  then show ?thesis using \<open>xs \<noteq> []\<close> last_in_set [of "drop (length xs - n) xs"] by (auto simp: last_n_def last_drop)
qed

lemma candles_hold_price:
  assumes "list_all sound_candle cs" and "cs \<noteq> []"
  shows "get_or (oh_close (last cs)) 0 \<le> py_round 6 (Max (set (last_n 20 (map (\<lambda>c. get_or (oh_high c) 0) cs))))"
    and "py_round 6 (Min (set (last_n 20 (map (\<lambda>c. get_or (oh_low c) 0) cs)))) \<le> get_or (oh_close (last cs)) 0"
proof -
  let ?H = "set (last_n 20 (map (\<lambda>c. get_or (oh_high c) 0) cs))" and ?L = "set (last_n 20 (map (\<lambda>c. get_or (oh_low c) 0) cs))"
  have grid: "on_grid 6 x" if "x \<in> ?H \<or> x \<in> ?L" for x
  proof -
    from that have "x \<in> set (map (\<lambda>c. get_or (oh_high c) 0) cs) \<or> x \<in> set (map (\<lambda>c. get_or (oh_low c) 0) cs)"
      using subsetD [OF set_last_n, of x] by metis
    then obtain c where "c \<in> set cs" "x = get_or (oh_high c) 0 \<or> x = get_or (oh_low c) 0" by auto
    then show ?thesis using sound_candle_parts(4,5) [of c] assms(1) by (auto simp: list_all_iff)
  qed
  have mem: "get_or (oh_high (last cs)) 0 \<in> ?H" "get_or (oh_low (last cs)) 0 \<in> ?L"
    using last_in_last_n [of "map (\<lambda>c. get_or (oh_high c) 0) cs"] last_in_last_n [of "map (\<lambda>c. get_or (oh_low c) 0) cs"] assms(2)
    by (simp_all add: last_map)
  have sound: "sound_candle (last cs)" using assms by (simp add: list_all_iff)
  have "on_grid 6 (Max ?H)" "on_grid 6 (Min ?L)" using mem grid by (metis Max_in Min_in List.finite_set empty_iff)+
  then have "py_round 6 (Max ?H) = Max ?H" "py_round 6 (Min ?L) = Min ?L" by (simp_all add: py_round_on_grid)
  moreover have "get_or (oh_high (last cs)) 0 \<le> Max ?H" "Min ?L \<le> get_or (oh_low (last cs)) 0" using mem by simp_all
  ultimately show "get_or (oh_close (last cs)) 0 \<le> py_round 6 (Max ?H)" "py_round 6 (Min ?L) \<le> get_or (oh_close (last cs)) 0"
    using sound_candle_parts(2,3) [OF sound] by simp_all
qed

text \<open>Both funding rules, on what \<open>calculate_funding_bias\<close> says of a rate.\<close>

lemma funding_direction: "fb_direction (calculate_funding_bias rate h) =
    Some (if 0 < rate then ''SHORT_BIAS'' else if rate < 0 then ''LONG_BIAS'' else ''NEUTRAL'')"
  by (simp add: calculate_funding_bias_def Let_def)

section \<open>Properties\<close>

text \<open>
  The strategies answer what the engine can read. Whatever the market state, each of the native
  strategies returns a signal \<open>LONG\<close>, \<open>SHORT\<close> or \<open>NONE\<close> with a confidence between 0 and 0.98.
\<close>

theorem native_signals_well_formed:
  "list_all (\<lambda>strategy. case strategy mt of Signal_Object ss \<Rightarrow> False
     | Signal_Dict d \<Rightarrow> sd_signal d \<in> set [Some ''LONG'', Some ''SHORT'', Some ''NONE''] \<and>
         (case sd_confidence d of None \<Rightarrow> False | Some c \<Rightarrow> 0 \<le> c \<and> c \<le> 98 / 100))
     [trend_follow_adapter, mean_reversion, breakout]"
  using trend_follow_ok [of mt] mean_reversion_ok [of mt] breakout_ok [of mt] by (simp add: signal_ok_def)

text \<open>
  A breakout needs a ticker that is ahead of the candles. When no ticker is cached, the price is
  the close of the last candle; the range it would have to leave includes that candle, so on sound
  candles with prices of at most six decimals the breakout strategy never signals.
\<close>

theorem breakout_needs_ticker:
  assumes "mf_last_price mf = None" and "list_all sound_candle (last_n 40 (mf_candles mf))"
  shows "breakout (market_state_of symbol mf) = no_signal ''breakout_v1''"
proof -
  let ?cs = "last_n 40 (mf_candles mf)" and ?mt = "market_state_of symbol mf"
  let ?price = "get_or (mt_latest_price ?mt) 0" and ?high = "get_or (mt_range_high ?mt) 0" and ?low = "get_or (mt_range_low ?mt) 0"
  have "?price \<le> ?high \<and> ?low \<le> ?price \<or> ?high = 0 \<and> ?low = 0"
  proof (cases "?cs = []")
    case True
    then show ?thesis by (simp add: market_state_of_def Let_def assms(1) candle_series_def)
  next
    case False
    have "?price = get_or (oh_close (last ?cs)) 0"
      using False by (simp add: market_state_of_def Let_def assms(1) sound_series [OF assms(2)] last_map)
    moreover have "?high = py_round 6 (Max (set (last_n 20 (map (\<lambda>c. get_or (oh_high c) 0) ?cs))))"
      "?low = py_round 6 (Min (set (last_n 20 (map (\<lambda>c. get_or (oh_low c) 0) ?cs))))"
      using False by (simp_all add: market_state_of_def Let_def sound_series [OF assms(2)])
    ultimately show ?thesis using candles_hold_price [OF assms(2) False] by simp
  qed
  then have "breakout_side ?price ?high ?low = ''NONE''" by (auto simp: breakout_side_def)
  then have "fst (snd (confirm_breakout ?price ?high ?low v s)) = False" for v s
    by (simp add: confirm_breakout_def Let_def)
  then show ?thesis unfolding breakout_def Let_def case_prod_beta by simp
qed

definition flat_candle :: ohlcv where
  "flat_candle = \<lparr>oh_open = Some 100, oh_high = Some 101, oh_low = Some 99, oh_close = Some 101, oh_volume = Some 10\<rparr>"

theorem breakout_needs_ticker_witness:
  "breakout (market_state_of ''BTCUSDT'' \<lparr>mf_candles = replicate 40 flat_candle, mf_last_price = None, mf_spread_bps = None,
     mf_funding_rate = None, mf_funding_history = None\<rparr>) = no_signal ''breakout_v1''"
proof (rule breakout_needs_ticker)
  have "sound_candle flat_candle" by (simp add: sound_candle_def flat_candle_def)
  then show "list_all sound_candle (last_n 40 (mf_candles \<lparr>mf_candles = replicate 40 flat_candle, mf_last_price = None, mf_spread_bps = None,
      mf_funding_rate = None, mf_funding_history = None\<rparr>))"
    using set_last_n [of 40 "replicate 40 flat_candle"] by (auto simp: list_all_iff)
qed simp

text \<open>
  Two strategies read the same funding rate in opposite ways. For a positive rate the market
  state calls only shorts aligned, which is what the trend follower needs; the mean reversion
  admits only longs below 0.0012 and only shorts from there on.
\<close>

theorem funding_rules_contradict:
  assumes "0 < rate" and "direction = get_or (fb_direction (calculate_funding_bias rate h)) ''NEUTRAL''"
  shows "(funding_aligned side direction \<longleftrightarrow> side = ''SHORT'') \<and>
    fst (evaluate_funding_alignment rate direction) = (if rate < 12 / 10000 then ''LONG'' else ''SHORT'')"
proof -
  have d: "direction = ''SHORT_BIAS''" using assms by (simp add: funding_direction)
  have "upper_or (Some ''SHORT_BIAS'') ''NEUTRAL'' = ''SHORT_BIAS''" by code_simp
  then show ?thesis using assms(1) by (auto simp: d funding_aligned_def evaluate_funding_alignment_def Let_def)
qed

theorem funding_rules_contradict_witness:
  "(funding_aligned ''LONG'' ''SHORT_BIAS'' \<longleftrightarrow> ''LONG'' = ''SHORT'') \<and>
   fst (evaluate_funding_alignment (1 / 10000) ''SHORT_BIAS'') = (if 1 / 10000 < (12 / 10000 :: num) then ''LONG'' else ''SHORT'')"
  by (rule funding_rules_contradict [of _ _ "[]"]) (simp_all add: funding_direction)

end
