(* ===== verification/Legacy_Strategies.thy ===== *)
theory Legacy_Strategies
  imports Trading_Strategies
begin

text \<open>
  The legacy strategies of \<open>core/strategies/legacy/\<close> with their indicators, the prefilters of
  \<open>core/strategies/prefilters/\<close>, and the registry of all strategies in
  \<open>core/portfolio/strategy_registry.py\<close>. The thresholds, which the environment may set, are
  records; the square root of the standard library is the argument \<open>fsqrt\<close>.
\<close>

section \<open>Indicators\<close>

definition rolling_mean :: "num list \<Rightarrow> nat \<Rightarrow> num" where
  "rolling_mean values period = (if values = [] then 0 else mean (last_n (max 1 period) values))"

definition deviation_of :: "(num \<Rightarrow> num) \<Rightarrow> num list \<Rightarrow> num" where
  "deviation_of fsqrt sample = fsqrt (max (sum_list (map (\<lambda>v. (v - mean sample) ^ 2) sample) / of_nat (length sample)) 0)"

definition rolling_std :: "(num \<Rightarrow> num) \<Rightarrow> num list \<Rightarrow> nat \<Rightarrow> num" where
  "rolling_std fsqrt values period = (if values = [] then 0 else deviation_of fsqrt (last_n (max 1 period) values))"

definition momentum_pct :: "num list \<Rightarrow> nat \<Rightarrow> num" where
  "momentum_pct closes lookback =
     (if length closes \<le> lookback then 0
      else let base = closes ! (length closes - lookback - 1) in if base \<le> 0 then 0 else (last closes - base) / base)"

definition zscore :: "(num \<Rightarrow> num) \<Rightarrow> num \<Rightarrow> num list \<Rightarrow> num" where
  "zscore fsqrt v sample =
     (if sample = [] then 0
      else let std = deviation_of fsqrt sample in if std \<le> 1 / 10 ^ 12 then 0 else (v - mean sample) / std)"

definition rsi :: "num list \<Rightarrow> nat \<Rightarrow> num" where
  "rsi closes period =
     (if length closes \<le> period then 50
      else let window = last_n (period + 1) closes; diffs = map2 (-) (tl window) window;
               gain = sum_list (map (\<lambda>d. max d 0) diffs) / of_nat period;
               loss = sum_list (map (\<lambda>d. \<bar>min d 0\<bar>) diffs) / of_nat period
           in if loss \<le> 1 / 10 ^ 12 then 100 else 100 - 100 / (1 + gain / loss))"

definition enough :: "nat \<Rightarrow> num list \<Rightarrow> num list \<Rightarrow> num list \<Rightarrow> bool" where
  "enough period closes highs lows \<longleftrightarrow> period \<le> length closes \<and> period \<le> length highs \<and> period \<le> length lows"

definition stochastic_k :: "num list \<Rightarrow> num list \<Rightarrow> num list \<Rightarrow> nat \<Rightarrow> num" where
  "stochastic_k closes highs lows period =
     (if \<not> enough period closes highs lows then 50
      else let highest = Max (set (last_n period highs)); lowest = Min (set (last_n period lows))
           in if highest \<le> lowest then 50 else (last closes - lowest) / (highest - lowest) * 100)"

definition williams_r :: "num list \<Rightarrow> num list \<Rightarrow> num list \<Rightarrow> nat \<Rightarrow> num" where
  "williams_r closes highs lows period =
     (if \<not> enough period closes highs lows then - 50
      else let highest = Max (set (last_n period highs)); lowest = Min (set (last_n period lows))
           in if highest \<le> lowest then - 50 else - 100 * ((highest - last closes) / (highest - lowest)))"

definition cci :: "num list \<Rightarrow> num list \<Rightarrow> num list \<Rightarrow> nat \<Rightarrow> num" where
  "cci closes highs lows period =
     (if \<not> enough period closes highs lows then 0
      else let typical = map (\<lambda>(h, l, c). (h + l + c) / 3) (zip (last_n period highs) (zip (last_n period lows) (last_n period closes)));
               m = sum_list typical / of_nat period; deviation = sum_list (map (\<lambda>t. \<bar>t - m\<bar>) typical) / of_nat period
           in if deviation \<le> 1 / 10 ^ 12 then 0 else (last typical - m) / (15 / 1000 * deviation))"

definition normalize_01 :: "num \<Rightarrow> num \<Rightarrow> num \<Rightarrow> num" where
  "normalize_01 v low high = (if high \<le> low then 1 / 2 else clamp 0 1 ((v - low) / (high - low)))"

text \<open>The values a strategy takes again from the market state, and its breakout levels.\<close>

definition positives :: "num list \<Rightarrow> num list" where
  "positives = filter (\<lambda>v. 0 < v)"

definition levels_of :: "num list \<Rightarrow> nat \<Rightarrow> num list \<Rightarrow> nat \<Rightarrow> num \<times> num" where
  "levels_of highs long_window lows short_window =
     (Max (set (if long_window < length highs then butlast (last_n (long_window + 1) highs) else butlast highs)),
      Min (set (if short_window < length lows then butlast (last_n (short_window + 1) lows) else butlast lows)))"

definition chosen_side :: "bool \<Rightarrow> bool \<Rightarrow> string" where
  "chosen_side long short = (if long \<and> \<not> short then ''LONG'' else if short \<and> \<not> long then ''SHORT'' else ''NONE'')"

text \<open>The answer of a legacy strategy: no confidence without a side.\<close>

definition legacy_signal :: "string \<Rightarrow> string \<Rightarrow> num \<Rightarrow> raw_signal" where
  "legacy_signal strategy_type side confidence = signal_of strategy_type side (if side \<in> set [''LONG'', ''SHORT''] then confidence else 0)"

section \<open>The strategies\<close>

record momentum_config =
  mv_momentum :: num
  mv_volume_momentum :: num
  mv_anomaly :: num
  mv_atr_range :: num
  mv_lookback :: int
  mv_buffer :: num

definition momentum_breakout :: "(num \<Rightarrow> num) \<Rightarrow> momentum_config \<Rightarrow> strategy_market \<Rightarrow> raw_signal" where
  "momentum_breakout fsqrt cf mt =
     (let closes = positives (mt_closes mt); highs = positives (mt_highs mt); lows = positives (mt_lows mt);
          volumes = filter (\<lambda>v. 0 \<le> v) (mt_volumes mt)
      in if length closes < 25 \<or> length highs < 25 \<or> length lows < 25 \<or> length volumes < 25
         then no_signal ''momentum_volume_breakout_v3''
         else
           let price = last closes; atr_ratio = max (get_or (mt_atr mt) 0) (1 / 10000);
               range = max (last highs - last lows) 0 / max (price * atr_ratio) (1 / 10 ^ 8);
               momentum = momentum_pct closes 8;
               slow = rolling_mean volumes 21; volume_momentum = (if 0 < slow then rolling_mean volumes 3 / slow - 1 else 0);
               anomaly = zscore fsqrt (last volumes) (last_n 21 volumes);
               lookback = nat (max 5 (mv_lookback cf)); (long_level, short_level) = levels_of highs lookback lows lookback;
               busy = (mv_volume_momentum cf \<le> volume_momentum \<and> mv_anomaly cf \<le> anomaly \<and> mv_atr_range cf \<le> range);
               long = (long_level * (1 + mv_buffer cf) < price \<and> mv_momentum cf \<le> momentum \<and> busy);
               short = (price < short_level * (1 - mv_buffer cf) \<and> momentum \<le> - mv_momentum cf \<and> busy);
               side = (if long \<and> short then (if 0 \<le> momentum then ''LONG'' else ''SHORT'') else chosen_side long short)
           in legacy_signal ''momentum_volume_breakout_v3'' side (clamp 0 (98 / 100)
                (42 / 100 + min (\<bar>momentum\<bar> / max (mv_momentum cf) (1 / 10000)) 2 * (18 / 100)
                 + min (volume_momentum / max (mv_volume_momentum cf) (1 / 10000)) 2 * (15 / 100)
                 + min (anomaly / max (mv_anomaly cf) (1 / 10)) 2 * (15 / 100)
                 + min (range / max (mv_atr_range cf) (1 / 10)) 2 * (1 / 10))))"

record volatility_config =
  vb_period :: int
  vb_std :: num
  vb_bars :: int
  vb_spread :: num
  vb_volatility :: num
  vb_body :: num
  vb_buffer :: num

definition bollinger :: "(num \<Rightarrow> num) \<Rightarrow> volatility_config \<Rightarrow> num list \<Rightarrow> num \<times> num \<times> num" where
  "bollinger fsqrt cf closes =
     (let period = nat (vb_period cf); m = rolling_mean closes period; std = rolling_std fsqrt closes period
      in (m - vb_std cf * std, m, m + vb_std cf * std))"

definition close_confirm :: "volatility_config \<Rightarrow> num list \<Rightarrow> string \<Rightarrow> num \<Rightarrow> bool" where
  "close_confirm cf closes side level =
     (let bars = nat (max 1 (vb_bars cf)); window = last_n bars closes
      in bars \<le> length closes \<and>
         (if side = ''LONG'' then list_all (\<lambda>c. level * (1 + vb_buffer cf) < c) window
          else list_all (\<lambda>c. c < level * (1 - vb_buffer cf)) window))"

definition volatility_breakout :: "(num \<Rightarrow> num) \<Rightarrow> volatility_config \<Rightarrow> strategy_market \<Rightarrow> raw_signal" where
  "volatility_breakout fsqrt cf mt =
     (let closes = positives (mt_closes mt); highs = positives (mt_highs mt); lows = positives (mt_lows mt);
          opens = positives (mt_opens mt)
      in if int (length closes) < max (vb_period cf + 1) 24 then no_signal ''volatility_breakout_v2''
         else
           let (low_band, middle, high_band) = bollinger fsqrt cf closes; volatility = get_or (mt_atr mt) 0;
               high = (if highs = [] then last closes else last highs); low = (if lows = [] then last closes else last lows);
               open_price = (if opens = [] then closes ! (length closes - 2) else last opens);
               body = \<bar>last closes - open_price\<bar> / max (high - low) (1 / 10 ^ 8);
               fit = (upper (get_or (mt_volatility_regime mt) ''RANGING'') \<in> set [''TRENDING'', ''VOLATILE''] \<and>
                 get_or (mt_spread_bps mt) 0 \<le> vb_spread cf \<and> vb_volatility cf \<le> volatility \<and> vb_body cf \<le> body);
               side = (if close_confirm cf closes ''LONG'' high_band \<and> fit then ''LONG''
                 else if close_confirm cf closes ''SHORT'' low_band \<and> fit then ''SHORT'' else ''NONE'');
               width = (high_band - low_band) / max \<bar>middle\<bar> (1 / 10 ^ 8)
           in legacy_signal ''volatility_breakout_v2'' side (clamp 0 (97 / 100)
                (38 / 100 + min (volatility / max (vb_volatility cf) (1 / 10 ^ 6)) 3 * (2 / 10) + min (width / (2 / 100)) 3 * (2 / 10)
                 + min (body / max (vb_body cf) (1 / 10 ^ 6)) 3 * (18 / 100))))"

record level_config =
  al_buffer :: num
  al_retrace :: num
  al_volume :: num

definition WINDOW_MAP :: "(string \<times> nat \<times> nat) list" where
  "WINDOW_MAP = [(''1m'', 90, 60), (''5m'', 150, 90), (''15m'', 210, 120), (''30m'', 250, 150), (''1h'', 320, 180), (''4h'', 420, 240)]"

definition windows :: "string \<Rightarrow> nat \<times> nat" where
  "windows timeframe = get_or (map_of WINDOW_MAP (lower timeframe)) (210, 120)"

definition adaptive_breakout :: "level_config \<Rightarrow> strategy_market \<Rightarrow> raw_signal" where
  "adaptive_breakout cf mt =
     (let closes = positives (mt_closes mt); highs = positives (mt_highs mt); lows = positives (mt_lows mt);
          volumes = filter (\<lambda>v. 0 \<le> v) (mt_volumes mt)
      in if length closes < 40 \<or> length highs < 40 \<or> length lows < 40 \<or> length volumes < 40
         then no_signal ''adaptive_level_breakout_v2''
         else
           let (long_window, short_window) = windows (get_or (mt_timeframe mt) ''15m'');
               (long_level, short_level) = levels_of highs long_window lows short_window; price = last closes;
               ratio = rolling_mean volumes 3 / max (rolling_mean volumes 20) (1 / 10 ^ 8);
               long = (long_level * (1 + al_buffer cf) < price \<and> \<not> price \<le> long_level * (1 + al_buffer cf * al_retrace cf) \<and> al_volume cf \<le> ratio);
               short = (price < short_level * (1 - al_buffer cf) \<and> \<not> short_level * (1 - al_buffer cf * al_retrace cf) \<le> price \<and> al_volume cf \<le> ratio);
               side = chosen_side long short;
               distance = \<bar>(price - (if side = ''LONG'' then long_level else short_level)) / max price (1 / 10 ^ 8)\<bar>
           in legacy_signal ''adaptive_level_breakout_v2'' side (clamp 0 (96 / 100)
                (36 / 100 + min (distance / (1 / 100)) 3 * (25 / 100) + min ratio (25 / 10) * (18 / 100) + 8 / 100)))"

record oscillator_config =
  ol_long :: num
  ol_short :: num
  ol_compression :: num

definition oscillators :: "num list \<Rightarrow> num list \<Rightarrow> num list \<Rightarrow> num list" where
  "oscillators closes highs lows =
     [normalize_01 (rsi closes 14) 0 100, normalize_01 (stochastic_k closes highs lows 14) 0 100,
      normalize_01 (cci closes highs lows 14) (- 200) 200, normalize_01 (williams_r closes highs lows 14) (- 100) 0,
      normalize_01 (momentum_pct closes 10 * 100) (- 5) 5]"

definition oscillator_reversion :: "oscillator_config \<Rightarrow> strategy_market \<Rightarrow> raw_signal" where
  "oscillator_reversion cf mt =
     (let closes = positives (mt_closes mt); highs = positives (mt_highs mt); lows = positives (mt_lows mt) in
      if length closes < 35 \<or> length highs < 35 \<or> length lows < 35 \<or> \<not> get_or (mt_controlled_entry mt) False
      then no_signal ''oscillator_composite_reversion_v2''
      else let fit = (upper (get_or (mt_volatility_regime mt) ''RANGING'') \<in> set [''RANGING'', ''NORMAL''] \<and>
                 ol_compression cf \<le> get_or (mt_compression mt) 0);
               composite = sum_list (oscillators closes highs lows) / 5;
               side = (if fit \<and> composite \<le> ol_long cf then ''LONG'' else if fit \<and> ol_short cf \<le> composite then ''SHORT'' else ''NONE'')
           in legacy_signal ''oscillator_composite_reversion_v2'' side (clamp 0 (94 / 100)
                (35 / 100 + (if side = ''LONG'' then ol_long cf - composite else composite - ol_short cf) * (11 / 10))))"

section \<open>The registry\<close>

record strategy_settings =
  se_sqrt :: "num \<Rightarrow> num"
  se_momentum :: momentum_config
  se_volatility :: volatility_config
  se_levels :: level_config
  se_oscillator :: oscillator_config

definition strategy_catalog :: "strategy_settings \<Rightarrow> (string \<times> (strategy_market \<Rightarrow> raw_signal)) list" where
  "strategy_catalog se =
     [(''trend_follow_v1'', trend_follow_adapter), (''mean_reversion_v1'', mean_reversion), (''breakout_v1'', breakout),
      (''momentum_volume_breakout_v3'', momentum_breakout (se_sqrt se) (se_momentum se)),
      (''volatility_breakout_v2'', volatility_breakout (se_sqrt se) (se_volatility se)),
      (''adaptive_level_breakout_v2'', adaptive_breakout (se_levels se)),
      (''oscillator_composite_reversion_v2'', oscillator_reversion (se_oscillator se))]"

definition legacy_shadow_ids :: "string list" where
  "legacy_shadow_ids =
     [''momentum_volume_breakout_v3'', ''volatility_breakout_v2'', ''adaptive_level_breakout_v2'', ''oscillator_composite_reversion_v2'']"

text \<open>\<open>filter_catalog_by_active_registry\<close>, with the formulas that the file of the deployment admits.\<close>

definition build_strategy_registry ::
  "strategy_settings \<Rightarrow> string list \<Rightarrow> string + (string \<times> (strategy_market \<Rightarrow> raw_signal)) list" where
  "build_strategy_registry se allowed_ids =
     (let registry = filter (\<lambda>(name, strategy). name \<in> set allowed_ids) (strategy_catalog se)
      in if registry = [] then Inl ''active_formula_registry_blocks_all_strategies'' else Inr registry)"

section \<open>Prefilters\<close>

record universe_config =
  uc_liquidity :: num
  uc_spread :: num
  uc_stability :: num
  uc_min_volatility :: num
  uc_max_volatility :: num

definition universe_reasons :: "universe_config \<Rightarrow> strategy_market \<Rightarrow> string list" where
  "universe_reasons cf mt = collect
     [(get_or (mt_liquidity mt) 0 < uc_liquidity cf, ''MIN_LIQUIDITY''), (uc_spread cf < get_or (mt_spread_bps mt) 999, ''MAX_SPREAD''),
      (get_or (mt_volume_stability mt) 0 < uc_stability cf, ''VOLUME_STABILITY''),
      (get_or (mt_volatility mt) 0 < uc_min_volatility cf \<or> uc_max_volatility cf < get_or (mt_volatility mt) 0, ''VOLATILITY_SUITABILITY''),
      (\<not> get_or (mt_tradable mt) False, ''FUTURES_TRADABILITY'')]"

text \<open>The selected symbols, and the rejected ones with their reasons.\<close>

definition filter_universe :: "universe_config \<Rightarrow> strategy_market list \<Rightarrow> string list \<times> (string \<times> string list) list" where
  "filter_universe cf mts =
     (let symbol = (\<lambda>mt. upper (get_or (mt_symbol mt) []))
      in (sorted_set (map symbol (filter (\<lambda>mt. universe_reasons cf mt = []) mts)),
          map (\<lambda>mt. (symbol mt, universe_reasons cf mt)) (filter (\<lambda>mt. universe_reasons cf mt \<noteq> []) mts)))"

record contraction_config =
  cc_range :: num
  cc_volume :: num
  cc_compression :: num

definition is_contracted :: "contraction_config \<Rightarrow> strategy_market \<Rightarrow> bool" where
  "is_contracted cf mt \<longleftrightarrow> get_or (mt_relative_range mt) 0 \<le> cc_range cf \<and> get_or (mt_relative_volume mt) 0 \<le> cc_volume cf \<and>
     cc_compression cf \<le> get_or (mt_compression mt) 0"

definition breakout_potential :: "contraction_config \<Rightarrow> strategy_market \<Rightarrow> num" where
  "breakout_potential cf mt =
     py_round 6 (clamp 0 1 (get_or (mt_compression mt) 0 * (1 - get_or (mt_relative_range mt) 0 / max (cc_range cf) (1 / 10 ^ 6))))"

definition contraction_scan :: "contraction_config \<Rightarrow> strategy_market list \<Rightarrow> string list" where
  "contraction_scan cf mts = map (\<lambda>mt. upper (get_or (mt_symbol mt) [])) (filter (is_contracted cf) mts)"

record strength_config =
  rc_liquidity :: num
  rc_top_n :: int
  rc_edge :: num

text \<open>\<open>xs[:n]\<close>, where a negative \<open>n\<close> counts from the end.\<close>

definition first_n :: "int \<Rightarrow> 'a list \<Rightarrow> 'a list" where
  "first_n n xs = (if 0 \<le> n then take (nat n) xs else take (length xs - nat (- n)) xs)"

definition cluster_label :: "strategy_market \<Rightarrow> string" where
  "cluster_label mt = get_or (mt_cluster mt) ''default''"

definition benchmark_of :: "string option \<Rightarrow> strategy_market list \<Rightarrow> strategy_market \<Rightarrow> num" where
  "benchmark_of mode mts mt =
     (let peers = (if lower (str_or mode ''cluster'') = ''market'' then mts else filter (\<lambda>m. cluster_label m = cluster_label mt) mts)
      in mean (map (\<lambda>m. get_or (mt_return_20 m) 0) peers))"

text \<open>The benchmark is looked up by symbol, so of two rows of a symbol the last one's cluster counts.\<close>

definition relative_strength :: "string option \<Rightarrow> strategy_market list \<Rightarrow> strategy_market \<Rightarrow> num" where
  "relative_strength mode mts mt =
     (let symbol = (\<lambda>m. upper (get_or (mt_symbol m) []))
      in get_or (mt_return_20 mt) 0 - benchmark_of mode mts (get_or (find (\<lambda>m. symbol m = symbol mt) (rev mts)) mt))"

definition strength_scan :: "strength_config \<Rightarrow> string option \<Rightarrow> strategy_market list \<Rightarrow> (string \<times> num) list" where
  "strength_scan cf mode mts =
     first_n (rc_top_n cf) (sort_desc snd
       (map (\<lambda>mt. (upper (get_or (mt_symbol mt) []), py_round 6 (relative_strength mode mts mt)))
         (filter (\<lambda>mt. \<not> (get_or (mt_liquidity mt) 0 < rc_liquidity cf \<or> 40 < get_or (mt_spread_bps mt) 999) \<and>
            rc_edge cf \<le> relative_strength mode mts mt) mts)))"

section \<open>Lemmas\<close>

lemma legacy_signal_ok:
  "side \<in> set [''LONG'', ''SHORT'', ''NONE''] \<Longrightarrow> 0 \<le> m \<Longrightarrow> m \<le> 98 / 100 \<Longrightarrow> signal_ok (legacy_signal t side (clamp 0 m c))"
  unfolding legacy_signal_def by (rule signal_of_ok) (auto simp: clamp_def)

lemma chosen_side_cases: "chosen_side a b \<in> set [''LONG'', ''SHORT'', ''NONE'']"
  by (simp add: chosen_side_def)

lemma side_of_if: "a \<in> S \<Longrightarrow> b \<in> S \<Longrightarrow> (if P then a else b) \<in> S" for a :: string
  by simp

lemma signal_of_if: "signal_ok a \<Longrightarrow> signal_ok b \<Longrightarrow> signal_ok (if P then a else b)"
  by simp

lemma side_constants: "''LONG'' \<in> set [''LONG'', ''SHORT'', ''NONE'']" "''SHORT'' \<in> set [''LONG'', ''SHORT'', ''NONE'']"
  "''NONE'' \<in> set [''LONG'', ''SHORT'', ''NONE'']"
  by simp_all

lemmas signal_intros = signal_of_if no_signal_ok legacy_signal_ok chosen_side_cases side_of_if side_constants

lemma momentum_ok: "signal_ok (momentum_breakout fsqrt cf mt)"
  unfolding momentum_breakout_def Let_def case_prod_beta by (intro signal_intros) simp_all

lemma volatility_ok: "signal_ok (volatility_breakout fsqrt cf mt)"
  unfolding volatility_breakout_def Let_def case_prod_beta by (intro signal_intros) simp_all

lemma adaptive_ok: "signal_ok (adaptive_breakout cf mt)"
  unfolding adaptive_breakout_def Let_def case_prod_beta by (intro signal_intros) simp_all

lemma oscillator_ok: "signal_ok (oscillator_reversion cf mt)"
  unfolding oscillator_reversion_def Let_def by (intro signal_intros) simp_all

lemma length_last_n: "n \<noteq> 0 \<Longrightarrow> length (last_n n xs) \<le> n"
  by (simp add: last_n_def)

lemma market_highs_short:
  "length (positives (mt_highs (market_state_of symbol mf))) \<le> 40" "length (positives (mt_lows (market_state_of symbol mf))) \<le> 40"
proof -
  have "length (candle_series f (last_n 40 (mf_candles mf))) \<le> 40" for f
    unfolding candle_series_def using length_last_n [of 40 "mf_candles mf"] length_filter_le order_trans length_map
    by (metis (no_types, lifting) zero_neq_numeral)
  then show "length (positives (mt_highs (market_state_of symbol mf))) \<le> 40" "length (positives (mt_lows (market_state_of symbol mf))) \<le> 40"
    by (simp_all add: market_state_of_def Let_def positives_def order_trans [OF length_filter_le])
qed

lemma windows_at_least: "40 < fst (windows t) \<and> 40 < snd (windows t)"
proof (cases "map_of WINDOW_MAP (lower t)")
  case (Some w)
  then have "(lower t, w) \<in> set WINDOW_MAP" by (rule map_of_SomeD)
  then show ?thesis using Some by (auto simp: windows_def WINDOW_MAP_def)
qed (simp add: windows_def)

lemma levels_short: "length highs \<le> a \<Longrightarrow> length lows \<le> b \<Longrightarrow> levels_of highs a lows b = levels_of highs (length highs) lows (length lows)"
  by (simp add: levels_of_def)

section \<open>Properties\<close>

text \<open>
  Every strategy of the registry answers what the engine can read: whatever the settings and
  the market state, a side or \<open>NONE\<close> with a confidence between 0 and 0.98; and the registry that a
  deployment admits is never empty and holds admitted strategies only.
\<close>

theorem registry_strategies_well_formed:
  "case build_strategy_registry se allowed_ids of Inl e \<Rightarrow> True
   | Inr registry \<Rightarrow> registry \<noteq> [] \<and> distinct (map fst registry) \<and>
       list_all (\<lambda>(name, strategy). name \<in> set allowed_ids \<and>
         (case strategy mt of Signal_Object ss \<Rightarrow> False
          | Signal_Dict d \<Rightarrow> sd_signal d \<in> set [Some ''LONG'', Some ''SHORT'', Some ''NONE''] \<and>
              (case sd_confidence d of None \<Rightarrow> False | Some c \<Rightarrow> 0 \<le> c \<and> c \<le> 98 / 100))) registry"
proof -
  have "list_all (\<lambda>(name, strategy). signal_ok (strategy mt)) (strategy_catalog se)"
    by (simp add: strategy_catalog_def trend_follow_ok mean_reversion_ok breakout_ok momentum_ok volatility_ok adaptive_ok oscillator_ok)
  moreover have "distinct (map fst (strategy_catalog se))" by (simp add: strategy_catalog_def)
  then have "distinct (map fst (filter P (strategy_catalog se)))" for P by (rule distinct_map_filter)
  ultimately show ?thesis
    by (auto simp: build_strategy_registry_def Let_def signal_ok_def [symmetric] list_all_iff)
qed

text \<open>
  The composite of five oscillators has four. The normalised Williams \%R equals the normalised
  stochastic on every series, so the composite counts it twice.
\<close>

theorem williams_is_stochastic:
  "normalize_01 (williams_r closes highs lows period) (- 100) 0 = normalize_01 (stochastic_k closes highs lows period) 0 100"
proof -
  have "williams_r closes highs lows period + 100 = stochastic_k closes highs lows period \<or>
    williams_r closes highs lows period = - 50 \<and> stochastic_k closes highs lows period = 50"
    by (auto simp: williams_r_def stochastic_k_def Let_def field_simps)
  then show ?thesis by (auto simp: normalize_01_def)
qed

text \<open>
  The adaptive windows adapt nothing. The market state holds at most 40 candles and the
  smallest window of any timeframe is 60, so the level breakout answers alike for all timeframes.
\<close>

theorem adaptive_windows_ineffective:
  "adaptive_breakout cf ((market_state_of symbol mf)\<lparr>mt_timeframe := t\<rparr>) = adaptive_breakout cf (market_state_of symbol mf)"
proof -
  let ?mt = "market_state_of symbol mf"
  let ?highs = "positives (mt_highs (market_state_of symbol mf))" and ?lows = "positives (mt_lows (market_state_of symbol mf))"
  have "levels_of ?highs (fst (windows w)) ?lows (snd (windows w)) = levels_of ?highs (length ?highs) ?lows (length ?lows)" for w
    using market_highs_short [of symbol mf] windows_at_least [of w] by (intro levels_short) auto
  moreover have "mt_closes (?mt\<lparr>mt_timeframe := t\<rparr>) = mt_closes ?mt" "mt_highs (?mt\<lparr>mt_timeframe := t\<rparr>) = mt_highs ?mt"
    "mt_lows (?mt\<lparr>mt_timeframe := t\<rparr>) = mt_lows ?mt" "mt_volumes (?mt\<lparr>mt_timeframe := t\<rparr>) = mt_volumes ?mt"
    by simp_all
  ultimately show ?thesis by (simp only: adaptive_breakout_def Let_def case_prod_beta)
qed

end
