(* ===== verification/Decision_Pipeline.thy ===== *)
theory Decision_Pipeline
  imports Cluster_Guard Capital_Guard Tail_Risk Live_Integrity Portfolio_Guards Strategy_Governance Futures_Execution Legacy_Strategies
begin

text \<open>
  One cycle of the futures strategies, \<open>run_futures_strategy_paper_cycle\<close> of
  \<open>services/futures_strategy_service.py\<close>: every registered strategy looks at every market, the rows
  pass the guards, the paper executor trades what is left and values what was rejected, and the
  results go into the history and through the governance, whose registry the next cycle enforces.
  What other services report (risk, clusters, capital, readiness) is the environment of a cycle.
\<close>

section \<open>The environment and the guards\<close>

record cycle_env =
  en_now :: timestamp
  en_registry :: "(string \<times> (strategy_market \<Rightarrow> raw_signal)) list"
  en_legacy :: "string list"
  en_markets :: "strategy_market list"
  en_risk :: risk_snapshot
  en_config :: risk_config
  en_equity :: num
  en_clusters :: "cluster list"
  en_positions :: "exposed_position list"
  en_capital :: capital_snapshot
  en_global_risk :: global_risk
  en_readiness :: "readiness_verdict option"

text \<open>What a cycle leaves in the cache for the next one.\<close>

record cycle_state =
  st_governance :: governance
  st_history :: "history_entry list"

definition run_guards :: "cycle_env \<Rightarrow> governance \<Rightarrow> decision_row list \<Rightarrow> decision_row list" where
  "run_guards en gv rows =
     (let rows1 = apply_risk_config (en_config en) rows;
          rows2 = fst (enforce_strategy_lifecycle (seed_legacy_disabled (en_now en) (en_legacy en) (gv_lifecycle gv)) (gv_throttle gv) rows1);
          rows3 = fst (apply_cluster_order_guard (en_equity en) (en_clusters en) (en_positions en) rows2);
          rows4 = fst (apply_capital_order_guard (en_capital en) rows3);
          rows5 = apply_tail_risk_order_guard (en_global_risk en) rows4;
          rows6 = apply_live_readiness_guard (en_readiness en) rows5;
          rows7 = apply_interaction_guard 2 rows6
      in fst (apply_exposure_tracker default_limits rows7))"

section \<open>The rows of the cycle\<close>

text \<open>The strategies run in the order of the registry; the first exception ends the cycle.\<close>

fun strategy_rows ::
  "(string \<times> (strategy_market \<Rightarrow> raw_signal)) list \<Rightarrow> strategy_market list \<Rightarrow> risk_snapshot \<Rightarrow> string list \<Rightarrow> string + decision_row list" where
  "strategy_rows registry mts rk [] = Inr []"
| "strategy_rows registry mts rk (name # names) =
     (case run_cycle (map_of registry) name mts rk of Inl e \<Rightarrow> Inl e
      | Inr ds \<Rightarrow> (case strategy_rows registry mts rk names of Inl e \<Rightarrow> Inl e
        | Inr rows \<Rightarrow> Inr (map (row_of_decision name) ds @ rows)))"

section \<open>Paper results\<close>

text \<open>\<open>confidence_vs_result\<close>: an allowed row with its result, a rejected one with what it would have made.\<close>

record result_sample =
  rs_strategy :: string
  rs_allowed :: bool
  rs_pnl :: num
  rs_false :: bool

definition market_for :: "cycle_env \<Rightarrow> string option \<Rightarrow> paper_market" where
  "market_for en symbol =
     (case find (\<lambda>mt. mt_symbol mt = symbol) (rev (en_markets en)) of
        None \<Rightarrow> \<lparr>ym_price = None, ym_spread_bps = None, ym_trend_strength = None\<rparr>
      | Some mt \<Rightarrow> \<lparr>ym_price = mt_latest_price mt, ym_spread_bps = mt_spread_bps mt, ym_trend_strength = mt_trend_strength mt\<rparr>)"

definition simulated :: "cycle_env \<Rightarrow> decision_row \<Rightarrow> paper_result" where
  "simulated en row = simulate (dr_side row) (dr_confidence row) (market_for en (dr_symbol row))"

definition trade_of :: "cycle_env \<Rightarrow> decision_row \<Rightarrow> paper_trade" where
  "trade_of en row =
     \<lparr>px_strategy = dr_strategy row, px_pnl = Some (yr_pnl (simulated en row)),
      px_slippage = Some (yr_slippage_bps (simulated en row)), px_latency = Some (yr_latency_ms (simulated en row))\<rparr>"

definition sample_of :: "cycle_env \<Rightarrow> decision_row \<Rightarrow> result_sample" where
  "sample_of en row =
     \<lparr>rs_strategy = str_or (dr_strategy row) ''unknown'', rs_allowed = allowed row, rs_pnl = py_round 6 (yr_pnl (simulated en row)),
      rs_false = (if allowed row then yr_pnl (simulated en row) < 0 else 0 < yr_pnl (simulated en row))\<rparr>"

definition paper_trades :: "cycle_env \<Rightarrow> decision_row list \<Rightarrow> paper_trade list" where
  "paper_trades en rows = map (trade_of en) (filter allowed rows)"

definition result_samples :: "cycle_env \<Rightarrow> decision_row list \<Rightarrow> result_sample list" where
  "result_samples en rows =
     map (sample_of en) (filter (\<lambda>row. allowed row \<or> dr_side row \<in> set [Some ''LONG'', Some ''SHORT'']) rows)"

definition false_count :: "bool \<Rightarrow> string \<Rightarrow> result_sample list \<Rightarrow> nat" where
  "false_count allow strategy samples =
     length (filter (\<lambda>rs. rs_strategy rs = strategy \<and> rs_allowed rs = allow \<and> rs_false rs) samples)"

record strategy_metrics =
  ms_strategy :: string
  ms_signals :: nat
  ms_allowed :: nat
  ms_rejected :: nat
  ms_reject_rate :: num
  ms_confidence :: num
  ms_pnl :: num
  ms_slippage :: num
  ms_latency :: num
  ms_false_allow :: nat
  ms_false_reject :: nat
  ms_quality :: num

definition execution_quality :: "num \<Rightarrow> num \<Rightarrow> num \<Rightarrow> num \<Rightarrow> nat \<Rightarrow> nat \<Rightarrow> num" where
  "execution_quality reject_rate pnl slippage latency false_allow false_reject =
     max 0 (min 1 (1 - reject_rate * (55 / 100) - max (- pnl) 0 * 16 - min slippage 120 / 350 - min latency 900 / 2800
       - of_nat (min false_allow 4) * (4 / 100) - of_nat (min false_reject 4) * (3 / 100)))"

definition metrics_of :: "decision_row list \<Rightarrow> paper_trade list \<Rightarrow> result_sample list \<Rightarrow> string \<Rightarrow> strategy_metrics" where
  "metrics_of decisions trades samples strategy =
     (let ds = filter (\<lambda>row. dr_strategy row = Some strategy) decisions;
          ts = filter (\<lambda>px. px_strategy px = Some strategy) trades;
          rejected = length (filter (\<lambda>row. dr_decision row = Some ''REJECT'') ds);
          reject_rate = per_unit (of_nat rejected) (length ds); pnl = sum_of px_pnl ts;
          slippage = per_unit (sum_of px_slippage ts) (length ts); latency = per_unit (sum_of px_latency ts) (length ts);
          fa = false_count True strategy samples; fr = false_count False strategy samples
      in \<lparr>ms_strategy = strategy, ms_signals = length ds, ms_allowed = length (filter allowed ds), ms_rejected = rejected,
          ms_reject_rate = py_round 4 reject_rate, ms_confidence = py_round 4 (per_unit (sum_of dr_confidence ds) (length ds)),
          ms_pnl = py_round 6 pnl, ms_slippage = py_round 4 slippage, ms_latency = py_round 2 latency,
          ms_false_allow = fa, ms_false_reject = fr,
          ms_quality = py_round 4 (execution_quality reject_rate pnl slippage latency fa fr)\<rparr>)"

section \<open>A cycle\<close>

record cycle_outcome =
  oc_rows :: "decision_row list"
  oc_trades :: "paper_trade list"
  oc_samples :: "result_sample list"
  oc_metrics :: "strategy_metrics list"
  oc_attribution :: "attribution_row list"
  oc_pnl :: num

definition outcome_of :: "cycle_env \<Rightarrow> decision_row list \<Rightarrow> cycle_outcome" where
  "outcome_of en rows =
     (let trades = paper_trades en rows; samples = result_samples en rows
      in \<lparr>oc_rows = rows, oc_trades = trades, oc_samples = samples,
          oc_metrics = map (metrics_of rows trades samples) (map fst (en_registry en)),
          oc_attribution = fst (build_strategy_attribution rows trades), oc_pnl = py_round 6 (sum_of px_pnl trades)\<rparr>)"

definition metric_entry :: "strategy_metrics \<Rightarrow> strategy_metric" where
  "metric_entry ms = \<lparr>sm_strategy = Some (ms_strategy ms), sm_pnl = Some (ms_pnl ms), sm_quality = Some (ms_quality ms),
     sm_confidence = Some (ms_confidence ms)\<rparr>"

definition attribution_entry :: "attribution_row \<Rightarrow> strategy_attribution" where
  "attribution_entry ar = \<lparr>sb_strategy = Some (ar_strategy ar), sb_win_rate = Some (ar_win_rate ar)\<rparr>"

definition history_entry_of :: "cycle_outcome \<Rightarrow> history_entry" where
  "history_entry_of oc = \<lparr>he_metrics = map metric_entry (oc_metrics oc), he_attribution = map attribution_entry (oc_attribution oc)\<rparr>"

definition append_history :: "history_entry list \<Rightarrow> history_entry \<Rightarrow> history_entry list" where
  "append_history history he = last_n 720 (history @ [he])"

definition governance_input :: "cycle_env \<Rightarrow> history_entry list \<Rightarrow> cycle_outcome \<Rightarrow> cycle_input" where
  "governance_input en history oc =
     \<lparr>ci_now = en_now en, ci_strategies = map fst (en_registry en), ci_legacy = en_legacy en, ci_history = history,
      ci_metrics = map metric_entry (oc_metrics oc), ci_attribution = map attribution_entry (oc_attribution oc)\<rparr>"

definition next_cycle_state :: "cycle_env \<Rightarrow> cycle_outcome \<Rightarrow> cycle_state \<Rightarrow> cycle_state" where
  "next_cycle_state en oc st =
     (let history = append_history (st_history st) (history_entry_of oc)
      in \<lparr>st_governance = governance_cycle (governance_input en history oc) (st_governance st), st_history = history\<rparr>)"

text \<open>An exception of a strategy ends the cycle before anything is written.\<close>

definition strategy_paper_cycle :: "cycle_env \<Rightarrow> cycle_state \<Rightarrow> (string + cycle_outcome) \<times> cycle_state" where
  "strategy_paper_cycle en st =
     (case strategy_rows (en_registry en) (en_markets en) (en_risk en) (map fst (en_registry en)) of
        Inl e \<Rightarrow> (Inl e, st)
      | Inr rows \<Rightarrow> let oc = outcome_of en (run_guards en (st_governance st) rows) in (Inr oc, next_cycle_state en oc st))"

fun run_paper_cycles :: "cycle_env list \<Rightarrow> cycle_state \<Rightarrow> (string + cycle_outcome) list \<times> cycle_state" where
  "run_paper_cycles [] st = ([], st)"
| "run_paper_cycles (en # ens) st =
     (case strategy_paper_cycle en st of (r, st1) \<Rightarrow> case run_paper_cycles ens st1 of (rs, st2) \<Rightarrow> (r # rs, st2))"

section \<open>Lemmas\<close>

text \<open>The guards, one after the other, are a guard.\<close>

lemmas guard_chain =
  guard_compose [OF guard_compose [OF guard_compose [OF guard_compose [OF guard_compose [OF guard_compose [OF guard_compose [OF
    risk_config_guard.decision_guard_axioms governance_guard.decision_guard_axioms] cluster_guard.decision_guard_axioms]
    capital_guard.decision_guard_axioms] tail_guard.decision_guard_axioms] readiness_guard.decision_guard_axioms]
    interaction_guard.decision_guard_axioms] exposure_guard.decision_guard_axioms]

interpretation cycle_guards: decision_guard "run_guards en gv"
  unfolding run_guards_def Let_def by (rule guard_chain)

text \<open>A guard that goes row by row leaves no more allowed rows of a kind, and on no more sides.\<close>

lemma tightened_filter:
  assumes "list_all2 tightens rows rows'" and "\<And>a b. row_key a = row_key b \<Longrightarrow> P a = P b"
  shows "length (filter (\<lambda>row. allowed row \<and> P row) rows') \<le> length (filter (\<lambda>row. allowed row \<and> P row) rows)"
    and "dr_side ` set (filter (\<lambda>row. allowed row \<and> P row) rows') \<subseteq> dr_side ` set (filter (\<lambda>row. allowed row \<and> P row) rows)"
  using assms(1)
proof (induction rule: list_all2_induct)
  case (Cons a as b bs)
  have key: "P b = P a" "dr_side b = dr_side a" "allowed b \<Longrightarrow> allowed a"
    using Cons(1) assms(2) [of b a] by (simp_all add: tightens_def row_key_def)
  case 1
  show ?case using Cons(3) key by simp
next
  case (Cons a as b bs)
  have key: "P b = P a" "dr_side b = dr_side a" "allowed b \<Longrightarrow> allowed a"
    using Cons(1) assms(2) [of b a] by (simp_all add: tightens_def row_key_def)
  case 2
  show ?case using Cons(4) key by auto
qed simp_all

lemma disabled_blocked:
  assumes "row \<in> set (fst (enforce_strategy_lifecycle registry throttles rows))" and "allowed row"
  shows "state_of registry (row_strategy row) \<noteq> ''DISABLED''"
proof
  assume "state_of registry (row_strategy row) = ''DISABLED''"
  then have "quota registry throttles (row_strategy row) = Some 0" by (simp add: quota_def)
  then have "passing (row_strategy row) (fst (enforce_strategy_lifecycle registry throttles rows)) \<le> 0"
    unfolding enforce_strategy_lifecycle_def using run_quota by fastforce
  then show False using assms by (auto simp: passing_def filter_empty_conv)
qed

lemma pause_verdict: "tv_action (evaluate_tail_risk_order_guard (Some ''PAUSE'') events) = ''REJECT''"
proof -
  have "upper_or (Some ''PAUSE'') ''NORMAL'' = ''PAUSE''" by code_simp
  then show ?thesis by (simp add: evaluate_tail_risk_order_guard_def)
qed

lemma pause_blocks: "gk_state gk = ''PAUSE'' \<Longrightarrow> row \<in> set (apply_tail_risk_order_guard gk rows) \<Longrightarrow> \<not> allowed row"
  by (auto simp: apply_tail_risk_order_guard_def pause_verdict tail_decide_def)

lemma block_blocks:
  "answer = Some rv \<Longrightarrow> rv_action rv = ''BLOCK'' \<Longrightarrow> row \<in> set (apply_live_readiness_guard answer rows) \<Longrightarrow> \<not> allowed row"
  by (auto simp: apply_live_readiness_guard_def)

lemma run_guards_allowed:
  assumes "row \<in> set (run_guards en gv rows)" and "allowed row"
  shows "state_of (seed_legacy_disabled (en_now en) (en_legacy en) (gv_lifecycle gv)) (row_strategy row) \<noteq> ''DISABLED''"
    and "gk_state (en_global_risk en) \<noteq> ''PAUSE''"
    and "map_option rv_action (en_readiness en) \<noteq> Some ''BLOCK''"
proof -
  let ?registry = "seed_legacy_disabled (en_now en) (en_legacy en) (gv_lifecycle gv)"
  let ?r2 = "fst (enforce_strategy_lifecycle ?registry (gv_throttle gv) (apply_risk_config (en_config en) rows))"
  let ?r3 = "fst (apply_cluster_order_guard (en_equity en) (en_clusters en) (en_positions en) ?r2)"
  let ?r4 = "fst (apply_capital_order_guard (en_capital en) ?r3)"
  let ?r5 = "apply_tail_risk_order_guard (en_global_risk en) ?r4"
  let ?r6 = "apply_live_readiness_guard (en_readiness en) ?r5"
  let ?r7 = "apply_interaction_guard 2 ?r6"
  have "row \<in> set (fst (apply_exposure_tracker default_limits ?r7))" using assms(1) by (simp add: run_guards_def)
  then obtain a7 where a7: "a7 \<in> set ?r7" "allowed a7" "row_key a7 = row_key row"
    using exposure_guard.allowed_was_allowed assms(2) by blast
  then obtain a6 where a6: "a6 \<in> set ?r6" "allowed a6" "row_key a6 = row_key row"
    using interaction_guard.allowed_was_allowed by metis
  then obtain a5 where a5: "a5 \<in> set ?r5" "allowed a5" "row_key a5 = row_key row"
    using readiness_guard.allowed_was_allowed by metis
  then obtain a4 where a4: "a4 \<in> set ?r4" "allowed a4" "row_key a4 = row_key row"
    using tail_guard.allowed_was_allowed by metis
  then obtain a3 where a3: "a3 \<in> set ?r3" "allowed a3" "row_key a3 = row_key row"
    using capital_guard.allowed_was_allowed by metis
  then obtain a2 where a2: "a2 \<in> set ?r2" "allowed a2" "row_key a2 = row_key row"
    using cluster_guard.allowed_was_allowed by metis
  show "state_of ?registry (row_strategy row) \<noteq> ''DISABLED''"
    using disabled_blocked [OF a2(1,2)] row_strategy_key [OF a2(3)] by simp
  show "gk_state (en_global_risk en) \<noteq> ''PAUSE''" using pause_blocks a5(1,2) by blast
  show "map_option rv_action (en_readiness en) \<noteq> Some ''BLOCK''" using block_blocks a6(1,2) by (cases "en_readiness en") auto
qed

text \<open>Sides and numbers: what the interaction guard left, the exposure tracker only reduced.\<close>

lemma run_guards_one_sided: "one_sided 2 (filter (\<lambda>row. allowed row \<and> row_symbol row = symbol) (run_guards en gv rows))"
proof -
  obtain rows6 where run: "run_guards en gv rows = fst (apply_exposure_tracker default_limits (apply_interaction_guard 2 rows6))"
    unfolding run_guards_def Let_def by blast
  have key: "(row_symbol a = symbol) = (row_symbol b = symbol)" if "row_key a = row_key b" for a b
    using that by (simp add: row_key_def row_symbol_def)
  show ?thesis
    using interaction_one_sided [of 2 symbol rows6]
      tightened_filter [where P = "\<lambda>row. row_symbol row = symbol", OF exposure_tightens [of "apply_interaction_guard 2 rows6" default_limits] key]
    unfolding run one_sided_def by (auto simp del: set_filter)
qed

text \<open>What a cycle hands to the guards: one row for each strategy and market, from the engine.\<close>

lemma run_symbols_length: "run_symbols f name rk mts = Inr ds \<Longrightarrow> length ds = length mts"
  by (induction mts arbitrary: ds) (auto split: sum.splits)

lemma run_symbols_in:
  "run_symbols f name rk mts = Inr ds \<Longrightarrow> d \<in> set ds \<Longrightarrow> \<exists>mt \<in> set mts. evaluate_symbol name (f mt) mt rk = Inr d"
  by (induction mts arbitrary: ds) (auto split: sum.splits)

lemma strategy_rows_length:
  "strategy_rows registry mts rk names = Inr rows \<Longrightarrow> length rows = length names * length mts"
  by (induction names arbitrary: rows) (auto simp: run_cycle_def dest: run_symbols_length split: sum.splits option.splits)

lemma strategy_rows_in:
  assumes "strategy_rows registry mts rk names = Inr rows" and "row \<in> set rows"
  shows "\<exists>name \<in> set names. \<exists>f mt d. mt \<in> set mts \<and> evaluate_symbol name (f mt) mt rk = Inr d \<and> row = row_of_decision name d"
  using assms
proof (induction names arbitrary: rows)
  case (Cons name names)
  from Cons.prems(1) obtain ds rest where run: "run_cycle (map_of registry) name mts rk = Inr ds"
      "strategy_rows registry mts rk names = Inr rest" "rows = map (row_of_decision name) ds @ rest"
    by (auto split: sum.splits)
  then obtain f where "run_symbols f name rk mts = Inr ds" by (auto simp: run_cycle_def split: option.splits)
  with run Cons show ?case using run_symbols_in by fastforce
qed simp

lemma row_of_decision_key:
  "row_key (row_of_decision name d) = (Some (sy_symbol d), Some (sy_side d), Some name, Some name)"
  "allowed (row_of_decision name d) \<longleftrightarrow> sy_decision d = ''ALLOW''"
  by (simp_all add: row_of_decision_def row_key_def allowed_def)

lemma cycle_rows_strategy:
  assumes "strategy_rows registry mts rk names = Inr rows" and "row \<in> set (run_guards en gv rows)"
  shows "\<exists>name \<in> set names. dr_strategy row = Some name"
proof -
  have "row_key row \<in># mset (map row_key (run_guards en gv rows))" using assms(2) by auto
  then have "row_key row \<in># mset (map row_key rows)" by (simp only: cycle_guards.keeps_rows)
  then obtain row' where row': "row' \<in> set rows" "row_key row' = row_key row" by auto
  obtain name d where "name \<in> set names" "row' = row_of_decision name d" using strategy_rows_in [OF assms(1) row'(1)] by blast
  with row'(2) have "dr_strategy row = Some name" using row_of_decision_key(1) [of name d] by (simp add: row_key_def)
  with \<open>name \<in> set names\<close> show ?thesis by blast
qed

text \<open>The results, added up by strategy.\<close>

lemma sum_of_groups:
  assumes "distinct ks" and "\<And>x. x \<in> set xs \<Longrightarrow> f x \<in> set ks"
  shows "sum_list (map (\<lambda>k. sum_of g (filter (\<lambda>x. f x = k) xs)) ks) = sum_of g xs"
proof -
  have "sum_of g xs = sum_of g (concat (map (\<lambda>k. rows_with f k xs) ks))"
    using assms by (intro sum_of_mset sym [OF mset_groups]) auto
  then show ?thesis by (simp add: sum_of_concat comp_def rows_with_def)
qed

lemma on_grid_sum_of: "(\<And>x v. x \<in> set xs \<Longrightarrow> g x = Some v \<Longrightarrow> on_grid n v) \<Longrightarrow> on_grid n (sum_of g xs)"
proof (induction xs)
  case (Cons x xs)
  have "on_grid n (sum_of g xs)" using Cons by (meson list.set_intros(2))
  moreover have "on_grid n (get_or (g x) 0)" using Cons.prems [of x] by (simp add: get_or_def split: option.split)
  ultimately show ?case by (simp add: sum_of_def on_grid_add)
qed (simp add: sum_of_def)

lemma simulated_pnl_grid: "on_grid 6 (yr_pnl (simulate s c ym))"
  by (simp add: simulate_def Let_def case_prod_beta)

lemma paper_pnl_grid: "on_grid 6 (sum_of px_pnl (filter P (paper_trades en rows)))"
  by (rule on_grid_sum_of) (auto simp: paper_trades_def trade_of_def simulated_def simulated_pnl_grid)

lemmas paper_pnl_exact = py_round_on_grid [OF paper_pnl_grid] py_round_on_grid [OF paper_pnl_grid [where P = "\<lambda>_. True", simplified]]

lemma length_paper_trades: "length (paper_trades en rows) = length (filter allowed rows)"
  by (simp add: paper_trades_def)

lemma attribution_pnl_exact:
  "sum_list (map ar_pnl (fst (build_strategy_attribution rows (paper_trades en rows')))) = sum_of px_pnl (paper_trades en rows')"
proof -
  let ?trades = "paper_trades en rows'"
  have "mset (map ar_pnl (fst (build_strategy_attribution rows ?trades)))
    = mset (map ar_pnl (map (attribution_of rows ?trades) (attributed_strategies rows ?trades)))"
    by (simp add: build_strategy_attribution_def Let_def comp_def multiset.map_comp)
  then have "sum_list (map ar_pnl (fst (build_strategy_attribution rows ?trades)))
    = sum_list (map ar_pnl (map (attribution_of rows ?trades) (attributed_strategies rows ?trades)))"
    by (metis sum_mset_sum_list)
  also have "\<dots> = total_pnl rows ?trades"
    by (simp add: total_pnl_def attribution_of_def Let_def comp_def rows_with_def paper_pnl_exact)
  finally show ?thesis by (simp add: attribution_adds_up)
qed

text \<open>The state of a cycle after the cycle.\<close>

lemma cycle_state_disabled:
  assumes "state_of (gv_lifecycle (st_governance st)) i = ''DISABLED''" and "i \<in> set (map fst (en_registry en))"
  shows "state_of (gv_lifecycle (st_governance (snd (strategy_paper_cycle en st)))) i = ''DISABLED''"
  using assms(1)
  by (auto simp: strategy_paper_cycle_def next_cycle_state_def governance_input_def Let_def
      intro!: cycle_keeps_disabled assms(2) [unfolded set_map] split: sum.split)

lemma seeded_disabled: "state_of registry i = ''DISABLED'' \<Longrightarrow> state_of (seed_legacy_disabled now legacy registry) i = ''DISABLED''"
  by (auto simp: state_of_def seed_legacy_disabled_def seed_legacy_def str_or_def Let_def split: option.splits)

lemma disabled_no_trades:
  assumes "state_of (gv_lifecycle (st_governance st)) i = ''DISABLED''" and "i \<noteq> []"
    and "fst (strategy_paper_cycle en st) = Inr oc"
  shows "list_all (\<lambda>px. px_strategy px \<noteq> Some i) (oc_trades oc)"
proof -
  from assms(3) obtain rows where oc: "oc = outcome_of en (run_guards en (st_governance st) rows)"
    unfolding strategy_paper_cycle_def by (auto simp: Let_def split: sum.splits)
  have "dr_strategy row \<noteq> Some i" if "row \<in> set (run_guards en (st_governance st) rows)" "allowed row" for row
  proof
    assume "dr_strategy row = Some i"
    then have "row_strategy row = i" using assms(2) by (simp add: row_strategy_def str_or_def)
    then show False using run_guards_allowed(1) [OF that] seeded_disabled [OF assms(1)] by simp
  qed
  then show ?thesis by (auto simp: oc outcome_of_def Let_def paper_trades_def trade_of_def list_all_iff)
qed

lemma run_guards_exposure:
  "exposure_sum row_symbol symbol (filter allowed (run_guards en gv rows)) \<le> xl_symbol default_limits"
  "exposure_sum row_strategy strategy (filter allowed (run_guards en gv rows)) \<le> xl_strategy default_limits"
  "exposure_sum row_cluster cl (filter allowed (run_guards en gv rows)) \<le> xl_cluster default_limits"
proof -
  obtain rows7 where "run_guards en gv rows = fst (apply_exposure_tracker default_limits rows7)"
    unfolding run_guards_def Let_def by blast
  then obtain snapshot where "apply_exposure_tracker default_limits rows7 = (run_guards en gv rows, snapshot)"
    by (metis prod.collapse)
  from exposure_output_sum [OF this] obtain eb where eb: "book_of default_limits (filter allowed (run_guards en gv rows)) eb" by blast
  have le: "exposure_sum f k left \<le> b" if "entry_ok f b left v" "0 \<le> b" for f k left b and v :: "string \<Rightarrow> num"
    using that unfolding entry_ok_def by (metis max.absorb2)
  have pos: "0 \<le> xl_symbol default_limits" "0 \<le> xl_strategy default_limits" "0 \<le> xl_cluster default_limits"
    by (simp_all add: default_limits_def)
  show "exposure_sum row_symbol symbol (filter allowed (run_guards en gv rows)) \<le> xl_symbol default_limits"
    "exposure_sum row_strategy strategy (filter allowed (run_guards en gv rows)) \<le> xl_strategy default_limits"
    "exposure_sum row_cluster cl (filter allowed (run_guards en gv rows)) \<le> xl_cluster default_limits"
    using eb pos unfolding book_of_def by (blast intro: le)+
qed

text \<open>Every allowed row of a cycle comes from an engine decision that passed the microstructure gate.\<close>

lemma allowed_row_decision:
  assumes "strategy_rows registry mts rk names = Inr rows" and "row \<in> set (run_guards en gv rows)" and "allowed row"
  shows "\<exists>name raw (mt :: strategy_market) d. evaluate_symbol name raw mt rk = Inr d \<and> sy_decision d = ''ALLOW'' \<and> dr_symbol row = Some (sy_symbol d)"
proof -
  obtain row' where row': "row' \<in> set rows" "allowed row'" "row_key row' = row_key row"
    using cycle_guards.allowed_was_allowed [OF assms(2,3)] by blast
  obtain name f and mt :: strategy_market and d where d: "evaluate_symbol name (f mt) mt rk = Inr d" "row' = row_of_decision name d"
    using strategy_rows_in [OF assms(1) row'(1)] by blast
  have "dr_symbol row = Some (sy_symbol d)" using row'(3) row_of_decision_key(1) [of name d] by (simp add: d(2) row_key_def)
  then show ?thesis using d row'(2) row_of_decision_key(2) by blast
qed

end
