(* ===== verification/Spot_Indicators.thy ===== *)
theory Spot_Indicators
  imports Trading_Strategies
begin

text \<open>
  The indicators of the spot pipeline, \<open>services/pipeline/legacy/spot_strategy_service.py\<close>, which
  \<open>services/pipeline/spot_strategy_service.py\<close> exports again: the snapshot of a candle series, its
  trend strength and the quality of its last pullback. A key that a candle lacks, or whose value is
  not a number, counts as 0 (\<open>_safe_float\<close>).
\<close>

section \<open>Candles\<close>

definition open_of :: "ohlcv \<Rightarrow> num" where "open_of c = get_or (oh_open c) 0"
definition high_of :: "ohlcv \<Rightarrow> num" where "high_of c = get_or (oh_high c) 0"
definition low_of :: "ohlcv \<Rightarrow> num" where "low_of c = get_or (oh_low c) 0"
definition close_of :: "ohlcv \<Rightarrow> num" where "close_of c = get_or (oh_close c) 0"
definition volume_of :: "ohlcv \<Rightarrow> num" where "volume_of c = get_or (oh_volume c) 0"

lemmas candle_defs = open_of_def high_of_def low_of_def close_of_def volume_of_def

section \<open>Indicators\<close>

definition ema_step :: "nat \<Rightarrow> num \<Rightarrow> num \<Rightarrow> num" where
  "ema_step period v price = price * (2 / of_nat (period + 1)) + v * (1 - 2 / of_nat (period + 1))"

fun ema :: "num list \<Rightarrow> nat \<Rightarrow> num" where
  "ema [] period = 0"
| "ema (p # series) period = foldl (ema_step period) p series"

definition rsi_of :: "num list \<Rightarrow> nat \<Rightarrow> num" where
  "rsi_of series period =
     (if length series < period + 1 then 50
      else let window = last_n (period + 1) series; deltas = map2 (-) (tl window) window;
               gain = mean (map (\<lambda>d. max d 0) deltas); loss = mean (map (\<lambda>d. \<bar>min d 0\<bar>) deltas)
           in if loss = 0 then 100 else 100 - 100 / (1 + gain / loss))"

definition true_range :: "ohlcv \<Rightarrow> ohlcv \<Rightarrow> num" where
  "true_range prev c =
     max (max (high_of c - low_of c) (max \<bar>high_of c - close_of prev\<bar> \<bar>low_of c - close_of prev\<bar>)) 0"

definition average_true_range :: "ohlcv list \<Rightarrow> nat \<Rightarrow> num" where
  "average_true_range candles period =
     (if length candles < period + 1 then 0
      else let window = last_n (period + 1) candles in mean (map2 true_range window (tl window)))"

definition volume_weighted_price :: "ohlcv list \<Rightarrow> nat \<Rightarrow> num" where
  "volume_weighted_price candles period =
     (let subset = (if period \<le> length candles then last_n period candles else candles);
          volume = sum_list (map volume_of subset)
      in if volume = 0 then 0
         else sum_list (map (\<lambda>c. (high_of c + low_of c + close_of c) / 3 * volume_of c) subset) / volume)"

record indicators =
  id_close :: num
  id_ema50 :: num
  id_ema200 :: num
  id_rsi14 :: num
  id_atr14 :: num
  id_vwap :: num
  id_atr_pct :: num
  id_current_volume :: num
  id_avg_volume :: num
  id_relative_volume :: num

definition calculate_indicator_snapshot :: "ohlcv list \<Rightarrow> indicators" where
  "calculate_indicator_snapshot candles =
     (let closes = map close_of candles; volumes = map volume_of candles;
          close = (if closes = [] then 0 else last closes); atr = average_true_range candles 14;
          avg_volume = (if 20 \<le> length volumes then mean (last_n 20 volumes) else if volumes = [] then 0 else mean volumes);
          volume = (if volumes = [] then 0 else last volumes)
      in \<lparr>id_close = close, id_ema50 = (if 50 \<le> length closes then ema (last_n 120 closes) 50 else 0),
          id_ema200 = (if 200 \<le> length closes then ema (last_n 240 closes) 200 else 0), id_rsi14 = rsi_of closes 14,
          id_atr14 = atr, id_vwap = volume_weighted_price candles 50, id_atr_pct = (if close = 0 then 0 else atr / close),
          id_current_volume = volume, id_avg_volume = avg_volume,
          id_relative_volume = (if avg_volume = 0 then 0 else volume / avg_volume)\<rparr>)"

definition trend_strength_of :: "ohlcv list \<Rightarrow> indicators \<Rightarrow> string" where
  "trend_strength_of candles ind =
     (if id_ema50 ind \<le> 0 \<or> id_ema200 ind \<le> 0 then ''weak''
      else let spread_ratio = (id_ema50 ind - id_ema200 ind) / id_ema200 ind * 100;
               above = length (filter (\<lambda>c. id_ema50 ind \<le> close_of c) (last_n 5 candles))
           in if 12 / 10 < spread_ratio \<and> 4 \<le> above then ''strong''
              else if 1 / 2 < spread_ratio \<and> 3 \<le> above then ''medium'' else ''weak'')"

definition pullback_quality_of :: "ohlcv list \<Rightarrow> indicators \<Rightarrow> string" where
  "pullback_quality_of candles ind =
     (if length candles < 3 \<or> id_ema50 ind \<le> 0 then ''low''
      else let last_one = last candles; prev = candles ! (length candles - 2); prev2 = candles ! (length candles - 3);
               bearish = (close_of prev < open_of prev \<and> close_of prev2 < open_of prev2);
               recovery = (open_of last_one < close_of last_one);
               depth = (id_ema50 ind - close_of last_one) / id_ema50 ind * 100
           in if bearish \<and> \<not> recovery then ''low''
              else if depth \<le> 18 / 10 \<and> recovery then ''strong'' else if depth \<le> 24 / 10 then ''acceptable'' else ''low'')"

section \<open>Lemmas\<close>

text \<open>An average between the smallest and the largest price.\<close>

lemma mix_between:
  fixes w :: num
  assumes "0 \<le> w" "w \<le> 1" and "a \<le> v" "v \<le> b" "a \<le> p" "p \<le> b"
  shows "a \<le> p * w + v * (1 - w) \<and> p * w + v * (1 - w) \<le> b"
proof -
  have "a * w + a * (1 - w) \<le> p * w + v * (1 - w)" "p * w + v * (1 - w) \<le> b * w + b * (1 - w)"
    using assms by (intro add_mono mult_right_mono; simp)+
  moreover have "x * w + x * (1 - w) = x" for x by (simp add: algebra_simps)
  ultimately show ?thesis by simp
qed

lemma ema_step_between:
  assumes "1 \<le> period" and "a \<le> v" "v \<le> b" "a \<le> p" "p \<le> b"
  shows "a \<le> ema_step period v p \<and> ema_step period v p \<le> b"
  unfolding ema_step_def
proof (rule mix_between)
  have "(2::num) \<le> of_nat (period + 1)" using assms(1) by (metis add_mono_thms_linordered_semiring(1) le_refl of_nat_le_iff of_nat_numeral one_add_one)
  then show "0 \<le> 2 / (of_nat (period + 1) :: num)" "2 / of_nat (period + 1) \<le> (1::num)" by simp_all
qed (use assms in simp_all)

lemma ema_between:
  assumes "1 \<le> period" and "xs \<noteq> []" and "list_all (\<lambda>x. a \<le> x \<and> x \<le> b) xs"
  shows "a \<le> ema xs period \<and> ema xs period \<le> b"
proof (cases xs)
  case (Cons p ps)
  have "a \<le> foldl (ema_step period) v ps \<and> foldl (ema_step period) v ps \<le> b"
    if "a \<le> v" "v \<le> b" "list_all (\<lambda>x. a \<le> x \<and> x \<le> b) ps" for v
    using that
  proof (induction ps arbitrary: v)
    case (Cons q ps)
    then show ?case using ema_step_between [OF assms(1), of a v b q] by simp
  qed simp
  then show ?thesis using assms(3) by (simp add: Cons)
qed (use assms in simp)

end
