(* ===== verification/Spot_Selection.thy ===== *)
theory Spot_Selection
  imports Spot_Indicators "HOL-Library.Product_Lexorder"
begin

text \<open>
  The selection cycle of the spot pipeline, \<open>services/pipeline/spot_dynamic_score_engine.py\<close>: the
  regime of the market with its confirmation, the strategy of the regime, the scores of every symbol
  and the best candidates for the free slots. Of the candidates' dictionaries the model keeps the
  keys that the pipeline reads; the cache entry of the regime state is passed in and out.
\<close>

section \<open>Configuration\<close>

record spot_params =
  pa_min_score :: "num option"
  pa_max_positions :: "int option"
  pa_freeze :: "int option"
  pa_active :: "string list option"

record spot_config =
  sc_min_score :: num
  sc_max_positions :: int
  sc_freeze :: int
  sc_active :: "string list"

definition DEFAULT_STRATEGY_CONFIG :: spot_config where
  "DEFAULT_STRATEGY_CONFIG = \<lparr>sc_min_score = 55, sc_max_positions = 3, sc_freeze = 2,
     sc_active = [''spot_pullback_v1'', ''spot_range_reversion_v1'', ''spot_volatility_breakout_v1'']\<rparr>"

definition overlay_config :: "spot_params \<Rightarrow> spot_config \<Rightarrow> spot_config" where
  "overlay_config pa cf =
     \<lparr>sc_min_score = get_or (pa_min_score pa) (sc_min_score cf), sc_max_positions = get_or (pa_max_positions pa) (sc_max_positions cf),
      sc_freeze = get_or (pa_freeze pa) (sc_freeze cf), sc_active = get_or (pa_active pa) (sc_active cf)\<rparr>"

text \<open>The stored configuration over the default one, and the parameters of the bot over both.\<close>

definition get_spot_strategy_config :: "spot_params \<Rightarrow> spot_params \<Rightarrow> spot_config" where
  "get_spot_strategy_config stored pa = overlay_config pa (overlay_config stored DEFAULT_STRATEGY_CONFIG)"

definition REGIME_STRATEGY_MAP :: "(string \<times> string) list" where
  "REGIME_STRATEGY_MAP = [(''TRENDING'', ''spot_pullback_v1''), (''RANGING'', ''spot_range_reversion_v1''),
     (''VOLATILE'', ''spot_volatility_breakout_v1'')]"

definition strategy_of_regime :: "string \<Rightarrow> string" where
  "strategy_of_regime regime = get_or (map_of REGIME_STRATEGY_MAP regime) ''spot_pullback_v1''"

section \<open>The state of the market\<close>

text \<open>The candles of a symbol, and the key \<open>end\<close> of the last one.\<close>

record spot_feed =
  sf_candles :: "ohlcv list"
  sf_end :: "string option"

record snapshot_row =
  sr_bullish :: bool
  sr_bearish :: bool
  sr_volatile :: bool
  sr_return_1 :: num
  sr_return_3 :: num

definition change_pct :: "num \<Rightarrow> num \<Rightarrow> num" where
  "change_pct from_price to_price = (if from_price = 0 then 0 else (to_price - from_price) / from_price * 100)"

definition snapshot_row_of :: "ohlcv list \<Rightarrow> snapshot_row" where
  "snapshot_row_of candles =
     (let ind = calculate_indicator_snapshot candles in
      \<lparr>sr_bullish = (id_ema200 ind < id_ema50 ind \<and> 52 \<le> id_rsi14 ind), sr_bearish = (id_ema50 ind < id_ema200 ind \<and> id_rsi14 ind \<le> 48),
       sr_volatile = (2 / 100 \<le> id_atr_pct ind), sr_return_1 = change_pct (open_of (last candles)) (close_of (last candles)),
       sr_return_3 = change_pct (open_of (hd (last_n 4 candles))) (close_of (last candles))\<rparr>)"

record market_snapshot =
  mx_count :: nat
  mx_bullish :: num
  mx_bearish :: num
  mx_volatile :: num
  mx_return_1 :: num
  mx_return_3 :: num
  mx_marker :: string

definition share_of :: "(snapshot_row \<Rightarrow> bool) \<Rightarrow> snapshot_row list \<Rightarrow> num" where
  "share_of P rows = py_round 6 (of_nat (length (filter P rows)) / of_nat (length rows))"

definition build_market_snapshot :: "(string \<Rightarrow> spot_feed) \<Rightarrow> string list \<Rightarrow> market_snapshot" where
  "build_market_snapshot feed symbols =
     (let feeds = filter (\<lambda>sf. 220 \<le> length (sf_candles sf)) (map feed symbols);
          rows = map (\<lambda>sf. snapshot_row_of (last_n 500 (sf_candles sf))) feeds;
          marker = fold (\<lambda>sf m. max m (str_or (sf_end sf) ''-'')) feeds ''-''
      in if rows = []
         then \<lparr>mx_count = 0, mx_bullish = 0, mx_bearish = 0, mx_volatile = 0, mx_return_1 = 0, mx_return_3 = 0, mx_marker = marker\<rparr>
         else \<lparr>mx_count = length rows, mx_bullish = share_of sr_bullish rows, mx_bearish = share_of sr_bearish rows,
               mx_volatile = share_of sr_volatile rows, mx_return_1 = py_round 6 (mean (map sr_return_1 rows)),
               mx_return_3 = py_round 6 (mean (map sr_return_3 rows)), mx_marker = marker\<rparr>)"

definition classify_market_regime :: "market_snapshot \<Rightarrow> string" where
  "classify_market_regime mx =
     (if mx_count mx = 0 then ''RANGING'' else if 45 / 100 \<le> mx_volatile mx then ''VOLATILE''
      else if 55 / 100 \<le> mx_bullish mx \<and> 0 \<le> mx_return_3 mx then ''TRENDING'' else ''RANGING'')"

definition market_bias_regime :: "market_snapshot \<Rightarrow> string" where
  "market_bias_regime mx =
     (if mx_count mx = 0 then ''neutral'' else if 7 / 10 \<le> mx_bearish mx \<and> mx_return_3 mx \<le> - (8 / 10) then ''hostile''
      else if 6 / 10 \<le> mx_bullish mx \<and> 35 / 100 \<le> mx_return_3 mx then ''supportive'' else ''neutral'')"

section \<open>The confirmed regime\<close>

record regime_state =
  rg_active :: string
  rg_raw :: string
  rg_pending :: "string option"
  rg_count :: int
  rg_marker :: string
  rg_changed :: bool

text \<open>One candle later: what is active and pending, with how many candles.\<close>

definition regime_step :: "string \<Rightarrow> string \<times> string option \<times> int \<Rightarrow> string \<times> string option \<times> int \<times> bool" where
  "regime_step raw = (\<lambda>(active, pending, count).
     if raw = active then (active, None, 0, False)
     else let count' = (if pending = Some raw then count + 1 else 1)
          in if 2 \<le> count' then (raw, None, 0, True) else (active, Some raw, count', False))"

definition update_market_regime_state :: "regime_state option \<Rightarrow> string \<Rightarrow> string \<Rightarrow> regime_state" where
  "update_market_regime_state stored raw marker =
     (let before = (case stored of None \<Rightarrow> (raw, None, 0) | Some rg \<Rightarrow> (rg_active rg, rg_pending rg, rg_count rg));
          (active, pending, count, changed) =
            (if map_option rg_marker stored \<noteq> Some marker then regime_step raw before
             else (fst before, fst (snd before), snd (snd before), False))
      in \<lparr>rg_active = active, rg_raw = raw, rg_pending = pending, rg_count = count, rg_marker = marker, rg_changed = changed\<rparr>)"

section \<open>Multipliers\<close>

record multipliers =
  mu_trend :: num
  mu_pullback :: num
  mu_volume :: num
  mu_volatility :: num
  mu_structure :: num

definition REGIME_MULTIPLIERS :: "(string \<times> multipliers) list" where
  "REGIME_MULTIPLIERS =
     [(''TRENDING'', \<lparr>mu_trend = 125 / 100, mu_pullback = 12 / 10, mu_volume = 1, mu_volatility = 9 / 10, mu_structure = 105 / 100\<rparr>),
      (''RANGING'', \<lparr>mu_trend = 9 / 10, mu_pullback = 105 / 100, mu_volume = 11 / 10, mu_volatility = 1, mu_structure = 1\<rparr>),
      (''VOLATILE'', \<lparr>mu_trend = 95 / 100, mu_pullback = 95 / 100, mu_volume = 12 / 10, mu_volatility = 12 / 10, mu_structure = 9 / 10\<rparr>)]"

definition clamp_multiplier :: "num \<Rightarrow> num" where
  "clamp_multiplier v = min (max v (75 / 100)) (125 / 100)"

definition clamp_multiplier_set :: "multipliers \<Rightarrow> multipliers" where
  "clamp_multiplier_set mu =
     \<lparr>mu_trend = clamp_multiplier (mu_trend mu), mu_pullback = clamp_multiplier (mu_pullback mu), mu_volume = clamp_multiplier (mu_volume mu),
      mu_volatility = clamp_multiplier (mu_volatility mu), mu_structure = clamp_multiplier (mu_structure mu)\<rparr>"

definition resolve_multipliers :: "string \<Rightarrow> multipliers" where
  "resolve_multipliers regime =
     clamp_multiplier_set (get_or (map_of REGIME_MULTIPLIERS regime) (the (map_of REGIME_MULTIPLIERS ''RANGING'')))"

section \<open>Scores\<close>

record component_scores =
  co_trend_strength :: string
  co_pullback :: string
  co_relative_volume :: num
  co_trend :: num
  co_pullback_score :: num
  co_volume :: num
  co_volatility :: num
  co_structure :: num
  co_atr_pct :: num
  co_rsi :: num
  co_compression :: num
  co_breakout :: num

text \<open>The candles a breakout has to leave, and the candle that has to leave them.\<close>

definition lookback_of :: "ohlcv list \<Rightarrow> ohlcv list" where
  "lookback_of candles = butlast (if 21 < length candles then last_n 21 candles else candles)"

definition highest_of :: "num \<Rightarrow> ohlcv list \<Rightarrow> num" where
  "highest_of d candles = (if candles = [] then d else Max (set (map high_of candles)))"

definition lowest_of :: "num \<Rightarrow> ohlcv list \<Rightarrow> num" where
  "lowest_of d candles = (if candles = [] then d else Min (set (map low_of candles)))"

definition breakout_candle :: "ohlcv list \<Rightarrow> ohlcv" where
  "breakout_candle candles = (if 2 \<le> length candles then candles ! (length candles - 2) else last candles)"

definition label_score :: "(string \<times> num) list \<Rightarrow> num \<Rightarrow> string \<Rightarrow> num" where
  "label_score table d key = get_or (map_of table key) d"

text \<open>The five scores of a strategy: trend, pullback, volume, volatility and structure.\<close>

definition breakout_scores :: "ohlcv list \<Rightarrow> indicators \<Rightarrow> string \<Rightarrow> num \<Rightarrow> num \<Rightarrow> num \<times> num \<times> num \<times> num \<times> num" where
  "breakout_scores candles ind strength compression breakout_strength =
     (let bc = breakout_candle candles; body = \<bar>close_of bc - open_of bc\<bar>;
          upper_wick = max (high_of bc - max (open_of bc) (close_of bc)) 0
      in (label_score [(''weak'', 35), (''medium'', 70), (''strong'', 90)] 35 strength,
          min (max (breakout_strength * 180 + 40) 20) 98, min (max (id_relative_volume ind * 50) 15) 100,
          (if compression \<le> 25 / 10 then 92 else if compression \<le> 35 / 10 then 62 else 35),
          (if upper_wick < max body (1 / 10000) then 90 else 55)))"

definition reversion_scores :: "indicators \<Rightarrow> num \<times> num \<times> num \<times> num \<times> num" where
  "reversion_scores ind =
     (let spread = (if id_ema200 ind = 0 then 0 else \<bar>(id_ema50 ind - id_ema200 ind) / id_ema200 ind * 100\<bar>);
          below = (if id_close ind = 0 then 0 else (id_vwap ind - id_close ind) / id_close ind * 100);
          rv = id_relative_volume ind; atr = id_atr_pct ind
      in ((if spread \<le> 35 / 100 then 92 else if spread \<le> 75 / 100 then 72 else 45),
          (if 8 / 10 \<le> below then 90 else if 25 / 100 \<le> below then 72 else 45),
          (if 9 / 10 \<le> rv \<and> rv \<le> 18 / 10 then 84 else if 7 / 10 \<le> rv \<and> rv \<le> 22 / 10 then 66 else 42),
          (if 6 / 1000 \<le> atr \<and> atr \<le> 2 / 100 then 84 else if 4 / 1000 \<le> atr \<and> atr \<le> 3 / 100 then 62 else 35),
          max 25 (92 - \<bar>id_rsi14 ind - 46\<bar> * (21 / 10))))"

definition pullback_scores :: "indicators \<Rightarrow> string \<Rightarrow> string \<Rightarrow> num \<times> num \<times> num \<times> num \<times> num" where
  "pullback_scores ind strength quality =
     (let close = id_close ind; atr = id_atr_pct ind in
      (label_score [(''weak'', 30), (''medium'', 70), (''strong'', 92)] 30 strength,
       label_score [(''low'', 25), (''acceptable'', 68), (''strong'', 90)] 25 quality,
       min (max (id_relative_volume ind * 45) 0) 100,
       (if atr < 8 / 1000 then 20 else if atr \<le> 3 / 100 then min 95 (55 + atr * 1000) else 65),
       (if close \<le> 0 then 20
        else max 20 (95 - \<bar>(close - id_ema50 ind) / close\<bar> * 800 - \<bar>(close - id_vwap ind) / close\<bar> * 600))))"

definition strategy_scores ::
  "string \<Rightarrow> ohlcv list \<Rightarrow> indicators \<Rightarrow> string \<Rightarrow> string \<Rightarrow> num \<Rightarrow> num \<Rightarrow> num \<times> num \<times> num \<times> num \<times> num" where
  "strategy_scores strategy candles ind strength quality compression breakout_strength =
     (if strategy = ''spot_volatility_breakout_v1'' then breakout_scores candles ind strength compression breakout_strength
      else if strategy = ''spot_range_reversion_v1'' then reversion_scores ind else pullback_scores ind strength quality)"

definition derive_component_scores :: "ohlcv list \<Rightarrow> indicators \<Rightarrow> string \<Rightarrow> component_scores" where
  "derive_component_scores candles ind strategy =
     (let strength = trend_strength_of candles ind; quality = pullback_quality_of candles ind; close = id_close ind;
          breaking = (strategy = ''spot_volatility_breakout_v1'' \<and> close \<noteq> 0);
          high_20 = highest_of close (lookback_of candles); low_20 = lowest_of close (lookback_of candles);
          compression = (if breaking then (high_20 - low_20) / close * 100 else 0);
          breakout_strength = (if breaking then (close - high_20) / close * 100 else 0);
          (trend, pullback, volume, volatility, structure) =
            strategy_scores strategy candles ind strength quality compression breakout_strength
      in \<lparr>co_trend_strength = strength, co_pullback = quality, co_relative_volume = py_round 4 (id_relative_volume ind),
          co_trend = py_round 4 trend, co_pullback_score = py_round 4 pullback, co_volume = py_round 4 volume,
          co_volatility = py_round 4 volatility, co_structure = py_round 4 structure, co_atr_pct = py_round 6 (id_atr_pct ind),
          co_rsi = py_round 4 (id_rsi14 ind), co_compression = py_round 6 compression, co_breakout = py_round 6 breakout_strength\<rparr>)"

definition base_and_adjusted_scores :: "component_scores \<Rightarrow> multipliers \<Rightarrow> num \<times> num" where
  "base_and_adjusted_scores co mu =
     (py_round 4 (co_trend co * (30 / 100) + co_pullback_score co * (25 / 100) + co_volume co * (20 / 100)
        + co_volatility co * (15 / 100) + co_structure co * (10 / 100)),
      py_round 4 (co_trend co * (30 / 100) * mu_trend mu + co_pullback_score co * (25 / 100) * mu_pullback mu
        + co_volume co * (20 / 100) * mu_volume mu + co_volatility co * (15 / 100) * mu_volatility mu
        + co_structure co * (10 / 100) * mu_structure mu))"

section \<open>Candidates\<close>

record spot_candidate =
  cn_symbol :: string
  cn_strategy :: string
  cn_status :: string
  cn_reasons :: "string list"
  cn_entry :: num
  cn_stop :: num
  cn_take :: num
  cn_base :: num
  cn_adjusted :: num
  cn_hard_pass :: bool
  cn_threshold_pass :: bool
  cn_rank :: "nat option"

definition breakout_rejections :: "ohlcv list \<Rightarrow> indicators \<Rightarrow> component_scores \<Rightarrow> string list" where
  "breakout_rejections candles ind co =
     (let high_20 = highest_of (id_close ind) (lookback_of candles); low_20 = lowest_of (id_close ind) (lookback_of candles);
          bc = breakout_candle candles; rise = close_of bc - open_of bc; body_pct = change_pct (open_of bc) (close_of bc)
      in collect
        [(\<not> co_compression co < 25 / 10, ''compression_missing''), (\<not> high_20 < close_of bc, ''breakout_not_confirmed''),
         (\<not> 15 / 10 \<le> co_relative_volume co, ''relative_volume_too_low''),
         (\<not> (close_of bc < close_of (last candles) \<or> 6 / 10 \<le> body_pct), ''confirmation_missing''),
         (\<not> high_of bc - close_of bc < max rise (1 / 10000), ''wick_rejection_high''),
         (\<not> (high_20 + low_20) / 2 < close_of bc, ''range_midpoint_not_reclaimed'')])"

definition reversion_rejections :: "indicators \<Rightarrow> component_scores \<Rightarrow> string list" where
  "reversion_rejections ind co = collect
     [(id_ema200 ind < id_ema50 ind \<and> co_trend_strength co = ''strong'', ''market_not_ranging_enough''),
      ((if id_vwap ind = 0 then id_close ind else id_vwap ind * (1003 / 1000)) < id_close ind, ''price_not_below_mean''),
      (52 < co_rsi co, ''rsi_not_reversion_ready''), (co_relative_volume co < 8 / 10, ''relative_volume_too_low''),
      (\<not> (6 / 1000 \<le> co_atr_pct co \<and> co_atr_pct co \<le> 3 / 100), ''volatility_out_of_range'')]"

definition pullback_rejections :: "indicators \<Rightarrow> component_scores \<Rightarrow> string list" where
  "pullback_rejections ind co = collect
     [(\<not> id_ema200 ind < id_ema50 ind, ''trend_not_bullish''), (id_ema50 ind < id_close ind, ''price_above_ema50''),
      (45 \<le> co_rsi co, ''rsi_not_ready''), (co_atr_pct co \<le> 8 / 1000, ''volatility_too_low'')]"

definition setup_rejections :: "string \<Rightarrow> ohlcv list \<Rightarrow> indicators \<Rightarrow> component_scores \<Rightarrow> string list" where
  "setup_rejections strategy candles ind co =
     (if strategy = ''spot_volatility_breakout_v1'' then breakout_rejections candles ind co
      else if strategy = ''spot_range_reversion_v1'' then reversion_rejections ind co else pullback_rejections ind co)"

definition hard_rejections :: "string \<Rightarrow> string list \<Rightarrow> bool \<Rightarrow> component_scores \<Rightarrow> string list" where
  "hard_rejections symbol open_symbols strategy_active co = collect
     [(co_trend_strength co = ''weak'', ''trend_strength_weak''), (upper symbol \<in> set open_symbols, ''symbol_position_open''),
      (\<not> strategy_active, ''strategy_not_activated'')]"

definition evaluate_symbol_candidate ::
  "string \<Rightarrow> ohlcv list \<Rightarrow> multipliers \<Rightarrow> string list \<Rightarrow> num \<Rightarrow> string \<Rightarrow> bool \<Rightarrow> spot_candidate" where
  "evaluate_symbol_candidate symbol candles mu open_symbols threshold strategy strategy_active =
     (let ind = calculate_indicator_snapshot candles; co = derive_component_scores candles ind strategy;
          hard = hard_rejections symbol open_symbols strategy_active co; setup = setup_rejections strategy candles ind co;
          (base, adjusted) = (if hard = [] then base_and_adjusted_scores co mu else (0, 0));
          pass = (hard = [] \<and> threshold \<le> adjusted);
          (status, reasons) =
            (if hard \<noteq> [] then (''rejected_hard_gate'', hard) else if setup \<noteq> [] then (''rejected_signal_setup'', setup)
             else if \<not> pass then (''rejected_below_threshold'', [''adjusted_score_below_threshold'']) else (''candidate'', []))
      in \<lparr>cn_symbol = upper symbol, cn_strategy = strategy, cn_status = status, cn_reasons = reasons,
          cn_entry = py_round 6 (id_close ind), cn_stop = py_round 6 (id_close ind * (99 / 100)),
          cn_take = py_round 6 (id_close ind * (102 / 100)), cn_base = base, cn_adjusted = adjusted,
          cn_hard_pass = (hard = []), cn_threshold_pass = pass, cn_rank = None\<rparr>)"

definition insufficient_candidate :: "string \<Rightarrow> string \<Rightarrow> spot_candidate" where
  "insufficient_candidate symbol strategy =
     \<lparr>cn_symbol = symbol, cn_strategy = strategy, cn_status = ''rejected_signal_setup'', cn_reasons = [''insufficient_data''],
      cn_entry = 0, cn_stop = 0, cn_take = 0, cn_base = 0, cn_adjusted = 0, cn_hard_pass = False, cn_threshold_pass = False, cn_rank = None\<rparr>"

section \<open>The cycle\<close>

record selection_metrics =
  sx_total :: nat
  sx_after_gate :: nat
  sx_above_threshold :: nat
  sx_selected :: nat
  sx_weak :: nat
  sx_below_threshold :: nat
  sx_inactive :: nat

definition build_selection_metrics :: "spot_candidate list \<Rightarrow> spot_candidate list \<Rightarrow> selection_metrics" where
  "build_selection_metrics candidates selected =
     (let with = (\<lambda>reason. length (filter (\<lambda>cn. reason \<in> set (cn_reasons cn)) candidates)) in
      \<lparr>sx_total = length candidates, sx_after_gate = length (filter cn_hard_pass candidates),
       sx_above_threshold = length (filter cn_threshold_pass candidates), sx_selected = length selected,
       sx_weak = with ''trend_strength_weak'', sx_below_threshold = with ''adjusted_score_below_threshold'',
       sx_inactive = with ''strategy_not_activated''\<rparr>)"

record selection =
  sl_regime :: regime_state
  sl_strategy :: string
  sl_candidates :: "spot_candidate list"
  sl_selected :: "spot_candidate list"
  sl_ranked :: "spot_candidate list"
  sl_metrics :: selection_metrics
  sl_bias :: string
  sl_average :: num

text \<open>\<open>sort(key=lambda item: (-adjusted_score, symbol))\<close>.\<close>

definition rank_order :: "spot_candidate list \<Rightarrow> spot_candidate list" where
  "rank_order = sort_key (\<lambda>cn. (- cn_adjusted cn, cn_symbol cn))"

definition executable :: "spot_candidate list \<Rightarrow> spot_candidate list" where
  "executable candidates = rank_order (filter (\<lambda>cn. cn_status cn = ''candidate'' \<and> cn_threshold_pass cn) candidates)"

definition number_ranks :: "spot_candidate list \<Rightarrow> spot_candidate list" where
  "number_ranks cns = map (\<lambda>(k, cn). cn\<lparr>cn_rank := Some k\<rparr>) (enumerate 1 cns)"

definition run_dynamic_selection_cycle ::
  "(string \<Rightarrow> spot_feed) \<Rightarrow> regime_state option \<Rightarrow> spot_config \<Rightarrow> string list \<Rightarrow> string list \<Rightarrow> int \<Rightarrow> selection" where
  "run_dynamic_selection_cycle feed stored cf symbols open_symbols available_slots =
     (let normalized = sorted_set (map upper (filter (\<lambda>s. s \<noteq> []) symbols)); mx = build_market_snapshot feed normalized;
          rg = update_market_regime_state stored (classify_market_regime mx) (mx_marker mx); strategy = strategy_of_regime (rg_active rg);
          active = (strategy \<in> set (sc_active cf)); mu = resolve_multipliers (rg_active rg);
          candidates = map (\<lambda>symbol. if length (sf_candles (feed symbol)) < 220 then insufficient_candidate symbol strategy
            else evaluate_symbol_candidate symbol (last_n 500 (sf_candles (feed symbol))) mu open_symbols (sc_min_score cf) strategy active) normalized;
          selected = number_ranks (take (nat available_slots) (executable candidates))
      in \<lparr>sl_regime = rg, sl_strategy = strategy, sl_candidates = candidates, sl_selected = selected, sl_ranked = rank_order candidates,
          sl_metrics = build_selection_metrics candidates selected, sl_bias = market_bias_regime mx,
          sl_average = (if selected = [] then 0 else py_round 4 (mean (map cn_adjusted selected)))\<rparr>)"

section \<open>Lemmas\<close>

text \<open>The regime that a series of observations confirms: the one last seen twice in a row.\<close>

fun confirmed :: "string \<Rightarrow> string list \<Rightarrow> string" where
  "confirmed active (r # s # raws) = confirmed (if r = s then r else active) (s # raws)"
| "confirmed active raws = active"

text \<open>A pending regime is not the active one and has been seen once: it is the last observation.\<close>

definition regime_view :: "string \<Rightarrow> string \<Rightarrow> string \<times> string option \<times> int \<Rightarrow> bool" where
  "regime_view active previous st \<longleftrightarrow> st = (active, if previous = active then None else Some previous, if previous = active then 0 else 1)"

lemma regime_step_view:
  assumes "regime_view active previous st"
  shows "case regime_step raw st of (a, p, c, changed) \<Rightarrow> regime_view (if previous = raw then raw else active) raw (a, p, c) \<and>
    (changed \<longleftrightarrow> a \<noteq> active)"
  using assms by (auto simp: regime_view_def regime_step_def Let_def)

lemma update_regime_view:
  assumes "regime_view (rg_active rg) previous (rg_active rg, rg_pending rg, rg_count rg)" and "rg_marker rg \<noteq> marker"
  shows "regime_view (if previous = raw then raw else rg_active rg) raw
      (rg_active (update_market_regime_state (Some rg) raw marker), rg_pending (update_market_regime_state (Some rg) raw marker),
       rg_count (update_market_regime_state (Some rg) raw marker))"
  using regime_step_view [OF assms(1), of raw] assms(2)
  by (auto simp: update_market_regime_state_def Let_def split: prod.splits)

lemma update_same_marker:
  "rg_marker rg = marker \<Longrightarrow> rg_active (update_market_regime_state (Some rg) raw marker) = rg_active rg \<and>
    rg_pending (update_market_regime_state (Some rg) raw marker) = rg_pending rg \<and>
    rg_count (update_market_regime_state (Some rg) raw marker) = rg_count rg"
  by (simp add: update_market_regime_state_def)

lemma update_marker [simp]: "rg_marker (update_market_regime_state stored raw marker) = marker"
  by (simp add: update_market_regime_state_def Let_def split: prod.splits)

text \<open>Observations of a candle already seen are skipped.\<close>

fun fresh_candles :: "string \<Rightarrow> (string \<times> string) list \<Rightarrow> string list" where
  "fresh_candles seen [] = []"
| "fresh_candles seen ((raw, marker) # obs) = (if marker = seen then fresh_candles seen obs else raw # fresh_candles marker obs)"

definition observe_all :: "(string \<times> string) list \<Rightarrow> regime_state \<Rightarrow> regime_state" where
  "observe_all obs rg = fold (\<lambda>(raw, marker) rg. update_market_regime_state (Some rg) raw marker) obs rg"

lemma observe_all_confirmed:
  assumes "regime_view (rg_active rg) previous (rg_active rg, rg_pending rg, rg_count rg)"
  shows "rg_active (observe_all obs rg) = confirmed (rg_active rg) (previous # fresh_candles (rg_marker rg) obs)"
  using assms
proof (induction obs arbitrary: rg previous)
  case (Cons ob obs)
  obtain raw marker where ob: "ob = (raw, marker)" by fastforce
  let ?rg = "update_market_regime_state (Some rg) raw marker"
  have fold: "observe_all (ob # obs) rg = observe_all obs ?rg" by (simp add: observe_all_def ob)
  show ?case
  proof (cases "rg_marker rg = marker")
    case True
    then have same: "rg_active ?rg = rg_active rg" "rg_pending ?rg = rg_pending rg" "rg_count ?rg = rg_count rg"
      using update_same_marker by blast+
    have "rg_active (observe_all obs ?rg) = confirmed (rg_active ?rg) (previous # fresh_candles (rg_marker ?rg) obs)"
      using Cons.prems by (intro Cons.IH) (simp only: same)
    then show ?thesis unfolding fold by (simp add: same(1) ob True)
  next
    case False
    have view: "regime_view (if previous = raw then raw else rg_active rg) raw (rg_active ?rg, rg_pending ?rg, rg_count ?rg)"
      using update_regime_view [OF Cons.prems False] .
    then have active: "rg_active ?rg = (if previous = raw then raw else rg_active rg)" by (simp add: regime_view_def)
    have "rg_active (observe_all obs ?rg) = confirmed (rg_active ?rg) (raw # fresh_candles (rg_marker ?rg) obs)"
      using view unfolding active by (rule Cons.IH [of ?rg raw, unfolded active])
    then show ?thesis unfolding fold using False by (simp add: active ob)
  qed
qed (simp add: observe_all_def)

text \<open>A breakout candle lies in the range it would have to leave.\<close>

lemma breakout_in_lookback: "2 \<le> length candles \<Longrightarrow> breakout_candle candles \<in> set (lookback_of candles)"
proof -
  assume two: "2 \<le> length candles"
  let ?xs = "if 21 < length candles then last_n 21 candles else candles"
  have len: "2 \<le> length ?xs" using two by (simp add: last_n_def)
  have "breakout_candle candles = ?xs ! (length ?xs - 2)"
    using two by (auto simp: breakout_candle_def last_n_def)
  also have "\<dots> = butlast ?xs ! (length ?xs - 2)" using len by (simp add: nth_butlast)
  also have "\<dots> \<in> set (butlast ?xs)" using len by (intro nth_mem) simp
  finally show ?thesis by (simp add: lookback_of_def)
qed

lemma breakout_never_confirmed:
  assumes "2 \<le> length candles" and "close_of (breakout_candle candles) \<le> high_of (breakout_candle candles)"
  shows "''breakout_not_confirmed'' \<in> set (breakout_rejections candles ind co)"
proof -
  have "high_of (breakout_candle candles) \<le> highest_of (id_close ind) (lookback_of candles)"
    using breakout_in_lookback [OF assms(1)] by (auto simp: highest_of_def)
  with assms(2) show ?thesis by (simp add: breakout_rejections_def Let_def)
qed

lemma candidate_cases:
  assumes "cn_status (evaluate_symbol_candidate symbol candles mu open_symbols threshold strategy active) = ''candidate''"
  shows "hard_rejections symbol open_symbols active (derive_component_scores candles (calculate_indicator_snapshot candles) strategy) = []"
    and "setup_rejections strategy candles (calculate_indicator_snapshot candles)
      (derive_component_scores candles (calculate_indicator_snapshot candles) strategy) = []"
    and "threshold \<le> cn_adjusted (evaluate_symbol_candidate symbol candles mu open_symbols threshold strategy active)"
  using assms by (auto simp: evaluate_symbol_candidate_def Let_def split: if_splits prod.splits)

lemma candidate_simps [simp]:
  "cn_symbol (evaluate_symbol_candidate symbol candles mu open_symbols threshold strategy active) = upper symbol"
  "cn_strategy (evaluate_symbol_candidate symbol candles mu open_symbols threshold strategy active) = strategy"
  "cn_entry (evaluate_symbol_candidate symbol candles mu open_symbols threshold strategy active) = py_round 6 (id_close (calculate_indicator_snapshot candles))"
  by (simp_all add: evaluate_symbol_candidate_def Let_def split: prod.splits)

text \<open>What every candidate of a cycle is.\<close>

lemma cycle_candidates:
  "sl_candidates (run_dynamic_selection_cycle feed stored cf symbols open_symbols slots) =
     map (\<lambda>symbol. if length (sf_candles (feed symbol)) < 220 then insufficient_candidate symbol
           (sl_strategy (run_dynamic_selection_cycle feed stored cf symbols open_symbols slots))
         else evaluate_symbol_candidate symbol (last_n 500 (sf_candles (feed symbol)))
           (resolve_multipliers (rg_active (sl_regime (run_dynamic_selection_cycle feed stored cf symbols open_symbols slots)))) open_symbols (sc_min_score cf)
           (sl_strategy (run_dynamic_selection_cycle feed stored cf symbols open_symbols slots))
           (sl_strategy (run_dynamic_selection_cycle feed stored cf symbols open_symbols slots) \<in> set (sc_active cf)))
       (sorted_set (map upper (filter (\<lambda>s. s \<noteq> []) symbols)))"
  by (simp add: run_dynamic_selection_cycle_def Let_def)

lemma cycle_selected:
  "sl_selected (run_dynamic_selection_cycle feed stored cf symbols open_symbols slots) =
     number_ranks (take (nat slots) (executable (sl_candidates (run_dynamic_selection_cycle feed stored cf symbols open_symbols slots))))"
  by (simp add: run_dynamic_selection_cycle_def Let_def)

lemma cycle_strategy:
  "sl_strategy (run_dynamic_selection_cycle feed stored cf symbols open_symbols slots) =
     strategy_of_regime (rg_active (sl_regime (run_dynamic_selection_cycle feed stored cf symbols open_symbols slots)))"
  by (simp add: run_dynamic_selection_cycle_def Let_def)

lemma cycle_symbols:
  "map cn_symbol (sl_candidates (run_dynamic_selection_cycle feed stored cf symbols open_symbols slots)) =
     sorted_set (map upper (filter (\<lambda>s. s \<noteq> []) symbols))"
proof -
  have up: "upper s = s" if "s \<in> set (sorted_set (map upper (filter (\<lambda>s. s \<noteq> []) symbols)))" for s
    using that by auto
  show ?thesis unfolding cycle_candidates
    by (rule map_idI [THEN trans [OF map_map]]) (simp add: up insufficient_candidate_def del: set_sorted_set)
qed

lemma mset_executable: "mset (executable cns) = mset (filter (\<lambda>cn. cn_status cn = ''candidate'' \<and> cn_threshold_pass cn) cns)"
  by (simp add: executable_def rank_order_def)

lemma executable_sorted: "sorted_wrt (\<lambda>a b. cn_adjusted b \<le> cn_adjusted a) (executable cns)"
proof -
  have "sorted_wrt (\<lambda>a b. (- cn_adjusted a, cn_symbol a) \<le> (- cn_adjusted b, cn_symbol b)) (executable cns)"
    using sorted_sort_key [of "\<lambda>cn. (- cn_adjusted cn, cn_symbol cn)"] by (simp add: executable_def rank_order_def sorted_map)
  then show ?thesis by (rule sorted_wrt_mono_rel [rotated]) auto
qed

lemma map_enumerate_update: "(\<And>cn k. f (cn\<lparr>cn_rank := k\<rparr>) = f cn) \<Longrightarrow> map (\<lambda>(k, cn). f (cn\<lparr>cn_rank := Some k\<rparr>)) (enumerate n cns) = map f cns"
  by (induction cns arbitrary: n) simp_all

lemma number_ranks_map: "(\<And>cn k. f (cn\<lparr>cn_rank := k\<rparr>) = f cn) \<Longrightarrow> map f (number_ranks cns) = map f cns"
  by (simp add: number_ranks_def comp_def case_prod_beta flip: map_enumerate_update [of f 1])

lemma length_number_ranks [simp]: "length (number_ranks cns) = length cns"
  by (simp add: number_ranks_def)

lemma list_all_number_ranks:
  assumes "\<And>cn k. P (cn\<lparr>cn_rank := k\<rparr>) = P cn"
  shows "list_all P (number_ranks cns) = list_all P cns"
proof -
  have "list_all P (number_ranks cns) = list_all id (map P (number_ranks cns))" by (simp add: list.pred_map)
  also have "\<dots> = list_all P cns" by (simp add: number_ranks_map [of P, OF assms] list.pred_map)
  finally show ?thesis .
qed

lemma selected_of_executable:
  assumes "cn \<in> set (take n (executable cns))"
  shows "cn \<in> set cns" "cn_status cn = ''candidate''" "list_all (\<lambda>other. cn_adjusted other \<le> cn_adjusted cn) (drop n (executable cns))"
proof -
  have "cn \<in> set (executable cns)" using assms by (rule in_set_takeD)
  then have "cn \<in> set (filter (\<lambda>cn. cn_status cn = ''candidate'' \<and> cn_threshold_pass cn) cns)"
    by (simp only: mset_eq_setD [OF mset_executable])
  then show "cn \<in> set cns" "cn_status cn = ''candidate''" by auto
  have "sorted_wrt (\<lambda>a b. cn_adjusted b \<le> cn_adjusted a) (take n (executable cns) @ drop n (executable cns))"
    using executable_sorted by simp
  then show "list_all (\<lambda>other. cn_adjusted other \<le> cn_adjusted cn) (drop n (executable cns))"
    using assms unfolding sorted_wrt_append list_all_iff by blast
qed

text \<open>Every score of a candidate lies between 0 and 100, its weighted sum too.\<close>

definition score_ok :: "num \<Rightarrow> bool" where "score_ok v \<longleftrightarrow> 0 \<le> v \<and> v \<le> 100"

lemma score_round: "score_ok v \<Longrightarrow> score_ok (py_round 4 v)"
  unfolding score_ok_def using py_round_mono [of 0 v 4] py_round_mono [of v 100 4] by simp

lemma label_score_ok: "score_ok d \<Longrightarrow> list_all (\<lambda>(k, v). score_ok v) table \<Longrightarrow> score_ok (label_score table d key)"
  by (induction table) (auto simp: label_score_def get_or_def)

lemma score_numeral [simp]: "score_ok (numeral k) \<longleftrightarrow> (numeral k :: num) \<le> 100"
  by (simp add: score_ok_def)

lemma score_if: "(c \<Longrightarrow> score_ok a) \<Longrightarrow> (\<not> c \<Longrightarrow> score_ok b) \<Longrightarrow> score_ok (if c then a else b)"
  by simp

lemma score_min: "0 \<le> a \<Longrightarrow> score_ok b \<Longrightarrow> score_ok (min a b)" "score_ok b \<Longrightarrow> 0 \<le> a \<Longrightarrow> score_ok (min b a)"
  by (auto simp: score_ok_def)

lemma score_max: "score_ok a \<Longrightarrow> b \<le> 100 \<Longrightarrow> score_ok (max a b)"
  by (auto simp: score_ok_def)

lemma score_penalty: "(92 :: num) - \<bar>x\<bar> * (21 / 10) \<le> 100" "(95 :: num) - \<bar>x\<bar> * 800 - \<bar>y\<bar> * 600 \<le> 100"
  by linarith+

lemma score_clip: "score_ok (min (max x 0) 100)"
  by (auto simp: score_ok_def)

definition scores_ok :: "num \<times> num \<times> num \<times> num \<times> num \<Rightarrow> bool" where
  "scores_ok = (\<lambda>(t, p, v, w, s). score_ok t \<and> score_ok p \<and> score_ok v \<and> score_ok w \<and> score_ok s)"

lemma breakout_scores_ok: "scores_ok (breakout_scores candles ind strength compression bs)"
  unfolding breakout_scores_def Let_def scores_ok_def prod.case
  by (intro conjI label_score_ok score_if score_min) (simp_all add: le_max_iff_disj)

lemma reversion_scores_ok: "scores_ok (reversion_scores ind)"
  unfolding reversion_scores_def Let_def scores_ok_def prod.case
  by (intro conjI score_if score_max score_penalty(1) score_numeral [THEN iffD2]) simp_all

lemma pullback_scores_ok: "scores_ok (pullback_scores ind strength quality)"
  unfolding pullback_scores_def Let_def scores_ok_def prod.case
  by (rule conjI label_score_ok score_if score_clip | rule score_max [OF _ score_penalty(2)] | rule score_min(2) | (simp; fail))+

lemma strategy_scores_ok:
  assumes "x = strategy_scores strategy candles ind strength quality compression bs"
  shows "score_ok (fst x)" "score_ok (fst (snd x))" "score_ok (fst (snd (snd x)))" "score_ok (fst (snd (snd (snd x))))" "score_ok (snd (snd (snd (snd x))))"
proof -
  have "scores_ok x"
    using breakout_scores_ok [of candles ind strength compression bs] reversion_scores_ok [of ind] pullback_scores_ok [of ind strength quality]
    unfolding assms strategy_scores_def by simp
  then show "score_ok (fst x)" "score_ok (fst (snd x))" "score_ok (fst (snd (snd x)))" "score_ok (fst (snd (snd (snd x))))"
    "score_ok (snd (snd (snd (snd x))))" by (simp_all add: scores_ok_def case_prod_beta)
qed

lemma component_scores_ok:
  "score_ok (co_trend (derive_component_scores candles ind strategy)) \<and> score_ok (co_pullback_score (derive_component_scores candles ind strategy)) \<and>
   score_ok (co_volume (derive_component_scores candles ind strategy)) \<and> score_ok (co_volatility (derive_component_scores candles ind strategy)) \<and>
   score_ok (co_structure (derive_component_scores candles ind strategy))"
  unfolding derive_component_scores_def Let_def case_prod_beta component_scores.simps
  by (intro conjI score_round strategy_scores_ok [OF refl])

lemma clamp_between: "75 / 100 \<le> clamp_multiplier v \<and> clamp_multiplier v \<le> 125 / 100"
  by (simp add: clamp_multiplier_def)

text \<open>A weighted sum with weights that add up to one, each factor between two bounds.\<close>

lemma weighted_term: "score_ok v \<Longrightarrow> 0 \<le> w \<Longrightarrow> 0 \<le> m \<Longrightarrow> m \<le> 125 / 100 \<Longrightarrow> 0 \<le> v * w * m \<and> v * w * m \<le> 125 * (w :: num)"
  unfolding score_ok_def using mult_mono [of "v * w" "100 * w" m "125 / 100"] mult_right_mono [of v 100 w] by simp

lemma base_bounds:
  assumes "score_ok (co_trend co)" "score_ok (co_pullback_score co)" "score_ok (co_volume co)" "score_ok (co_volatility co)" "score_ok (co_structure co)"
  shows "0 \<le> fst (base_and_adjusted_scores co mu) \<and> fst (base_and_adjusted_scores co mu) \<le> 100"
  unfolding base_and_adjusted_scores_def fst_conv
  using assms by (intro conjI py_round_ge py_round_le) (auto simp: score_ok_def on_grid_def)

lemma adjusted_bounds:
  assumes "score_ok (co_trend co)" "score_ok (co_pullback_score co)" "score_ok (co_volume co)" "score_ok (co_volatility co)" "score_ok (co_structure co)"
    and "mu = clamp_multiplier_set mu0"
  shows "0 \<le> snd (base_and_adjusted_scores co mu) \<and> snd (base_and_adjusted_scores co mu) \<le> 125"
proof -
  have m: "0 \<le> clamp_multiplier v" "clamp_multiplier v \<le> 125 / 100" for v using clamp_between [of v] by simp_all
  note t = weighted_term [OF assms(1) _ m, of "30 / 100" "mu_trend mu0"] weighted_term [OF assms(2) _ m, of "25 / 100" "mu_pullback mu0"]
    weighted_term [OF assms(3) _ m, of "20 / 100" "mu_volume mu0"] weighted_term [OF assms(4) _ m, of "15 / 100" "mu_volatility mu0"]
    weighted_term [OF assms(5) _ m, of "10 / 100" "mu_structure mu0"]
  show ?thesis unfolding base_and_adjusted_scores_def snd_conv assms(6) clamp_multiplier_set_def multipliers.simps
    using t by (intro conjI py_round_ge py_round_le) (simp_all add: on_grid_def)
qed

lemma candidate_scores:
  "0 \<le> cn_base (evaluate_symbol_candidate symbol candles (clamp_multiplier_set mu) open_symbols threshold strategy active) \<and>
   cn_base (evaluate_symbol_candidate symbol candles (clamp_multiplier_set mu) open_symbols threshold strategy active) \<le> 100 \<and>
   0 \<le> cn_adjusted (evaluate_symbol_candidate symbol candles (clamp_multiplier_set mu) open_symbols threshold strategy active) \<and>
   cn_adjusted (evaluate_symbol_candidate symbol candles (clamp_multiplier_set mu) open_symbols threshold strategy active) \<le> 125"
proof -
  let ?co = "derive_component_scores candles (calculate_indicator_snapshot candles) strategy"
  let ?sc = "base_and_adjusted_scores ?co (clamp_multiplier_set mu)"
  note ok = component_scores_ok [of candles "calculate_indicator_snapshot candles" strategy]
  have b: "0 \<le> fst ?sc" "fst ?sc \<le> 100" using base_bounds [of ?co "clamp_multiplier_set mu"] ok by simp_all
  have a: "0 \<le> snd ?sc" "snd ?sc \<le> 125" using adjusted_bounds [of ?co "clamp_multiplier_set mu" mu] ok by simp_all
  show ?thesis using a b by (simp add: evaluate_symbol_candidate_def Let_def case_prod_beta)
qed

lemma distinct_cycle_symbols:
  "distinct (map cn_symbol (sl_candidates (run_dynamic_selection_cycle feed stored cf symbols open_symbols slots)))"
  unfolding cycle_symbols by (simp add: sorted_set_def)

lemma distinct_executable: "distinct (map cn_symbol cns) \<Longrightarrow> distinct (map cn_symbol (executable cns))"
proof -
  assume "distinct (map cn_symbol cns)"
  then have "distinct (map cn_symbol (filter (\<lambda>cn. cn_status cn = ''candidate'' \<and> cn_threshold_pass cn) cns))"
    by (rule distinct_map_filter)
  moreover have "mset (map cn_symbol (executable cns)) =
      mset (map cn_symbol (filter (\<lambda>cn. cn_status cn = ''candidate'' \<and> cn_threshold_pass cn) cns))"
    using mset_executable [of cns] by simp
  ultimately show ?thesis using mset_eq_imp_distinct_iff by blast
qed

lemma status_insufficient [simp]: "cn_status (insufficient_candidate symbol strategy) = ''rejected_signal_setup''"
  by (simp add: insufficient_candidate_def)

text \<open>A candidate of the cycle: its symbol was free, it passed the gates and its score the threshold.\<close>

lemma cycle_candidate_ok:
  assumes "cn \<in> set (sl_candidates (run_dynamic_selection_cycle feed stored cf symbols open_symbols slots))"
    and "cn_status cn = ''candidate''"
  obtains symbol where "symbol \<in> set (sorted_set (map upper (filter (\<lambda>s. s \<noteq> []) symbols)))"
    and "220 \<le> length (sf_candles (feed symbol))"
    and "cn = evaluate_symbol_candidate symbol (last_n 500 (sf_candles (feed symbol)))
      (resolve_multipliers (rg_active (sl_regime (run_dynamic_selection_cycle feed stored cf symbols open_symbols slots)))) open_symbols (sc_min_score cf)
      (sl_strategy (run_dynamic_selection_cycle feed stored cf symbols open_symbols slots))
      (sl_strategy (run_dynamic_selection_cycle feed stored cf symbols open_symbols slots) \<in> set (sc_active cf))"
  using assms by (subst (asm) cycle_candidates) (auto split: if_splits simp del: set_sorted_set)

lemma candidate_free:
  assumes "cn \<in> set (sl_candidates (run_dynamic_selection_cycle feed stored cf symbols open_symbols slots))"
    and "cn_status cn = ''candidate''"
  shows "cn_symbol cn \<notin> set open_symbols \<and> sc_min_score cf \<le> cn_adjusted cn \<and>
    cn_strategy cn = sl_strategy (run_dynamic_selection_cycle feed stored cf symbols open_symbols slots) \<and> cn_strategy cn \<in> set (sc_active cf)"
  using cycle_candidate_ok [OF assms]
proof cases
  case (1 symbol)
  note hard = candidate_cases(1) [OF assms(2) [unfolded 1(3)]] and pass = candidate_cases(3) [OF assms(2) [unfolded 1(3)]]
  show ?thesis using hard pass by (simp add: 1(3) hard_rejections_def collect_def split: if_splits)
qed

lemma observed_from_start:
  "rg_active (observe_all obs (update_market_regime_state None raw marker)) = confirmed raw (raw # fresh_candles marker obs)"
proof -
  let ?rg = "update_market_regime_state None raw marker"
  have first: "rg_active ?rg = raw" "rg_pending ?rg = None" "rg_count ?rg = 0"
    by (simp_all add: update_market_regime_state_def regime_step_def)
  have "regime_view (rg_active ?rg) raw (rg_active ?rg, rg_pending ?rg, rg_count ?rg)"
    by (simp add: regime_view_def first)
  from observe_all_confirmed [OF this, of obs] show ?thesis by (simp add: first)
qed

lemma confirmed_last: "confirmed active (xs @ [r, r]) = r"
proof (induction xs arbitrary: active)
  case (Cons x xs)
  then show ?case by (cases xs) simp_all
qed simp

section \<open>Properties\<close>

text \<open>C20: The state kept between candles, an active regime with a pending one and its count, is what it
  stands for: after any series of observations the active regime is the last one that was observed on
  two successive candles, observations of a candle already seen apart.\<close>

theorem regime_needs_confirmation:
  "rg_active (observe_all obs (update_market_regime_state None raw marker)) = confirmed raw (raw # fresh_candles marker obs)"
  by (rule observed_from_start)

text \<open>C19: The selection of a cycle: no more candidates than free slots, one per symbol, none for a symbol with
  a position, each over the threshold with the strategy of the regime, ranked by falling score, and no
  executable candidate left out scores more than a selected one.\<close>

theorem selection_is_best:
  "let sl = run_dynamic_selection_cycle feed stored cf symbols open_symbols slots in
   length (sl_selected sl) \<le> nat slots \<and> distinct (map cn_symbol (sl_selected sl)) \<and>
   list_all (\<lambda>cn. cn_symbol cn \<notin> set open_symbols \<and> sc_min_score cf \<le> cn_adjusted cn \<and>
     cn_strategy cn = strategy_of_regime (rg_active (sl_regime sl)) \<and> cn_strategy cn \<in> set (sc_active cf)) (sl_selected sl) \<and>
   sorted_wrt (\<lambda>a b. cn_adjusted b \<le> cn_adjusted a) (sl_selected sl) \<and>
   list_all (\<lambda>left. list_all (\<lambda>cn. cn_adjusted left \<le> cn_adjusted cn) (sl_selected sl)) (drop (nat slots) (executable (sl_candidates sl)))"
proof -
  let ?sl = "run_dynamic_selection_cycle feed stored cf symbols open_symbols slots"
  let ?ex = "executable (sl_candidates ?sl)" and ?n = "nat slots"
  have ex: "map cn_symbol (sl_selected ?sl) = take ?n (map cn_symbol ?ex)" "map cn_adjusted (sl_selected ?sl) = take ?n (map cn_adjusted ?ex)"
    unfolding cycle_selected by (simp_all add: number_ranks_map take_map)
  have strategy: "sl_strategy ?sl = strategy_of_regime (rg_active (sl_regime ?sl))" by (rule cycle_strategy)
  have one: "length (sl_selected ?sl) \<le> ?n" unfolding cycle_selected by simp
  have two: "distinct (map cn_symbol (sl_selected ?sl))"
    unfolding ex(1) by (intro distinct_take distinct_executable distinct_cycle_symbols)
  have free: "cn_symbol cn \<notin> set open_symbols \<and> sc_min_score cf \<le> cn_adjusted cn \<and>
      cn_strategy cn = strategy_of_regime (rg_active (sl_regime ?sl)) \<and> cn_strategy cn \<in> set (sc_active cf)" if "cn \<in> set (take ?n ?ex)" for cn
    unfolding strategy [symmetric] by (rule candidate_free [OF selected_of_executable(1,2) [OF that]])
  have "list_all (\<lambda>cn. cn_symbol cn \<notin> set open_symbols \<and> sc_min_score cf \<le> cn_adjusted cn \<and>
      cn_strategy cn = strategy_of_regime (rg_active (sl_regime ?sl)) \<and> cn_strategy cn \<in> set (sc_active cf)) (take ?n ?ex)"
    unfolding list_all_iff by (rule ballI) (rule free)
  then have three: "list_all (\<lambda>cn. cn_symbol cn \<notin> set open_symbols \<and> sc_min_score cf \<le> cn_adjusted cn \<and>
      cn_strategy cn = strategy_of_regime (rg_active (sl_regime ?sl)) \<and> cn_strategy cn \<in> set (sc_active cf)) (sl_selected ?sl)"
    unfolding cycle_selected by (subst list_all_number_ranks) simp_all
  have "sorted_wrt (\<lambda>a b. b \<le> a) (map cn_adjusted (sl_selected ?sl))"
    unfolding ex(2) by (rule sorted_wrt_take) (simp only: sorted_wrt_map executable_sorted)
  then have four: "sorted_wrt (\<lambda>a b. cn_adjusted b \<le> cn_adjusted a) (sl_selected ?sl)" by (simp only: sorted_wrt_map)
  have le: "\<forall>v \<in> set (map cn_adjusted (sl_selected ?sl)). cn_adjusted other \<le> v" if "other \<in> set (drop ?n ?ex)" for other
    using selected_of_executable(3) [of _ ?n "sl_candidates ?sl"] that unfolding ex(2) take_map list_all_iff by auto
  have five: "list_all (\<lambda>left. list_all (\<lambda>cn. cn_adjusted left \<le> cn_adjusted cn) (sl_selected ?sl)) (drop ?n ?ex)"
    unfolding list_all_iff using le by auto
  show ?thesis unfolding Let_def using one two three four five by (intro conjI)
qed

text \<open>Every base score lies between 0 and 100, every adjusted one between 0 and 125.\<close>

theorem scores_bounded:
  "list_all (\<lambda>cn. 0 \<le> cn_base cn \<and> cn_base cn \<le> 100 \<and> 0 \<le> cn_adjusted cn \<and> cn_adjusted cn \<le> 125)
     (sl_candidates (run_dynamic_selection_cycle feed stored cf symbols open_symbols slots))"
proof -
  have mu: "resolve_multipliers regime = clamp_multiplier_set (get_or (map_of REGIME_MULTIPLIERS regime) (the (map_of REGIME_MULTIPLIERS ''RANGING'')))"
    for regime by (simp add: resolve_multipliers_def)
  show ?thesis unfolding cycle_candidates list_all_iff mu
    using candidate_scores by (auto simp: insufficient_candidate_def)
qed

text \<open>The breakout strategy, the one of the regime \<open>VOLATILE\<close>, never selects anything: the candle that
  has to close over the highest high of the range belongs to that range, so its close is at most the
  range's high whenever no close is over the high of its own candle.\<close>

theorem volatile_regime_selects_nothing:
  assumes "sl_strategy (run_dynamic_selection_cycle feed stored cf symbols open_symbols slots) = ''spot_volatility_breakout_v1''"
    and "\<And>symbol candle. candle \<in> set (sf_candles (feed symbol)) \<Longrightarrow> close_of candle \<le> high_of candle"
  shows "sl_selected (run_dynamic_selection_cycle feed stored cf symbols open_symbols slots) = []"
proof (rule ccontr)
  let ?sl = "run_dynamic_selection_cycle feed stored cf symbols open_symbols slots"
  assume "sl_selected ?sl \<noteq> []"
  then obtain cn where cn: "cn \<in> set (take (nat slots) (executable (sl_candidates ?sl)))"
    unfolding cycle_selected by (metis list.set_intros(1) neq_Nil_conv length_0_conv length_number_ranks)
  note status = selected_of_executable(2) [OF cn]
  from cycle_candidate_ok [OF selected_of_executable(1) [OF cn] status] obtain symbol where
    enough: "220 \<le> length (sf_candles (feed symbol))" and
    eq: "cn = evaluate_symbol_candidate symbol (last_n 500 (sf_candles (feed symbol))) (resolve_multipliers (rg_active (sl_regime ?sl)))
      open_symbols (sc_min_score cf) (sl_strategy ?sl) (sl_strategy ?sl \<in> set (sc_active cf))" .
  let ?cs = "last_n 500 (sf_candles (feed symbol))"
  have two: "2 \<le> length ?cs" using enough by (simp add: last_n_def)
  have "breakout_candle ?cs \<in> set ?cs" using two by (auto simp: breakout_candle_def)
  then have "breakout_candle ?cs \<in> set (sf_candles (feed symbol))" by (auto simp: last_n_def dest: in_set_dropD)
  from breakout_never_confirmed [OF two assms(2) [OF this]]
  have "setup_rejections ''spot_volatility_breakout_v1'' ?cs ind co \<noteq> []" for ind co
    unfolding setup_rejections_def by (metis emptyE empty_set)
  with candidate_cases(2) [OF status [unfolded eq]] show False unfolding assms(1) by blast
qed

definition level_candle :: ohlcv where
  "level_candle = \<lparr>oh_open = Some 100, oh_high = Some 101, oh_low = Some 99, oh_close = Some 100, oh_volume = Some 1\<rparr>"

definition volatile_state :: regime_state where
  "volatile_state = \<lparr>rg_active = ''VOLATILE'', rg_raw = ''VOLATILE'', rg_pending = None, rg_count = 0, rg_marker = ''-'', rg_changed = False\<rparr>"

theorem volatile_regime_selects_nothing_witness:
  "sl_selected (run_dynamic_selection_cycle (\<lambda>_. \<lparr>sf_candles = replicate 220 level_candle, sf_end = None\<rparr>) (Some volatile_state)
     DEFAULT_STRATEGY_CONFIG [''BTCUSDT''] [] 3) = []"
proof (rule volatile_regime_selects_nothing)
  have marker: "mx_marker (build_market_snapshot (\<lambda>_. \<lparr>sf_candles = replicate 220 level_candle, sf_end = None\<rparr>) [''BTCUSDT'']) = ''-''"
    by (simp add: build_market_snapshot_def Let_def str_or_def)
  have sym: "sorted_set (map upper (filter (\<lambda>s. s \<noteq> []) [''BTCUSDT''])) = [''BTCUSDT'']" by code_simp
  show "sl_strategy (run_dynamic_selection_cycle (\<lambda>_. \<lparr>sf_candles = replicate 220 level_candle, sf_end = None\<rparr>) (Some volatile_state)
     DEFAULT_STRATEGY_CONFIG [''BTCUSDT''] [] 3) = ''spot_volatility_breakout_v1''"
    unfolding run_dynamic_selection_cycle_def Let_def selection.simps sym marker
    by (simp add: update_market_regime_state_def volatile_state_def strategy_of_regime_def REGIME_STRATEGY_MAP_def)
qed (auto simp: level_candle_def candle_defs)

text \<open>The strategy of ranging markets wants the two averages close together, and scores 92 when they are;
  the gate that comes before it rejects exactly these symbols as too weak a trend.\<close>

theorem ranging_setup_is_gated:
  assumes "co_trend (derive_component_scores candles (calculate_indicator_snapshot candles) ''spot_range_reversion_v1'') = 92"
  shows "cn_status (evaluate_symbol_candidate symbol candles mu open_symbols threshold ''spot_range_reversion_v1'' active) = ''rejected_hard_gate''"
proof -
  let ?ind = "calculate_indicator_snapshot candles"
  let ?r = "(id_ema50 ?ind - id_ema200 ?ind) / id_ema200 ?ind * 100"
  have "id_ema200 ?ind = 0 \<or> \<bar>?r\<bar> \<le> 35 / 100"
    using assms by (auto simp: derive_component_scores_def strategy_scores_def reversion_scores_def Let_def split: if_splits)
  then have weak: "trend_strength_of candles ?ind = ''weak''"
  proof
    assume "\<bar>?r\<bar> \<le> 35 / 100"
    then have "\<not> 12 / 10 < ?r" "\<not> 1 / 2 < ?r" by linarith+
    then have "(12 / 10 < ?r) = False" "(1 / 2 < ?r) = False" by simp_all
    then show ?thesis by (simp only: trend_strength_of_def Let_def simp_thms if_False if_cancel)
  qed (simp add: trend_strength_of_def)
  have "co_trend_strength (derive_component_scores candles ?ind ''spot_range_reversion_v1'') = trend_strength_of candles ?ind"
    unfolding derive_component_scores_def Let_def case_prod_beta by simp
  then have "''trend_strength_weak'' \<in> set (hard_rejections symbol open_symbols active (derive_component_scores candles ?ind ''spot_range_reversion_v1''))"
    by (simp add: hard_rejections_def collect_def weak)
  then show ?thesis by (auto simp: evaluate_symbol_candidate_def Let_def case_prod_beta)
qed

lemma flat_closes [simp]: "close_of level_candle = 100"
  by (simp add: level_candle_def candle_defs)

lemma last_n_replicate: "0 < k \<Longrightarrow> last_n k (replicate n x) = replicate (min k n) x"
  by (simp add: last_n_def min_def)

lemma ema_flat: "0 < n \<Longrightarrow> 1 \<le> period \<Longrightarrow> ema (replicate n 100) period = 100"
  using ema_between [of period "replicate n 100" 100 100] by (simp add: list_all_iff)

theorem ranging_setup_is_gated_witness:
  "cn_status (evaluate_symbol_candidate ''BTCUSDT'' (replicate 220 level_candle) mu [] 55 ''spot_range_reversion_v1'' True) = ''rejected_hard_gate''"
  by (rule ranging_setup_is_gated)
    (simp add: derive_component_scores_def strategy_scores_def reversion_scores_def calculate_indicator_snapshot_def Let_def
      last_n_replicate ema_flat)

text \<open>The confirmation is live: when two successive candles, each of them new, show the same regime, that
  regime is active after the second one, whatever was seen before.\<close>

theorem regime_follows_the_market:
  assumes "fresh_candles marker (obs @ [(raw', m1), (raw', m2)]) = before @ [raw', raw']"
  shows "rg_active (observe_all (obs @ [(raw', m1), (raw', m2)]) (update_market_regime_state None raw marker)) = raw'"
  unfolding observed_from_start assms using confirmed_last [of raw "raw # before" raw'] by simp

theorem regime_follows_the_market_witness:
  "rg_active (observe_all ([(''VOLATILE'', ''12:15'')] @ [(''TRENDING'', ''12:30''), (''TRENDING'', ''12:45'')])
     (update_market_regime_state None ''RANGING'' ''12:00'')) = ''TRENDING''"
  by (rule regime_follows_the_market [where before = "[''VOLATILE'']"]) code_simp

end
