(* ===== verification/Spot_Risk.thy ===== *)
theory Spot_Risk
  imports Spot_Selection Position_Actions
begin

text \<open>
  The risk checks of the signal pipeline: the size of a position
  (\<open>services/pipeline/position_sizing_engine.py\<close>), the capital of a strategy, its drawdown and the
  exposure of the portfolio (\<open>services/pipeline/spot_risk_capital_service.py\<close>), the correlation of
  two symbols (\<open>services/pipeline/correlation_service.py\<close>) and the decisions of
  \<open>services/pipeline/risk_engine.py\<close> for spot strategies and for all others.

  The book of a pipeline is the table of paper positions with the ledger of their openings and
  closings. Rows that a query returns without an order keep the order of the table. The square root
  of the correlation is the argument \<open>fsqrt\<close>.
\<close>

section \<open>Rows\<close>

record spot_ledger_event =
  sv_position :: string
  sv_type :: string
  sv_strategy :: "string option"
  sv_reason :: string
  sv_price :: "num option"
  sv_pnl :: num

record spot_book =
  bk_positions :: "paper_position list"
  bk_ledger :: "spot_ledger_event list"

record risk_setting =
  us_allocation_pct :: num
  us_trade_risk_pct :: num
  us_daily_loss_limit_pct :: num
  us_compounding :: bool
  us_base_capital :: num

definition default_risk_setting :: risk_setting where
  "default_risk_setting = \<lparr>us_allocation_pct = 20, us_trade_risk_pct = 10, us_daily_loss_limit_pct = 3, us_compounding = True,
     us_base_capital = 10000\<rparr>"

record exposure_group =
  eg_name :: string
  eg_symbols :: "string list"
  eg_max_open :: int
  eg_max_directional :: int
  eg_max_risk_pct :: num

section \<open>Sizing\<close>

definition closed_of_user :: "string \<Rightarrow> paper_position list \<Rightarrow> paper_position list" where
  "closed_of_user user ps = filter (\<lambda>p. pp_user_id p = user \<and> pp_closed_at p \<noteq> None) ps"

definition open_of_user :: "string \<Rightarrow> paper_position list \<Rightarrow> paper_position list" where
  "open_of_user user ps = filter (\<lambda>p. pp_user_id p = user \<and> pp_status p = ''open'') ps"

definition closed_pnl :: "string \<Rightarrow> paper_position list \<Rightarrow> num" where
  "closed_pnl user ps = sum_list (map pp_realized_pnl (closed_of_user user ps))"

definition equity_of :: "risk_setting \<Rightarrow> string \<Rightarrow> paper_position list \<Rightarrow> num" where
  "equity_of us user ps = max (us_base_capital us + (if us_compounding us then closed_pnl user ps else 0)) (1 / 100)"

record position_sizing =
  sz_equity :: num
  sz_trade_allocation :: num
  sz_risk_amount :: num
  sz_quantity :: num

definition compute_position_sizing :: "risk_setting \<Rightarrow> string \<Rightarrow> paper_position list \<Rightarrow> num \<Rightarrow> position_sizing" where
  "compute_position_sizing us user ps market_price =
     (let equity = equity_of us user ps; allocation = equity * (us_allocation_pct us / 100);
          risk_amount = allocation * (us_trade_risk_pct us / 100)
      in \<lparr>sz_equity = py_round 4 equity, sz_trade_allocation = py_round 4 allocation, sz_risk_amount = py_round 4 risk_amount,
          sz_quantity = py_round 6 (max (allocation / max market_price (1 / 10000)) (1 / 10000))\<rparr>)"

definition closed_since :: "timestamp \<Rightarrow> paper_position list \<Rightarrow> paper_position list" where
  "closed_since start ps = filter (\<lambda>p. case pp_closed_at p of None \<Rightarrow> False | Some t \<Rightarrow> start \<le> t) ps"

definition loss_since :: "timestamp \<Rightarrow> string \<Rightarrow> paper_position list \<Rightarrow> num" where
  "loss_since start user ps =
     \<bar>sum_list (filter (\<lambda>v. v < 0) (map pp_realized_pnl (closed_since start (filter (\<lambda>p. pp_user_id p = user) ps))))\<bar>"

record loss_usage =
  lu_amount :: num
  lu_limit :: num
  lu_exceeded :: bool

definition daily_loss_usage :: "timestamp \<Rightarrow> risk_setting \<Rightarrow> string \<Rightarrow> paper_position list \<Rightarrow> loss_usage" where
  "daily_loss_usage day_start us user ps =
     (let realized_loss = loss_since day_start user ps; limit_amount = equity_of us user ps * (us_daily_loss_limit_pct us / 100)
      in \<lparr>lu_amount = py_round 4 realized_loss, lu_limit = py_round 4 limit_amount, lu_exceeded = (limit_amount \<le> realized_loss)\<rparr>)"

text \<open>\<open>closed_at\<close> in falling order, at most ten rows, counted up to the first one without a loss.\<close>

definition closing_order :: "paper_position list \<Rightarrow> paper_position list" where
  "closing_order = sort_key (\<lambda>p. get_or (pp_closed_at p) 0)"

definition consecutive_losses :: "string \<Rightarrow> paper_position list \<Rightarrow> nat \<Rightarrow> nat" where
  "consecutive_losses user ps max_window =
     length (takeWhile (\<lambda>p. pp_realized_pnl p < 0) (take max_window (sort_key (\<lambda>p. - get_or (pp_closed_at p) 0) (closed_of_user user ps))))"

section \<open>The capital of a strategy\<close>

definition DEFAULT_CAPITAL_ALLOCATION :: "(string \<times> num) list" where
  "DEFAULT_CAPITAL_ALLOCATION = [(''spot_pullback_v1'', 45 / 100), (''spot_range_reversion_v1'', 35 / 100),
     (''spot_volatility_breakout_v1'', 20 / 100)]"

definition SLOT_WEIGHTS :: "num list" where
  "SLOT_WEIGHTS = [40 / 100, 35 / 100, 25 / 100]"

definition MAX_STRATEGY_DRAWDOWN_PCT :: num where "MAX_STRATEGY_DRAWDOWN_PCT = 5"
definition MAX_POSITIONS_PER_STRATEGY :: nat where "MAX_POSITIONS_PER_STRATEGY = 2"
definition MAX_OPEN_RISK_PCT :: num where "MAX_OPEN_RISK_PCT = 3"
definition MAX_DAILY_LOSS_PCT :: num where "MAX_DAILY_LOSS_PCT = 3"
definition MAX_PORTFOLIO_DRAWDOWN_PCT :: num where "MAX_PORTFOLIO_DRAWDOWN_PCT = 15"
definition MAX_SECTOR_EXPOSURE_PCT :: num where "MAX_SECTOR_EXPOSURE_PCT = 30"
definition MAX_CORRELATED_POSITIONS :: nat where "MAX_CORRELATED_POSITIONS = 2"

text \<open>The strategy that the last opening in the ledger names for a position.\<close>

definition position_strategy :: "spot_ledger_event list \<Rightarrow> string \<Rightarrow> string" where
  "position_strategy events pid =
     (let evs = filter (\<lambda>sv. sv_type sv = ''trade_open'' \<and> sv_position sv = pid) events
      in if evs = [] then ''spot_pullback_v1'' else str_or (sv_strategy (last evs)) ''spot_pullback_v1'')"

record strategy_stats =
  ss_cumulative :: num
  ss_peak :: num
  ss_drawdown :: num
  ss_wins :: nat
  ss_losses :: nat
  ss_profit_sum :: num
  ss_loss_sum :: num

definition no_stats :: strategy_stats where
  "no_stats = \<lparr>ss_cumulative = 0, ss_peak = 0, ss_drawdown = 0, ss_wins = 0, ss_losses = 0, ss_profit_sum = 0, ss_loss_sum = 0\<rparr>"

definition stats_step :: "num \<Rightarrow> strategy_stats \<Rightarrow> strategy_stats" where
  "stats_step pnl st =
     (let cumulative = ss_cumulative st + pnl; peak = max (ss_peak st) cumulative; drawdown = max (ss_drawdown st) (peak - cumulative);
          st' = st\<lparr>ss_cumulative := cumulative, ss_peak := peak, ss_drawdown := drawdown\<rparr>
      in if 0 \<le> pnl then st'\<lparr>ss_wins := ss_wins st' + 1, ss_profit_sum := ss_profit_sum st' + pnl\<rparr>
         else st'\<lparr>ss_losses := ss_losses st' + 1, ss_loss_sum := ss_loss_sum st' + \<bar>pnl\<bar>\<rparr>)"

text \<open>The results of a strategy, the position closed first in front.\<close>

definition strategy_results :: "spot_book \<Rightarrow> string \<Rightarrow> string \<Rightarrow> num list" where
  "strategy_results bk user strategy = map pp_realized_pnl
     (filter (\<lambda>p. position_strategy (bk_ledger bk) (pp_id p) = strategy) (closing_order (closed_of_user user (bk_positions bk))))"

definition strategy_drawdown_stats :: "spot_book \<Rightarrow> string \<Rightarrow> string \<Rightarrow> strategy_stats" where
  "strategy_drawdown_stats bk user strategy = fold stats_step (strategy_results bk user strategy) no_stats"

definition profit_factor_of :: "strategy_stats \<Rightarrow> num" where
  "profit_factor_of st =
     py_round 4 (if 0 < ss_losses st then ss_profit_sum st / ss_loss_sum st else if 0 < ss_wins st then 2 else 1)"

definition drawdown_pct_of :: "strategy_stats \<Rightarrow> num" where
  "drawdown_pct_of st = py_round 4 (ss_drawdown st / 10000 * 100)"

definition effective_allocation :: "spot_book \<Rightarrow> string \<Rightarrow> string \<Rightarrow> num" where
  "effective_allocation bk user strategy =
     (let base = get_or (map_of DEFAULT_CAPITAL_ALLOCATION strategy) (33 / 100);
          pf = profit_factor_of (strategy_drawdown_stats bk user strategy);
          shift = (if 15 / 10 < pf then 5 / 100 else if pf < 1 then - (5 / 100) else 0)
      in py_round 4 (min (max (base + shift) (1 / 10)) (6 / 10)))"

definition slot_weight_for_rank :: "int option \<Rightarrow> num" where
  "slot_weight_for_rank rank =
     (case rank of None \<Rightarrow> SLOT_WEIGHTS ! 0
      | Some k \<Rightarrow> if k \<le> 0 then SLOT_WEIGHTS ! 0 else SLOT_WEIGHTS ! nat (min (k - 1) (int (length SLOT_WEIGHTS) - 1)))"

section \<open>The exposure of the portfolio\<close>

definition open_by_strategy :: "spot_book \<Rightarrow> string \<Rightarrow> string \<Rightarrow> paper_position list" where
  "open_by_strategy bk user strategy =
     filter (\<lambda>p. position_strategy (bk_ledger bk) (pp_id p) = strategy) (open_of_user user (bk_positions bk))"

definition entry_notional :: "paper_position list \<Rightarrow> num" where
  "entry_notional ps = sum_list (map (\<lambda>p. pp_entry_price p * pp_quantity p) ps)"

definition compute_open_risk_pct :: "num \<Rightarrow> paper_position list \<Rightarrow> num" where
  "compute_open_risk_pct equity ps =
     (if equity \<le> 0 then 0 else sum_list (map (\<lambda>p. \<bar>pp_entry_price p - pp_stop_loss p\<bar> * pp_quantity p) ps) / equity * 100)"

definition portfolio_drawdown_pct :: "string \<Rightarrow> paper_position list \<Rightarrow> num \<Rightarrow> num" where
  "portfolio_drawdown_pct user ps equity =
     (if closed_of_user user ps = [] then 0
      else let realized = closed_pnl user ps; peak = max 10000 (10000 + max realized 0); current = max equity 0
           in if peak \<le> 0 then 0 else max ((peak - current) / peak * 100) 0)"

definition members_of :: "exposure_group \<Rightarrow> string list" where
  "members_of eg = map upper (eg_symbols eg)"

definition sector_exposure_pct :: "exposure_group list \<Rightarrow> paper_position list \<Rightarrow> string \<Rightarrow> num \<Rightarrow> num" where
  "sector_exposure_pct groups ps symbol equity =
     (if equity \<le> 0 then 0
      else case find (\<lambda>eg. upper symbol \<in> set (members_of eg)) groups of None \<Rightarrow> 0
        | Some eg \<Rightarrow> entry_notional (filter (\<lambda>p. upper (pp_symbol p) \<in> set (members_of eg)) ps) / equity * 100)"

section \<open>Correlation\<close>

fun nonzero_returns :: "num list \<Rightarrow> num list" where
  "nonzero_returns (p # c # closes) =
     (if p = 0 then nonzero_returns (c # closes) else (c - p) / p # nonzero_returns (c # closes))"
| "nonzero_returns _ = []"

definition extract_close_returns :: "ohlcv list \<Rightarrow> nat \<Rightarrow> num list" where
  "extract_close_returns candles window =
     (if length candles < 3 then [] else nonzero_returns (map close_of (last_n window candles)))"

definition pearson_of :: "(num \<Rightarrow> num) \<Rightarrow> num list \<Rightarrow> num list \<Rightarrow> num" where
  "pearson_of fsqrt xs ys =
     (let n = min (length xs) (length ys); x = last_n n xs; y = last_n n ys in
      if n < 3 \<or> variance x \<le> 0 \<or> variance y \<le> 0 then 0
      else py_round 4 (covariance x y / fsqrt (variance x * variance y)))"

definition pair_correlation :: "(num \<Rightarrow> num) \<Rightarrow> (string \<Rightarrow> ohlcv list) \<Rightarrow> string \<Rightarrow> string \<Rightarrow> nat \<Rightarrow> num" where
  "pair_correlation fsqrt candles a b window =
     (if upper a = upper b then 1
      else pearson_of fsqrt (extract_close_returns (candles (upper a)) window) (extract_close_returns (candles (upper b)) window))"

definition correlated_positions_count ::
  "(num \<Rightarrow> num) \<Rightarrow> (string \<Rightarrow> ohlcv list) \<Rightarrow> paper_position list \<Rightarrow> string \<Rightarrow> string \<Rightarrow> nat" where
  "correlated_positions_count fsqrt candles ps symbol side =
     length (filter (\<lambda>p. pp_side p = side \<and> 8 / 10 \<le> \<bar>pair_correlation fsqrt candles symbol (pp_symbol p) 200\<bar>) ps)"

section \<open>The decision for a spot strategy\<close>

record spot_signal =
  sg_signal :: string
  sg_symbol :: string
  sg_direction :: string
  sg_strategy :: string
  sg_entry :: num
  sg_stop :: num
  sg_take :: num
  sg_rank :: "int option"

record pipeline_decision =
  rd_approved :: bool
  rd_size :: num
  rd_leverage :: int
  rd_stop :: num
  rd_take :: num
  rd_tags :: "string list"
  rd_equity :: num
  rd_trade_allocation :: num
  rd_risk_amount :: num
  rd_strategy_drawdown :: num
  rd_portfolio_drawdown :: num
  rd_open_risk :: num

text \<open>What a decision reads outside the book: the candles, the groups, the kill switch and the day.\<close>

record risk_world =
  rk_candles :: "string \<Rightarrow> ohlcv list"
  rk_groups :: "exposure_group list"
  rk_kill_switch :: bool
  rk_day_start :: timestamp

definition capacity_of :: "spot_book \<Rightarrow> string \<Rightarrow> string \<Rightarrow> num \<Rightarrow> num" where
  "capacity_of bk user strategy equity =
     max (equity * effective_allocation bk user strategy - entry_notional (open_by_strategy bk user strategy)) 0"

definition spot_quantity :: "num \<Rightarrow> num \<Rightarrow> num \<Rightarrow> num \<Rightarrow> num \<Rightarrow> num" where
  "spot_quantity equity entry stop slot_capacity remaining =
     (let stop_distance = max (max \<bar>entry - stop\<bar> (entry * (1 / 100))) (1 / 10000);
          from_risk = max (equity * (1 / 100) / stop_distance) (1 / 10000);
          from_allocation = max (min slot_capacity remaining / max entry (1 / 10000)) (1 / 10000)
      in py_round 6 (min from_risk from_allocation))"

definition spot_risk_tags ::
  "(num \<Rightarrow> num) \<Rightarrow> risk_world \<Rightarrow> risk_setting \<Rightarrow> spot_book \<Rightarrow> string list \<Rightarrow> string \<Rightarrow> spot_signal \<Rightarrow> num \<Rightarrow> string list" where
  "spot_risk_tags fsqrt rk us bk disabled user sg equity =
     (let ps = open_of_user user (bk_positions bk); strategy = sg_strategy sg; risk_amount = equity * (1 / 100) in collect
        [(sg_signal sg = ''none'', ''no_signal''), (sg_direction sg \<noteq> ''long'', ''spot_long_only''),
         (3 \<le> length ps, ''max_open_positions_reached''),
         (list_ex (\<lambda>p. upper (pp_symbol p) = upper (sg_symbol sg)) ps, ''max_position_per_symbol_reached''),
         (MAX_POSITIONS_PER_STRATEGY \<le> length (open_by_strategy bk user strategy), ''max_positions_per_strategy_reached''),
         (strategy \<in> set disabled, ''strategy_disabled''),
         (capacity_of bk user strategy equity \<le> 0, ''strategy_capital_limit_reached''),
         (MAX_OPEN_RISK_PCT < compute_open_risk_pct equity ps + risk_amount / max equity (1 / 100) * 100, ''max_open_risk_exceeded''),
         (MAX_DAILY_LOSS_PCT \<le> lu_amount (daily_loss_usage (rk_day_start rk) us user (bk_positions bk)) / max equity (1 / 100) * 100,
            ''max_daily_loss_exceeded''),
         (MAX_PORTFOLIO_DRAWDOWN_PCT \<le> portfolio_drawdown_pct user (bk_positions bk) equity, ''max_portfolio_drawdown_exceeded''),
         (MAX_STRATEGY_DRAWDOWN_PCT \<le> drawdown_pct_of (strategy_drawdown_stats bk user strategy), ''strategy_drawdown_limit_exceeded''),
         (MAX_SECTOR_EXPOSURE_PCT \<le> sector_exposure_pct (rk_groups rk) ps (sg_symbol sg) equity, ''max_sector_exposure_exceeded''),
         (MAX_CORRELATED_POSITIONS \<le> correlated_positions_count fsqrt (rk_candles rk) ps (sg_symbol sg) (sg_direction sg),
            ''max_correlated_positions_exceeded''),
         (rk_kill_switch rk, ''kill_switch_active'')])"

text \<open>\<open>json.dumps(sorted(disabled))\<close>: the strategies that reached their drawdown stay in the cache.\<close>

definition persist_disabled_strategy :: "string list \<Rightarrow> string \<Rightarrow> string list" where
  "persist_disabled_strategy disabled strategy = sorted_set (strategy # disabled)"

definition evaluate_spot_strategy_risk ::
  "(num \<Rightarrow> num) \<Rightarrow> risk_world \<Rightarrow> risk_setting \<Rightarrow> spot_book \<Rightarrow> string list \<Rightarrow> string \<Rightarrow> spot_signal \<Rightarrow> num \<Rightarrow> pipeline_decision \<times> string list" where
  "evaluate_spot_strategy_risk fsqrt rk us bk disabled user sg market_price =
     (let ps = open_of_user user (bk_positions bk); strategy = sg_strategy sg;
          equity = sz_equity (compute_position_sizing us user (bk_positions bk) market_price);
          entry = (if sg_entry sg = 0 then market_price else sg_entry sg);
          stop = (if sg_stop sg = 0 then entry * (99 / 100) else sg_stop sg);
          take_profit = (if sg_take sg = 0 then entry * (102 / 100) else sg_take sg);
          quantity = spot_quantity equity entry stop (equity * slot_weight_for_rank (sg_rank sg)) (capacity_of bk user strategy equity);
          tags = spot_risk_tags fsqrt rk us bk disabled user sg equity;
          drawdown = drawdown_pct_of (strategy_drawdown_stats bk user strategy)
      in (\<lparr>rd_approved = (tags = []), rd_size = (if tags = [] then quantity else 0), rd_leverage = 1, rd_stop = stop, rd_take = take_profit,
           rd_tags = (if tags = [] then [''approved'', ''spot_strategy_1pct_risk'', ''position_control_3x1''] else tags),
           rd_equity = equity, rd_trade_allocation = quantity * entry, rd_risk_amount = equity * (1 / 100),
           rd_strategy_drawdown = drawdown, rd_portfolio_drawdown = portfolio_drawdown_pct user (bk_positions bk) equity,
           rd_open_risk = py_round 4 (compute_open_risk_pct equity ps)\<rparr>,
          if MAX_STRATEGY_DRAWDOWN_PCT \<le> drawdown then persist_disabled_strategy disabled strategy else disabled))"

section \<open>The decision for the other strategies\<close>

record risk_control =
  rc_emergency :: bool
  rc_max_spread :: num
  rc_max_open_cap :: int
  rc_max_leverage_cap :: int

record risk_policy =
  rp_spread_limit :: num
  rp_max_open :: int
  rp_max_leverage :: int
  rp_position_size_pct :: num
  rp_daily_loss_cutoff_pct :: num

definition symbol_in_group :: "string \<Rightarrow> exposure_group \<Rightarrow> bool" where
  "symbol_in_group symbol eg \<longleftrightarrow> upper symbol \<in> set (members_of eg)"

text \<open>The group of the symbol, else the group \<open>mid_cap\<close>, else \<open>all_symbols\<close>, else the first one.\<close>

definition resolve_group_from_list :: "string \<Rightarrow> exposure_group list \<Rightarrow> exposure_group option" where
  "resolve_group_from_list symbol groups =
     (case find (symbol_in_group symbol) groups of Some eg \<Rightarrow> Some eg
      | None \<Rightarrow> case find (\<lambda>eg. eg_name eg = ''mid_cap'') groups of Some eg \<Rightarrow> Some eg
      | None \<Rightarrow> case find (\<lambda>eg. eg_name eg = ''all_symbols'') groups of Some eg \<Rightarrow> Some eg
      | None \<Rightarrow> (case groups of [] \<Rightarrow> None | eg # _ \<Rightarrow> Some eg))"

definition group_members :: "exposure_group \<Rightarrow> paper_position list \<Rightarrow> paper_position list" where
  "group_members eg ps = filter (\<lambda>p. (eg_symbols eg = [] \<and> eg_name eg \<in> {''mid_cap'', ''all_symbols''}) \<or>
     upper (pp_symbol p) \<in> set (members_of eg)) ps"

definition group_tags ::
  "(num \<Rightarrow> num) \<Rightarrow> (string \<Rightarrow> ohlcv list) \<Rightarrow> exposure_group \<Rightarrow> paper_position list \<Rightarrow> spot_signal \<Rightarrow> num \<Rightarrow> string list" where
  "group_tags fsqrt candles eg ps sg market_price =
     (let members = group_members eg ps; same = filter (\<lambda>p. pp_side p = sg_direction sg) members;
          group_risk = sum_list (map (\<lambda>p. \<bar>(pp_entry_price p - pp_stop_loss p) * pp_quantity p * of_int (pp_leverage p)\<bar>) members);
          proposed = \<bar>sg_entry sg - sg_stop sg\<bar> * max market_price (1 / 10000);
          corrs = map (\<lambda>p. \<bar>pair_correlation fsqrt candles (sg_symbol sg) (pp_symbol p) 200\<bar>) (filter (\<lambda>p. pp_side p = sg_direction sg) ps);
          high = length (filter (\<lambda>c. 75 / 100 \<le> c) corrs)
      in collect
        [(eg_max_open eg \<le> int (length members), ''group_open_positions_limit''),
         (eg_max_directional eg \<le> int (length same), ''directional_cluster_limit''),
         (eg_max_risk_pct eg * 10 \<le> group_risk + proposed, ''group_total_risk_limit''),
         (2 \<le> high, ''correlated_cluster_overload''), (high = 1 \<and> 9 / 10 \<le> fold max corrs 0, ''high_pair_correlation'')])"

definition general_tags ::
  "(num \<Rightarrow> num) \<Rightarrow> risk_world \<Rightarrow> risk_control \<Rightarrow> risk_policy \<Rightarrow> risk_setting \<Rightarrow> spot_book \<Rightarrow> string \<Rightarrow> spot_signal \<Rightarrow> string \<Rightarrow> num \<Rightarrow> num \<Rightarrow> num \<Rightarrow> string list" where
  "general_tags fsqrt rk rc rp us bk user sg market_type market_price spread_bps atr_pct =
     (let ps = open_of_user user (bk_positions bk); sizing = compute_position_sizing us user (bk_positions bk) market_price;
          open_limit = min (rc_max_open_cap rc) (rp_max_open rp); direction_limit = py_int (of_int open_limit * (8 / 10));
          leverage = min (rc_max_leverage_cap rc) (rp_max_leverage rp);
          notional = entry_notional ps + sz_trade_allocation sizing;
          max_notional = sz_equity sizing * (min 90 (rp_position_size_pct rp * of_int (rp_max_open rp)) / 100)
      in collect
        [(rc_emergency rc, ''emergency_mode_enabled''), (sg_signal sg = ''none'', ''no_signal''),
         (min (rc_max_spread rc) (rp_spread_limit rp) < spread_bps, ''spread_too_wide''), (7 / 100 < atr_pct, ''volatility_rejection''),
         (open_limit \<le> int (length ps), ''max_open_positions_reached''),
         (lu_exceeded (daily_loss_usage (rk_day_start rk) us user (bk_positions bk)), ''daily_loss_limit_exceeded''),
         (3 \<le> consecutive_losses user (bk_positions bk) 10, ''consecutive_loss_limit_exceeded'')]
       @ (case resolve_group_from_list (sg_symbol sg) (rk_groups rk) of None \<Rightarrow> []
          | Some eg \<Rightarrow> group_tags fsqrt (rk_candles rk) eg ps sg market_price)
       @ collect
        [(0 < direction_limit \<and> direction_limit \<le> int (length (filter (\<lambda>p. pp_side p = sg_direction sg) ps)), ''global_directional_crowding''),
         (market_type = ''futures'' \<and> 5 / 100 < atr_pct, ''futures_liquidation_distance_too_low''),
         (sg_signal sg \<in> {''long'', ''short''} \<and> leverage < 1, ''invalid_leverage_cap''),
         (max_notional < notional, ''max_portfolio_exposure_exceeded''),
         (min (rp_daily_loss_cutoff_pct rp) 5 < sz_risk_amount sizing / max (sz_equity sizing) (1 / 100) * 100, ''max_risk_per_trade_exceeded'')])"

definition refused :: "num \<Rightarrow> num \<Rightarrow> string list \<Rightarrow> pipeline_decision" where
  "refused stop take_profit tags =
     \<lparr>rd_approved = False, rd_size = 0, rd_leverage = 1, rd_stop = stop, rd_take = take_profit, rd_tags = tags, rd_equity = 0,
      rd_trade_allocation = 0, rd_risk_amount = 0, rd_strategy_drawdown = 0, rd_portfolio_drawdown = 0, rd_open_risk = 0\<rparr>"

definition general_quantity :: "num \<Rightarrow> num \<Rightarrow> num" where
  "general_quantity quantity atr_pct =
     (let q1 = (if 4 / 100 < atr_pct then py_round 6 (quantity * (7 / 10)) else quantity);
          q2 = (if 6 / 100 < atr_pct then py_round 6 (q1 * (1 / 2)) else q1)
      in max q2 (1 / 10000))"

definition evaluate_general_risk ::
  "(num \<Rightarrow> num) \<Rightarrow> risk_world \<Rightarrow> risk_control \<Rightarrow> risk_policy \<Rightarrow> risk_setting \<Rightarrow> spot_book \<Rightarrow> string \<Rightarrow> spot_signal \<Rightarrow> string \<Rightarrow> num \<Rightarrow> num \<Rightarrow> num \<Rightarrow> pipeline_decision" where
  "evaluate_general_risk fsqrt rk rc rp us bk user sg market_type market_price spread_bps atr_pct =
     (let tags = general_tags fsqrt rk rc rp us bk user sg market_type market_price spread_bps atr_pct;
          sizing = compute_position_sizing us user (bk_positions bk) market_price;
          leverage = min (rc_max_leverage_cap rc) (rp_max_leverage rp)
      in \<lparr>rd_approved = (tags = []), rd_size = (if tags = [] then general_quantity (sz_quantity sizing) atr_pct else 0),
          rd_leverage = (if tags = [] \<and> market_type = ''spot'' then 1 else leverage), rd_stop = sg_stop sg, rd_take = sg_take sg,
          rd_tags = (if tags = [] then [''approved'', ''cluster_checked'', ''hard_veto_compliant'', ''position_sizing_engine''] else tags),
          rd_equity = sz_equity sizing, rd_trade_allocation = sz_trade_allocation sizing, rd_risk_amount = sz_risk_amount sizing,
          rd_strategy_drawdown = 0, rd_portfolio_drawdown = 0, rd_open_risk = 0\<rparr>)"

definition SPOT_STRATEGY_TYPES :: "string list" where
  "SPOT_STRATEGY_TYPES = [''spot_pullback'', ''spot_pullback_v1'', ''spot_range_reversion'', ''spot_range_reversion_v1'',
     ''spot_volatility_breakout'', ''spot_volatility_breakout_v1'']"

definition evaluate_risk_pipeline ::
  "(num \<Rightarrow> num) \<Rightarrow> risk_world \<Rightarrow> risk_control option \<Rightarrow> risk_policy option \<Rightarrow> risk_setting \<Rightarrow> spot_book \<Rightarrow> string list \<Rightarrow> string \<Rightarrow> spot_signal \<Rightarrow> string \<Rightarrow> num \<Rightarrow> num \<Rightarrow> num \<Rightarrow> pipeline_decision \<times> string list" where
  "evaluate_risk_pipeline fsqrt rk control policy us bk disabled user sg market_type market_price spread_bps atr_pct =
     (if sg_strategy sg \<in> set SPOT_STRATEGY_TYPES
      then (if control = None then (refused (sg_stop sg) (sg_take sg) [''missing_policy''], disabled)
            else evaluate_spot_strategy_risk fsqrt rk us bk disabled user sg market_price)
      else case (control, policy) of
        (Some rc, Some rp) \<Rightarrow> (evaluate_general_risk fsqrt rk rc rp us bk user sg market_type market_price spread_bps atr_pct, disabled)
      | _ \<Rightarrow> (refused 0 0 [''missing_policy''], disabled))"

section \<open>Lemmas\<close>

lemma equity_pos: "1 / 100 \<le> sz_equity (compute_position_sizing us user ps price)"
  unfolding compute_position_sizing_def Let_def position_sizing.simps
  by (rule py_round_ge) (simp_all add: on_grid_def equity_of_def)

lemma py_round_upper: "py_round n x \<le> x + 1 / (2 * 10 ^ n)"
  using py_round_error [of n x] by (simp only: abs_le_iff) linarith

lemma capped_quantity:
  fixes r :: num
  assumes "0 \<le> r"
  shows "py_round 6 (min (max r (1 / 10000)) z) \<le> r + 201 / 2000000"
proof -
  have "min (max r (1 / 10000)) z \<le> max r (1 / 10000)" by (rule min.cobounded1)
  also have "\<dots> \<le> r + 1 / 10000" using assms by simp
  finally have "min (max r (1 / 10000)) z \<le> r + 1 / 10000" .
  from order.trans [OF py_round_upper add_right_mono [OF this], of 6] show ?thesis by (simp add: add.assoc)
qed

lemma spot_quantity_risk:
  assumes "0 < equity"
  shows "spot_quantity equity entry stop slot rest * \<bar>entry - stop\<bar> \<le> equity / 100 + \<bar>entry - stop\<bar> * (201 / 2000000)"
proof -
  let ?x = "\<bar>entry - stop\<bar>"
  obtain d where d: "d = max (max ?x (entry * (1 / 100))) (1 / 10000)" "0 < d" "?x \<le> d" by simp
  have "spot_quantity equity entry stop slot rest \<le> equity * (1 / 100) / d + 201 / 2000000"
    unfolding spot_quantity_def Let_def d(1) [symmetric] by (rule capped_quantity) (use d(2) assms in simp)
  then have le: "spot_quantity equity entry stop slot rest * ?x \<le> (equity * (1 / 100) / d + 201 / 2000000) * ?x"
    by (rule mult_right_mono) simp
  have "equity * (1 / 100) / d * ?x \<le> equity * (1 / 100) / d * d"
    using d(2,3) assms by (intro mult_left_mono) simp_all
  also have "\<dots> = equity / 100" using d(2) by simp
  finally have "equity * (1 / 100) / d * ?x \<le> equity / 100" .
  then have "(equity * (1 / 100) / d + 201 / 2000000) * ?x \<le> equity / 100 + ?x * (201 / 2000000)"
    by (simp only: distrib_right mult.commute [of "201 / 2000000"] add_right_mono)
  with le show ?thesis by (rule order.trans)
qed

lemma spot_quantity_min: "1 / 10000 \<le> spot_quantity equity entry stop slot rest"
  unfolding spot_quantity_def Let_def by (rule py_round_ge) (simp_all add: on_grid_def)

lemma spot_decision:
  assumes "evaluate_spot_strategy_risk fsqrt rk us bk disabled user sg price = (rd, disabled')" and "rd_approved rd"
  shows "spot_risk_tags fsqrt rk us bk disabled user sg (sz_equity (compute_position_sizing us user (bk_positions bk) price)) = []"
    and "rd_leverage rd = 1"
    and "rd_equity rd = sz_equity (compute_position_sizing us user (bk_positions bk) price)"
  using assms by (auto simp: evaluate_spot_strategy_risk_def Let_def)

lemma spot_disabled_grows:
  "evaluate_spot_strategy_risk fsqrt rk us bk disabled user sg price = (rd, disabled') \<Longrightarrow> set disabled \<subseteq> set disabled'"
  by (auto simp: evaluate_spot_strategy_risk_def Let_def persist_disabled_strategy_def split: if_splits)

lemma spot_decision_quantity:
  assumes "evaluate_spot_strategy_risk fsqrt rk us bk disabled user sg price = (rd, disabled')" and "rd_approved rd" and "sg_entry sg \<noteq> 0"
  obtains slot rest where "rd_size rd = spot_quantity (rd_equity rd) (sg_entry sg) (rd_stop rd) slot rest"
proof -
  have "rd_size rd = spot_quantity (rd_equity rd) (sg_entry sg) (rd_stop rd) (rd_equity rd * slot_weight_for_rank (sg_rank sg))
      (capacity_of bk user (sg_strategy sg) (rd_equity rd))"
    using assms(1)[symmetric] assms(2) unfolding evaluate_spot_strategy_risk_def Let_def prod.inject
    by (elim conjE, hypsubst, simp only: pipeline_decision.simps assms(3) if_True if_False)
  then show thesis by (rule that)
qed

lemma spot_decision_size:
  assumes "evaluate_spot_strategy_risk fsqrt rk us bk disabled user sg price = (rd, disabled')" and "rd_approved rd" and "sg_entry sg \<noteq> 0"
  shows "rd_size rd * \<bar>sg_entry sg - rd_stop rd\<bar> \<le> rd_equity rd / 100 + \<bar>sg_entry sg - rd_stop rd\<bar> * (201 / 2000000)"
    and "1 / 10000 \<le> rd_size rd"
proof -
  have "0 < rd_equity rd" using equity_pos [of us user "bk_positions bk" price] by (simp add: spot_decision(3) [OF assms(1,2)])
  moreover obtain slot rest where "rd_size rd = spot_quantity (rd_equity rd) (sg_entry sg) (rd_stop rd) slot rest"
    by (rule spot_decision_quantity [OF assms])
  ultimately show "rd_size rd * \<bar>sg_entry sg - rd_stop rd\<bar> \<le> rd_equity rd / 100 + \<bar>sg_entry sg - rd_stop rd\<bar> * (201 / 2000000)"
    and "1 / 10000 \<le> rd_size rd"
    by (simp_all only: spot_quantity_risk spot_quantity_min)
qed

text \<open>A strategy's largest drawdown only grows with its results.\<close>

lemma stats_step_drawdown: "ss_drawdown st \<le> ss_drawdown (stats_step pnl st)"
  by (simp add: stats_step_def Let_def)

lemma fold_stats_drawdown: "ss_drawdown st \<le> ss_drawdown (fold stats_step pnls st)"
  by (induction pnls arbitrary: st) (auto intro: order.trans [OF stats_step_drawdown])

lemma drawdown_extends: "drawdown_pct_of (fold stats_step xs no_stats) \<le> drawdown_pct_of (fold stats_step (xs @ ys) no_stats)"
  unfolding drawdown_pct_of_def fold_append comp_apply
  by (intro py_round_mono mult_right_mono divide_right_mono fold_stats_drawdown) simp_all

lemma covariance_sym: "covariance x y = covariance y x"
  unfolding covariance_def by (subst zip_commute) (simp add: comp_def case_prod_unfold mult.commute)

lemma pearson_sym: "pearson_of fsqrt x y = pearson_of fsqrt y x"
proof -
  let ?n = "min (length x) (length y)"
  have n: "min (length y) (length x) = ?n" by (rule min.commute)
  show ?thesis
    unfolding pearson_of_def Let_def n covariance_sym [of "last_n ?n y"] mult.commute [of "variance (last_n ?n y)"]
    by (rule if_cong) blast+
qed

lemma tags_within_limits:
  assumes "spot_risk_tags fsqrt rk us bk disabled user sg equity = []"
  shows "sg_direction sg = ''long''" "length (open_of_user user (bk_positions bk)) < 3"
    "\<not> list_ex (\<lambda>p. upper (pp_symbol p) = upper (sg_symbol sg)) (open_of_user user (bk_positions bk))"
    "length (open_by_strategy bk user (sg_strategy sg)) < 2" "sg_strategy sg \<notin> set disabled"
    "compute_open_risk_pct equity (open_of_user user (bk_positions bk)) + equity * (1 / 100) / max equity (1 / 100) * 100 \<le> 3"
    "portfolio_drawdown_pct user (bk_positions bk) equity < 15" "\<not> rk_kill_switch rk"
  using assms unfolding spot_risk_tags_def Let_def MAX_POSITIONS_PER_STRATEGY_def MAX_OPEN_RISK_PCT_def MAX_PORTFOLIO_DRAWDOWN_PCT_def
    collect_empty_iff
  by simp_all

lemma drawdown_from_peak:
  assumes "closed_of_user user ps \<noteq> []"
  obtains peak where "10000 \<le> peak" "portfolio_drawdown_pct user ps equity = max ((peak - max equity 0) / peak * 100) 0"
proof (rule that)
  let ?peak = "max 10000 (10000 + max (closed_pnl user ps) 0)"
  show "10000 \<le> ?peak" by (rule max.cobounded1)
  have "\<not> ?peak \<le> 0" by (simp add: max_def)
  then have "(?peak \<le> 0) = False" by (simp only: simp_thms)
  then show "portfolio_drawdown_pct user ps equity = max ((?peak - max equity 0) / ?peak * 100) 0"
    unfolding portfolio_drawdown_pct_def Let_def by (simp only: assms if_False)
qed

section \<open>Properties\<close>

text \<open>C21: An approved spot trade keeps the limits: at most three open positions of the user with the new one,
  none of the same symbol, at most two of the strategy, a strategy that is not disabled, no leverage, and
  a stop that costs at most one per cent of the equity, up to the smallest quantity and its rounding.\<close>

theorem approved_spot_trade_within_limits:
  assumes "evaluate_spot_strategy_risk fsqrt rk us bk disabled user sg price = (rd, disabled')" and "rd_approved rd" and "sg_entry sg \<noteq> 0"
  shows "Suc (length (open_of_user user (bk_positions bk))) \<le> 3 \<and>
     \<not> list_ex (\<lambda>p. upper (pp_symbol p) = upper (sg_symbol sg)) (open_of_user user (bk_positions bk)) \<and>
     Suc (length (open_by_strategy bk user (sg_strategy sg))) \<le> 2 \<and> sg_strategy sg \<notin> set disabled \<and> rd_leverage rd = 1 \<and>
     1 / 10000 \<le> rd_size rd \<and>
     rd_size rd * \<bar>sg_entry sg - rd_stop rd\<bar> \<le> rd_equity rd / 100 + \<bar>sg_entry sg - rd_stop rd\<bar> * (201 / 2000000)"
  using tags_within_limits [OF spot_decision(1) [OF assms(1,2)]] spot_decision(2) [OF assms(1,2)] spot_decision_size [OF assms]
  by (simp only: Suc_le_eq numeral_3_eq_3 numeral_2_eq_2 less_Suc_eq_le) simp

lemma open_risk_Cons:
  "0 < e \<Longrightarrow> compute_open_risk_pct e (p # ps) = \<bar>pp_entry_price p - pp_stop_loss p\<bar> * pp_quantity p / e * 100 + compute_open_risk_pct e ps"
  by (simp add: compute_open_risk_pct_def add_divide_distrib distrib_right)

lemma risk_share: "q * x \<le> e / 100 + x * (201 / 2000000) \<Longrightarrow> 0 < e \<Longrightarrow> x * q / e * 100 \<le> 1 + x / e * (201 / 20000)" for e :: num
  by (simp add: field_simps)

text \<open>C30: The risk of all open positions stays at three per cent of the equity when the approved position is
  opened at the proposed price.\<close>

theorem open_risk_stays_bounded:
  assumes "evaluate_spot_strategy_risk fsqrt rk us bk disabled user sg price = (rd, disabled')" and "rd_approved rd" and "sg_entry sg \<noteq> 0"
    and "pp_entry_price p = sg_entry sg" and "pp_stop_loss p = rd_stop rd" and "pp_quantity p = rd_size rd"
  shows "compute_open_risk_pct (rd_equity rd) (p # open_of_user user (bk_positions bk)) \<le>
     3 + \<bar>sg_entry sg - rd_stop rd\<bar> / rd_equity rd * (201 / 20000)"
proof -
  let ?ps = "open_of_user user (bk_positions bk)" and ?e = "rd_equity rd" and ?x = "\<bar>sg_entry sg - rd_stop rd\<bar>"
  have e: "1 / 100 \<le> ?e" using equity_pos [of us user "bk_positions bk" price] by (simp add: spot_decision(3) [OF assms(1,2)])
  have "compute_open_risk_pct ?e ?ps + ?e * (1 / 100) / max ?e (1 / 100) * 100 \<le> 3"
    using tags_within_limits(6) [OF spot_decision(1) [OF assms(1,2)]] by (simp only: spot_decision(3) [OF assms(1,2)])
  then have old: "compute_open_risk_pct ?e ?ps + 1 \<le> 3" using e by (simp add: max_absorb1)
  have "compute_open_risk_pct ?e (p # ?ps) = ?x * rd_size rd / ?e * 100 + compute_open_risk_pct ?e ?ps"
    using open_risk_Cons [of ?e p ?ps] e by (simp only: assms(4-6))
  also have "\<dots> \<le> 1 + ?x / ?e * (201 / 20000) + 2"
    using risk_share [OF spot_decision_size(1) [OF assms(1-3)]] e old by (intro add_mono) linarith+
  finally show ?thesis by simp
qed

text \<open>The limits that a user sets have no part in the decision for a spot strategy: neither the share of
  the capital, nor the risk of a trade, nor the loss of a day.\<close>

theorem spot_decision_ignores_user_limits:
  "evaluate_spot_strategy_risk fsqrt rk (us\<lparr>us_allocation_pct := a, us_trade_risk_pct := r, us_daily_loss_limit_pct := l\<rparr>) bk disabled user sg price
     = evaluate_spot_strategy_risk fsqrt rk us bk disabled user sg price"
proof -
  let ?us = "us\<lparr>us_allocation_pct := a, us_trade_risk_pct := r, us_daily_loss_limit_pct := l\<rparr>"
  have equity: "sz_equity (compute_position_sizing ?us user ps price) = sz_equity (compute_position_sizing us user ps price)" for ps
    by (simp add: compute_position_sizing_def Let_def equity_of_def)
  have "lu_amount (daily_loss_usage day ?us user ps) = lu_amount (daily_loss_usage day us user ps)" for day ps
    by (simp add: daily_loss_usage_def Let_def)
  then have "spot_risk_tags fsqrt rk ?us bk disabled user sg e = spot_risk_tags fsqrt rk us bk disabled user sg e" for e
    by (simp only: spot_risk_tags_def Let_def)
  with equity show ?thesis by (simp only: evaluate_spot_strategy_risk_def Let_def)
qed

text \<open>The drawdown of the portfolio is measured from 10000, whatever the capital of the account: an
  account with an equity of at most 8500 is refused every spot trade once a position has been closed.\<close>

theorem small_account_never_approved:
  assumes "equity_of us user (bk_positions bk) \<le> 8500" and "closed_of_user user (bk_positions bk) \<noteq> []"
  shows "\<not> rd_approved (fst (evaluate_spot_strategy_risk fsqrt rk us bk disabled user sg price))"
proof
  assume ok: "rd_approved (fst (evaluate_spot_strategy_risk fsqrt rk us bk disabled user sg price))"
  let ?e = "sz_equity (compute_position_sizing us user (bk_positions bk) price)"
  obtain rd d where eval: "evaluate_spot_strategy_risk fsqrt rk us bk disabled user sg price = (rd, d)" by fastforce
  with ok have "rd_approved rd" by simp
  from tags_within_limits(7) [OF spot_decision(1) [OF eval this]] have "portfolio_drawdown_pct user (bk_positions bk) ?e < 15" .
  moreover have e: "?e \<le> 8500" unfolding compute_position_sizing_def Let_def position_sizing.simps
    by (rule py_round_le) (simp_all add: assms(1))
  obtain peak where peak: "10000 \<le> peak" "portfolio_drawdown_pct user (bk_positions bk) ?e = max ((peak - max ?e 0) / peak * 100) 0"
    by (rule drawdown_from_peak [OF assms(2)])
  have "15 \<le> (peak - max ?e 0) / peak * 100"
    using peak(1) e by (simp add: field_simps max_def split: if_splits)
  then have "15 \<le> portfolio_drawdown_pct user (bk_positions bk) ?e" unfolding peak(2) by (rule max.coboundedI1)
  ultimately show False by simp
qed

text \<open>The correlation of two symbols does not depend on their order.\<close>

theorem pair_correlation_symmetric:
  "pair_correlation fsqrt candles a b window = pair_correlation fsqrt candles b a window"
  by (simp add: pair_correlation_def pearson_sym [of fsqrt "extract_close_returns (candles (upper a)) window"] eq_commute [of "upper a"])

end
