(* ===== verification/Spot_Execution.thy ===== *)
theory Spot_Execution
  imports Spot_Risk
begin

text \<open>
  Paper execution, \<open>services/pipeline/execution_engine.py\<close>: the path of states of an order, the
  position it opens, the refresh of the open positions against the last prices and the closing by
  hand; and the policy a strategy executes with, \<open>get_policy_for_strategy\<close> of
  \<open>services/execution_policy_service.py\<close>. The rows of execution events and of their transitions
  are the list of states; the identifier of a new row is an argument.
\<close>

section \<open>Policies\<close>

record spot_policy =
  xp_strategy :: string
  xp_style :: string
  xp_order_preference :: string
  xp_timeout_seconds :: int
  xp_fallback :: string
  xp_partial_tolerance :: num
  xp_retry_limit :: int

definition policy_row :: "string \<Rightarrow> string \<Rightarrow> string \<Rightarrow> int \<Rightarrow> string \<Rightarrow> num \<Rightarrow> int \<Rightarrow> spot_policy" where
  "policy_row strategy style preference timeout fallback tolerance retries =
     \<lparr>xp_strategy = strategy, xp_style = style, xp_order_preference = preference, xp_timeout_seconds = timeout,
      xp_fallback = fallback, xp_partial_tolerance = tolerance, xp_retry_limit = retries\<rparr>"

definition DEFAULT_POLICY_MAP :: "spot_policy list" where
  "DEFAULT_POLICY_MAP =
     [policy_row ''breakout'' ''aggressive'' ''market_first'' 4 ''market_fallback'' 85 1,
      policy_row ''mean_reversion'' ''passive'' ''limit_first'' 12 ''cancel_no_fill'' 35 3,
      policy_row ''trend_following'' ''balanced'' ''limit_first'' 8 ''market_fallback'' 60 2,
      policy_row ''volatility_expansion'' ''balanced'' ''market_first'' 6 ''limit_retry_then_market'' 70 2,
      policy_row ''spot_pullback_v1'' ''balanced'' ''limit_first'' 8 ''market_fallback'' 60 1,
      policy_row ''spot_range_reversion_v1'' ''balanced'' ''limit_first'' 10 ''market_fallback'' 55 1,
      policy_row ''spot_volatility_breakout_v1'' ''aggressive'' ''market_first'' 6 ''market_fallback'' 70 2]"

text \<open>The active row of the strategy; without one the default of the strategy is stored, or that of
  \<open>trend_following\<close> under the name of the strategy.\<close>

definition get_policy_for_strategy :: "spot_policy list \<Rightarrow> string \<Rightarrow> spot_policy \<times> spot_policy list" where
  "get_policy_for_strategy rows strategy =
     (case find (\<lambda>xp. xp_strategy xp = strategy) rows of Some xp \<Rightarrow> (xp, rows)
      | None \<Rightarrow>
          let defaults = get_or (find (\<lambda>xp. xp_strategy xp = strategy) DEFAULT_POLICY_MAP)
                (policy_row ''trend_following'' ''balanced'' ''limit_first'' 8 ''market_fallback'' 60 2);
              row = defaults\<lparr>xp_strategy := strategy\<rparr>
          in (row, rows @ [row]))"

section \<open>The path of states\<close>

record execution_context =
  ec_spread_bps :: num
  ec_latency_ms :: num
  ec_forced :: "string option"
  ec_partial_ratio :: "num option"

record state_machine =
  st_path :: "string list"
  st_retries :: nat
  st_partial_ratio :: num

definition retries :: "nat \<Rightarrow> string list" where
  "retries n = map (\<lambda>k. ''retry_'' @ nat_str (k + 1) @ ''_submitted'') [0..<n]"

definition falls_back :: "spot_policy \<Rightarrow> bool" where
  "falls_back xp \<longleftrightarrow> xp_fallback xp \<in> {''market_fallback'', ''limit_retry_then_market''}"

definition after_timeout :: "spot_policy \<Rightarrow> string list" where
  "after_timeout xp = [''timeout''] @ retries (nat (xp_retry_limit xp)) @
     (if falls_back xp \<and> 0 < xp_retry_limit xp then [''fallback_submitted'', ''filled''] else [''cancel_requested'', ''cancelled'', ''failed''])"

definition build_state_path :: "spot_policy \<Rightarrow> execution_context \<Rightarrow> state_machine" where
  "build_state_path xp ec =
     (let path = [''created'', ''submitted'', ''acknowledged'']; limit = nat (xp_retry_limit xp);
          result = (\<lambda>more_states used part. \<lparr>st_path = path @ more_states, st_retries = used, st_partial_ratio = py_round 2 part\<rparr>)
      in if ec_forced ec = Some ''rejected'' then result [''rejected''] 0 0
         else if ec_forced ec = Some ''failed'' then result [''failed''] 0 0
         else if ec_forced ec = Some ''timeout'' then result (after_timeout xp) limit 0
         else if ec_forced ec = Some ''partial''
         then result ([''partially_filled''] @ retries (min limit 2) @ [''fallback_submitted'', ''filled'']) (min limit 2)
           (get_or (ec_partial_ratio ec) (45 / 100))
         else if xp_style xp = ''aggressive'' \<and> 70 < ec_spread_bps ec then result [''rejected''] 0 0
         else if 1200 < ec_latency_ms ec then result (after_timeout xp) limit 0
         else if xp_order_preference xp = ''market_first'' then result [''filled''] 0 0
         else let partial = (if xp_partial_tolerance xp < 95 then [''partially_filled''] else []);
                  part = (if xp_partial_tolerance xp < 95 then 6 / 10 else 0)
              in if xp_timeout_seconds xp \<le> 3 then result (partial @ after_timeout xp) limit part
                 else if xp_fallback xp = ''cancel_no_fill'' then result (partial @ [''cancel_requested'', ''cancelled'', ''failed'']) 0 part
                 else if falls_back xp
                 then result (partial @ retries (min limit 1) @ [''fallback_submitted'', ''filled'']) (min limit 1) part
                 else result (partial @ [''filled'']) 0 part)"

section \<open>Opening\<close>

record open_request =
  oq_user :: string
  oq_market_type :: string
  oq_symbol :: string
  oq_direction :: string
  oq_price :: num
  oq_quantity :: num
  oq_leverage :: int
  oq_stop :: num
  oq_take :: num
  oq_strategy :: "string option"

record execution_result =
  xr_position :: "paper_position option"
  xr_state :: string
  xr_path :: "string list"

definition position_opened :: "string \<Rightarrow> open_request \<Rightarrow> paper_position" where
  "position_opened pid oq =
     \<lparr>pp_id = pid, pp_user_id = oq_user oq, pp_symbol = oq_symbol oq, pp_market_type = oq_market_type oq, pp_side = oq_direction oq,
      pp_quantity = oq_quantity oq, pp_leverage = oq_leverage oq, pp_entry_price = oq_price oq, pp_stop_loss = oq_stop oq,
      pp_take_profit = oq_take oq, pp_status = ''open'', pp_unrealized_pnl = 0, pp_realized_pnl = 0, pp_closed_at = None\<rparr>"

definition opening_event :: "string \<Rightarrow> open_request \<Rightarrow> spot_ledger_event" where
  "opening_event pid oq = \<lparr>sv_position = pid, sv_type = ''trade_open'', sv_strategy = oq_strategy oq, sv_reason = '''',
     sv_price = Some (oq_price oq), sv_pnl = 0\<rparr>"

definition open_paper_position :: "string \<Rightarrow> open_request \<Rightarrow> spot_policy \<Rightarrow> execution_context \<Rightarrow> spot_book \<Rightarrow> execution_result \<times> spot_book" where
  "open_paper_position pid oq xp ec bk =
     (let path = st_path (build_state_path xp ec); final = last path in
      if final \<in> {''cancelled'', ''failed'', ''rejected''} then (\<lparr>xr_position = None, xr_state = final, xr_path = path\<rparr>, bk)
      else (\<lparr>xr_position = Some (position_opened pid oq), xr_state = final, xr_path = path\<rparr>,
            bk\<lparr>bk_positions := bk_positions bk @ [position_opened pid oq], bk_ledger := bk_ledger bk @ [opening_event pid oq]\<rparr>))"

section \<open>Refreshing and closing\<close>

definition unrealized :: "paper_position \<Rightarrow> num \<Rightarrow> num" where
  "unrealized p price = (price - pp_entry_price p) * (if pp_side p = ''long'' then 1 else - 1) * pp_quantity p * of_int (pp_leverage p)"

definition close_reason :: "paper_position \<Rightarrow> num \<Rightarrow> string option" where
  "close_reason p price =
     (if pp_side p = ''long'' \<and> price \<le> pp_stop_loss p then Some ''stop_hit''
      else if pp_side p = ''long'' \<and> pp_take_profit p \<le> price then Some ''tp_hit''
      else if pp_side p = ''short'' \<and> pp_stop_loss p \<le> price then Some ''stop_hit''
      else if pp_side p = ''short'' \<and> price \<le> pp_take_profit p then Some ''tp_hit'' else None)"

definition refresh_position :: "timestamp \<Rightarrow> (string \<Rightarrow> num option) \<Rightarrow> paper_position \<Rightarrow> paper_position" where
  "refresh_position now prices p =
     (if pp_status p \<noteq> ''open'' then p
      else case prices (pp_symbol p) of None \<Rightarrow> p
      | Some price \<Rightarrow>
          let pnl = py_round 6 (unrealized p price); q = p\<lparr>pp_unrealized_pnl := pnl\<rparr>
          in case close_reason p price of None \<Rightarrow> q
             | Some reason \<Rightarrow> q\<lparr>pp_status := reason, pp_realized_pnl := pnl, pp_closed_at := Some now\<rparr>)"

definition closing_event :: "(string \<Rightarrow> num option) \<Rightarrow> paper_position \<Rightarrow> spot_ledger_event" where
  "closing_event prices p = \<lparr>sv_position = pp_id p, sv_type = ''trade_close'', sv_strategy = None, sv_reason = pp_status p,
     sv_price = prices (pp_symbol p), sv_pnl = pp_realized_pnl p\<rparr>"

definition closed_by_refresh :: "timestamp \<Rightarrow> (string \<Rightarrow> num option) \<Rightarrow> paper_position list \<Rightarrow> paper_position list" where
  "closed_by_refresh now prices ps =
     filter (\<lambda>q. pp_status q \<noteq> ''open'') (map (refresh_position now prices) (filter (\<lambda>p. pp_status p = ''open'') ps))"

definition refresh_open_positions :: "timestamp \<Rightarrow> (string \<Rightarrow> num option) \<Rightarrow> spot_book \<Rightarrow> paper_position list \<times> spot_book" where
  "refresh_open_positions now prices bk =
     (let closed = closed_by_refresh now prices (bk_positions bk) in
      (closed, bk\<lparr>bk_positions := map (refresh_position now prices) (bk_positions bk),
                  bk_ledger := bk_ledger bk @ map (closing_event prices) closed\<rparr>))"

definition manually_closed :: "timestamp \<Rightarrow> paper_position \<Rightarrow> paper_position" where
  "manually_closed now p = p\<lparr>pp_status := ''closed'', pp_realized_pnl := pp_unrealized_pnl p, pp_closed_at := Some now\<rparr>"

definition manual_close_position :: "timestamp \<Rightarrow> string \<Rightarrow> string \<Rightarrow> spot_book \<Rightarrow> spot_book" where
  "manual_close_position now pid reason bk =
     bk\<lparr>bk_positions := map (\<lambda>p. if pp_id p = pid then manually_closed now p else p) (bk_positions bk),
        bk_ledger := bk_ledger bk @ map (\<lambda>p. \<lparr>sv_position = pid, sv_type = ''trade_close'', sv_strategy = None, sv_reason = reason,
           sv_price = None, sv_pnl = pp_unrealized_pnl p\<rparr>) (filter (\<lambda>p. pp_id p = pid) (bk_positions bk))\<rparr>"

text \<open>The request of a user, \<open>routers/paper_positions.py\<close>: an administrator finds any position,
  another user the own ones; only an open one is closed.\<close>

datatype close_error = Position_not_found | Position_already_closed

definition close_position :: "timestamp \<Rightarrow> string \<Rightarrow> bool \<Rightarrow> string \<Rightarrow> string \<Rightarrow> spot_book \<Rightarrow> close_error + spot_book" where
  "close_position now user admin pid reason bk =
     (case find (\<lambda>p. pp_id p = pid \<and> (admin \<or> pp_user_id p = user)) (bk_positions bk) of None \<Rightarrow> Inl Position_not_found
      | Some p \<Rightarrow> if pp_status p \<noteq> ''open'' then Inl Position_already_closed else Inr (manual_close_position now pid reason bk))"

section \<open>Lemmas\<close>

definition settled :: "string list" where
  "settled = [''filled'', ''rejected'', ''failed'']"

text \<open>The entries of a path that resubmit the order, and the shape of a path.\<close>

definition is_retry :: "string \<Rightarrow> bool" where
  "is_retry s \<longleftrightarrow> take 6 s = ''retry_''"

definition retry_entries :: "string list \<Rightarrow> string list" where
  "retry_entries = filter is_retry"

lemma retries_entries [simp]: "retry_entries (retries n) = retries n" "length (retries n) = n"
  by (simp_all add: retry_entries_def retries_def filter_id_conv is_retry_def)

lemma retry_entries_append [simp]: "retry_entries (xs @ ys) = retry_entries xs @ retry_entries ys" "retry_entries [] = []"
  "retry_entries (x # xs) = (if is_retry x then x # retry_entries xs else retry_entries xs)"
  by (simp_all add: retry_entries_def)

lemma no_retry [simp]:
  "\<not> is_retry ''created''" "\<not> is_retry ''submitted''" "\<not> is_retry ''acknowledged''" "\<not> is_retry ''timeout''" "\<not> is_retry ''filled''"
  "\<not> is_retry ''rejected''" "\<not> is_retry ''failed''" "\<not> is_retry ''cancelled''" "\<not> is_retry ''cancel_requested''"
  "\<not> is_retry ''fallback_submitted''" "\<not> is_retry ''partially_filled''"
  by (simp_all add: is_retry_def)

definition unsettled :: "string list \<Rightarrow> bool" where
  "unsettled path \<longleftrightarrow> list_all (\<lambda>s. s \<notin> set settled) path"

lemma unsettled_retries [simp]: "unsettled (retries n)"
proof -
  have "\<not> is_retry s" if "s \<in> set settled" for s using that by (auto simp: settled_def)
  moreover have "list_all is_retry (retries n)" by (simp add: retries_def is_retry_def list_all_iff)
  ultimately show ?thesis by (auto simp: unsettled_def list_all_iff)
qed

lemma unsettled_simps [simp]:
  "unsettled []" "unsettled (x # xs) \<longleftrightarrow> x \<notin> set settled \<and> unsettled xs" "unsettled (xs @ ys) \<longleftrightarrow> unsettled xs \<and> unsettled ys"
  by (simp_all add: unsettled_def)

text \<open>A path runs from the creation to its one settled state, with retries numbered from one.\<close>

definition good_path :: "spot_policy \<Rightarrow> nat \<Rightarrow> string list \<Rightarrow> bool" where
  "good_path xp used path \<longleftrightarrow> hd path = ''created'' \<and> unsettled (butlast path) \<and> last path \<in> set settled \<and>
     retry_entries path = retries used \<and> used \<le> nat (xp_retry_limit xp)"

definition good_machine :: "spot_policy \<Rightarrow> state_machine \<Rightarrow> bool" where
  "good_machine xp st \<longleftrightarrow> good_path xp (st_retries st) (st_path st)"

lemma good_machine_more:
  "good_machine xp \<lparr>st_path = [''created'', ''submitted'', ''acknowledged''] @ mid @ [end], st_retries = used, st_partial_ratio = part\<rparr> \<longleftrightarrow>
     unsettled mid \<and> end \<in> set settled \<and> retry_entries (mid @ [end]) = retries used \<and> used \<le> nat (xp_retry_limit xp)"
  by (simp add: good_machine_def good_path_def butlast_append) (simp add: settled_def)

lemma settled_simps [simp]:
  "''filled'' \<in> set settled" "''rejected'' \<in> set settled" "''failed'' \<in> set settled" "''timeout'' \<notin> set settled"
  "''cancelled'' \<notin> set settled" "''cancel_requested'' \<notin> set settled" "''fallback_submitted'' \<notin> set settled" "''partially_filled'' \<notin> set settled"
  by (simp_all add: settled_def)

text \<open>The results of a path, from its middle and its last state.\<close>

lemma good_results:
  "good_machine xp \<lparr>st_path = [''created'', ''submitted'', ''acknowledged''] @ [''rejected''], st_retries = 0, st_partial_ratio = part\<rparr>"
  "good_machine xp \<lparr>st_path = [''created'', ''submitted'', ''acknowledged''] @ [''failed''], st_retries = 0, st_partial_ratio = part\<rparr>"
  "good_machine xp \<lparr>st_path = [''created'', ''submitted'', ''acknowledged''] @ [''filled''], st_retries = 0, st_partial_ratio = part\<rparr>"
  using good_machine_more [where mid = "[]" and xp = xp and used = 0] by (simp_all add: retries_def)

lemma good_timeout:
  assumes "unsettled pre" and "retry_entries pre = []"
  shows "good_machine xp \<lparr>st_path = [''created'', ''submitted'', ''acknowledged''] @ pre @ after_timeout xp, st_retries = nat (xp_retry_limit xp), st_partial_ratio = part\<rparr>"
proof (cases "falls_back xp \<and> 0 < xp_retry_limit xp")
  case True
  then show ?thesis
    using good_machine_more [of xp "pre @ [''timeout''] @ retries (nat (xp_retry_limit xp)) @ [''fallback_submitted'']" "''filled''" "nat (xp_retry_limit xp)" part] assms
    by (simp add: after_timeout_def)
next
  case False
  then show ?thesis
    using good_machine_more [of xp "pre @ [''timeout''] @ retries (nat (xp_retry_limit xp)) @ [''cancel_requested'', ''cancelled'']" "''failed''" "nat (xp_retry_limit xp)" part] assms
    by (auto simp: after_timeout_def)
qed

lemma good_partial:
  assumes "unsettled pre" and "retry_entries pre = []"
  shows "good_machine xp \<lparr>st_path = [''created'', ''submitted'', ''acknowledged''] @ pre @ retries (min (nat (xp_retry_limit xp)) n) @ [''fallback_submitted'', ''filled''],
      st_retries = min (nat (xp_retry_limit xp)) n, st_partial_ratio = part\<rparr>"
    and "good_machine xp \<lparr>st_path = [''created'', ''submitted'', ''acknowledged''] @ pre @ [''cancel_requested'', ''cancelled'', ''failed''], st_retries = 0, st_partial_ratio = part\<rparr>"
    and "good_machine xp \<lparr>st_path = [''created'', ''submitted'', ''acknowledged''] @ pre @ [''filled''], st_retries = 0, st_partial_ratio = part\<rparr>"
  using good_machine_more [of xp "pre @ retries (min (nat (xp_retry_limit xp)) n) @ [''fallback_submitted'']" "''filled''" "min (nat (xp_retry_limit xp)) n" part]
    good_machine_more [of xp "pre @ [''cancel_requested'', ''cancelled'']" "''failed''" 0 part] good_machine_more [of xp pre "''filled''" 0 part] assms
  by (simp_all add: retries_def [of 0])

lemma build_state_path_good: "good_machine xp (build_state_path xp ec)"
proof -
  let ?part = "if xp_partial_tolerance xp < 95 then [''partially_filled''] else []"
  have pre: "unsettled ?part" "retry_entries ?part = []" by simp_all
  have one: "unsettled [''partially_filled'']" "retry_entries [''partially_filled''] = []" by simp_all
  note timeout0 = good_timeout [of "[]", simplified append_Nil, OF unsettled_simps(1) retry_entries_append(2)]
  show ?thesis
    unfolding build_state_path_def Let_def
    by (simp only: if_distrib [of "good_machine xp"] good_results timeout0 good_timeout [OF pre] good_partial [OF pre] good_partial [OF one]
        if_bool_eq_conj simp_thms)
qed

lemma refresh_position_simps [simp]:
  "pp_id (refresh_position now prices p) = pp_id p" "pp_user_id (refresh_position now prices p) = pp_user_id p"
  "pp_symbol (refresh_position now prices p) = pp_symbol p" "pp_side (refresh_position now prices p) = pp_side p"
  "pp_leverage (refresh_position now prices p) = pp_leverage p" "pp_stop_loss (refresh_position now prices p) = pp_stop_loss p"
  "pp_take_profit (refresh_position now prices p) = pp_take_profit p" "pp_quantity (refresh_position now prices p) = pp_quantity p"
  "pp_entry_price (refresh_position now prices p) = pp_entry_price p" "pp_market_type (refresh_position now prices p) = pp_market_type p"
  by (simp_all add: refresh_position_def Let_def split: option.split)

lemma close_reason_status: "close_reason p price = Some reason \<Longrightarrow> reason \<in> {''stop_hit'', ''tp_hit''}"
  by (auto simp: close_reason_def split: if_splits)

lemma refresh_not_open: "pp_status p \<noteq> ''open'' \<Longrightarrow> refresh_position now prices p = p"
  by (simp add: refresh_position_def)

lemma refresh_stays_open:
  "pp_status (refresh_position now prices p) = ''open'' \<Longrightarrow>
     pp_status p = ''open'' \<and> (case prices (pp_symbol p) of None \<Rightarrow> True | Some price \<Rightarrow> close_reason p price = None)"
  by (auto simp: refresh_position_def Let_def split: if_splits option.splits dest: close_reason_status)

lemma unrealized_refresh [simp]:
  "unrealized (refresh_position now prices p) price = unrealized p price" "close_reason (refresh_position now prices p) price = close_reason p price"
  by (simp_all add: unrealized_def close_reason_def)

lemma unrealized_update [simp]:
  "unrealized (p\<lparr>pp_unrealized_pnl := v\<rparr>) price = unrealized p price" "close_reason (p\<lparr>pp_unrealized_pnl := v\<rparr>) price = close_reason p price"
  by (simp_all add: unrealized_def close_reason_def)

lemma refresh_quiet:
  "pp_status p = ''open'' \<Longrightarrow> prices (pp_symbol p) = Some price \<Longrightarrow> close_reason p price = None \<Longrightarrow>
     refresh_position now prices p = p\<lparr>pp_unrealized_pnl := py_round 6 (unrealized p price)\<rparr>"
  by (simp add: refresh_position_def Let_def)

lemma refresh_position_idem: "refresh_position now' prices (refresh_position now prices p) = refresh_position now prices p"
proof (cases "pp_status (refresh_position now prices p) = ''open''")
  case True
  note stays = refresh_stays_open [OF True]
  show ?thesis
  proof (cases "prices (pp_symbol p)")
    case (Some price)
    with stays have quiet: "pp_status p = ''open''" "close_reason p price = None" by simp_all
    show ?thesis unfolding refresh_quiet [of p prices price, OF quiet(1) Some quiet(2)]
      by (subst refresh_quiet [of _ prices price]) (simp_all add: quiet Some)
  qed (use stays in \<open>simp add: refresh_position_def\<close>)
qed (rule refresh_not_open)

lemma closed_by_refresh_idem: "closed_by_refresh now' prices (map (refresh_position now prices) ps) = []"
  by (auto simp: closed_by_refresh_def filter_map refresh_position_idem comp_def filter_empty_conv)

section \<open>Properties\<close>

text \<open>
  C33: The path of an order starts with its creation and has exactly one settled state, its last: filled,
  rejected or failed. In between the order is resubmitted as often as the result counts, in numbered
  attempts, and no more often than its policy allows. A position is opened exactly when the order ends
  filled, with the quantity, side, price, stop and take profit of the request, and it is the only
  change of the book besides its opening event; otherwise the book stays as it was.
\<close>

theorem position_iff_filled:
  "case open_paper_position pid oq xp ec bk of (xr, bk') \<Rightarrow>
     let path = xr_path xr; used = st_retries (build_state_path xp ec) in
     hd path = ''created'' \<and> xr_state xr = last path \<and> xr_state xr \<in> {''filled'', ''rejected'', ''failed''} \<and>
     list_all (\<lambda>s. s \<notin> {''filled'', ''rejected'', ''failed''}) (butlast path) \<and>
     filter is_retry path = map (\<lambda>k. ''retry_'' @ nat_str (k + 1) @ ''_submitted'') [0..<used] \<and> used \<le> nat (xp_retry_limit xp) \<and>
     (case xr_position xr of
        None \<Rightarrow> xr_state xr \<noteq> ''filled'' \<and> bk' = bk
      | Some p \<Rightarrow> xr_state xr = ''filled'' \<and> pp_status p = ''open'' \<and> pp_id p = pid \<and> pp_user_id p = oq_user oq \<and>
          pp_symbol p = oq_symbol oq \<and> pp_market_type p = oq_market_type oq \<and> pp_side p = oq_direction oq \<and>
          pp_quantity p = oq_quantity oq \<and> pp_leverage p = oq_leverage oq \<and> pp_entry_price p = oq_price oq \<and>
          pp_stop_loss p = oq_stop oq \<and> pp_take_profit p = oq_take oq \<and> pp_realized_pnl p = 0 \<and>
          bk' = bk\<lparr>bk_positions := bk_positions bk @ [p],
            bk_ledger := bk_ledger bk @ [\<lparr>sv_position = pid, sv_type = ''trade_open'', sv_strategy = oq_strategy oq, sv_reason = [],
              sv_price = Some (oq_price oq), sv_pnl = 0\<rparr>]\<rparr>)"
proof -
  let ?st = "build_state_path xp ec"
  have good: "hd (st_path ?st) = ''created''" "last (st_path ?st) \<in> {''filled'', ''rejected'', ''failed''}"
    "list_all (\<lambda>s. s \<notin> {''filled'', ''rejected'', ''failed''}) (butlast (st_path ?st))"
    "filter is_retry (st_path ?st) = map (\<lambda>k. ''retry_'' @ nat_str (k + 1) @ ''_submitted'') [0..<st_retries ?st]"
    "st_retries ?st \<le> nat (xp_retry_limit xp)"
    using build_state_path_good [of xp ec] by (simp_all add: good_machine_def good_path_def unsettled_def settled_def retry_entries_def retries_def)
  show ?thesis
  proof (cases "last (st_path ?st) = ''filled''")
    case True
    then show ?thesis using good by (simp add: open_paper_position_def Let_def position_opened_def opening_event_def)
  next
    case False
    then have "last (st_path ?st) \<in> {''cancelled'', ''failed'', ''rejected''}" using good(2) by auto
    then show ?thesis using good False by (simp add: open_paper_position_def Let_def)
  qed
qed

text \<open>Refreshing twice with the same prices changes nothing and closes nothing more.\<close>

theorem refresh_idempotent:
  "refresh_open_positions now' prices (snd (refresh_open_positions now prices bk)) = ([], snd (refresh_open_positions now prices bk))"
  by (simp add: refresh_open_positions_def Let_def closed_by_refresh_idem refresh_position_idem comp_def)

text \<open>A position that a refresh leaves open has a price strictly between its stop and its take profit,
  or no price.\<close>

theorem refresh_leaves_inside:
  "list_all (\<lambda>p. if pp_status p = ''open'' then (case prices (pp_symbol p) of None \<Rightarrow> True
       | Some price \<Rightarrow> if pp_side p = ''long'' then pp_stop_loss p < price \<and> price < pp_take_profit p
           else if pp_side p = ''short'' then pp_take_profit p < price \<and> price < pp_stop_loss p else True) else True)
     (bk_positions (snd (refresh_open_positions now prices bk)))"
  using refresh_stays_open [of now prices]
  by (auto simp: refresh_open_positions_def Let_def list_all_iff close_reason_def split: option.split if_splits dest!: refresh_stays_open)

text \<open>With the default policy of the pullback strategy no spread and no latency stops an order: it fills
  with its whole quantity, also when the spread of the symbol is unknown and counts as 9999.\<close>

theorem default_spot_order_always_fills:
  "xr_position (fst (open_paper_position pid oq (fst (get_policy_for_strategy [] ''spot_pullback_v1''))
      \<lparr>ec_spread_bps = spread, ec_latency_ms = latency, ec_forced = None, ec_partial_ratio = None\<rparr> bk)) = Some (position_opened pid oq)"
  by (simp add: get_policy_for_strategy_def DEFAULT_POLICY_MAP_def policy_row_def open_paper_position_def build_state_path_def after_timeout_def
      falls_back_def Let_def)

text \<open>Prices with six decimals: a price of at most 0.00005 rounds its stop, one per cent below, to itself,
  and the position it opens is stopped out by the first refresh at the unchanged price.\<close>

theorem micro_price_stops_out:
  assumes "on_grid 6 price" and "0 < price" and "price \<le> 1 / 20000" and "prices (pp_symbol p) = Some price"
    and "pp_status p = ''open''" and "pp_side p = ''long''" and "pp_entry_price p = price" and "pp_stop_loss p = py_round 6 (price * (99 / 100))"
  shows "pp_status (refresh_position now prices p) = ''stop_hit'' \<and> pp_realized_pnl (refresh_position now prices p) = 0"
proof -
  have "py_round 6 (price * (99 / 100)) = price"
  proof -
    have "of_int \<lfloor>price * 10 ^ 6\<rfloor> = price * 10 ^ 6" using assms(1) by (simp only: on_grid_def)
    then obtain k :: int where k: "price = of_int k / 10 ^ 6" by (metis nonzero_mult_div_cancel_right power_not_zero zero_neq_numeral)
    then have bounds: "0 < k" "k \<le> 50" using assms(2,3) by (simp_all add: field_simps)
    have "\<lfloor>of_int k * (99 / 100) :: num\<rfloor> = k - 1"
      using bounds by (simp add: floor_eq_iff)
    then have "round_half_even (of_int k * (99 / 100)) = k"
      using bounds by (simp add: round_half_even_def Let_def)
    then show ?thesis by (simp add: py_round_def k mult.commute)
  qed
  then have "close_reason p price = Some ''stop_hit''" by (simp add: close_reason_def assms(6,8))
  then show ?thesis by (simp add: refresh_position_def assms(4,5) unrealized_def assms(7))
qed

end
