(* ===== verification/Spot_Pipeline.thy ===== *)
theory Spot_Pipeline
  imports Spot_Execution
begin

text \<open>
  The orchestrator of the signal pipeline for spot strategies, \<open>services/pipeline/runtime.py\<close>: which
  bots a closed candle wakes (\<open>_orchestrate\<close>), the selection cycle of a bot
  (\<open>_process_spot_pullback_selection\<close>), the refresh of the positions and the closing by hand, as a
  step relation on the book, the disabled strategies, the idempotency keys, the stored policies and
  the state of the regime. The counters, the audit log and the observability events are not part of
  the state; the universe of symbols, the prices and the clock are arguments of a step.
\<close>

section \<open>State and inputs\<close>

record spot_world =
  sw_book :: spot_book
  sw_disabled :: "string list"
  sw_keys :: "string list"
  sw_policies :: "spot_policy list"
  sw_regime :: "regime_state option"
  sw_next :: nat

record spot_bot =
  bt_id :: string
  bt_user :: "string option"
  bt_strategy_type :: string
  bt_market_type :: string
  bt_timeframe :: string
  bt_symbols :: "string list"
  bt_runs :: bool

record candle_event =
  ev_symbol :: string
  ev_timeframe :: string
  ev_minute :: string

text \<open>What the caches and the configuration tables hold while an event is processed.\<close>

record spot_market =
  mk_feed :: "string \<Rightarrow> spot_feed"
  mk_candles :: "string \<Rightarrow> ohlcv list"
  mk_price :: "string \<Rightarrow> num option"
  mk_spread :: "string \<Rightarrow> num option"
  mk_latency :: num
  mk_groups :: "exposure_group list"
  mk_kill_switch :: bool
  mk_day_start :: timestamp
  mk_control :: "risk_control option"
  mk_policy :: "string \<Rightarrow> risk_policy option"
  mk_setting :: "string \<Rightarrow> risk_setting"
  mk_stored :: spot_params
  mk_params :: "string \<Rightarrow> spot_params"
  mk_spot_symbols :: "string list"
  mk_futures_symbols :: "string list"

definition risk_world_of :: "spot_market \<Rightarrow> risk_world" where
  "risk_world_of mk = \<lparr>rk_candles = mk_candles mk, rk_groups = mk_groups mk, rk_kill_switch = mk_kill_switch mk,
     rk_day_start = mk_day_start mk\<rparr>"

section \<open>A selected candidate\<close>

text \<open>The signal of a candidate: the fields that the strategy engine set are overwritten.\<close>

definition signal_of_candidate :: "spot_candidate \<Rightarrow> spot_signal" where
  "signal_of_candidate cn =
     \<lparr>sg_signal = ''long'', sg_symbol = cn_symbol cn, sg_direction = ''long'', sg_strategy = cn_strategy cn, sg_entry = cn_entry cn,
      sg_stop = cn_stop cn, sg_take = cn_take cn, sg_rank = map_option int (cn_rank cn)\<rparr>"

definition open_request_of :: "spot_bot \<Rightarrow> string \<Rightarrow> spot_signal \<Rightarrow> num \<Rightarrow> pipeline_decision \<Rightarrow> open_request" where
  "open_request_of bt user sg price rd =
     \<lparr>oq_user = user, oq_market_type = bt_market_type bt, oq_symbol = sg_symbol sg, oq_direction = sg_direction sg, oq_price = price,
      oq_quantity = rd_size rd, oq_leverage = rd_leverage rd, oq_stop = rd_stop rd, oq_take = rd_take rd, oq_strategy = Some (sg_strategy sg)\<rparr>"

definition spread_of :: "spot_market \<Rightarrow> string \<Rightarrow> num" where
  "spread_of mk symbol = get_or (mk_spread mk symbol) 9999"

definition process_candidate ::
  "(num \<Rightarrow> num) \<Rightarrow> spot_market \<Rightarrow> spot_bot \<Rightarrow> string \<Rightarrow> spot_candidate \<Rightarrow> spot_world \<Rightarrow> spot_world" where
  "process_candidate fsqrt mk bt user cn w =
     (let sg = signal_of_candidate cn; price = get_or (mk_price mk (cn_symbol cn)) (cn_entry cn);
          atr_pct = (if sg_entry sg = 0 then 1 else \<bar>sg_entry sg - sg_stop sg\<bar> / sg_entry sg);
          (rd, disabled) = evaluate_risk_pipeline fsqrt (risk_world_of mk) (mk_control mk) (mk_policy mk user) (mk_setting mk user) (sw_book w)
             (sw_disabled w) user sg (bt_market_type bt) price (spread_of mk (cn_symbol cn)) atr_pct;
          w1 = w\<lparr>sw_disabled := disabled\<rparr>
      in if \<not> rd_approved rd then w1
         else let (policy, rows) = get_policy_for_strategy (sw_policies w1) (cn_strategy cn);
                  ec = \<lparr>ec_spread_bps = spread_of mk (cn_symbol cn), ec_latency_ms = mk_latency mk, ec_forced = None, ec_partial_ratio = None\<rparr>;
                  (xr, book) = open_paper_position (nat_str (sw_next w1)) (open_request_of bt user sg price rd) policy ec (sw_book w1)
              in w1\<lparr>sw_policies := rows, sw_book := book, sw_next := (if xr_position xr = None then sw_next w1 else sw_next w1 + 1)\<rparr>)"

section \<open>The cycle of a bot\<close>

definition cycle_key :: "spot_bot \<Rightarrow> candle_event \<Rightarrow> string" where
  "cycle_key bt ev = ''idempotency:spot-pullback-cycle:'' @ bt_id bt @ '':'' @ ev_minute ev"

definition open_spot_positions :: "string \<Rightarrow> spot_book \<Rightarrow> paper_position list" where
  "open_spot_positions user bk = filter (\<lambda>p. pp_market_type p = ''spot'') (open_of_user user (bk_positions bk))"

definition spot_selection :: "spot_market \<Rightarrow> spot_bot \<Rightarrow> string \<Rightarrow> spot_world \<Rightarrow> selection" where
  "spot_selection mk bt user w =
     (let ps = open_spot_positions user (sw_book w); params = mk_params mk (bt_strategy_type bt);
          slots = max (get_or (pa_max_positions params) 3 - int (length ps)) 0
      in run_dynamic_selection_cycle (mk_feed mk) (sw_regime w) (get_spot_strategy_config (mk_stored mk) params)
           (map upper (mk_spot_symbols mk)) (map (\<lambda>p. upper (pp_symbol p)) ps) slots)"

definition process_spot_selection :: "(num \<Rightarrow> num) \<Rightarrow> spot_market \<Rightarrow> spot_bot \<Rightarrow> string \<Rightarrow> candle_event \<Rightarrow> spot_world \<Rightarrow> spot_world" where
  "process_spot_selection fsqrt mk bt user ev w =
     (if ev_timeframe ev \<noteq> ''15m'' \<or> cycle_key bt ev \<in> set (sw_keys w) then w
      else let sl = spot_selection mk bt user w
           in fold (process_candidate fsqrt mk bt user) (sl_selected sl)
                (w\<lparr>sw_keys := cycle_key bt ev # sw_keys w, sw_regime := Some (sl_regime sl)\<rparr>))"

section \<open>The orchestrator\<close>

text \<open>The spot bots that an event wakes: the symbols of a bot decide only whether it runs.\<close>

definition bot_accepts :: "spot_market \<Rightarrow> candle_event \<Rightarrow> spot_bot \<Rightarrow> bool" where
  "bot_accepts mk ev bt \<longleftrightarrow>
     (let own = map upper (bt_symbols bt);
          symbols = (if own = [] \<or> ''*'' \<in> set own then map upper (mk_spot_symbols mk) else own)
      in bt_strategy_type bt \<in> set SPOT_STRATEGY_TYPES \<and> ev_symbol ev \<in> set symbols \<and>
         \<not> (bt_market_type bt = ''spot'' \<and> ev_symbol ev \<notin> set (mk_spot_symbols mk)) \<and>
         \<not> (bt_market_type bt = ''futures'' \<and> ev_symbol ev \<notin> set (mk_futures_symbols mk)))"

definition process_bot :: "(num \<Rightarrow> num) \<Rightarrow> spot_market \<Rightarrow> candle_event \<Rightarrow> spot_bot \<Rightarrow> spot_world \<Rightarrow> spot_world" where
  "process_bot fsqrt mk ev bt w =
     (if bt_runs bt \<and> bt_timeframe bt = ev_timeframe ev \<and> bot_accepts mk ev bt
      then case bt_user bt of None \<Rightarrow> w | Some user \<Rightarrow> process_spot_selection fsqrt mk bt user ev w
      else w)"

definition orchestrate :: "(num \<Rightarrow> num) \<Rightarrow> spot_market \<Rightarrow> spot_bot list \<Rightarrow> candle_event \<Rightarrow> spot_world \<Rightarrow> spot_world" where
  "orchestrate fsqrt mk bots ev w = (if mk_kill_switch mk then w else fold (process_bot fsqrt mk ev) bots w)"

section \<open>Steps\<close>

definition empty_world :: spot_world where
  "empty_world = \<lparr>sw_book = \<lparr>bk_positions = [], bk_ledger = []\<rparr>, sw_disabled = [], sw_keys = [], sw_policies = [], sw_regime = None, sw_next = 0\<rparr>"

inductive spot_step :: "(num \<Rightarrow> num) \<Rightarrow> spot_world \<Rightarrow> spot_world \<Rightarrow> bool" for fsqrt where
  Candle: "spot_step fsqrt w (orchestrate fsqrt mk bots ev w)"
| Refresh: "spot_step fsqrt w (w\<lparr>sw_book := snd (refresh_open_positions now prices (sw_book w))\<rparr>)"
| Close: "close_position now user admin pid reason (sw_book w) = Inr bk \<Longrightarrow> spot_step fsqrt w (w\<lparr>sw_book := bk\<rparr>)"

inductive_cases spot_stepE: "spot_step fsqrt w w'"

definition spot_reachable :: "(num \<Rightarrow> num) \<Rightarrow> spot_world \<Rightarrow> bool" where
  "spot_reachable fsqrt w \<longleftrightarrow> (spot_step fsqrt)\<^sup>*\<^sup>* empty_world w"

section \<open>What a step does to the book\<close>

text \<open>The openings of the ledger belong to the positions, one each and in order.\<close>

definition openings :: "spot_ledger_event list \<Rightarrow> spot_ledger_event list" where
  "openings events = filter (\<lambda>sv. sv_type sv = ''trade_open'') events"

lemma position_strategy_openings:
  "position_strategy events pid =
     (let evs = filter (\<lambda>sv. sv_position sv = pid) (openings events)
      in if evs = [] then ''spot_pullback_v1'' else str_or (sv_strategy (last evs)) ''spot_pullback_v1'')"
  by (simp add: position_strategy_def openings_def conj_commute)

lemma position_strategy_cong: "openings events = openings events' \<Longrightarrow> position_strategy events pid = position_strategy events' pid"
  by (simp add: position_strategy_openings)

lemma openings_simps [simp]:
  "openings [] = []" "openings (xs @ ys) = openings xs @ openings ys" "openings [opening_event pid oq] = [opening_event pid oq]"
  "openings (map (closing_event prices) ps) = []"
  by (auto simp: openings_def opening_event_def closing_event_def filter_empty_conv)

lemma position_strategy_other: "pid \<noteq> pid' \<Longrightarrow> position_strategy (events @ [opening_event pid' oq]) pid = position_strategy events pid"
  by (simp add: position_strategy_openings) (simp add: opening_event_def)

lemma position_strategy_new:
  "oq_strategy oq = Some s \<Longrightarrow> s \<noteq> [] \<Longrightarrow> position_strategy (events @ [opening_event pid oq]) pid = s"
  by (simp add: position_strategy_openings) (simp add: opening_event_def str_or_def)

text \<open>What matters of an open position for the limits, and the limits themselves.\<close>

type_synonym slot_key = "string \<times> string \<times> string \<times> string \<times> int"

definition slot_key :: "spot_ledger_event list \<Rightarrow> paper_position \<Rightarrow> slot_key" where
  "slot_key events p = (pp_user_id p, upper (pp_symbol p), position_strategy events (pp_id p), pp_side p, pp_leverage p)"

definition open_keys :: "spot_book \<Rightarrow> slot_key list" where
  "open_keys bk = map (slot_key (bk_ledger bk)) (filter (\<lambda>p. pp_status p = ''open'') (bk_positions bk))"

definition keys_of :: "string \<Rightarrow> slot_key list \<Rightarrow> slot_key list" where
  "keys_of user ks = filter (\<lambda>k. fst k = user) ks"

definition strategy_keys :: "string \<Rightarrow> string \<Rightarrow> slot_key list \<Rightarrow> slot_key list" where
  "strategy_keys user strategy ks = filter (\<lambda>k. fst (snd (snd k)) = strategy) (keys_of user ks)"

definition within_limits :: "slot_key list \<Rightarrow> bool" where
  "within_limits ks \<longleftrightarrow> list_all (\<lambda>k. snd (snd (snd k)) = (''long'', 1)) ks \<and>
     (\<forall>user. length (keys_of user ks) \<le> 3 \<and> distinct (map (fst \<circ> snd) (keys_of user ks)) \<and>
        (\<forall>strategy. length (strategy_keys user strategy ks) \<le> 2))"

lemma distinct_subseq: "subseq xs ys \<Longrightarrow> distinct ys \<Longrightarrow> distinct xs"
  by (auto simp: subseq_conv_nths intro: distinct_nthsI)

lemma within_limits_subseq:
  assumes "subseq ks ks'" and "within_limits ks'"
  shows "within_limits ks"
proof -
  have keys: "subseq (keys_of user ks) (keys_of user ks')" for user
    unfolding keys_of_def using assms(1) by (rule subseq_filter)
  have strategies: "subseq (strategy_keys user strategy ks) (strategy_keys user strategy ks')" for user strategy
    unfolding strategy_keys_def using keys by (rule subseq_filter)
  have "list_all (\<lambda>k. snd (snd (snd k)) = (''long'', 1)) ks"
    using assms(2) list_emb_set [OF assms(1)] unfolding within_limits_def list_all_iff by blast
  moreover have "length (keys_of user ks) \<le> 3" for user
    using assms(2) list_emb_length [OF keys [of user]] by (auto simp: within_limits_def dest!: spec [of _ user])
  moreover have "distinct (map (fst \<circ> snd) (keys_of user ks))" for user
    using assms(2) distinct_subseq [OF subseq_map [OF keys [of user], of "fst \<circ> snd"]] by (auto simp: within_limits_def)
  moreover have "length (strategy_keys user strategy ks) \<le> 2" for user strategy
    using assms(2) list_emb_length [OF strategies [of user strategy]] unfolding within_limits_def by (meson order.trans)
  ultimately show ?thesis by (simp add: within_limits_def)
qed

lemma within_limits_snoc:
  assumes "within_limits ks" and "length (keys_of user ks) < 3" and "symbol \<notin> set (map (fst \<circ> snd) (keys_of user ks))"
    and "length (strategy_keys user strategy ks) < 2"
  shows "within_limits (ks @ [(user, symbol, strategy, ''long'', 1)])"
  using assms by (auto simp: within_limits_def keys_of_def strategy_keys_def)

lemma within_limits_Nil [simp]: "within_limits []"
  by (simp add: within_limits_def keys_of_def strategy_keys_def)

definition world_ok :: "spot_world \<Rightarrow> bool" where
  "world_ok w \<longleftrightarrow> map pp_id (bk_positions (sw_book w)) = map nat_str [0..<sw_next w] \<and>
     map sv_position (openings (bk_ledger (sw_book w))) = map pp_id (bk_positions (sw_book w)) \<and> within_limits (open_keys (sw_book w))"

definition add_position :: "string \<Rightarrow> open_request \<Rightarrow> spot_book \<Rightarrow> spot_book" where
  "add_position pid oq bk = bk\<lparr>bk_positions := bk_positions bk @ [position_opened pid oq], bk_ledger := bk_ledger bk @ [opening_event pid oq]\<rparr>"

lemma open_paper_position_cases:
  "open_paper_position pid oq xp ec bk = (xr, book) \<Longrightarrow>
     xr_position xr = None \<and> book = bk \<or> xr_position xr \<noteq> None \<and> book = add_position pid oq bk"
  unfolding open_paper_position_def add_position_def Let_def by (auto split: if_splits)

lemma process_candidate_cases:
  assumes "process_candidate fsqrt mk bt user cn w = w'" and "cn_strategy cn \<in> set SPOT_STRATEGY_TYPES"
  obtains (Quiet) "sw_book w' = sw_book w" "sw_next w' = sw_next w" "sw_keys w' = sw_keys w" "set (sw_disabled w) \<subseteq> set (sw_disabled w')"
  | (Opened) rd disabled price where
    "evaluate_spot_strategy_risk fsqrt (risk_world_of mk) (mk_setting mk user) (sw_book w) (sw_disabled w) user (signal_of_candidate cn) price = (rd, disabled)"
    "rd_approved rd" "sw_next w' = Suc (sw_next w)" "sw_keys w' = sw_keys w" "sw_disabled w' = disabled"
    "sw_book w' = add_position (nat_str (sw_next w)) (open_request_of bt user (signal_of_candidate cn) price rd) (sw_book w)"
proof -
  let ?sg = "signal_of_candidate cn" and ?price = "get_or (mk_price mk (cn_symbol cn)) (cn_entry cn)"
  obtain rd d where eval: "evaluate_risk_pipeline fsqrt (risk_world_of mk) (mk_control mk) (mk_policy mk user) (mk_setting mk user) (sw_book w)
      (sw_disabled w) user ?sg (bt_market_type bt) ?price (spread_of mk (cn_symbol cn))
      (if sg_entry ?sg = 0 then 1 else \<bar>sg_entry ?sg - sg_stop ?sg\<bar> / sg_entry ?sg) = (rd, d)" by fastforce
  have strategy: "sg_strategy ?sg \<in> set SPOT_STRATEGY_TYPES" using assms(2) by (simp add: signal_of_candidate_def)
  have grows: "set (sw_disabled w) \<subseteq> set d"
    using eval strategy by (auto simp: evaluate_risk_pipeline_def split: if_splits dest: spot_disabled_grows)
  show thesis
  proof (cases "rd_approved rd")
    case False
    then have "w' = w\<lparr>sw_disabled := d\<rparr>"
      using assms(1) [symmetric] unfolding process_candidate_def Let_def eval prod.case by simp
    then show thesis using grows by (intro Quiet) simp_all
  next
    case True
    then have spot: "evaluate_spot_strategy_risk fsqrt (risk_world_of mk) (mk_setting mk user) (sw_book w) (sw_disabled w) user ?sg ?price = (rd, d)"
      using eval strategy by (auto simp: evaluate_risk_pipeline_def refused_def split: if_splits)
    obtain policy rows where policy: "get_policy_for_strategy (sw_policies w) (cn_strategy cn) = (policy, rows)" by fastforce
    let ?ec = "\<lparr>ec_spread_bps = spread_of mk (cn_symbol cn), ec_latency_ms = mk_latency mk, ec_forced = None, ec_partial_ratio = None\<rparr>"
    let ?oq = "open_request_of bt user ?sg ?price rd"
    obtain xr book where open_p: "open_paper_position (nat_str (sw_next w)) ?oq policy ?ec (sw_book w) = (xr, book)" by fastforce
    have w': "w' = w\<lparr>sw_disabled := d, sw_policies := rows, sw_book := book, sw_next := (if xr_position xr = None then sw_next w else sw_next w + 1)\<rparr>"
      using assms(1) [symmetric] True policy open_p unfolding process_candidate_def Let_def eval prod.case by simp
    from open_paper_position_cases [OF open_p] show thesis
    proof
      assume "xr_position xr = None \<and> book = sw_book w"
      then show thesis using grows by (intro Quiet) (simp_all add: w')
    next
      assume "xr_position xr \<noteq> None \<and> book = add_position (nat_str (sw_next w)) ?oq (sw_book w)"
      then show thesis using spot True by (intro Opened [of ?price rd d]) (simp_all add: w')
    qed
  qed
qed

lemma keys_of_open:
  "keys_of user (open_keys bk) = map (slot_key (bk_ledger bk)) (open_of_user user (bk_positions bk))"
  by (simp add: keys_of_def open_keys_def open_of_user_def filter_map comp_def slot_key_def conj_commute)

lemma symbols_of_open: "map (fst \<circ> snd) (keys_of user (open_keys bk)) = map (\<lambda>p. upper (pp_symbol p)) (open_of_user user (bk_positions bk))"
  by (simp add: keys_of_open slot_key_def comp_def)

lemma strategies_of_open: "length (strategy_keys user strategy (open_keys bk)) = length (open_by_strategy bk user strategy)"
  by (simp add: strategy_keys_def keys_of_open filter_map comp_def slot_key_def open_by_strategy_def)

lemma open_keys_add:
  assumes "pid \<notin> pp_id ` set (bk_positions bk)" and "oq_strategy oq = Some strategy" "strategy \<noteq> []"
  shows "open_keys (add_position pid oq bk) = open_keys bk @ [(oq_user oq, upper (oq_symbol oq), strategy, oq_direction oq, oq_leverage oq)]"
proof -
  have "position_strategy (bk_ledger bk @ [opening_event pid oq]) (pp_id p) = position_strategy (bk_ledger bk) (pp_id p)"
    if "p \<in> set (bk_positions bk)" for p using that assms(1) by (intro position_strategy_other) auto
  then show ?thesis
    by (simp add: open_keys_def add_position_def position_opened_def slot_key_def position_strategy_new [OF assms(2,3)])
qed

lemma nat_str_fresh: "map pp_id ps = map nat_str [0..<n] \<Longrightarrow> nat_str n \<notin> pp_id ` set ps"
proof
  assume ids: "map pp_id ps = map nat_str [0..<n]" and "nat_str n \<in> pp_id ` set ps"
  then have "nat_str n \<in> set (map nat_str [0..<n])" by (simp flip: ids)
  then show False by auto
qed

lemma spot_strategy_nonempty: "strategy \<in> set SPOT_STRATEGY_TYPES \<Longrightarrow> strategy \<noteq> []"
  by (auto simp: SPOT_STRATEGY_TYPES_def)

lemma process_candidate_ok:
  assumes ok: "world_ok w" and strategy: "cn_strategy cn \<in> set SPOT_STRATEGY_TYPES"
  shows "world_ok (process_candidate fsqrt mk bt user cn w)"
  using refl strategy
proof (cases rule: process_candidate_cases [where w' = "process_candidate fsqrt mk bt user cn w" and w = w and fsqrt = fsqrt and mk = mk and bt = bt and user = user and cn = cn])
  case Quiet
  then show ?thesis using ok by (simp add: world_ok_def)
next
  case (Opened rd disabled price)
  let ?bk = "sw_book w" and ?sg = "signal_of_candidate cn"
  let ?oq = "open_request_of bt user ?sg price rd"
  have ids: "map pp_id (bk_positions ?bk) = map nat_str [0..<sw_next w]" using ok by (simp add: world_ok_def)
  note limits = tags_within_limits [OF spot_decision(1) [OF Opened(1,2)]]
  have oq: "oq_strategy ?oq = Some (cn_strategy cn)" "oq_user ?oq = user" "oq_symbol ?oq = cn_symbol cn" "oq_direction ?oq = ''long''" "oq_leverage ?oq = 1"
    by (simp_all add: open_request_of_def signal_of_candidate_def spot_decision(2) [OF Opened(1,2)])
  have "within_limits (open_keys ?bk @ [(user, upper (cn_symbol cn), cn_strategy cn, ''long'', 1)])"
    using ok limits(2-4)
    by (intro within_limits_snoc) (auto simp: world_ok_def keys_of_open symbols_of_open strategies_of_open signal_of_candidate_def list_ex_iff slot_key_def)
  then have "within_limits (open_keys (sw_book (process_candidate fsqrt mk bt user cn w)))"
    unfolding Opened(6) open_keys_add [OF nat_str_fresh [OF ids] oq(1) spot_strategy_nonempty [OF strategy]] oq .
  then show ?thesis using ok by (simp add: world_ok_def Opened(3,6) add_position_def position_opened_def) (simp add: opening_event_def)
qed

lemma strategy_of_regime_spot: "strategy_of_regime regime \<in> set SPOT_STRATEGY_TYPES"
  by (simp add: strategy_of_regime_def REGIME_STRATEGY_MAP_def SPOT_STRATEGY_TYPES_def get_or_def)

lemma selected_strategies:
  "list_all (\<lambda>cn. cn_strategy cn \<in> set SPOT_STRATEGY_TYPES) (sl_selected (run_dynamic_selection_cycle feed stored cf symbols open_symbols slots))"
proof -
  let ?sl = "run_dynamic_selection_cycle feed stored cf symbols open_symbols slots"
  have "cn_strategy cn \<in> set SPOT_STRATEGY_TYPES" if "cn \<in> set (take (nat slots) (executable (sl_candidates ?sl)))" for cn
    using candidate_free [OF selected_of_executable(1,2) [OF that]] cycle_strategy strategy_of_regime_spot by metis
  then show ?thesis unfolding cycle_selected by (subst list_all_number_ranks) (simp_all add: list_all_iff)
qed

section \<open>Invariants of the pipeline\<close>

text \<open>What the operations of the pipeline keep, every step keeps.\<close>

locale spot_invariant =
  fixes inv :: "spot_world \<Rightarrow> bool"
  assumes candidate: "inv w \<Longrightarrow> cn_strategy cn \<in> set SPOT_STRATEGY_TYPES \<Longrightarrow> inv (process_candidate fsqrt mk bt user cn w)"
    and cycle: "inv w \<Longrightarrow> inv (w\<lparr>sw_keys := keys, sw_regime := regime\<rparr>)"
    and refresh: "inv w \<Longrightarrow> inv (w\<lparr>sw_book := snd (refresh_open_positions now prices (sw_book w))\<rparr>)"
    and close: "inv w \<Longrightarrow> close_position now user admin pid reason (sw_book w) = Inr bk \<Longrightarrow> inv (w\<lparr>sw_book := bk\<rparr>)"
begin

lemma candidates: "inv w \<Longrightarrow> list_all (\<lambda>cn. cn_strategy cn \<in> set SPOT_STRATEGY_TYPES) cns \<Longrightarrow> inv (fold (process_candidate fsqrt mk bt user) cns w)"
  by (induction cns arbitrary: w) (simp_all add: candidate)

lemma selection_cycle: "inv w \<Longrightarrow> inv (process_spot_selection fsqrt mk bt user ev w)"
proof (cases "ev_timeframe ev \<noteq> ''15m'' \<or> cycle_key bt ev \<in> set (sw_keys w)")
  case False
  assume ok: "inv w"
  have "list_all (\<lambda>cn. cn_strategy cn \<in> set SPOT_STRATEGY_TYPES) (sl_selected (spot_selection mk bt user w))"
    using selected_strategies unfolding spot_selection_def Let_def .
  then show ?thesis using False unfolding process_spot_selection_def Let_def by (simp add: candidates cycle ok)
qed (simp add: process_spot_selection_def)

lemma bots: "inv w \<Longrightarrow> inv (fold (process_bot fsqrt mk ev) bots w)"
  by (induction bots arbitrary: w) (simp_all add: process_bot_def selection_cycle split: option.split)

lemma step: "spot_step fsqrt w w' \<Longrightarrow> inv w \<Longrightarrow> inv w'"
  by (erule spot_stepE) (simp_all add: orchestrate_def bots refresh close)

lemma steps: "(spot_step fsqrt)\<^sup>*\<^sup>* w w' \<Longrightarrow> inv w \<Longrightarrow> inv w'"
  by (induction rule: rtranclp_induct) (auto intro: step)

end

text \<open>Changing a position keeps what the limits look at, and no closed position is opened again.\<close>

definition keeps_key :: "(paper_position \<Rightarrow> paper_position) \<Rightarrow> bool" where
  "keeps_key f \<longleftrightarrow> (\<forall>p. pp_id (f p) = pp_id p \<and> pp_user_id (f p) = pp_user_id p \<and> pp_symbol (f p) = pp_symbol p \<and>
     pp_side (f p) = pp_side p \<and> pp_leverage (f p) = pp_leverage p \<and> (pp_status (f p) = ''open'' \<longrightarrow> pp_status p = ''open''))"

lemma refresh_keeps_key: "keeps_key (refresh_position now prices)"
  using refresh_stays_open by (auto simp: keeps_key_def)

lemma close_keeps_key: "keeps_key (\<lambda>p. if pp_id p = pid then manually_closed now p else p)"
  by (simp add: keeps_key_def manually_closed_def)

lemma open_keys_map:
  assumes "keeps_key f" and "openings events = openings (bk_ledger bk)"
  shows "subseq (open_keys (bk\<lparr>bk_positions := map f (bk_positions bk), bk_ledger := events\<rparr>)) (open_keys bk)"
proof -
  have key: "slot_key events (f p) = slot_key (bk_ledger bk) p" for p
    using assms(1) position_strategy_cong [OF assms(2)] by (simp add: keeps_key_def slot_key_def)
  have "open_keys (bk\<lparr>bk_positions := map f (bk_positions bk), bk_ledger := events\<rparr>) =
      map (slot_key (bk_ledger bk)) (filter (\<lambda>p. pp_status (f p) = ''open'') (bk_positions bk))"
    by (simp add: open_keys_def filter_map comp_def key)
  also have "filter (\<lambda>p. pp_status (f p) = ''open'') (bk_positions bk) =
      filter (\<lambda>p. pp_status (f p) = ''open'') (filter (\<lambda>p. pp_status p = ''open'') (bk_positions bk))"
    using assms(1) by (auto simp: keeps_key_def intro!: filter_cong)
  finally show ?thesis unfolding open_keys_def by (simp only: subseq_map subseq_filter_left)
qed

lemma world_ok_map:
  assumes "world_ok w" and "keeps_key f" and "openings events = openings (bk_ledger (sw_book w))"
  shows "world_ok (w\<lparr>sw_book := (sw_book w)\<lparr>bk_positions := map f (bk_positions (sw_book w)), bk_ledger := events\<rparr>\<rparr>)"
  using assms within_limits_subseq [OF open_keys_map [OF assms(2,3)]] by (simp add: world_ok_def keeps_key_def comp_def)

lemma openings_no_close [simp]: "openings (map (\<lambda>p. \<lparr>sv_position = pid, sv_type = ''trade_close'', sv_strategy = None, sv_reason = reason,
     sv_price = None, sv_pnl = pp_unrealized_pnl p\<rparr>) ps) = []"
  by (simp add: openings_def filter_empty_conv)

lemma found_member: "find P xs = Some x \<Longrightarrow> x \<in> set xs \<and> P x"
  by (induction xs) (auto split: if_splits)

lemma close_position_Inr: "close_position now user admin pid reason bk = Inr bk' \<Longrightarrow>
    bk' = manual_close_position now pid reason bk \<and> (\<exists>p \<in> set (bk_positions bk). pp_id p = pid \<and> pp_status p = ''open'')"
  by (auto simp: close_position_def split: option.splits if_splits dest!: found_member)

interpretation ok: spot_invariant world_ok
proof
  show "world_ok w \<Longrightarrow> world_ok (w\<lparr>sw_book := snd (refresh_open_positions now prices (sw_book w))\<rparr>)" for w now prices
    unfolding refresh_open_positions_def Let_def snd_conv by (rule world_ok_map) (simp_all add: refresh_keeps_key)
  show "world_ok w \<Longrightarrow> close_position now user admin pid reason (sw_book w) = Inr bk \<Longrightarrow> world_ok (w\<lparr>sw_book := bk\<rparr>)" for w now user admin pid reason bk
    by (drule close_position_Inr) (simp add: manual_close_position_def world_ok_map close_keeps_key)
qed (simp_all add: process_candidate_ok, simp_all add: world_ok_def)

lemma reachable_ok: "spot_reachable fsqrt w \<Longrightarrow> world_ok w"
proof -
  have "world_ok empty_world" by (simp add: world_ok_def empty_world_def open_keys_def)
  then show "spot_reachable fsqrt w \<Longrightarrow> world_ok w" unfolding spot_reachable_def by (rule ok.steps [rotated])
qed

text \<open>The openings of one strategy.\<close>

definition opened_by :: "string \<Rightarrow> spot_world \<Rightarrow> string list" where
  "opened_by strategy w = map sv_position (filter (\<lambda>sv. sv_strategy sv = Some strategy) (openings (bk_ledger (sw_book w))))"

lemma opened_by_cong: "openings (bk_ledger (sw_book w)) = openings (bk_ledger (sw_book w')) \<Longrightarrow> opened_by strategy w = opened_by strategy w'"
  by (simp add: opened_by_def)

interpretation disabled: spot_invariant "\<lambda>w. strategy \<in> set (sw_disabled w) \<and> opened_by strategy w = ids" for strategy ids
proof
  fix w fsqrt mk bt user and cn :: spot_candidate
  assume w: "strategy \<in> set (sw_disabled w) \<and> opened_by strategy w = ids" and spot: "cn_strategy cn \<in> set SPOT_STRATEGY_TYPES"
  show "strategy \<in> set (sw_disabled (process_candidate fsqrt mk bt user cn w)) \<and> opened_by strategy (process_candidate fsqrt mk bt user cn w) = ids"
    using refl spot
  proof (cases rule: process_candidate_cases [where w' = "process_candidate fsqrt mk bt user cn w" and w = w and fsqrt = fsqrt and mk = mk and bt = bt and user = user and cn = cn])
    case Quiet
    then show ?thesis using w by (auto simp: opened_by_def)
  next
    case (Opened rd d price)
    have "cn_strategy cn \<noteq> strategy"
      using tags_within_limits(5) [OF spot_decision(1) [OF Opened(1,2)]] w by (auto simp: signal_of_candidate_def)
    then show ?thesis using w spot_disabled_grows [OF Opened(1)]
      by (auto simp: Opened(5) opened_by_def Opened(6) add_position_def) (simp add: opening_event_def open_request_of_def signal_of_candidate_def)
  qed
next
  show "strategy \<in> set (sw_disabled w) \<and> opened_by strategy w = ids \<Longrightarrow> close_position now user admin pid reason (sw_book w) = Inr bk \<Longrightarrow>
      strategy \<in> set (sw_disabled (w\<lparr>sw_book := bk\<rparr>)) \<and> opened_by strategy (w\<lparr>sw_book := bk\<rparr>) = ids" for w now user admin pid reason bk
    by (drule close_position_Inr) (simp add: manual_close_position_def opened_by_def)
qed (simp_all add: opened_by_def refresh_open_positions_def Let_def)

text \<open>The closings of the ledger, with their results, are those of the closed positions.\<close>

definition closings :: "spot_ledger_event list \<Rightarrow> (string \<times> num) list" where
  "closings events = map (\<lambda>sv. (sv_position sv, sv_pnl sv)) (filter (\<lambda>sv. sv_type sv = ''trade_close'') events)"

definition closed_results :: "paper_position list \<Rightarrow> (string \<times> num) list" where
  "closed_results ps = map (\<lambda>p. (pp_id p, pp_realized_pnl p)) (filter (\<lambda>p. pp_status p \<noteq> ''open'') ps)"

definition balanced :: "spot_book \<Rightarrow> bool" where
  "balanced bk \<longleftrightarrow> mset (closings (bk_ledger bk)) = mset (closed_results (bk_positions bk))"

lemma closings_simps [simp]:
  "closings (xs @ ys) = closings xs @ closings ys" "closings [opening_event pid oq] = []"
  "closings (map (closing_event prices) ps) = map (\<lambda>p. (pp_id p, pp_realized_pnl p)) ps"
  by (simp_all add: closings_def opening_event_def closing_event_def filter_map comp_def)

lemma closed_results_refresh:
  "mset (closed_results (map (refresh_position now prices) ps)) =
     mset (closed_results ps) + mset (map (\<lambda>p. (pp_id p, pp_realized_pnl p)) (closed_by_refresh now prices ps))"
  by (induction ps) (auto simp: closed_results_def closed_by_refresh_def refresh_not_open)

lemma closed_results_close:
  "list_all (\<lambda>p. if pp_id p = pid then pp_status p = ''open'' else True) ps \<Longrightarrow>
   mset (closed_results (map (\<lambda>p. if pp_id p = pid then manually_closed now p else p) ps)) =
     mset (closed_results ps) + mset (map (\<lambda>p. (pid, pp_unrealized_pnl p)) (filter (\<lambda>p. pp_id p = pid) ps))"
  by (induction ps) (auto simp: closed_results_def manually_closed_def)

lemma same_id: "distinct (map f xs) \<Longrightarrow> x \<in> set xs \<Longrightarrow> y \<in> set xs \<Longrightarrow> f x = f y \<Longrightarrow> x = y"
  by (auto simp: distinct_map dest: inj_onD)

lemma world_ok_distinct: "world_ok w \<Longrightarrow> distinct (map pp_id (bk_positions (sw_book w)))"
  by (simp add: world_ok_def distinct_map inj_on_def)

lemma balanced_close:
  assumes "world_ok w" and "balanced (sw_book w)" and "close_position now user admin pid reason (sw_book w) = Inr bk"
  shows "balanced bk"
proof -
  obtain p where p: "p \<in> set (bk_positions (sw_book w))" "pp_id p = pid" "pp_status p = ''open''"
    and bk: "bk = manual_close_position now pid reason (sw_book w)" using close_position_Inr [OF assms(3)] by auto
  have "list_all (\<lambda>q. if pp_id q = pid then pp_status q = ''open'' else True) (bk_positions (sw_book w))"
    unfolding list_all_iff using same_id [OF world_ok_distinct [OF assms(1)] p(1)] p(2,3) by (metis (mono_tags))
  from closed_results_close [OF this] show ?thesis
    using assms(2) by (simp add: balanced_def bk manual_close_position_def closings_def filter_map comp_def)
qed

interpretation balance: spot_invariant "\<lambda>w. world_ok w \<and> balanced (sw_book w)"
proof
  fix w fsqrt mk bt user and cn :: spot_candidate
  assume w: "world_ok w \<and> balanced (sw_book w)" and spot: "cn_strategy cn \<in> set SPOT_STRATEGY_TYPES"
  have "balanced (sw_book (process_candidate fsqrt mk bt user cn w))"
    using refl spot
  proof (cases rule: process_candidate_cases [where w' = "process_candidate fsqrt mk bt user cn w" and w = w and fsqrt = fsqrt and mk = mk and bt = bt and user = user and cn = cn])
    case (Opened rd d price)
    then show ?thesis using w by (simp add: balanced_def add_position_def closed_results_def position_opened_def)
  qed (use w in simp)
  then show "world_ok (process_candidate fsqrt mk bt user cn w) \<and> balanced (sw_book (process_candidate fsqrt mk bt user cn w))"
    using w spot by (simp add: ok.candidate)
next
  show "world_ok w \<and> balanced (sw_book w) \<Longrightarrow> world_ok (w\<lparr>sw_book := snd (refresh_open_positions now prices (sw_book w))\<rparr>) \<and>
      balanced (sw_book (w\<lparr>sw_book := snd (refresh_open_positions now prices (sw_book w))\<rparr>))" for w now prices
    using ok.refresh [of w now prices] by (simp add: balanced_def refresh_open_positions_def Let_def closed_results_refresh)
next
  show "world_ok w \<and> balanced (sw_book w) \<Longrightarrow> close_position now user admin pid reason (sw_book w) = Inr bk \<Longrightarrow>
      world_ok (w\<lparr>sw_book := bk\<rparr>) \<and> balanced (sw_book (w\<lparr>sw_book := bk\<rparr>))" for w now user admin pid reason bk
    using ok.close [of w now user admin pid reason bk] balanced_close [of w now user admin pid reason bk] by simp
qed (use ok.cycle in simp)

lemma candidate_keys: "sw_keys (process_candidate fsqrt mk bt user cn w) = sw_keys w"
  unfolding process_candidate_def Let_def by (simp split: prod.split)

lemma kept_keys: "sw_keys (fold (process_candidate fsqrt mk bt user) cns w) = sw_keys w"
  by (induction cns arbitrary: w) (simp_all add: candidate_keys)

section \<open>Properties\<close>

text \<open>C3: In every reachable state of the spot pipeline each user has at most three open positions, at most one per symbol, at most
  two per strategy, all of them long and without leverage.\<close>

theorem spot_limits_always_hold:
  assumes "spot_reachable fsqrt w"
  shows "length (open_of_user user (bk_positions (sw_book w))) \<le> 3 \<and>
     distinct (map (\<lambda>p. upper (pp_symbol p)) (open_of_user user (bk_positions (sw_book w)))) \<and>
     length (open_by_strategy (sw_book w) user strategy) \<le> 2 \<and>
     list_all (\<lambda>p. pp_side p = ''long'' \<and> pp_leverage p = 1) (open_of_user user (bk_positions (sw_book w)))"
proof -
  have ok: "within_limits (open_keys (sw_book w))" using reachable_ok [OF assms] by (simp add: world_ok_def)
  then have "length (keys_of user (open_keys (sw_book w))) \<le> 3" "distinct (map (fst \<circ> snd) (keys_of user (open_keys (sw_book w))))"
    "length (strategy_keys user strategy (open_keys (sw_book w))) \<le> 2" by (simp_all add: within_limits_def)
  moreover have "list_all (\<lambda>p. pp_side p = ''long'' \<and> pp_leverage p = 1) (open_of_user user (bk_positions (sw_book w)))"
    using ok by (auto simp: within_limits_def open_keys_def list_all_iff open_of_user_def slot_key_def)
  ultimately show ?thesis unfolding symbols_of_open strategies_of_open by (simp only: keys_of_open length_map simp_thms)
qed

text \<open>Of a book that only the pipeline wrote, the openings and closings are exactly those of its positions.\<close>

lemma pipeline_ledger_balances:
  assumes "spot_reachable fsqrt w"
  shows "map sv_position (openings (bk_ledger (sw_book w))) = map pp_id (bk_positions (sw_book w)) \<and>
     mset (closings (bk_ledger (sw_book w))) = mset (closed_results (bk_positions (sw_book w)))"
proof -
  have "world_ok empty_world \<and> balanced (sw_book empty_world)"
    by (simp add: world_ok_def empty_world_def open_keys_def balanced_def closings_def closed_results_def)
  from balance.steps [OF assms [unfolded spot_reachable_def] this] show ?thesis by (simp add: world_ok_def balanced_def)
qed

text \<open>C22: A strategy that is disabled for its drawdown opens no position in any later state: nothing removes it
  from the list.\<close>

theorem disabled_strategy_stays_out:
  assumes "(spot_step fsqrt)\<^sup>*\<^sup>* w w'" and "strategy \<in> set (sw_disabled w)"
  shows "strategy \<in> set (sw_disabled w') \<and> opened_by strategy w' = opened_by strategy w"
  using disabled.steps [OF assms(1)] assms(2) by blast

text \<open>C31: A bot runs one selection cycle per closing minute. After the event of a fifteen minute candle, every
  other event of that timeframe and minute, of any symbol, changes nothing: whatever its caches and
  prices, for whichever user and however the bot has been edited since. The minute is the whole key: a
  cycle marks no other minute and no other bot.\<close>

theorem cycle_runs_once:
  assumes "ev_timeframe ev = ''15m''" and "ev_minute ev' = ev_minute ev" and "bt_id bt' = bt_id bt"
  shows "process_spot_selection fsqrt mk' bt' user' ev' (process_spot_selection fsqrt mk bt user ev w) = process_spot_selection fsqrt mk bt user ev w \<and>
    sw_keys (process_spot_selection fsqrt mk bt user ev w) =
      (if cycle_key bt ev \<in> set (sw_keys w) then sw_keys w else cycle_key bt ev # sw_keys w) \<and>
    (if length (ev_minute ev'') = length (ev_minute ev)
     then cycle_key bt'' ev'' = cycle_key bt ev \<longleftrightarrow> bt_id bt'' = bt_id bt \<and> ev_minute ev'' = ev_minute ev else True)"
proof -
  have keys: "sw_keys (process_spot_selection fsqrt mk bt user ev w) =
      (if cycle_key bt ev \<in> set (sw_keys w) then sw_keys w else cycle_key bt ev # sw_keys w)"
    using assms(1) by (simp add: process_spot_selection_def Let_def kept_keys)
  have same: "cycle_key bt' ev' = cycle_key bt ev" using assms(2,3) by (simp add: cycle_key_def)
  then have "cycle_key bt' ev' \<in> set (sw_keys (process_spot_selection fsqrt mk bt user ev w))"
    using keys by simp
  then have "process_spot_selection fsqrt mk' bt' user' ev' (process_spot_selection fsqrt mk bt user ev w) = process_spot_selection fsqrt mk bt user ev w"
    unfolding process_spot_selection_def [of fsqrt mk' bt' user' ev'] by simp
  moreover have "cycle_key bt'' ev'' = cycle_key bt ev \<longleftrightarrow> bt_id bt'' = bt_id bt \<and> ev_minute ev'' = ev_minute ev"
    if "length (ev_minute ev'') = length (ev_minute ev)"
    using that by (auto simp: cycle_key_def)
  ultimately show ?thesis using keys by simp
qed

end
