(* ===== verification/Spot_Examples.thy ===== *)
theory Spot_Examples
  imports Spot_Pipeline
begin

text \<open>
  A run of the spot pipeline on one symbol: a quiet market that rises by three per cent for fourteen
  candles and falls back. The regime is ranging, the symbol is the candidate of the range reversion
  strategy, the risk checks approve it and its order fills. The state it leaves is the reachable state
  at which the properties of the pipeline are instantiated.
\<close>

section \<open>The candles and their indicators\<close>

definition quiet_candle :: ohlcv where
  "quiet_candle = \<lparr>oh_open = Some 100, oh_high = Some (201 / 2), oh_low = Some (199 / 2), oh_close = Some 100, oh_volume = Some 1\<rparr>"

definition high_candle :: ohlcv where
  "high_candle = \<lparr>oh_open = Some 103, oh_high = Some (207 / 2), oh_low = Some (205 / 2), oh_close = Some 103, oh_volume = Some 1\<rparr>"

definition fall_candle :: ohlcv where
  "fall_candle = \<lparr>oh_open = Some 103, oh_high = Some (207 / 2), oh_low = Some (199 / 2), oh_close = Some 100, oh_volume = Some 1\<rparr>"

lemma candle_values [simp]:
  "open_of quiet_candle = 100" "high_of quiet_candle = 201 / 2" "low_of quiet_candle = 199 / 2" "close_of quiet_candle = 100" "volume_of quiet_candle = 1"
  "open_of high_candle = 103" "high_of high_candle = 207 / 2" "low_of high_candle = 205 / 2" "close_of high_candle = 103" "volume_of high_candle = 1"
  "open_of fall_candle = 103" "high_of fall_candle = 207 / 2" "low_of fall_candle = 199 / 2" "close_of fall_candle = 100" "volume_of fall_candle = 1"
  by (simp_all add: quiet_candle_def high_candle_def fall_candle_def candle_defs)

definition sample_candles :: "ohlcv list" where
  "sample_candles = replicate 205 quiet_candle @ replicate 14 high_candle @ [fall_candle]"

lemma sample_length [simp]: "length sample_candles = 220"
  by (simp add: sample_candles_def)

lemma ema_step_toward: "ema_step period v c = c + (v - c) * (1 - 2 / of_nat (period + 1))"
  unfolding ema_step_def by (simp only: left_diff_distrib right_diff_distrib mult_1_right)

lemma ema_constant: "foldl (ema_step period) v (replicate n c) = c + (v - c) * (1 - 2 / of_nat (period + 1)) ^ n"
  by (induction n arbitrary: v) (simp_all only: replicate.simps foldl.simps ema_step_toward power_0 power_Suc, simp_all)

lemma ema_of_run:
  "0 < a \<Longrightarrow> ema (replicate a 100 @ replicate n 103 @ [100]) period = ema_step period (103 - 3 * (1 - 2 / of_nat (period + 1)) ^ n) 100"
  by (cases a) (simp_all add: ema_constant)

lemma sample_closes: "map close_of sample_candles = replicate 205 100 @ replicate 14 103 @ [100]"
  by (simp add: sample_candles_def map_replicate)

lemma tail_of_run: "15 \<le> k \<Longrightarrow> k \<le> 220 \<Longrightarrow> last_n k (replicate 205 x @ replicate 14 y @ [z]) = replicate (k - 15) x @ replicate 14 y @ [z]"
  by (simp add: last_n_def)

lemma fourteen: "replicate 14 x = [x, x, x, x, x, x, x, x, x, x, x, x, x, x]"
  "replicate 13 x = [x, x, x, x, x, x, x, x, x, x, x, x, x]"
  by (simp_all add: eval_nat_numeral)

lemma sample_rsi: "rsi_of (map close_of sample_candles) 14 = 0"
  unfolding sample_closes rsi_of_def Let_def
  by (simp add: tail_of_run) (simp add: fourteen mean_def)

lemma sample_atr: "average_true_range sample_candles 14 = 17 / 14"
  unfolding average_true_range_def Let_def
  by (simp add: sample_candles_def tail_of_run) (simp add: fourteen mean_def true_range_def)

lemma sample_vwap: "volume_weighted_price sample_candles 50 = 5043 / 50"
  unfolding volume_weighted_price_def Let_def
  by (simp add: sample_candles_def tail_of_run map_replicate sum_list_replicate)

definition sample_ema50 :: num where "sample_ema50 = ema_step 50 (103 - 3 * (49 / 51) ^ 14) 100"
definition sample_ema200 :: num where "sample_ema200 = ema_step 200 (103 - 3 * (199 / 201) ^ 14) 100"

lemma sample_emas:
  "ema (last_n 120 (map close_of sample_candles)) 50 = sample_ema50" "ema (last_n 240 (map close_of sample_candles)) 200 = sample_ema200"
proof -
  have all: "last_n 240 (map close_of sample_candles) = replicate 205 100 @ replicate 14 103 @ [100]"
    by (simp add: last_n_def sample_closes)
  show "ema (last_n 240 (map close_of sample_candles)) 200 = sample_ema200" unfolding all by (simp add: ema_of_run sample_ema200_def)
  show "ema (last_n 120 (map close_of sample_candles)) 50 = sample_ema50"
    unfolding sample_closes by (simp add: tail_of_run ema_of_run sample_ema50_def)
qed

lemma sample_spread: "0 < sample_ema200" "0 < sample_ema50" "101 < sample_ema50" "sample_ema50 \<le> 103"
  "(sample_ema50 - sample_ema200) / sample_ema200 * 100 \<le> 12 / 10" "75 / 100 < (sample_ema50 - sample_ema200) / sample_ema200 * 100"
  by (simp_all add: sample_ema50_def sample_ema200_def ema_step_def power_divide)

definition sample_indicators :: indicators where
  "sample_indicators = \<lparr>id_close = 100, id_ema50 = sample_ema50, id_ema200 = sample_ema200, id_rsi14 = 0, id_atr14 = 17 / 14, id_vwap = 5043 / 50,
     id_atr_pct = 17 / 1400, id_current_volume = 1, id_avg_volume = 1, id_relative_volume = 1\<rparr>"

lemma sample_volumes: "map volume_of sample_candles = replicate 220 1"
  by (rule replicate_eqI) (auto simp: sample_candles_def)

lemma sample_snapshot: "calculate_indicator_snapshot sample_candles = sample_indicators"
  unfolding calculate_indicator_snapshot_def Let_def sample_volumes sample_emas sample_rsi sample_atr sample_vwap length_map sample_length
  by (simp add: sample_indicators_def last_n_replicate mean_def sum_list_replicate last_map) (simp add: sample_candles_def)

section \<open>The selection\<close>

lemma sample_strength: "trend_strength_of sample_candles sample_indicators = ''medium''"
proof -
  have last: "last_n 5 sample_candles = replicate 4 high_candle @ [fall_candle]"
    by (simp add: last_n_def sample_candles_def)
  have "\<not> 12 / 10 < (sample_ema50 - sample_ema200) / sample_ema200 * 100" "1 / 2 < (sample_ema50 - sample_ema200) / sample_ema200 * 100"
    using sample_spread(5,6) by linarith+
  then show ?thesis unfolding trend_strength_of_def Let_def last
    using sample_spread(1,2) by (simp add: sample_indicators_def sample_spread(4) filter_replicate)
qed

lemma round_half_even_numeral [simp]: "round_half_even (numeral k) = numeral k"
  using round_half_even_of_int [of "numeral k"] by simp

definition sample_scores :: component_scores where
  "sample_scores = derive_component_scores sample_candles sample_indicators ''spot_range_reversion_v1''"

lemma sample_reversion: "reversion_scores sample_indicators = (45, 90, 84, 84, 25)"
proof -
  have spread: "\<not> \<bar>(sample_ema50 - sample_ema200) / sample_ema200 * 100\<bar> \<le> 35 / 100" "\<not> \<bar>(sample_ema50 - sample_ema200) / sample_ema200 * 100\<bar> \<le> 75 / 100"
    using sample_spread(6) by linarith+
  have nz: "sample_ema200 \<noteq> 0" using sample_spread(1) by simp
  show ?thesis unfolding reversion_scores_def Let_def sample_indicators_def indicators.simps
    by (simp only: nz if_False spread) simp
qed

lemma sample_scores_values:
  "co_trend_strength sample_scores = ''medium''" "co_trend sample_scores = 45" "co_pullback_score sample_scores = 90" "co_volume sample_scores = 84"
  "co_volatility sample_scores = 84" "co_structure sample_scores = 25" "co_rsi sample_scores = 0" "co_relative_volume sample_scores = 1"
  "co_atr_pct sample_scores = 12143 / 1000000"
proof -
  have scores: "strategy_scores ''spot_range_reversion_v1'' sample_candles sample_indicators a b c d = (45, 90, 84, 84, 25)" for a b c d
    by (simp add: strategy_scores_def sample_reversion)
  have "\<lfloor>(85000 :: num) / 7\<rfloor> = 12142" by (simp add: floor_eq_iff)
  then have "py_round 6 (17 / 1400) = 12143 / 1000000" by (simp add: py_round_def round_half_even_def Let_def)
  then show "co_trend_strength sample_scores = ''medium''" "co_trend sample_scores = 45" "co_pullback_score sample_scores = 90" "co_volume sample_scores = 84"
    "co_volatility sample_scores = 84" "co_structure sample_scores = 25" "co_rsi sample_scores = 0" "co_relative_volume sample_scores = 1"
    "co_atr_pct sample_scores = 12143 / 1000000"
    unfolding sample_scores_def derive_component_scores_def Let_def scores prod.case sample_strength component_scores.simps
    by (simp_all add: sample_indicators_def)
qed

lemma sample_adjusted: "base_and_adjusted_scores sample_scores (resolve_multipliers ''RANGING'') = (679 / 10, 69355 / 1000)"
  by (simp add: base_and_adjusted_scores_def sample_scores_values resolve_multipliers_def REGIME_MULTIPLIERS_def clamp_multiplier_set_def
      clamp_multiplier_def py_round_def)

definition sample_candidate :: spot_candidate where
  "sample_candidate = \<lparr>cn_symbol = ''BTCUSDT'', cn_strategy = ''spot_range_reversion_v1'', cn_status = ''candidate'', cn_reasons = [],
     cn_entry = 100, cn_stop = 99, cn_take = 102, cn_base = 679 / 10, cn_adjusted = 69355 / 1000, cn_hard_pass = True, cn_threshold_pass = True,
     cn_rank = None\<rparr>"

lemma sample_evaluated:
  "evaluate_symbol_candidate ''BTCUSDT'' sample_candles (resolve_multipliers ''RANGING'') [] 55 ''spot_range_reversion_v1'' True = sample_candidate"
proof -
  have hard: "hard_rejections ''BTCUSDT'' [] True sample_scores = []"
    by (simp add: hard_rejections_def sample_scores_values)
  have ready: "setup_rejections ''spot_range_reversion_v1'' sample_candles sample_indicators sample_scores = []"
    by (simp add: setup_rejections_def reversion_rejections_def sample_scores_values) (simp add: sample_indicators_def)
  have close: "id_close sample_indicators = 100" by (simp add: sample_indicators_def)
  have up: "upper ''BTCUSDT'' = ''BTCUSDT''" by code_simp
  show ?thesis unfolding evaluate_symbol_candidate_def Let_def sample_snapshot sample_scores_def [symmetric] hard ready close sample_adjusted up
    by (simp add: sample_candidate_def)
qed

section \<open>The cycle\<close>

definition sample_feed :: "string \<Rightarrow> spot_feed" where
  "sample_feed = (\<lambda>_. \<lparr>sf_candles = sample_candles, sf_end = None\<rparr>)"

definition no_params :: spot_params where
  "no_params = \<lparr>pa_min_score = None, pa_max_positions = None, pa_freeze = None, pa_active = None\<rparr>"

definition spot_sample_market :: spot_market where
  "spot_sample_market = \<lparr>mk_feed = sample_feed, mk_candles = (\<lambda>_. []), mk_price = (\<lambda>_. None), mk_spread = (\<lambda>_. Some 5), mk_latency = 50,
     mk_groups = [], mk_kill_switch = False, mk_day_start = 0,
     mk_control = Some \<lparr>rc_emergency = False, rc_max_spread = 50, rc_max_open_cap = 5, rc_max_leverage_cap = 3\<rparr>, mk_policy = (\<lambda>_. None),
     mk_setting = (\<lambda>_. default_risk_setting), mk_stored = no_params, mk_params = (\<lambda>_. no_params), mk_spot_symbols = [''BTCUSDT''],
     mk_futures_symbols = []\<rparr>"

definition sample_bot :: spot_bot where
  "sample_bot = \<lparr>bt_id = ''b1'', bt_user = Some ''u1'', bt_strategy_type = ''spot_pullback_v1'', bt_market_type = ''spot'', bt_timeframe = ''15m'',
     bt_symbols = [], bt_runs = True\<rparr>"

definition sample_event :: candle_event where
  "sample_event = \<lparr>ev_symbol = ''BTCUSDT'', ev_timeframe = ''15m'', ev_minute = ''202501010015''\<rparr>"

lemma sample_regime: "classify_market_regime (build_market_snapshot sample_feed [''BTCUSDT'']) = ''RANGING''"
proof -
  have "last_n 500 sample_candles = sample_candles" by (simp add: last_n_def)
  then show ?thesis
    by (simp add: classify_market_regime_def build_market_snapshot_def sample_feed_def Let_def share_of_def snapshot_row_of_def sample_snapshot)
      (simp add: sample_indicators_def)
qed

lemma sample_cycle:
  "sl_selected (run_dynamic_selection_cycle sample_feed None DEFAULT_STRATEGY_CONFIG [''BTCUSDT''] [] 3) = [sample_candidate\<lparr>cn_rank := Some 1\<rparr>]"
proof -
  have sym: "sorted_set (map upper (filter (\<lambda>s. s \<noteq> []) [''BTCUSDT''])) = [''BTCUSDT'']" by code_simp
  have all: "last_n 500 sample_candles = sample_candles" by (simp add: last_n_def)
  have rg: "rg_active (update_market_regime_state None ''RANGING'' marker) = ''RANGING''" for marker
    by (simp add: update_market_regime_state_def regime_step_def)
  have st: "strategy_of_regime ''RANGING'' = ''spot_range_reversion_v1''" by (simp add: strategy_of_regime_def REGIME_STRATEGY_MAP_def)
  have cf: "sc_min_score DEFAULT_STRATEGY_CONFIG = 55" "''spot_range_reversion_v1'' \<in> set (sc_active DEFAULT_STRATEGY_CONFIG)"
    by (simp_all add: DEFAULT_STRATEGY_CONFIG_def)
  show ?thesis unfolding run_dynamic_selection_cycle_def Let_def selection.simps sym sample_regime rg st
    using cf(2) by (simp add: sample_feed_def all cf(1) sample_evaluated executable_def rank_order_def number_ranks_def)
      (simp add: sample_candidate_def)
qed

definition spot_sample_signal :: spot_signal where
  "spot_sample_signal = signal_of_candidate (sample_candidate\<lparr>cn_rank := Some 1\<rparr>)"

lemma sample_risk:
  "evaluate_spot_strategy_risk (\<lambda>x. x) (risk_world_of spot_sample_market) default_risk_setting \<lparr>bk_positions = [], bk_ledger = []\<rparr> [] ''u1'' spot_sample_signal 100 =
     (\<lparr>rd_approved = True, rd_size = 35, rd_leverage = 1, rd_stop = 99, rd_take = 102,
       rd_tags = [''approved'', ''spot_strategy_1pct_risk'', ''position_control_3x1''], rd_equity = 10000, rd_trade_allocation = 3500,
       rd_risk_amount = 100, rd_strategy_drawdown = 0, rd_portfolio_drawdown = 0, rd_open_risk = 0\<rparr>, [])"
  by code_simp

definition sample_world :: spot_world where
  "sample_world = orchestrate (\<lambda>x. x) spot_sample_market [sample_bot] sample_event empty_world"

definition spot_sample_position :: paper_position where
  "spot_sample_position = \<lparr>pp_id = ''0'', pp_user_id = ''u1'', pp_symbol = ''BTCUSDT'', pp_market_type = ''spot'', pp_side = ''long'', pp_quantity = 35,
     pp_leverage = 1, pp_entry_price = 100, pp_stop_loss = 99, pp_take_profit = 102, pp_status = ''open'', pp_unrealized_pnl = 0,
     pp_realized_pnl = 0, pp_closed_at = None\<rparr>"

definition sample_book :: spot_book where
  "sample_book = \<lparr>bk_positions = [spot_sample_position], bk_ledger = [\<lparr>sv_position = ''0'', sv_type = ''trade_open'',
      sv_strategy = Some ''spot_range_reversion_v1'', sv_reason = '''', sv_price = Some 100, sv_pnl = 0\<rparr>]\<rparr>"

lemma sample_selection: "sl_selected (spot_selection spot_sample_market sample_bot ''u1'' empty_world) = [sample_candidate\<lparr>cn_rank := Some 1\<rparr>]"
proof -
  have "get_spot_strategy_config no_params no_params = DEFAULT_STRATEGY_CONFIG"
    by (simp add: get_spot_strategy_config_def overlay_config_def no_params_def)
  moreover have "map upper [''BTCUSDT''] = [''BTCUSDT'']" by code_simp
  ultimately show ?thesis using sample_cycle
    by (simp add: spot_selection_def spot_sample_market_def empty_world_def open_spot_positions_def open_of_user_def Let_def no_params_def)
qed

lemma sample_execution:
  "open_paper_position ''0'' (open_request_of sample_bot ''u1'' spot_sample_signal 100 rd) (policy_row ''spot_range_reversion_v1'' ''balanced'' ''limit_first'' 10 ''market_fallback'' 55 1)
     \<lparr>ec_spread_bps = 5, ec_latency_ms = 50, ec_forced = None, ec_partial_ratio = None\<rparr> bk =
   (\<lparr>xr_position = Some (position_opened ''0'' (open_request_of sample_bot ''u1'' spot_sample_signal 100 rd)), xr_state = ''filled'',
     xr_path = [''created'', ''submitted'', ''acknowledged'', ''partially_filled'', ''retry_1_submitted'', ''fallback_submitted'', ''filled'']\<rparr>,
    add_position ''0'' (open_request_of sample_bot ''u1'' spot_sample_signal 100 rd) bk)"
proof -
  have one: "retries (min (nat 1) (Suc 0)) = [''retry_1_submitted'']" by code_simp
  show ?thesis
    by (simp add: open_paper_position_def build_state_path_def policy_row_def falls_back_def add_position_def Let_def one [simplified])
qed

lemma sample_opens:
  "sw_book (process_candidate (\<lambda>x. x) spot_sample_market sample_bot ''u1'' (sample_candidate\<lparr>cn_rank := Some 1\<rparr>)
     (empty_world\<lparr>sw_keys := keys, sw_regime := regime\<rparr>)) = sample_book"
proof -
  have strategy: "sg_strategy spot_sample_signal \<in> set SPOT_STRATEGY_TYPES"
    by (simp add: spot_sample_signal_def signal_of_candidate_def sample_candidate_def SPOT_STRATEGY_TYPES_def)
  have market: "(mk_control spot_sample_market = None) = False" "mk_setting spot_sample_market u = default_risk_setting" "mk_price spot_sample_market s = None"
    "spread_of spot_sample_market s = 5" "mk_latency spot_sample_market = 50" for s u
    by (simp_all add: spot_sample_market_def spread_of_def)
  have cn: "cn_entry (sample_candidate\<lparr>cn_rank := Some 1\<rparr>) = 100" "cn_strategy (sample_candidate\<lparr>cn_rank := Some 1\<rparr>) = ''spot_range_reversion_v1''"
    by (simp_all add: sample_candidate_def)
  have zero: "nat_str 0 = ''0''" by code_simp
  have world: "sw_book (empty_world\<lparr>sw_keys := keys, sw_regime := regime\<rparr>) = \<lparr>bk_positions = [], bk_ledger = []\<rparr>"
    "sw_disabled (empty_world\<lparr>sw_keys := keys, sw_regime := regime\<rparr>) = []"
    "sw_policies (empty_world\<lparr>sw_keys := keys, sw_regime := regime, sw_disabled := d\<rparr>) = []"
    "nat_str (sw_next (empty_world\<lparr>sw_keys := keys, sw_regime := regime, sw_disabled := d\<rparr>)) = ''0''"
    "sw_book (empty_world\<lparr>sw_keys := keys, sw_regime := regime, sw_disabled := d\<rparr>) = \<lparr>bk_positions = [], bk_ledger = []\<rparr>" for d
    by (simp_all add: empty_world_def zero)
  have policy: "get_policy_for_strategy [] ''spot_range_reversion_v1'' =
      (policy_row ''spot_range_reversion_v1'' ''balanced'' ''limit_first'' 10 ''market_fallback'' 55 1,
       [policy_row ''spot_range_reversion_v1'' ''balanced'' ''limit_first'' 10 ''market_fallback'' 55 1])"
    by (simp add: get_policy_for_strategy_def DEFAULT_POLICY_MAP_def policy_row_def Let_def)
  show ?thesis
    unfolding process_candidate_def Let_def spot_sample_signal_def [symmetric] evaluate_risk_pipeline_def world market get_or_simps cn
    by (simp add: strategy sample_risk policy sample_execution world)
      (simp add: sample_book_def spot_sample_position_def add_position_def position_opened_def opening_event_def open_request_of_def sample_bot_def
        spot_sample_signal_def signal_of_candidate_def sample_candidate_def)
qed

lemma sample_world_book: "sw_book sample_world = sample_book"
proof -
  have accepts: "bot_accepts spot_sample_market sample_event sample_bot" by code_simp
  have "sample_world = process_spot_selection (\<lambda>x. x) spot_sample_market sample_bot ''u1'' sample_event empty_world"
    using accepts by (simp add: sample_world_def orchestrate_def process_bot_def) (simp add: spot_sample_market_def sample_bot_def sample_event_def)
  also have "\<dots> = process_candidate (\<lambda>x. x) spot_sample_market sample_bot ''u1'' (sample_candidate\<lparr>cn_rank := Some 1\<rparr>)
      (empty_world\<lparr>sw_keys := cycle_key sample_bot sample_event # sw_keys empty_world,
         sw_regime := Some (sl_regime (spot_selection spot_sample_market sample_bot ''u1'' empty_world))\<rparr>)"
    unfolding process_spot_selection_def Let_def sample_selection by (simp add: sample_event_def empty_world_def)
  finally show ?thesis using sample_opens by (rule arg_cong [where f = sw_book, THEN trans])
qed

lemma spot_sample_reachable: "spot_reachable (\<lambda>x. x) sample_world"
  unfolding spot_reachable_def sample_world_def by (rule r_into_rtranclp) (rule spot_step.Candle)

section \<open>The properties at the sample\<close>

theorem spot_limits_always_hold_witness:
  "length (open_of_user ''u1'' (bk_positions (sw_book sample_world))) \<le> 3 \<and>
     distinct (map (\<lambda>p. upper (pp_symbol p)) (open_of_user ''u1'' (bk_positions (sw_book sample_world)))) \<and>
     length (open_by_strategy (sw_book sample_world) ''u1'' ''spot_range_reversion_v1'') \<le> 2 \<and>
     list_all (\<lambda>p. pp_side p = ''long'' \<and> pp_leverage p = 1) (open_of_user ''u1'' (bk_positions (sw_book sample_world))) \<and>
     bk_positions (sw_book sample_world) = [spot_sample_position]"
  using spot_limits_always_hold [OF spot_sample_reachable, of "''u1''" "''spot_range_reversion_v1''"] by (simp add: sample_world_book sample_book_def)

theorem cycle_runs_once_witness:
  "process_spot_selection (\<lambda>x. x) spot_sample_market sample_bot ''u1'' (sample_event\<lparr>ev_symbol := ''ETHUSDT''\<rparr>)
      (process_spot_selection (\<lambda>x. x) spot_sample_market sample_bot ''u1'' sample_event empty_world) =
     process_spot_selection (\<lambda>x. x) spot_sample_market sample_bot ''u1'' sample_event empty_world \<and>
   cycle_key sample_bot (sample_event\<lparr>ev_minute := ''202501010030''\<rparr>) \<notin>
     set (sw_keys (process_spot_selection (\<lambda>x. x) spot_sample_market sample_bot ''u1'' sample_event empty_world))"
  using cycle_runs_once [of sample_event "sample_event\<lparr>ev_symbol := ''ETHUSDT''\<rparr>" sample_bot sample_bot "\<lambda>x. x" spot_sample_market "''u1''"
      spot_sample_market "''u1''" empty_world "sample_event\<lparr>ev_minute := ''202501010030''\<rparr>" sample_bot]
  by (simp add: sample_event_def empty_world_def)

lemma sample_entry: "sg_entry spot_sample_signal = 100"
  by (simp add: spot_sample_signal_def signal_of_candidate_def sample_candidate_def)

theorem approved_spot_trade_within_limits_witness:
  "case evaluate_spot_strategy_risk (\<lambda>x. x) (risk_world_of spot_sample_market) default_risk_setting \<lparr>bk_positions = [], bk_ledger = []\<rparr> [] ''u1''
       spot_sample_signal 100 of (rd, _) \<Rightarrow>
     rd_size rd = 35 \<and> rd_leverage rd = 1 \<and> rd_size rd * \<bar>100 - rd_stop rd\<bar> \<le> rd_equity rd / 100 + \<bar>100 - rd_stop rd\<bar> * (201 / 2000000)"
  using approved_spot_trade_within_limits [OF sample_risk] by (simp add: sample_risk sample_entry)

theorem open_risk_stays_bounded_witness:
  "compute_open_risk_pct 10000 [spot_sample_position] \<le> 3 + \<bar>100 - 99\<bar> / 10000 * (201 / 20000)"
  using open_risk_stays_bounded [OF sample_risk, of spot_sample_position]
  by (simp add: spot_sample_signal_def signal_of_candidate_def sample_candidate_def open_of_user_def spot_sample_position_def)

definition small_account :: risk_setting where
  "small_account = default_risk_setting\<lparr>us_base_capital := 5000\<rparr>"

definition closed_book :: spot_book where
  "closed_book = \<lparr>bk_positions = [spot_sample_position\<lparr>pp_status := ''tp_hit'', pp_realized_pnl := 70, pp_closed_at := Some 1\<rparr>], bk_ledger = []\<rparr>"

theorem small_account_never_approved_witness:
  "\<not> rd_approved (fst (evaluate_spot_strategy_risk (\<lambda>x. x) (risk_world_of spot_sample_market) small_account closed_book [] ''u1'' spot_sample_signal 100))"
  by (rule small_account_never_approved)
    (simp_all add: equity_of_def closed_pnl_def closed_of_user_def closed_book_def small_account_def default_risk_setting_def spot_sample_position_def)

definition micro_position :: paper_position where
  "micro_position = spot_sample_position\<lparr>pp_entry_price := 12 / 1000000, pp_stop_loss := py_round 6 (12 / 1000000 * (99 / 100))\<rparr>"

theorem micro_price_stops_out_witness:
  "pp_status (refresh_position 5 (\<lambda>_. Some (12 / 1000000)) micro_position) = ''stop_hit'' \<and>
   pp_realized_pnl (refresh_position 5 (\<lambda>_. Some (12 / 1000000)) micro_position) = 0"
proof -
  have "on_grid 6 (12 / 1000000)" by (simp add: on_grid_def)
  then show ?thesis by (rule micro_price_stops_out) (simp_all add: micro_position_def spot_sample_position_def)
qed

theorem disabled_strategy_stays_out_witness:
  "''spot_range_reversion_v1'' \<in> set (sw_disabled (orchestrate (\<lambda>x. x) spot_sample_market [sample_bot] sample_event
       (empty_world\<lparr>sw_disabled := [''spot_range_reversion_v1'']\<rparr>))) \<and>
   opened_by ''spot_range_reversion_v1'' (orchestrate (\<lambda>x. x) spot_sample_market [sample_bot] sample_event
       (empty_world\<lparr>sw_disabled := [''spot_range_reversion_v1'']\<rparr>)) = []"
proof -
  have run: "(spot_step (\<lambda>x. x))\<^sup>*\<^sup>* (empty_world\<lparr>sw_disabled := [''spot_range_reversion_v1'']\<rparr>)
      (orchestrate (\<lambda>x. x) spot_sample_market [sample_bot] sample_event (empty_world\<lparr>sw_disabled := [''spot_range_reversion_v1'']\<rparr>))"
    by (rule r_into_rtranclp) (rule spot_step.Candle)
  have "opened_by ''spot_range_reversion_v1'' (empty_world\<lparr>sw_disabled := [''spot_range_reversion_v1'']\<rparr>) = []"
    by (simp add: opened_by_def empty_world_def)
  then show ?thesis using disabled_strategy_stays_out [OF run, of "''spot_range_reversion_v1''"] by simp
qed

end
