(* ===== verification/Intent_Lifecycle.thy ===== *)
theory Intent_Lifecycle
  imports Status_Machine Position_Actions
begin

text \<open>
  The life of an execution intent, \<open>src/backend/services/execution_intent_service.py\<close>: the table
  \<open>EXECUTION_INTENT_ALLOWED_TRANSITIONS\<close>, the transition that checks it and keeps the state
  history, submission by the user, approval, execution, rejection, retry, cancellation and
  editing by an administrator, and the automatic release. The services the handlers consult
  (commercial controls, guards, the pipeline, the order precheck, exchange readiness) and the
  hash that versions an intent are arguments; a guard that raises is an optional error.
\<close>

section \<open>The status table\<close>

definition EXECUTION_INTENT_ALLOWED_TRANSITIONS :: "(string \<times> string list) list" where
  "EXECUTION_INTENT_ALLOWED_TRANSITIONS =
    [(''PREVIEWED'', [''QUEUED'', ''REJECTED'', ''CANCELLED'']),
     (''SUBMITTED'', [''QUEUED'', ''REJECTED'', ''CANCELLED'']),
     (''QUEUED'', [''APPROVED'', ''REJECTED'', ''CANCELLED'']),
     (''APPROVED'', [''RELEASED'', ''CANCELLED'']),
     (''REJECTED'', [''QUEUED'', ''CANCELLED'']),
     (''RELEASED'', []),
     (''CANCELLED'', [])]"

definition intent_successors :: "string \<Rightarrow> string list" where
  "intent_successors st = get_or (map_of EXECUTION_INTENT_ALLOWED_TRANSITIONS st) []"

definition is_final_status :: "string \<Rightarrow> bool" where
  "is_final_status st \<longleftrightarrow> st \<in> set [''RELEASED'', ''CANCELLED'']"

definition is_intent_status :: "string \<Rightarrow> bool" where
  "is_intent_status st \<longleftrightarrow> st \<in> fst ` set EXECUTION_INTENT_ALLOWED_TRANSITIONS"

lemma intent_table_checked:
  "list_all (\<lambda>(st, succs). (st \<in> set [''RELEASED'', ''CANCELLED''] \<longrightarrow> succs = [])
      \<and> list_all (\<lambda>t. t \<in> set (map fst EXECUTION_INTENT_ALLOWED_TRANSITIONS)) succs
      \<and> (st \<notin> set [''RELEASED'', ''CANCELLED''] \<longrightarrow> list_ex (\<lambda>t. t \<in> set [''RELEASED'', ''CANCELLED'']) succs))
    EXECUTION_INTENT_ALLOWED_TRANSITIONS"
  by code_simp

lemma intent_successors_cases:
  obtains "intent_successors st = []" "\<not> is_intent_status st"
  | "(st, intent_successors st) \<in> set EXECUTION_INTENT_ALLOWED_TRANSITIONS" "is_intent_status st"
proof (cases "map_of EXECUTION_INTENT_ALLOWED_TRANSITIONS st")
  case None
  then have "intent_successors st = []" by (simp add: intent_successors_def)
  moreover have "\<not> is_intent_status st"
    using None by (simp add: is_intent_status_def map_of_eq_None_iff)
  ultimately show ?thesis by (rule that(1))
next
  case (Some succs)
  then have "(st, succs) \<in> set EXECUTION_INTENT_ALLOWED_TRANSITIONS" by (rule map_of_SomeD)
  with Some show ?thesis
    using that(2) by (force simp: intent_successors_def is_intent_status_def)
qed

lemma intent_successors_checked:
  "is_final_status st \<Longrightarrow> intent_successors st = []"
  "t \<in> set (intent_successors st) \<Longrightarrow> is_intent_status t"
  "is_intent_status st \<Longrightarrow> \<not> is_final_status st \<Longrightarrow> \<exists>t \<in> set (intent_successors st). is_final_status t"
  by (cases st rule: intent_successors_cases;
      use intent_table_checked in \<open>fastforce simp: list_all_iff list_ex_iff is_final_status_def is_intent_status_def\<close>)+

interpretation intent_statuses: status_table intent_successors is_intent_status is_final_status
proof
  show "\<not> is_intent_status st \<Longrightarrow> intent_successors st = []" for st
    by (cases st rule: intent_successors_cases) simp_all
qed (auto dest: intent_successors_checked)

section \<open>Transitions and risk\<close>

definition in_state :: "intent \<Rightarrow> string" where
  "in_state it = upper (in_status it)"

definition append_state_log ::
  "timestamp \<Rightarrow> string \<Rightarrow> string \<Rightarrow> string option \<Rightarrow> string \<Rightarrow> intent \<Rightarrow> intent" where
  "append_state_log now from_st to_st actor reason it =
     (let np = in_payload it; gate = np_gate np;
          history = dg_state_history gate @ [\<lparr>sl_at = now, sl_from_status = from_st, sl_to_status = to_st,
            sl_actor_id = actor, sl_reason = reason\<rparr>]
      in it\<lparr>in_payload := np\<lparr>np_gate := gate\<lparr>dg_state_history := drop (length history - 120) history\<rparr>\<rparr>\<rparr>)"

definition transition_intent ::
  "timestamp \<Rightarrow> string \<Rightarrow> string option \<Rightarrow> string \<Rightarrow> intent \<Rightarrow> string + intent" where
  "transition_intent now target_status actor reason it =
     (let current = in_state it; target = upper target_status in
      if current = target
      then Inr (append_state_log now current target actor (reason @ '':idempotent'') it)
      else if target \<notin> set (intent_successors current)
      then Inl (''invalid_state_transition:'' @ current @ ''->'' @ target)
      else Inr (append_state_log now current target actor reason (it\<lparr>in_status := target\<rparr>)))"

definition HIGH_RISK_THRESHOLD :: num where "HIGH_RISK_THRESHOLD = 70"
definition MEDIUM_RISK_THRESHOLD :: num where "MEDIUM_RISK_THRESHOLD = 35"

definition is_high_risk_intent :: "intent \<Rightarrow> bool" where
  "is_high_risk_intent it \<longleftrightarrow> HIGH_RISK_THRESHOLD \<le> in_risk_score it \<or>
     list_ex (\<lambda>f. contains ''critical'' (lower f) \<or> contains ''high'' (lower f) \<or> contains ''override'' (lower f))
       (in_risk_flags it)"

definition risk_severity :: "intent \<Rightarrow> string" where
  "risk_severity it =
     (if is_high_risk_intent it then ''high''
      else if MEDIUM_RISK_THRESHOLD \<le> in_risk_score it then ''med'' else ''low'')"

record risk_item =
  ri_code :: string
  ri_value :: num
  ri_severity :: string

text \<open>\<open>build_intent_risk_payload\<close>: the breakdown; labels and explanations are not modelled.\<close>

definition risk_breakdown :: "intent \<Rightarrow> risk_item list" where
  "risk_breakdown it =
     (if 0 < in_risk_score it
      then [\<lparr>ri_code = ''risk_score'', ri_value = py_round 2 (in_risk_score it), ri_severity = risk_severity it\<rparr>]
      else [])
     @ map (\<lambda>f. \<lparr>ri_code = f, ri_value = 1,
          ri_severity = (if contains ''critical'' (lower f) \<or> contains ''override'' (lower f) then ''high'' else ''med'')\<rparr>)
         (take 8 (in_risk_flags it))
     @ map (\<lambda>r. \<lparr>ri_code = r, ri_value = 1, ri_severity = ''med''\<rparr>) (take 8 (in_reject_reason_codes it))"

definition resolve_intent_operational_status :: "timestamp \<Rightarrow> intent \<Rightarrow> string" where
  "resolve_intent_operational_status now it =
     (if in_state it = ''REJECTED'' then ''retryable''
      else if in_state it = ''CANCELLED'' then ''failed''
      else if in_state it = ''QUEUED''
      then (if 300 * 1000 \<le> now - in_created_at it then ''locked'' else ''retryable'')
      else ''locked'')"

text \<open>\<open>sorted(set([*old, *new]))\<close> on reason codes and flags.\<close>

definition add_codes :: "string list \<Rightarrow> string list \<Rightarrow> string list" where
  "add_codes new old = sorted_set (old @ new)"

definition add_flag :: "string \<Rightarrow> string list \<Rightarrow> string list" where
  "add_flag f fs = (if f \<in> set fs then fs else fs @ [f])"

section \<open>What other services say\<close>

record order_precheck =
  op_valid :: bool
  op_adjusted_size :: "num option"
  op_violation_codes :: "string list"

record pipeline_result =
  pr_enforced_action :: "string option"
  pr_rejected :: bool
  pr_reject_code :: "string option"

record exchange_readiness =
  er_is_ready :: bool
  er_reason_code :: "string option"
  er_available_balance :: "num option"
  er_wallet_balance :: "num option"

record exchange_connection =
  xc_id :: string
  xc_user_id :: string
  xc_market_type :: string
  xc_is_default :: bool
  xc_updated_at :: timestamp

record intent_env =
  ie_now :: timestamp
  ie_market :: market_env
  ie_fast_mode :: bool
  ie_auto_release :: bool
  ie_detail_version :: "intent \<Rightarrow> string"
  ie_connections :: "exchange_connection list"
  ie_readiness :: "string \<Rightarrow> string \<Rightarrow> string \<Rightarrow> exchange_readiness"
  ie_pipeline :: "intent \<Rightarrow> pipeline_result"
  ie_commercial_control :: "string \<Rightarrow> intent \<Rightarrow> string option"
  ie_execution_guard :: "intent \<Rightarrow> string option"
  ie_open_allowed :: "intent \<Rightarrow> string option"
  ie_order_precheck :: "intent \<Rightarrow> num \<Rightarrow> num \<Rightarrow> order_precheck"

text \<open>\<open>str(value or default).strip().lower() in {"1", "true", "yes"}\<close>.\<close>

definition env_flag :: "string \<Rightarrow> string option \<Rightarrow> bool" where
  "env_flag dflt v = (lower (strip (str_or v dflt)) \<in> set [''1'', ''true'', ''yes''])"

definition execution_fast_mode :: "string option \<Rightarrow> string option \<Rightarrow> bool" where
  "execution_fast_mode canary_mode preview_fast_mode =
     env_flag (if env_flag ''false'' canary_mode then ''1'' else ''0'') preview_fast_mode"

definition auto_live_release_enabled :: "string option \<Rightarrow> bool" where
  "auto_live_release_enabled v = env_flag ''1'' v"

definition failure_code_mapping :: "(string \<times> string) list" where
  "failure_code_mapping =
    [(''min_notional_violation'', ''MIN_NOTIONAL_NOT_MET''), (''min_notional_not_met'', ''MIN_NOTIONAL_NOT_MET''),
     (''min_order_size_violation'', ''MIN_QTY_NOT_MET''), (''min_qty_not_met'', ''MIN_QTY_NOT_MET''),
     (''insufficient_balance'', ''INSUFFICIENT_BALANCE''), (''leverage_limit_exceeded'', ''LEVERAGE_MARGIN_MISMATCH''),
     (''margin_mode_invalid'', ''LEVERAGE_MARGIN_MISMATCH''), (''margin_mode_invalid_for_spot'', ''LEVERAGE_MARGIN_MISMATCH''),
     (''market_type_not_allowed'', ''MARKET_TYPE_NOT_ALLOWED''), (''symbol_not_allowed'', ''SYMBOL_NOT_ALLOWED''),
     (''exchange_not_ready'', ''EXCHANGE_NOT_READY'')]"

definition first_precheck_failure_code :: "order_precheck \<Rightarrow> string" where
  "first_precheck_failure_code pc =
     (let raw = (case op_violation_codes pc of [] \<Rightarrow> [] | c # _ \<Rightarrow> lower (strip c)) in
      get_or (map_of failure_code_mapping raw) (if raw = [] then ''ORDER_PRECHECK_FAILED'' else upper raw))"

text \<open>Default connections first, then the most recently updated.\<close>

definition best_connection :: "(exchange_connection \<Rightarrow> bool) \<Rightarrow> exchange_connection list \<Rightarrow> exchange_connection option" where
  "best_connection P cs =
     List.find P (sort_key (\<lambda>c. (if xc_is_default c then 0 else 1 :: int)) (sort_key (\<lambda>c. - xc_updated_at c) cs))"

definition resolve_execution_connection ::
  "exchange_connection list \<Rightarrow> string \<Rightarrow> string \<Rightarrow> string \<Rightarrow> exchange_connection option" where
  "resolve_execution_connection cs user market_type wanted =
     (let direct = (if wanted = [] then None
            else List.find (\<lambda>c. xc_id c = wanted \<and> xc_user_id c = user) cs);
          scoped = best_connection (\<lambda>c. xc_user_id c = user \<and> xc_market_type c = strip (lower market_type)) cs
      in case direct of Some c \<Rightarrow> Some c
         | None \<Rightarrow> (case scoped of Some c \<Rightarrow> Some c | None \<Rightarrow> best_connection (\<lambda>c. xc_user_id c = user) cs))"

definition ensure_fresh_wallet_snapshot :: "intent_env \<Rightarrow> string \<Rightarrow> intent \<Rightarrow> wallet_refresh" where
  "ensure_fresh_wallet_snapshot env user it =
     (case resolve_execution_connection (ie_connections env) user (str_or (Some (in_market_type it)) ''spot'')
             (str_or (np_exchange_connection_id (in_payload it)) []) of
        None \<Rightarrow> \<lparr>wr_ok = False, wr_reason_code = Some ''wallet_refresh_failed'', wr_available_balance = None,
          wr_wallet_balance = None, wr_connection_id = None\<rparr>
      | Some c \<Rightarrow>
          let r = ie_readiness env (xc_id c) (str_or (Some (in_market_type it)) ''spot'') (in_symbol it);
              available = get_or (er_available_balance r) 0; wallet = get_or (er_wallet_balance r) 0;
              answer = (\<lambda>ok reason. \<lparr>wr_ok = ok, wr_reason_code = reason, wr_available_balance = Some available,
                wr_wallet_balance = Some wallet, wr_connection_id = Some (xc_id c)\<rparr>)
          in if \<not> er_is_ready r then answer False (Some (str_or (er_reason_code r) ''wallet_refresh_failed''))
             else if available \<le> 0 \<and> wallet \<le> 0 then answer False (Some ''wallet_snapshot_unavailable'')
             else answer True None)"

text \<open>The commercial operation an intent needs, if any.\<close>

definition commercial_operation :: "bool \<Rightarrow> intent \<Rightarrow> string option" where
  "commercial_operation skip_open it =
     (if in_type it = ''OPEN_POSITION'' \<and> \<not> skip_open then Some ''trade_intent''
      else if in_type it = ''REVERSE_POSITION'' \<or> (in_type it \<in> set POSITION_ACTION_TYPES \<and> \<not> in_reduce_only it)
      then Some ''position_increase'' else None)"

definition commercial_error :: "intent_env \<Rightarrow> bool \<Rightarrow> intent \<Rightarrow> string option" where
  "commercial_error env skip_open it =
     (case commercial_operation skip_open it of None \<Rightarrow> None | Some p \<Rightarrow> ie_commercial_control env p it)"

section \<open>Rejection inside a handler\<close>

text \<open>
  Submission and approval reject an intent in the same way: codes and flags are added, the
  transition to \<open>REJECTED\<close> is made and committed, and the handler raises.
\<close>

definition reject_and_raise ::
  "timestamp \<Rightarrow> string \<Rightarrow> string list \<Rightarrow> string list \<Rightarrow> string \<Rightarrow> string \<Rightarrow> intent \<Rightarrow> intent_store \<Rightarrow>
     (string + intent) \<times> intent_store" where
  "reject_and_raise now actor codes flags reason raised it s =
     (let marked = it\<lparr>in_reject_reason_codes := add_codes codes (in_reject_reason_codes it),
                      in_risk_flags := (if flags = [] then in_risk_flags it else add_codes flags (in_risk_flags it))\<rparr>
      in case transition_intent now ''REJECTED'' (Some actor) reason marked of
           Inl e \<Rightarrow> (Inl e, save_intent marked s)
         | Inr rejected \<Rightarrow> (Inl raised, save_intent (rejected\<lparr>in_updated_at := now\<rparr>) s))"

definition with_wallet :: "wallet_refresh \<Rightarrow> intent \<Rightarrow> intent" where
  "with_wallet wr it = it\<lparr>in_payload := (in_payload it)\<lparr>np_wallet_refresh := Some wr\<rparr>\<rparr>"

text \<open>The price the precheck is given, and what it does to size and notional.\<close>

definition precheck_price :: "intent \<Rightarrow> num" where
  "precheck_price it =
     (let price = get_or (in_price it) 0 in
      if price \<le> 0 \<and> 0 < in_notional it \<and> 0 < in_size it then in_notional it / in_size it else price)"

definition after_precheck :: "order_precheck \<Rightarrow> intent \<Rightarrow> intent" where
  "after_precheck pc it =
     (let price = precheck_price it; size0 = in_size it; adjusted = num_or (op_adjusted_size pc) size0;
          it1 = it\<lparr>in_payload := (in_payload it)\<lparr>np_precheck_valid := Some (op_valid pc)\<rparr>\<rparr>
      in if 0 < adjusted \<and> adjusted < size0
         then it1\<lparr>in_size := adjusted,
                  in_notional := (if 0 < price then py_round 8 (adjusted * price)
                    else if 0 < in_notional it then py_round 8 (in_notional it * (adjusted / max size0 (1 / 10 ^ 6)))
                    else in_notional it)\<rparr>
         else it1)"

definition reject_precheck ::
  "timestamp \<Rightarrow> string \<Rightarrow> order_precheck \<Rightarrow> intent \<Rightarrow> intent_store \<Rightarrow> (string + intent) \<times> intent_store" where
  "reject_precheck now actor pc it s =
     (let code = first_precheck_failure_code pc;
          it1 = it\<lparr>in_payload := (in_payload it)\<lparr>np_first_precheck_failure_code := Some code\<rparr>\<rparr>
      in reject_and_raise now actor [''ORDER_PRECHECK_FAILED'', code]
           [''order_precheck_failed:'' @ lower code, ''precheck_blocked'']
           (''order_precheck_failed:'' @ lower code) (''order_validation_failed:'' @ code) it1 s)"

end
