(* ===== verification/Intent_Handlers.thy ===== *)
theory Intent_Handlers
  imports Intent_Lifecycle
begin

text \<open>
  The handlers of \<open>src/backend/services/execution_intent_service.py\<close> that move an intent through
  its statuses. Each returns the intent or the error it raises, and the store it leaves; what an
  object of the session was assigned before an error stays. The capital rebalancing that
  submission triggers writes tables of its own and is not modelled; the check that the detail
  payload has its parts can never fail, because the parts are literals of the function that
  builds it.
\<close>

section \<open>Approval\<close>

definition approval_error ::
  "intent_env \<Rightarrow> string \<Rightarrow> string option \<Rightarrow> bool \<Rightarrow> intent \<Rightarrow> string option" where
  "approval_error env note version read_ack it =
     (let current = ie_detail_version env it;
          given = str_or version (if ie_fast_mode env then current else [])
      in if in_state it \<noteq> ''QUEUED'' then Some ''intent_not_in_queue''
         else if length (strip note) < 3 then Some ''decision_reason_required''
         else if \<not> read_ack \<and> \<not> ie_fast_mode env then Some ''intent_detail_read_ack_required''
         else if given \<noteq> [] \<and> given \<noteq> current then Some ''stale_intent_detail_version''
         else commercial_error env False it)"

definition granted ::
  "timestamp \<Rightarrow> string \<Rightarrow> string \<Rightarrow> string \<Rightarrow> bool \<Rightarrow> bool \<Rightarrow> bool \<Rightarrow> intent \<Rightarrow> intent" where
  "granted now admin note version read_ack double_confirmation override it =
     (let np = in_payload it;
          gate = (np_gate np)\<lparr>dg_detail_version := Some version, dg_read_acknowledged := read_ack,
            dg_double_confirmation := double_confirmation, dg_override_execute := override,
            dg_approved_by := Some admin, dg_approved_at := Some now\<rparr>
      in it\<lparr>in_payload := np\<lparr>np_gate := gate\<rparr>,
            in_risk_flags := (if override then add_flag ''execution_override_applied'' (in_risk_flags it)
              else in_risk_flags it),
            in_admin_user_id := Some admin, in_admin_note := strip note, in_approved_at := Some now\<rparr>)"

definition grant_approval ::
  "intent_env \<Rightarrow> string \<Rightarrow> string \<Rightarrow> string \<Rightarrow> bool \<Rightarrow> bool \<Rightarrow> bool \<Rightarrow> intent \<Rightarrow> intent_store \<Rightarrow>
     (string + intent) \<times> intent_store" where
  "grant_approval env admin note version read_ack double_confirmation override it s =
     (let now = ie_now env; g = granted now admin note version read_ack double_confirmation override it
      in case transition_intent now ''APPROVED'' (Some admin) ''execution_approval_granted'' g of
           Inl e \<Rightarrow> (Inl e, save_intent g s)
         | Inr approved \<Rightarrow>
             let final = approved\<lparr>in_updated_at := now\<rparr>
             in (Inr final, record_decision_trace ''execution_admin_approval'' (in_id it) ''APPROVED''
                   [''execution_intent_approved''] (save_intent final s)))"

text \<open>The checks of an opening that is neither overridden nor in fast mode.\<close>

definition approve_opening ::
  "intent_env \<Rightarrow> string \<Rightarrow> (intent \<Rightarrow> intent_store \<Rightarrow> (string + intent) \<times> intent_store) \<Rightarrow> intent \<Rightarrow>
     intent_store \<Rightarrow> (string + intent) \<times> intent_store" where
  "approve_opening env admin grant it s =
     (case ie_execution_guard env it of Some e \<Rightarrow> (Inl e, s)
      | None \<Rightarrow> (case ie_open_allowed env it of Some e \<Rightarrow> (Inl e, s)
        | None \<Rightarrow>
            let wr = ensure_fresh_wallet_snapshot env (in_user_id it) it;
                it1 = with_wallet wr it
            in if \<not> wr_ok wr
               then let code = str_or (wr_reason_code wr) ''wallet_refresh_failed'' in
                 reject_and_raise (ie_now env) admin [code] [''wallet_refresh_required'']
                   (''wallet_refresh_failed:'' @ code) (''wallet_refresh_failed:'' @ code) it1 s
               else let pc = ie_order_precheck env it1 (precheck_price it1) (in_size it1);
                        it2 = after_precheck pc it1
                    in if \<not> op_valid pc then reject_precheck (ie_now env) admin pc it2 s
                       else grant it2 s))"

definition approve_execution_intent ::
  "intent_env \<Rightarrow> string \<Rightarrow> string \<Rightarrow> string \<Rightarrow> string option \<Rightarrow> bool \<Rightarrow> bool \<Rightarrow> bool \<Rightarrow> intent_store \<Rightarrow>
     (string + intent) \<times> intent_store" where
  "approve_execution_intent env i admin note version read_ack double_confirmation override s =
     (case intent_row i s of None \<Rightarrow> (Inl ''intent_not_found'', s)
      | Some it \<Rightarrow>
          (case approval_error env note version read_ack it of Some e \<Rightarrow> (Inl e, s)
           | None \<Rightarrow>
               let grant = grant_approval env admin note (ie_detail_version env it)
                     (read_ack \<or> ie_fast_mode env) double_confirmation override
               in if in_type it = ''OPEN_POSITION'' \<and> \<not> override \<and> \<not> ie_fast_mode env
                  then approve_opening env admin grant it s
                  else grant it s))"

section \<open>Execution\<close>

definition execution_error ::
  "intent_env \<Rightarrow> string \<Rightarrow> bool \<Rightarrow> string option \<Rightarrow> intent \<Rightarrow> string option" where
  "execution_error env reason confirmation version it =
     (if in_state it \<noteq> ''APPROVED'' then Some ''intent_not_executable''
      else if length (strip reason) < 3 then Some ''decision_reason_required''
      else if is_high_risk_intent it \<and> \<not> confirmation then Some ''high_risk_execute_confirmation_required''
      else if str_or version [] \<noteq> [] \<and> str_or version [] \<noteq> ie_detail_version env it
      then Some ''stale_intent_detail_version''
      else (case normalize_symbol (me_quotes (ie_market env)) ''symbol_required_for_execution_order''
              ''invalid_quote_asset'' (Some (str_or (np_symbol (in_payload it)) (in_symbol it))) of
              Inl e \<Rightarrow> Some e | Inr _ \<Rightarrow> None))"

text \<open>The effect of the intent on the positions, with its ledger event.\<close>

definition release_effect ::
  "intent_env \<Rightarrow> string \<Rightarrow> intent \<Rightarrow> intent_store \<Rightarrow> (string + paper_position) \<times> intent_store" where
  "release_effect env fresh it s =
     (if in_type it = ''OPEN_POSITION'' then open_position_from_intent (ie_market env) fresh it s
      else case apply_position_action_intent (ie_market env) (ie_now env) fresh it s of
        (Inl e, s1) \<Rightarrow> (Inl e, s1)
      | (Inr (p, event_type), s1) \<Rightarrow> (Inr p, record_ledger (pp_id p) event_type (in_id it) s1))"

definition execute_approved_intent ::
  "intent_env \<Rightarrow> string \<Rightarrow> string \<Rightarrow> string \<Rightarrow> string \<Rightarrow> bool \<Rightarrow> string option \<Rightarrow> intent_store \<Rightarrow>
     (string + intent) \<times> intent_store" where
  "execute_approved_intent env fresh i executor reason confirmation version s =
     (case intent_row i s of None \<Rightarrow> (Inl ''intent_not_found'', s)
      | Some it \<Rightarrow>
          (case execution_error env reason confirmation version it of Some e \<Rightarrow> (Inl e, s)
           | None \<Rightarrow>
               (case release_effect env fresh it s of
                  (Inl e, s1) \<Rightarrow> (Inl e, s1)
                | (Inr p, s1) \<Rightarrow>
                    let now = ie_now env; it1 = it\<lparr>in_position_id := Some (pp_id p)\<rparr> in
                    (case transition_intent now ''RELEASED'' (Some executor) ''execution_order_released'' it1 of
                       Inl e \<Rightarrow> (Inl e, save_intent it1 s1)
                     | Inr it2 \<Rightarrow>
                         let final = it2\<lparr>in_released_at := Some now, in_admin_user_id := Some executor,
                               in_admin_note := strip reason, in_updated_at := now\<rparr>;
                             opening = (in_type it = ''OPEN_POSITION'')
                         in (Inr final,
                             record_decision_trace
                               (if opening then ''trade_opened_from_execution'' else ''trade_action_from_execution'')
                               (pp_id p) (if pp_status p = ''open'' then ''OPENED'' else ''CLOSED'')
                               [if opening then ''trade_opened_from_execution'' else ''position_action_released'']
                               (record_decision_trace ''execution_intent_executed'' (in_id it) ''RELEASED''
                                 [''execution_intent_released''] (save_intent final s1)))))))"

section \<open>Submission\<close>

definition submission_error :: "string option \<Rightarrow> intent \<Rightarrow> string option" where
  "submission_error preview_hash it =
     (if in_status it \<notin> set [''PREVIEWED''] then Some ''preview_required''
      else if str_or preview_hash [] \<noteq> [] \<and> str_or preview_hash [] \<noteq> in_preview_hash it
      then Some ''preview_hash_mismatch'' else None)"

definition with_pipeline :: "pipeline_result \<Rightarrow> intent \<Rightarrow> intent" where
  "with_pipeline pr it =
     it\<lparr>in_payload := (in_payload it)\<lparr>np_pipeline_action := pr_enforced_action pr\<rparr>,
        in_risk_flags := (if pr_rejected pr
          then add_codes [''pipeline_violation_logged'',
                 ''pipeline_reason:'' @ lower (str_or (pr_reject_code pr) ''POLICY_PRETRADE_BLOCK'')] (in_risk_flags it)
          else in_risk_flags it)\<rparr>"

text \<open>The intent goes to \<open>SUBMITTED\<close> and then to \<open>QUEUED\<close>, both assigned directly.\<close>

definition queue_intent :: "timestamp \<Rightarrow> intent \<Rightarrow> intent_store \<Rightarrow> intent \<times> intent_store" where
  "queue_intent now it s =
     (let queued = it\<lparr>in_payload := (in_payload it)\<lparr>np_execution_mode_applied := Some ''LIVE''\<rparr>,
            in_queue_mode := ''LIVE'', in_status := ''QUEUED'', in_submitted_at := Some now, in_updated_at := now\<rparr>
      in (queued, record_decision_trace ''execution_submit'' (in_id it) ''QUEUED_FOR_APPROVAL''
            [''execution_intent_submitted''] (save_intent queued s)))"

definition auto_release ::
  "intent_env \<Rightarrow> string \<Rightarrow> string \<Rightarrow> intent \<Rightarrow> intent_store \<Rightarrow> (string + intent) \<times> intent_store" where
  "auto_release env fresh user queued s =
     (let failed = (\<lambda>t. let t1 = t\<lparr>intent_audit := intent_audit t @ [\<lparr>audit_action = ''EXECUTION_AUTO_RELEASE_FAILED'',
              audit_entity_id = in_id queued, audit_actor = user, audit_severity = ''warning''\<rparr>]\<rparr>
            in (Inr (get_or (intent_row (in_id queued) t1) queued), t1))
      in case approve_execution_intent env (in_id queued) user ''auto_live_release'' None True True True s of
           (Inl e, s1) \<Rightarrow> failed s1
         | (Inr approved, s1) \<Rightarrow>
             (case execute_approved_intent env fresh (in_id approved) user ''auto_live_release'' True None s1 of
                (Inl e, s2) \<Rightarrow> failed s2
              | (Inr released, s2) \<Rightarrow> (Inr released, s2)))"

definition finish_submission ::
  "intent_env \<Rightarrow> string \<Rightarrow> string \<Rightarrow> intent \<Rightarrow> intent_store \<Rightarrow> (string + intent) \<times> intent_store" where
  "finish_submission env fresh user it s =
     (let (queued, s1) = queue_intent (ie_now env) it s
      in if ie_auto_release env then auto_release env fresh user queued s1 else (Inr queued, s1))"

definition submit_opening ::
  "intent_env \<Rightarrow> string \<Rightarrow> string \<Rightarrow> intent \<Rightarrow> intent_store \<Rightarrow> (string + intent) \<times> intent_store" where
  "submit_opening env fresh user it s =
     (case ie_execution_guard env it of Some e \<Rightarrow> (Inl e, save_intent it s)
      | None \<Rightarrow> (case ie_open_allowed env it of Some e \<Rightarrow> (Inl e, save_intent it s)
        | None \<Rightarrow>
            let pc = ie_order_precheck env it (precheck_price it) (in_size it);
                it1 = after_precheck pc it;
                shrunk = (in_size it1 \<noteq> in_size it);
                it2 = (if shrunk then it1\<lparr>in_risk_flags := add_flag ''microstructure_size_reduced'' (in_risk_flags it1)\<rparr> else it1);
                s1 = (if shrunk then s\<lparr>intent_audit := intent_audit s @
                        [\<lparr>audit_action = ''execution_microstructure_suitability_logged'', audit_entity_id = in_id it,
                          audit_actor = user, audit_severity = ''warning''\<rparr>]\<rparr> else s)
            in if \<not> op_valid pc then reject_precheck (ie_now env) user pc it2 s1
               else finish_submission env fresh user it2 s1))"

definition submit_execution_intent ::
  "intent_env \<Rightarrow> string \<Rightarrow> string \<Rightarrow> string \<Rightarrow> string option \<Rightarrow> intent_store \<Rightarrow> (string + intent) \<times> intent_store" where
  "submit_execution_intent env fresh user token preview_hash s =
     (case List.find (\<lambda>it. in_user_id it = user \<and> in_token it = token) (intents s) of
        None \<Rightarrow> (Inl ''intent_not_found'', s)
      | Some it \<Rightarrow>
          (case submission_error preview_hash it of Some e \<Rightarrow> (Inl e, s)
           | None \<Rightarrow>
               let wr = ensure_fresh_wallet_snapshot env user it; it1 = with_wallet wr it
               in if \<not> wr_ok wr
                  then let code = str_or (wr_reason_code wr) ''wallet_refresh_failed'' in
                    reject_and_raise (ie_now env) user [code] [''wallet_refresh_required'']
                      (''wallet_refresh_failed:'' @ code) (''wallet_refresh_failed:'' @ code) it1 s
                  else
                    let pr = (if ie_fast_mode env
                           then \<lparr>pr_enforced_action = Some ''ALLOW'', pr_rejected = False, pr_reject_code = None\<rparr>
                           else ie_pipeline env it1);
                        it2 = with_pipeline pr it1
                    in if upper (str_or (pr_enforced_action pr) ''ALLOW'') = ''BLOCK''
                       then let code = str_or (pr_reject_code pr) ''POLICY_PRETRADE_BLOCK'' in
                         reject_and_raise (ie_now env) user [code] [] (''pipeline_block:'' @ code)
                           ''execution_pipeline_violation'' it2 s
                       else case commercial_error env (ie_fast_mode env) it2 of
                         Some e \<Rightarrow> (Inl e, save_intent it2 s)
                       | None \<Rightarrow>
                           if in_type it = ''OPEN_POSITION'' \<and> \<not> ie_fast_mode env
                           then submit_opening env fresh user it2 s
                           else finish_submission env fresh user it2 s))"


section \<open>Rejection, retry and cancellation\<close>

definition rejection_error ::
  "intent_env \<Rightarrow> string \<Rightarrow> string option \<Rightarrow> bool \<Rightarrow> intent \<Rightarrow> string option" where
  "rejection_error env note version read_ack it =
     (if in_state it \<notin> set [''QUEUED'', ''SUBMITTED'', ''PREVIEWED'', ''APPROVED'']
      then Some ''intent_not_rejectable''
      else if length (strip note) < 3 then Some ''decision_reason_required''
      else if \<not> read_ack then Some ''intent_detail_read_ack_required''
      else if str_or version [] \<noteq> [] \<and> str_or version [] \<noteq> ie_detail_version env it
      then Some ''stale_intent_detail_version'' else None)"

definition reject_execution_intent ::
  "intent_env \<Rightarrow> string \<Rightarrow> string \<Rightarrow> string \<Rightarrow> string option \<Rightarrow> bool \<Rightarrow> intent_store \<Rightarrow>
     (string + intent) \<times> intent_store" where
  "reject_execution_intent env i admin note version read_ack s =
     (case intent_row i s of None \<Rightarrow> (Inl ''intent_not_found'', s)
      | Some it \<Rightarrow>
          (case rejection_error env note version read_ack it of Some e \<Rightarrow> (Inl e, s)
           | None \<Rightarrow>
               let now = ie_now env in
               (case transition_intent now ''REJECTED'' (Some admin) ''execution_rejected_by_admin'' it of
                  Inl e \<Rightarrow> (Inl e, s)
                | Inr it1 \<Rightarrow>
                    let np = in_payload it1;
                        gate = (np_gate np)\<lparr>dg_detail_version := Some (ie_detail_version env it),
                          dg_read_acknowledged := True, dg_rejected_at := Some now\<rparr>;
                        final = it1\<lparr>in_admin_user_id := Some admin, in_admin_note := strip note,
                          in_payload := np\<lparr>np_gate := gate\<rparr>, in_updated_at := now\<rparr>
                    in (Inr final, record_decision_trace ''execution_admin_rejection'' (in_id it) ''REJECTED''
                          (if in_reject_reason_codes it = [] then [''execution_intent_rejected'']
                           else in_reject_reason_codes it) (save_intent final s)))))"

definition retry_execution_intent ::
  "intent_env \<Rightarrow> string \<Rightarrow> string \<Rightarrow> string \<Rightarrow> intent_store \<Rightarrow> (string + intent) \<times> intent_store" where
  "retry_execution_intent env i admin note s =
     (case intent_row i s of None \<Rightarrow> (Inl ''intent_not_found'', s)
      | Some it \<Rightarrow>
          if in_status it \<noteq> ''REJECTED'' then (Inl ''intent_not_retryable'', s)
          else if length (strip note) < 3 then (Inl ''decision_reason_required'', s)
          else let now = ie_now env in
            (case transition_intent now ''QUEUED'' (Some admin) ''execution_retry_requested'' it of
               Inl e \<Rightarrow> (Inl e, s)
             | Inr it1 \<Rightarrow>
                 let final = it1\<lparr>in_submitted_at := Some now, in_approved_at := None, in_released_at := None,
                       in_cancelled_at := None, in_admin_user_id := Some admin, in_admin_note := strip note,
                       in_reject_reason_codes := [], in_updated_at := now\<rparr>
                 in (Inr final, save_intent final s)))"

definition cancel_execution_intent ::
  "intent_env \<Rightarrow> string \<Rightarrow> string \<Rightarrow> intent_store \<Rightarrow> (string + intent) \<times> intent_store" where
  "cancel_execution_intent env user token s =
     (case List.find (\<lambda>it. in_user_id it = user \<and> in_token it = token) (intents s) of
        None \<Rightarrow> (Inl ''intent_not_found'', s)
      | Some it \<Rightarrow>
          if in_status it \<in> set [''RELEASED'', ''REJECTED'', ''CANCELLED'']
          then (Inl ''intent_not_cancellable'', s)
          else let final = it\<lparr>in_status := ''CANCELLED'', in_cancelled_at := Some (ie_now env),
                     in_updated_at := ie_now env\<rparr>
               in (Inr final, record_decision_trace ''execution_cancel'' (in_id it) ''CANCELLED''
                     [''execution_intent_cancelled''] (save_intent final s)))"

definition cancel_execution_intent_by_admin ::
  "intent_env \<Rightarrow> string \<Rightarrow> string \<Rightarrow> string \<Rightarrow> intent_store \<Rightarrow> (string + intent) \<times> intent_store" where
  "cancel_execution_intent_by_admin env i admin note s =
     (case intent_row i s of None \<Rightarrow> (Inl ''intent_not_found'', s)
      | Some it \<Rightarrow>
          if length (strip note) < 3 then (Inl ''decision_reason_required'', s)
          else let now = ie_now env in
            (case transition_intent now ''CANCELLED'' (Some admin) ''execution_cancelled_by_admin'' it of
               Inl e \<Rightarrow> (Inl e, s)
             | Inr it1 \<Rightarrow>
                 let final = it1\<lparr>in_cancelled_at := Some now, in_admin_user_id := Some admin,
                       in_admin_note := strip note, in_updated_at := now\<rparr>
                 in (Inr final, save_intent final s)))"

section \<open>Editing and listing\<close>

record intent_patch =
  pa_notional :: "num option"
  pa_size :: "num option"
  pa_price :: "num option"
  pa_stop_price :: "num option"
  pa_take_profit_price :: "num option"

text \<open>One field of the patch: its name, what it was and what it becomes, when that differs.\<close>

definition edit_of :: "string \<Rightarrow> num option \<Rightarrow> num option \<Rightarrow> (string \<times> num option \<times> num) list" where
  "edit_of field before patch =
     (case patch of None \<Rightarrow> []
      | Some after \<Rightarrow> if before = Some after then [] else [(field, before, after)])"

definition intent_diff :: "intent_patch \<Rightarrow> intent \<Rightarrow> (string \<times> num option \<times> num) list" where
  "intent_diff pa it =
     edit_of ''notional'' (Some (in_notional it)) (pa_notional pa)
     @ edit_of ''size'' (Some (in_size it)) (pa_size pa)
     @ edit_of ''price'' (in_price it) (pa_price pa)
     @ edit_of ''stop_price'' (in_stop_price it) (pa_stop_price pa)
     @ edit_of ''take_profit_price'' (in_take_profit_price it) (pa_take_profit_price pa)"

definition edited :: "intent_patch \<Rightarrow> intent \<Rightarrow> intent" where
  "edited pa it =
     it\<lparr>in_notional := get_or (pa_notional pa) (in_notional it), in_size := get_or (pa_size pa) (in_size it),
        in_price := (case pa_price pa of None \<Rightarrow> in_price it | v \<Rightarrow> v),
        in_stop_price := (case pa_stop_price pa of None \<Rightarrow> in_stop_price it | v \<Rightarrow> v),
        in_take_profit_price := (case pa_take_profit_price pa of None \<Rightarrow> in_take_profit_price it | v \<Rightarrow> v)\<rparr>"

definition edit_execution_intent_by_admin ::
  "intent_env \<Rightarrow> string \<Rightarrow> string \<Rightarrow> string \<Rightarrow> intent_patch \<Rightarrow> intent_store \<Rightarrow>
     (string + intent \<times> (string \<times> num option \<times> num) list) \<times> intent_store" where
  "edit_execution_intent_by_admin env i admin reason pa s =
     (case intent_row i s of None \<Rightarrow> (Inl ''intent_not_found'', s)
      | Some it \<Rightarrow>
          if in_state it \<notin> set [''QUEUED'', ''REJECTED'', ''PREVIEWED'', ''SUBMITTED'']
          then (Inl ''intent_not_editable'', s)
          else if length (strip reason) < 3 then (Inl ''decision_reason_required'', s)
          else let diff = intent_diff pa it in
            if diff = [] then (Inl ''no_editable_fields_changed'', s)
            else
              let it1 = edited pa it; np = in_payload it1;
                  final = it1\<lparr>in_risk_score := min (max (in_risk_score it1 + in_notional it1 / 5000) 0) 100,
                    in_risk_flags := add_flag ''manual_edit_revalidated'' (in_risk_flags it1),
                    in_payload := np\<lparr>np_edited := map (\<lambda>(f, b, a). (f, a)) diff @ np_edited np,
                      np_manual_edit_reason := Some (strip reason)\<rparr>,
                    in_admin_user_id := Some admin, in_admin_note := strip reason, in_updated_at := ie_now env\<rparr>
              in (Inr (final, diff), save_intent final s))"

record queue_filter =
  qf_status :: string
  qf_limit :: int
  qf_search :: string
  qf_risk :: string
  qf_intent_type :: string
  qf_sort_by :: string
  qf_sort_dir :: string

text \<open>\<open>str(sort_by)\<close> chooses a column; \<open>created_at\<close> is the default.\<close>

definition sort_value :: "string \<Rightarrow> intent \<Rightarrow> num" where
  "sort_value column it =
     (if column = ''updated_at'' then of_int (in_updated_at it)
      else if column = ''notional'' then in_notional it
      else if column = ''size'' then in_size it
      else if column = ''risk_score'' then in_risk_score it
      else of_int (in_created_at it))"

definition matches_search :: "string \<Rightarrow> intent \<Rightarrow> bool" where
  "matches_search needle it \<longleftrightarrow> list_ex (\<lambda>v. contains (lower needle) (lower v))
     [in_id it, in_token it, in_symbol it, in_user_id it]"

text \<open>\<open>limit or 100\<close>, bounded.\<close>

definition list_execution_queue :: "queue_filter \<Rightarrow> intent_store \<Rightarrow> intent list" where
  "list_execution_queue qf s =
     (let limit = int_or (Some (qf_limit qf)) 100;
          needle = strip (qf_search qf);
          rows0 = filter (\<lambda>it. (qf_status qf = ''all'' \<or> in_status it = qf_status qf) \<and>
                    (qf_intent_type qf = ''all'' \<or> in_type it = qf_intent_type qf) \<and>
                    (needle = [] \<or> matches_search needle it)) (intents s);
          ascending = (lower (str_or (Some (qf_sort_dir qf)) ''desc'') = ''asc'');
          rows1 = sort_key (\<lambda>it. (if ascending then 1 else -1) * sort_value (str_or (Some (qf_sort_by qf)) ''created_at'') it) rows0;
          rows2 = take (nat (max (min (limit * 4) 1000) 20)) rows1;
          risk = lower (str_or (Some (qf_risk qf)) ''all'');
          rows3 = (if risk \<in> set [''low'', ''med'', ''high''] then filter (\<lambda>it. risk_severity it = risk) rows2 else rows2)
      in take (nat (max (min limit 500) 1)) rows3)"

definition execution_eligible :: "intent \<Rightarrow> bool" where
  "execution_eligible it \<longleftrightarrow> in_state it \<in> set [''PREVIEWED'', ''QUEUED'', ''RELEASED'', ''APPROVED'']"

definition count_status :: "string \<Rightarrow> intent_store \<Rightarrow> nat" where
  "count_status st s = length (filter (\<lambda>it. in_status it = st) (intents s))"

end
