(* ===== verification/Intent_Properties.thy ===== *)
theory Intent_Properties
  imports Intent_Handlers
begin

text \<open>
  What holds of execution intents whatever the users and administrators do: the statuses follow
  the table, a final status stays, and an intent changes the positions exactly once, when it is
  released. Every handler is a sequence of three kinds of move, and the properties are
  invariants of the moves.
\<close>

section \<open>Moves\<close>

text \<open>The ledger events that a release leaves for an intent.\<close>

definition release_events :: "string \<Rightarrow> intent_store \<Rightarrow> nat" where
  "release_events i s = length (filter (\<lambda>e. le_intent_id e = i \<and>
     le_event_type e \<noteq> ''position_reversed_close_leg'') (ledger s))"

inductive intent_move :: "intent_store \<Rightarrow> intent_store \<Rightarrow> bool" where
  quiet: "intents t = intents s \<Longrightarrow> ledger t = ledger s \<Longrightarrow> intent_move s t"
| moved: "intent_row (in_id it') s = Some it \<Longrightarrow> intents t = save_row in_id it' (intents s) \<Longrightarrow>
     ledger t = ledger s \<Longrightarrow> in_status it' = in_status it \<or>
       (\<not> is_final_status (in_status it) \<and> is_intent_status (in_status it') \<and> in_status it' \<noteq> ''RELEASED'') \<Longrightarrow>
     intent_move s t"
| released: "intent_row (in_id it') s = Some it \<Longrightarrow> intents t = save_row in_id it' (intents s) \<Longrightarrow>
     in_state it = ''APPROVED'' \<Longrightarrow> in_status it' = ''RELEASED'' \<Longrightarrow>
     (\<And>i. release_events i t = release_events i s + (if i = in_id it' then 1 else 0)) \<Longrightarrow>
     intent_move s t"

abbreviation intent_moves :: "intent_store \<Rightarrow> intent_store \<Rightarrow> bool" where
  "intent_moves \<equiv> intent_move\<^sup>*\<^sup>*"

lemma same_intents_moves: "intents t = intents s \<Longrightarrow> ledger t = ledger s \<Longrightarrow> intent_moves s t"
  by (intro r_into_rtranclp quiet)

lemma append_state_log_simps [simp]:
  "in_id (append_state_log now f t a r it) = in_id it"
  "in_status (append_state_log now f t a r it) = in_status it"
  "in_risk_flags (append_state_log now f t a r it) = in_risk_flags it"
  "in_type (append_state_log now f t a r it) = in_type it"
  "in_admin_user_id (append_state_log now f t a r it) = in_admin_user_id it"
  by (simp_all add: append_state_log_def Let_def)

lemma intent_names_upper:
  "list_all (\<lambda>st. upper st = st) (map fst EXECUTION_INTENT_ALLOWED_TRANSITIONS)"
  by code_simp

lemma known_status_upper: "is_intent_status st \<Longrightarrow> upper st = st"
  using intent_names_upper unfolding list_all_iff is_intent_status_def by (simp only: set_map)

lemma transition_intent_Inr:
  assumes "transition_intent now target actor reason it = Inr it'"
  shows "in_id it' = in_id it"
    and "in_status it' = in_status it \<and> in_state it = upper target \<or>
         in_status it' = upper target \<and> upper target \<in> set (intent_successors (in_state it))"
  using assms by (auto simp: transition_intent_def Let_def split: if_splits)

text \<open>A transition that is not a release is a move, whatever else of the row changes.\<close>

lemma saved_transition_moves:
  assumes row: "intent_row (in_id it) s = Some it" and ok: "is_intent_status (in_status it)"
    and tr: "transition_intent now target actor reason it0 = Inr it1"
    and it0: "in_id it0 = in_id it" "in_status it0 = in_status it"
    and not_release: "upper target \<noteq> ''RELEASED'' \<or> in_state it = ''RELEASED''"
    and saved: "intents t = save_row in_id final (intents s)" "ledger t = ledger s"
    and final: "in_id final = in_id it1" "in_status final = in_status it1"
  shows "intent_moves s t"
proof -
  have same: "in_state it0 = in_state it" by (simp add: in_state_def it0)
  have st: "in_state it = in_status it" using known_status_upper [OF ok] by (simp add: in_state_def)
  have id: "in_id final = in_id it" using final(1) transition_intent_Inr(1) [OF tr] it0(1) by simp
  have "in_status final = in_status it \<or> (\<not> is_final_status (in_status it) \<and>
      is_intent_status (in_status final) \<and> in_status final \<noteq> ''RELEASED'')"
    using transition_intent_Inr(2) [OF tr] not_release intent_successors_checked(1) intent_successors_checked(2)
    by (auto simp: final(2) same st it0(2))
  then show ?thesis
    using row saved by (intro r_into_rtranclp moved [of final]) (simp_all add: id)
qed

section \<open>Every handler is a sequence of moves\<close>

definition statuses_known :: "intent_store \<Rightarrow> bool" where
  "statuses_known s \<longleftrightarrow> list_all (\<lambda>it. is_intent_status (in_status it)) (intents s)"

lemma known_row: "statuses_known s \<Longrightarrow> intent_row i s = Some it \<Longrightarrow> is_intent_status (in_status it)"
  by (auto simp: statuses_known_def intent_row_def list_all_iff dest: find_row_in)

lemma move_keeps_known:
  assumes "intent_move s t" "statuses_known s" shows "statuses_known t"
  using assms
proof (induction rule: intent_move.induct)
  case (quiet t s)
  then show ?case by (simp add: statuses_known_def)
next
  case (moved it' s it t)
  then have "is_intent_status (in_status it')" using known_row by metis
  with moved show ?case by (simp add: statuses_known_def list_all_iff) (metis set_save_row)
next
  case (released it' s it t)
  have "is_intent_status ''RELEASED''" by code_simp
  with released have "is_intent_status (in_status it')" by simp
  with released show ?case by (simp add: statuses_known_def list_all_iff) (metis set_save_row)
qed

lemma moves_keep_known: "intent_moves s t \<Longrightarrow> statuses_known s \<Longrightarrow> statuses_known t"
  by (induction rule: rtranclp_induct) (auto intro: move_keeps_known)

lemma trace_frame [simp]:
  "intents (record_decision_trace a b c d s) = intents s"
  "ledger (record_decision_trace a b c d s) = ledger s"
  "intents (save_intent it s) = save_row in_id it (intents s)"
  "ledger (save_intent it s) = ledger s"
  by (simp_all add: record_decision_trace_def save_intent_def)

lemma same_status_save_moves:
  "intent_row (in_id it') s = Some it \<Longrightarrow> in_status it' = in_status it \<Longrightarrow> intent_moves s (save_intent it' s)"
  by (intro r_into_rtranclp moved [of it' s it]) simp_all

lemma find_by_token_row:
  assumes "distinct (map in_id (intents s))" "List.find P (intents s) = Some it"
  shows "intent_row (in_id it) s = Some it"
  using find_in [OF assms(2)] find_row_unique [OF assms(1)] by (simp add: intent_row_def)

lemma with_frame [simp]:
  "in_id (with_wallet wr it) = in_id it" "in_status (with_wallet wr it) = in_status it"
  "in_type (with_wallet wr it) = in_type it"
  "in_id (with_pipeline pr it) = in_id it" "in_status (with_pipeline pr it) = in_status it"
  "in_id (after_precheck pc it) = in_id it" "in_status (after_precheck pc it) = in_status it"
  "in_id (granted n a no v r d p it) = in_id it" "in_status (granted n a no v r d p it) = in_status it"
  by (simp_all add: with_wallet_def with_pipeline_def after_precheck_def granted_def Let_def)

text \<open>A row of the store, possibly with other fields changed.\<close>

definition stands_for :: "intent \<Rightarrow> intent_store \<Rightarrow> bool" where
  "stands_for it s \<longleftrightarrow> is_intent_status (in_status it) \<and>
     (case intent_row (in_id it) s of None \<Rightarrow> False | Some r \<Rightarrow> in_status r = in_status it)"

lemma stands_for_cong:
  "in_id it' = in_id it \<Longrightarrow> in_status it' = in_status it \<Longrightarrow> intents t = intents s \<Longrightarrow>
     stands_for it' t = stands_for it s"
  by (simp add: stands_for_def intent_row_def split: option.split)

lemma stands_for_transition:
  assumes "stands_for it s" "transition_intent now target actor reason it = Inr it1"
    and "upper target \<noteq> ''RELEASED''" "intents t = save_row in_id final (intents s)" "ledger t = ledger s"
    and "in_id final = in_id it1" "in_status final = in_status it1"
  shows "intent_moves s t"
proof -
  obtain r where r: "intent_row (in_id it) s = Some r" "in_status r = in_status it"
    using assms(1) by (auto simp: stands_for_def split: option.splits)
  then have "in_id r = in_id it" using intent_table.lookup_key by metis
  with r assms(1,3) show ?thesis
    by (intro saved_transition_moves [OF _ _ assms(2) _ _ _ assms(4-7), where it = r]) (auto simp: stands_for_def)
qed

lemma stands_for_save: "stands_for it s \<Longrightarrow> intent_moves s (save_intent it s)"
  by (auto simp: stands_for_def split: option.splits intro: same_status_save_moves)

lemma reject_and_raise_moves:
  assumes "stands_for it s"
  shows "intent_moves s (snd (reject_and_raise now actor codes flags reason raised it s))"
proof -
  let ?m = "it\<lparr>in_reject_reason_codes := add_codes codes (in_reject_reason_codes it),
      in_risk_flags := (if flags = [] then in_risk_flags it else add_codes flags (in_risk_flags it))\<rparr>"
  have m: "stands_for ?m s" using assms stands_for_cong [of ?m it s s] by simp
  show ?thesis
  proof (cases "transition_intent now ''REJECTED'' (Some actor) reason ?m")
    case (Inl e)
    with stands_for_save [OF m] show ?thesis by (simp add: reject_and_raise_def Let_def)
  next
    case (Inr r)
    have up: "upper ''REJECTED'' \<noteq> ''RELEASED''" by code_simp
    show ?thesis
      by (rule stands_for_transition [OF m Inr up, where final = "r\<lparr>in_updated_at := now\<rparr>"]) (simp_all add: reject_and_raise_def Let_def Inr)
  qed
qed

lemma reject_precheck_moves:
  assumes "stands_for it s" shows "intent_moves s (snd (reject_precheck now actor pc it s))"
proof -
  have "stands_for (it\<lparr>in_payload := (in_payload it)\<lparr>np_first_precheck_failure_code := Some c\<rparr>\<rparr>) s" for c
    using assms by (auto simp: stands_for_def split: option.splits)
  then show ?thesis unfolding reject_precheck_def Let_def by (rule reject_and_raise_moves)
qed

lemma grant_approval_moves:
  assumes "stands_for it s"
  shows "intent_moves s (snd (grant_approval env admin note v r d p it s))"
proof -
  let ?g = "granted (ie_now env) admin note v r d p it"
  have g: "stands_for ?g s" using assms stands_for_cong [of ?g it s s] by simp
  show ?thesis
  proof (cases "transition_intent (ie_now env) ''APPROVED'' (Some admin) ''execution_approval_granted'' ?g")
    case (Inl e)
    with stands_for_save [OF g] show ?thesis by (simp add: grant_approval_def Let_def)
  next
    case (Inr a)
    have up: "upper ''APPROVED'' \<noteq> ''RELEASED''" by code_simp
    show ?thesis
      by (rule stands_for_transition [OF g Inr up, where final = "a\<lparr>in_updated_at := ie_now env\<rparr>"]) (simp_all add: grant_approval_def Let_def Inr)
  qed
qed

lemma row_stands: "statuses_known s \<Longrightarrow> intent_row i s = Some it \<Longrightarrow> stands_for it s"
  using known_row intent_table.lookup_key by (fastforce simp: stands_for_def)

lemma approve_moves:
  assumes "statuses_known s"
  shows "intent_moves s (snd (approve_execution_intent env i admin note version ack dc override s))"
proof (cases "intent_row i s")
  case None
  then show ?thesis by (simp add: approve_execution_intent_def)
next
  case (Some it)
  have it: "stands_for it s" using row_stands [OF assms Some] .
  have w: "stands_for (with_wallet wr it) s" for wr using it stands_for_cong [of "with_wallet wr it" it s s] by simp
  have a: "stands_for (after_precheck pc (with_wallet wr it)) s" for pc wr
    using w stands_for_cong [of "after_precheck pc (with_wallet wr it)" "with_wallet wr it" s s] by simp
  show ?thesis
    using Some grant_approval_moves [OF it] grant_approval_moves [OF a]
      reject_and_raise_moves [OF w] reject_precheck_moves [OF a]
    by (simp add: approve_execution_intent_def approve_opening_def Let_def split: option.split)
qed

text \<open>What a release does to the ledger: one event of its own for the intent, and no other row of intents.\<close>

lemma sync_state_frame [simp]:
  "intents (sync_position_state px sid cid p s) = intents s"
  "ledger (sync_position_state px sid cid p s) = ledger s"
  "papers (sync_position_state px sid cid p s) = papers s"
  by (simp_all add: sync_position_state_def Let_def split: option.split)

lemma paper_frame [simp]:
  "intents (save_paper q s) = intents s" "ledger (save_paper q s) = ledger s"
  "intents (record_ledger a b c s) = intents s" "papers (record_ledger a b c s) = papers s"
  by (simp_all add: save_paper_def record_ledger_def)

lemma release_events_record:
  "release_events i (record_ledger pos kind j s) =
     release_events i s + (if i = j \<and> kind \<noteq> ''position_reversed_close_leg'' then 1 else 0)"
  by (simp add: release_events_def record_ledger_def)

lemma release_events_cong: "ledger t = ledger s \<Longrightarrow> release_events i t = release_events i s"
  by (simp add: release_events_def)

lemma open_position_effect:
  assumes "open_position_from_intent me fresh it s = (r, t)"
  shows "intents t = intents s \<and>
    (case r of Inl e \<Rightarrow> t = s | Inr p \<Rightarrow> \<forall>i. release_events i t = release_events i s + (if i = in_id it then 1 else 0))"
proof (cases r)
  case (Inl e)
  with assms show ?thesis
    by (auto simp: open_position_from_intent_def Let_def split: sum.splits)
next
  case (Inr p)
  with assms obtain symbol where t: "t = sync_position_state (me_synced_ticker me (upper symbol))
      (np_strategy_binding (in_payload it)) (in_cluster_id it) p
      (record_ledger fresh ''execution_order_released'' (in_id it) (s\<lparr>papers := papers s @ [p]\<rparr>))"
    by (auto simp: open_position_from_intent_def Let_def split: sum.splits)
  have "release_events i t = release_events i (record_ledger fresh ''execution_order_released'' (in_id it) (s\<lparr>papers := papers s @ [p]\<rparr>))" for i
    by (rule release_events_cong) (simp add: t)
  moreover have "release_events i (s\<lparr>papers := ps\<rparr>) = release_events i s" for i ps
    by (rule release_events_cong) simp
  ultimately show ?thesis using t Inr by (simp add: release_events_record)
qed

text \<open>The ways an action succeeds: the position is changed in place, or closed and reopened.\<close>

lemma apply_position_action_cases:
  assumes run: "apply_position_action_intent me now fresh it s = (Inr (q, kind), t)"
  obtains (in_place) p where "actionable_position it s = Some p"
      "q = closed_position now (get_or (in_price it) (safe_price (me_ticker me (pp_symbol p)))) p \<and>
         in_type it = ''CLOSE_POSITION'' \<or>
       q = partially_closed now (get_or (in_price it) (safe_price (me_ticker me (pp_symbol p))))
             (min (in_size it) (pp_quantity p)) p \<and> 0 < min (in_size it) (pp_quantity p) \<and>
         in_type it = ''PARTIAL_CLOSE'' \<or>
       (\<exists>v. q = p\<lparr>pp_stop_loss := v\<rparr>) \<and> in_type it = ''MOVE_STOP'' \<or>
       (\<exists>v. q = p\<lparr>pp_take_profit := v\<rparr>) \<and> in_type it = ''MOVE_TAKE_PROFIT''"
      "t = sync_position_state (me_synced_ticker me (upper (pp_symbol q)))
             (np_strategy_binding (in_payload it)) (in_cluster_id it) q (save_paper q s)"
      "kind \<noteq> ''position_reversed_close_leg''"
  | (reversed) p where "actionable_position it s = Some p" "in_type it = ''REVERSE_POSITION''"
      "q = reversed_position (safe_price (me_ticker me (pp_symbol p))) fresh it p" "kind = ''position_reversed''"
      "intents t = intents s"
      "papers t = save_row pp_id (closed_position now (get_or (in_price it) (safe_price (me_ticker me (pp_symbol p)))) p) (papers s) @ [q]"
      "ledger t = ledger (record_ledger (pp_id p) ''position_reversed_close_leg'' (in_id it) s)"
proof -
  have pid: "str_or (in_position_id it) [] \<noteq> []"
    using run by (cases "str_or (in_position_id it) [] = []") (simp_all add: apply_position_action_intent_def)
  obtain p where p: "actionable_position it s = Some p"
    using run pid by (cases "actionable_position it s") (simp_all add: apply_position_action_intent_def)
  note unfolded = run [unfolded apply_position_action_intent_def Let_def p option.case, simplified pid if_False simp_thms]
  consider "in_type it = ''CLOSE_POSITION''" | "in_type it = ''PARTIAL_CLOSE''" | "in_type it = ''REVERSE_POSITION''"
    | "in_type it = ''MOVE_STOP''" | "in_type it = ''MOVE_TAKE_PROFIT''"
    using unfolded by (simp split: if_splits)
  then show ?thesis
  proof cases
    case 1
    with unfolded show ?thesis by (intro in_place [OF p]) auto
  next
    case 2
    with unfolded show ?thesis by (intro in_place [OF p]) (auto split: if_splits)
  next
    case 3
    with unfolded show ?thesis
      by (intro reversed [OF p]) (auto simp: record_ledger_def save_paper_def)
  next
    case 4
    with unfolded show ?thesis by (intro in_place [OF p]) (auto split: option.splits)
  next
    case 5
    with unfolded show ?thesis by (intro in_place [OF p]) (auto split: option.splits)
  qed
qed

lemma action_effect_cases:
  assumes "apply_position_action_intent me now fresh it s = (Inr (p, kind), t)"
  shows "intents t = intents s \<and> kind \<noteq> ''position_reversed_close_leg'' \<and>
    (\<forall>i. release_events i t = release_events i s)"
proof (cases rule: apply_position_action_cases [OF assms])
  case (1 p0)
  then have "ledger t = ledger s" "intents t = intents s" by simp_all
  with 1(4) release_events_cong show ?thesis by metis
next
  case (2 p0)
  then show ?thesis
    using release_events_cong [OF 2(7)] by (simp add: release_events_record)
qed

lemma action_error_frame:
  "apply_position_action_intent me now fresh it s = (Inl e, t) \<Longrightarrow> t = s"
  by (auto simp: apply_position_action_intent_def Let_def split: if_splits option.splits)

lemma release_effect_frame:
  assumes "release_effect env fresh it s = (r, t)"
  shows "intents t = intents s \<and>
    (case r of Inl e \<Rightarrow> t = s | Inr p \<Rightarrow> \<forall>i. release_events i t = release_events i s + (if i = in_id it then 1 else 0))"
proof (cases "in_type it = ''OPEN_POSITION''")
  case True
  with assms open_position_effect show ?thesis by (auto simp: release_effect_def)
next
  case False
  show ?thesis
  proof (cases "apply_position_action_intent (ie_market env) (ie_now env) fresh it s")
    case (Pair r1 t1)
    show ?thesis
    proof (cases r1)
      case (Inl e)
      with Pair have "t1 = s" using action_error_frame by blast
      with Pair Inl False assms show ?thesis by (auto simp: release_effect_def)
    next
      case (Inr pk)
      obtain p kind where pk: "pk = (p, kind)" by fastforce
      have run: "apply_position_action_intent (ie_market env) (ie_now env) fresh it s = (Inr (p, kind), t1)"
        using Pair Inr pk by simp
      with False assms have "r = Inr p" "t = record_ledger (pp_id p) kind (in_id it) t1"
        by (auto simp: release_effect_def)
      with action_effect_cases [OF run] show ?thesis by (simp add: release_events_record)
    qed
  qed
qed

lemma execute_moves:
  assumes known: "statuses_known s"
  shows "intent_moves s (snd (execute_approved_intent env fresh i executor reason confirm version s))"
proof (cases "intent_row i s")
  case None
  then show ?thesis by (simp add: execute_approved_intent_def)
next
  case (Some it)
  show ?thesis
  proof (cases "execution_error env reason confirm version it")
    case err: (Some e)
    with Some show ?thesis by (simp add: execute_approved_intent_def)
  next
    case None
    have approved: "in_state it = ''APPROVED''"
      using None by (auto simp: execution_error_def split: if_splits)
    obtain r s1 where eff: "release_effect env fresh it s = (r, s1)" by fastforce
    note frame = release_effect_frame [OF eff]
    show ?thesis
    proof (cases r)
      case (Inl e)
      with Some None eff frame show ?thesis by (simp add: execute_approved_intent_def)
    next
      case (Inr p)
      let ?it1 = "it\<lparr>in_position_id := Some (pp_id p)\<rparr>"
      have st1: "in_state ?it1 = ''APPROVED''" using approved by (simp add: in_state_def)
      have "''RELEASED'' \<in> set (intent_successors ''APPROVED'')" by code_simp
      moreover have "upper ''RELEASED'' = ''RELEASED''" by code_simp
      ultimately obtain it2 where tr: "transition_intent (ie_now env) ''RELEASED'' (Some executor) ''execution_order_released'' ?it1 = Inr it2"
          and it2: "in_id it2 = in_id it" "in_status it2 = ''RELEASED''"
        unfolding transition_intent_def Let_def st1 by simp
      let ?final = "it2\<lparr>in_released_at := Some (ie_now env), in_admin_user_id := Some executor,
                               in_admin_note := strip reason, in_updated_at := ie_now env\<rparr>"
      let ?t = "snd (execute_approved_intent env fresh i executor reason confirm version s)"
      have t: "intents ?t = save_row in_id ?final (intents s)" "ledger ?t = ledger s1"
        using Some None eff Inr tr frame by (simp_all add: execute_approved_intent_def Let_def)
      have id: "in_id it = i" using Some by (rule intent_table.lookup_key)
      have "intent_move s ?t"
      proof (rule released [of ?final s it])
        show "intent_row (in_id ?final) s = Some it" using Some id it2 by simp
        show "release_events j ?t = release_events j s + (if j = in_id ?final then 1 else 0)" for j
          using frame Inr it2(1) release_events_cong [OF t(2)] by simp
      qed (use t approved it2 in simp_all)
      then show ?thesis by (rule r_into_rtranclp)
    qed
  qed
qed

lemma row_after_save:
  "stands_for it s \<Longrightarrow> in_id it' = in_id it \<Longrightarrow> intents t = save_row in_id it' (intents s) \<Longrightarrow>
     intent_row (in_id it) t = Some it'"
  by (auto simp: stands_for_def intent_row_def find_row_save split: option.splits)

lemma queue_intent_moves:
  assumes "stands_for it s" and "in_status it = ''PREVIEWED''" and run: "queue_intent now it s = (q, t)"
  shows "intent_moves s t \<and> stands_for q t \<and> in_id q = in_id it \<and> in_status q = ''QUEUED''"
proof -
  have q: "in_id q = in_id it" "in_status q = ''QUEUED''" and t: "intents t = save_row in_id q (intents s)" "ledger t = ledger s"
    using run by (auto simp: queue_intent_def Let_def)
  obtain r where r: "intent_row (in_id it) s = Some r" "in_status r = ''PREVIEWED''"
    using assms(1,2) by (auto simp: stands_for_def split: option.splits)
  have known: "is_intent_status ''QUEUED''" "\<not> is_final_status ''PREVIEWED''" by code_simp+
  have "intent_moves s t"
    by (rule r_into_rtranclp, rule moved [of q s r]) (use q t r known in simp_all)
  moreover have "stands_for q t"
    using row_after_save [OF assms(1) q(1) t(1)] known q by (simp add: stands_for_def)
  ultimately show ?thesis using q by simp
qed

lemma auto_release_moves:
  assumes known: "statuses_known s"
  shows "intent_moves s (snd (auto_release env fresh user queued s))"
proof -
  obtain r1 s1 where ap: "approve_execution_intent env (in_id queued) user ''auto_live_release'' None True True True s = (r1, s1)"
    by fastforce
  have m1: "intent_moves s s1" using approve_moves [OF known] ap by (metis snd_conv)
  have quiet_audit: "intent_moves t (t\<lparr>intent_audit := a\<rparr>)" for t a
    by (intro same_intents_moves) simp_all
  show ?thesis
  proof (cases r1)
    case (Inl e)
    with m1 quiet_audit [of s1] show ?thesis
      by (simp add: auto_release_def ap Let_def) (meson rtranclp_trans)
  next
    case (Inr a)
    obtain r2 s2 where ex: "execute_approved_intent env fresh (in_id a) user ''auto_live_release'' True None s1 = (r2, s2)"
      by fastforce
    have "intent_moves s1 s2"
      using execute_moves [OF moves_keep_known [OF m1 known]] ex by (metis snd_conv)
    then have "intent_moves s s2" using m1 by (meson rtranclp_trans)
    then show ?thesis
      using quiet_audit [of s2] Inr ex
      by (cases r2) (auto simp: auto_release_def ap Let_def intro: rtranclp_trans)
  qed
qed

lemma finish_submission_moves:
  assumes known: "statuses_known s" and "stands_for it s" and "in_status it = ''PREVIEWED''"
  shows "intent_moves s (snd (finish_submission env fresh user it s))"
proof -
  obtain q t where run: "queue_intent (ie_now env) it s = (q, t)" by fastforce
  have m: "intent_moves s t" using queue_intent_moves [OF assms(2,3) run] by simp
  have "intent_moves t (snd (auto_release env fresh user q t))"
    by (rule auto_release_moves [OF moves_keep_known [OF m known]])
  with m show ?thesis by (auto simp: finish_submission_def run intro: rtranclp_trans)
qed

lemma submit_opening_moves:
  assumes known: "statuses_known s" and it: "stands_for it s" and st: "in_status it = ''PREVIEWED''"
  shows "intent_moves s (snd (submit_opening env fresh user it s))"
proof -
  let ?pc = "ie_order_precheck env it (precheck_price it) (in_size it)"
  let ?it1 = "after_precheck ?pc it"
  let ?shrunk = "in_size ?it1 \<noteq> in_size it"
  let ?it2 = "if ?shrunk then ?it1\<lparr>in_risk_flags := add_flag ''microstructure_size_reduced'' (in_risk_flags ?it1)\<rparr> else ?it1"
  let ?s1 = "if ?shrunk then s\<lparr>intent_audit := intent_audit s @
                        [\<lparr>audit_action = ''execution_microstructure_suitability_logged'', audit_entity_id = in_id it,
                          audit_actor = user, audit_severity = ''warning''\<rparr>]\<rparr> else s"
  have same: "intents ?s1 = intents s" "ledger ?s1 = ledger s" by simp_all
  have id2: "in_id ?it2 = in_id it" "in_status ?it2 = in_status it" by simp_all
  have it2: "stands_for ?it2 ?s1" using it stands_for_cong [OF id2 same(1)] by simp
  have known1: "statuses_known ?s1" using known same by (simp add: statuses_known_def)
  have m1: "intent_moves s ?s1" by (rule same_intents_moves [OF same])
  have a: "intent_moves s (snd (reject_precheck (ie_now env) user ?pc ?it2 ?s1))"
    by (rule rtranclp_trans [OF m1 reject_precheck_moves [OF it2]])
  have b: "intent_moves s (snd (finish_submission env fresh user ?it2 ?s1))"
    by (rule rtranclp_trans [OF m1 finish_submission_moves [OF known1 it2]]) (simp only: id2 st)
  have c: "intent_moves s (save_intent it s)" using it by (rule stands_for_save)
  show ?thesis
    unfolding submit_opening_def Let_def using a b c
    by (cases "ie_execution_guard env it"; cases "ie_open_allowed env it") (simp_all only: option.case if_split snd_conv, auto)
qed

lemma submit_moves:
  assumes known: "statuses_known s" and uniq: "distinct (map in_id (intents s))"
  shows "intent_moves s (snd (submit_execution_intent env fresh user token hash s))"
proof (cases "List.find (\<lambda>it. in_user_id it = user \<and> in_token it = token) (intents s)")
  case None
  then show ?thesis by (simp add: submit_execution_intent_def)
next
  case (Some it)
  have row: "intent_row (in_id it) s = Some it" by (rule find_by_token_row [OF uniq Some])
  have it: "stands_for it s" by (rule row_stands [OF known row])
  show ?thesis
  proof (cases "submission_error hash it")
    case err: (Some e)
    with Some show ?thesis by (simp add: submit_execution_intent_def)
  next
    case None
    then have st: "in_status it = ''PREVIEWED''" by (auto simp: submission_error_def split: if_splits)
    have w: "stands_for (with_wallet wr it) s" for wr
      using it stands_for_cong [of "with_wallet wr it" it s s] by simp
    have p: "stands_for (with_pipeline pr (with_wallet wr it)) s" for pr wr
      using w stands_for_cong [of "with_pipeline pr (with_wallet wr it)" "with_wallet wr it" s s] by simp
    have st': "in_status (with_pipeline pr (with_wallet wr it)) = ''PREVIEWED''" for pr wr using st by simp
    note parts = reject_and_raise_moves [OF w] reject_and_raise_moves [OF p] stands_for_save [OF p]
      submit_opening_moves [OF known p st'] finish_submission_moves [OF known p st']
    show ?thesis
      using Some None parts by (simp add: submit_execution_intent_def Let_def split: option.split)
  qed
qed

lemma cancel_moves:
  assumes known: "statuses_known s" and uniq: "distinct (map in_id (intents s))"
  shows "intent_moves s (snd (cancel_execution_intent env user token s))"
proof (cases "List.find (\<lambda>it. in_user_id it = user \<and> in_token it = token) (intents s)")
  case None
  then show ?thesis by (simp add: cancel_execution_intent_def)
next
  case (Some it)
  have row: "intent_row (in_id it) s = Some it" by (rule find_by_token_row [OF uniq Some])
  show ?thesis
  proof (cases "in_status it \<in> set [''RELEASED'', ''REJECTED'', ''CANCELLED'']")
    case True
    with Some show ?thesis by (simp add: cancel_execution_intent_def)
  next
    case False
    let ?f = "it\<lparr>in_status := ''CANCELLED'', in_cancelled_at := Some (ie_now env), in_updated_at := ie_now env\<rparr>"
    have "is_intent_status ''CANCELLED''" by code_simp
    with False row show ?thesis
      using Some by (intro r_into_rtranclp moved [of ?f s it])
        (auto simp: cancel_execution_intent_def Let_def is_final_status_def)
  qed
qed

lemma reject_moves:
  assumes known: "statuses_known s"
  shows "intent_moves s (snd (reject_execution_intent env i admin note version ack s))"
proof (cases "intent_row i s")
  case None
  then show ?thesis by (simp add: reject_execution_intent_def)
next
  case (Some it)
  show ?thesis
  proof (cases "rejection_error env note version ack it")
    case err: (Some e)
    with Some show ?thesis by (simp add: reject_execution_intent_def)
  next
    case None
    show ?thesis
    proof (cases "transition_intent (ie_now env) ''REJECTED'' (Some admin) ''execution_rejected_by_admin'' it")
      case (Inl e)
      with Some None show ?thesis by (simp add: reject_execution_intent_def Let_def)
    next
      case (Inr it1)
      have up: "upper ''REJECTED'' \<noteq> ''RELEASED''" by code_simp
      let ?final = "it1\<lparr>in_admin_user_id := Some admin, in_admin_note := strip note,
          in_payload := (in_payload it1)\<lparr>np_gate := (np_gate (in_payload it1))
            \<lparr>dg_detail_version := Some (ie_detail_version env it), dg_read_acknowledged := True,
             dg_rejected_at := Some (ie_now env)\<rparr>\<rparr>, in_updated_at := ie_now env\<rparr>"
      show ?thesis
        by (rule stands_for_transition [OF row_stands [OF known Some] Inr up, where final = ?final])
           (simp_all add: reject_execution_intent_def Let_def Some None Inr)
    qed
  qed
qed

lemma retry_moves:
  assumes known: "statuses_known s"
  shows "intent_moves s (snd (retry_execution_intent env i admin note s))"
proof (cases "intent_row i s")
  case None
  then show ?thesis by (simp add: retry_execution_intent_def)
next
  case (Some it)
  show ?thesis
  proof (cases "transition_intent (ie_now env) ''QUEUED'' (Some admin) ''execution_retry_requested'' it")
    case (Inl e)
    with Some show ?thesis by (simp add: retry_execution_intent_def Let_def)
  next
    case (Inr it1)
    have up: "upper ''QUEUED'' \<noteq> ''RELEASED''" by code_simp
    let ?final = "it1\<lparr>in_submitted_at := Some (ie_now env), in_approved_at := None, in_released_at := None,
       in_cancelled_at := None, in_admin_user_id := Some admin, in_admin_note := strip note,
       in_reject_reason_codes := [], in_updated_at := ie_now env\<rparr>"
    have "intent_moves s (save_intent ?final s)"
      by (rule stands_for_transition [OF row_stands [OF known Some] Inr up, where final = ?final]) simp_all
    with Some Inr show ?thesis by (simp add: retry_execution_intent_def Let_def)
  qed
qed

lemma admin_cancel_moves:
  assumes known: "statuses_known s"
  shows "intent_moves s (snd (cancel_execution_intent_by_admin env i admin note s))"
proof (cases "intent_row i s")
  case None
  then show ?thesis by (simp add: cancel_execution_intent_by_admin_def)
next
  case (Some it)
  show ?thesis
  proof (cases "transition_intent (ie_now env) ''CANCELLED'' (Some admin) ''execution_cancelled_by_admin'' it")
    case (Inl e)
    with Some show ?thesis by (simp add: cancel_execution_intent_by_admin_def Let_def)
  next
    case (Inr it1)
    have up: "upper ''CANCELLED'' \<noteq> ''RELEASED''" by code_simp
    let ?final = "it1\<lparr>in_cancelled_at := Some (ie_now env), in_admin_user_id := Some admin,
       in_admin_note := strip note, in_updated_at := ie_now env\<rparr>"
    have "intent_moves s (save_intent ?final s)"
      by (rule stands_for_transition [OF row_stands [OF known Some] Inr up, where final = ?final]) simp_all
    with Some Inr show ?thesis by (simp add: cancel_execution_intent_by_admin_def Let_def)
  qed
qed

lemma edit_moves:
  assumes known: "statuses_known s"
  shows "intent_moves s (snd (edit_execution_intent_by_admin env i admin reason pa s))"
proof (cases "intent_row i s")
  case None
  then show ?thesis by (simp add: edit_execution_intent_by_admin_def)
next
  case (Some it)
  have id: "in_id it = i" using Some by (rule intent_table.lookup_key)
  have "intent_moves s (save_intent it' s)" if "in_id it' = i" "in_status it' = in_status it" for it'
    using that Some by (intro same_status_save_moves [of it' s it]) simp_all
  then show ?thesis
    using Some id by (simp add: edit_execution_intent_by_admin_def Let_def edited_def)
qed

section \<open>The steps of the service\<close>

text \<open>
  A preview adds an intent with a fresh identifier, valid or rejected, and may delete an earlier
  duplicate that was not queued; everything else is a handler.
\<close>

inductive intent_step :: "intent_store \<Rightarrow> intent_store \<Rightarrow> bool" where
  preview: "in_id it \<notin> in_id ` set (intents s) \<Longrightarrow> in_id it \<notin> le_intent_id ` set (ledger s) \<Longrightarrow>
     in_status it \<in> set [''PREVIEWED'', ''REJECTED''] \<Longrightarrow> intent_step s (s\<lparr>intents := intents s @ [it]\<rparr>)"
| discard: "intent_row i s = Some it \<Longrightarrow> in_status it \<in> set [''PREVIEWED'', ''REJECTED'', ''CANCELLED''] \<Longrightarrow>
     intent_step s (s\<lparr>intents := filter (\<lambda>x. in_id x \<noteq> i) (intents s)\<rparr>)"
| submit: "intent_step s (snd (submit_execution_intent env fresh user token hash s))"
| approve: "intent_step s (snd (approve_execution_intent env i admin note version ack dc override s))"
| execute: "intent_step s (snd (execute_approved_intent env fresh i executor reason confirm version s))"
| reject: "intent_step s (snd (reject_execution_intent env i admin note version ack s))"
| retry: "intent_step s (snd (retry_execution_intent env i admin note s))"
| cancel: "intent_step s (snd (cancel_execution_intent env user token s))"
| admin_cancel: "intent_step s (snd (cancel_execution_intent_by_admin env i admin note s))"
| edit: "intent_step s (snd (edit_execution_intent_by_admin env i admin reason pa s))"

definition empty_intents :: intent_store where
  "empty_intents = \<lparr>intents = [], papers = [], states = [], ledger = [], traces = [], intent_audit = []\<rparr>"

inductive intent_reachable :: "intent_store \<Rightarrow> bool" where
  start: "intents s = [] \<Longrightarrow> ledger s = [] \<Longrightarrow> intent_reachable s"
| step: "intent_reachable s \<Longrightarrow> intent_step s t \<Longrightarrow> intent_reachable t"

inductive_cases intent_stepE: "intent_step s t"

text \<open>Unique identifiers, known statuses, and one release event exactly for what is released.\<close>

definition intent_inv :: "intent_store \<Rightarrow> bool" where
  "intent_inv s \<longleftrightarrow> distinct (map in_id (intents s)) \<and> statuses_known s \<and>
     list_all (\<lambda>it. release_events (in_id it) s = (if in_status it = ''RELEASED'' then 1 else 0)) (intents s)"

lemma intent_inv_row:
  "intent_inv s \<Longrightarrow> intent_row i s = Some it \<Longrightarrow>
     release_events i s = (if in_status it = ''RELEASED'' then 1 else 0)"
  using find_row_in find_row_key by (fastforce simp: intent_inv_def list_all_iff intent_row_def)

lemma intent_move_keeps:
  assumes "intent_move s t" "intent_inv s" shows "intent_inv t"
  using assms
proof (induction rule: intent_move.induct)
  case (quiet t s)
  then show ?case by (simp add: intent_inv_def statuses_known_def release_events_def)
next
  case (moved it' s it t)
  have known: "statuses_known t"
    using moved by (intro move_keeps_known [OF intent_move.moved [OF moved(1-4)]]) (simp add: intent_inv_def)
  have ev: "release_events i t = release_events i s" for i by (rule release_events_cong [OF moved(3)])
  have "release_events (in_id it') s = (if in_status it' = ''RELEASED'' then 1 else 0)"
    using intent_inv_row [OF moved(5) moved(1)] moved(4) by (auto simp: is_final_status_def)
  then have "list_all (\<lambda>it. release_events (in_id it) t = (if in_status it = ''RELEASED'' then 1 else 0)) (intents t)"
    using moved(2,5) ev by (auto simp: intent_inv_def list_all_iff dest: set_save_row)
  with known moved(2,5) show ?case by (simp add: intent_inv_def)
next
  case (released it' s it t)
  have mv: "intent_move s t" by (rule intent_move.released [OF released(1-5)])
  have known: "statuses_known t"
    using released by (intro move_keeps_known [OF mv]) (simp add: intent_inv_def)
  have uniq: "distinct (map in_id (intents s))" using released(6) by (simp add: intent_inv_def)
  have "is_intent_status (in_status it)"
    using known_row [OF _ released(1)] released(6) by (simp add: intent_inv_def)
  then have "in_status it = ''APPROVED''" using known_status_upper released(3) by (simp add: in_state_def)
  then have none: "release_events (in_id it') s = 0" using intent_inv_row [OF released(6,1)] by simp
  have "release_events (in_id x) t = (if in_status x = ''RELEASED'' then 1 else 0)" if x: "x \<in> set (intents t)" for x
  proof (cases "in_id x = in_id it'")
    case True
    have "map in_id (intents t) = map in_id (intents s)" by (simp add: released(2))
    then have "distinct (map in_id (intents t))" using uniq by simp
    then have "find_row in_id (in_id it') (intents t) = Some x" using find_row_unique x True by fastforce
    then have "x = it'" using released(1,2) by (simp add: find_row_save intent_row_def)
    with released(4,5) none show ?thesis by simp
  next
    case False
    then have "x \<in> set (intents s)" using x released(2) set_save_row by fastforce
    with False released(5,6) show ?thesis by (simp add: intent_inv_def list_all_iff)
  qed
  with known released(2,6) show ?case by (simp add: intent_inv_def list_all_iff)
qed

lemma intent_moves_keep: "intent_moves s t \<Longrightarrow> intent_inv s \<Longrightarrow> intent_inv t"
  by (induction rule: rtranclp_induct) (auto intro: intent_move_keeps)

lemma intent_step_moves:
  assumes "intent_step s t" "intent_inv s"
  shows "intent_moves s t \<or>
    (\<exists>it. t = s\<lparr>intents := intents s @ [it]\<rparr> \<and> in_id it \<notin> in_id ` set (intents s) \<and>
        in_id it \<notin> le_intent_id ` set (ledger s) \<and> in_status it \<in> set [''PREVIEWED'', ''REJECTED'']) \<or>
    (\<exists>i it. t = s\<lparr>intents := filter (\<lambda>x. in_id x \<noteq> i) (intents s)\<rparr> \<and> intent_row i s = Some it \<and>
        in_status it \<in> set [''PREVIEWED'', ''REJECTED'', ''CANCELLED''])"
proof -
  have inv: "statuses_known s" "distinct (map in_id (intents s))"
    using assms(2) by (simp_all add: intent_inv_def)
  show ?thesis
    using assms(1)
  proof cases
    case (preview it)
    then show ?thesis by blast
  next
    case (discard i it)
    then show ?thesis by blast
  next
    case submit
    show ?thesis unfolding submit by (rule disjI1 [OF submit_moves [OF inv]])
  next
    case approve
    show ?thesis unfolding approve by (rule disjI1 [OF approve_moves [OF inv(1)]])
  next
    case execute
    show ?thesis unfolding execute by (rule disjI1 [OF execute_moves [OF inv(1)]])
  next
    case reject
    show ?thesis unfolding reject by (rule disjI1 [OF reject_moves [OF inv(1)]])
  next
    case retry
    show ?thesis unfolding retry by (rule disjI1 [OF retry_moves [OF inv(1)]])
  next
    case cancel
    show ?thesis unfolding cancel by (rule disjI1 [OF cancel_moves [OF inv]])
  next
    case admin_cancel
    show ?thesis unfolding admin_cancel by (rule disjI1 [OF admin_cancel_moves [OF inv(1)]])
  next
    case edit
    show ?thesis unfolding edit by (rule disjI1 [OF edit_moves [OF inv(1)]])
  qed
qed

lemma intent_step_keeps:
  assumes "intent_step s t" "intent_inv s" shows "intent_inv t"
proof -
  have "is_intent_status ''PREVIEWED''" "is_intent_status ''REJECTED''" by code_simp+
  note known = this
  from intent_step_moves [OF assms] consider "intent_moves s t"
    | it where "t = s\<lparr>intents := intents s @ [it]\<rparr>" "in_id it \<notin> in_id ` set (intents s)"
        "in_id it \<notin> le_intent_id ` set (ledger s)" "in_status it \<in> set [''PREVIEWED'', ''REJECTED'']"
    | i where "t = s\<lparr>intents := filter (\<lambda>x. in_id x \<noteq> i) (intents s)\<rparr>"
    by blast
  then show ?thesis
  proof cases
    case 1
    then show ?thesis using assms(2) by (rule intent_moves_keep)
  next
    case 2
    have "le_intent_id e \<noteq> in_id it" if "e \<in> set (ledger s)" for e
      using that 2(3) by (metis imageI)
    then have "release_events (in_id it) s = 0"
      by (auto simp: release_events_def filter_empty_conv)
    moreover have "release_events i t = release_events i s" for i
      by (rule release_events_cong) (simp add: 2(1))
    ultimately show ?thesis
      using assms(2) 2 known by (auto simp: intent_inv_def statuses_known_def)
  next
    case 3
    have "release_events j t = release_events j s" for j
      by (rule release_events_cong) (simp add: 3)
    then show ?thesis
      using assms(2) by (auto simp: intent_inv_def statuses_known_def 3 list_all_iff distinct_map_filter)
  qed
qed

lemma intent_reachable_inv: "intent_reachable s \<Longrightarrow> intent_inv s"
proof (induction rule: intent_reachable.induct)
  case (start s)
  then show ?case by (simp add: intent_inv_def statuses_known_def)
next
  case (step s t)
  then show ?case by (simp add: intent_step_keeps)
qed

lemma intent_move_final:
  assumes "intent_move s t" "intent_inv s" "intent_row i s = Some it" "is_final_status (in_status it)"
  shows "\<exists>it'. intent_row i t = Some it' \<and> in_status it' = in_status it"
  using assms
proof (induction rule: intent_move.induct)
  case (quiet t s)
  then show ?case by (simp add: intent_row_def)
next
  case (moved it' s r t)
  then show ?case by (auto simp: intent_row_def find_row_save)
next
  case (released it' s r t)
  have "is_intent_status (in_status r)"
    using known_row [OF _ released(1)] released(6) by (simp add: intent_inv_def)
  then have "in_status r = ''APPROVED''" using known_status_upper released(3) by (simp add: in_state_def)
  then have "r \<noteq> it" using released(8) by (auto simp: is_final_status_def)
  then have "i \<noteq> in_id it'" using released(1,7) by auto
  then show ?case using released(2,7) by (simp add: intent_row_def find_row_save)
qed

lemma intent_moves_final:
  "intent_moves s t \<Longrightarrow> intent_inv s \<Longrightarrow> intent_row i s = Some it \<Longrightarrow> is_final_status (in_status it) \<Longrightarrow>
     \<exists>it'. intent_row i t = Some it' \<and> in_status it' = in_status it"
proof (induction rule: rtranclp_induct)
  case base
  then show ?case by blast
next
  case (step t u)
  then obtain it' where "intent_row i t = Some it'" "in_status it' = in_status it" by blast
  with intent_move_final [OF step(2) intent_moves_keep [OF step(1)], of i it'] step show ?case by auto
qed

lemma execution_outcome:
  "case execute_approved_intent env fresh i executor reason confirm version s of
     (Inl e, t) \<Rightarrow> t = s
   | (Inr final, t) \<Rightarrow>
       (\<exists>it p. intent_row i s = Some it \<and> in_state it = ''APPROVED'' \<and> 3 \<le> length (strip reason) \<and>
          (if is_high_risk_intent it then confirm else True) \<and>
          (str_or version [] = [] \<or> str_or version [] = ie_detail_version env it) \<and>
          intent_row i t = Some final \<and> in_status final = ''RELEASED'' \<and> in_admin_user_id final = Some executor \<and>
          in_position_id final = Some (pp_id p) \<and> fst (release_effect env fresh it s) = Inr p \<and>
          papers t = papers (snd (release_effect env fresh it s)))"
proof (cases "intent_row i s")
  case None
  then show ?thesis by (simp add: execute_approved_intent_def)
next
  case (Some it)
  have id: "in_id it = i" using Some by (rule intent_table.lookup_key)
  show ?thesis
  proof (cases "execution_error env reason confirm version it")
    case err: (Some e)
    with Some show ?thesis by (simp add: execute_approved_intent_def)
  next
    case None
    then have gates: "in_state it = ''APPROVED''" "3 \<le> length (strip reason)"
      "if is_high_risk_intent it then confirm else True"
      "str_or version [] = [] \<or> str_or version [] = ie_detail_version env it"
      by (auto simp: execution_error_def split: if_splits)
    obtain r s1 where eff: "release_effect env fresh it s = (r, s1)" by fastforce
    note frame = release_effect_frame [OF eff]
    show ?thesis
    proof (cases r)
      case (Inl e)
      with Some None eff frame show ?thesis by (simp add: execute_approved_intent_def)
    next
      case (Inr p)
      let ?it1 = "it\<lparr>in_position_id := Some (pp_id p)\<rparr>"
      have "in_state ?it1 = ''APPROVED''" using gates(1) by (simp add: in_state_def)
      moreover have "''RELEASED'' \<in> set (intent_successors ''APPROVED'')" by code_simp
      moreover have "upper ''RELEASED'' = ''RELEASED''" by code_simp
      ultimately have tr: "transition_intent (ie_now env) ''RELEASED'' (Some executor) ''execution_order_released'' ?it1 =
          Inr (append_state_log (ie_now env) ''APPROVED'' ''RELEASED'' (Some executor) ''execution_order_released'' (?it1\<lparr>in_status := ''RELEASED''\<rparr>))"
        unfolding transition_intent_def Let_def by simp
      show ?thesis
        using Some None eff Inr gates id frame
        by (simp add: execute_approved_intent_def tr Let_def)
           (simp add: intent_row_def find_row_save append_state_log_def Let_def record_decision_trace_def save_intent_def)
    qed
  qed
qed

lemma execution_releases:
  "execute_approved_intent env fresh i executor reason confirm version s = (Inr final, t) \<Longrightarrow>
     in_status final = ''RELEASED'' \<and> in_admin_user_id final = Some executor"
  using execution_outcome [where env = env and fresh = fresh and i = i and executor = executor and
      reason = reason and confirm = confirm and version = version and s = s] by auto

lemma approve_override:
  assumes row: "intent_row (in_id q) s = Some q" and st: "in_status q = ''QUEUED''"
    and len3: "3 \<le> length (strip note)" and comm: "commercial_error env False q = None"
  obtains a t where "approve_execution_intent env (in_id q) admin note None True True True s = (Inr a, t)"
    "intent_row (in_id q) t = Some a" "in_id a = in_id q" "in_state a = ''APPROVED''" "in_type a = in_type q"
    "np_symbol (in_payload a) = np_symbol (in_payload q)" "in_symbol a = in_symbol q"
proof -
  let ?now = "ie_now env"
  have up: "upper ''QUEUED'' = ''QUEUED''" "upper ''APPROVED'' = ''APPROVED''" by code_simp+
  have e1: "approval_error env note None True q = None"
    using comm len3 by (simp add: approval_error_def Let_def in_state_def st up)
  let ?g = "granted ?now admin note (ie_detail_version env q) True True True q"
  have "''APPROVED'' \<in> set (intent_successors ''QUEUED'')" by code_simp
  then have tr1: "transition_intent ?now ''APPROVED'' (Some admin) ''execution_approval_granted'' ?g =
      Inr (append_state_log ?now ''QUEUED'' ''APPROVED'' (Some admin) ''execution_approval_granted'' (?g\<lparr>in_status := ''APPROVED''\<rparr>))"
    by (simp add: transition_intent_def Let_def in_state_def st up)
  show ?thesis
  proof (rule that)
    show "approve_execution_intent env (in_id q) admin note None True True True s =
        (Inr (append_state_log ?now ''QUEUED'' ''APPROVED'' (Some admin) ''execution_approval_granted''
           (?g\<lparr>in_status := ''APPROVED''\<rparr>)\<lparr>in_updated_at := ?now\<rparr>),
         record_decision_trace ''execution_admin_approval'' (in_id q) ''APPROVED'' [''execution_intent_approved'']
           (save_intent (append_state_log ?now ''QUEUED'' ''APPROVED'' (Some admin) ''execution_approval_granted''
             (?g\<lparr>in_status := ''APPROVED''\<rparr>)\<lparr>in_updated_at := ?now\<rparr>) s))"
      using row e1 by (simp add: approve_execution_intent_def Let_def grant_approval_def tr1)
  qed (use row up in \<open>simp_all add: intent_row_def find_row_save in_state_def,
        simp_all add: append_state_log_def granted_def Let_def\<close>)
qed

text \<open>The symbol an intent opens, as \<open>execute_approved_intent\<close> resolves it.\<close>

definition opening_symbol :: "intent_env \<Rightarrow> intent \<Rightarrow> string + string" where
  "opening_symbol env it = normalize_symbol (me_quotes (ie_market env)) ''symbol_required_for_execution_order''
     ''invalid_quote_asset'' (Some (str_or (np_symbol (in_payload it)) (in_symbol it)))"

lemma execute_opening:
  assumes row: "intent_row i s = Some a" and st: "in_state a = ''APPROVED''"
    and type: "in_type a = ''OPEN_POSITION''" and reason: "3 \<le> length (strip reason)"
    and symbol: "opening_symbol env a = Inr base"
  shows "\<exists>final t. execute_approved_intent env fresh i executor reason True None s = (Inr final, t)"
proof -
  have e2: "execution_error env reason True None a = None"
    using reason symbol by (simp add: execution_error_def st opening_symbol_def)
  obtain p t where eff: "release_effect env fresh a s = (Inr p, t)"
    using symbol type by (auto simp: release_effect_def open_position_from_intent_def opening_symbol_def Let_def)
  have "in_state (a\<lparr>in_position_id := Some (pp_id p)\<rparr>) = ''APPROVED''" using st by (simp add: in_state_def)
  moreover have "''RELEASED'' \<in> set (intent_successors ''APPROVED'')" by code_simp
  moreover have "upper ''RELEASED'' = ''RELEASED''" by code_simp
  ultimately have "\<exists>it2. transition_intent (ie_now env) ''RELEASED'' (Some executor) ''execution_order_released''
      (a\<lparr>in_position_id := Some (pp_id p)\<rparr>) = Inr it2"
    by (simp add: transition_intent_def Let_def)
  then show ?thesis using row e2 eff by (auto simp: execute_approved_intent_def Let_def)
qed

section \<open>Properties\<close>

text \<open>
  C8: An intent acts on positions exactly once: in every reachable state, the ledger holds one
  release event for each intent that is \<open>RELEASED\<close> and none for any other, whatever sequence
  of submissions, approvals, executions, retries, edits and cancellations led there.
\<close>

theorem released_exactly_once:
  assumes "intent_reachable s" and "intent_row i s = Some it"
  shows "release_events i s = (if in_status it = ''RELEASED'' then 1 else 0)"
  using intent_reachable_inv [OF assms(1)] assms(2) by (rule intent_inv_row)

definition sample_intent :: intent where
  "sample_intent = \<lparr>in_id = ''i1'', in_token = ''t1'', in_user_id = ''u1'', in_type = ''OPEN_POSITION'',
     in_position_id = None, in_status = ''PREVIEWED'', in_preview_hash = ''h'', in_queue_mode = ''ASSISTED'',
     in_symbol = ''BTCUSDT'', in_market_type = ''spot'', in_side = ''buy'', in_notional = 500, in_size = 5,
     in_reduce_only = False, in_price = None, in_stop_price = None, in_take_profit_price = None,
     in_payload = \<lparr>np_symbol = None, np_side = Some ''buy'', np_market_type = Some ''spot'', np_leverage = None,
       np_order_type = None, np_margin_mode = None, np_strategy_binding = None,
       np_exchange_connection_id = None, np_wallet_refresh = None, np_precheck_valid = None,
       np_first_precheck_failure_code = None, np_pipeline_action = None, np_execution_mode_applied = None,
       np_edited = [], np_manual_edit_reason = None,
       np_gate = \<lparr>dg_state_history = [], dg_detail_version = None, dg_read_acknowledged = False,
         dg_double_confirmation = False, dg_override_execute = False, dg_approved_by = None,
         dg_approved_at = None, dg_rejected_at = None\<rparr>\<rparr>,
     in_reject_reason_codes = [], in_risk_flags = [''critical_volatility''], in_risk_score = 90,
     in_cluster_id = None, in_submitted_at = None, in_approved_at = None, in_released_at = None,
     in_cancelled_at = None, in_admin_user_id = None, in_admin_note = [], in_created_at = 0, in_updated_at = 0\<rparr>"

definition sample_intent_env :: intent_env where
  "sample_intent_env = \<lparr>ie_now = 5,
     ie_market = \<lparr>me_quotes = [''USDT''], me_ticker = (\<lambda>_. Some (Some 100, None)), me_synced_ticker = (\<lambda>_. 0),
       me_market_type = (\<lambda>_. ''spot'')\<rparr>,
     ie_fast_mode = False, ie_auto_release = True, ie_detail_version = (\<lambda>_. ''v''), ie_connections = [],
     ie_readiness = (\<lambda>_ _ _. \<lparr>er_is_ready = True, er_reason_code = None, er_available_balance = Some 10, er_wallet_balance = Some 10\<rparr>),
     ie_pipeline = (\<lambda>_. \<lparr>pr_enforced_action = None, pr_rejected = False, pr_reject_code = None\<rparr>),
     ie_commercial_control = (\<lambda>_ _. None), ie_execution_guard = (\<lambda>_. None), ie_open_allowed = (\<lambda>_. None),
     ie_order_precheck = (\<lambda>_ _ _. \<lparr>op_valid = True, op_adjusted_size = None, op_violation_codes = []\<rparr>)\<rparr>"

definition sample_intents :: intent_store where
  "sample_intents = empty_intents\<lparr>intents := [sample_intent]\<rparr>"

lemma sample_intents_reachable: "intent_reachable sample_intents"
proof -
  have "intent_step empty_intents (empty_intents\<lparr>intents := intents empty_intents @ [sample_intent]\<rparr>)"
    by (rule intent_step.preview) (simp_all add: empty_intents_def sample_intent_def)
  then have "intent_reachable (empty_intents\<lparr>intents := intents empty_intents @ [sample_intent]\<rparr>)"
    by (rule intent_reachable.step [OF intent_reachable.start, rotated 2]) (simp_all add: empty_intents_def)
  then show ?thesis by (simp add: sample_intents_def empty_intents_def)
qed

lemma sample_intent_row: "intent_row ''i1'' sample_intents = Some sample_intent"
  by (simp add: intent_row_def sample_intents_def sample_intent_def)

theorem released_exactly_once_witness: "release_events ''i1'' sample_intents = 0"
  using released_exactly_once [OF sample_intents_reachable sample_intent_row]
  by (simp add: sample_intent_def)

text \<open>
  \<open>RELEASED\<close> and \<open>CANCELLED\<close> are final: no operation of a user or an administrator changes the
  status of such an intent; only a cancelled one may disappear, replaced by a new preview of the
  same order.
\<close>

theorem final_intents_stay:
  assumes "intent_reachable s" and "intent_step s t" and "intent_row i s = Some it"
    and "is_final_status (in_status it)"
  shows "case intent_row i t of None \<Rightarrow> in_status it = ''CANCELLED''
     | Some it' \<Rightarrow> in_status it' = in_status it"
proof -
  note inv = intent_reachable_inv [OF assms(1)]
  from intent_step_moves [OF assms(2) inv] consider "intent_moves s t"
    | it1 where "t = s\<lparr>intents := intents s @ [it1]\<rparr>"
    | j it1 where "t = s\<lparr>intents := filter (\<lambda>x. in_id x \<noteq> j) (intents s)\<rparr>" "intent_row j s = Some it1"
        "in_status it1 \<in> set [''PREVIEWED'', ''REJECTED'', ''CANCELLED'']"
    by blast
  then show ?thesis
  proof cases
    case 1
    from intent_moves_final [OF this inv assms(3,4)] show ?thesis by auto
  next
    case 2
    with assms(3) show ?thesis by (simp add: intent_row_def)
  next
    case 3
    show ?thesis
    proof (cases "j = i")
      case True
      then have "it1 = it" using 3(2) assms(3) by simp
      moreover have "intent_row i t = None"
        by (auto simp: 3(1) True intent_row_def find_row_None_iff)
      ultimately show ?thesis using 3(3) assms(4) by (auto simp: is_final_status_def)
    next
      case False
      have "find_row in_id i (filter (\<lambda>x. in_id x \<noteq> j) xs) = find_row in_id i xs" for xs :: "intent list"
        using False by (induction xs) auto
      with assms(3) show ?thesis by (simp add: 3(1) intent_row_def)
    qed
  qed
qed

definition cancelled_intents :: intent_store where
  "cancelled_intents = snd (cancel_execution_intent sample_intent_env ''u1'' ''t1'' sample_intents)"

lemma cancelled_reachable: "intent_reachable cancelled_intents"
  unfolding cancelled_intents_def by (rule intent_reachable.step [OF sample_intents_reachable intent_step.cancel])

theorem final_intents_stay_witness:
  "case intent_row ''i1'' (snd (retry_execution_intent sample_intent_env ''i1'' ''admin'' ''again'' cancelled_intents)) of
     None \<Rightarrow> True | Some it' \<Rightarrow> in_status it' = ''CANCELLED''"
proof -
  obtain it where it: "intent_row ''i1'' cancelled_intents = Some it" "in_status it = ''CANCELLED''"
  proof -
    have "map_option in_status (intent_row ''i1'' cancelled_intents) = Some ''CANCELLED''" by code_simp
    then show ?thesis using that by (auto simp: map_option_eq_Some)
  qed
  have final: "is_final_status (in_status it)" by (simp add: it(2) is_final_status_def)
  from final_intents_stay [OF cancelled_reachable intent_step.retry it(1) final,
      where env1 = sample_intent_env and i1 = "''i1''" and admin1 = "''admin''" and note1 = "''again''"]
  show ?thesis by (auto simp: it(2) split: option.splits)
qed

text \<open>
  C18: Execution is all or nothing and gated: it raises and leaves the store as it was, or the
  intent was \<open>APPROVED\<close>, the reason has at least three characters, a high-risk intent was
  confirmed, a given detail version was current, and the intent is \<open>RELEASED\<close> by the executor
  with the position it acted on.
\<close>

theorem execution_is_gated_and_atomic:
  "case execute_approved_intent env fresh i executor reason confirm version s of
     (Inl e, t) \<Rightarrow> t = s
   | (Inr final, t) \<Rightarrow>
       (\<exists>it p. intent_row i s = Some it \<and> in_state it = ''APPROVED'' \<and> 3 \<le> length (strip reason) \<and>
          (if is_high_risk_intent it then confirm else True) \<and>
          (str_or version [] = [] \<or> str_or version [] = ie_detail_version env it) \<and>
          intent_row i t = Some final \<and> in_status final = ''RELEASED'' \<and> in_admin_user_id final = Some executor \<and>
          in_position_id final = Some (pp_id p) \<and> fst (release_effect env fresh it s) = Inr p \<and>
          papers t = papers (snd (release_effect env fresh it s)))"
  by (rule execution_outcome)

text \<open>
  A rejection of an approved intent always fails: \<open>reject_execution_intent\<close> lists \<open>APPROVED\<close>
  among the statuses it accepts, but the table has no transition from \<open>APPROVED\<close> to
  \<open>REJECTED\<close>, so with a note and an acknowledgement the transition raises and nothing changes.
\<close>

theorem approved_cannot_be_rejected:
  assumes "intent_row i s = Some it" and "in_state it = ''APPROVED''"
    and "3 \<le> length (strip note)" and "str_or version [] = []"
  shows "rejection_error env note version True it = None \<and>
    reject_execution_intent env i admin note version True s
      = (Inl ''invalid_state_transition:APPROVED->REJECTED'', s)"
proof -
  have err: "rejection_error env note version True it = None"
    using assms(2-4) by (simp add: rejection_error_def)
  have "''REJECTED'' \<notin> set (intent_successors ''APPROVED'')" by code_simp
  moreover have "upper ''REJECTED'' = ''REJECTED''" by code_simp
  ultimately have "transition_intent (ie_now env) ''REJECTED'' (Some admin) ''execution_rejected_by_admin'' it
      = Inl ''invalid_state_transition:APPROVED->REJECTED''"
    by (simp add: transition_intent_def Let_def assms(2))
  with err assms(1) show ?thesis by (simp add: reject_execution_intent_def Let_def)
qed

theorem approved_cannot_be_rejected_witness:
  "fst (reject_execution_intent sample_intent_env ''i1'' ''admin'' ''too risky'' None True
      (empty_intents\<lparr>intents := [sample_intent\<lparr>in_status := ''APPROVED''\<rparr>]\<rparr>))
   = Inl ''invalid_state_transition:APPROVED->REJECTED''"
proof -
  have up: "upper ''APPROVED'' = ''APPROVED''" and len: "3 \<le> length (strip ''too risky'')" by code_simp+
  show ?thesis
    by (subst approved_cannot_be_rejected [where it = "sample_intent\<lparr>in_status := ''APPROVED''\<rparr>", THEN conjunct2])
       (simp_all add: intent_row_def sample_intent_def in_state_def up len)
qed

text \<open>
  With the automatic release on, which is its default, the user's own submission releases
  the order: whatever its risk score and flags, an opening intent whose symbol is allowed and that
  the commercial controls admit ends \<open>RELEASED\<close>, with the user in the place of the administrator
  who approves, overrides and confirms it.
\<close>

theorem submission_releases_without_admin:
  assumes "intent_row (in_id it) s = Some it0" and "in_type it = ''OPEN_POSITION''"
    and "ie_auto_release env = auto_live_release_enabled None"
    and "ie_commercial_control env = (\<lambda>_ _. None)" and "opening_symbol env it = Inr base"
  shows "\<exists>final. fst (finish_submission env fresh user it s) = Inr final \<and> in_status final = ''RELEASED''
     \<and> in_admin_user_id final = Some user"
proof -
  have on: "ie_auto_release env"
  proof -
    have "auto_live_release_enabled None" by code_simp
    with assms(3) show ?thesis by simp
  qed
  obtain q s1 where queued: "queue_intent (ie_now env) it s = (q, s1)" by fastforce
  have q: "in_id q = in_id it" "in_status q = ''QUEUED''" "in_type q = ''OPEN_POSITION''"
      "opening_symbol env q = Inr base" "intents s1 = save_row in_id q (intents s)"
    using queued assms(2,5) by (auto simp: queue_intent_def Let_def opening_symbol_def)
  have row1: "intent_row (in_id q) s1 = Some q"
    using assms(1) q by (simp add: intent_row_def find_row_save)
  have len: "3 \<le> length (strip ''auto_live_release'')" by code_simp
  have comm: "commercial_error env False q = None"
    by (simp add: commercial_error_def assms(4) split: option.split)
  obtain a t where a: "approve_execution_intent env (in_id q) user ''auto_live_release'' None True True True s1 = (Inr a, t)"
    "intent_row (in_id q) t = Some a" "in_id a = in_id q" "in_state a = ''APPROVED''" "in_type a = in_type q"
    "np_symbol (in_payload a) = np_symbol (in_payload q)" "in_symbol a = in_symbol q"
    by (rule approve_override [OF row1 q(2) len comm])
  have symbol: "opening_symbol env a = Inr base" using a(6,7) q(4) by (simp add: opening_symbol_def)
  have opens: "in_type a = ''OPEN_POSITION''" using a(5) q(3) by simp
  obtain final u where ex: "execute_approved_intent env fresh (in_id q) user ''auto_live_release'' True None t = (Inr final, u)"
    using execute_opening [OF a(2,4) opens len symbol] by blast
  then show ?thesis
    using on execution_releases [OF ex] by (simp add: finish_submission_def queued auto_release_def Let_def a ex)
qed

theorem submission_releases_without_admin_witness:
  "\<exists>final. fst (finish_submission sample_intent_env ''p1'' ''u1'' sample_intent sample_intents) = Inr final \<and>
     in_status final = ''RELEASED''"
proof -
  have id: "in_id sample_intent = ''i1''" by (simp add: sample_intent_def)
  have "opening_symbol sample_intent_env sample_intent = Inr ''BTCUSDT''" by code_simp
  moreover have "auto_live_release_enabled None" by code_simp
  ultimately show ?thesis
    using submission_releases_without_admin [of sample_intent sample_intents sample_intent sample_intent_env "''BTCUSDT''" "''p1''" "''u1''"]
    by (auto simp: sample_intent_row id) (auto simp: sample_intent_def sample_intent_env_def)
qed

text \<open>
  An action that reduces risk never enlarges a position: after closing, partial closing or moving
  a stop or target, the user's own open position has at most its old quantity and not less than
  none, the same side, size base and owner, and every other position is untouched.
\<close>

theorem risk_reduction_never_enlarges:
  assumes "apply_position_action_intent me now fresh it s = (Inr (q, kind), t)"
    and "in_type it \<in> set [''CLOSE_POSITION'', ''PARTIAL_CLOSE'', ''MOVE_STOP'', ''MOVE_TAKE_PROFIT'']"
    and "list_all (\<lambda>p. 0 \<le> pp_quantity p) (papers s)" and "distinct (map pp_id (papers s))"
  shows "\<exists>p. paper_row (pp_id q) s = Some p \<and> pp_user_id p = in_user_id it \<and> pp_status p = ''open'' \<and>
     paper_row (pp_id q) t = Some q \<and> 0 \<le> pp_quantity q \<and> pp_quantity q \<le> pp_quantity p \<and>
     pp_side q = pp_side p \<and> pp_entry_price q = pp_entry_price p \<and> pp_user_id q = pp_user_id p \<and>
     papers t = map (\<lambda>r. if pp_id r = pp_id q then q else r) (papers s)"
proof (cases rule: apply_position_action_cases [OF assms(1)])
  case (1 p)
  have mem: "p \<in> set (papers s)" "pp_user_id p = in_user_id it" "pp_status p = ''open''"
    using 1(1) find_in by (fastforce simp: actionable_position_def split: option.splits)+
  have row: "paper_row (pp_id p) s = Some p"
    using find_row_unique [OF assms(4) mem(1)] by (simp add: paper_row_def)
  have q0: "0 \<le> pp_quantity p" using assms(3) mem(1) by (simp add: list_all_iff)
  have q: "pp_id q = pp_id p \<and> 0 \<le> pp_quantity q \<and> pp_quantity q \<le> pp_quantity p \<and>
     pp_side q = pp_side p \<and> pp_entry_price q = pp_entry_price p \<and> pp_user_id q = pp_user_id p"
    using 1(2) q0 by (auto simp: closed_position_def partially_closed_def Let_def)
  have t: "papers t = save_row pp_id q (papers s)"
    using 1(3) by (simp add: save_paper_def)
  then have "paper_row (pp_id q) t = Some q" using row q by (simp add: paper_row_def find_row_save)
  with row q mem t show ?thesis by (auto simp: save_row_def)
next
  case (2 p)
  with assms(2) show ?thesis by simp
qed

definition sample_position :: paper_position where
  "sample_position = \<lparr>pp_id = ''p1'', pp_user_id = ''u1'', pp_symbol = ''BTCUSDT'', pp_market_type = ''spot'',
     pp_side = ''long'', pp_quantity = 4, pp_leverage = 1, pp_entry_price = 100, pp_stop_loss = 99,
     pp_take_profit = 102, pp_status = ''open'', pp_unrealized_pnl = 0, pp_realized_pnl = 0, pp_closed_at = None\<rparr>"

theorem risk_reduction_never_enlarges_witness:
  "case apply_position_action_intent (ie_market sample_intent_env) 5 ''p2''
      (sample_intent\<lparr>in_type := ''PARTIAL_CLOSE'', in_size := 3, in_position_id := Some ''p1''\<rparr>)
      (empty_intents\<lparr>papers := [sample_position]\<rparr>) of
    (Inr (q, kind), t) \<Rightarrow> pp_quantity q \<le> 4 \<and> 0 \<le> pp_quantity q | _ \<Rightarrow> False"
proof -
  let ?it = "sample_intent\<lparr>in_type := ''PARTIAL_CLOSE'', in_size := 3, in_position_id := Some ''p1''\<rparr>"
  let ?s = "empty_intents\<lparr>papers := [sample_position]\<rparr>"
  obtain q kind t where run: "apply_position_action_intent (ie_market sample_intent_env) 5 ''p2'' ?it ?s = (Inr (q, kind), t)"
    by (simp add: apply_position_action_intent_def actionable_position_def sample_intent_def sample_position_def Let_def)
  have "\<exists>p. paper_row (pp_id q) ?s = Some p \<and> 0 \<le> pp_quantity q \<and> pp_quantity q \<le> pp_quantity p"
    using risk_reduction_never_enlarges [OF run] by (auto simp: sample_position_def)
  then have "0 \<le> pp_quantity q \<and> pp_quantity q \<le> 4"
    by (auto simp: paper_row_def sample_position_def split: if_splits)
  then show ?thesis by (simp add: run)
qed

end

