(* ===== verification/Paper_Ledger.thy ===== *)
theory Paper_Ledger
  imports Spot_Pipeline Intent_Properties
begin

text \<open>
  The paper positions and their ledger under everything that writes them. Four services do: an order
  opens a position (\<open>open_paper_position\<close>, called by both branches of the pipeline and by the test
  order of an administrator), the refresh closes those that reach their stop or take, an open one is
  closed by hand (by its owner, an administrator or the kill switch), and a released execution intent
  opens, closes, reverses or changes one (\<open>services/execution_intent_service.py\<close>). A new position has
  an identifier that no row has.
\<close>

section \<open>Steps of the book\<close>

text \<open>The ledger events of an intent carry its identifier and no result.\<close>

definition intent_event :: "ledger_event \<Rightarrow> spot_ledger_event" where
  "intent_event e = \<lparr>sv_position = le_position_id e, sv_type = le_event_type e, sv_strategy = None, sv_reason = [], sv_price = None, sv_pnl = 0\<rparr>"

definition no_papers :: spot_book where
  "no_papers = \<lparr>bk_positions = [], bk_ledger = []\<rparr>"

inductive book_step :: "spot_book \<Rightarrow> spot_book \<Rightarrow> bool" where
  ordered: "fresh \<notin> pp_id ` set (bk_positions bk) \<Longrightarrow> open_paper_position fresh oq xp ec bk = (xr, bk') \<Longrightarrow> book_step bk bk'"
| refreshed: "book_step bk (snd (refresh_open_positions now prices bk))"
| closed: "p \<in> set (bk_positions bk) \<Longrightarrow> pp_status p = ''open'' \<Longrightarrow> book_step bk (manual_close_position now (pp_id p) reason bk)"
| released: "fresh \<notin> pp_id ` set (bk_positions bk) \<Longrightarrow> papers s = bk_positions bk \<Longrightarrow>
     release_effect env fresh it s = (Inr q, t) \<Longrightarrow> ledger t = ledger s @ events \<Longrightarrow>
     book_step bk \<lparr>bk_positions = papers t, bk_ledger = bk_ledger bk @ map intent_event events\<rparr>"

section \<open>The account of a position\<close>

text \<open>The events of a position: one that opens it, then those that change it, then one that closes it.\<close>

definition opens :: "spot_ledger_event \<Rightarrow> bool" where
  "opens sv \<longleftrightarrow> sv_type sv \<in> {''trade_open'', ''execution_order_released'', ''position_reversed''}"

definition adjusts :: "spot_ledger_event \<Rightarrow> bool" where
  "adjusts sv \<longleftrightarrow> sv_type sv \<in> {''position_partial_close'', ''position_stop_updated'', ''position_take_profit_updated''}"

definition closes :: "paper_position \<Rightarrow> spot_ledger_event \<Rightarrow> bool" where
  "closes p sv \<longleftrightarrow>
     (if sv_type sv = ''trade_close''
      then sv_pnl sv = pp_realized_pnl p \<and> (pp_status p = ''closed'' \<or> pp_status p \<in> {''stop_hit'', ''tp_hit''} \<and> sv_reason sv = pp_status p)
      else pp_status p = ''closed'' \<and> pp_unrealized_pnl p = 0 \<and>
        (sv_type sv \<in> {''position_closed'', ''position_reversed_close_leg''} \<and> pp_quantity p = 0 \<or>
         sv_type sv = ''position_partial_close'' \<and> pp_quantity p \<le> 1 / 10 ^ 8))"

definition accounted :: "paper_position \<Rightarrow> spot_ledger_event list \<Rightarrow> bool" where
  "accounted p events \<longleftrightarrow>
     (case events of [] \<Rightarrow> False
      | e # rest \<Rightarrow> opens e \<and>
          (if pp_status p = ''open'' then list_all adjusts rest
           else rest \<noteq> [] \<and> list_all adjusts (butlast rest) \<and> closes p (last rest)))"

definition events_of :: "string \<Rightarrow> spot_ledger_event list \<Rightarrow> spot_ledger_event list" where
  "events_of pid events = filter (\<lambda>sv. sv_position sv = pid) events"

definition accounts :: "spot_book \<Rightarrow> bool" where
  "accounts bk \<longleftrightarrow>
     distinct (map pp_id (bk_positions bk)) \<and>
     map sv_position (filter opens (bk_ledger bk)) = map pp_id (bk_positions bk) \<and>
     list_all (\<lambda>p. accounted p (events_of (pp_id p) (bk_ledger bk))) (bk_positions bk) \<and>
     list_all (\<lambda>sv. sv_position sv \<in> pp_id ` set (bk_positions bk)) (bk_ledger bk)"

lemma events_of_simps [simp]:
  "events_of pid [] = []" "events_of pid (xs @ ys) = events_of pid xs @ events_of pid ys"
  "events_of pid (sv # xs) = (if sv_position sv = pid then sv # events_of pid xs else events_of pid xs)"
  by (simp_all add: events_of_def)

lemma accounted_adjusted:
  "accounted p events \<Longrightarrow> pp_status p = ''open'' \<Longrightarrow> pp_status q = ''open'' \<Longrightarrow> list_all adjusts new \<Longrightarrow> accounted q (events @ new)"
  by (cases events) (simp_all add: accounted_def)

lemma accounted_closed:
  "accounted p events \<Longrightarrow> pp_status p = ''open'' \<Longrightarrow> pp_status q \<noteq> ''open'' \<Longrightarrow> closes q sv \<Longrightarrow> accounted q (events @ [sv])"
  by (cases events) (simp_all add: accounted_def)

lemma accounted_opened: "opens sv \<Longrightarrow> pp_status p = ''open'' \<Longrightarrow> accounted p [sv]"
  by (simp add: accounted_def)

text \<open>One step on the whole book: the old positions are changed in place, at most some are added, and the
  events that come with it are those of the positions they belong to.\<close>

lemma accounts_extended:
  assumes "accounts bk"
    and id: "\<And>p. pp_id (f p) = pp_id p"
    and changed: "\<And>p es. p \<in> set (bk_positions bk) \<Longrightarrow> accounted p es \<Longrightarrow> accounted (f p) (es @ events_of (pp_id p) new)"
    and added: "distinct (map pp_id ps)" "\<And>p. p \<in> set ps \<Longrightarrow> pp_id p \<notin> pp_id ` set (bk_positions bk) \<and> accounted p (events_of (pp_id p) new)"
    and new: "map sv_position (filter opens new) = map pp_id ps" "\<And>sv. sv \<in> set new \<Longrightarrow> sv_position sv \<in> pp_id ` set (bk_positions bk @ ps)"
  shows "accounts \<lparr>bk_positions = map f (bk_positions bk) @ ps, bk_ledger = bk_ledger bk @ new\<rparr>"
proof -
  have same: "map pp_id (map f (bk_positions bk)) = map pp_id (bk_positions bk)" by (simp add: id)
  have ids: "pp_id ` set (map f (bk_positions bk) @ ps) = pp_id ` set (bk_positions bk @ ps)"
    by (simp add: image_Un image_image id)
  have absent: "events_of (pp_id p) (bk_ledger bk) = []" if "p \<in> set ps" for p
  proof -
    have "pp_id p \<notin> sv_position ` set (bk_ledger bk)"
      using assms(1) added(2) [OF that] by (auto simp: accounts_def list_all_iff)
    then show ?thesis by (force simp: events_of_def filter_empty_conv)
  qed
  have "list_all (\<lambda>p. accounted p (events_of (pp_id p) (bk_ledger bk @ new))) (map f (bk_positions bk))"
    using assms(1) changed by (simp add: accounts_def list_all_iff id)
  moreover have "list_all (\<lambda>p. accounted p (events_of (pp_id p) (bk_ledger bk @ new))) ps"
    using added(2) absent by (simp add: list_all_iff)
  moreover have "list_all (\<lambda>sv. sv_position sv \<in> pp_id ` set (bk_positions bk @ ps)) (bk_ledger bk @ new)"
    using assms(1) new(2) by (auto simp: accounts_def list_all_iff)
  moreover have "distinct (map pp_id (map f (bk_positions bk) @ ps))"
  proof -
    have "pp_id q \<noteq> pp_id p" if "p \<in> set ps" "q \<in> set (bk_positions bk)" for p q
      using added(2) [OF that(1)] that(2) by (metis imageI)
    then have "pp_id ` set (bk_positions bk) \<inter> pp_id ` set ps = {}" by auto
    then show ?thesis using assms(1) added(1) by (simp only: map_append distinct_append same accounts_def set_map simp_thms)
  qed
  moreover have "map sv_position (filter opens (bk_ledger bk @ new)) = map pp_id (map f (bk_positions bk) @ ps)"
    using assms(1) new(1) by (simp add: accounts_def id comp_def)
  ultimately show ?thesis unfolding accounts_def by (simp only: spot_book.select_convs ids list_all_append simp_thms)
qed

section \<open>Every step keeps the account\<close>

lemma book_updated: "bk\<lparr>bk_positions := ps, bk_ledger := events\<rparr> = \<lparr>bk_positions = ps, bk_ledger = events\<rparr>" for bk :: spot_book
  by (cases bk) simp

lemma accounts_mapped:
  assumes "accounts bk" and "\<And>p. pp_id (f p) = pp_id p"
    and "\<And>p es. p \<in> set (bk_positions bk) \<Longrightarrow> accounted p es \<Longrightarrow> accounted (f p) (es @ events_of (pp_id p) new)"
    and "filter opens new = []" and "\<And>sv. sv \<in> set new \<Longrightarrow> sv_position sv \<in> pp_id ` set (bk_positions bk)"
  shows "accounts (bk\<lparr>bk_positions := map f (bk_positions bk), bk_ledger := bk_ledger bk @ new\<rparr>)"
  using accounts_extended [of bk f new "[]"] assms by (simp add: book_updated)

lemma accounts_added:
  assumes "accounts bk" and "pp_id p \<notin> pp_id ` set (bk_positions bk)" and "pp_status p = ''open''" and "opens sv" "sv_position sv = pp_id p"
  shows "accounts (bk\<lparr>bk_positions := bk_positions bk @ [p], bk_ledger := bk_ledger bk @ [sv]\<rparr>)"
proof -
  have "accounted q (es @ events_of (pp_id q) [sv])" if "q \<in> set (bk_positions bk)" "accounted q es" for q es
    using that assms(2,5) by auto
  then show ?thesis
    using accounts_extended [of bk id "[sv]" "[p]"] assms accounted_opened [of sv p] by (simp add: book_updated)
qed

text \<open>Each position closed by the refresh has one event there, as the identifiers are distinct.\<close>

lemma events_of_none: "pp_id p \<notin> pp_id ` set ps \<Longrightarrow> (\<And>q. sv_position (g q) = pp_id q) \<Longrightarrow> events_of (pp_id p) (map g ps) = []"
  by (induction ps) auto

lemma events_of_map:
  "distinct (map pp_id ps) \<Longrightarrow> p \<in> set ps \<Longrightarrow> (\<And>q. sv_position (g q) = pp_id q) \<Longrightarrow> events_of (pp_id p) (map g ps) = [g p]"
proof (induction ps)
  case (Cons q ps)
  have none: "events_of (pp_id q) (map g ps) = []"
    using Cons.prems(1,3) by (intro events_of_none) simp_all
  show ?case
  proof (cases "p = q")
    case False
    with Cons.prems have "p \<in> set ps" "pp_id q \<noteq> pp_id p" by auto
    then show ?thesis using Cons by simp
  qed (use none Cons.prems(3) in simp)
qed simp

lemma closed_by_refresh_ids:
  assumes "distinct (map pp_id ps)" and "p \<in> set ps"
  shows "distinct (map pp_id (closed_by_refresh now prices ps)) \<and>
    (pp_id p \<in> pp_id ` set (closed_by_refresh now prices ps) \<longleftrightarrow> refresh_position now prices p \<in> set (closed_by_refresh now prices ps))"
proof
  have ids: "map pp_id (map (refresh_position now prices) (filter (\<lambda>p. pp_status p = ''open'') ps)) = map pp_id (filter (\<lambda>p. pp_status p = ''open'') ps)"
    by simp
  have "distinct (map pp_id (filter (\<lambda>p. pp_status p = ''open'') ps))" using assms(1) by (rule distinct_map_filter)
  then show "distinct (map pp_id (closed_by_refresh now prices ps))"
    unfolding closed_by_refresh_def by (intro distinct_map_filter) (simp only: ids)
  show "pp_id p \<in> pp_id ` set (closed_by_refresh now prices ps) \<longleftrightarrow> refresh_position now prices p \<in> set (closed_by_refresh now prices ps)"
  proof
    assume "pp_id p \<in> pp_id ` set (closed_by_refresh now prices ps)"
    then obtain q where q: "q \<in> set ps" "pp_id q = pp_id p" "refresh_position now prices q \<in> set (closed_by_refresh now prices ps)"
      by (auto simp: closed_by_refresh_def)
    have "q = p" by (rule same_id [OF assms(1) q(1) assms(2) q(2)])
    with q(3) show "refresh_position now prices p \<in> set (closed_by_refresh now prices ps)" by simp
  qed (force intro: rev_image_eqI)
qed

lemma refresh_closes:
  assumes "pp_status p = ''open''" and "pp_status (refresh_position now prices p) \<noteq> ''open''"
  shows "closes (refresh_position now prices p) (closing_event prices (refresh_position now prices p))"
  using assms close_reason_status
  by (fastforce simp: closes_def closing_event_def refresh_position_def Let_def split: if_splits option.splits)

lemma accounts_refreshed: "accounts bk \<Longrightarrow> accounts (snd (refresh_open_positions now prices bk))"
proof -
  assume ok: "accounts bk"
  let ?cs = "closed_by_refresh now prices (bk_positions bk)" and ?new = "map (closing_event prices) (closed_by_refresh now prices (bk_positions bk))"
  have ids: "distinct (map pp_id (bk_positions bk))" using ok by (simp add: accounts_def)
  have event [simp]: "sv_position (closing_event prices q) = pp_id q" "\<not> opens (closing_event prices q)" for q
    by (simp_all add: closing_event_def opens_def)
  have member: "refresh_position now prices p \<in> set ?cs \<longleftrightarrow> pp_status p = ''open'' \<and> pp_status (refresh_position now prices p) \<noteq> ''open''"
    if "p \<in> set (bk_positions bk)" for p
  proof
    assume "refresh_position now prices p \<in> set ?cs"
    then obtain q where q: "q \<in> set (bk_positions bk)" "pp_status q = ''open''" "refresh_position now prices q = refresh_position now prices p"
      "pp_status (refresh_position now prices p) \<noteq> ''open''" by (auto simp: closed_by_refresh_def)
    have "q = p" using same_id [OF ids q(1) that] arg_cong [OF q(3), of pp_id] by simp
    with q show "pp_status p = ''open'' \<and> pp_status (refresh_position now prices p) \<noteq> ''open''" by simp
  qed (use that in \<open>auto simp: closed_by_refresh_def\<close>)
  have "accounted (refresh_position now prices p) (es @ events_of (pp_id p) ?new)" if p: "p \<in> set (bk_positions bk)" and es: "accounted p es" for p es
  proof (cases "refresh_position now prices p \<in> set ?cs")
    case True
    have "events_of (pp_id (refresh_position now prices p)) ?new = [closing_event prices (refresh_position now prices p)]"
      using closed_by_refresh_ids [OF ids p] True by (intro events_of_map) simp_all
    then have one: "events_of (pp_id p) ?new = [closing_event prices (refresh_position now prices p)]" by simp
    have stati: "pp_status p = ''open''" "pp_status (refresh_position now prices p) \<noteq> ''open''" using True member [OF p] by simp_all
    show ?thesis unfolding one by (rule accounted_closed [OF es stati refresh_closes [OF stati]])
  next
    case False
    have none: "events_of (pp_id p) ?new = []"
      using closed_by_refresh_ids [OF ids p] False by (intro events_of_none) simp_all
    have "accounted (refresh_position now prices p) es"
    proof (cases "pp_status p = ''open''")
      case True
      then show ?thesis using False member [OF p] accounted_adjusted [OF es True, of "refresh_position now prices p" "[]"] by simp
    qed (use es in \<open>simp add: refresh_not_open\<close>)
    then show ?thesis by (simp add: none)
  qed
  moreover have "sv_position sv \<in> pp_id ` set (bk_positions bk)" if "sv \<in> set ?new" for sv
    using that by (auto simp: closed_by_refresh_def)
  ultimately have "accounts (bk\<lparr>bk_positions := map (refresh_position now prices) (bk_positions bk), bk_ledger := bk_ledger bk @ ?new\<rparr>)"
    by (intro accounts_mapped [OF ok]) (simp_all add: filter_empty_conv)
  then show ?thesis by (simp add: refresh_open_positions_def Let_def)
qed

text \<open>Changing the one position with an identifier, with one event of its own.\<close>

lemma accounts_changed:
  assumes ok: "accounts bk" and p: "p \<in> set (bk_positions bk)" "pp_id q = pp_id p" and event: "sv_position sv = pp_id p" "\<not> opens sv"
    and kept: "\<And>es. accounted p es \<Longrightarrow> accounted q (es @ [sv])"
  shows "accounts (bk\<lparr>bk_positions := map (\<lambda>x. if pp_id x = pp_id p then q else x) (bk_positions bk), bk_ledger := bk_ledger bk @ [sv]\<rparr>)"
proof (rule accounts_mapped [OF ok])
  have ids: "distinct (map pp_id (bk_positions bk))" using ok by (simp add: accounts_def)
  show "accounted (if pp_id x = pp_id p then q else x) (es @ events_of (pp_id x) [sv])"
    if x: "x \<in> set (bk_positions bk)" and es: "accounted x es" for x es
  proof (cases "pp_id x = pp_id p")
    case True
    then have "x = p" by (rule same_id [OF ids x p(1)])
    then show ?thesis using kept es event(1) by simp
  qed (use es event(1) in simp)
qed (use p event in auto)

lemma distinct_filter_eq: "distinct xs \<Longrightarrow> x \<in> set xs \<Longrightarrow> filter (\<lambda>y. y = x) xs = [x]"
  by (induction xs) (auto simp: filter_empty_conv)

lemma filter_by_key:
  assumes ids: "distinct (map f xs)" and x: "x \<in> set xs"
  shows "filter (\<lambda>y. f y = f x) xs = [x]"
proof -
  have "filter (\<lambda>y. f y = f x) xs = filter (\<lambda>y. y = x) xs"
    using same_id [OF ids _ x] by (intro filter_cong) auto
  moreover have "distinct xs" using ids by (simp add: distinct_map)
  ultimately show ?thesis using x by (simp add: distinct_filter_eq)
qed

lemma manually_closed_book:
  assumes "distinct (map pp_id (bk_positions bk))" and "p \<in> set (bk_positions bk)"
  shows "manual_close_position now (pp_id p) reason bk =
    bk\<lparr>bk_positions := map (\<lambda>x. if pp_id x = pp_id p then manually_closed now p else x) (bk_positions bk),
       bk_ledger := bk_ledger bk @ [\<lparr>sv_position = pp_id p, sv_type = ''trade_close'', sv_strategy = None, sv_reason = reason, sv_price = None,
         sv_pnl = pp_unrealized_pnl p\<rparr>]\<rparr>"
proof -
  have "filter (\<lambda>x. pp_id x = pp_id p) (bk_positions bk) = [p]"
    using assms by (rule filter_by_key)
  moreover have "map (\<lambda>x. if pp_id x = pp_id p then manually_closed now x else x) (bk_positions bk) =
      map (\<lambda>x. if pp_id x = pp_id p then manually_closed now p else x) (bk_positions bk)"
    using same_id [OF assms(1) _ assms(2)] by (intro map_cong) (auto dest: same_id [OF assms(1) _ assms(2)])
  ultimately show ?thesis by (simp add: manual_close_position_def)
qed

lemma accounts_closed:
  assumes "accounts bk" and "p \<in> set (bk_positions bk)" and "pp_status p = ''open''"
  shows "accounts (manual_close_position now (pp_id p) reason bk)"
proof -
  have "distinct (map pp_id (bk_positions bk))" using assms(1) by (simp add: accounts_def)
  from manually_closed_book [OF this assms(2)] show ?thesis
    using assms by (simp only:) (intro accounts_changed [OF assms(1,2)] accounted_closed [OF _ assms(3)],
      simp_all add: manually_closed_def opens_def closes_def)
qed

text \<open>A released intent: it opens a position, or acts on an open one of its user.\<close>

lemma actionable_member: "actionable_position it s = Some p \<Longrightarrow> p \<in> set (papers s) \<and> pp_status p = ''open''"
  by (auto simp: actionable_position_def split: option.splits dest!: found_member)

lemma action_kind:
  assumes run: "apply_position_action_intent me now fresh it s = (Inr (q, kind), t)"
  shows "(in_type it, kind) \<in> set [(''CLOSE_POSITION'', ''position_closed''), (''PARTIAL_CLOSE'', ''position_partial_close''),
    (''REVERSE_POSITION'', ''position_reversed''), (''MOVE_STOP'', ''position_stop_updated''), (''MOVE_TAKE_PROFIT'', ''position_take_profit_updated'')]"
proof -
  have pid: "str_or (in_position_id it) [] \<noteq> []"
    using run by (cases "str_or (in_position_id it) [] = []") (simp_all add: apply_position_action_intent_def)
  obtain p where p: "actionable_position it s = Some p"
    using run pid by (cases "actionable_position it s") (simp_all add: apply_position_action_intent_def)
  note unfolded = run [unfolded apply_position_action_intent_def Let_def p option.case, simplified pid if_False simp_thms]
  consider "in_type it = ''CLOSE_POSITION''" | "in_type it = ''PARTIAL_CLOSE''" | "in_type it = ''REVERSE_POSITION''"
    | "in_type it = ''MOVE_STOP''" | "in_type it = ''MOVE_TAKE_PROFIT''"
    using unfolded by (simp split: if_splits)
  then show ?thesis by cases (use unfolded in \<open>auto split: if_splits option.splits\<close>)
qed

lemma in_place_accounted:
  assumes run: "apply_position_action_intent me now fresh it s = (Inr (q, kind), t)" and p: "pp_status p = ''open''"
    and q: "q = closed_position now x p \<and> in_type it = ''CLOSE_POSITION'' \<or> q = partially_closed now x y p \<and> in_type it = ''PARTIAL_CLOSE'' \<or>
      (\<exists>v. q = p\<lparr>pp_stop_loss := v\<rparr>) \<and> in_type it = ''MOVE_STOP'' \<or> (\<exists>v. q = p\<lparr>pp_take_profit := v\<rparr>) \<and> in_type it = ''MOVE_TAKE_PROFIT''"
    and sv: "sv_type sv = kind"
  shows "pp_id q = pp_id p \<and> \<not> opens sv \<and> (accounted p es \<longrightarrow> accounted q (es @ [sv]))"
proof -
  have adjusted: "accounted q (es @ [sv])" if "pp_status q = ''open''" "adjusts sv" "accounted p es"
    using accounted_adjusted [OF that(3) p that(1), of "[sv]"] that(2) by simp
  have closed: "accounted q (es @ [sv])" if "pp_status q = ''closed''" "closes q sv" "accounted p es"
    using accounted_closed [OF that(3) p _ that(2)] that(1) by simp
  from q show ?thesis
  proof (elim disjE conjE exE)
    assume q: "q = closed_position now x p" and "in_type it = ''CLOSE_POSITION''"
    then have "sv_type sv = ''position_closed''" using action_kind [OF run] sv by simp
    then show ?thesis using closed by (simp add: q closed_position_def closes_def opens_def)
  next
    assume q: "q = partially_closed now x y p" and "in_type it = ''PARTIAL_CLOSE''"
    then have kind: "sv_type sv = ''position_partial_close''" using action_kind [OF run] sv by simp
    show ?thesis
    proof (cases "max (pp_quantity p - y) 0 \<le> 1 / 10 ^ 8")
      case True
      then have "pp_id q = pp_id p" "pp_status q = ''closed''" "pp_unrealized_pnl q = 0" "pp_quantity q \<le> 1 / 10 ^ 8"
        by (simp_all add: q partially_closed_def Let_def)
      then show ?thesis using closed by (simp add: kind closes_def opens_def)
    next
      case False
      then have "q = p\<lparr>pp_realized_pnl := pp_realized_pnl p + calc_realized_pnl p x y, pp_quantity := max (pp_quantity p - y) 0\<rparr>"
        by (simp only: q partially_closed_def Let_def if_False)
      then have "pp_id q = pp_id p" "pp_status q = ''open''" by (simp_all add: p)
      then show ?thesis using adjusted by (simp add: kind adjusts_def opens_def)
    qed
  next
    fix v assume q: "q = p\<lparr>pp_stop_loss := v\<rparr>" and "in_type it = ''MOVE_STOP''"
    then have "sv_type sv = ''position_stop_updated''" using action_kind [OF run] sv by simp
    then show ?thesis using adjusted p by (simp add: q adjusts_def opens_def)
  next
    fix v assume q: "q = p\<lparr>pp_take_profit := v\<rparr>" and "in_type it = ''MOVE_TAKE_PROFIT''"
    then have "sv_type sv = ''position_take_profit_updated''" using action_kind [OF run] sv by simp
    then show ?thesis using adjusted p by (simp add: q adjusts_def opens_def)
  qed
qed

lemma accounts_acted:
  assumes ok: "accounts bk" and fresh: "fresh \<notin> pp_id ` set (bk_positions bk)" and s: "papers s = bk_positions bk"
    and run: "apply_position_action_intent me now fresh it s = (Inr (q, kind), t)" and events: "ledger (record_ledger (pp_id q) kind i t) = ledger s @ events"
  shows "accounts \<lparr>bk_positions = papers t, bk_ledger = bk_ledger bk @ map intent_event events\<rparr>"
proof (cases rule: apply_position_action_cases [OF run])
  case (1 p)
  have p: "p \<in> set (bk_positions bk)" "pp_status p = ''open''" using actionable_member [OF 1(1)] s by simp_all
  have t: "papers t = map (\<lambda>x. if pp_id x = pp_id q then q else x) (bk_positions bk)" "ledger t = ledger s"
    using 1(3) s by (simp_all add: save_paper_def save_row_def)
  have new: "events = [\<lparr>le_position_id = pp_id q, le_event_type = kind, le_intent_id = i\<rparr>]"
    using events t(2) by (simp add: record_ledger_def)
  have kept: "pp_id q = pp_id p \<and> \<not> opens sv \<and> (accounted p es \<longrightarrow> accounted q (es @ [sv]))" if "sv_type sv = kind" for sv es
    by (rule in_place_accounted [OF run p(2) _ that]) (use 1(2) in blast)
  let ?sv = "intent_event \<lparr>le_position_id = pp_id q, le_event_type = kind, le_intent_id = i\<rparr>"
  have sv: "sv_type ?sv = kind" "sv_position ?sv = pp_id q" by (simp_all add: intent_event_def)
  have id: "pp_id q = pp_id p" using kept [OF sv(1)] by simp
  have "accounts (bk\<lparr>bk_positions := map (\<lambda>x. if pp_id x = pp_id p then q else x) (bk_positions bk), bk_ledger := bk_ledger bk @ [?sv]\<rparr>)"
    using kept [OF sv(1)] sv(2) id by (intro accounts_changed [OF ok p(1)]) simp_all
  then show ?thesis by (simp add: t(1) new id book_updated)
next
  case (2 p)
  have p: "p \<in> set (bk_positions bk)" "pp_status p = ''open''" using actionable_member [OF 2(1)] s by simp_all
  let ?c = "closed_position now (get_or (in_price it) (safe_price (me_ticker me (pp_symbol p)))) p"
  let ?leg = "intent_event \<lparr>le_position_id = pp_id p, le_event_type = ''position_reversed_close_leg'', le_intent_id = in_id it\<rparr>"
  let ?sv = "intent_event \<lparr>le_position_id = pp_id q, le_event_type = kind, le_intent_id = i\<rparr>"
  let ?bk = "bk\<lparr>bk_positions := map (\<lambda>x. if pp_id x = pp_id p then ?c else x) (bk_positions bk), bk_ledger := bk_ledger bk @ [?leg]\<rparr>"
  have q: "pp_id q = fresh" "pp_status q = ''open''" by (simp_all add: 2(3) reversed_position_def Let_def)
  have "accounts ?bk"
    by (rule accounts_changed [OF ok p(1)])
      (use accounted_closed [OF _ p(2)] in \<open>simp_all add: intent_event_def closed_position_def closes_def opens_def\<close>)
  then have "accounts (?bk\<lparr>bk_positions := bk_positions ?bk @ [q], bk_ledger := bk_ledger ?bk @ [?sv]\<rparr>)"
  proof (rule accounts_added)
    have "map pp_id (bk_positions ?bk) = map pp_id (bk_positions bk)" by (simp add: closed_position_def)
    from arg_cong [OF this, of set] have "pp_id ` set (bk_positions ?bk) = pp_id ` set (bk_positions bk)" by (simp only: set_map)
    then show "pp_id q \<notin> pp_id ` set (bk_positions ?bk)" using fresh q by simp
  qed (use q 2(4) in \<open>simp_all add: intent_event_def opens_def\<close>)
  moreover have "papers t = map (\<lambda>x. if pp_id x = pp_id p then ?c else x) (bk_positions bk) @ [q]"
    using 2(6) s by (simp add: save_row_def closed_position_def)
  moreover have "map intent_event events = [?leg, ?sv]" using events 2(7) by (auto simp: record_ledger_def)
  ultimately show ?thesis by (simp add: book_updated)
qed

lemma accounts_released:
  assumes ok: "accounts bk" and fresh: "fresh \<notin> pp_id ` set (bk_positions bk)" and s: "papers s = bk_positions bk"
    and run: "release_effect env fresh it s = (Inr q, t)" and events: "ledger t = ledger s @ events"
  shows "accounts \<lparr>bk_positions = papers t, bk_ledger = bk_ledger bk @ map intent_event events\<rparr>"
proof (cases "in_type it = ''OPEN_POSITION''")
  case True
  then obtain symbol where q: "q = opened_position (ie_market env) fresh it symbol" and t: "papers t = papers s @ [q]"
    "ledger t = ledger s @ [\<lparr>le_position_id = fresh, le_event_type = ''execution_order_released'', le_intent_id = in_id it\<rparr>]"
    using run by (auto simp: release_effect_def open_position_from_intent_def Let_def record_ledger_def split: sum.splits)
  have "pp_id q = fresh" "pp_status q = ''open''" by (simp_all add: q opened_position_def Let_def)
  then have "accounts (bk\<lparr>bk_positions := bk_positions bk @ [q], bk_ledger := bk_ledger bk @
      [intent_event \<lparr>le_position_id = fresh, le_event_type = ''execution_order_released'', le_intent_id = in_id it\<rparr>]\<rparr>)"
    using fresh by (intro accounts_added [OF ok]) (simp_all add: intent_event_def opens_def)
  then show ?thesis using events by (auto simp: t s book_updated)
next
  case False
  then obtain kind u where run': "apply_position_action_intent (ie_market env) (ie_now env) fresh it s = (Inr (q, kind), u)"
    and t: "t = record_ledger (pp_id q) kind (in_id it) u"
    using run by (auto simp: release_effect_def split: prod.splits sum.splits)
  show ?thesis
    using accounts_acted [OF ok fresh s run'] events by (simp add: t)
qed

lemma accounts_step: "book_step bk bk' \<Longrightarrow> accounts bk \<Longrightarrow> accounts bk'"
proof (induction rule: book_step.induct)
  case (ordered fresh bk oq xp ec xr bk')
  from open_paper_position_cases [OF ordered.hyps(2)] show ?case
  proof
    assume "xr_position xr \<noteq> None \<and> bk' = add_position fresh oq bk"
    then show ?thesis
      using accounts_added [OF ordered.prems, of "position_opened fresh oq" "opening_event fresh oq"] ordered.hyps(1)
      by (simp add: add_position_def position_opened_def opening_event_def opens_def)
  qed (use ordered.prems in simp)
qed (simp_all add: accounts_refreshed accounts_closed accounts_released)

lemma accounts_steps: "book_step\<^sup>*\<^sup>* no_papers bk \<Longrightarrow> accounts bk"
proof (induction rule: rtranclp_induct)
  case base
  show ?case by (simp add: accounts_def no_papers_def)
qed (rule accounts_step)

text \<open>The pipeline moves its book by these steps only.\<close>

interpretation booked: spot_invariant "\<lambda>w. world_ok w \<and> book_step\<^sup>*\<^sup>* no_papers (sw_book w)"
proof
  fix w fsqrt mk bt user and cn :: spot_candidate
  assume w: "world_ok w \<and> book_step\<^sup>*\<^sup>* no_papers (sw_book w)" and spot: "cn_strategy cn \<in> set SPOT_STRATEGY_TYPES"
  have fresh: "nat_str (sw_next w) \<notin> pp_id ` set (bk_positions (sw_book w))"
    using w by (intro nat_str_fresh) (simp add: world_ok_def)
  have "book_step\<^sup>*\<^sup>* (sw_book w) (sw_book (process_candidate fsqrt mk bt user cn w))"
    unfolding process_candidate_def Let_def
    by (auto split: prod.split intro: book_step.ordered [OF fresh])
  then show "world_ok (process_candidate fsqrt mk bt user cn w) \<and> book_step\<^sup>*\<^sup>* no_papers (sw_book (process_candidate fsqrt mk bt user cn w))"
    using w spot ok.candidate by (blast intro: rtranclp_trans)
next
  show "world_ok w \<and> book_step\<^sup>*\<^sup>* no_papers (sw_book w) \<Longrightarrow> world_ok (w\<lparr>sw_book := snd (refresh_open_positions now prices (sw_book w))\<rparr>) \<and>
      book_step\<^sup>*\<^sup>* no_papers (sw_book (w\<lparr>sw_book := snd (refresh_open_positions now prices (sw_book w))\<rparr>))" for w now prices
    using ok.refresh [of w now prices] book_step.refreshed [of "sw_book w" now prices] by (auto intro: rtranclp.rtrancl_into_rtrancl)
next
  show "world_ok (w\<lparr>sw_book := bk\<rparr>) \<and> book_step\<^sup>*\<^sup>* no_papers (sw_book (w\<lparr>sw_book := bk\<rparr>))"
    if w: "world_ok w \<and> book_step\<^sup>*\<^sup>* no_papers (sw_book w)" and run: "close_position now user admin pid reason (sw_book w) = Inr bk"
    for w now user admin pid reason bk
  proof -
    obtain p where "p \<in> set (bk_positions (sw_book w))" "pp_id p = pid" "pp_status p = ''open''"
      and bk: "bk = manual_close_position now pid reason (sw_book w)" using close_position_Inr [OF run] by auto
    then have "book_step (sw_book w) bk" using book_step.closed by metis
    then show ?thesis using w ok.close [OF _ run] by (auto intro: rtranclp.rtrancl_into_rtrancl)
  qed
qed (use ok.cycle in simp)

lemma pipeline_books: "spot_reachable fsqrt w \<Longrightarrow> book_step\<^sup>*\<^sup>* no_papers (sw_book w)"
proof -
  have "world_ok empty_world \<and> book_step\<^sup>*\<^sup>* no_papers (sw_book empty_world)"
    by (simp add: world_ok_def empty_world_def open_keys_def no_papers_def)
  then show "spot_reachable fsqrt w \<Longrightarrow> book_step\<^sup>*\<^sup>* no_papers (sw_book w)"
    unfolding spot_reachable_def using booked.steps by blast
qed

section \<open>Properties\<close>


text \<open>An intent opens a position and another one closes it.\<close>

definition opened_paper :: paper_position where
  "opened_paper = opened_position (ie_market sample_intent_env) ''p1'' sample_intent ''BTCUSDT''"

definition closing_intent :: intent where
  "closing_intent = sample_intent\<lparr>in_id := ''i2'', in_type := ''CLOSE_POSITION'', in_position_id := Some ''p1'', in_price := Some 110\<rparr>"

definition opened_book :: spot_book where
  "opened_book = \<lparr>bk_positions = [opened_paper],
     bk_ledger = [intent_event \<lparr>le_position_id = ''p1'', le_event_type = ''execution_order_released'', le_intent_id = ''i1''\<rparr>]\<rparr>"

definition emptied_book :: spot_book where
  "emptied_book = \<lparr>bk_positions = [closed_position 5 110 opened_paper],
     bk_ledger = bk_ledger opened_book @ [intent_event \<lparr>le_position_id = ''p1'', le_event_type = ''position_closed'', le_intent_id = ''i2''\<rparr>]\<rparr>"

lemma opened_paper_fields: "pp_id opened_paper = ''p1''" "pp_user_id opened_paper = ''u1''" "pp_status opened_paper = ''open''"
  by (simp_all add: opened_paper_def opened_position_def Let_def sample_intent_def)

lemma intents_step_the_book: "book_step no_papers opened_book" "book_step opened_book emptied_book"
proof -
  have symbol: "normalize_symbol (me_quotes (ie_market sample_intent_env)) ''symbol_required_for_execution_order'' ''invalid_quote_asset''
      (Some (str_or (np_symbol (in_payload sample_intent)) (in_symbol sample_intent))) = Inr ''BTCUSDT''" by code_simp
  have kind: "in_type sample_intent = ''OPEN_POSITION''" "in_id sample_intent = ''i1''" by (simp_all add: sample_intent_def)
  obtain t where "release_effect sample_intent_env ''p1'' sample_intent empty_intents = (Inr opened_paper, t)" "papers t = [opened_paper]"
    "ledger t = [\<lparr>le_position_id = ''p1'', le_event_type = ''execution_order_released'', le_intent_id = ''i1''\<rparr>]"
    by (simp add: release_effect_def open_position_from_intent_def Let_def record_ledger_def symbol kind flip: opened_paper_def)
      (simp add: empty_intents_def)
  then show "book_step no_papers opened_book"
    using book_step.released [of "''p1''" no_papers empty_intents sample_intent_env sample_intent opened_paper t]
    by (simp add: no_papers_def opened_book_def empty_intents_def)
  let ?s = "empty_intents\<lparr>papers := [opened_paper]\<rparr>"
  obtain u where "release_effect sample_intent_env ''p2'' closing_intent ?s = (Inr (closed_position 5 110 opened_paper), u)"
    "papers u = [closed_position 5 110 opened_paper]"
    "ledger u = [\<lparr>le_position_id = ''p1'', le_event_type = ''position_closed'', le_intent_id = ''i2''\<rparr>]"
    by (simp add: release_effect_def apply_position_action_intent_def actionable_position_def closing_intent_def Let_def record_ledger_def
        sample_intent_def opened_paper_fields save_paper_def save_row_def closed_position_def str_or_def sample_intent_env_def empty_intents_def)
  then show "book_step opened_book emptied_book"
    using book_step.released [of "''p2''" opened_book ?s sample_intent_env closing_intent "closed_position 5 110 opened_paper" u]
    by (simp add: opened_book_def emptied_book_def empty_intents_def opened_paper_fields)
qed


end
