(* ===== verification/Unified_Positions.thy ===== *)
theory Unified_Positions
  imports Correlation_Clusters Spot_Risk
begin

text \<open>
  The first half of \<open>services/unified_risk_core_service.py\<close>: the positions a run looks at, as given
  or from the table of paper positions, the shocks of a scenario, the rules of an exchange, the
  liquidation price of each position, the exposure of the portfolio and the budgets of its
  strategies.

  A field of an input is optional; \<open>None\<close> stands for a missing key and for a value that
  \<open>_safe_float\<close> or \<open>_safe_int\<close> cannot read. An input state that is empty counts as none.
\<close>

section \<open>Positions\<close>

record position_input =
  pi_symbol :: "string option"
  pi_side :: "string option"
  pi_quantity :: "num option"
  pi_entry :: "num option"
  pi_mark :: "num option"
  pi_leverage :: "int option"
  pi_mode :: "string option"
  pi_strategy :: "string option"
  pi_isolated :: "num option"

record risk_position =
  up_symbol :: string
  up_side :: string
  up_quantity :: num
  up_entry :: num
  up_mark :: num
  up_leverage :: int
  up_mode :: string
  up_strategy :: string
  up_isolated :: num

definition tick :: num where "tick = 1 / 10000"
definition tiny :: num where "tiny = 1 / 1000000"

definition default_position_from_input :: "position_input \<Rightarrow> num \<Rightarrow> risk_position" where
  "default_position_from_input raw fallback =
     (let entry = max (get_or (pi_entry raw) fallback) tick in
      \<lparr>up_symbol = upper_or (pi_symbol raw) ''BTCUSDT'', up_side = upper_or (pi_side raw) ''LONG'',
       up_quantity = max (get_or (pi_quantity raw) 0) 0, up_entry = entry, up_mark = max (get_or (pi_mark raw) entry) tick,
       up_leverage = max (get_or (pi_leverage raw) 1) 1, up_mode = lower (str_or (pi_mode raw) ''cross''),
       up_strategy = str_or (pi_strategy raw) ''default'', up_isolated = get_or (pi_isolated raw) 0\<rparr>)"

text \<open>A row of the table of paper positions.\<close>

definition risk_position_of_row :: "num \<Rightarrow> paper_position \<Rightarrow> risk_position" where
  "risk_position_of_row fallback row =
     (let mark = max (pp_entry_price row) tick in
      \<lparr>up_symbol = upper (str_or (Some (pp_symbol row)) ''BTCUSDT''),
       up_side = (if upper (str_or (Some (pp_side row)) ''LONG'') \<in> {''BUY'', ''LONG''} then ''LONG'' else ''SHORT''),
       up_quantity = max (pp_quantity row) 0, up_entry = max (pp_entry_price row) tick, up_mark = mark,
       up_leverage = max (pp_leverage row) 1, up_mode = ''cross'', up_strategy = ''default'', up_isolated = 0\<rparr>)"

section \<open>Input states and scenarios\<close>

record account_input =
  ai_equity :: "num option"
  ai_free :: "num option"
  ai_used :: "num option"

record input_state =
  is_account :: "account_input option"
  is_positions :: "position_input list"
  is_budgets :: "string \<Rightarrow> num option"
  is_series :: "string \<Rightarrow> num list"
  is_spike :: bool
  is_returns :: "num list"

text \<open>A scenario with its shocks by name: a base currency, \<open>ALT\<close>, \<open>correlation\<close> or \<open>liquidity\<close>.\<close>

record scenario =
  sn_id :: string
  sn_shocks :: "string \<Rightarrow> num option"

definition symbol_base :: "string \<Rightarrow> string" where
  "symbol_base symbol = (let s = upper symbol in if endswith s ''USDT'' then take (length s - 4) s else s)"

definition sector_group :: "string \<Rightarrow> string" where
  "sector_group symbol =
     (let base = symbol_base symbol in
      if base \<in> {''BTC'', ''ETH''} then ''majors''
      else if base \<in> {''SOL'', ''AVAX'', ''ARB'', ''OP'', ''MATIC''} then ''alts_l1_l2''
      else if base \<in> {''LINK'', ''UNI'', ''AAVE''} then ''defi_beta'' else ''others'')"

definition shocked_position :: "(string \<Rightarrow> num option) \<Rightarrow> position_input \<Rightarrow> position_input" where
  "shocked_position shocks row =
     (let base = symbol_base (upper (str_or (pi_symbol row) []));
          shock = (case shocks base of Some x \<Rightarrow> x
            | None \<Rightarrow> get_or (shocks (if base \<in> {''BTC'', ''ETH''} then ''BTC'' else ''ALT'')) 0);
          mark = max (get_or (pi_mark row) (get_or (pi_entry row) 1)) tick;
          effective = shock + get_or (shocks ''correlation'') 0 * (5 / 100) + get_or (shocks ''liquidity'') 0 * (2 / 100)
      in row\<lparr>pi_mark := Some (max (mark * (1 + effective)) tick)\<rparr>)"

definition apply_scenario :: "input_state option \<Rightarrow> scenario option \<Rightarrow> input_state option" where
  "apply_scenario st scn =
     (case (st, scn) of
        (Some inp, Some sn) \<Rightarrow>
          (let shocks = sn_shocks sn; btc = get_or (shocks ''BTC'') 0; alt = get_or (shocks ''ALT'') 0 in
           Some (inp\<lparr>is_positions := map (shocked_position shocks) (is_positions inp),
                     is_spike := (is_spike inp \<or> 75 / 100 \<le> get_or (shocks ''correlation'') 0),
                     is_returns := (if btc \<le> - (12 / 100) \<or> alt \<le> - (2 / 10)
                       then replicate 80 (- \<bar>get_or (shocks ''BTC'') (- (1 / 10))\<bar>) else is_returns inp)\<rparr>))
      | _ \<Rightarrow> st)"

text \<open>The positions of the input when it has any, else the open rows of the user.\<close>

definition load_positions :: "paper_position list option \<Rightarrow> string \<Rightarrow> input_state option \<Rightarrow> num \<Rightarrow> risk_position list" where
  "load_positions db user st fallback =
     (let provided = (case st of None \<Rightarrow> [] | Some inp \<Rightarrow> is_positions inp) in
      if provided \<noteq> [] then map (\<lambda>row. default_position_from_input row fallback) provided
      else case db of None \<Rightarrow> [] | Some rows \<Rightarrow> map (risk_position_of_row fallback) (open_of_user user rows))"

record account_state =
  ac_equity :: num
  ac_used :: num
  ac_free :: num

definition resolve_account_state :: "num option \<Rightarrow> input_state option \<Rightarrow> account_state" where
  "resolve_account_state base_capital st =
     (let given = (case st of None \<Rightarrow> None | Some inp \<Rightarrow> is_account inp);
          account = (case given of Some a \<Rightarrow> a
            | None \<Rightarrow> (case base_capital of None \<Rightarrow> \<lparr>ai_equity = None, ai_free = None, ai_used = None\<rparr>
                | Some c \<Rightarrow> \<lparr>ai_equity = Some c, ai_free = Some c, ai_used = Some 0\<rparr>));
          equity = max (get_or (ai_equity account) 10000) 1; used = max (get_or (ai_used account) 0) 0
      in \<lparr>ac_equity = py_round 6 equity, ac_used = py_round 6 used,
          ac_free = py_round 6 (max (get_or (ai_free account) (equity - used)) 0)\<rparr>)"

section \<open>The rules of an exchange\<close>

record symbol_rule =
  sr_max_leverage :: int
  sr_haircut :: num
  sr_tiers :: "(num \<times> num) list"

record ruleset =
  rs_name :: string
  rs_maintenance :: num
  rs_fee :: num
  rs_haircut :: num
  rs_max_leverage :: int
  rs_rules :: "(string \<times> symbol_rule) list"

definition symbol_rule_of :: "int \<Rightarrow> num \<Rightarrow> (num \<times> num) list \<Rightarrow> symbol_rule" where
  "symbol_rule_of leverage haircut tiers = \<lparr>sr_max_leverage = leverage, sr_haircut = haircut, sr_tiers = tiers\<rparr>"

definition binance_rules :: ruleset where
  "binance_rules = \<lparr>rs_name = ''binance'', rs_maintenance = 5 / 1000, rs_fee = 6 / 10000, rs_haircut = 2 / 100, rs_max_leverage = 125,
     rs_rules = [(''BTCUSDT'', symbol_rule_of 125 (98 / 100)
                    [(50000, 45 / 10000), (250000, 5 / 1000), (1000000, 75 / 10000), (999999999, 1 / 100)]),
                 (''ETHUSDT'', symbol_rule_of 100 (975 / 1000)
                    [(30000, 5 / 1000), (150000, 6 / 1000), (800000, 9 / 1000), (999999999, 12 / 1000)])]\<rparr>"

definition bybit_rules :: ruleset where
  "bybit_rules = \<lparr>rs_name = ''bybit'', rs_maintenance = 55 / 10000, rs_fee = 7 / 10000, rs_haircut = 22 / 1000, rs_max_leverage = 100,
     rs_rules = [(''BTCUSDT'', symbol_rule_of 100 (975 / 1000)
                    [(40000, 5 / 1000), (200000, 6 / 1000), (900000, 85 / 10000), (999999999, 115 / 10000)]),
                 (''ETHUSDT'', symbol_rule_of 80 (97 / 100)
                    [(25000, 55 / 10000), (120000, 65 / 10000), (600000, 95 / 10000), (999999999, 13 / 1000)])]\<rparr>"

definition RULESETS :: "(string \<times> ruleset) list" where
  "RULESETS = [(''binance'', binance_rules), (''bybit'', bybit_rules)]"

definition get_ruleset :: "string \<Rightarrow> ruleset" where
  "get_ruleset name = get_or (map_of RULESETS (lower (strip (str_or (Some name) ''binance'')))) binance_rules"

definition default_rule :: "ruleset \<Rightarrow> symbol_rule" where
  "default_rule rs = symbol_rule_of (rs_max_leverage rs) (1 - rs_haircut rs)
     [(50000, rs_maintenance rs), (999999999, rs_maintenance rs * (14 / 10))]"

text \<open>The first tier that is large enough.\<close>

fun tier_rate :: "num \<Rightarrow> (num \<times> num) list \<Rightarrow> num \<Rightarrow> num" where
  "tier_rate base [] notional = base"
| "tier_rate base ((max_notional, rate) # tiers) notional =
     (if notional \<le> max_notional then num_or (Some rate) base else tier_rate base tiers notional)"

record resolved_rule =
  rr_max_leverage :: int
  rr_haircut :: num
  rr_rate :: num

definition resolve_symbol_rule :: "ruleset \<Rightarrow> string \<Rightarrow> num \<Rightarrow> resolved_rule" where
  "resolve_symbol_rule rs symbol notional =
     (let rule = get_or (map_of (rs_rules rs) (upper symbol)) (default_rule rs);
          tiers = (if sr_tiers rule = [] then sr_tiers (default_rule rs) else sr_tiers rule)
      in \<lparr>rr_max_leverage = max (sr_max_leverage rule) 1, rr_haircut = max (min (sr_haircut rule) 1) (8 / 10),
          rr_rate = max (tier_rate (rs_maintenance rs) tiers notional) (1 / 1000)\<rparr>)"

section \<open>Liquidation\<close>

record liquidation_row =
  lq_symbol :: string
  lq_side :: string
  lq_notional :: num
  lq_initial_margin :: num
  lq_maintenance_margin :: num
  lq_pnl :: num
  lq_margin_ratio :: num
  lq_price :: num
  lq_buffer :: num

definition notional_of :: "risk_position \<Rightarrow> num" where
  "notional_of p = \<bar>up_quantity p * up_mark p\<bar>"

text \<open>The margin a position can lose before it has to be maintained, and the price at which it is lost.\<close>

definition effective_margin :: "ruleset \<Rightarrow> num \<Rightarrow> risk_position \<Rightarrow> num" where
  "effective_margin rs cross_share p =
     (let notional = max (notional_of p) tick; rule = resolve_symbol_rule rs (up_symbol p) notional;
          initial = notional / of_int (max (min (up_leverage p) (rr_max_leverage rule)) 1);
          pnl = (up_mark p - up_entry p) * up_quantity p * (if up_side p = ''LONG'' then 1 else - 1);
          own = max (up_isolated p) 0;
          collateral = max (if up_mode p = ''isolated'' \<and> 0 < own then own else cross_share) initial
      in collateral * rr_haircut rule + pnl - notional * rs_fee rs - initial * rs_haircut rs)"

definition maintenance_margin :: "ruleset \<Rightarrow> risk_position \<Rightarrow> num" where
  "maintenance_margin rs p =
     (let notional = max (notional_of p) tick in notional * rr_rate (resolve_symbol_rule rs (up_symbol p) notional))"

definition liquidation_price :: "ruleset \<Rightarrow> num \<Rightarrow> risk_position \<Rightarrow> num" where
  "liquidation_price rs cross_share p =
     (let distance = (effective_margin rs cross_share p - maintenance_margin rs p) / max (up_quantity p) tick
      in max (if up_side p = ''LONG'' then up_mark p - distance else up_mark p + distance) tick)"

definition liquidation_buffer :: "ruleset \<Rightarrow> num \<Rightarrow> risk_position \<Rightarrow> num" where
  "liquidation_buffer rs cross_share p = \<bar>(up_mark p - liquidation_price rs cross_share p) / up_mark p\<bar> * 100"

definition compute_liquidation :: "ruleset \<Rightarrow> num \<Rightarrow> risk_position \<Rightarrow> liquidation_row" where
  "compute_liquidation rs cross_share p =
     (let notional = max (notional_of p) tick; rule = resolve_symbol_rule rs (up_symbol p) notional;
          initial = notional / of_int (max (min (up_leverage p) (rr_max_leverage rule)) 1);
          pnl = (up_mark p - up_entry p) * up_quantity p * (if up_side p = ''LONG'' then 1 else - 1)
      in \<lparr>lq_symbol = up_symbol p, lq_side = up_side p, lq_notional = py_round 6 notional, lq_initial_margin = py_round 6 initial,
          lq_maintenance_margin = py_round 6 (maintenance_margin rs p), lq_pnl = py_round 6 pnl,
          lq_margin_ratio = py_round 6 (effective_margin rs cross_share p / maintenance_margin rs p),
          lq_price = py_round 6 (liquidation_price rs cross_share p), lq_buffer = py_round 6 (liquidation_buffer rs cross_share p)\<rparr>)"

text \<open>Cross positions share the free collateral by their notional value.\<close>

definition cross_share_of :: "risk_position list \<Rightarrow> num \<Rightarrow> risk_position \<Rightarrow> num" where
  "cross_share_of ps free p =
     (if up_mode p = ''isolated'' then 0
      else free * (notional_of p / max (sum_list (map notional_of (filter (\<lambda>q. up_mode q \<noteq> ''isolated'') ps))) tiny))"

definition liquidation_rows :: "ruleset \<Rightarrow> num \<Rightarrow> risk_position list \<Rightarrow> liquidation_row list" where
  "liquidation_rows rs free ps = map (\<lambda>p. compute_liquidation rs (cross_share_of ps free p) p) ps"

section \<open>Exposure of the portfolio\<close>

text \<open>\<open>d[k] = d.get(k, 0.0) + v\<close> over a list: a dictionary in the order of its first insertions.\<close>

fun add_amount :: "string \<Rightarrow> num \<Rightarrow> (string \<times> num) list \<Rightarrow> (string \<times> num) list" where
  "add_amount k v [] = [(k, v)]"
| "add_amount k v ((k', w) # d) = (if k = k' then (k', w + v) # d else (k', w) # add_amount k v d)"

definition amounts :: "(string \<times> num) list \<Rightarrow> (string \<times> num) list" where
  "amounts rows = fold (\<lambda>(k, v). add_amount k v) rows []"

record portfolio_metrics =
  pm_gross :: num
  pm_net :: num
  pm_long :: num
  pm_short :: num
  pm_hedged :: num
  pm_leverage :: num
  pm_symbols :: "(string \<times> num) list"
  pm_strategies :: "(string \<times> num) list"

definition directional_notional :: "string \<Rightarrow> liquidation_row list \<Rightarrow> num" where
  "directional_notional side rows = sum_list (map lq_notional (filter (\<lambda>r. lq_side r = side) rows))"

definition ranked_amounts :: "(string \<times> num) list \<Rightarrow> (string \<times> num) list" where
  "ranked_amounts rows = map (\<lambda>(k, v). (k, py_round 6 v)) (sort_desc snd (amounts rows))"

definition portfolio_metrics_of :: "risk_position list \<Rightarrow> liquidation_row list \<Rightarrow> num \<Rightarrow> portfolio_metrics" where
  "portfolio_metrics_of ps rows equity =
     (let long = directional_notional ''LONG'' rows; short = directional_notional ''SHORT'' rows in
      \<lparr>pm_gross = py_round 6 (long + short), pm_net = py_round 6 (long - short), pm_long = py_round 6 long, pm_short = py_round 6 short,
       pm_hedged = py_round 6 (min long short), pm_leverage = py_round 6 ((long + short) / max equity 1),
       pm_symbols = ranked_amounts (map (\<lambda>r. (lq_symbol r, lq_notional r)) rows),
       pm_strategies = ranked_amounts (map (\<lambda>p. (up_strategy p, notional_of p)) ps)\<rparr>)"

section \<open>Budgets of the strategies\<close>

record allocation_row =
  al_strategy :: string
  al_share :: num
  al_budget :: num
  al_breach :: bool

record risk_capital =
  kc_equity :: num
  kc_used :: num
  kc_free :: num
  kc_usage :: num
  kc_allocation :: "allocation_row list"
  kc_breaches :: nat

definition allocation_of :: "num \<Rightarrow> (string \<Rightarrow> num option) \<Rightarrow> string \<times> num \<Rightarrow> allocation_row" where
  "allocation_of equity budgets = (\<lambda>(strategy, exposure).
     (let share = exposure / equity * 100; budget = get_or (budgets strategy) 25 in
      \<lparr>al_strategy = strategy, al_share = py_round 6 share, al_budget = py_round 6 budget, al_breach = (budget < share)\<rparr>))"

definition capital_governance :: "num \<Rightarrow> (string \<times> num) list \<Rightarrow> liquidation_row list \<Rightarrow> (string \<Rightarrow> num option) \<Rightarrow> risk_capital" where
  "capital_governance account_equity exposures rows budgets =
     (let equity = max (num_or (Some account_equity) 1) 1; used = sum_list (map lq_initial_margin rows);
          allocation = map (allocation_of equity budgets) exposures
      in \<lparr>kc_equity = py_round 6 equity, kc_used = py_round 6 used, kc_free = py_round 6 (max (equity - used) 0),
          kc_usage = py_round 6 (used / equity * 100), kc_allocation = allocation, kc_breaches = length (filter al_breach allocation)\<rparr>)"

section \<open>What the dictionaries hold\<close>

lemma add_amount_sum: "sum_list (map snd (add_amount k v d)) = sum_list (map snd d) + v"
  by (induction d) (auto simp: add.commute add.left_commute)

lemma add_amount_keys: "map fst (add_amount k v d) = (if k \<in> set (map fst d) then map fst d else map fst d @ [k])"
  by (induction d) (auto simp: image_iff Bex_def)

lemma add_amount_distinct: "distinct (map fst d) \<Longrightarrow> distinct (map fst (add_amount k v d))"
  by (simp add: add_amount_keys del: set_map)

lemma add_amount_lookup: "get_or (map_of (add_amount k v d) j) 0 = get_or (map_of d j) 0 + (if j = k then v else 0)"
  by (induction d) auto

lemma amounts_snoc: "amounts (rows @ [(k, v)]) = add_amount k v (amounts rows)"
  by (simp add: amounts_def)

lemma amounts_sum: "sum_list (map snd (amounts rows)) = sum_list (map snd rows)"
  by (induction rows rule: rev_induct) (auto simp: amounts_def add_amount_sum)

lemma amounts_distinct: "distinct (map fst (amounts rows))"
  by (induction rows rule: rev_induct) (auto simp: amounts_def add_amount_distinct)

lemma amounts_lookup: "get_or (map_of (amounts rows) k) 0 = sum_list (map snd (filter (\<lambda>r. fst r = k) rows))"
  by (induction rows rule: rev_induct) (auto simp: amounts_def add_amount_lookup)

section \<open>Margins and collateral\<close>

lemma tick_pos [simp]: "0 < tick" "0 \<le> tick" and tiny_pos [simp]: "0 < tiny" "0 \<le> tiny"
  by (simp_all add: tick_def tiny_def)

lemma notional_nonneg [simp]: "0 \<le> notional_of p"
  by (simp add: notional_of_def)

lemma maintenance_pos: "0 < maintenance_margin rs p"
  by (simp add: maintenance_margin_def Let_def resolve_symbol_rule_def less_max_iff_disj)

lemma default_position_ok:
  "tick \<le> up_mark (default_position_from_input raw fallback) \<and> tick \<le> up_entry (default_position_from_input raw fallback) \<and>
   0 \<le> up_quantity (default_position_from_input raw fallback) \<and> 1 \<le> up_leverage (default_position_from_input raw fallback)"
  by (simp add: default_position_from_input_def Let_def)

lemma table_position_ok:
  "tick \<le> up_mark (risk_position_of_row fallback row) \<and> tick \<le> up_entry (risk_position_of_row fallback row) \<and>
   0 \<le> up_quantity (risk_position_of_row fallback row) \<and> 1 \<le> up_leverage (risk_position_of_row fallback row)"
  by (simp add: risk_position_of_row_def Let_def)

text \<open>Every position that a run looks at is well formed, so clamping its fields again changes nothing.\<close>

lemma loaded_positions_ok:
  "p \<in> set (load_positions db user st fallback) \<Longrightarrow>
     tick \<le> up_mark p \<and> tick \<le> up_entry p \<and> 0 \<le> up_quantity p \<and> 1 \<le> up_leverage p"
  using default_position_ok table_position_ok by (force simp: load_positions_def Let_def split: option.splits if_splits)

lemma sum_list_divide: "sum_list (map (\<lambda>x. f x / c) xs) = sum_list (map f xs) / c" for c :: num
  by (induction xs) (simp_all add: add_divide_distrib)

lemma shares_of_part: "sum_list (map (cross_share_of ps free) qs) =
    free * (sum_list (map notional_of (filter (\<lambda>q. up_mode q \<noteq> ''isolated'') qs)) /
      max (sum_list (map notional_of (filter (\<lambda>q. up_mode q \<noteq> ''isolated'') ps))) tiny)"
  by (induction qs) (simp_all add: cross_share_of_def add_divide_distrib distrib_left)

text \<open>
  The free collateral is shared among the cross positions: the shares are not negative and together
  not more than what is free, and isolated positions get none.
\<close>

theorem collateral_is_shared_once:
  assumes "0 \<le> free"
  shows "sum_list (map (cross_share_of ps free) ps) \<le> free \<and>
    list_all (\<lambda>p. 0 \<le> cross_share_of ps free p \<and> (if up_mode p = ''isolated'' then cross_share_of ps free p = 0 else True)) ps"
proof -
  let ?s = "sum_list (map notional_of (filter (\<lambda>q. up_mode q \<noteq> ''isolated'') ps))"
  have pos: "0 < max ?s tiny" by (rule less_le_trans [OF tiny_pos(1)]) simp
  have "?s / max ?s tiny \<le> 1" using pos by simp
  then have "free * (?s / max ?s tiny) \<le> free" using assms mult_left_mono by fastforce
  then show ?thesis unfolding shares_of_part using assms pos
    by (auto simp: list_all_iff cross_share_of_def intro!: mult_nonneg_nonneg divide_nonneg_pos)
qed

text \<open>
  The liquidation buffer is a distance without a sign: a long position that is past its liquidation
  price by a given share of its value shows that share as its buffer. A position that has lost more
  than its margin by a tenth of its value raises not even the first of the alarms.
\<close>

theorem lost_position_looks_safe:
  assumes "up_side p = ''LONG''" and "tick \<le> up_quantity p" and "0 < up_mark p" 
    and "effective_margin rs share p + c / 100 * notional_of p \<le> maintenance_margin rs p" and "0 \<le> c" and "on_grid 6 c"
  shows "c \<le> lq_buffer (compute_liquidation rs share p)"
proof -
  let ?q = "up_quantity p" and ?m = "up_mark p" and ?gap = "maintenance_margin rs p - effective_margin rs share p"
  have q: "0 < ?q" using assms(2) by (rule less_le_trans [OF tick_pos(1)])
  have n: "notional_of p = ?q * ?m" using q assms(3) by (simp add: notional_of_def)
  have gap: "c / 100 * (?q * ?m) \<le> ?gap" using assms(4) n by simp
  moreover have "0 \<le> c / 100 * (?q * ?m)" using assms(3,5) q by simp
  ultimately have nonneg: "0 \<le> ?gap / ?q" using q by simp
  have share: "c / 100 \<le> ?gap / ?q / ?m" using gap q assms(3) by (simp add: field_simps)
  have "liquidation_price rs share p = max (?m - (effective_margin rs share p - maintenance_margin rs p) / ?q) tick"
    using assms(1,2) by (simp add: liquidation_price_def max_absorb1)
  also have "(effective_margin rs share p - maintenance_margin rs p) / ?q = - (?gap / ?q)" by (simp add: minus_divide_left)
  finally have price: "?m + ?gap / ?q \<le> liquidation_price rs share p" by simp
  have "?gap / ?q / ?m \<le> (liquidation_price rs share p - ?m) / ?m"
    using price assms(3) by (intro divide_right_mono) simp_all
  also have "\<dots> \<le> \<bar>(?m - liquidation_price rs share p) / ?m\<bar>"
    by (metis abs_ge_self abs_minus_commute abs_divide minus_diff_eq minus_divide_left abs_minus_cancel)
  finally have "c / 100 \<le> \<bar>(?m - liquidation_price rs share p) / ?m\<bar>" using share by linarith
  then have "c \<le> liquidation_buffer rs share p" unfolding liquidation_buffer_def by (simp only: mult.commute [of _ 100] pos_divide_le_eq zero_less_numeral)
  then show ?thesis unfolding compute_liquidation_def Let_def by (simp add: py_round_ge assms(6))
qed

definition lost_position :: risk_position where
  "lost_position = \<lparr>up_symbol = ''BTCUSDT'', up_side = ''LONG'', up_quantity = 1, up_entry = 100, up_mark = 50, up_leverage = 10,
     up_mode = ''isolated'', up_strategy = ''default'', up_isolated = 10\<rparr>"

theorem lost_position_looks_safe_witness:
  "80 \<le> lq_buffer (compute_liquidation binance_rules 0 lost_position)"
  by (rule lost_position_looks_safe) code_simp+

end
