(* ===== verification/Unified_Exposure.thy ===== *)
theory Unified_Exposure
  imports Unified_Positions
begin

text \<open>
  The second half of the measurements of \<open>services/unified_risk_core_service.py\<close>: price series,
  clusters with their concentration, tail risk with its stress scenarios, and the use of the
  strategy budgets. The prices of the execution manifest, the square root and the number of
  earlier breaches of a strategy are arguments.
\<close>

section \<open>Price series\<close>

definition base_prices :: "num list \<Rightarrow> num list" where
  "base_prices replay = (if replay = [] then map (\<lambda>k. 100 + of_nat k * (2 / 10)) [0..<240] else last_n 240 replay)"

text \<open>The prices of a symbol that has none of its own: the returns of the base, damped by the place of
  the position, from its mark price on. The newest price stands first in the recursion.\<close>

definition price_step :: "num list \<Rightarrow> num \<Rightarrow> num list" where
  "price_step newest_first r = max (hd newest_first * (1 + r)) tick # newest_first"

definition synthetic_series :: "num list \<Rightarrow> nat \<Rightarrow> num \<Rightarrow> num list" where
  "synthetic_series base_returns k seed =
     (let damp = max (4 / 10) (1 - of_nat k * (8 / 100))
      in last_n 180 (rev (foldl price_step [max seed tick] (last_n 180 (map (\<lambda>r. r * damp) base_returns)))))"

definition symbol_series :: "num list \<Rightarrow> (string \<Rightarrow> num list) \<Rightarrow> nat \<Rightarrow> risk_position \<Rightarrow> num list" where
  "symbol_series replay provided k p =
     (let own = provided (upper (up_symbol p)) in
      if 30 \<le> length own then map (\<lambda>x. max x tick) (last_n 240 own)
      else synthetic_series (relative_steps (base_prices replay)) k (up_mark p))"

text \<open>\<open>d[k] = v\<close>: an earlier entry keeps its place and takes the new value.\<close>

fun put :: "'k \<Rightarrow> 'v \<Rightarrow> ('k \<times> 'v) list \<Rightarrow> ('k \<times> 'v) list" where
  "put k v [] = [(k, v)]"
| "put k v ((k', w) # d) = (if k = k' then (k, v) # d else (k', w) # put k v d)"

definition build_symbol_series :: "risk_position list \<Rightarrow> num list \<Rightarrow> (string \<Rightarrow> num list) \<Rightarrow> (string \<times> num list) list" where
  "build_symbol_series ps replay provided =
     fold (\<lambda>(k, p). put (upper (up_symbol p)) (symbol_series replay provided k p)) (enumerate 0 ps) []"

section \<open>Clusters\<close>

definition pearson_clamped :: "(num \<Rightarrow> num) \<Rightarrow> num list \<Rightarrow> num list \<Rightarrow> num" where
  "pearson_clamped fsqrt xs ys =
     (let n = min (length xs) (length ys); x = last_n n xs; y = last_n n ys in
      if length xs < 3 \<or> length ys < 3 \<or> variance x \<le> 0 \<or> variance y \<le> 0 then 0
      else max (min (covariance x y / (fsqrt (variance x) * fsqrt (variance y))) 1) (- 1))"

text \<open>The correlation of two symbols over a window, as the matrix of that window stores it.\<close>

definition window_correlation :: "(num \<Rightarrow> num) \<Rightarrow> (string \<times> num list) list \<Rightarrow> nat \<Rightarrow> string \<Rightarrow> string \<Rightarrow> num" where
  "window_correlation fsqrt series window left right =
     (let returns = (\<lambda>s. relative_steps (last_n (window + 1) (get_or (map_of series s) [])))
      in py_round 6 (pearson_clamped fsqrt (returns left) (returns right)))"

text \<open>A dictionary over the positions: the last position of a symbol counts.\<close>

definition symbol_notional :: "risk_position list \<Rightarrow> (string \<times> num) list" where
  "symbol_notional ps = fold (\<lambda>p. put (upper (up_symbol p)) (notional_of p)) ps []"

definition direction_map :: "risk_position list \<Rightarrow> (string \<times> num) list" where
  "direction_map ps = amounts (map (\<lambda>p. (upper (up_symbol p),
     (if up_side p = ''LONG'' then 1 else - 1) * get_or (map_of (symbol_notional ps) (upper (up_symbol p))) 0)) ps)"

definition cluster_labels :: "string \<Rightarrow> string list" where
  "cluster_labels symbol = [''base:'' @ symbol_base symbol, ''sector:'' @ sector_group symbol]"

text \<open>The labels in the order of their first occurrence.\<close>

definition cluster_ids :: "string list \<Rightarrow> string list" where
  "cluster_ids symbols = rev (remdups (rev (concat (map cluster_labels symbols))))"

fun pairs_of :: "'a list \<Rightarrow> ('a \<times> 'a) list" where
  "pairs_of [] = []"
| "pairs_of (x # xs) = map (Pair x) xs @ pairs_of xs"

record risk_cluster =
  rc_id :: string
  rc_symbols :: "string list"
  rc_exposure :: num
  rc_concentration :: num
  rc_correlation :: num
  rc_bias :: num
  rc_score :: num

definition cluster_of_id :: "(num \<Rightarrow> num) \<Rightarrow> risk_position list \<Rightarrow> (string \<times> num list) list \<Rightarrow> num \<Rightarrow> string \<Rightarrow> risk_cluster" where
  "cluster_of_id fsqrt ps series gross i =
     (let members = filter (\<lambda>s. i \<in> set (cluster_labels s)) (sorted_set (map fst series));
          exposure = sum_list (map (\<lambda>s. get_or (map_of (symbol_notional ps) s) 0) members);
          directional = sum_list (map (\<lambda>s. get_or (map_of (direction_map ps) s) 0) members);
          weights = map (\<lambda>(l, r). \<bar>window_correlation fsqrt series 120 l r\<bar>) (pairs_of members);
          concentration = (if 0 < gross then exposure / max gross tiny else 0);
          correlation = (if weights = [] then 0 else mean weights);
          bias = (if 0 < exposure then \<bar>directional\<bar> / max exposure tiny else 0)
      in \<lparr>rc_id = i, rc_symbols = members, rc_exposure = py_round 6 exposure, rc_concentration = py_round 6 concentration,
          rc_correlation = py_round 6 correlation, rc_bias = py_round 6 bias,
          rc_score = py_round 6 (min (concentration * (6 / 10) + correlation * (25 / 100) + bias * (15 / 100)) 1)\<rparr>)"

record concentration_risk =
  ck_clusters :: "risk_cluster list"
  ck_score :: num
  ck_flag :: string

definition build_cluster_risk ::
  "(num \<Rightarrow> num) \<Rightarrow> risk_position list \<Rightarrow> (string \<times> num list) list \<Rightarrow> num \<Rightarrow> bool \<Rightarrow> concentration_risk" where
  "build_cluster_risk fsqrt ps series gross spike =
     (let clusters = sort_desc rc_score (map (cluster_of_id fsqrt ps series gross) (cluster_ids (sorted_set (map fst series))));
          dominant = (case clusters of [] \<Rightarrow> 0 | c # _ \<Rightarrow> rc_score c);
          score = (if spike then max dominant (92 / 100) else dominant)
      in \<lparr>ck_clusters = clusters, ck_score = py_round 6 score,
          ck_flag = (if 8 / 10 \<le> score then ''HIGH'' else if 6 / 10 \<le> score then ''WARN'' else ''LOW'')\<rparr>)"

section \<open>Tail risk\<close>

definition STRESS_SCENARIOS :: "string list" where
  "STRESS_SCENARIOS = [''btc_-20'', ''altcoin_correlation_spike'', ''market_wide_drawdown'', ''liquidity_drop'']"

definition stress_shock :: "string \<Rightarrow> string \<Rightarrow> num" where
  "stress_shock name base =
     (if name = ''btc_-20'' \<and> base = ''BTC'' then - (20 / 100)
      else if name = ''altcoin_correlation_spike'' then (if base \<notin> {''BTC'', ''ETH''} then - (18 / 100) else - (9 / 100))
      else if name = ''market_wide_drawdown'' then - (15 / 100)
      else if name = ''liquidity_drop'' then - (8 / 100) else 0)"

definition stress_pnl :: "string \<Rightarrow> risk_position \<Rightarrow> num" where
  "stress_pnl name p = notional_of p * stress_shock name (symbol_base (up_symbol p)) * (if up_side p = ''LONG'' then 1 else - 1)"

definition tail_scenario_loss :: "risk_position list \<Rightarrow> string \<Rightarrow> num" where
  "tail_scenario_loss ps name = py_round 6 (sum_list (map (\<lambda>p. - min (stress_pnl name p) 0) ps))"

definition percentile :: "num list \<Rightarrow> num \<Rightarrow> num" where
  "percentile values q =
     (if values = [] then 0
      else sort values ! nat (max 0 (min (int (length values) - 1) (round_half_even (of_int (int (length values) - 1) * q)))))"

definition weighted_returns :: "risk_position list \<Rightarrow> (string \<times> num list) list \<Rightarrow> num list" where
  "weighted_returns ps series =
     (let weights = symbol_notional ps; whole = sum_list (map snd weights) in
      concat (map (\<lambda>(symbol, prices).
        let weight = (if 0 < whole then get_or (map_of weights symbol) 0 / max whole tiny else 0)
        in map (\<lambda>r. r * weight) (last_n 240 (relative_steps prices))) series))"

record tail_risk =
  tk_var :: num
  tk_cvar :: num
  tk_stress_loss :: num
  tk_worst :: string
  tk_flag :: string

definition tail_mean :: "num list \<Rightarrow> num" where
  "tail_mean returns =
     (if returns = [] then 0 else \<bar>mean (take (nat (max 1 (py_int (of_nat (length returns) * (5 / 100))))) (sort returns))\<bar>)"

definition build_tail_risk :: "risk_position list \<Rightarrow> (string \<times> num list) list \<Rightarrow> num list \<Rightarrow> tail_risk" where
  "build_tail_risk ps series override =
     (let returns = (if override = [] then weighted_returns ps series else override);
          value_at_risk = (if returns = [] then 0 else \<bar>percentile returns (5 / 100)\<bar>); shortfall = tail_mean returns;
          (worst, loss) = hd (sort_desc snd (map (\<lambda>n. (n, tail_scenario_loss ps n)) STRESS_SCENARIOS));
          whole = sum_list (map snd (symbol_notional ps))
      in \<lparr>tk_var = py_round 6 value_at_risk, tk_cvar = py_round 6 shortfall, tk_stress_loss = py_round 6 loss, tk_worst = worst,
          tk_flag = (if 8 / 100 \<le> value_at_risk \<or> 12 / 100 \<le> shortfall \<or> max whole 1 * (18 / 100) < loss then ''HIGH''
            else if 5 / 100 \<le> value_at_risk \<or> 8 / 100 \<le> shortfall then ''WARN'' else ''LOW'')\<rparr>)"

section \<open>Use of the budgets\<close>

record strategy_use =
  su_strategy :: string
  su_usage :: num
  su_action :: string
  su_breach :: bool

definition budget_usage :: "allocation_row \<Rightarrow> num" where
  "budget_usage row = al_share row / max (num_or (Some (al_budget row)) 1) tiny * 100"

definition strategy_use_of :: "(string \<Rightarrow> nat) \<Rightarrow> allocation_row \<Rightarrow> strategy_use" where
  "strategy_use_of history row =
     (let usage = budget_usage row in
      \<lparr>su_strategy = al_strategy row, su_usage = py_round 6 usage,
       su_action = (if 3 \<le> history (al_strategy row) \<and> 100 < usage then ''BLOCK'' else if 100 < usage then ''PAUSE''
         else if 80 < usage then ''THROTTLE'' else ''NORMAL''),
       su_breach = (al_breach row \<or> 100 < usage)\<rparr>)"

definition strategy_risk_governance :: "(string \<Rightarrow> nat) \<Rightarrow> allocation_row list \<Rightarrow> strategy_use list" where
  "strategy_risk_governance history = map (strategy_use_of history)"

text \<open>Whether the governance asks for an action.\<close>

definition asks_for :: "string \<Rightarrow> strategy_use list \<Rightarrow> bool" where
  "asks_for action uses \<longleftrightarrow> action \<in> {''THROTTLE'', ''PAUSE'', ''BLOCK''} \<and> list_ex (\<lambda>u. su_action u = action) uses"

section \<open>Facts about the measurements\<close>

lemma map_of_put: "map_of (put k v d) = (map_of d)(k \<mapsto> v)"
  by (induction d) (auto simp: fun_eq_iff)

lemma symbol_notional_snoc: "map_of (symbol_notional (ps @ [p])) = (map_of (symbol_notional ps))(upper (up_symbol p) \<mapsto> notional_of p)"
  by (simp add: symbol_notional_def map_of_put)

text \<open>
  Of several positions in a symbol only the last one counts for the concentration and for the weights
  of the tail risk: a small second position takes the place of a large first one.
\<close>

theorem second_position_hides_first:
  assumes "upper (up_symbol q) = upper (up_symbol p)"
  shows "map_of (symbol_notional (ps @ [p, q])) = map_of (symbol_notional (ps @ [q]))"
  using symbol_notional_snoc [of "ps @ [p]" q] symbol_notional_snoc [of ps p] symbol_notional_snoc [of ps q] assms by simp

theorem second_position_hides_first_witness:
  "get_or (map_of (symbol_notional ([] @ [lost_position\<lparr>up_quantity := 1000\<rparr>, lost_position])) ''BTCUSDT'') 0 = 50"
  by (subst second_position_hides_first) code_simp+

lemma symbol_notional_nonneg: "map_of (symbol_notional ps) s = Some v \<Longrightarrow> 0 \<le> v"
  by (induction ps arbitrary: v rule: rev_induct) (auto simp: symbol_notional_def map_of_put split: if_splits)

lemma notional_lookup_nonneg: "0 \<le> get_or (map_of (symbol_notional ps) s) 0"
  by (cases "map_of (symbol_notional ps) s") (simp_all add: symbol_notional_nonneg)

lemma sum_list_map_nonneg: "(\<And>x. 0 \<le> f x) \<Longrightarrow> 0 \<le> sum_list (map f xs)" for f :: "'a \<Rightarrow> num"
  by (induction xs) simp_all

lemma cluster_score_bounds: "0 \<le> rc_score (cluster_of_id fsqrt ps series gross i) \<and> rc_score (cluster_of_id fsqrt ps series gross i) \<le> 1"
proof -
  have mean: "0 \<le> mean (map (\<lambda>(l, r). \<bar>window_correlation fsqrt series 120 l r\<bar>) xs)" for xs
    unfolding mean_def by (intro divide_nonneg_nonneg sum_list_map_nonneg) auto
  show ?thesis unfolding cluster_of_id_def Let_def risk_cluster.simps
    by (intro conjI py_round_ge py_round_le min.boundedI add_nonneg_nonneg mult_nonneg_nonneg)
      (auto simp: mean notional_lookup_nonneg less_max_iff_disj intro!: divide_nonneg_nonneg sum_list_map_nonneg max.coboundedI2)
qed

text \<open>The concentration of a portfolio lies between 0 and 1, with 0.92 or more under a correlation spike.\<close>

theorem concentration_bounds:
  "(if spike then 92 / 100 else 0) \<le> ck_score (build_cluster_risk fsqrt ps series gross spike) \<and>
   ck_score (build_cluster_risk fsqrt ps series gross spike) \<le> 1"
proof -
  have grid: "on_grid 6 (92 / 100)" by code_simp
  have first: "0 \<le> rc_score c \<and> rc_score c \<le> 1" if "sort_desc rc_score (map (cluster_of_id fsqrt ps series gross) xs) = c # cs" for c cs xs
  proof -
    have "c \<in> set (sort_desc rc_score (map (cluster_of_id fsqrt ps series gross) xs))" unfolding that by simp
    then show ?thesis using cluster_score_bounds by auto
  qed
  have "0 \<le> d \<Longrightarrow> d \<le> 1 \<Longrightarrow> (if spike then 92 / 100 else 0) \<le> py_round 6 (if spike then max d (92 / 100) else d) \<and>
      py_round 6 (if spike then max d (92 / 100) else d) \<le> 1" for d
    using py_round_ge [OF grid, of "max d (92 / 100)"] py_round_le [of 6 1 "max d (92 / 100)"]
    by (cases spike) (auto intro: py_round_ge py_round_le)
  then show ?thesis unfolding build_cluster_risk_def Let_def concentration_risk.simps using first by (auto split: list.split)
qed

lemma tail_loss_nonneg: "0 \<le> tail_scenario_loss ps name"
  unfolding tail_scenario_loss_def by (intro py_round_ge sum_list_map_nonneg) simp_all

text \<open>The stress loss is the worst of the four scenarios.\<close>

theorem stress_loss_is_worst:
  "list_all (\<lambda>n. tail_scenario_loss ps n \<le> tk_stress_loss (build_tail_risk ps series override)) STRESS_SCENARIOS \<and>
   tk_stress_loss (build_tail_risk ps series override) = tail_scenario_loss ps (tk_worst (build_tail_risk ps series override))"
proof -
  let ?xs = "map (\<lambda>n. (n, tail_scenario_loss ps n)) STRESS_SCENARIOS"
  have ne: "sort_desc snd ?xs \<noteq> []" 
  proof -
    have "length (sort_desc snd ?xs) = length STRESS_SCENARIOS" by (simp only: length_sort_desc length_map)
    then show ?thesis by (auto simp add: STRESS_SCENARIOS_def simp del: length_sort_desc)
  qed
  obtain w ws where s: "sort_desc snd ?xs = w # ws" using ne by (meson neq_Nil_conv)
  have in_xs: "set (w # ws) = set ?xs" unfolding s [symmetric] by simp
  then have "w \<in> set ?xs" by (metis list.set_intros(1))
  then obtain n where w: "w = (n, tail_scenario_loss ps n)" by (simp only: set_map) blast
  have idem: "py_round 6 (tail_scenario_loss ps n) = tail_scenario_loss ps n" for n
    unfolding tail_scenario_loss_def by (rule py_round_on_grid) (simp add: on_grid_def py_round_def)
  have "sorted_wrt (\<lambda>x y. snd y \<le> snd x) (w # ws)" unfolding s [symmetric] by (rule sorted_sort_desc)
  then have top: "snd x \<le> snd w" if "x \<in> set ?xs" for x using that unfolding in_xs [symmetric] by auto
  have "tail_scenario_loss ps k \<le> tail_scenario_loss ps n" if "k \<in> set STRESS_SCENARIOS" for k
    using top [of "(k, tail_scenario_loss ps k)"] that by (auto simp: w)
  then show ?thesis unfolding build_tail_risk_def Let_def s w list.sel prod.case tail_risk.simps idem by (simp add: list_all_iff)
qed

end
