(* ===== verification/Unified_State.thy ===== *)
theory Unified_State
  imports Unified_Exposure
begin

text \<open>
  The decisions of \<open>services/unified_risk_core_service.py\<close>: thresholds, the state machine from
  \<open>NORMAL\<close> to \<open>BLOCKED\<close>, the kill switch matrix, hysteresis, the execution policy, and the
  orchestrator that composes them with the measurements.

  The manifest of snapshots is a list, the newest first, of what later runs read from it; whether
  its files can be read, the clock and the audit log are left out.
\<close>

section \<open>Thresholds\<close>

record risk_thresholds =
  th_var :: num
  th_cvar :: num
  th_cluster :: num
  th_cluster_critical :: num
  th_margin_high :: num
  th_margin_critical :: num
  th_margin_blocked :: num
  th_liq_warn :: num
  th_liq_high :: num
  th_liq_critical :: num
  th_liq_blocked :: num
  th_stress :: num
  th_buffer :: num

definition RISK_THRESHOLDS :: risk_thresholds where
  "RISK_THRESHOLDS = \<lparr>th_var = 5 / 100, th_cvar = 10 / 100, th_cluster = 60 / 100, th_cluster_critical = 80 / 100, th_margin_high = 65,
     th_margin_critical = 80, th_margin_blocked = 90, th_liq_warn = 10, th_liq_high = 5, th_liq_critical = 3, th_liq_blocked = 3 / 2,
     th_stress = 18 / 100, th_buffer = 5 / 100\<rparr>"

definition normalize_thresholds :: "(string \<Rightarrow> num option) \<Rightarrow> risk_thresholds" where
  "normalize_thresholds values = (let d = RISK_THRESHOLDS in
     \<lparr>th_var = get_or (values ''var_limit'') (th_var d), th_cvar = get_or (values ''cvar_limit'') (th_cvar d),
      th_cluster = get_or (values ''cluster_limit'') (th_cluster d),
      th_cluster_critical = get_or (values ''cluster_critical_limit'') (th_cluster_critical d),
      th_margin_high = get_or (values ''margin_high_limit'') (th_margin_high d),
      th_margin_critical = get_or (values ''margin_critical_limit'') (th_margin_critical d),
      th_margin_blocked = get_or (values ''margin_blocked_limit'') (th_margin_blocked d),
      th_liq_warn = get_or (values ''liquidation_warn_limit'') (th_liq_warn d),
      th_liq_high = get_or (values ''liquidation_high_limit'') (th_liq_high d),
      th_liq_critical = get_or (values ''liquidation_critical_limit'') (th_liq_critical d),
      th_liq_blocked = get_or (values ''liquidation_blocked_limit'') (th_liq_blocked d),
      th_stress = get_or (values ''stress_loss_ratio_limit'') (th_stress d), th_buffer = get_or (values ''hysteresis_buffer'') (th_buffer d)\<rparr>)"

text \<open>The thresholds of a run: an override replaces all of them, the missing ones by the defaults.\<close>

definition thresholds_of_run :: "(string \<Rightarrow> num option) option \<Rightarrow> bool \<Rightarrow> (string \<Rightarrow> num option) option \<Rightarrow> risk_thresholds" where
  "thresholds_of_run calibrated use_calibrated override =
     (case override of Some values \<Rightarrow> normalize_thresholds values
      | None \<Rightarrow> if use_calibrated then normalize_thresholds (get_or calibrated (\<lambda>_. None)) else RISK_THRESHOLDS)"

section \<open>The state machine\<close>

record risk_measures =
  ms_buffer :: num
  ms_margin :: num
  ms_breaches :: nat
  ms_cluster :: num
  ms_var :: num
  ms_cvar :: num
  ms_stress :: num
  ms_uses :: "strategy_use list"

definition is_high_risk :: "risk_thresholds \<Rightarrow> risk_measures \<Rightarrow> bool" where
  "is_high_risk th ms \<longleftrightarrow> ms_buffer ms < th_liq_high th \<or> th_margin_high th < ms_margin ms \<or> 0 < ms_breaches ms \<or>
     th_cluster th \<le> ms_cluster ms \<or> th_var th \<le> ms_var ms"

definition is_critical_risk :: "risk_thresholds \<Rightarrow> risk_measures \<Rightarrow> bool" where
  "is_critical_risk th ms \<longleftrightarrow> ms_buffer ms < th_liq_critical th \<or> th_margin_critical th < ms_margin ms \<or>
     th_cluster_critical th \<le> ms_cluster ms \<or> th_cvar th \<le> ms_cvar ms \<or> th_stress th \<le> ms_stress ms \<or> asks_for ''PAUSE'' (ms_uses ms)"

definition is_blocking_risk :: "risk_thresholds \<Rightarrow> risk_measures \<Rightarrow> bool" where
  "is_blocking_risk th ms \<longleftrightarrow> ms_buffer ms < th_liq_blocked th \<or> th_margin_blocked th < ms_margin ms \<or>
     th_cvar th * (16 / 10) \<le> ms_cvar ms \<or> asks_for ''BLOCK'' (ms_uses ms)"

definition machine_triggers :: "risk_thresholds \<Rightarrow> risk_measures \<Rightarrow> string list" where
  "machine_triggers th ms = collect
     ((ms_buffer ms < th_liq_warn th, ''liquidation_buffer_warn'') #
      (if is_high_risk th ms then
         [(True, ''liquidation_buffer_high''), (th_margin_high th < ms_margin ms, ''margin_usage_high''), (0 < ms_breaches ms, ''risk_budget_breach''),
          (th_cluster th \<le> ms_cluster ms, ''cluster_concentration_high''), (th_var th \<le> ms_var ms, ''tail_var_breach'')] else []) @
      (if is_critical_risk th ms then
         [(True, ''liquidation_buffer_critical''), (th_margin_critical th < ms_margin ms, ''margin_usage_critical''),
          (th_cluster_critical th \<le> ms_cluster ms, ''cluster_concentration_critical''), (th_cvar th \<le> ms_cvar ms, ''tail_cvar_breach''),
          (th_stress th \<le> ms_stress ms, ''stress_loss_breach''), (asks_for ''PAUSE'' (ms_uses ms), ''strategy_pause_triggered'')] else []) @
      (if is_blocking_risk th ms then
         [(True, ''kill_switch_threshold''), (asks_for ''BLOCK'' (ms_uses ms), ''strategy_block_triggered'')] else []))"

definition risk_state_machine :: "risk_thresholds \<Rightarrow> risk_measures \<Rightarrow> string \<times> string list" where
  "risk_state_machine th ms =
     (if is_blocking_risk th ms then ''BLOCKED'' else if is_critical_risk th ms then ''CRITICAL'' else if is_high_risk th ms then ''HIGH''
      else if ms_buffer ms < th_liq_warn th then ''WARN'' else ''NORMAL'', sorted_set (machine_triggers th ms))"

section \<open>The kill switch matrix\<close>

record kill_matrix =
  km_level :: string
  km_reasons :: "string list"

definition margin_and_cluster :: "risk_thresholds \<Rightarrow> risk_measures \<Rightarrow> bool" where
  "margin_and_cluster th ms \<longleftrightarrow> th_margin_blocked th < ms_margin ms \<and> th_cluster th \<le> ms_cluster ms"

definition var_and_stress :: "risk_thresholds \<Rightarrow> risk_measures \<Rightarrow> bool" where
  "var_and_stress th ms \<longleftrightarrow> th_var th \<le> ms_var ms \<and> th_stress th \<le> ms_stress ms"

definition liquidation_and_tail :: "risk_thresholds \<Rightarrow> risk_measures \<Rightarrow> bool" where
  "liquidation_and_tail th ms \<longleftrightarrow> ms_buffer ms \<le> th_liq_blocked th \<and> th_cvar th \<le> ms_cvar ms"

definition kill_switch_matrix :: "risk_thresholds \<Rightarrow> risk_measures \<Rightarrow> kill_matrix" where
  "kill_switch_matrix th ms =
     \<lparr>km_level = (if liquidation_and_tail th ms \<or> asks_for ''BLOCK'' (ms_uses ms) then ''BLOCKED''
        else if margin_and_cluster th ms \<or> var_and_stress th ms then ''CRITICAL'' else ''NONE''),
      km_reasons = sorted_set (collect [(margin_and_cluster th ms, ''margin_ratio_high_and_cluster_high''),
        (var_and_stress th ms, ''var_breach_and_stress_loss_high''), (liquidation_and_tail th ms, ''liquidation_near_and_tail_risk_high''),
        (asks_for ''BLOCK'' (ms_uses ms), ''strategy_block_action'')])\<rparr>"

text \<open>The level of the kill switch replaces the state of the machine.\<close>

definition candidate_state :: "risk_thresholds \<Rightarrow> risk_measures \<Rightarrow> string" where
  "candidate_state th ms =
     (if km_reasons (kill_switch_matrix th ms) \<noteq> [] then km_level (kill_switch_matrix th ms) else fst (risk_state_machine th ms))"

section \<open>Hysteresis\<close>

definition state_rank :: "string \<Rightarrow> nat" where
  "state_rank s = get_or (map_of [(''NORMAL'', 0), (''WARN'', 1), (''HIGH'', 2), (''CRITICAL'', 3), (''BLOCKED'', 4)] s) 0"

definition apply_hysteresis :: "string option \<Rightarrow> string \<Rightarrow> risk_measures \<Rightarrow> risk_thresholds \<Rightarrow> string" where
  "apply_hysteresis previous candidate ms th =
     (let before = get_or previous []; buffer = num_or (Some (th_buffer th)) (5 / 100) in
      if before = [] \<or> state_rank before \<le> state_rank candidate then candidate
      else if before = ''HIGH'' \<and> (th_margin_high th - th_margin_high th * buffer < ms_margin ms \<or> th_cluster th - buffer < ms_cluster ms \<or>
                th_var th - th_var th * buffer < ms_var ms) then ''HIGH''
      else if before = ''CRITICAL'' \<and> (th_margin_critical th - th_margin_critical th * buffer < ms_margin ms \<or>
                th_cluster_critical th - buffer < ms_cluster ms \<or> th_var th < ms_var ms) then ''CRITICAL''
      else if before = ''BLOCKED'' \<and> state_rank candidate < 3 \<and> th_margin_blocked th - th_margin_blocked th * buffer < ms_margin ms
           then ''BLOCKED''
      else candidate)"

section \<open>The execution policy\<close>

record risk_execution_policy =
  xn_state :: string
  xn_block_orders :: bool
  xn_size :: num
  xn_leverage :: "int option"
  xn_pause :: bool
  xn_kill :: bool
  xn_decision :: string

definition execution_policy_from_state :: "string \<Rightarrow> risk_execution_policy" where
  "execution_policy_from_state state =
     (if state = ''WARN'' then \<lparr>xn_state = state, xn_block_orders = False, xn_size = 85 / 100, xn_leverage = None, xn_pause = False,
        xn_kill = False, xn_decision = ''ALLOW_WITH_REDUCE''\<rparr>
      else if state = ''HIGH'' then \<lparr>xn_state = state, xn_block_orders = False, xn_size = 6 / 10, xn_leverage = Some 3, xn_pause = False,
        xn_kill = False, xn_decision = ''REDUCE_RISK''\<rparr>
      else if state = ''CRITICAL'' then \<lparr>xn_state = state, xn_block_orders = True, xn_size = 0, xn_leverage = Some 2, xn_pause = True,
        xn_kill = False, xn_decision = ''BLOCK_NEW_ORDERS''\<rparr>
      else if state = ''BLOCKED'' then \<lparr>xn_state = state, xn_block_orders = True, xn_size = 0, xn_leverage = Some 1, xn_pause = True,
        xn_kill = True, xn_decision = ''KILL_SWITCH''\<rparr>
      else \<lparr>xn_state = state, xn_block_orders = False, xn_size = 1, xn_leverage = None, xn_pause = False, xn_kill = False,
        xn_decision = ''ALLOW''\<rparr>)"

text \<open>What the actions for single strategies change in it, one after the other.\<close>

definition throttled_policy :: "strategy_use list \<Rightarrow> risk_execution_policy \<Rightarrow> risk_execution_policy" where
  "throttled_policy uses ex =
     (if asks_for ''THROTTLE'' uses \<and> 7 / 10 < xn_size ex then ex\<lparr>xn_size := 7 / 10, xn_decision := ''REDUCE_RISK''\<rparr> else ex)"

definition paused_policy :: "strategy_use list \<Rightarrow> risk_execution_policy \<Rightarrow> risk_execution_policy" where
  "paused_policy uses ex = (if asks_for ''PAUSE'' uses then ex\<lparr>xn_pause := True, xn_decision := ''PAUSE_STRATEGY''\<rparr> else ex)"

definition blocked_policy :: "strategy_use list \<Rightarrow> risk_execution_policy \<Rightarrow> risk_execution_policy" where
  "blocked_policy uses ex =
     (if asks_for ''BLOCK'' uses then ex\<lparr>xn_block_orders := True, xn_kill := True, xn_decision := ''KILL_SWITCH''\<rparr> else ex)"

definition policy_of_state :: "string \<Rightarrow> strategy_use list \<Rightarrow> risk_execution_policy" where
  "policy_of_state state uses = blocked_policy uses (paused_policy uses (throttled_policy uses (execution_policy_from_state state)))"

section \<open>The orchestrator\<close>

record risk_snapshot_row =
  sp_allocation :: "allocation_row list"
  sp_state :: string
  sp_cluster :: num
  sp_var :: num
  sp_margin :: num
  sp_kill :: bool

record risk_env =
  re_rows :: "paper_position list option"
  re_capital :: "num option"
  re_replay :: "num list"
  re_calibrated :: "(string \<Rightarrow> num option) option"
  re_scenarios :: "scenario list"

record risk_request_u =
  rq_user :: string
  rq_ruleset :: string
  rq_input :: "input_state option"
  rq_scenario :: "string option"
  rq_previous :: "string option"
  rq_override :: "(string \<Rightarrow> num option) option"
  rq_calibrated :: bool
  rq_persist :: bool

record risk_report =
  rt_account :: account_state
  rt_positions :: "risk_position list"
  rt_rows :: "liquidation_row list"
  rt_portfolio :: portfolio_metrics
  rt_capital :: risk_capital
  rt_clusters :: concentration_risk
  rt_tail :: tail_risk
  rt_measures :: risk_measures
  rt_kill :: kill_matrix
  rt_state :: string
  rt_policy :: risk_execution_policy
  rt_triggers :: "string list"

text \<open>The last 200 snapshots in which the strategy broke its budget.\<close>

definition strategy_breach_history :: "risk_snapshot_row list \<Rightarrow> string \<Rightarrow> nat" where
  "strategy_breach_history manifest strategy =
     length (filter (\<lambda>sp. list_ex (\<lambda>row. al_strategy row = strategy \<and> al_breach row) (sp_allocation sp)) (take 200 manifest))"

definition resolve_scenario :: "scenario list \<Rightarrow> string option \<Rightarrow> scenario option" where
  "resolve_scenario scenarios i =
     (if get_or i [] = [] then None else find (\<lambda>sn. sn_id sn = get_or i []) scenarios)"

definition min_buffer :: "liquidation_row list \<Rightarrow> num" where
  "min_buffer rows = (if rows = [] then 999 else Min (set (map (\<lambda>r. num_or (Some (lq_buffer r)) 999) rows)))"

definition snapshot_of :: "risk_report \<Rightarrow> risk_snapshot_row" where
  "snapshot_of rt = \<lparr>sp_allocation = kc_allocation (rt_capital rt), sp_state = rt_state rt, sp_cluster = ck_score (rt_clusters rt),
     sp_var = tk_var (rt_tail rt), sp_margin = kc_usage (rt_capital rt), sp_kill = (km_reasons (rt_kill rt) \<noteq> [])\<rparr>"

definition run_unified_risk ::
  "(num \<Rightarrow> num) \<Rightarrow> risk_env \<Rightarrow> risk_request_u \<Rightarrow> risk_snapshot_row list \<Rightarrow> risk_report" where
  "run_unified_risk fsqrt re rq manifest =
     (let rs = get_ruleset (rq_ruleset rq); th = thresholds_of_run (re_calibrated re) (rq_calibrated rq) (rq_override rq);
          st = apply_scenario (rq_input rq) (resolve_scenario (re_scenarios re) (rq_scenario rq));
          fallback = (if re_replay re = [] then 100 else last (re_replay re));
          account = resolve_account_state (re_capital re) st; ps = load_positions (re_rows re) (rq_user rq) st fallback;
          rows = liquidation_rows rs (ac_free account) ps; portfolio = portfolio_metrics_of ps rows (ac_equity account);
          capital = capital_governance (ac_equity account) (pm_strategies portfolio) rows (case st of None \<Rightarrow> \<lambda>_. None | Some inp \<Rightarrow> is_budgets inp);
          series = build_symbol_series ps (re_replay re) (case st of None \<Rightarrow> \<lambda>_. [] | Some inp \<Rightarrow> is_series inp);
          clusters = build_cluster_risk fsqrt ps series (pm_gross portfolio) (case st of None \<Rightarrow> False | Some inp \<Rightarrow> is_spike inp);
          tail = build_tail_risk ps series (case st of None \<Rightarrow> [] | Some inp \<Rightarrow> is_returns inp);
          uses = strategy_risk_governance (strategy_breach_history manifest) (kc_allocation capital);
          ms = \<lparr>ms_buffer = min_buffer rows, ms_margin = kc_usage capital, ms_breaches = kc_breaches capital, ms_cluster = ck_score clusters,
                ms_var = tk_var tail, ms_cvar = tk_cvar tail, ms_stress = tk_stress_loss tail / max (pm_gross portfolio) tiny, ms_uses = uses\<rparr>;
          state = apply_hysteresis (rq_previous rq) (candidate_state th ms) ms th
      in \<lparr>rt_account = account, rt_positions = ps, rt_rows = rows, rt_portfolio = portfolio, rt_capital = capital, rt_clusters = clusters,
          rt_tail = tail, rt_measures = ms, rt_kill = kill_switch_matrix th ms,
          rt_state = (if asks_for ''BLOCK'' uses then ''BLOCKED'' else state), rt_policy = policy_of_state state uses,
          rt_triggers = sorted_set (snd (risk_state_machine th ms) @ km_reasons (kill_switch_matrix th ms) @
            (if asks_for ''BLOCK'' uses then [''strategy_block_triggered''] else []))\<rparr>)"

text \<open>A run with its effect on the manifest.\<close>

definition run_and_persist ::
  "(num \<Rightarrow> num) \<Rightarrow> risk_env \<Rightarrow> risk_request_u \<Rightarrow> risk_snapshot_row list \<Rightarrow> risk_report \<times> risk_snapshot_row list" where
  "run_and_persist fsqrt re rq manifest =
     (let rt = run_unified_risk fsqrt re rq manifest in (rt, if rq_persist rq then snapshot_of rt # manifest else manifest))"

section \<open>Simulating an order\<close>

definition as_input :: "risk_position \<Rightarrow> position_input" where
  "as_input p = \<lparr>pi_symbol = Some (up_symbol p), pi_side = Some (up_side p), pi_quantity = Some (up_quantity p), pi_entry = Some (up_entry p),
     pi_mark = Some (up_mark p), pi_leverage = Some (up_leverage p), pi_mode = Some (up_mode p), pi_strategy = Some (up_strategy p),
     pi_isolated = Some (up_isolated p)\<rparr>"

text \<open>An order: its price stands for the entry and for the mark price when it is given and not zero.\<close>

record proposed_order =
  po_symbol :: "string option"
  po_side :: "string option"
  po_quantity :: "num option"
  po_price :: "num option"
  po_entry :: "num option"
  po_mark :: "num option"
  po_lev :: "int option"
  po_mode :: "string option"
  po_strategy :: "string option"

definition order_position :: "proposed_order \<Rightarrow> num \<Rightarrow> risk_position" where
  "order_position po fallback =
     (let price_or = (\<lambda>v. if get_or (po_price po) 0 = 0 then v else po_price po) in
      default_position_from_input \<lparr>pi_symbol = po_symbol po, pi_side = po_side po, pi_quantity = po_quantity po, pi_entry = price_or (po_entry po),
        pi_mark = price_or (po_mark po),
        pi_leverage = Some (int_or (po_lev po) 1), pi_mode = Some (str_or (po_mode po) ''cross''),
        pi_strategy = Some (str_or (po_strategy po) ''simulated''), pi_isolated = None\<rparr> fallback)"

record simulation =
  sm_before :: risk_report
  sm_after :: risk_report
  sm_gross_delta :: num

definition simulated_input :: "risk_report \<Rightarrow> proposed_order \<Rightarrow> input_state" where
  "simulated_input before po =
     (let fallback = (case rt_positions before of [] \<Rightarrow> 100 | p # _ \<Rightarrow> py_round 6 (up_mark p)); account = rt_account before in
      \<lparr>is_account = Some \<lparr>ai_equity = Some (ac_equity account), ai_free = Some (ac_free account), ai_used = Some (ac_used account)\<rparr>,
       is_positions = map as_input (rt_positions before @ [order_position po fallback]),
       is_budgets = map_of (map (\<lambda>row. (al_strategy row, al_budget row)) (kc_allocation (rt_capital before))),
       is_series = (\<lambda>_. []), is_spike = False, is_returns = []\<rparr>)"

definition simulate_pre_trade ::
  "(num \<Rightarrow> num) \<Rightarrow> risk_env \<Rightarrow> risk_request_u \<Rightarrow> proposed_order \<Rightarrow> risk_snapshot_row list \<Rightarrow> simulation \<times> risk_snapshot_row list" where
  "simulate_pre_trade fsqrt re rq po manifest =
     (let (before, manifest1) = run_and_persist fsqrt re (rq\<lparr>rq_input := None, rq_previous := None, rq_persist := True\<rparr>) manifest;
          (after, manifest2) = run_and_persist fsqrt re
            (rq\<lparr>rq_input := Some (simulated_input before po), rq_previous := Some (rt_state before), rq_persist := True\<rparr>) manifest1
      in (\<lparr>sm_before = before, sm_after = after,
           sm_gross_delta = py_round 6 (pm_gross (rt_portfolio after) - pm_gross (rt_portfolio before))\<rparr>, manifest2))"

section \<open>Replay\<close>

text \<open>The steps of a replay, each with the state of the one before it.\<close>

fun run_replay ::
  "(num \<Rightarrow> num) \<Rightarrow> risk_env \<Rightarrow> string option \<Rightarrow> risk_request_u list \<Rightarrow> risk_snapshot_row list \<Rightarrow> risk_report list \<times> risk_snapshot_row list" where
  "run_replay fsqrt re previous [] manifest = ([], manifest)"
| "run_replay fsqrt re previous (rq # rqs) manifest =
     (let (rt, manifest1) = run_and_persist fsqrt re (rq\<lparr>rq_previous := previous\<rparr>) manifest;
          (rts, manifest2) = run_replay fsqrt re (Some (rt_state rt)) rqs manifest1
      in (rt # rts, manifest2))"

definition replay_timeline ::
  "(num \<Rightarrow> num) \<Rightarrow> risk_env \<Rightarrow> risk_request_u list \<Rightarrow> risk_snapshot_row list \<Rightarrow> (risk_report list \<times> string) \<times> risk_snapshot_row list" where
  "replay_timeline fsqrt re rqs manifest =
     (let (rts, manifest1) = run_replay fsqrt re None rqs manifest
      in ((rts, if rts = [] then ''NORMAL'' else rt_state (last rts)), manifest1))"

section \<open>States and policies\<close>

definition RISK_STATES :: "string list" where
  "RISK_STATES = [''NORMAL'', ''WARN'', ''HIGH'', ''CRITICAL'', ''BLOCKED'']"

lemma state_rank_simps [simp]:
  "state_rank ''NORMAL'' = 0" "state_rank ''WARN'' = 1" "state_rank ''HIGH'' = 2" "state_rank ''CRITICAL'' = 3" "state_rank ''BLOCKED'' = 4"
  by (simp_all add: state_rank_def)

lemma state_rank_le: "state_rank s \<le> 4"
  by (simp add: state_rank_def)

lemma matrix_empty_iff:
  "km_reasons (kill_switch_matrix th ms) = [] \<longleftrightarrow> \<not> margin_and_cluster th ms \<and> \<not> var_and_stress th ms \<and> \<not> liquidation_and_tail th ms \<and>
     \<not> asks_for ''BLOCK'' (ms_uses ms)"
proof -
  have "sorted_set xs = [] \<longleftrightarrow> xs = []" for xs :: "string list" by (metis set_empty set_sorted_set)
  then show ?thesis by (simp add: kill_switch_matrix_def)
qed

lemma candidate_state_eq:
  "candidate_state th ms =
     (if liquidation_and_tail th ms \<or> asks_for ''BLOCK'' (ms_uses ms) then ''BLOCKED''
      else if margin_and_cluster th ms \<or> var_and_stress th ms then ''CRITICAL'' else fst (risk_state_machine th ms))"
  unfolding candidate_state_def matrix_empty_iff by (auto simp: kill_switch_matrix_def)

lemma candidate_state_known: "candidate_state th ms \<in> set RISK_STATES"
  by (simp add: candidate_state_eq risk_state_machine_def RISK_STATES_def)

lemma hysteresis_cases:
  "apply_hysteresis previous candidate ms th = candidate \<or>
   previous = Some (apply_hysteresis previous candidate ms th) \<and> apply_hysteresis previous candidate ms th \<in> {''HIGH'', ''CRITICAL'', ''BLOCKED''} \<and>
     state_rank candidate < state_rank (apply_hysteresis previous candidate ms th)"
  by (cases previous) (simp_all add: apply_hysteresis_def Let_def not_le)

lemma hysteresis_known:
  assumes "previous \<in> insert None (Some ` set RISK_STATES)" and "candidate \<in> set RISK_STATES"
  shows "apply_hysteresis previous candidate ms th \<in> set RISK_STATES"
  using hysteresis_cases [of previous candidate ms th] assms by (auto simp: RISK_STATES_def)

lemma hysteresis_top [simp]: "apply_hysteresis previous ''BLOCKED'' ms th = ''BLOCKED''"
  by (simp add: apply_hysteresis_def Let_def state_rank_le)

definition thresholds_for :: "risk_env \<Rightarrow> risk_request_u \<Rightarrow> risk_thresholds" where
  "thresholds_for re rq = thresholds_of_run (re_calibrated re) (rq_calibrated rq) (rq_override rq)"

lemma run_state:
  "rt_state (run_unified_risk fsqrt re rq manifest) =
     apply_hysteresis (rq_previous rq) (candidate_state (thresholds_for re rq) (rt_measures (run_unified_risk fsqrt re rq manifest)))
       (rt_measures (run_unified_risk fsqrt re rq manifest)) (thresholds_for re rq)"
proof -
  have "asks_for ''BLOCK'' (ms_uses ms) \<Longrightarrow> candidate_state th ms = ''BLOCKED''" for ms th by (simp add: candidate_state_eq)
  then show ?thesis unfolding run_unified_risk_def Let_def risk_report.simps thresholds_for_def
    by (simp only: risk_measures.simps hysteresis_top split: if_split) simp
qed

lemma run_policy:
  "rt_policy (run_unified_risk fsqrt re rq manifest) =
     policy_of_state (rt_state (run_unified_risk fsqrt re rq manifest)) (ms_uses (rt_measures (run_unified_risk fsqrt re rq manifest)))"
  unfolding run_state unfolding run_unified_risk_def Let_def risk_report.simps risk_measures.simps thresholds_for_def ..

lemma run_block:
  "asks_for ''BLOCK'' (ms_uses (rt_measures (run_unified_risk fsqrt re rq manifest))) \<Longrightarrow> rt_state (run_unified_risk fsqrt re rq manifest) = ''BLOCKED''"
  unfolding run_state by (simp add: candidate_state_eq)

lemma run_state_known: "rq_previous rq \<in> insert None (Some ` set RISK_STATES) \<Longrightarrow> rt_state (run_unified_risk fsqrt re rq manifest) \<in> set RISK_STATES"
  unfolding run_state by (rule hysteresis_known [OF _ candidate_state_known])

text \<open>
  C24: The state machine is monotone: measures that are worse, with a smaller buffer and all the others
  larger, never lead to a better state.
\<close>

theorem state_machine_monotone:
  assumes "ms_buffer worse \<le> ms_buffer ms" and "ms_margin ms \<le> ms_margin worse" and "ms_breaches ms \<le> ms_breaches worse"
    and "ms_cluster ms \<le> ms_cluster worse" and "ms_var ms \<le> ms_var worse" and "ms_cvar ms \<le> ms_cvar worse" and "ms_stress ms \<le> ms_stress worse"
    and "set (ms_uses ms) \<subseteq> set (ms_uses worse)"
  shows "state_rank (fst (risk_state_machine th ms)) \<le> state_rank (fst (risk_state_machine th worse))"
proof -
  have asks: "asks_for a (ms_uses ms) \<Longrightarrow> asks_for a (ms_uses worse)" for a
    using assms(8) by (auto simp: asks_for_def list_ex_iff)
  have "is_blocking_risk th ms \<Longrightarrow> is_blocking_risk th worse" "is_critical_risk th ms \<Longrightarrow> is_critical_risk th worse"
    "is_high_risk th ms \<Longrightarrow> is_high_risk th worse"
    unfolding is_blocking_risk_def is_critical_risk_def is_high_risk_def using assms(1-7) asks by (meson le_less_trans less_le_trans order_trans)+
  moreover have "ms_buffer ms < th_liq_warn th \<Longrightarrow> ms_buffer worse < th_liq_warn th" using assms(1) by (rule le_less_trans)
  ultimately show ?thesis by (simp add: risk_state_machine_def)
qed

text \<open>
  The kill switch matrix lowers the state: over the margin limit the machine says \<open>BLOCKED\<close>, but a
  concentration over its limit as well makes the matrix answer \<open>CRITICAL\<close>, which takes the place of
  it. With the concentration below its limit the same measures are blocked.
\<close>

theorem concentration_lowers_state:
  assumes "th_margin_blocked th < ms_margin ms" and "th_cluster th \<le> ms_cluster ms" and "\<not> liquidation_and_tail th ms"
    and "\<not> asks_for ''BLOCK'' (ms_uses ms)" and "\<not> var_and_stress th ms" and "c < th_cluster th"
  shows "fst (risk_state_machine th ms) = ''BLOCKED'' \<and> candidate_state th ms = ''CRITICAL'' \<and>
    candidate_state th (ms\<lparr>ms_cluster := c\<rparr>) = ''BLOCKED''"
  using assms by (simp add: candidate_state_eq risk_state_machine_def is_blocking_risk_def margin_and_cluster_def liquidation_and_tail_def
      var_and_stress_def)

definition crowded_measures :: risk_measures where
  "crowded_measures = \<lparr>ms_buffer = 20, ms_margin = 95, ms_breaches = 0, ms_cluster = 7 / 10, ms_var = 0, ms_cvar = 0, ms_stress = 0, ms_uses = []\<rparr>"

theorem concentration_lowers_state_witness:
  "fst (risk_state_machine RISK_THRESHOLDS crowded_measures) = ''BLOCKED'' \<and> candidate_state RISK_THRESHOLDS crowded_measures = ''CRITICAL'' \<and>
   candidate_state RISK_THRESHOLDS (crowded_measures\<lparr>ms_cluster := 1 / 2\<rparr>) = ''BLOCKED''"
  by (rule concentration_lowers_state) code_simp+

theorem state_machine_monotone_witness:
  "state_rank (fst (risk_state_machine RISK_THRESHOLDS crowded_measures)) \<le> state_rank (fst (risk_state_machine RISK_THRESHOLDS (crowded_measures\<lparr>ms_var := 1\<rparr>)))"
  by (rule state_machine_monotone) (simp_all add: crowded_measures_def)
text \<open>
  Hysteresis only delays a recovery: a state that is worse or the same is taken at once, and else
  the result is the candidate or the state before, never one in between or a better one.
\<close>

theorem hysteresis_only_delays:
  "state_rank candidate \<le> state_rank (apply_hysteresis previous candidate ms th) \<and>
   apply_hysteresis previous candidate ms th \<in> {candidate, get_or previous candidate} \<and>
   (if state_rank (get_or previous candidate) \<le> state_rank candidate then apply_hysteresis previous candidate ms th = candidate else True)"
  using hysteresis_cases [of previous candidate ms th] by (cases previous) (auto simp: apply_hysteresis_def Let_def)

text \<open>
  C23: The report of a run is consistent: the policy names its state, new orders are blocked exactly in the
  states \<open>CRITICAL\<close> and \<open>BLOCKED\<close>, the kill switch is on exactly in \<open>BLOCKED\<close>, and the size is
  between 0 and 1, and 0 exactly when orders are blocked.
\<close>

theorem report_is_consistent:
  "let rt = run_unified_risk fsqrt re rq manifest; xn = rt_policy rt in
   xn_state xn = rt_state rt \<and> (xn_block_orders xn \<longleftrightarrow> rt_state rt = ''CRITICAL'' \<or> rt_state rt = ''BLOCKED'') \<and>
   (xn_kill xn \<longleftrightarrow> rt_state rt = ''BLOCKED'') \<and> 0 \<le> xn_size xn \<and> xn_size xn \<le> 1 \<and> (xn_size xn = 0 \<longleftrightarrow> xn_block_orders xn)"
proof -
  let ?rt = "run_unified_risk fsqrt re rq manifest"
  have block: "asks_for ''BLOCK'' (ms_uses (rt_measures ?rt)) \<Longrightarrow> rt_state ?rt = ''BLOCKED''" by (rule run_block)
  show ?thesis unfolding Let_def run_policy
    using block by (simp add: policy_of_state_def throttled_policy_def paused_policy_def blocked_policy_def execution_policy_from_state_def)
qed

text \<open>
  While a strategy asks for a pause, the decision of a blocked run reads \<open>PAUSE_STRATEGY\<close>: it takes the
  place of \<open>KILL_SWITCH\<close>, although the kill switch is on.
\<close>

theorem pause_hides_kill_switch:
  assumes "asks_for ''PAUSE'' uses" and "\<not> asks_for ''BLOCK'' uses"
  shows "xn_kill (policy_of_state ''BLOCKED'' uses) \<and> xn_decision (policy_of_state ''BLOCKED'' uses) = ''PAUSE_STRATEGY''"
  using assms by (simp add: policy_of_state_def throttled_policy_def paused_policy_def blocked_policy_def execution_policy_from_state_def)

theorem pause_hides_kill_switch_witness:
  "xn_decision (policy_of_state ''BLOCKED'' [\<lparr>su_strategy = ''a'', su_usage = 120, su_action = ''PAUSE'', su_breach = True\<rparr>]) = ''PAUSE_STRATEGY''"
  by (rule pause_hides_kill_switch [THEN conjunct2]) code_simp+

section \<open>Runs and the manifest\<close>

definition allocation_in :: "risk_env \<Rightarrow> risk_request_u \<Rightarrow> allocation_row list" where
  "allocation_in re rq =
     (let st = apply_scenario (rq_input rq) (resolve_scenario (re_scenarios re) (rq_scenario rq));
          account = resolve_account_state (re_capital re) st;
          ps = load_positions (re_rows re) (rq_user rq) st (if re_replay re = [] then 100 else last (re_replay re))
      in map (allocation_of (max (num_or (Some (ac_equity account)) 1) 1) (case st of None \<Rightarrow> \<lambda>_. None | Some inp \<Rightarrow> is_budgets inp))
           (ranked_amounts (map (\<lambda>p. (up_strategy p, notional_of p)) ps)))"

lemma run_allocation: "kc_allocation (rt_capital (run_unified_risk fsqrt re rq manifest)) = allocation_in re rq"
  unfolding run_unified_risk_def Let_def risk_report.simps capital_governance_def risk_capital.simps portfolio_metrics_of_def
    portfolio_metrics.simps allocation_in_def ..

lemma run_positions: "rt_positions (run_unified_risk fsqrt re rq manifest) =
    load_positions (re_rows re) (rq_user rq) (apply_scenario (rq_input rq) (resolve_scenario (re_scenarios re) (rq_scenario rq)))
      (if re_replay re = [] then 100 else last (re_replay re))"
  unfolding run_unified_risk_def Let_def risk_report.simps ..

lemma run_account: "rt_account (run_unified_risk fsqrt re rq manifest) =
    resolve_account_state (re_capital re) (apply_scenario (rq_input rq) (resolve_scenario (re_scenarios re) (rq_scenario rq)))"
  unfolding run_unified_risk_def Let_def risk_report.simps ..

lemma run_uses: "ms_uses (rt_measures (run_unified_risk fsqrt re rq manifest)) =
    strategy_risk_governance (strategy_breach_history manifest) (allocation_in re rq)"
  unfolding run_allocation [of fsqrt re rq manifest, symmetric] unfolding run_unified_risk_def Let_def risk_report.simps risk_measures.simps ..

text \<open>
  C25: A strategy that is over its budget, and was so in three of the snapshots, is blocked: the run ends in
  \<open>BLOCKED\<close>, with the kill switch on and no new orders.
\<close>

theorem third_breach_blocks:
  assumes "row \<in> set (kc_allocation (rt_capital (run_unified_risk fsqrt re rq manifest)))" and "100 < budget_usage row"
    and "3 \<le> strategy_breach_history manifest (al_strategy row)"
  shows "rt_state (run_unified_risk fsqrt re rq manifest) = ''BLOCKED'' \<and>
    xn_block_orders (rt_policy (run_unified_risk fsqrt re rq manifest)) \<and> xn_decision (rt_policy (run_unified_risk fsqrt re rq manifest)) = ''KILL_SWITCH''"
proof -
  have "su_action (strategy_use_of (strategy_breach_history manifest) row) = ''BLOCK''"
    using assms(2,3) by (simp add: strategy_use_of_def Let_def)
  then have ask: "asks_for ''BLOCK'' (ms_uses (rt_measures (run_unified_risk fsqrt re rq manifest)))"
    using assms(1) unfolding run_uses run_allocation by (auto simp: asks_for_def list_ex_iff strategy_risk_governance_def)
  then show ?thesis unfolding run_policy using run_block [OF ask] by (simp add: policy_of_state_def blocked_policy_def)
qed

text \<open>What a run reads of its request.\<close>

lemma run_cong:
  assumes "rq_user rq = rq_user rq'" and "rq_ruleset rq = rq_ruleset rq'" and "rq_override rq = rq_override rq'"
    and "rq_calibrated rq = rq_calibrated rq'" and "rq_previous rq = rq_previous rq'"
    and "apply_scenario (rq_input rq) (resolve_scenario (re_scenarios re) (rq_scenario rq)) =
      apply_scenario (rq_input rq') (resolve_scenario (re_scenarios re) (rq_scenario rq'))"
  shows "run_unified_risk fsqrt re rq manifest = run_unified_risk fsqrt re rq' manifest"
  unfolding run_unified_risk_def Let_def assms ..

lemma simulate_unfold:
  "simulate_pre_trade fsqrt re rq po manifest =
     (let before = run_unified_risk fsqrt re (rq\<lparr>rq_input := None, rq_previous := None, rq_persist := True\<rparr>) manifest;
          after = run_unified_risk fsqrt re (rq\<lparr>rq_input := Some (simulated_input before po), rq_previous := Some (rt_state before),
            rq_persist := True\<rparr>) (snapshot_of before # manifest)
      in (\<lparr>sm_before = before, sm_after = after,
           sm_gross_delta = py_round 6 (pm_gross (rt_portfolio after) - pm_gross (rt_portfolio before))\<rparr>,
          snapshot_of after # snapshot_of before # manifest))"
  by (simp add: simulate_pre_trade_def run_and_persist_def Let_def)

text \<open>
  A scenario changes nothing in the first half of a simulated order: the run before has no input, and
  without one the shocks are not applied, so the impact of an order under a scenario is measured
  against a portfolio without the scenario.
\<close>

theorem scenario_applies_only_after:
  "sm_before (fst (simulate_pre_trade fsqrt re (rq\<lparr>rq_scenario := s\<rparr>) po manifest)) =
   sm_before (fst (simulate_pre_trade fsqrt re (rq\<lparr>rq_scenario := None\<rparr>) po manifest))"
  unfolding simulate_unfold Let_def fst_conv simulation.simps by (rule run_cong) (simp_all add: apply_scenario_def)

definition simulated_allocation :: "risk_env \<Rightarrow> risk_request_u \<Rightarrow> proposed_order \<Rightarrow> risk_report \<Rightarrow> allocation_row list" where
  "simulated_allocation re rq po before = allocation_in re (rq\<lparr>rq_input := Some (simulated_input before po)\<rparr>)"

lemma allocation_in_other [simp]:
  "allocation_in re (rq\<lparr>rq_previous := x\<rparr>) = allocation_in re rq" "allocation_in re (rq\<lparr>rq_persist := b\<rparr>) = allocation_in re rq"
  by (simp_all add: allocation_in_def)

lemma simulated_input_any: "simulated_input (run_unified_risk fsqrt re rq manifest) po = simulated_input (run_unified_risk fsqrt re rq manifest') po"
  unfolding simulated_input_def Let_def run_positions run_account run_allocation ..

lemma after_allocation:
  "kc_allocation (rt_capital (sm_after (fst (simulate_pre_trade fsqrt re rq po manifest)))) =
   kc_allocation (rt_capital (sm_after (fst (simulate_pre_trade fsqrt re rq po manifest'))))"
  unfolding simulate_unfold Let_def fst_conv simulation.simps run_allocation allocation_in_other
  using simulated_input_any [of fsqrt re _ manifest po manifest'] by (simp add: allocation_in_def)

text \<open>
  C38: A simulation leaves its two snapshots in the manifest, which counts them as breaches: when an order
  that is only simulated takes its strategy over the budget, the fourth simulation of it is blocked
  and turns on the kill switch, although nothing was ever traded.
\<close>

theorem simulations_block_strategy:
  assumes "row \<in> set (kc_allocation (rt_capital (sm_after (fst (simulate_pre_trade fsqrt re rq po manifest)))))"
    and "al_breach row" and "100 < budget_usage row"
  shows "rt_state (sm_after (fst (simulate_pre_trade fsqrt re rq po
      (((\<lambda>m. snd (simulate_pre_trade fsqrt re rq po m)) ^^ 3) manifest)))) = ''BLOCKED''"
proof -
  let ?next = "\<lambda>m. snd (simulate_pre_trade fsqrt re rq po m)"
  let ?breach = "\<lambda>sp. list_ex (\<lambda>r. al_strategy r = al_strategy row \<and> al_breach r) (sp_allocation sp)"
  have after: "row \<in> set (kc_allocation (rt_capital (sm_after (fst (simulate_pre_trade fsqrt re rq po m)))))" for m
    using assms(1) after_allocation [of fsqrt re rq po m manifest] by simp
  have next_manifest: "\<exists>a b. ?next m = a # b # m \<and> ?breach a" for m
    using after [of m] assms(2) unfolding simulate_unfold Let_def fst_conv snd_conv simulation.simps
    by (auto simp: snapshot_of_def list_ex_iff)
  obtain a1 b1 where 1: "?next manifest = a1 # b1 # manifest" "?breach a1" using next_manifest by blast
  obtain a2 b2 where 2: "?next (a1 # b1 # manifest) = a2 # b2 # a1 # b1 # manifest" "?breach a2" using next_manifest by blast
  obtain a3 b3 where 3: "?next (a2 # b2 # a1 # b1 # manifest) = a3 # b3 # a2 # b2 # a1 # b1 # manifest" "?breach a3" using next_manifest by blast
  let ?m = "a3 # b3 # a2 # b2 # a1 # b1 # manifest"
  have third: "((\<lambda>m. ?next m) ^^ 3) manifest = ?m" by (simp add: eval_nat_numeral 1 2 3)
  have "3 \<le> strategy_breach_history (b # ?m) (al_strategy row)" for b
    using 1(2) 2(2) 3(2) by (simp add: strategy_breach_history_def)
  then show ?thesis using after [of ?m] third_breach_blocks [OF _ assms(3)] unfolding third
    unfolding simulate_unfold Let_def fst_conv simulation.simps by blast
qed
section \<open>An order that is only simulated\<close>

definition empty_env :: risk_env where
  "empty_env = \<lparr>re_rows = None, re_capital = None, re_replay = [], re_calibrated = None, re_scenarios = []\<rparr>"

definition large_order :: proposed_order where
  "large_order = \<lparr>po_symbol = Some ''BTCUSDT'', po_side = Some ''LONG'', po_quantity = Some 100, po_price = Some 100, po_entry = None, po_mark = None,
     po_lev = Some 10, po_mode = None, po_strategy = Some ''trend''\<rparr>"

definition plain_request :: risk_request_u where
  "plain_request = \<lparr>rq_user = ''u1'', rq_ruleset = ''binance'', rq_input = None, rq_scenario = None, rq_previous = None, rq_override = None,
     rq_calibrated = False, rq_persist = True\<rparr>"

definition large_allocation :: allocation_row where
  "large_allocation = \<lparr>al_strategy = ''trend'', al_share = 100, al_budget = 25, al_breach = True\<rparr>"

lemma large_order_allocation:
  "kc_allocation (rt_capital (sm_after (fst (simulate_pre_trade fsqrt empty_env plain_request large_order manifest)))) = [large_allocation]"
proof -
  have inp: "simulated_input (run_unified_risk fsqrt empty_env (plain_request\<lparr>rq_input := None, rq_previous := None, rq_persist := True\<rparr>) manifest) large_order
      = \<lparr>is_account = Some \<lparr>ai_equity = Some 10000, ai_free = Some 10000, ai_used = Some 0\<rparr>,
         is_positions = [as_input (order_position large_order 100)], is_budgets = Map.empty,
         is_series = (\<lambda>_. []), is_spike = False, is_returns = []\<rparr>"
    unfolding simulated_input_def Let_def run_positions run_account run_allocation allocation_in_def
    by (simp add: empty_env_def plain_request_def apply_scenario_def load_positions_def resolve_account_state_def ranked_amounts_def amounts_def
        sort_desc_def)
  have alloc: "allocation_in empty_env (plain_request\<lparr>rq_input := Some \<lparr>is_account = Some \<lparr>ai_equity = Some 10000, ai_free = Some 10000, ai_used = Some 0\<rparr>,
         is_positions = [as_input (order_position large_order 100)], is_budgets = Map.empty,
         is_series = (\<lambda>_. []), is_spike = False, is_returns = []\<rparr>\<rparr>) = [large_allocation]"
    by code_simp
  show ?thesis unfolding simulate_unfold Let_def fst_conv simulation.simps run_allocation allocation_in_other
    using alloc by (simp only: inp)
qed

theorem simulations_block_strategy_witness:
  "rt_state (sm_after (fst (simulate_pre_trade (\<lambda>x. x) empty_env plain_request large_order
      (((\<lambda>m. snd (simulate_pre_trade (\<lambda>x. x) empty_env plain_request large_order m)) ^^ 3) [])))) = ''BLOCKED''"
  by (rule simulations_block_strategy [where row = large_allocation])
    (simp_all only: large_order_allocation, simp_all add: large_allocation_def budget_usage_def tiny_def)

definition breached_snapshot :: risk_snapshot_row where
  "breached_snapshot = \<lparr>sp_allocation = [large_allocation], sp_state = ''CRITICAL'', sp_cluster = 0, sp_var = 0, sp_margin = 0, sp_kill = False\<rparr>"

definition held_request :: risk_request_u where
  "held_request = plain_request\<lparr>rq_input := Some \<lparr>is_account = None, is_positions = [as_input (order_position large_order 100)],
     is_budgets = Map.empty, is_series = (\<lambda>_. []), is_spike = False, is_returns = []\<rparr>\<rparr>"

theorem third_breach_blocks_witness:
  "rt_state (run_unified_risk (\<lambda>x. x) empty_env held_request [breached_snapshot, breached_snapshot, breached_snapshot]) = ''BLOCKED''"
proof (rule third_breach_blocks [where row = large_allocation, THEN conjunct1])
  have "allocation_in empty_env held_request = [large_allocation]" by code_simp
  then show "large_allocation \<in> set (kc_allocation (rt_capital (run_unified_risk (\<lambda>x. x) empty_env held_request
      [breached_snapshot, breached_snapshot, breached_snapshot])))" unfolding run_allocation by simp
qed (simp_all add: large_allocation_def budget_usage_def tiny_def breached_snapshot_def strategy_breach_history_def)

end
