(* ===== verification/Unified_Policy.thy ===== *)
theory Unified_Policy
  imports Unified_State "HOL-Library.Product_Lexorder"
begin

text \<open>
  Tuning in \<open>services/unified_risk_core_service.py\<close>: calibration of the thresholds against the stored
  snapshots, the score of a policy, the benchmark of policies over scenarios, and what is read from
  the history of benchmark scores: leaderboard, decay, portfolio of policies, drift of the thresholds.
  The files under \<open>artifacts\<close> are lists, oldest first unless said otherwise.
\<close>

section \<open>Scenarios\<close>

definition shocks_of :: "num \<Rightarrow> num \<Rightarrow> num \<Rightarrow> num \<Rightarrow> num \<Rightarrow> string \<Rightarrow> num option" where
  "shocks_of btc eth alt correlation liquidity =
     [''BTC'' \<mapsto> btc, ''ETH'' \<mapsto> eth, ''ALT'' \<mapsto> alt, ''correlation'' \<mapsto> correlation, ''liquidity'' \<mapsto> liquidity]"

definition DEFAULT_SCENARIO_PACKS :: "scenario list" where
  "DEFAULT_SCENARIO_PACKS =
     [\<lparr>sn_id = ''bull_regime_v1'', sn_shocks = shocks_of (8 / 100) (10 / 100) (14 / 100) (45 / 100) (2 / 100)\<rparr>,
      \<lparr>sn_id = ''bear_regime_v1'', sn_shocks = shocks_of (- (20 / 100)) (- (23 / 100)) (- (35 / 100)) (80 / 100) (- (8 / 100))\<rparr>,
      \<lparr>sn_id = ''high_volatility_v1'', sn_shocks = shocks_of (- (10 / 100)) (- (12 / 100)) (- (18 / 100)) (70 / 100) (- (5 / 100))\<rparr>,
      \<lparr>sn_id = ''low_liquidity_v1'', sn_shocks = shocks_of (- (6 / 100)) (- (8 / 100)) (- (12 / 100)) (55 / 100) (- (20 / 100))\<rparr>,
      \<lparr>sn_id = ''correlation_breakdown_v1'', sn_shocks = shocks_of (- (4 / 100)) (- (2 / 100)) (- (10 / 100)) (- (20 / 100)) (- (3 / 100))\<rparr>,
      \<lparr>sn_id = ''correlation_spike_v1'', sn_shocks = shocks_of (- (14 / 100)) (- (18 / 100)) (- (26 / 100)) (90 / 100) (- (7 / 100))\<rparr>]"

definition scenario_regime :: "string \<Rightarrow> string" where
  "scenario_regime i =
     (let s = lower i in
      if contains ''bull'' s then ''bull'' else if contains ''bear'' s then ''bear'' else if contains ''vol'' s then ''high_volatility''
      else if contains ''correlation_breakdown'' s then ''sideways'' else if contains ''correlation_spike'' s then ''high_volatility'' else ''sideways'')"

text \<open>Inserting a scenario, or replacing the first one of its name.\<close>

fun replace_scenario :: "scenario \<Rightarrow> scenario list \<Rightarrow> scenario list" where
  "replace_scenario sn [] = [sn]"
| "replace_scenario sn (x # xs) = (if sn_id x = sn_id sn then sn # xs else x # replace_scenario sn xs)"

definition upsert_scenario_pack :: "scenario \<Rightarrow> scenario list \<Rightarrow> string + scenario list" where
  "upsert_scenario_pack sn scenarios =
     (let i = strip (sn_id sn) in
      if i = [] then Inl ''scenario_id_required''
      else Inr (replace_scenario (sn\<lparr>sn_id := i\<rparr>) (if scenarios = [] then DEFAULT_SCENARIO_PACKS else scenarios)))"

section \<open>Calibration\<close>

definition calibration_candidate :: "num \<Rightarrow> num \<Rightarrow> num \<Rightarrow> risk_thresholds" where
  "calibration_candidate var cl margin = normalize_thresholds
     [''var_limit'' \<mapsto> var, ''cluster_limit'' \<mapsto> cl, ''margin_high_limit'' \<mapsto> margin, ''margin_critical_limit'' \<mapsto> margin + 10,
      ''margin_blocked_limit'' \<mapsto> margin + 20]"

definition calibration_grid :: "risk_thresholds list" where
  "calibration_grid = concat (map (\<lambda>var. concat (map (\<lambda>cl. map (calibration_candidate var cl) [70, 75, 80, 85])
     [55 / 100, 60 / 100, 65 / 100, 70 / 100])) [4 / 100, 5 / 100, 6 / 100, 8 / 100])"

definition predicted_risk :: "risk_thresholds \<Rightarrow> risk_snapshot_row \<Rightarrow> bool" where
  "predicted_risk th sp \<longleftrightarrow> th_cluster th \<le> sp_cluster sp \<or> th_var th \<le> sp_var sp \<or> th_margin_critical th \<le> sp_margin sp"

definition actual_risk :: "risk_snapshot_row \<Rightarrow> bool" where
  "actual_risk sp \<longleftrightarrow> sp_state sp \<in> {''HIGH'', ''CRITICAL'', ''BLOCKED''}"

definition scenario_penalty :: "risk_thresholds \<Rightarrow> scenario list \<Rightarrow> nat" where
  "scenario_penalty th scenarios =
     length (filter (\<lambda>sn. 75 / 100 < \<bar>get_or (sn_shocks sn ''correlation'') 0\<bar> \<and> 65 / 100 < th_cluster th) scenarios) +
     length (filter (\<lambda>sn. 15 / 100 < \<bar>get_or (sn_shocks sn ''BTC'') 0\<bar> \<and> 6 / 100 < th_var th) scenarios)"

definition calibration_score :: "risk_snapshot_row list \<Rightarrow> scenario list \<Rightarrow> risk_thresholds \<Rightarrow> num" where
  "calibration_score snapshots scenarios th =
     of_nat (length (filter (\<lambda>sp. predicted_risk th sp \<and> \<not> actual_risk sp) snapshots)) +
     of_nat (length (filter (\<lambda>sp. actual_risk sp \<and> \<not> predicted_risk th sp) snapshots)) * (25 / 10) + of_nat (scenario_penalty th scenarios)"

definition calibration_step :: "risk_snapshot_row list \<Rightarrow> scenario list \<Rightarrow> risk_thresholds \<Rightarrow> num \<times> risk_thresholds \<Rightarrow> num \<times> risk_thresholds" where
  "calibration_step snapshots scenarios th best =
     (let score = calibration_score snapshots scenarios th in if score < fst best then (score, th) else best)"

text \<open>The best candidate with its score, from the newest 300 snapshots of a manifest with the newest first.\<close>

definition calibrate_thresholds :: "risk_snapshot_row list \<Rightarrow> scenario list \<Rightarrow> num \<times> risk_thresholds" where
  "calibrate_thresholds manifest scenarios =
     fold (calibration_step (take 300 manifest) scenarios) calibration_grid (10 ^ 9, RISK_THRESHOLDS)"

section \<open>The score of a policy\<close>

definition weights_for_strategy_class :: "string \<Rightarrow> num \<times> num \<times> num \<times> num" where
  "weights_for_strategy_class cls =
     get_or (map_of [(''default'', (35 / 100, 25 / 100, 2 / 10, 2 / 10)), (''trend'', (3 / 10, 2 / 10, 15 / 100, 35 / 100)),
        (''mean_reversion'', (4 / 10, 3 / 10, 2 / 10, 1 / 10)), (''market_maker'', (25 / 100, 35 / 100, 25 / 100, 15 / 100))]
       (lower (str_or (Some cls) ''default''))) (35 / 100, 25 / 100, 2 / 10, 2 / 10)"

definition weighted_penalty :: "string \<Rightarrow> num \<Rightarrow> num \<Rightarrow> num \<Rightarrow> num \<Rightarrow> num" where
  "weighted_penalty cls drawdown buffer false_positive missed =
     (let (w1, w2, w3, w4) = weights_for_strategy_class cls in
      w1 * min (drawdown / (35 / 100)) 1 + w2 * (1 - min (buffer / 15) 1) + w3 * min (max false_positive 0) 1 + w4 * min (max missed 0) 1)"

definition policy_score :: "string \<Rightarrow> num \<Rightarrow> num \<Rightarrow> num \<Rightarrow> num \<Rightarrow> num" where
  "policy_score cls drawdown buffer false_positive missed =
     py_round 6 (max 0 (min 1 (1 - weighted_penalty cls drawdown buffer false_positive missed)))"

section \<open>The benchmark\<close>

record risk_policy_set =
  rp_id :: string
  rp_values :: "string \<Rightarrow> num option"

definition default_policies :: "risk_policy_set list" where
  "default_policies = [\<lparr>rp_id = ''A'', rp_values = Map.empty\<rparr>,
     \<lparr>rp_id = ''B'', rp_values = [''var_limit'' \<mapsto> 55 / 1000, ''cluster_limit'' \<mapsto> 65 / 100, ''margin_high_limit'' \<mapsto> 70,
        ''margin_critical_limit'' \<mapsto> 83, ''margin_blocked_limit'' \<mapsto> 92]\<rparr>,
     \<lparr>rp_id = ''C'', rp_values = [''var_limit'' \<mapsto> 45 / 1000, ''cluster_limit'' \<mapsto> 55 / 100, ''margin_high_limit'' \<mapsto> 60,
        ''margin_critical_limit'' \<mapsto> 75, ''margin_blocked_limit'' \<mapsto> 88]\<rparr>]"

record benchmark_row =
  bm_policy :: string
  bm_score :: num
  bm_state :: string
  bm_kill :: bool
  bm_loss :: num

definition benchmark_request :: "string \<Rightarrow> string \<Rightarrow> input_state \<Rightarrow> string \<Rightarrow> risk_policy_set \<Rightarrow> risk_request_u" where
  "benchmark_request user rules inp scn rp = \<lparr>rq_user = user, rq_ruleset = rules, rq_input = Some inp, rq_scenario = Some scn,
     rq_previous = None, rq_override = Some (rp_values rp), rq_calibrated = False, rq_persist = False\<rparr>"

definition benchmark_row_of :: "string \<Rightarrow> string \<Rightarrow> string \<Rightarrow> risk_report \<Rightarrow> benchmark_row" where
  "benchmark_row_of cls scn policy rt =
     (let expected = (scenario_regime scn \<in> {''bear'', ''high_volatility''}); predicted = (rt_state rt \<in> {''HIGH'', ''CRITICAL'', ''BLOCKED''});
          drawdown = min (tk_stress_loss (rt_tail rt) / max (ac_equity (rt_account rt)) tiny) 1
      in \<lparr>bm_policy = policy,
          bm_score = policy_score cls drawdown (py_round 6 (ms_buffer (rt_measures rt))) (if predicted \<and> \<not> expected then 1 else 0)
            (if expected \<and> \<not> predicted then 1 else 0),
          bm_state = rt_state rt, bm_kill = (km_reasons (rt_kill rt) \<noteq> []), bm_loss = tk_stress_loss (rt_tail rt)\<rparr>)"

definition scenario_rows ::
  "(num \<Rightarrow> num) \<Rightarrow> risk_env \<Rightarrow> string \<Rightarrow> string \<Rightarrow> string \<Rightarrow> input_state \<Rightarrow> risk_policy_set list \<Rightarrow> risk_snapshot_row list \<Rightarrow> string \<Rightarrow> benchmark_row list" where
  "scenario_rows fsqrt re user rules cls inp policies manifest scn =
     map (\<lambda>rp. benchmark_row_of cls scn (rp_id rp) (run_unified_risk fsqrt re (benchmark_request user rules inp scn rp) manifest)) policies"

definition best_row :: "benchmark_row list \<Rightarrow> string" where
  "best_row rows = (case rows of [] \<Rightarrow> [] | r # rs \<Rightarrow> bm_policy (arg_max_list bm_score r rs))"

definition population_variance :: "num list \<Rightarrow> num" where
  "population_variance xs = (if length xs < 2 then 0 else variance xs / of_nat (length xs))"

definition stability_of :: "num list \<Rightarrow> num" where
  "stability_of scores = max 0 (min 1 (1 - min (population_variance scores * 4) 1))"

record policy_standing =
  py_id :: string
  py_score :: num
  py_stability :: num

definition standing_of :: "string \<Rightarrow> num list \<Rightarrow> policy_standing" where
  "standing_of i scores =
     \<lparr>py_id = i, py_score = py_round 6 (if scores = [] then 0 else mean scores), py_stability = py_round 6 (stability_of scores)\<rparr>"

definition benchmark_base_input :: input_state where
  "benchmark_base_input =
     \<lparr>is_account = Some \<lparr>ai_equity = Some 12000, ai_free = Some 9000, ai_used = Some 3000\<rparr>,
      is_positions = [\<lparr>pi_symbol = Some ''BTCUSDT'', pi_side = Some ''LONG'', pi_quantity = Some (1 / 10), pi_entry = Some 65000,
          pi_mark = Some 64600, pi_leverage = Some 8, pi_mode = Some ''cross'', pi_strategy = Some ''benchmark_default'', pi_isolated = None\<rparr>,
        \<lparr>pi_symbol = Some ''ETHUSDT'', pi_side = Some ''SHORT'', pi_quantity = Some (12 / 10), pi_entry = Some 3300,
          pi_mark = Some 3340, pi_leverage = Some 7, pi_mode = Some ''isolated'', pi_strategy = Some ''benchmark_default'', pi_isolated = Some 850\<rparr>],
      is_budgets = [''benchmark_default'' \<mapsto> 30], is_series = (\<lambda>_. []), is_spike = False, is_returns = []\<rparr>"

text \<open>The policies of a run: those of the request, or the default ones, the unnamed ones numbered.\<close>

definition normalized_policies :: "risk_policy_set list \<Rightarrow> risk_policy_set list" where
  "normalized_policies given =
     map (\<lambda>(k, rp). if rp_id rp = [] then rp\<lparr>rp_id := ''policy-'' @ nat_str k\<rparr> else rp)
       (enumerate 0 (if given = [] then default_policies else given))"

definition policies_of_run :: "risk_policy_set list \<Rightarrow> string list" where
  "policies_of_run policies = rev (remdups (rev (map rp_id policies)))"

definition run_policy_benchmark ::
  "(num \<Rightarrow> num) \<Rightarrow> risk_env \<Rightarrow> string \<Rightarrow> string \<Rightarrow> string \<Rightarrow> input_state option \<Rightarrow> risk_policy_set list \<Rightarrow> string list \<Rightarrow> risk_snapshot_row list
     \<Rightarrow> string + (benchmark_row list list \<times> policy_standing list)" where
  "run_policy_benchmark fsqrt re user rules cls inp given_policies scenario_ids manifest =
     (let given = filter (\<lambda>s. s \<noteq> []) (if scenario_ids = [] then map sn_id (re_scenarios re) else scenario_ids);
          policies = normalized_policies given_policies
      in if given = [] then Inl ''scenario_ids_required''
         else let results = map (scenario_rows fsqrt re user rules cls (get_or inp benchmark_base_input) policies manifest) given;
                  standings = map (\<lambda>i. standing_of i (map bm_score (filter (\<lambda>r. bm_policy r = i) (concat results)))) (policies_of_run policies)
              in Inr (results, sort_desc py_score standings))"

section \<open>The history of scores\<close>

record score_entry =
  se_policy :: string
  se_score :: num
  se_time :: string

definition policies_in :: "score_entry list \<Rightarrow> string list" where
  "policies_in history = rev (remdups (rev (map se_policy history)))"

definition scores_in :: "score_entry list \<Rightarrow> string \<Rightarrow> num list" where
  "scores_in history i = map se_score (filter (\<lambda>se. se_policy se = i) history)"

definition rank_policies :: "policy_standing list \<Rightarrow> policy_standing list" where
  "rank_policies = sort_key (\<lambda>py. (- py_score py, - py_stability py))"

definition policy_leaderboard :: "score_entry list \<Rightarrow> int \<Rightarrow> policy_standing list" where
  "policy_leaderboard history limit =
     take (nat (max 1 (min limit 200))) (rank_policies (map (\<lambda>i. standing_of i (scores_in history i)) (policies_in history)))"

text \<open>The shares of the best policies, by score and stability.\<close>

definition policy_portfolio :: "score_entry list \<Rightarrow> int \<Rightarrow> (string \<times> num) list" where
  "policy_portfolio history top_k =
     (let board = policy_leaderboard history (max top_k 2); best = take (nat (max 1 (min top_k (int (length board))))) board;
          weights = map (\<lambda>py. max (py_score py * py_stability py) tick) best; whole = sum_list weights
      in map (\<lambda>(py, w). (py_id py, py_round 6 (w / max whole tiny))) (zip best weights))"

text \<open>Means over a recent window, of at least one score, and over the window before it.\<close>

record decay_row =
  dy_policy :: string
  dy_status :: string
  dy_drop :: num

definition score_decay_of :: "nat \<Rightarrow> num \<Rightarrow> string \<Rightarrow> num list \<Rightarrow> decay_row" where
  "score_decay_of window drop_threshold i ordered =
     (let win = min window (length ordered div 2); recent = drop (length ordered - win) ordered;
          prev = take win (drop (length ordered - 2 * win) ordered);
          change = (mean recent - mean prev) / max \<bar>mean prev\<bar> tiny
      in \<lparr>dy_policy = i, dy_status = (if change \<le> - \<bar>drop_threshold\<bar> then ''DEGRADING'' else ''STABLE''), dy_drop = py_round 6 change\<rparr>)"

definition policy_decay :: "score_entry list \<Rightarrow> nat \<Rightarrow> num \<Rightarrow> decay_row list" where
  "policy_decay history window drop_threshold =
     concat (map (\<lambda>i. let ordered = map se_score (sort_key se_time (filter (\<lambda>se. se_policy se = i) history))
       in if length ordered < 4 then [] else [score_decay_of window drop_threshold i ordered]) (policies_in history))"

section \<open>Drift\<close>

definition drift_pct :: "num \<Rightarrow> num \<Rightarrow> num" where
  "drift_pct base current = (current - base) / max \<bar>base\<bar> tiny * 100"

definition drifted_metrics :: "risk_thresholds \<Rightarrow> num \<Rightarrow> string list" where
  "drifted_metrics current tolerance = collect
     (map (\<lambda>(name, f). (tolerance \<le> \<bar>drift_pct (f RISK_THRESHOLDS) (f current)\<bar>, name))
        [(''var_limit'', th_var), (''cluster_limit'', th_cluster), (''margin_high_limit'', th_margin_high)])"

definition kill_switch_frequency :: "risk_snapshot_row list \<Rightarrow> num" where
  "kill_switch_frequency manifest =
     (let recent = take 200 manifest in
      if recent = [] then 0 else of_nat (length (filter sp_kill recent)) / of_nat (length recent))"

definition drift_detected :: "risk_thresholds \<Rightarrow> num \<Rightarrow> risk_snapshot_row list \<Rightarrow> bool" where
  "drift_detected current tolerance manifest \<longleftrightarrow> drifted_metrics current tolerance \<noteq> [] \<or> 35 / 100 < kill_switch_frequency manifest"

section \<open>The confidence of a recommendation\<close>

text \<open>The mean of the scores of the best policy, rotated by one place after the other.\<close>

definition bootstrap_samples :: "num list \<Rightarrow> num list" where
  "bootstrap_samples scores =
     (if scores = [] then []
      else map (\<lambda>shift. mean (map (\<lambda>k. scores ! ((k + shift) mod length scores)) [0..<length scores])) [0..<max (length scores) 5])"

definition confidence_of :: "num \<Rightarrow> num \<Rightarrow> num list \<Rightarrow> num" where
  "confidence_of best second scores =
     max (min ((best - second) + (1 - min (population_variance (bootstrap_samples scores) * 8) 1)) (99 / 100)) (5 / 10)"

definition recommendation :: "benchmark_row list list \<Rightarrow> policy_standing list \<Rightarrow> (string \<times> num) option" where
  "recommendation results standings =
     (case standings of [] \<Rightarrow> None
      | b # others \<Rightarrow> Some (py_id b, py_round 6 (confidence_of (py_score b) (case others of [] \<Rightarrow> 0 | s # _ \<Rightarrow> py_score s)
          (map bm_score (filter (\<lambda>r. bm_policy r = py_id b) (concat results))))))"

lemma rotated_mean:
  assumes "scores \<noteq> []"
  shows "mean (map (\<lambda>k. scores ! ((k + shift) mod length scores)) [0..<length scores]) = mean (scores :: num list)"
proof -
  have "map (\<lambda>k. scores ! ((k + shift) mod length scores)) [0..<length scores] = rotate shift scores"
    by (intro nth_equalityI) (simp_all add: nth_rotate add.commute)
  moreover have "sum_list (rotate n xs) = sum_list xs" for n and xs :: "num list"
    by (metis add.commute append_take_drop_id rotate_drop_take sum_list_append)
  ultimately show ?thesis by (simp add: mean_def)
qed

lemma constant_variance: "population_variance (map (\<lambda>_. c) xs) = 0"
  by (cases "xs = []") (simp_all add: population_variance_def variance_def mean_def sum_list_triv comp_def)

lemma bootstrap_has_no_variance: "population_variance (bootstrap_samples scores) = 0"
proof (cases "scores = []")
  case False
  then have "bootstrap_samples scores = map (\<lambda>_. mean scores) [0..<max (length scores) 5]"
    by (simp add: bootstrap_samples_def rotated_mean)
  then show ?thesis by (simp only: constant_variance)
qed (simp add: bootstrap_samples_def population_variance_def)

lemma confidence_of_ordered: "second \<le> best \<Longrightarrow> confidence_of best second scores = 99 / 100"
  by (simp add: confidence_of_def bootstrap_has_no_variance)

section \<open>Properties\<close>

lemma calibration_fold:
  "fst (fold (calibration_step sps scs) ths best) \<le> fst best \<and>
   list_all (\<lambda>th. fst (fold (calibration_step sps scs) ths best) \<le> calibration_score sps scs th) ths \<and>
   fold (calibration_step sps scs) ths best \<in> insert best ((\<lambda>th. (calibration_score sps scs th, th)) ` set ths)"
proof (induction ths arbitrary: best)
  case (Cons th ths)
  let ?b = "calibration_step sps scs th best"
  have "fst ?b \<le> fst best" "fst ?b \<le> calibration_score sps scs th" "?b \<in> {best, (calibration_score sps scs th, th)}"
    by (auto simp: calibration_step_def Let_def)
  with Cons.IH [of ?b] show ?case by (auto simp: list_all_iff intro: order_trans)
qed simp

text \<open>
  C35: Calibration finds an optimum: no candidate of the grid scores less than the one it stores, and it is
  a candidate of the grid, or the default when every candidate scores a billion.
\<close>

theorem calibration_is_optimal:
  "case calibrate_thresholds manifest scenarios of (score, th) \<Rightarrow>
     list_all (\<lambda>th'. score \<le> calibration_score (take 300 manifest) scenarios th') calibration_grid \<and>
     (th \<in> set calibration_grid \<and> score = calibration_score (take 300 manifest) scenarios th \<or> th = RISK_THRESHOLDS \<and> score = 10 ^ 9)"
  using calibration_fold [of "take 300 manifest" scenarios calibration_grid "(10 ^ 9, RISK_THRESHOLDS)"]
  unfolding calibrate_thresholds_def by (auto simp: image_iff)

text \<open>
  Without a single snapshot the calibration still replaces the thresholds, by the first candidate: the
  strictest limits for value at risk and concentration, with the margin limits moved.
\<close>

theorem calibration_without_data:
  "calibrate_thresholds [] DEFAULT_SCENARIO_PACKS = (0, calibration_candidate (4 / 100) (55 / 100) 70) \<and>
   calibration_candidate (4 / 100) (55 / 100) 70 \<noteq> RISK_THRESHOLDS"
proof -
  have grid: "calibration_grid = calibration_candidate (4 / 100) (55 / 100) 70 # tl calibration_grid" by (simp add: calibration_grid_def)
  have first: "calibration_score [] DEFAULT_SCENARIO_PACKS (calibration_candidate (4 / 100) (55 / 100) 70) = 0" by code_simp
  have stays: "fold (calibration_step [] scs) ths (0, th) = (0, th)" for scs ths th
  proof (induction ths)
    case (Cons a ths)
    have "0 \<le> calibration_score [] scs a" by (simp add: calibration_score_def)
    then show ?case using Cons by (simp add: calibration_step_def not_less)
  qed simp
  have start: "calibration_step [] DEFAULT_SCENARIO_PACKS (calibration_candidate (4 / 100) (55 / 100) 70) (10 ^ 9, RISK_THRESHOLDS) =
      (0, calibration_candidate (4 / 100) (55 / 100) 70)"
    unfolding calibration_step_def Let_def first by simp
  have "calibrate_thresholds [] DEFAULT_SCENARIO_PACKS = (0, calibration_candidate (4 / 100) (55 / 100) 70)"
    unfolding calibrate_thresholds_def by (subst grid) (simp only: take_Nil fold_simps start stays)
  then show ?thesis by (simp add: calibration_candidate_def normalize_thresholds_def RISK_THRESHOLDS_def Let_def)
qed

lemma weights_nonneg: "weights_for_strategy_class cls = (w1, w2, w3, w4) \<Longrightarrow> 0 \<le> w1 \<and> 0 \<le> w2 \<and> 0 \<le> w3 \<and> 0 \<le> w4"
  by (auto simp: weights_for_strategy_class_def split: if_splits)

text \<open>A policy that does worse, in drawdown, distance to liquidation, false alarms and missed risks, never scores higher.\<close>

theorem policy_score_antitone:
  assumes "drawdown \<le> drawdown'" and "buffer' \<le> buffer" and "fp \<le> fp'" and "missed \<le> missed'"
  shows "policy_score cls drawdown' buffer' fp' missed' \<le> policy_score cls drawdown buffer fp missed"
proof -
  obtain w1 w2 w3 w4 where w: "weights_for_strategy_class cls = (w1, w2, w3, w4)" by (metis prod_cases4)
  have "w1 * min (drawdown / (35 / 100)) 1 \<le> w1 * min (drawdown' / (35 / 100)) 1" "w2 * (1 - min (buffer / 15) 1) \<le> w2 * (1 - min (buffer' / 15) 1)"
    "w3 * min (max fp 0) 1 \<le> w3 * min (max fp' 0) 1" "w4 * min (max missed 0) 1 \<le> w4 * min (max missed' 0) 1"
    using weights_nonneg [OF w] assms by (auto intro!: mult_left_mono min.mono max.mono diff_left_mono divide_right_mono)
  then have "weighted_penalty cls drawdown buffer fp missed \<le> weighted_penalty cls drawdown' buffer' fp' missed'"
    unfolding weighted_penalty_def w Let_def prod.case by (intro add_mono)
  then show ?thesis unfolding policy_score_def by (intro py_round_mono max.mono min.mono) simp_all
qed

theorem policy_score_antitone_witness: "policy_score ''trend'' (2 / 10) 3 1 1 \<le> policy_score ''trend'' (1 / 10) 5 0 0"
  by (rule policy_score_antitone) simp_all

lemma round_sum_error: "\<bar>sum_list (map (\<lambda>x. py_round 6 (f x)) xs) - sum_list (map f xs)\<bar> \<le> of_nat (length xs) / (2 * 10 ^ 6)"
proof (induction xs)
  case (Cons x xs)
  have "\<bar>py_round 6 (f x) - f x\<bar> \<le> 1 / (2 * 10 ^ 6)" by (rule py_round_error)
  then show ?case using Cons by (simp only: list.map sum_list.Cons list.size of_nat_add of_nat_1 add_divide_distrib One_nat_def of_nat_Suc of_nat_0)
qed simp

definition shares_over :: "policy_standing list \<Rightarrow> (string \<times> num) list" where
  "shares_over ranked = map (\<lambda>(py, w). (py_id py, py_round 6 (w / max (sum_list (map (\<lambda>py. max (py_score py * py_stability py) tick) ranked)) tiny)))
     (zip ranked (map (\<lambda>py. max (py_score py * py_stability py) tick) ranked))"

lemma portfolio_shape: "\<exists>ranked. policy_portfolio history top_k = shares_over ranked"
  unfolding policy_portfolio_def Let_def shares_over_def by (rule exI) (rule refl)

text \<open>The shares of the portfolio of policies sum up to one, up to the rounding of each share, and none is negative.\<close>

theorem portfolio_shares_sum:
  assumes "policy_portfolio history top_k \<noteq> []"
  shows "\<bar>sum_list (map snd (policy_portfolio history top_k)) - 1\<bar> \<le> of_nat (length (policy_portfolio history top_k)) / (2 * 10 ^ 6) \<and>
    list_all (\<lambda>share. 0 \<le> share) (map snd (policy_portfolio history top_k))"
proof -
  obtain ranked where eq: "policy_portfolio history top_k = shares_over ranked" using portfolio_shape by blast
  let ?w = "\<lambda>py. max (py_score py * py_stability py) tick" and ?s = "sum_list (map (\<lambda>py. max (py_score py * py_stability py) tick) ranked)"
  have pos: "0 < ?w py" for py by (simp add: less_max_iff_disj)
  have len: "length (policy_portfolio history top_k) = length ranked" unfolding eq shares_over_def by simp
  then have ne: "ranked \<noteq> []" using assms by auto
  have tickle: "tick \<le> ?s"
  proof -
    obtain py rest where ranked: "ranked = py # rest" using ne by (cases ranked) auto
    have "0 \<le> sum_list (map ?w rest)" by (intro sum_list_map_nonneg max.coboundedI2) simp
    then show ?thesis unfolding ranked by (simp add: add_increasing2)
  qed
  then have big: "max ?s tiny = ?s" by (simp add: max_absorb1 tick_def tiny_def)
  have s_pos: "0 < ?s" using tickle by (rule less_le_trans [OF tick_pos(1)])
  have shares: "map snd (policy_portfolio history top_k) = map (\<lambda>py. py_round 6 (?w py / ?s)) ranked"
    unfolding eq shares_over_def big by (simp add: zip_map2 zip_same_conv_map comp_def)
  have one: "sum_list (map (\<lambda>py. ?w py / ?s) ranked) = 1" using s_pos by (simp add: sum_list_divide)
  have "0 \<le> py_round 6 (?w py / ?s)" for py using pos [of py] s_pos by (intro py_round_ge) simp_all
  then show ?thesis using round_sum_error [of "\<lambda>py. ?w py / ?s" ranked] unfolding shares len one by (auto simp: list_all_iff)
qed

theorem portfolio_shares_sum_witness:
  "\<bar>sum_list (map snd (policy_portfolio [\<lparr>se_policy = ''A'', se_score = 1 / 2, se_time = ''1''\<rparr>, \<lparr>se_policy = ''B'', se_score = 1 / 3, se_time = ''2''\<rparr>] 2)) - 1\<bar> \<le> 2 / (2 * 10 ^ 6)"
proof -
  let ?p = "policy_portfolio [\<lparr>se_policy = ''A'', se_score = 1 / 2, se_time = ''1''\<rparr>, \<lparr>se_policy = ''B'', se_score = 1 / 3, se_time = ''2''\<rparr>] 2"
  have "length ?p = 2" by code_simp
  moreover from this have "?p \<noteq> []" by auto
  ultimately show ?thesis using portfolio_shares_sum [of _ 2] by (metis of_nat_numeral)
qed

lemma benchmark_rows_score: "r \<in> set (scenario_rows fsqrt re user rules cls inp policies manifest scn) \<Longrightarrow> 0 \<le> bm_score r"
proof -
  have "0 \<le> policy_score c d b f m" for c d b f m
    using py_round_mono [of 0 "max 0 (min 1 (1 - weighted_penalty c d b f m))" 6] by (simp add: policy_score_def)
  then show "r \<in> set (scenario_rows fsqrt re user rules cls inp policies manifest scn) \<Longrightarrow> 0 \<le> bm_score r"
    by (auto simp: scenario_rows_def benchmark_row_of_def Let_def)
qed

lemma standing_score: "list_all (\<lambda>x. 0 \<le> x) scores \<Longrightarrow> 0 \<le> py_score (standing_of i scores)"
proof -
  assume "list_all (\<lambda>x. 0 \<le> x) scores"
  then have "0 \<le> (if scores = [] then 0 else mean scores)"
    by (simp add: mean_def sum_list_nonneg list_all_iff)
  from py_round_mono [OF this, of 6] show ?thesis by (simp add: standing_of_def)
qed

lemma recommendation_of_sorted:
  assumes "sorted_wrt (\<lambda>x y. py_score y \<le> py_score x) standings" and "list_all (\<lambda>py. 0 \<le> py_score py) standings"
  shows "recommendation results standings = (case standings of [] \<Rightarrow> None | b # _ \<Rightarrow> Some (py_id b, 99 / 100))"
proof (cases standings)
  case (Cons b others)
  have le: "(case others of [] \<Rightarrow> 0 | s # _ \<Rightarrow> py_score s) \<le> py_score b"
    using assms by (simp add: Cons split: list.split)
  have r: "py_round 6 (99 / 100) = 99 / 100" by code_simp
  show ?thesis by (simp add: recommendation_def Cons confidence_of_ordered [OF le] r)
qed (simp add: recommendation_def)

text \<open>
  A recommendation is always given with a confidence of 0.99. The scores of the best policy are rotated
  and not sampled, so all their means agree, and neither their spread nor the distance to the
  second policy has a part in the number.
\<close>

theorem confidence_is_constant:
  "case run_policy_benchmark fsqrt re user rules cls inp given_policies scenario_ids manifest of Inl _ \<Rightarrow> True
     | Inr (results, standings) \<Rightarrow> recommendation results standings = (case standings of [] \<Rightarrow> None | b # _ \<Rightarrow> Some (py_id b, 99 / 100))"
proof -
  let ?given = "filter (\<lambda>s. s \<noteq> []) (if scenario_ids = [] then map sn_id (re_scenarios re) else scenario_ids)"
  let ?results = "map (scenario_rows fsqrt re user rules cls (get_or inp benchmark_base_input) (normalized_policies given_policies) manifest) ?given"
  let ?ids = "policies_of_run (normalized_policies given_policies)"
  let ?st = "\<lambda>i. standing_of i (map bm_score (filter (\<lambda>r. bm_policy r = i) (concat ?results)))"
  have pos: "list_all (\<lambda>py. 0 \<le> py_score py) (sort_desc py_score (map ?st ?ids))"
    by (auto simp: list_all_iff benchmark_rows_score intro!: standing_score)
  have eq: "run_policy_benchmark fsqrt re user rules cls inp given_policies scenario_ids manifest =
     (if ?given = [] then Inl ''scenario_ids_required'' else Inr (?results, sort_desc py_score (map ?st ?ids)))"
    by (simp only: run_policy_benchmark_def Let_def)
  show ?thesis
    unfolding eq by (cases "?given = []") (simp_all only: if_True if_False sum.case prod.case simp_thms recommendation_of_sorted [OF sorted_sort_desc pos])
qed

end
