(* ===== verification/Policy_Gate.thy ===== *)
theory Policy_Gate
  imports Prelude
begin

text \<open>
  The risk gate of \<open>services/risk_orchestrator_service.py\<close>: the limits of the global policy, the
  difference between two policies, the predictive signal, the score of a change and the way it has
  to be approved. What the score reads from the database is a record of evidence: counts, sums and
  lists of volatilities over the windows of the code. A candidate has all its fields, as the
  request schema demands.
\<close>

section \<open>Policies and their difference\<close>

record limit_policy =
  lp_equity :: num
  lp_account_pct :: num
  lp_symbol_pct :: num
  lp_concurrent :: int
  lp_cooldown :: int
  lp_frequency :: int
  lp_burst :: int
  lp_daily_loss :: num
  lp_duplicate_window :: int

definition default_limits_policy :: limit_policy where
  "default_limits_policy = \<lparr>lp_equity = 10000, lp_account_pct = 60, lp_symbol_pct = 25, lp_concurrent = 3, lp_cooldown = 60, lp_frequency = 6,
     lp_burst = 3, lp_daily_loss = 5, lp_duplicate_window = 300\<rparr>"

definition policy_payload :: "limit_policy \<Rightarrow> (string \<times> num) list" where
  "policy_payload lp =
     [(''reference_equity_usd'', lp_equity lp), (''account_max_notional_pct'', lp_account_pct lp), (''symbol_max_notional_pct'', lp_symbol_pct lp),
      (''strategy_max_concurrent_positions'', of_int (lp_concurrent lp)), (''strategy_cooldown_seconds'', of_int (lp_cooldown lp)),
      (''max_order_frequency_per_min'', of_int (lp_frequency lp)), (''max_order_burst_per_10s'', of_int (lp_burst lp)),
      (''daily_loss_limit_pct'', lp_daily_loss lp), (''duplicate_suppression_window_seconds'', of_int (lp_duplicate_window lp))]"

definition CRITICAL_FIELDS :: "string list" where
  "CRITICAL_FIELDS = [''account_max_notional_pct'', ''symbol_max_notional_pct'', ''strategy_max_concurrent_positions'', ''daily_loss_limit_pct'']"

definition LOOSEN_FIELDS :: "string list" where
  "LOOSEN_FIELDS = [''account_max_notional_pct'', ''symbol_max_notional_pct'', ''strategy_max_concurrent_positions'',
     ''max_order_frequency_per_min'', ''max_order_burst_per_10s'', ''daily_loss_limit_pct'']"

definition TIGHTEN_FIELDS :: "string list" where
  "TIGHTEN_FIELDS = [''strategy_cooldown_seconds'', ''duplicate_suppression_window_seconds'']"

definition loosens_limit :: "string \<Rightarrow> num \<Rightarrow> num \<Rightarrow> bool" where
  "loosens_limit field prior after \<longleftrightarrow> (if field \<in> set TIGHTEN_FIELDS then after < prior else field \<in> set LOOSEN_FIELDS \<and> prior < after)"

definition tightens_limit :: "string \<Rightarrow> num \<Rightarrow> num \<Rightarrow> bool" where
  "tightens_limit field prior after \<longleftrightarrow> (if field \<in> set TIGHTEN_FIELDS then prior < after else field \<in> set LOOSEN_FIELDS \<and> after < prior)"

record policy_difference =
  pd_changed :: "string list"
  pd_critical :: "string list"
  pd_loosened :: "string list"
  pd_tightened :: "string list"
  pd_status :: string
  pd_score :: nat

definition policy_diff :: "limit_policy \<Rightarrow> limit_policy \<Rightarrow> policy_difference" where
  "policy_diff baseline candidate =
     (let rows = filter (\<lambda>((f, prior), (_, after)). prior \<noteq> after) (zip (policy_payload baseline) (policy_payload candidate));
          changed = map (\<lambda>((f, _), _). f) rows;
          loosened = map (\<lambda>((f, _), _). f) (filter (\<lambda>((f, prior), (_, after)). loosens_limit f prior after) rows);
          tightened = map (\<lambda>((f, _), _). f) (filter (\<lambda>((f, prior), (_, after)). tightens_limit f prior after) rows);
          score = length loosened + (if ''daily_loss_limit_pct'' \<in> set loosened then 2 else 0)
      in \<lparr>pd_changed = changed, pd_critical = filter (\<lambda>f. f \<in> set CRITICAL_FIELDS) changed, pd_loosened = loosened, pd_tightened = tightened,
          pd_status = (if 3 \<le> score then ''critical'' else if 0 < score then ''warning'' else ''safe''), pd_score = score\<rparr>)"

section \<open>The predictive signal\<close>

record signal_evidence =
  sg_recent_breaches :: nat
  sg_previous_breaches :: nat
  sg_pending_critical :: nat
  sg_pending :: nat
  sg_recent_volatility :: "num list"
  sg_previous_volatility :: "num list"

definition average :: "num list \<Rightarrow> num \<Rightarrow> num" where
  "average xs dflt = (if xs = [] then dflt else sum_list xs / of_nat (length xs))"

definition predictive_score :: "signal_evidence \<Rightarrow> num" where
  "predictive_score sg =
     (let queue = (if sg_pending sg = 0 then 0 else of_nat (sg_pending_critical sg) / of_nat (max (sg_pending sg) 1) * 100);
          recent = average (sg_recent_volatility sg) 0; previous = average (sg_previous_volatility sg) recent;
          acceleration = (recent - previous) / max previous 1 * 100;
          trend = (if sg_previous_breaches sg \<noteq> 0
            then (of_nat (sg_recent_breaches sg) - of_nat (sg_previous_breaches sg)) / of_nat (max (sg_previous_breaches sg) 1) * 100
            else if 3 \<le> sg_recent_breaches sg then 100 else of_nat (sg_recent_breaches sg) * 20)
      in py_round 2 (clamp 0 100 (clamp 0 300 (max 0 trend) / 3 * (40 / 100) + clamp 0 100 queue * (35 / 100) +
           clamp 0 200 (max 0 acceleration) / 2 * (25 / 100))))"

section \<open>The score of a change\<close>

record gate_evidence =
  ge_recent_rejects :: nat
  ge_previous_rejects :: nat
  ge_open_losses :: "num list"
  ge_max_open :: int
  ge_volatility :: "num list"
  ge_breaches :: nat
  ge_overrides :: "num list"
  ge_signal :: signal_evidence

definition relative_rise :: "num \<Rightarrow> num \<Rightarrow> num \<Rightarrow> num" where
  "relative_rise least prior after = max 0 ((after - max prior least) / max prior least * 100)"

definition exposure_component :: "limit_policy \<Rightarrow> limit_policy \<Rightarrow> num" where
  "exposure_component baseline candidate =
     clamp 0 100 (relative_rise (1 / 10) (lp_account_pct baseline) (lp_account_pct candidate) * (4 / 10) +
       relative_rise (1 / 10) (lp_symbol_pct baseline) (lp_symbol_pct candidate) * (35 / 100) +
       relative_rise 1 (of_int (int_or (Some (lp_concurrent baseline)) 1)) (of_int (int_or (Some (lp_concurrent candidate)) 1)) * (25 / 100))"

definition reject_component :: "gate_evidence \<Rightarrow> num" where
  "reject_component ge =
     (let recent = of_nat (ge_recent_rejects ge); previous = of_nat (ge_previous_rejects ge) in
      clamp 0 100 (max 0 (if ge_previous_rejects ge = 0 then (if 5 \<le> ge_recent_rejects ge then 100 else recent * 20)
        else (recent - previous) / max previous 1 * 100)))"

definition daily_loss_component :: "gate_evidence \<Rightarrow> limit_policy \<Rightarrow> num" where
  "daily_loss_component ge candidate =
     (let equity = max (lp_equity candidate) 1; limit = max (num_or (Some (lp_daily_loss candidate)) 1) (1 / 10)
      in clamp 0 100 (\<bar>sum_list (ge_open_losses ge)\<bar> / equity * 100 / limit * 100))"

definition concurrent_component :: "gate_evidence \<Rightarrow> limit_policy \<Rightarrow> num" where
  "concurrent_component ge candidate = clamp 0 100 (of_int (ge_max_open ge) / of_int (max (int_or (Some (lp_concurrent candidate)) 1) 1) * 100)"

definition weighted_risk :: "gate_evidence \<Rightarrow> limit_policy \<Rightarrow> limit_policy \<Rightarrow> num" where
  "weighted_risk ge baseline candidate =
     exposure_component baseline candidate * (35 / 100) + reject_component ge * (20 / 100) + daily_loss_component ge candidate * (20 / 100) +
     concurrent_component ge candidate * (15 / 100) + clamp 0 100 (average (ge_volatility ge) 10 * 2) * (10 / 100)"

definition override_penalty :: "gate_evidence \<Rightarrow> num" where
  "override_penalty ge =
     (let count = length (ge_overrides ge); notional = sum_list (ge_overrides ge) in
      (if 12 < count then min 20 (of_nat (count - 12) * 2) else 0) + (if 200 < notional then min 20 ((notional - 200) * (2 / 10)) else 0))"

definition change_penalty :: "policy_difference \<Rightarrow> num" where
  "change_penalty pd =
     min 45 (of_nat (length (filter (\<lambda>f. f \<in> set (pd_loosened pd)) (pd_critical pd))) * 14) + (if 6 \<le> length (pd_changed pd) then 10 else 0)"

definition classification_from_score :: "num \<Rightarrow> string" where
  "classification_from_score score = (if score \<le> 40 then ''SAFE'' else if score \<le> 70 then ''WARNING'' else ''CRITICAL'')"

text \<open>The score and the classification of a change.\<close>

definition compute_risk_score :: "gate_evidence \<Rightarrow> limit_policy \<Rightarrow> limit_policy \<Rightarrow> num \<times> string" where
  "compute_risk_score ge baseline candidate =
     (let score = clamp 0 100 (weighted_risk ge baseline candidate + clamp 0 25 (of_nat (ge_breaches ge) * 8) + override_penalty ge +
            change_penalty (policy_diff baseline candidate) + py_round 2 (predictive_score (ge_signal ge) * (18 / 100)));
          cls = classification_from_score score;
          (score1, cls1) = (if 0 < ge_breaches ge \<and> cls = ''SAFE'' then (max score 45, ''WARNING'') else (score, cls));
          (score2, cls2) = (if 15 \<le> override_penalty ge \<and> cls1 \<noteq> ''CRITICAL'' then (max score1 55, ''WARNING'') else (score1, cls1))
      in (py_round 2 score2, cls2))"

section \<open>How a change is approved\<close>

record approval_flow =
  af_double :: bool
  af_second :: bool
  af_blocked :: bool
  af_rule :: string

definition approval_flow_of :: "string \<Rightarrow> approval_flow" where
  "approval_flow_of cls =
     (if cls = ''SAFE'' then \<lparr>af_double = False, af_second = False, af_blocked = False, af_rule = ''SAFE_DIRECT_APPLY''\<rparr>
      else if cls = ''WARNING'' then \<lparr>af_double = True, af_second = False, af_blocked = False, af_rule = ''WARNING_DOUBLE_CONFIRM''\<rparr>
      else \<lparr>af_double = True, af_second = True, af_blocked = True, af_rule = ''CRITICAL_BLOCK_OR_4_EYES_OVERRIDE''\<rparr>)"

text \<open>
  A wider loss limit counts as less risk: the part of the score that measures the open losses is
  relative to the limit that is asked for, so with the other fields fixed the weighted risk falls
  when the daily loss limit is raised.
\<close>

theorem wider_loss_limit_weighs_less:
  assumes "0 < lp_daily_loss candidate" and "lp_daily_loss candidate \<le> wider"
  shows "weighted_risk ge baseline (candidate\<lparr>lp_daily_loss := wider\<rparr>) \<le> weighted_risk ge baseline candidate"
proof -
  let ?l = "\<lambda>x. max (num_or (Some x) 1) (1 / 10) :: num" and ?part = "\<bar>sum_list (ge_open_losses ge)\<bar> / max (lp_equity candidate) 1 * 100"
  have nz: "wider \<noteq> 0" "lp_daily_loss candidate \<noteq> 0" using assms by auto
  have "?l (lp_daily_loss candidate) \<le> ?l wider" "0 < ?l (lp_daily_loss candidate)" using assms nz by (auto simp: num_or_def)
  moreover have "0 \<le> ?part" by simp
  ultimately have "?part / ?l wider * 100 \<le> ?part / ?l (lp_daily_loss candidate) * 100"
    by (intro mult_right_mono divide_left_mono mult_pos_pos) auto
  then have "daily_loss_component ge (candidate\<lparr>lp_daily_loss := wider\<rparr>) \<le> daily_loss_component ge candidate"
    by (simp add: daily_loss_component_def Let_def clamp_def min_def max_def)
  moreover have "exposure_component baseline (candidate\<lparr>lp_daily_loss := wider\<rparr>) = exposure_component baseline candidate"
    "concurrent_component ge (candidate\<lparr>lp_daily_loss := wider\<rparr>) = concurrent_component ge candidate"
    by (simp_all add: exposure_component_def concurrent_component_def)
  ultimately show ?thesis by (simp add: weighted_risk_def)
qed

end
