(* ===== verification/Policy_Approvals.thy ===== *)
theory Policy_Approvals
  imports Policy_Gate Status_Machine Runtime_Store
begin

text \<open>
  The governance of the global policy in \<open>services/risk_orchestrator_service.py\<close>: simulating a change,
  applying it, the approval requests of critical changes with their states, assignment, votes,
  escalation and expiry, and the force path of a super administrator.

  Tables are lists in the order of insertion. An operation takes the clock and returns its result or
  the error it raises, with the tables as committed at that point: what a session held back is
  discarded with the exception. Fresh identifiers come from a counter. Alerts, audit rows, the
  caches of the queue and the notes of a decision are left out.
\<close>

section \<open>Tables\<close>

record governance_vote =
  gt_actor :: string
  gt_weight :: int
  gt_decision :: string

record approval_request =
  av_id :: string
  av_key :: string
  av_flow :: string
  av_simulation :: string
  av_class :: string
  av_score :: num
  av_state :: string
  av_by :: string
  av_role :: string
  av_override :: bool
  av_assigned :: "string option"
  av_assigned_at :: timestamp
  av_auto :: bool
  av_votes :: "governance_vote list"
  av_log :: "(string option \<times> string) list"
  av_second :: "string option"
  av_force :: bool
  av_trace :: "string option"
  av_warned_at :: "timestamp option"
  av_critical_at :: "timestamp option"
  av_escalations :: nat
  av_expires :: timestamp
  av_created :: timestamp
  av_active_at :: timestamp

record policy_simulation =
  ps_id :: string
  ps_baseline :: int
  ps_candidate :: limit_policy
  ps_class :: string
  ps_score :: num

record decision_trace_row =
  dt_id :: string
  dt_key :: string
  dt_flow :: string
  dt_simulation :: string
  dt_class :: string
  dt_rule :: string
  dt_state :: string

record policy_version =
  pv_id :: string
  pv_number :: int
  pv_policy :: limit_policy
  pv_simulation :: string
  pv_change :: string
  pv_source :: "string option"

record change_request =
  ch_id :: string
  ch_by :: string
  ch_role :: string
  ch_payload :: limit_policy
  ch_simulation :: string
  ch_double :: bool

record admin_user =
  au_id :: string
  au_role :: string
  au_active :: bool

record policy_governance =
  go_policy :: limit_policy
  go_version :: int
  go_simulations :: "policy_simulation list"
  go_requests :: "approval_request list"
  go_traces :: "decision_trace_row list"
  go_versions :: "policy_version list"
  go_changes :: "change_request list"
  go_users :: "admin_user list"
  go_next :: nat

definition request_row :: "string \<Rightarrow> policy_governance \<Rightarrow> approval_request option" where
  "request_row i go = find_row av_id i (go_requests go)"

definition save_request :: "approval_request \<Rightarrow> policy_governance \<Rightarrow> policy_governance" where
  "save_request av go = go\<lparr>go_requests := save_row av_id av (go_requests go)\<rparr>"

interpretation request_table: row_table av_id request_row save_request
  by unfold_locales (auto simp: request_row_def save_request_def find_row_save dest: find_row_key)

definition fresh_id :: "string \<Rightarrow> policy_governance \<Rightarrow> string" where
  "fresh_id prefx go = prefx @ nat_str (go_next go)"

definition add_trace :: "string \<Rightarrow> string \<Rightarrow> string \<Rightarrow> string \<Rightarrow> string \<Rightarrow> string \<Rightarrow> policy_governance \<Rightarrow> policy_governance" where
  "add_trace key flow simulation cls rule state go =
     go\<lparr>go_traces := go_traces go @ [\<lparr>dt_id = fresh_id ''ro-trace-'' go, dt_key = key, dt_flow = flow, dt_simulation = simulation,
          dt_class = cls, dt_rule = rule, dt_state = state\<rparr>], go_next := Suc (go_next go)\<rparr>"

section \<open>States of a request\<close>

definition APPROVAL_STATE_TRANSITIONS :: "(string \<times> string list) list" where
  "APPROVAL_STATE_TRANSITIONS =
     [(''pending'', [''assigned'']), (''assigned'', [''approved'', ''rejected'', ''expired'']), (''expired'', [''approved'']),
      (''approved'', []), (''rejected'', [])]"

definition approval_successors :: "string \<Rightarrow> string list" where
  "approval_successors s = get_or (map_of APPROVAL_STATE_TRANSITIONS s) []"

interpretation approval_table: status_flow approval_successors "\<lambda>s. s \<in> fst ` set APPROVAL_STATE_TRANSITIONS" "\<lambda>s. s \<in> {''approved'', ''rejected''}"
  by unfold_locales (auto simp: approval_successors_def APPROVAL_STATE_TRANSITIONS_def split: if_splits)

definition is_open_state :: "string \<Rightarrow> bool" where
  "is_open_state s \<longleftrightarrow> s \<in> {''pending'', ''assigned''}"

text \<open>The log keeps its last 80 entries.\<close>

definition append_request_log :: "string option \<Rightarrow> string \<Rightarrow> approval_request \<Rightarrow> approval_request" where
  "append_request_log from_state to_state av =
     (let history = av_log av @ [(from_state, to_state)] in av\<lparr>av_log := drop (length history - 80) history\<rparr>)"

definition transition_approval_state :: "timestamp \<Rightarrow> string \<Rightarrow> bool \<Rightarrow> approval_request \<Rightarrow> string + approval_request" where
  "transition_approval_state now target force_path av =
     (let current = av_state av in
      if current = target then Inr (append_request_log (Some current) target av)
      else if target \<notin> set (approval_successors current) then Inl (''invalid_state_transition:'' @ current @ ''->'' @ target)
      else if current = ''expired'' \<and> target = ''approved'' \<and> \<not> force_path then Inl ''expired_state_requires_force_path''
      else Inr (append_request_log (Some current) target (av\<lparr>av_state := target, av_active_at := now\<rparr>)))"

section \<open>Who may approve\<close>

definition APPROVER_PENDING_LIMIT :: nat where "APPROVER_PENDING_LIMIT = 8"

definition GOVERNANCE_ROLE_WEIGHTS :: "(string \<times> int) list" where
  "GOVERNANCE_ROLE_WEIGHTS = [(''super_admin'', 2), (''admin'', 1), (''ops'', 1)]"

definition role_weight :: "string \<Rightarrow> int" where
  "role_weight role = get_or (map_of GOVERNANCE_ROLE_WEIGHTS role) 1"

definition eligible_approvers :: "policy_governance \<Rightarrow> admin_user list" where
  "eligible_approvers go = filter (\<lambda>u. au_active u \<and> au_role u \<in> {''super_admin'', ''admin'', ''ops''}) (go_users go)"

definition approver_pending_count :: "policy_governance \<Rightarrow> string \<Rightarrow> nat" where
  "approver_pending_count go i = length (filter (\<lambda>av. is_open_state (av_state av) \<and> av_assigned av = Some i) (go_requests go))"

definition last_assigned_at :: "policy_governance \<Rightarrow> string \<Rightarrow> timestamp" where
  "last_assigned_at go i =
     (let times = map av_assigned_at (filter (\<lambda>av. av_assigned av = Some i) (go_requests go)) in if times = [] then 0 else Max (set times))"

definition active_user :: "policy_governance \<Rightarrow> string \<Rightarrow> admin_user option" where
  "active_user go i = find (\<lambda>u. au_id u = i \<and> au_active u) (go_users go)"

definition by_role :: "string list \<Rightarrow> admin_user list \<Rightarrow> admin_user list" where
  "by_role roles users = concat (map (\<lambda>role. filter (\<lambda>u. au_role u = role) users) roles)"

definition least_loaded :: "policy_governance \<Rightarrow> admin_user list \<Rightarrow> admin_user option" where
  "least_loaded go users =
     (case sort_key (\<lambda>u. approver_pending_count go (au_id u)) (sort_key (\<lambda>u. last_assigned_at go (au_id u)) users) of [] \<Rightarrow> None | u # _ \<Rightarrow> Some u)"

definition select_auto_assignee :: "policy_governance \<Rightarrow> string \<Rightarrow> string \<Rightarrow> string list \<Rightarrow> admin_user option" where
  "select_auto_assignee go requested_by cls excluded =
     (let candidates = filter (\<lambda>u. au_id u \<noteq> requested_by \<and> au_id u \<notin> set excluded) (eligible_approvers go);
          full = (\<lambda>u. APPROVER_PENDING_LIMIT \<le> approver_pending_count go (au_id u) \<and> cls \<noteq> ''CRITICAL'')
      in if candidates = []
         then (case active_user go requested_by of None \<Rightarrow> None | Some u \<Rightarrow> if full u then None else Some u)
         else let ordered = by_role (if cls = ''WARNING'' then [''admin'', ''super_admin'', ''ops''] else [''super_admin'', ''admin'', ''ops'']) candidates
              in if filter (\<lambda>u. \<not> full u) ordered = [] then least_loaded go ordered else least_loaded go (filter (\<lambda>u. \<not> full u) ordered))"

section \<open>Assigning\<close>

definition assign_request :: "timestamp \<Rightarrow> approval_request \<Rightarrow> string \<Rightarrow> bool \<Rightarrow> bool \<Rightarrow> policy_governance \<Rightarrow> (string + approval_request) \<times> policy_governance" where
  "assign_request now av assignee auto over_capacity go =
     (if APPROVER_PENDING_LIMIT \<le> approver_pending_count go assignee \<and> \<not> over_capacity then (Inl ''approver_pending_limit_reached'', go)
      else let av1 = av\<lparr>av_assigned := Some assignee, av_assigned_at := now, av_auto := auto\<rparr> in
        if av_state av = ''pending''
        then (case transition_approval_state now ''assigned'' False av1 of
            Inl e \<Rightarrow> (Inl e, go) | Inr av2 \<Rightarrow> (Inr av2, save_request av2 go))
        else if av_state av = ''assigned''
        then (let av2 = append_request_log (Some ''assigned'') ''assigned'' (av1\<lparr>av_active_at := now\<rparr>) in (Inr av2, save_request av2 go))
        else (Inl (''invalid_state_for_assignment:'' @ av_state av), go))"

text \<open>A critical request must have an owner that is active and not overloaded.\<close>

definition needs_owner :: "policy_governance \<Rightarrow> approval_request \<Rightarrow> bool" where
  "needs_owner go av =
     (case av_assigned av of None \<Rightarrow> True
      | Some i \<Rightarrow> (case find (\<lambda>u. au_id u = i) (go_users go) of None \<Rightarrow> True | Some u \<Rightarrow> \<not> au_active u) \<or>
          APPROVER_PENDING_LIMIT + 2 < approver_pending_count go i)"

definition ensure_owner :: "timestamp \<Rightarrow> approval_request \<Rightarrow> policy_governance \<Rightarrow> approval_request \<times> policy_governance" where
  "ensure_owner now av go =
     (if av_class av \<noteq> ''CRITICAL'' \<or> \<not> is_open_state (av_state av) \<or> \<not> needs_owner go av then (av, go)
      else let selected = (case select_auto_assignee go (av_by av) (av_class av) (case av_assigned av of None \<Rightarrow> [] | Some i \<Rightarrow> [i]) of
               Some u \<Rightarrow> Some u | None \<Rightarrow> active_user go (av_by av))
           in case selected of None \<Rightarrow> (av, go)
              | Some u \<Rightarrow> if av_assigned av = Some (au_id u) \<and> av_state av = ''assigned'' then (av, go)
                  else (case assign_request now av (au_id u) True True go of (Inl e, go1) \<Rightarrow> (av, go1) | (Inr av1, go1) \<Rightarrow> (av1, go1)))"

section \<open>Simulating and applying a change\<close>

definition simulate_policy_change :: "gate_evidence \<Rightarrow> limit_policy \<Rightarrow> policy_governance \<Rightarrow> policy_simulation \<times> policy_governance" where
  "simulate_policy_change ge candidate go =
     (let (score, cls) = compute_risk_score ge (go_policy go) candidate;
          ps = \<lparr>ps_id = fresh_id ''ro-sim-'' go, ps_baseline = go_version go, ps_candidate = candidate, ps_class = cls, ps_score = score\<rparr>
      in (ps, go\<lparr>go_simulations := go_simulations go @ [ps], go_next := Suc (go_next go)\<rparr>))"

datatype apply_mode = Normal | Finalize | Force

record apply_call =
  pc_simulation :: string
  pc_actor :: string
  pc_role :: string
  pc_double :: bool
  pc_override :: bool
  pc_key :: "string option"
  pc_expected :: "int option"
  pc_flow :: string
  pc_mode :: apply_mode

definition call_key :: "apply_call \<Rightarrow> string" where
  "call_key pc = str_or (pc_key pc) (pc_flow pc @ '':'' @ pc_simulation pc @ '':'' @ pc_actor pc)"

definition flow_of_mode :: "apply_mode \<Rightarrow> string \<Rightarrow> approval_flow" where
  "flow_of_mode mode cls = (case mode of
       Normal \<Rightarrow> approval_flow_of cls
     | Force \<Rightarrow> \<lparr>af_double = False, af_second = False, af_blocked = False, af_rule = ''FORCE_OVERRIDE_APPLY''\<rparr>
     | Finalize \<Rightarrow> \<lparr>af_double = False, af_second = False, af_blocked = False, af_rule = ''CRITICAL_4_EYES_FINALIZE''\<rparr>)"

record apply_answer =
  pa_status :: string
  pa_applied :: bool
  pa_trace :: "string option"
  pa_message :: string

definition APPROVAL_TIMEOUT :: timestamp where "APPROVAL_TIMEOUT = 10 * 60 * 1000"

definition approval_id :: "policy_governance \<Rightarrow> string" where
  "approval_id go = ''ro-appr-'' @ nat_str (length (go_requests go))"

definition new_request :: "timestamp \<Rightarrow> apply_call \<Rightarrow> policy_simulation \<Rightarrow> policy_governance \<Rightarrow> approval_request" where
  "new_request now pc ps go =
     \<lparr>av_id = approval_id go, av_key = call_key pc, av_flow = pc_flow pc, av_simulation = ps_id ps, av_class = ps_class ps,
      av_score = ps_score ps, av_state = ''pending'', av_by = pc_actor pc, av_role = pc_role pc, av_override = pc_override pc,
      av_assigned = None, av_assigned_at = 0, av_auto = False,
      av_votes = [\<lparr>gt_actor = pc_actor pc, gt_weight = role_weight (pc_role pc), gt_decision = ''proposed''\<rparr>],
      av_log = [(None, ''pending'')], av_second = None, av_force = False, av_trace = None, av_warned_at = None, av_critical_at = None,
      av_escalations = 0, av_expires = now + APPROVAL_TIMEOUT, av_created = now, av_active_at = now\<rparr>"

text \<open>Writing the candidate: the change request, the policy, its version and the trace of the decision.\<close>

definition write_policy :: "apply_call \<Rightarrow> policy_simulation \<Rightarrow> string \<Rightarrow> policy_governance \<Rightarrow> policy_governance" where
  "write_policy pc ps rule go =
     add_trace (call_key pc) (pc_flow pc) (ps_id ps) (ps_class ps) rule ''applied''
       (go\<lparr>go_policy := ps_candidate ps, go_version := go_version go + 1,
           go_changes := go_changes go @ [\<lparr>ch_id = fresh_id ''ro-cr-'' go, ch_by = pc_actor pc, ch_role = pc_role pc, ch_payload = ps_candidate ps,
             ch_simulation = ps_id ps, ch_double = pc_double pc\<rparr>],
           go_versions := go_versions go @ [\<lparr>pv_id = fresh_id ''ro-pv-'' go, pv_number = go_version go + 1, pv_policy = ps_candidate ps,
             pv_simulation = ps_id ps, pv_change = fresh_id ''ro-cr-'' go, pv_source = None\<rparr>]\<rparr>)"

definition request_approval :: "timestamp \<Rightarrow> apply_call \<Rightarrow> policy_simulation \<Rightarrow> policy_governance \<Rightarrow> apply_answer \<times> policy_governance" where
  "request_approval now pc ps go =
     (let av = new_request now pc ps go; inserted = go\<lparr>go_requests := go_requests go @ [av]\<rparr>;
          go1 = add_trace (call_key pc) (pc_flow pc) (ps_id ps) (ps_class ps) ''CRITICAL_PENDING_4_EYES'' ''pending'' inserted;
          (av1, go2) = ensure_owner now av go1
      in (\<lparr>pa_status = av_state av1, pa_applied = False, pa_trace = Some (fresh_id ''ro-trace-'' inserted), pa_message = ''waiting_for_second_approval''\<rparr>, go2))"

definition apply_fresh :: "timestamp \<Rightarrow> apply_call \<Rightarrow> policy_simulation \<Rightarrow> policy_governance \<Rightarrow> (string + apply_answer) \<times> policy_governance" where
  "apply_fresh now pc ps go =
     (let af = flow_of_mode (pc_mode pc) (ps_class ps) in
      if pc_expected pc \<noteq> None \<and> pc_expected pc \<noteq> Some (go_version go) then (Inl ''stale_policy_data'', go)
      else if go_version go \<noteq> ps_baseline ps then (Inl ''stale_simulation_requires_resimulate'', go)
      else if af_double af \<and> \<not> pc_double pc then (Inl ''double_confirmation_required'', go)
      else if af_blocked af \<and> \<not> pc_override pc
      then (Inr \<lparr>pa_status = ''blocked'', pa_applied = False, pa_trace = Some (fresh_id ''ro-trace-'' go), pa_message = ''critical_policy_blocked_use_apply_with_override_and_4eyes''\<rparr>,
            add_trace (call_key pc) (pc_flow pc) (ps_id ps) (ps_class ps) ''CRITICAL_BLOCK_DEFAULT'' ''blocked'' go)
      else if af_second af then (let (pa, go1) = request_approval now pc ps go in (Inr pa, go1))
      else (Inr \<lparr>pa_status = ''applied'', pa_applied = True, pa_trace = Some (fresh_id ''ro-trace-'' go), pa_message = ''policy_applied''\<rparr>, write_policy pc ps (af_rule af) go))"

definition APPROVAL_STATES :: "string list" where
  "APPROVAL_STATES = [''pending'', ''assigned'', ''approved'', ''rejected'', ''expired'']"

definition TRACE_STATES :: "string list" where
  "TRACE_STATES = [''applied'', ''blocked'', ''pending'', ''assigned'', ''rejected'', ''expired'']"

lemma find_in_set: "find P xs = Some x \<Longrightarrow> x \<in> set xs \<and> P x"
  by (induction xs) (auto split: if_splits)

text \<open>An earlier request or trace with the same key answers instead of a new decision.\<close>

definition trace_replay :: "apply_call \<Rightarrow> policy_governance \<Rightarrow> apply_answer option" where
  "trace_replay pc go =
     (case find (\<lambda>dt. dt_key dt = call_key pc) (rev (go_traces go)) of
        Some dt \<Rightarrow> if dt_state dt \<in> set TRACE_STATES
          then Some \<lparr>pa_status = dt_state dt, pa_applied = (dt_state dt = ''applied''), pa_trace = Some (dt_id dt), pa_message = ''idempotent_replay_existing_decision_trace''\<rparr>
          else None
      | None \<Rightarrow> None)"

definition request_replay :: "apply_call \<Rightarrow> policy_governance \<Rightarrow> apply_answer option" where
  "request_replay pc go =
     (case find (\<lambda>av. av_key av = call_key pc) (go_requests go) of
        Some av \<Rightarrow> if av_state av \<in> set APPROVAL_STATES
          then Some \<lparr>pa_status = av_state av, pa_applied = False, pa_trace = av_trace av, pa_message = ''idempotent_replay_existing_approval_state''\<rparr>
          else None
      | None \<Rightarrow> None)"

definition apply_policy_from_simulation :: "timestamp \<Rightarrow> apply_call \<Rightarrow> policy_governance \<Rightarrow> (string + apply_answer) \<times> policy_governance" where
  "apply_policy_from_simulation now pc go =
     (case find_row ps_id (pc_simulation pc) (go_simulations go) of None \<Rightarrow> (Inl ''simulation_not_found'', go)
      | Some ps \<Rightarrow>
        (case request_replay pc go of Some pa \<Rightarrow> (Inr pa, go)
         | None \<Rightarrow>
           (case trace_replay pc go of Some pa \<Rightarrow> (Inr pa, go)
            | None \<Rightarrow> apply_fresh now pc ps go)))"

lemma request_replay_cases:
  assumes "request_replay pc go = Some pa"
  shows "pa_status pa \<noteq> ''applied'' \<and> pa_message pa = ''idempotent_replay_existing_approval_state''"
  using assms by (auto simp: request_replay_def APPROVAL_STATES_def split: option.splits if_splits)

lemma trace_replay_cases:
  assumes "trace_replay pc go = Some pa"
  shows "pa_message pa = ''idempotent_replay_existing_decision_trace'' \<and>
    (\<exists>dt \<in> set (go_traces go). dt_key dt = call_key pc \<and> pa_status pa = dt_state dt \<and> pa_trace pa = Some (dt_id dt))"
  using assms find_in_set [of "\<lambda>dt. dt_key dt = call_key pc" "rev (go_traces go)"]
  by (auto simp: trace_replay_def split: option.splits if_splits)

end
