(* ===== verification/Policy_Handlers.thy ===== *)
theory Policy_Handlers
  imports Policy_Approvals
begin

text \<open>
  The handlers over the approval requests of \<open>services/risk_orchestrator_service.py\<close>: expiry and
  escalation, votes with their quorum, rejection, assignment, the force path and reverting to an
  earlier version, and the step relation of them all.

  A handler that raises leaves what was committed before: the expired requests. The counters of the
  escalations are left out.
\<close>

section \<open>Expiry and escalation\<close>

definition expire_request :: "timestamp \<Rightarrow> approval_request \<Rightarrow> policy_governance \<Rightarrow> policy_governance" where
  "expire_request now av go =
     (let (av1, go1) = (if av_state av = ''pending'' then ensure_owner now av go else (av, go)) in
      case transition_approval_state now ''expired'' False av1 of
        Inl _ \<Rightarrow> go1
      | Inr av2 \<Rightarrow>
          save_request (av2\<lparr>av_trace := Some (fresh_id ''ro-trace-'' go1)\<rparr>)
            (add_trace (av_key av2) (av_flow av2) (av_simulation av2) (av_class av2) ''FORCED_AUTO_REJECT_SLA_BREACH'' ''expired'' go1))"

definition request_due :: "timestamp \<Rightarrow> approval_request \<Rightarrow> bool" where
  "request_due now av \<longleftrightarrow> is_open_state (av_state av) \<and> av_expires av \<le> now"

text \<open>The rows are selected at once and handled one after the other.\<close>

definition each_request :: "(approval_request \<Rightarrow> policy_governance \<Rightarrow> policy_governance) \<Rightarrow> approval_request list \<Rightarrow> policy_governance \<Rightarrow> policy_governance" where
  "each_request f rows = fold (\<lambda>row go. case request_row (av_id row) go of None \<Rightarrow> go | Some av \<Rightarrow> f av go) rows"

definition expire_stale :: "timestamp \<Rightarrow> policy_governance \<Rightarrow> policy_governance" where
  "expire_stale now go = each_request (expire_request now) (filter (request_due now) (go_requests go)) go"

definition escalate_request :: "timestamp \<Rightarrow> approval_request \<Rightarrow> policy_governance \<Rightarrow> policy_governance" where
  "escalate_request now av go =
     (let (av1, go1) = ensure_owner now av go; elapsed = now - av_created av1 in
      if 8 * 60 * 1000 \<le> elapsed \<and> av_critical_at av1 = None
      then save_request (av1\<lparr>av_critical_at := Some now, av_escalations := av_escalations av1 + 1, av_active_at := now\<rparr>) go1
      else if 5 * 60 * 1000 \<le> elapsed \<and> av_warned_at av1 = None
      then save_request (av1\<lparr>av_warned_at := Some now, av_escalations := av_escalations av1 + 1, av_active_at := now\<rparr>) go1
      else go1)"

definition process_approval_escalations :: "timestamp \<Rightarrow> policy_governance \<Rightarrow> policy_governance" where
  "process_approval_escalations now go =
     (let go1 = expire_stale now go
      in each_request (escalate_request now) (filter (\<lambda>av. is_open_state (av_state av) \<and> av_class av = ''CRITICAL'') (go_requests go1)) go1)"

section \<open>Votes\<close>

definition QUORUM_WEIGHT :: int where "QUORUM_WEIGHT = 3"
definition MIN_DISTINCT_APPROVERS :: nat where "MIN_DISTINCT_APPROVERS = 2"

definition quorum_reached :: "approval_request \<Rightarrow> bool" where
  "quorum_reached av \<longleftrightarrow> QUORUM_WEIGHT \<le> sum_list (map gt_weight (av_votes av)) \<and>
     MIN_DISTINCT_APPROVERS \<le> length (remdups (filter (\<lambda>a. a \<noteq> []) (map gt_actor (av_votes av))))"

definition decision_error :: "string \<Rightarrow> string \<Rightarrow> approval_request \<Rightarrow> string option" where
  "decision_error actor role av =
     (if av_state av \<noteq> ''assigned'' then Some ''approval_request_not_assigned''
      else if av_by av = actor then Some ''same_user_second_approval_blocked''
      else if get_or (av_assigned av) [] \<notin> {[], actor} \<and> role \<noteq> ''super_admin'' then Some ''approval_owned_by_another_actor''
      else None)"

definition voted :: "timestamp \<Rightarrow> string \<Rightarrow> string \<Rightarrow> approval_request \<Rightarrow> approval_request" where
  "voted now actor role av =
     av\<lparr>av_votes := av_votes av @ [\<lparr>gt_actor = actor, gt_weight = role_weight role, gt_decision = ''approve''\<rparr>],
        av_second := Some actor, av_active_at := now\<rparr>"

definition finalize_call :: "approval_request \<Rightarrow> apply_call" where
  "finalize_call av = \<lparr>pc_simulation = av_simulation av, pc_actor = av_by av, pc_role = av_role av, pc_double = True,
     pc_override = av_override av, pc_key = Some (av_key av @ '':finalize''), pc_expected = None, pc_flow = av_flow av, pc_mode = Finalize\<rparr>"

definition finalize_request :: "timestamp \<Rightarrow> approval_request \<Rightarrow> policy_governance \<Rightarrow> (string + apply_answer) \<times> policy_governance" where
  "finalize_request now av go =
     (case apply_policy_from_simulation now (finalize_call av) go of
        (Inl e, _) \<Rightarrow> (Inl e, go)
      | (Inr pa, go1) \<Rightarrow>
          if pa_status pa \<noteq> ''applied'' then (Inl ''approval_finalize_not_applied'', go)
          else (case transition_approval_state now ''approved'' False av of
              Inl e \<Rightarrow> (Inl e, go1)
            | Inr av1 \<Rightarrow> (Inr pa, add_trace (av_key av) (av_flow av) (av_simulation av) (av_class av) ''CRITICAL_4_EYES_APPROVED'' ''approved''
                (save_request (av1\<lparr>av_trace := pa_trace pa, av_active_at := now\<rparr>) go1))))"

definition approve_request :: "timestamp \<Rightarrow> string \<Rightarrow> string \<Rightarrow> string \<Rightarrow> policy_governance \<Rightarrow> (string + apply_answer) \<times> policy_governance" where
  "approve_request now i actor role go =
     (let go1 = expire_stale now go in
      case request_row i go1 of None \<Rightarrow> (Inl ''approval_request_not_found'', go1)
      | Some av \<Rightarrow>
        (case decision_error actor role av of Some e \<Rightarrow> (Inl e, go1)
         | None \<Rightarrow>
           if actor \<in> set (map gt_actor (av_votes av))
           then (Inr \<lparr>pa_status = av_state av, pa_applied = False, pa_trace = av_trace av, pa_message = ''vote_already_recorded''\<rparr>,
                 save_request (av\<lparr>av_active_at := now\<rparr>) go1)
           else let av1 = voted now actor role av in
             if quorum_reached av1 then finalize_request now av1 go1
             else (Inr \<lparr>pa_status = ''assigned'', pa_applied = False, pa_trace = Some (fresh_id ''ro-trace-'' go1),
                       pa_message = ''quorum_waiting_additional_votes''\<rparr>,
                   add_trace (av_key av) (av_flow av) (av_simulation av) (av_class av) ''CRITICAL_GOVERNANCE_QUORUM_PENDING'' ''pending''
                     (save_request (append_request_log (Some ''assigned'') ''assigned'' av1) go1))))"

definition reject_request :: "timestamp \<Rightarrow> string \<Rightarrow> string \<Rightarrow> string \<Rightarrow> policy_governance \<Rightarrow> (string + approval_request) \<times> policy_governance" where
  "reject_request now i actor role go =
     (let go1 = expire_stale now go in
      case request_row i go1 of None \<Rightarrow> (Inl ''approval_request_not_found'', go1)
      | Some av \<Rightarrow>
        (case decision_error actor role av of Some e \<Rightarrow> (Inl e, go1)
         | None \<Rightarrow>
           (case transition_approval_state now ''rejected'' False av of Inl e \<Rightarrow> (Inl e, go1)
            | Inr av1 \<Rightarrow>
              (let av2 = av1\<lparr>av_second := Some actor, av_trace := Some (fresh_id ''ro-trace-'' go1), av_active_at := now\<rparr>
               in (Inr av2, add_trace (av_key av) (av_flow av) (av_simulation av) (av_class av) ''CRITICAL_4_EYES_REJECTED'' ''rejected''
                     (save_request av2 go1))))))"

section \<open>Assignment and the force path\<close>

definition assign_policy_request ::
  "timestamp \<Rightarrow> string \<Rightarrow> string option \<Rightarrow> bool \<Rightarrow> policy_governance \<Rightarrow> (string + approval_request) \<times> policy_governance" where
  "assign_policy_request now i assignee auto go =
     (let go1 = expire_stale now go in
      case request_row i go1 of None \<Rightarrow> (Inl ''approval_request_not_found'', go1)
      | Some av \<Rightarrow>
        if \<not> is_open_state (av_state av) then (Inl ''approval_request_not_assignable'', go1)
        else if auto
        then (case select_auto_assignee go1 (av_by av) (av_class av) (case av_assigned av of None \<Rightarrow> [] | Some x \<Rightarrow> [x]) of
            Some u \<Rightarrow> assign_request now av (au_id u) True False go1
          | None \<Rightarrow> (let (av1, go2) = ensure_owner now av go1 in
              if get_or (av_assigned av1) [] \<noteq> [] then (Inr av1, go2) else (Inl ''no_eligible_auto_assignee'', go2)))
        else if get_or assignee [] = [] then (Inl ''assignee_required'', go1)
        else assign_request now av (get_or assignee []) False False go1)"

definition force_call :: "approval_request \<Rightarrow> apply_call" where
  "force_call av = \<lparr>pc_simulation = av_simulation av, pc_actor = av_by av, pc_role = av_role av, pc_double = True,
     pc_override = True, pc_key = Some (av_key av @ '':force_apply''), pc_expected = None, pc_flow = av_flow av, pc_mode = Force\<rparr>"

definition force_apply_request :: "timestamp \<Rightarrow> string \<Rightarrow> string \<Rightarrow> string \<Rightarrow> policy_governance \<Rightarrow> (string + apply_answer) \<times> policy_governance" where
  "force_apply_request now i actor role go =
     (if role \<noteq> ''super_admin'' then (Inl ''super_admin_required_for_force_apply'', go)
      else let go1 = expire_stale now go in
        case request_row i go1 of None \<Rightarrow> (Inl ''approval_request_not_found'', go1)
        | Some av \<Rightarrow>
          if av_state av \<noteq> ''expired'' then (Inl ''approval_request_not_force_applicable'', go1)
          else (case apply_policy_from_simulation now (force_call av) go1 of
              (Inl e, _) \<Rightarrow> (Inl e, go1)
            | (Inr pa, go2) \<Rightarrow>
                if pa_status pa \<noteq> ''applied'' then (Inl ''force_apply_finalize_not_applied'', go1)
                else (case transition_approval_state now ''approved'' True (av\<lparr>av_force := True\<rparr>) of
                    Inl e \<Rightarrow> (Inl e, go2)
                  | Inr av1 \<Rightarrow> (Inr pa, save_request (av1\<lparr>av_second := Some actor, av_trace := pa_trace pa, av_active_at := now\<rparr>) go2))))"

section \<open>Reverting\<close>

definition simulate_revert :: "gate_evidence \<Rightarrow> string \<Rightarrow> policy_governance \<Rightarrow> (string + policy_simulation) \<times> policy_governance" where
  "simulate_revert ge i go =
     (case find_row pv_id i (go_versions go) of None \<Rightarrow> (Inl ''policy_version_not_found'', go)
      | Some pv \<Rightarrow> (let (ps, go1) = simulate_policy_change ge (pv_policy pv) go in (Inr ps, go1)))"

text \<open>The latest version takes note of the version it came from.\<close>

definition mark_reverted :: "string \<Rightarrow> policy_governance \<Rightarrow> policy_governance" where
  "mark_reverted i go =
     (if go_versions go = [] then go
      else go\<lparr>go_versions := butlast (go_versions go) @ [(last (go_versions go))\<lparr>pv_source := Some i\<rparr>]\<rparr>)"

definition apply_revert :: "timestamp \<Rightarrow> string \<Rightarrow> apply_call \<Rightarrow> policy_governance \<Rightarrow> (string + apply_answer) \<times> policy_governance" where
  "apply_revert now i pc go =
     (case find_row pv_id i (go_versions go) of None \<Rightarrow> (Inl ''policy_version_not_found'', go)
      | Some pv \<Rightarrow>
        (case find_row ps_id (pc_simulation pc) (go_simulations go) of None \<Rightarrow> (Inl ''simulation_not_found'', go)
         | Some ps \<Rightarrow>
           if ps_candidate ps \<noteq> pv_policy pv then (Inl ''revert_simulation_payload_mismatch'', go)
           else (case apply_policy_from_simulation now (pc\<lparr>pc_flow := ''revert'', pc_mode := Normal\<rparr>) go of
               (Inl e, go1) \<Rightarrow> (Inl e, go1)
             | (Inr pa, go1) \<Rightarrow> (Inr pa, if pa_applied pa \<and> pa_status pa = ''applied'' then mark_reverted i go1 else go1))))"

section \<open>Risk controls\<close>

text \<open>
  The form of the live trading dashboard, \<open>admin_live_trading_update_risk_controls\<close> of
  \<open>routers/admin_live_trading_dashboard.py\<close>: it writes three limits of the same policy row, with no
  simulation, request, trace or version. The bounds are those of its request schema.
\<close>

definition RISK_CONTROL_PHRASE :: string where "RISK_CONTROL_PHRASE = ''UPDATE RISK CONTROLS''"
definition MANAGER_ROLES :: "string list" where "MANAGER_ROLES = [''super_admin'', ''admin'']"

record controls_request =
  cq_max_loss :: num
  cq_account :: num
  cq_symbol :: num
  cq_reason :: string
  cq_phrase :: string

definition controls_valid :: "controls_request \<Rightarrow> bool" where
  "controls_valid cq \<longleftrightarrow> 1 / 10 \<le> cq_max_loss cq \<and> cq_max_loss cq \<le> 100 \<and> 1 \<le> cq_account cq \<and> cq_account cq \<le> 100 \<and>
     1 \<le> cq_symbol cq \<and> cq_symbol cq \<le> 100 \<and> 5 \<le> length (cq_reason cq) \<and> length (cq_reason cq) \<le> 300 \<and>
     5 \<le> length (cq_phrase cq) \<and> length (cq_phrase cq) \<le> 80"

definition update_risk_controls :: "string \<Rightarrow> controls_request \<Rightarrow> policy_governance \<Rightarrow> (string + limit_policy) \<times> policy_governance" where
  "update_risk_controls role cq go =
     (if \<not> controls_valid cq then (Inl ''validation_error'', go)
      else if role \<notin> set MANAGER_ROLES then (Inl ''manager_role_required'', go)
      else if upper (strip (cq_phrase cq)) \<noteq> RISK_CONTROL_PHRASE then (Inl ''invalid_confirmation_phrase'', go)
      else let policy = (go_policy go)\<lparr>lp_daily_loss := cq_max_loss cq, lp_account_pct := cq_account cq, lp_symbol_pct := cq_symbol cq\<rparr>
           in (Inr policy, go\<lparr>go_policy := policy\<rparr>))"

section \<open>Steps\<close>

text \<open>What may happen to the tables: a call of a handler, or a change of the users.\<close>

datatype policy_call =
    Call_Simulate gate_evidence limit_policy
  | Call_Apply timestamp apply_call
  | Call_Escalate timestamp
  | Call_Approve timestamp string string string
  | Call_Reject timestamp string string string
  | Call_Assign timestamp string "string option" bool
  | Call_Force timestamp string string string
  | Call_Simulate_Revert gate_evidence string
  | Call_Apply_Revert timestamp string apply_call
  | Call_Controls string controls_request
  | Users_Change "admin_user list"

fun run_call :: "policy_call \<Rightarrow> policy_governance \<Rightarrow> policy_governance" where
  "run_call (Call_Simulate ge candidate) go = snd (simulate_policy_change ge candidate go)"
| "run_call (Call_Apply now pc) go = snd (apply_policy_from_simulation now (pc\<lparr>pc_flow := ''apply'', pc_mode := Normal\<rparr>) go)"
| "run_call (Call_Escalate now) go = process_approval_escalations now go"
| "run_call (Call_Approve now i actor role) go = snd (approve_request now i actor role go)"
| "run_call (Call_Reject now i actor role) go = snd (reject_request now i actor role go)"
| "run_call (Call_Assign now i assignee auto) go = snd (assign_policy_request now i assignee auto go)"
| "run_call (Call_Force now i actor role) go = snd (force_apply_request now i actor role go)"
| "run_call (Call_Simulate_Revert ge i) go = snd (simulate_revert ge i go)"
| "run_call (Call_Apply_Revert now i pc) go = snd (apply_revert now i pc go)"
| "run_call (Call_Controls role cq) go = snd (update_risk_controls role cq go)"
| "run_call (Users_Change users) go = go\<lparr>go_users := users\<rparr>"

inductive policy_step :: "policy_governance \<Rightarrow> policy_governance \<Rightarrow> bool" where
  call: "policy_step go (run_call c go)"

definition initial_books :: "admin_user list \<Rightarrow> policy_governance" where
  "initial_books users = \<lparr>go_policy = default_limits_policy, go_version = 1, go_simulations = [], go_requests = [], go_traces = [],
    go_versions = [], go_changes = [], go_users = users, go_next = 0\<rparr>"

inductive policy_reachable :: "policy_governance \<Rightarrow> bool" where
  start: "policy_reachable (initial_books users)"
| step: "policy_reachable go \<Longrightarrow> policy_step go go' \<Longrightarrow> policy_reachable go'"

inductive policy_steps :: "policy_governance \<Rightarrow> policy_governance \<Rightarrow> bool" where
  stay: "policy_steps go go"
| later: "policy_steps go go1 \<Longrightarrow> policy_step go1 go2 \<Longrightarrow> policy_steps go go2"

end
