(* ===== verification/Policy_Moves.thy ===== *)
theory Policy_Moves
  imports Policy_Handlers
begin

text \<open>
  What the handlers of the policy governance may do to its books, as a specification: a relation of
  few moves. Every step of the handlers is a sequence of them, and what holds in all reachable states
  is proved over the moves.
\<close>

section \<open>The moves\<close>

definition applied_traces :: "policy_governance \<Rightarrow> decision_trace_row list" where
  "applied_traces go = filter (\<lambda>dt. dt_state dt = ''applied'') (go_traces go)"

definition version_chain :: "policy_governance \<Rightarrow> (int \<times> limit_policy \<times> string \<times> string) list" where
  "version_chain go = map (\<lambda>pv. (pv_number pv, pv_policy pv, pv_simulation pv, pv_change pv)) (go_versions go)"

definition same_books :: "policy_governance \<Rightarrow> policy_governance \<Rightarrow> bool" where
  "same_books go go' \<longleftrightarrow> go_policy go' = go_policy go \<and> go_version go' = go_version go \<and> go_requests go' = go_requests go \<and>
     version_chain go' = version_chain go \<and> applied_traces go' = applied_traces go \<and> go_changes go' = go_changes go"

text \<open>The later row is of the same request, with more votes.\<close>

definition same_request :: "approval_request \<Rightarrow> approval_request \<Rightarrow> bool" where
  "same_request av av' \<longleftrightarrow> av_id av' = av_id av \<and> av_key av' = av_key av \<and> av_by av' = av_by av \<and> av_simulation av' = av_simulation av \<and>
     av_votes av' \<in> {av_votes av} \<union> range (\<lambda>v. av_votes av @ [v])"

inductive governance_move :: "policy_governance \<Rightarrow> policy_governance \<Rightarrow> bool" where
  book: "same_books go go' \<Longrightarrow> governance_move go go'"
| update: "request_row (av_id av) go = Some av \<Longrightarrow> same_request av av' \<Longrightarrow> av_state av \<in> {''pending'', ''assigned''} \<Longrightarrow>
    av_state av' = av_state av \<or> av_state av' \<in> set (approval_successors (av_state av)) - {''approved''} \<Longrightarrow>
    governance_move go (save_request av' go)"
| note_row: "request_row (av_id av) go = Some av \<Longrightarrow> same_request av av' \<Longrightarrow> av_state av' = av_state av \<Longrightarrow> av_votes av' = av_votes av \<Longrightarrow>
    av_force av' = av_force av \<Longrightarrow>
    governance_move go (save_request av' go)"
| filed: "av_state av = ''pending'' \<Longrightarrow> av_id av = approval_id go \<Longrightarrow> governance_move go (go\<lparr>go_requests := go_requests go @ [av]\<rparr>)"
| direct: "find_row ps_id (ps_id ps) (go_simulations go) = Some ps \<Longrightarrow> ps_baseline ps = go_version go \<Longrightarrow> ps_class ps \<in> {''SAFE'', ''WARNING''} \<Longrightarrow>
    (ps_class ps = ''WARNING'' \<Longrightarrow> pc_double pc) \<Longrightarrow>
    governance_move go (write_policy pc ps (af_rule (approval_flow_of (ps_class ps))) go)"
| finalize: "request_row (av_id av) go = Some av \<Longrightarrow> same_request av av' \<Longrightarrow> av_state av = ''assigned'' \<Longrightarrow> av_state av' = ''approved'' \<Longrightarrow>
    quorum_reached av' \<Longrightarrow> ps_baseline ps = go_version go \<Longrightarrow> ps_id ps = av_simulation av \<Longrightarrow> call_key pc = av_key av @ '':finalize'' \<Longrightarrow>
    governance_move go (save_request av' (write_policy pc ps ''CRITICAL_4_EYES_FINALIZE'' go))"
| force: "request_row (av_id av) go = Some av \<Longrightarrow> same_request av av' \<Longrightarrow> av_state av = ''expired'' \<Longrightarrow> av_state av' = ''approved'' \<Longrightarrow>
    av_force av' \<Longrightarrow> ps_baseline ps = go_version go \<Longrightarrow> ps_id ps = av_simulation av \<Longrightarrow> call_key pc = av_key av @ '':force_apply'' \<Longrightarrow>
    governance_move go (save_request av' (write_policy pc ps ''FORCE_OVERRIDE_APPLY'' go))"
| replayed: "request_row (av_id av) go = Some av \<Longrightarrow> same_request av av' \<Longrightarrow> av_state av \<in> {''assigned'', ''expired''} \<Longrightarrow> av_state av' = ''approved'' \<Longrightarrow>
    dt \<in> set (applied_traces go) \<Longrightarrow> dt_key dt \<in> {av_key av @ '':finalize'', av_key av @ '':force_apply''} \<Longrightarrow>
    governance_move go (save_request av' go)"
| controls: "go' = go\<lparr>go_policy := (go_policy go)\<lparr>lp_daily_loss := loss, lp_account_pct := account, lp_symbol_pct := symbol\<rparr>\<rparr> \<Longrightarrow>
    1 / 10 \<le> loss \<Longrightarrow> loss \<le> 100 \<Longrightarrow> 1 \<le> account \<Longrightarrow> account \<le> 100 \<Longrightarrow> 1 \<le> symbol \<Longrightarrow> symbol \<le> 100 \<Longrightarrow> governance_move go go'"

abbreviation moves :: "policy_governance \<Rightarrow> policy_governance \<Rightarrow> bool" where
  "moves \<equiv> governance_move\<^sup>*\<^sup>*"

section \<open>Books that stay\<close>

lemma same_books_refl [simp]: "same_books go go"
  by (simp add: same_books_def)

lemma same_books_trans [trans]: "same_books a b \<Longrightarrow> same_books b c \<Longrightarrow> same_books a c"
  by (simp add: same_books_def)

lemma book_move: "same_books go go' \<Longrightarrow> moves go go'"
  by (blast intro: governance_move.book)

lemma books_add_trace: "state \<noteq> ''applied'' \<Longrightarrow> same_books go (add_trace key flow sim cls rule state go)"
  by (simp add: same_books_def add_trace_def applied_traces_def version_chain_def)

lemma books_simulate: "same_books go (snd (simulate_policy_change ge candidate go))"
  by (simp add: same_books_def simulate_policy_change_def applied_traces_def version_chain_def Let_def split: prod.split)

lemma books_mark: "same_books go (mark_reverted i go)"
proof (cases "go_versions go" rule: rev_cases)
  case (snoc vs v)
  then show ?thesis by (simp add: same_books_def mark_reverted_def applied_traces_def version_chain_def)
qed (simp add: mark_reverted_def)

section \<open>Rows of a table\<close>

lemma find_row_id: "request_row i go = Some av \<Longrightarrow> av_id av = i"
  by (auto simp: request_row_def dest: find_row_key)

lemma request_row_add_trace [simp]: "request_row i (add_trace key flow sim cls rule state go) = request_row i go"
  by (simp add: request_row_def add_trace_def)

lemma request_row_saved [simp]:
  "request_row (av_id av') go \<noteq> None \<Longrightarrow> request_row (av_id av') (save_request av' go) = Some av'"
  by (simp add: request_row_def save_request_def find_row_save)

lemma same_request_refl [simp]: "same_request av av"
  by (simp add: same_request_def)

lemma save_trace_commute: "save_request av (add_trace key flow sim cls rule state go) = add_trace key flow sim cls rule state (save_request av go)"
  by (simp add: save_request_def add_trace_def fresh_id_def)

lemma transition_cases:
  assumes "transition_approval_state now target fp av = Inr av'"
  shows "same_request av av' \<and> av_state av' = target \<and> av_class av' = av_class av \<and> av_flow av' = av_flow av \<and> av_force av' = av_force av \<and>
    av_votes av' = av_votes av \<and> av_expires av' = av_expires av \<and>
    (av_state av = target \<or> target \<in> set (approval_successors (av_state av)) \<and> (av_state av = ''expired'' \<and> target = ''approved'' \<longrightarrow> fp))"
  using assms by (auto simp: transition_approval_state_def append_request_log_def same_request_def Let_def split: if_splits)

lemma approval_successors_simps [simp]:
  "approval_successors ''pending'' = [''assigned'']" "approval_successors ''assigned'' = [''approved'', ''rejected'', ''expired'']"
  "approval_successors ''expired'' = [''approved'']" "approval_successors ''approved'' = []" "approval_successors ''rejected'' = []"
  by (simp_all add: approval_successors_def APPROVAL_STATE_TRANSITIONS_def)

lemma approval_successors_cases:
  "t \<in> set (approval_successors s) \<Longrightarrow>
    s = ''pending'' \<and> t = ''assigned'' \<or> s = ''assigned'' \<and> t \<in> {''approved'', ''rejected'', ''expired''} \<or> s = ''expired'' \<and> t = ''approved''"
  by (auto simp: approval_successors_def APPROVAL_STATE_TRANSITIONS_def split: if_splits)

section \<open>Owners\<close>

text \<open>What an operation on the current row of a request may do.\<close>

definition owned :: "approval_request \<Rightarrow> policy_governance \<Rightarrow> approval_request \<Rightarrow> policy_governance \<Rightarrow> bool" where
  "owned av go av' go' \<longleftrightarrow> moves go go' \<and> request_row (av_id av) go' = Some av' \<and> same_request av av' \<and> av_votes av' = av_votes av \<and>
     (av_state av' = av_state av \<or> av_state av = ''pending'' \<and> av_state av' = ''assigned'') \<and> av_class av' = av_class av \<and> av_expires av' = av_expires av"

lemma owned_refl: "request_row (av_id av) go = Some av \<Longrightarrow> owned av go av go"
  by (simp add: owned_def)

lemma update_move:
  assumes "request_row (av_id av) go = Some av" "same_request av av'" "is_open_state (av_state av)"
    and "av_state av' = av_state av \<or> av_state av' \<in> set (approval_successors (av_state av)) - {''approved''}"
  shows "moves go (save_request av' go)" and "request_row (av_id av) (save_request av' go) = Some av'"
proof -
  have "governance_move go (save_request av' go)"
    using assms by (intro governance_move.update) (simp_all add: is_open_state_def)
  then show "moves go (save_request av' go)" by blast
  have "av_id av' = av_id av" using assms(2) by (simp add: same_request_def)
  then show "request_row (av_id av) (save_request av' go) = Some av'"
    using assms(1) request_row_saved [of av' go] by simp
qed

lemma assign_owned:
  assumes row: "request_row (av_id av) go = Some av" and open_: "is_open_state (av_state av)"
    and run: "assign_request now av who auto over go = (r, go')"
  shows "case r of Inl _ \<Rightarrow> go' = go | Inr av' \<Rightarrow> owned av go av' go' \<and> av_state av' = ''assigned''"
proof (cases "APPROVER_PENDING_LIMIT \<le> approver_pending_count go who \<and> \<not> over")
  case True
  then show ?thesis using run by (auto simp: assign_request_def)
next
  case False
  let ?av = "av\<lparr>av_assigned := Some who, av_assigned_at := now, av_auto := auto\<rparr>"
  have same: "same_request av ?av" by (simp add: same_request_def)
  consider "av_state av = ''pending''" | "av_state av = ''assigned''" using open_ by (auto simp: is_open_state_def)
  then show ?thesis
  proof cases
    case 1
    then obtain av2 where t: "transition_approval_state now ''assigned'' False ?av = Inr av2"
      by (simp add: transition_approval_state_def)
    from transition_cases [OF t] have "same_request av av2" "av_state av2 = ''assigned''" "av_class av2 = av_class av" "av_votes av2 = av_votes av" "av_expires av2 = av_expires av"
      by (simp_all add: same_request_def)
    moreover have "r = Inr av2" "go' = save_request av2 go" using run False 1 t by (auto simp: assign_request_def)
    ultimately show ?thesis using update_move [OF row _ open_, of av2] 1 by (simp add: owned_def)
  next
    case 2
    let ?av2 = "append_request_log (Some ''assigned'') ''assigned'' (?av\<lparr>av_active_at := now\<rparr>)"
    have "same_request av ?av2" "av_state ?av2 = ''assigned''" "av_class ?av2 = av_class av" "av_votes ?av2 = av_votes av" "av_expires ?av2 = av_expires av"
      using 2 by (simp_all add: same_request_def append_request_log_def Let_def)
    moreover have "r = Inr ?av2" "go' = save_request ?av2 go" using run False 2 by (auto simp: assign_request_def Let_def)
    ultimately show ?thesis using update_move [OF row _ open_, of ?av2] 2 by (simp add: owned_def)
  qed
qed

lemma ensure_owned:
  assumes row: "request_row (av_id av) go = Some av" and run: "ensure_owner now av go = (av', go')"
  shows "owned av go av' go'"
proof -
  have "owned av go av' go'" if "assign_request now av x True True go = (r, go1)" and "is_open_state (av_state av)"
      and "(av', go') = (case r of Inl _ \<Rightarrow> (av, go1) | Inr av1 \<Rightarrow> (av1, go1))" for x r go1
    using assign_owned [OF row that(2,1)] that(3) owned_refl [OF row] by (auto split: sum.splits)
  with run owned_refl [OF row] show ?thesis
    unfolding ensure_owner_def Let_def
    by (auto split: if_splits option.splits prod.splits sum.splits)
qed

section \<open>Expiry and escalation\<close>

lemma books_add_trace_move: "state \<noteq> ''applied'' \<Longrightarrow> moves go (add_trace key flow sim cls rule state go)"
  by (rule book_move [OF books_add_trace])

lemma moves_expire:
  assumes row: "request_row (av_id av) go = Some av"
  shows "moves go (expire_request now av go)"
proof -
  obtain av1 go1 where pre: "(if av_state av = ''pending'' then ensure_owner now av go else (av, go)) = (av1, go1)" by fastforce
  have own: "owned av go av1 go1" using pre ensure_owned [OF row, of now] owned_refl [OF row] by (auto split: if_splits)
  then have m: "moves go go1" and row1: "request_row (av_id av1) go1 = Some av1" by (auto simp: owned_def same_request_def)
  show ?thesis
  proof (cases "transition_approval_state now ''expired'' False av1")
    case (Inl e)
    then show ?thesis using m pre by (simp add: expire_request_def)
  next
    case (Inr av2)
    let ?av3 = "av2\<lparr>av_trace := Some (fresh_id ''ro-trace-'' go1)\<rparr>"
    from transition_cases [OF Inr] have t: "same_request av1 ?av3" "av_state ?av3 = ''expired''"
      "av_state av1 = ''expired'' \<or> ''expired'' \<in> set (approval_successors (av_state av1))"
      "av_votes ?av3 = av_votes av1" "av_force ?av3 = av_force av1" by (auto simp: same_request_def)
    have "governance_move go1 (save_request ?av3 go1)"
    proof (cases "av_state av1 = ''expired''")
      case True
      then show ?thesis using governance_move.note_row [OF row1 t(1)] t(2,4,5) by simp
    next
      case False
      then have "av_state av1 = ''assigned''" using t(3) by (auto dest: approval_successors_cases)
      then show ?thesis using governance_move.update [OF row1 t(1)] t(2) by simp
    qed
    with m have "moves go (save_request ?av3 go1)" by (rule rtranclp.rtrancl_into_rtrancl)
    then have "moves go (add_trace (av_key av2) (av_flow av2) (av_simulation av2) (av_class av2) ''FORCED_AUTO_REJECT_SLA_BREACH'' ''expired'' (save_request ?av3 go1))"
      by (rule rtranclp_trans [OF _ books_add_trace_move]) simp
    then show ?thesis using pre Inr by (simp add: expire_request_def save_trace_commute)
  qed
qed

lemma moves_each:
  assumes "\<And>av go. request_row (av_id av) go = Some av \<Longrightarrow> moves go (f av go)"
  shows "moves go (each_request f rows go)"
  unfolding each_request_def
proof (induction rows arbitrary: go)
  case (Cons row rows)
  have "moves go (case request_row (av_id row) go of None \<Rightarrow> go | Some av \<Rightarrow> f av go)"
    using assms find_row_id by (auto split: option.split)
  then show ?case using Cons.IH by (simp add: rtranclp_trans)
qed simp

lemma moves_expire_stale: "moves go (expire_stale now go)"
  unfolding expire_stale_def by (intro moves_each moves_expire)

lemma moves_escalate:
  assumes row: "request_row (av_id av) go = Some av"
  shows "moves go (escalate_request now av go)"
proof -
  obtain av1 go1 where pre: "ensure_owner now av go = (av1, go1)" by fastforce
  have own: "owned av go av1 go1" by (rule ensure_owned [OF row pre])
  then have m: "moves go go1" and row1: "request_row (av_id av1) go1 = Some av1" by (auto simp: owned_def same_request_def)
  have save: "moves go (save_request av2 go1)" if "same_request av1 av2" "av_state av2 = av_state av1" "av_votes av2 = av_votes av1" "av_force av2 = av_force av1" for av2
    using m governance_move.note_row [OF row1 that] by (rule rtranclp.rtrancl_into_rtrancl)
  show ?thesis
    using save m pre by (auto simp: escalate_request_def Let_def same_request_def)
qed

lemma moves_escalations: "moves go (process_approval_escalations now go)"
  unfolding process_approval_escalations_def Let_def
  by (rule rtranclp_trans [OF moves_expire_stale [of _ now]]) (intro moves_each moves_escalate)

section \<open>Applying\<close>

text \<open>What a call of \<open>apply_policy_from_simulation\<close> can end in.\<close>

lemma apply_cases:
  assumes "apply_policy_from_simulation now pc go = (r, go')"
  obtains
    (refused) "go' = go" "\<And>pa. r = Inr pa \<Longrightarrow> pa_status pa \<noteq> ''applied'' \<and> pa_message pa \<noteq> ''critical_policy_blocked_use_apply_with_override_and_4eyes''"
  | (replayed) dt pa where "go' = go" "r = Inr pa" "dt \<in> set (applied_traces go)" "dt_key dt = call_key pc" "pa_message pa \<noteq> ''critical_policy_blocked_use_apply_with_override_and_4eyes''"
  | (blocked) ps pa where "find_row ps_id (pc_simulation pc) (go_simulations go) = Some ps" "r = Inr pa" "pa_status pa = ''blocked''"
      "go' = add_trace (call_key pc) (pc_flow pc) (ps_id ps) (ps_class ps) ''CRITICAL_BLOCK_DEFAULT'' ''blocked'' go"
  | (filed) ps pa where "find_row ps_id (pc_simulation pc) (go_simulations go) = Some ps" "af_second (flow_of_mode (pc_mode pc) (ps_class ps))"
      "request_approval now pc ps go = (pa, go')" "r = Inr pa"
  | (written) ps pa where "find_row ps_id (pc_simulation pc) (go_simulations go) = Some ps" "ps_baseline ps = go_version go"
      "\<not> af_second (flow_of_mode (pc_mode pc) (ps_class ps))" "af_double (flow_of_mode (pc_mode pc) (ps_class ps)) \<Longrightarrow> pc_double pc"
      "r = Inr pa" "pa_message pa = ''policy_applied''" "go' = write_policy pc ps (af_rule (flow_of_mode (pc_mode pc) (ps_class ps))) go"
proof -
  note cases = that
  show thesis
  proof (cases "find_row ps_id (pc_simulation pc) (go_simulations go)")
    case None
    then show ?thesis using assms by (intro cases(1)) (auto simp: apply_policy_from_simulation_def)
  next
    case (Some ps)
    have fresh: thesis if fr: "apply_fresh now pc ps go = (r, go')"
    proof -
      let ?af = "flow_of_mode (pc_mode pc) (ps_class ps)"
      let ?bad = "pc_expected pc \<noteq> None \<and> pc_expected pc \<noteq> Some (go_version go) \<or> go_version go \<noteq> ps_baseline ps \<or> af_double ?af \<and> \<not> pc_double pc"
      show thesis
      proof (cases ?bad)
        case True
        then have "\<exists>e. apply_fresh now pc ps go = (Inl e, go)" unfolding apply_fresh_def Let_def by (simp only: if_True split: if_split) blast
        then have "go' = go" "\<exists>e. r = Inl e" using fr by auto
        then show ?thesis by (intro cases(1)) auto
      next
        case good: False
        then have base: "ps_baseline ps = go_version go" "af_double ?af \<Longrightarrow> pc_double pc" by auto
        show ?thesis
        proof (cases "af_blocked ?af \<and> \<not> pc_override pc")
          case True
          have "(r, go') = (Inr \<lparr>pa_status = ''blocked'', pa_applied = False, pa_trace = Some (fresh_id ''ro-trace-'' go),
              pa_message = ''critical_policy_blocked_use_apply_with_override_and_4eyes''\<rparr>,
              add_trace (call_key pc) (pc_flow pc) (ps_id ps) (ps_class ps) ''CRITICAL_BLOCK_DEFAULT'' ''blocked'' go)"
            unfolding fr [symmetric] apply_fresh_def Let_def using good True by auto
          then have "r = Inr \<lparr>pa_status = ''blocked'', pa_applied = False, pa_trace = Some (fresh_id ''ro-trace-'' go),
              pa_message = ''critical_policy_blocked_use_apply_with_override_and_4eyes''\<rparr>"
            and "go' = add_trace (call_key pc) (pc_flow pc) (ps_id ps) (ps_class ps) ''CRITICAL_BLOCK_DEFAULT'' ''blocked'' go" by simp_all
          then show ?thesis by (rule cases(3) [OF Some _ apply_answer.simps(1)])
        next
          case free: False
          show ?thesis
          proof (cases "af_second ?af")
            case True
            have "(r, go') = (let (pa, go1) = request_approval now pc ps go in (Inr pa, go1))"
              unfolding fr [symmetric] apply_fresh_def Let_def using good free True by auto
            then obtain pa where "request_approval now pc ps go = (pa, go')" "r = Inr pa" by (auto simp: Let_def split: prod.splits)
            then show ?thesis by (rule cases(4) [OF Some True])
          next
            case False
            have "(r, go') = (Inr \<lparr>pa_status = ''applied'', pa_applied = True, pa_trace = Some (fresh_id ''ro-trace-'' go), pa_message = ''policy_applied''\<rparr>,
                write_policy pc ps (af_rule ?af) go)"
              unfolding fr [symmetric] apply_fresh_def Let_def using good free False by auto
            then have "r = Inr \<lparr>pa_status = ''applied'', pa_applied = True, pa_trace = Some (fresh_id ''ro-trace-'' go), pa_message = ''policy_applied''\<rparr>"
              and "go' = write_policy pc ps (af_rule ?af) go" by simp_all
            then obtain pa where "r = Inr pa" "pa_message pa = ''policy_applied''" "go' = write_policy pc ps (af_rule ?af) go" by simp
            then show ?thesis by (intro cases(5) [OF Some base(1) False base(2)]) simp_all
          qed
        qed
      qed
    qed
    show thesis
    proof (cases "request_replay pc go")
      case a: (Some pa)
      then show ?thesis using assms Some request_replay_cases [OF a] by (intro cases(1)) (auto simp: apply_policy_from_simulation_def)
    next
      case n: None
      show thesis
      proof (cases "trace_replay pc go")
        case t: (Some pa)
        from trace_replay_cases [OF t] obtain dt where dt: "dt \<in> set (go_traces go)" "dt_key dt = call_key pc" "pa_status pa = dt_state dt"
          and m: "pa_message pa = ''idempotent_replay_existing_decision_trace''" by blast
        have r: "r = Inr pa" "go' = go" using assms Some n t by (simp_all add: apply_policy_from_simulation_def)
        show ?thesis
        proof (cases "dt_state dt = ''applied''")
          case True
          then show ?thesis using r dt m by (intro cases(2) [of pa dt]) (auto simp: applied_traces_def)
        next
          case False
          then show ?thesis using r dt m by (intro cases(1)) auto
        qed
      qed (use assms Some n fresh in \<open>simp add: apply_policy_from_simulation_def\<close>)
    qed
  qed
qed

section \<open>Every step is a sequence of moves\<close>

text \<open>The requests are numbered, so that a new one has an identifier of its own.\<close>

definition numbered :: "policy_governance \<Rightarrow> bool" where
  "numbered go \<longleftrightarrow> map av_id (go_requests go) = map (\<lambda>k. ''ro-appr-'' @ nat_str k) [0..<length (go_requests go)]"

lemma numbered_fresh: "numbered go \<Longrightarrow> request_row (approval_id go) go = None"
proof -
  assume "numbered go"
  then have "approval_id go \<notin> set (map av_id (go_requests go))" by (simp add: numbered_def approval_id_def image_iff)
  then show ?thesis by (simp add: request_row_def find_row_None_iff)
qed

lemma saved_requests: "go_requests (save_request av go) = save_row av_id av (go_requests go)"
  by (simp add: save_request_def)

lemma written_requests: "go_requests (write_policy pc ps rule go) = go_requests go"
  by (simp add: write_policy_def add_trace_def)

lemma move_numbered: "governance_move go go' \<Longrightarrow> numbered go \<Longrightarrow> numbered go'"
  by (induction rule: governance_move.induct) (simp_all add: numbered_def same_books_def saved_requests written_requests approval_id_def)

lemma moves_numbered: "moves go go' \<Longrightarrow> numbered go \<Longrightarrow> numbered go'"
  by (induction rule: rtranclp_induct) (auto intro: move_numbered)

lemma filed_moves:
  assumes "request_approval now pc ps go = (pa, go')" and num: "numbered go"
  shows "moves go go'"
proof -
  let ?av = "new_request now pc ps go" and ?in = "go\<lparr>go_requests := go_requests go @ [new_request now pc ps go]\<rparr>"
  let ?go1 = "add_trace (call_key pc) (pc_flow pc) (ps_id ps) (ps_class ps) ''CRITICAL_PENDING_4_EYES'' ''pending'' ?in"
  have i: "av_id ?av = approval_id go" by (simp add: new_request_def)
  have "governance_move go ?in" by (rule governance_move.filed) (simp_all add: new_request_def)
  then have "moves go ?in" by blast
  then have m: "moves go ?go1" by (rule rtranclp_trans [OF _ books_add_trace_move]) simp
  obtain av1 go2 where e: "ensure_owner now ?av ?go1 = (av1, go2)" by fastforce
  have "request_row (av_id ?av) ?go1 = Some ?av"
    using numbered_fresh [OF num] i by (simp add: request_row_def add_trace_def)
  then have "owned ?av ?go1 av1 go2" using e by (rule ensure_owned)
  moreover have "go' = go2" using assms(1) e by (simp add: request_approval_def Let_def)
  ultimately show ?thesis using m by (auto simp: owned_def)
qed

lemma normal_moves:
  assumes "apply_policy_from_simulation now pc go = (r, go')" and "pc_mode pc = Normal" and num: "numbered go"
  shows "moves go go'"
  using assms(1)
proof (cases rule: apply_cases)
  case (written ps pa)
  have cls: "ps_class ps \<in> {''SAFE'', ''WARNING''}"
    using written(3) assms(2) by (auto simp: flow_of_mode_def approval_flow_of_def split: if_splits)
  have sim: "find_row ps_id (ps_id ps) (go_simulations go) = Some ps"
    using written(1) find_row_key [OF written(1)] by simp
  have "governance_move go (write_policy pc ps (af_rule (approval_flow_of (ps_class ps))) go)"
    using written(4) assms(2) by (intro governance_move.direct [OF sim written(2) cls]) (simp add: flow_of_mode_def approval_flow_of_def)
  then show ?thesis using written(7) assms(2) by (auto simp: flow_of_mode_def)
next
  case (filed ps pa)
  from filed(3) num show ?thesis by (rule filed_moves)
qed (simp_all add: books_add_trace_move)

text \<open>What \<open>_transition_approval_state\<close> answers for a target the table admits.\<close>

lemma approved_of:
  assumes "av_state av = ''assigned'' \<or> av_state av = ''expired'' \<and> fp"
  obtains av1 where "transition_approval_state now ''approved'' fp av = Inr av1" "same_request av av1" "av_state av1 = ''approved''"
    "av_votes av1 = av_votes av" "av_force av1 = av_force av"
proof -
  obtain av1 where t: "transition_approval_state now ''approved'' fp av = Inr av1"
    using assms by (auto simp: transition_approval_state_def)
  show thesis using transition_cases [OF t] by (intro that [OF t]) auto
qed

lemma same_request_trans_vote: "same_request av av1 \<Longrightarrow> same_request av1 av2 \<Longrightarrow> av_votes av2 = av_votes av1 \<Longrightarrow> same_request av av2"
  by (auto simp: same_request_def)

lemma flow_of_special [simp]:
  "\<not> af_second (flow_of_mode Finalize cls)" "\<not> af_second (flow_of_mode Force cls)" "af_rule (flow_of_mode Finalize cls) = ''CRITICAL_4_EYES_FINALIZE''"
  "af_rule (flow_of_mode Force cls) = ''FORCE_OVERRIDE_APPLY''"
  by (simp_all add: flow_of_mode_def)

lemma call_key_special: "call_key (finalize_call av) = av_key av @ '':finalize''" "call_key (force_call av) = av_key av @ '':force_apply''"
  by (simp_all add: call_key_def finalize_call_def force_call_def str_or_def)

lemma special_fields [simp]:
  "pc_mode (finalize_call av) = Finalize" "pc_mode (force_call av) = Force" "pc_simulation (finalize_call av) = av_simulation av"
  "pc_simulation (force_call av) = av_simulation av"
  by (simp_all add: finalize_call_def force_call_def)

lemma finalize_moves:
  assumes row: "request_row (av_id av0) go = Some av0" and same: "same_request av0 av" and state: "av_state av0 = ''assigned''" "av_state av = ''assigned''"
    and quorum: "quorum_reached av" and run: "finalize_request now av go = (r, go')"
  shows "moves go go'"
proof -
  obtain r1 go1 where ap: "apply_policy_from_simulation now (finalize_call av) go = (r1, go1)" by fastforce
  obtain av1 where t: "transition_approval_state now ''approved'' False av = Inr av1" "same_request av av1" "av_state av1 = ''approved''"
    "av_votes av1 = av_votes av" using approved_of [of av False now] state by blast
  have k: "av_key av = av_key av0" "av_simulation av = av_simulation av0" using same by (simp_all add: same_request_def)
  consider "go' = go" | pa where "r1 = Inr pa" "pa_status pa = ''applied''"
      "go' = add_trace (av_key av) (av_flow av) (av_simulation av) (av_class av) ''CRITICAL_4_EYES_APPROVED'' ''approved''
         (save_request (av1\<lparr>av_trace := pa_trace pa, av_active_at := now\<rparr>) go1)"
    using run ap t(1) by (auto simp: finalize_request_def split: sum.splits if_splits)
  then show ?thesis
  proof cases
    case 2
    let ?av2 = "av1\<lparr>av_trace := pa_trace pa, av_active_at := now\<rparr>"
    have av2: "same_request av0 ?av2" "av_state ?av2 = ''approved''" "quorum_reached ?av2"
      using same_request_trans_vote [OF same t(2,4)] t(3,4) quorum by (simp_all add: same_request_def quorum_reached_def)
    have "governance_move go (save_request ?av2 go1)"
      using ap
    proof (cases rule: apply_cases)
      case (replayed dt pa')
      then show ?thesis using governance_move.replayed [OF row av2(1) _ av2(2), of dt] state k by (simp add: call_key_special)
    next
      case (written ps pa')
      then show ?thesis
        using governance_move.finalize [OF row av2(1) state(1) av2(2,3), of ps "finalize_call av"] k find_row_key [OF written(1)] by (simp add: call_key_special)
    qed (use 2 in \<open>auto simp: request_approval_def\<close>)
    then have "moves go (save_request ?av2 go1)" by blast
    then have "moves go (add_trace (av_key av) (av_flow av) (av_simulation av) (av_class av) ''CRITICAL_4_EYES_APPROVED'' ''approved'' (save_request ?av2 go1))"
      by (rule rtranclp_trans [OF _ books_add_trace_move]) simp
    then show ?thesis unfolding 2(3) .
  qed simp
qed

lemma force_moves: "moves go (snd (force_apply_request now i actor role go))"
proof -
  let ?go1 = "expire_stale now go"
  have start: "moves go ?go1" by (rule moves_expire_stale)
  show ?thesis
  proof (cases "role = ''super_admin''")
    case super: True
    show ?thesis
    proof (cases "request_row i ?go1")
      case None
      then show ?thesis using start super by (simp add: force_apply_request_def)
    next
      case (Some av)
      then have row: "request_row (av_id av) ?go1 = Some av" using find_row_id by blast
      show ?thesis
      proof (cases "av_state av = ''expired''")
        case True
        obtain r1 go2 where ap: "apply_policy_from_simulation now (force_call av) ?go1 = (r1, go2)" by fastforce
        obtain av1 where t: "transition_approval_state now ''approved'' True (av\<lparr>av_force := True\<rparr>) = Inr av1"
          "same_request (av\<lparr>av_force := True\<rparr>) av1" "av_state av1 = ''approved''" "av_force av1 = True"
          using approved_of [of "av\<lparr>av_force := True\<rparr>" True now] True by auto
        consider "snd (force_apply_request now i actor role go) = ?go1" | pa where "r1 = Inr pa" "pa_status pa = ''applied''"
            "snd (force_apply_request now i actor role go) = save_request (av1\<lparr>av_second := Some actor, av_trace := pa_trace pa, av_active_at := now\<rparr>) go2"
          using ap t(1) super Some True
          by (cases r1; cases "pa_status (projr r1) = ''applied''") (simp_all add: force_apply_request_def Let_def)
        then show ?thesis
        proof cases
          case 2
          let ?av2 = "av1\<lparr>av_second := Some actor, av_trace := pa_trace pa, av_active_at := now\<rparr>"
          have av2: "same_request av ?av2" "av_state ?av2 = ''approved''" "av_force ?av2" using t(2-4) by (auto simp: same_request_def)
          have "governance_move ?go1 (save_request ?av2 go2)"
            using ap
          proof (cases rule: apply_cases)
            case (replayed dt pa')
            then show ?thesis using governance_move.replayed [OF row av2(1) _ av2(2), of dt] True by (simp add: call_key_special)
          next
            case (written ps pa')
            then show ?thesis
              using governance_move.force [OF row av2(1) True av2(2,3), of ps "force_call av"] find_row_key [OF written(1)] by (simp add: call_key_special)
          qed (use 2 in \<open>auto simp: request_approval_def\<close>)
          then show ?thesis unfolding 2(3) by (rule rtranclp.rtrancl_into_rtrancl [OF start])
        qed (use start in simp)
      qed (use start super Some in \<open>simp add: force_apply_request_def\<close>)
    qed
  qed (simp add: force_apply_request_def)
qed

lemma decision_assigned: "decision_error actor role av = None \<Longrightarrow> av_state av = ''assigned'' \<and> av_by av \<noteq> actor"
  by (simp add: decision_error_def split: if_splits)

lemma approval_moves: "moves go (snd (approve_request now i actor role go))"
proof -
  let ?go1 = "expire_stale now go"
  have start: "moves go ?go1" by (rule moves_expire_stale)
  show ?thesis
  proof (cases "request_row i ?go1")
    case None
    then show ?thesis using start by (simp add: approve_request_def)
  next
    case (Some av)
    then have row: "request_row (av_id av) ?go1 = Some av" using find_row_id by blast
    show ?thesis
    proof (cases "decision_error actor role av")
      case (Some e)
      then show ?thesis using start \<open>request_row i ?go1 = Some av\<close> by (simp add: approve_request_def)
    next
      case None
      then have state: "av_state av = ''assigned''" by (simp add: decision_assigned)
      let ?av1 = "voted now actor role av"
      have av1: "same_request av ?av1" "av_state ?av1 = ''assigned''" using state by (auto simp: voted_def same_request_def)
      let ?again = "actor \<in> set (map gt_actor (av_votes av))"
      consider (again) "snd (approve_request now i actor role go) = save_request (av\<lparr>av_active_at := now\<rparr>) ?go1"
        | (final) "quorum_reached ?av1" "snd (approve_request now i actor role go) = snd (finalize_request now ?av1 ?go1)"
        | (wait) "snd (approve_request now i actor role go) = add_trace (av_key av) (av_flow av) (av_simulation av) (av_class av)
            ''CRITICAL_GOVERNANCE_QUORUM_PENDING'' ''pending'' (save_request (append_request_log (Some ''assigned'') ''assigned'' ?av1) ?go1)"
        using Some None by (cases ?again; cases "quorum_reached ?av1") (simp_all add: approve_request_def Let_def)
      then show ?thesis
      proof cases
        case again
        have "governance_move ?go1 (save_request (av\<lparr>av_active_at := now\<rparr>) ?go1)"
          by (rule governance_move.note_row [OF row]) (simp_all add: same_request_def)
        then show ?thesis unfolding again by (rule rtranclp.rtrancl_into_rtrancl [OF start])
      next
        case final
        then show ?thesis
          using rtranclp_trans [OF start finalize_moves [OF row av1(1) state av1(2) final(1) prod.collapse [symmetric]]] by simp
      next
        case wait
        let ?av2 = "append_request_log (Some ''assigned'') ''assigned'' ?av1"
        have "same_request av ?av2" "av_state ?av2 = av_state av" using av1 state by (auto simp: same_request_def append_request_log_def Let_def)
        then have "moves ?go1 (save_request ?av2 ?go1)" using update_move(1) [OF row] state by (simp add: is_open_state_def)
        then have "moves go (save_request ?av2 ?go1)" by (rule rtranclp_trans [OF start])
        then show ?thesis unfolding wait by (rule rtranclp_trans [OF _ books_add_trace_move]) simp
      qed
    qed
  qed
qed

lemma rejection_moves: "moves go (snd (reject_request now i actor role go))"
proof -
  let ?go1 = "expire_stale now go"
  have start: "moves go ?go1" by (rule moves_expire_stale)
  show ?thesis
  proof (cases "request_row i ?go1")
    case None
    then show ?thesis using start by (simp add: reject_request_def)
  next
    case (Some av)
    then have row: "request_row (av_id av) ?go1 = Some av" using find_row_id by blast
    show ?thesis
    proof (cases "decision_error actor role av")
      case (Some e)
      then show ?thesis using start \<open>request_row i ?go1 = Some av\<close> by (simp add: reject_request_def)
    next
      case None
      then have state: "av_state av = ''assigned''" by (simp add: decision_assigned)
      then obtain av1 where t: "transition_approval_state now ''rejected'' False av = Inr av1"
        by (simp add: transition_approval_state_def)
      let ?av2 = "av1\<lparr>av_second := Some actor, av_trace := Some (fresh_id ''ro-trace-'' ?go1), av_active_at := now\<rparr>"
      have "same_request av ?av2" "av_state ?av2 = ''rejected''" using transition_cases [OF t] by (auto simp: same_request_def)
      then have "moves ?go1 (save_request ?av2 ?go1)" using update_move(1) [OF row] state by (simp add: is_open_state_def)
      then have "moves go (save_request ?av2 ?go1)" by (rule rtranclp_trans [OF start])
      then have "moves go (add_trace (av_key av) (av_flow av) (av_simulation av) (av_class av) ''CRITICAL_4_EYES_REJECTED'' ''rejected'' (save_request ?av2 ?go1))"
        by (rule rtranclp_trans [OF _ books_add_trace_move]) simp
      then show ?thesis using Some None t by (simp add: reject_request_def Let_def)
    qed
  qed
qed

lemma assign_moves: "moves go (snd (assign_policy_request now i assignee auto go))"
proof -
  let ?go1 = "expire_stale now go"
  have start: "moves go ?go1" by (rule moves_expire_stale)
  show ?thesis
  proof (cases "request_row i ?go1")
    case None
    then show ?thesis using start by (simp add: assign_policy_request_def)
  next
    case (Some av)
    then have row: "request_row (av_id av) ?go1 = Some av" using find_row_id by blast
    show ?thesis
    proof (cases "is_open_state (av_state av)")
      case True
      have one: "moves go (snd (assign_request now av who a over ?go1))" for who a over
      proof -
        obtain r go2 where e: "assign_request now av who a over ?go1 = (r, go2)" by fastforce
        from assign_owned [OF row True e] have "moves ?go1 go2" by (auto simp: owned_def split: sum.splits)
        with start e show ?thesis by simp
      qed
      obtain av1 go2 where e: "ensure_owner now av ?go1 = (av1, go2)" by fastforce
      from ensure_owned [OF row e] start have two: "moves go go2" by (auto simp: owned_def)
      show ?thesis using Some True one two start e
        by (auto simp: assign_policy_request_def Let_def split: option.split)
    qed (use start Some in \<open>simp add: assign_policy_request_def\<close>)
  qed
qed

lemma revert_moves:
  assumes "numbered go"
  shows "moves go (snd (apply_revert now i pc go))"
proof -
  let ?pc = "pc\<lparr>pc_flow := ''revert'', pc_mode := Normal\<rparr>"
  obtain r go1 where ap: "apply_policy_from_simulation now ?pc go = (r, go1)" by fastforce
  then have m: "moves go go1" by (rule normal_moves) (simp_all add: assms)
  then have "moves go (mark_reverted i go1)" by (rule rtranclp_trans [OF _ book_move [OF books_mark]])
  with m ap show ?thesis
    by (auto simp: apply_revert_def split: option.split sum.split)
qed

text \<open>
  The handlers refine the moves: from a state whose requests are numbered, every step is a sequence of
  moves, and the requests stay numbered.
\<close>

lemma controls_moves: "moves go (snd (update_risk_controls role cq go))"
proof (cases "controls_valid cq")
  case True
  then have "governance_move go (go\<lparr>go_policy := (go_policy go)\<lparr>lp_daily_loss := cq_max_loss cq, lp_account_pct := cq_account cq, lp_symbol_pct := cq_symbol cq\<rparr>\<rparr>)"
    by (intro governance_move.controls [OF HOL.refl]) (simp_all add: controls_valid_def)
  then have "moves go (go\<lparr>go_policy := (go_policy go)\<lparr>lp_daily_loss := cq_max_loss cq, lp_account_pct := cq_account cq, lp_symbol_pct := cq_symbol cq\<rparr>\<rparr>)" ..
  then show ?thesis by (simp add: update_risk_controls_def Let_def)
qed (simp add: update_risk_controls_def)

lemma call_moves: "numbered go \<Longrightarrow> moves go (run_call c go)"
proof (induction c)
  case (Call_Apply now pc)
  then show ?case using normal_moves [OF prod.collapse [symmetric]] by simp
next
  case (Call_Simulate_Revert ge i)
  have "same_books go (snd (simulate_revert ge i go))"
    by (simp add: simulate_revert_def Let_def split: option.split prod.split) (metis books_simulate snd_conv)
  then show ?case by (simp add: book_move)
next
  case (Users_Change users)
  have "same_books go (go\<lparr>go_users := users\<rparr>)" by (simp add: same_books_def version_chain_def applied_traces_def)
  then show ?case by (simp add: book_move)
qed (simp_all add: book_move books_simulate moves_escalations approval_moves rejection_moves assign_moves force_moves revert_moves controls_moves)

lemma step_moves: "policy_step go go' \<Longrightarrow> numbered go \<Longrightarrow> moves go go'"
  by (auto elim: policy_step.cases intro: call_moves)

lemma reachable_moves: "policy_reachable go \<Longrightarrow> (\<exists>users. moves (initial_books users) go) \<and> numbered go"
proof (induction rule: policy_reachable.induct)
  case (start users)
  show ?case by (auto simp: initial_books_def numbered_def)
next
  case (step go go')
  then show ?case using step_moves moves_numbered by (meson rtranclp_trans)
qed

end
