(* ===== verification/Policy_Properties.thy ===== *)
theory Policy_Properties
  imports Policy_Moves
begin

text \<open>
  What holds of the policy governance in all reachable states: the history of versions, the approval
  behind every applied change, the settled requests, the expiry of overdue ones, and where the four
  eyes can be evaded.
\<close>

section \<open>Invariants over the moves\<close>

text \<open>What holds of empty books and is kept by every move, between states with numbered requests, holds of
  every reachable state.\<close>

locale governance_invariant =
  fixes inv :: "policy_governance \<Rightarrow> bool"
  assumes initially: "inv (initial_books users)"
    and kept: "governance_move go go' \<Longrightarrow> numbered go \<Longrightarrow> inv go \<Longrightarrow> inv go'"
begin

lemma kept_by_moves: "moves go go' \<Longrightarrow> numbered go \<Longrightarrow> inv go \<Longrightarrow> inv go'"
proof (induction rule: rtranclp_induct)
  case (step go1 go2)
  then show ?case using kept moves_numbered by blast
qed

lemma holds_reachable: "policy_reachable go \<Longrightarrow> inv go"
proof -
  assume "policy_reachable go"
  from reachable_moves [OF this] obtain users where "moves (initial_books users) go" by blast
  then show "inv go" using kept_by_moves initially by (simp add: initial_books_def numbered_def)
qed

end

section \<open>The history of versions\<close>

lemma written_books:
  "go_version (write_policy pc ps rule go) = go_version go + 1" "go_policy (write_policy pc ps rule go) = ps_candidate ps"
  "version_chain (write_policy pc ps rule go) = version_chain go @ [(go_version go + 1, ps_candidate ps, ps_id ps, fresh_id ''ro-cr-'' go)]"
  "applied_traces (write_policy pc ps rule go) = applied_traces go @
     [\<lparr>dt_id = fresh_id ''ro-trace-'' go, dt_key = call_key pc, dt_flow = pc_flow pc, dt_simulation = ps_id ps, dt_class = ps_class ps,
       dt_rule = rule, dt_state = ''applied''\<rparr>]"
  "go_changes (write_policy pc ps rule go) = go_changes go @
     [\<lparr>ch_id = fresh_id ''ro-cr-'' go, ch_by = pc_actor pc, ch_role = pc_role pc, ch_payload = ps_candidate ps, ch_simulation = ps_id ps,
       ch_double = pc_double pc\<rparr>]"
  by (simp_all add: write_policy_def add_trace_def version_chain_def applied_traces_def fresh_id_def)

lemma saved_books:
  "go_version (save_request av go) = go_version go" "go_policy (save_request av go) = go_policy go"
  "version_chain (save_request av go) = version_chain go" "applied_traces (save_request av go) = applied_traces go"
  "go_changes (save_request av go) = go_changes go"
  by (simp_all add: save_request_def version_chain_def applied_traces_def)

lemma filed_books:
  "version_chain (go\<lparr>go_requests := rows\<rparr>) = version_chain go" "applied_traces (go\<lparr>go_requests := rows\<rparr>) = applied_traces go"
  "version_chain (go\<lparr>go_policy := policy\<rparr>) = version_chain go" "applied_traces (go\<lparr>go_policy := policy\<rparr>) = applied_traces go"
  by (simp_all add: version_chain_def applied_traces_def)

text \<open>Two policies that differ at most in the three limits of the risk controls.\<close>

definition same_but_controls :: "limit_policy \<Rightarrow> limit_policy \<Rightarrow> bool" where
  "same_but_controls p q \<longleftrightarrow> lp_equity p = lp_equity q \<and> lp_concurrent p = lp_concurrent q \<and> lp_cooldown p = lp_cooldown q \<and>
     lp_frequency p = lp_frequency q \<and> lp_burst p = lp_burst q \<and> lp_duplicate_window p = lp_duplicate_window q"

lemma same_but_controls_simps [simp]:
  "same_but_controls p p"
  "same_but_controls (p\<lparr>lp_daily_loss := loss, lp_account_pct := account, lp_symbol_pct := symbol\<rparr>) q = same_but_controls p q"
  by (simp_all add: same_but_controls_def)

definition versions_in_order :: "policy_governance \<Rightarrow> bool" where
  "versions_in_order go \<longleftrightarrow>
     map fst (version_chain go) = map (\<lambda>k. int k + 2) [0..<length (version_chain go)] \<and> go_version go = int (length (version_chain go)) + 1 \<and>
     same_but_controls (go_policy go) (if version_chain go = [] then default_limits_policy else fst (snd (last (version_chain go)))) \<and>
     map snd (version_chain go) = map (\<lambda>ch. (ch_payload ch, ch_simulation ch, ch_id ch)) (go_changes go) \<and>
     map (\<lambda>v. fst (snd (snd v))) (version_chain go) = map dt_simulation (applied_traces go)"

interpretation version_history: governance_invariant versions_in_order
proof
  show "versions_in_order (initial_books users)" for users
    by (simp add: versions_in_order_def initial_books_def version_chain_def applied_traces_def)
  show "governance_move go go' \<Longrightarrow> numbered go \<Longrightarrow> versions_in_order go \<Longrightarrow> versions_in_order go'" for go go'
    by (induction rule: governance_move.induct)
      (simp_all add: versions_in_order_def written_books saved_books filed_books same_books_def split: if_splits)
qed

text \<open>
  C14: The history of the policy is complete: the versions are numbered one after the other from 2 on, the
  number of the policy is that of the latest, each version stores the limits of its change request
  and belongs to one applied decision of the same simulation, and the policy has the limits of the
  latest version, but for the three that the risk controls of the dashboard write without a version.
\<close>

theorem policy_history_complete:
  assumes "policy_reachable go"
  shows "map pv_number (go_versions go) = map (\<lambda>k. int k + 2) [0..<length (go_versions go)] \<and> go_version go = int (length (go_versions go)) + 1 \<and>
    same_but_controls (go_policy go) (if go_versions go = [] then default_limits_policy else pv_policy (last (go_versions go))) \<and>
    map (\<lambda>pv. (pv_policy pv, pv_simulation pv, pv_change pv)) (go_versions go) = map (\<lambda>ch. (ch_payload ch, ch_simulation ch, ch_id ch)) (go_changes go) \<and>
    map pv_simulation (go_versions go) = map dt_simulation (filter (\<lambda>dt. dt_state dt = ''applied'') (go_traces go))"
  using version_history.holds_reachable [OF assms]
  by (auto simp: versions_in_order_def version_chain_def applied_traces_def comp_def last_map split: if_splits)

section \<open>Settled requests\<close>

definition is_settled :: "string \<Rightarrow> bool" where
  "is_settled s \<longleftrightarrow> s \<in> {''approved'', ''rejected''}"

lemma saved_other: "j \<noteq> av_id av \<Longrightarrow> request_row j (save_request av go) = request_row j go"
  by (simp add: request_row_def save_request_def find_row_save)

lemma request_row_written [simp]: "request_row j (write_policy pc ps rule go) = request_row j go"
  by (simp add: request_row_def written_requests)

lemma request_row_policy [simp]: "request_row j (go\<lparr>go_policy := policy\<rparr>) = request_row j go"
  by (simp add: request_row_def)

lemma request_row_filed: "request_row j go = Some av \<Longrightarrow> request_row j (go\<lparr>go_requests := go_requests go @ rows\<rparr>) = Some av"
  by (simp add: request_row_def)

lemma request_row_book: "same_books go go' \<Longrightarrow> request_row j go' = request_row j go"
  by (simp add: same_books_def request_row_def)

text \<open>A settled row keeps what the decision rests on.\<close>

definition same_decision :: "approval_request \<Rightarrow> approval_request \<Rightarrow> bool" where
  "same_decision av av' \<longleftrightarrow> av_state av' = av_state av \<and> av_votes av' = av_votes av \<and> av_force av' = av_force av \<and> av_key av' = av_key av"

lemma move_settled:
  assumes "governance_move go go'" and "request_row j go = Some av" and "is_settled (av_state av)"
  shows "\<exists>av'. request_row j go' = Some av' \<and> same_decision av av'"
proof -
  have other: "request_row j (save_request b go1) = request_row j go1" if "request_row (av_id a) go = Some a" "same_request a b" "\<not> is_settled (av_state a)" for a b go1
  proof (rule saved_other)
    show "j \<noteq> av_id b" using that assms(2,3) by (auto simp: same_request_def)
  qed
  show ?thesis using assms(1)
  proof (cases rule: governance_move.cases)
    case (note_row a b)
    show ?thesis
    proof (cases "j = av_id a")
      case True
      then have "a = av" "av_id b = j" using note_row assms(2) by (auto simp: same_request_def)
      then show ?thesis using note_row assms(2) request_row_saved [of b go] by (auto simp: same_decision_def same_request_def)
    next
      case False
      then show ?thesis using note_row assms(2) saved_other [of j b go] by (auto simp: same_decision_def same_request_def)
    qed
  qed (use assms(2) other in \<open>auto simp: same_decision_def is_settled_def request_row_filed request_row_book\<close>)
qed

lemma moves_settled:
  assumes "moves go go'" and "request_row j go = Some av" and "is_settled (av_state av)"
  shows "\<exists>av'. request_row j go' = Some av' \<and> same_decision av av'"
  using assms
proof (induction rule: rtranclp_induct)
  case base
  then show ?case by (simp add: same_decision_def)
next
  case (step go1 go2)
  then obtain av1 where one: "request_row j go1 = Some av1" "same_decision av av1" by blast
  then have "is_settled (av_state av1)" using step.prems(2) by (simp add: same_decision_def)
  from move_settled [OF step.hyps(2) one(1) this] one(2) show ?case by (auto simp: same_decision_def)
qed

lemma steps_moves: "policy_steps go go' \<Longrightarrow> numbered go \<Longrightarrow> moves go go'"
proof (induction rule: policy_steps.induct)
  case (later go go1 go2)
  then show ?case using step_moves moves_numbered by (meson rtranclp_trans)
qed simp

text \<open>
  C15: A decision is final: in a state that is reachable, a request that is approved or rejected stays so,
  with the same votes, whatever happens afterwards.
\<close>

theorem decided_requests_stay:
  assumes "policy_reachable go" and "policy_steps go go'" and "request_row i go = Some av" and "av_state av \<in> {''approved'', ''rejected''}"
  shows "case request_row i go' of None \<Rightarrow> False | Some av' \<Rightarrow> av_state av' = av_state av \<and> av_votes av' = av_votes av"
proof -
  have "moves go go'" using assms(1,2) steps_moves reachable_moves by blast
  from moves_settled [OF this assms(3)] assms(4) show ?thesis by (auto simp: is_settled_def same_decision_def)
qed

section \<open>What stands behind an applied change\<close>

definition approved_by_quorum :: "policy_governance \<Rightarrow> string \<Rightarrow> bool" where
  "approved_by_quorum go key \<longleftrightarrow> list_ex (\<lambda>av. av_key av @ '':finalize'' = key \<and> av_state av = ''approved'' \<and> quorum_reached av) (go_requests go)"

definition approved_by_force :: "policy_governance \<Rightarrow> string \<Rightarrow> bool" where
  "approved_by_force go key \<longleftrightarrow> list_ex (\<lambda>av. av_key av @ '':force_apply'' = key \<and> av_state av = ''approved'' \<and> av_force av) (go_requests go)"

text \<open>
  What the tables keep of an applied decision and its change request: which class the change had, that
  a change with a warning was confirmed twice, and which approved request stands behind the others.
\<close>

definition justified :: "policy_governance \<Rightarrow> decision_trace_row \<Rightarrow> change_request \<Rightarrow> bool" where
  "justified go dt ch \<longleftrightarrow>
     (dt_rule dt = ''SAFE_DIRECT_APPLY'' \<and> dt_class dt = ''SAFE'' \<or>
      dt_rule dt = ''WARNING_DOUBLE_CONFIRM'' \<and> dt_class dt = ''WARNING'' \<and> ch_double ch \<or>
      dt_rule dt = ''CRITICAL_4_EYES_FINALIZE'' \<and> approved_by_quorum go (dt_key dt) \<or>
      dt_rule dt = ''FORCE_OVERRIDE_APPLY'' \<and> approved_by_force go (dt_key dt))"

lemma numbered_row: "numbered go \<Longrightarrow> av \<in> set (go_requests go) \<Longrightarrow> request_row (av_id av) go = Some av"
proof -
  assume "numbered go" and av: "av \<in> set (go_requests go)"
  then have "distinct (map av_id (go_requests go))" by (simp add: numbered_def distinct_map inj_on_def)
  then show ?thesis unfolding request_row_def using av by (rule find_row_unique)
qed

lemma row_in_requests: "request_row i go = Some av \<Longrightarrow> av \<in> set (go_requests go)"
  unfolding request_row_def by (rule find_row_in)

lemma decision_kept:
  assumes "governance_move go go'" and "numbered go" and "av \<in> set (go_requests go)" and "av_state av = ''approved''"
  shows "\<exists>av' \<in> set (go_requests go'). same_decision av av'"
proof -
  have "request_row (av_id av) go = Some av" using assms(2,3) by (rule numbered_row)
  from move_settled [OF assms(1) this] assms(4) show ?thesis using row_in_requests by (fastforce simp: is_settled_def)
qed

lemma approval_kept:
  assumes "governance_move go go'" and "numbered go"
  shows "approved_by_quorum go key \<Longrightarrow> approved_by_quorum go' key" and "approved_by_force go key \<Longrightarrow> approved_by_force go' key"
proof -
  show "approved_by_quorum go key \<Longrightarrow> approved_by_quorum go' key"
  proof -
    assume "approved_by_quorum go key"
    then obtain av where av: "av \<in> set (go_requests go)" "av_key av @ '':finalize'' = key" "av_state av = ''approved''" "quorum_reached av"
      by (auto simp: approved_by_quorum_def list_ex_iff)
    then obtain av' where "av' \<in> set (go_requests go')" "same_decision av av'" using decision_kept [OF assms] by blast
    with av(2-4) show "approved_by_quorum go' key"
      by (auto simp: approved_by_quorum_def list_ex_iff same_decision_def quorum_reached_def intro!: bexI [of _ av'])
  qed
  show "approved_by_force go key \<Longrightarrow> approved_by_force go' key"
  proof -
    assume "approved_by_force go key"
    then obtain av where av: "av \<in> set (go_requests go)" "av_key av @ '':force_apply'' = key" "av_state av = ''approved''" "av_force av"
      by (auto simp: approved_by_force_def list_ex_iff)
    then obtain av' where "av' \<in> set (go_requests go')" "same_decision av av'" using decision_kept [OF assms] by blast
    with av(2-4) show "approved_by_force go' key"
      by (auto simp: approved_by_force_def list_ex_iff same_decision_def intro!: bexI [of _ av'])
  qed
qed

lemma justified_kept: "governance_move go go' \<Longrightarrow> numbered go \<Longrightarrow> justified go dt ch \<Longrightarrow> justified go' dt ch"
  using approval_kept [of go go' "dt_key dt"] unfolding justified_def by blast

definition all_justified :: "policy_governance \<Rightarrow> bool" where
  "all_justified go \<longleftrightarrow> list_all2 (justified go) (applied_traces go) (go_changes go)"

lemma saved_in_requests: "request_row (av_id av) go = Some av0 \<Longrightarrow> av_id av' = av_id av \<Longrightarrow> av' \<in> set (go_requests (save_request av' go))"
  using row_in_requests [of "av_id av'" "save_request av' go" av'] request_row_saved [of av' go] by simp

lemma approval_justified:
  assumes "request_row (av_id av) go = Some av" "same_request av av'" "av_state av' = ''approved''" "dt_key dt = call_key pc"
    and "quorum_reached av' \<and> call_key pc = av_key av @ '':finalize'' \<and> dt_rule dt = ''CRITICAL_4_EYES_FINALIZE'' \<or>
      av_force av' \<and> call_key pc = av_key av @ '':force_apply'' \<and> dt_rule dt = ''FORCE_OVERRIDE_APPLY''"
  shows "justified (save_request av' (write_policy pc ps rule go)) dt ch"
proof -
  have "av' \<in> set (go_requests (save_request av' (write_policy pc ps rule go)))"
    using saved_in_requests [of av "write_policy pc ps rule go" av av'] assms(1,2) by (simp add: same_request_def)
  moreover have "av_key av' = av_key av" using assms(2) by (simp add: same_request_def)
  ultimately show ?thesis
    using assms(3-5) unfolding justified_def approved_by_quorum_def approved_by_force_def list_ex_iff by metis
qed

lemma move_justified:
  assumes "governance_move go go'" and "numbered go" and "all_justified go"
  shows "all_justified go'"
proof -
  have old: "list_all2 (justified go') (applied_traces go) (go_changes go)"
    using assms(3) justified_kept [OF assms(1,2)] unfolding all_justified_def by (rule list_all2_mono)
  have same: "all_justified go'" if "applied_traces go' = applied_traces go" "go_changes go' = go_changes go"
    using old that by (simp add: all_justified_def)
  show ?thesis using assms(1)
  proof (cases rule: governance_move.cases)
    case (direct ps pc)
    have "justified go' dt ch" if "dt_class dt = ps_class ps" "dt_rule dt = af_rule (approval_flow_of (ps_class ps))" "ch_double ch = pc_double pc" for dt ch
      using direct(4,5) that by (auto simp: justified_def approval_flow_of_def)
    then show ?thesis using old direct(1) by (simp add: all_justified_def written_books list_all2_appendI)
  next
    case (finalize av av' ps pc)
    have "justified go' dt ch" if "dt_key dt = call_key pc" "dt_rule dt = ''CRITICAL_4_EYES_FINALIZE''" for dt ch
      using approval_justified [OF finalize(2,3,5) that(1)] finalize that(2) by simp
    then show ?thesis using old finalize(1) by (simp add: all_justified_def written_books saved_books list_all2_appendI)
  next
    case (force av av' ps pc)
    have "justified go' dt ch" if "dt_key dt = call_key pc" "dt_rule dt = ''FORCE_OVERRIDE_APPLY''" for dt ch
      using approval_justified [OF force(2,3,5) that(1)] force that(2) by simp
    then show ?thesis using old force(1) by (simp add: all_justified_def written_books saved_books list_all2_appendI)
  qed (use same in \<open>simp_all add: saved_books filed_books same_books_def\<close>)
qed

interpretation justified_changes: governance_invariant all_justified
  by unfold_locales (simp_all add: all_justified_def initial_books_def applied_traces_def move_justified [unfolded all_justified_def applied_traces_def])

text \<open>Every applied decision in the tables has its class, its double confirmation or its approved request.\<close>

lemma applied_decisions_justified:
  "policy_reachable go \<Longrightarrow> list_all2 (justified go) (filter (\<lambda>dt. dt_state dt = ''applied'') (go_traces go)) (go_changes go)"
  using justified_changes.holds_reachable by (simp add: all_justified_def applied_traces_def)

section \<open>Who may change the limits\<close>

text \<open>The simulated change \<open>ps\<close> becomes the policy, with a version of its own.\<close>

definition adopts :: "policy_simulation \<Rightarrow> policy_governance \<Rightarrow> policy_governance \<Rightarrow> bool" where
  "adopts ps go go' \<longleftrightarrow> ps_baseline ps = go_version go \<and> go_policy go' = ps_candidate ps \<and> go_version go' = go_version go + 1 \<and>
     map pv_policy (go_versions go') = map pv_policy (go_versions go) @ [ps_candidate ps]"

definition small_change :: "apply_call \<Rightarrow> policy_simulation \<Rightarrow> bool" where
  "small_change pc ps \<longleftrightarrow> ps_class ps = ''SAFE'' \<or> ps_class ps = ''WARNING'' \<and> pc_double pc"

definition vote_completes :: "string \<Rightarrow> string \<Rightarrow> approval_request \<Rightarrow> bool" where
  "vote_completes actor role av \<longleftrightarrow>
     av_state av = ''assigned'' \<and> actor \<noteq> av_by av \<and> actor \<notin> set (map gt_actor (av_votes av)) \<and>
     (get_or (av_assigned av) [] \<in> {[], actor} \<or> role = ''super_admin'') \<and>
     3 \<le> sum_list (map gt_weight (av_votes av)) + (if role = ''super_admin'' then 2 else 1) \<and>
     2 \<le> card (insert actor (set (map gt_actor (av_votes av))) - {[]})"

text \<open>What a call that changes the policy or its version needs, and what it makes of them.\<close>

fun authorised :: "policy_call \<Rightarrow> policy_governance \<Rightarrow> policy_governance \<Rightarrow> bool" where
  "authorised (Call_Apply now pc) go go' =
     (case find_row ps_id (pc_simulation pc) (go_simulations go) of None \<Rightarrow> False | Some ps \<Rightarrow> small_change pc ps \<and> adopts ps go go')"
| "authorised (Call_Apply_Revert now i pc) go go' =
     (case find_row pv_id i (go_versions go) of None \<Rightarrow> False | Some pv \<Rightarrow>
       (case find_row ps_id (pc_simulation pc) (go_simulations go) of None \<Rightarrow> False
        | Some ps \<Rightarrow> ps_candidate ps = pv_policy pv \<and> small_change pc ps \<and> adopts ps go go'))"
| "authorised (Call_Approve now i actor role) go go' =
     (case request_row i (expire_stale now go) of None \<Rightarrow> False | Some av \<Rightarrow>
       (case find_row ps_id (av_simulation av) (go_simulations go) of None \<Rightarrow> False
        | Some ps \<Rightarrow> vote_completes actor role av \<and> adopts ps go go'))"
| "authorised (Call_Force now i actor role) go go' =
     (case request_row i (expire_stale now go) of None \<Rightarrow> False | Some av \<Rightarrow>
       (case find_row ps_id (av_simulation av) (go_simulations go) of None \<Rightarrow> False
        | Some ps \<Rightarrow> role = ''super_admin'' \<and> av_state av = ''expired'' \<and> adopts ps go go'))"
| "authorised (Call_Controls role cq) go go' =
     (role \<in> {''super_admin'', ''admin''} \<and> upper (strip (cq_phrase cq)) = ''UPDATE RISK CONTROLS'' \<and> go_version go' = go_version go \<and>
      cq_max_loss cq \<in> {1 / 10..100} \<and> {cq_account cq, cq_symbol cq} \<subseteq> {1..100} \<and>
      go_policy go' = (go_policy go)\<lparr>lp_daily_loss := cq_max_loss cq, lp_account_pct := cq_account cq, lp_symbol_pct := cq_symbol cq\<rparr>)"
| "authorised _ go go' = False"

text \<open>The operations on a request leave the policy, its versions and the simulations alone.\<close>

definition same_limits :: "policy_governance \<Rightarrow> policy_governance \<Rightarrow> bool" where
  "same_limits go go' \<longleftrightarrow> go_policy go' = go_policy go \<and> go_version go' = go_version go \<and> go_simulations go' = go_simulations go \<and>
     map pv_policy (go_versions go') = map pv_policy (go_versions go)"

lemma same_limits_simps [simp]:
  "same_limits go go" "same_limits go (save_request av go') = same_limits go go'"
  "same_limits go (add_trace key flow sim cls rule state go') = same_limits go go'"
  "same_limits go (go'\<lparr>go_requests := rows\<rparr>) = same_limits go go'"
  by (simp_all add: same_limits_def save_request_def add_trace_def)

lemma same_limits_trans: "same_limits a b \<Longrightarrow> same_limits b c \<Longrightarrow> same_limits a c"
  by (simp add: same_limits_def)

lemma assign_limits: "same_limits go (snd (assign_request now av who auto over go))"
  unfolding assign_request_def Let_def by (auto split: sum.split)

lemma ensure_limits: "same_limits go (snd (ensure_owner now av go))"
proof -
  have "same_limits go go1" if "assign_request now av x True True go = (r, go1)" for x r go1
    using assign_limits [of go now av x True True] that by simp
  then show ?thesis unfolding ensure_owner_def Let_def by (auto split: option.split prod.split sum.split)
qed

lemma expire_limits: "same_limits go (expire_request now av go)"
proof -
  obtain av1 go1 where e: "(if av_state av = ''pending'' then ensure_owner now av go else (av, go)) = (av1, go1)" by fastforce
  then have "same_limits go go1" using ensure_limits [of go now av] by (auto split: if_splits)
  then show ?thesis unfolding expire_request_def Let_def e by (auto split: sum.split)
qed

lemma escalate_limits: "same_limits go (escalate_request now av go)"
proof -
  obtain av1 go1 where e: "ensure_owner now av go = (av1, go1)" by fastforce
  then have "same_limits go go1" using ensure_limits [of go now av] by simp
  then show ?thesis unfolding escalate_request_def Let_def e by simp
qed

lemma each_limits:
  assumes "\<And>av go. same_limits go (f av go)"
  shows "same_limits go (each_request f rows go)"
  unfolding each_request_def
proof (induction rows arbitrary: go)
  case (Cons row rows)
  have "same_limits go (case request_row (av_id row) go of None \<Rightarrow> go | Some av \<Rightarrow> f av go)" using assms by (simp split: option.split)
  then show ?case using Cons.IH same_limits_trans by fastforce
qed simp

lemma expire_stale_limits: "same_limits go (expire_stale now go)"
  unfolding expire_stale_def by (intro each_limits expire_limits)

lemma apply_limits:
  assumes "apply_policy_from_simulation now pc go = (r, go')" and "\<not> same_limits go go'"
  shows "case find_row ps_id (pc_simulation pc) (go_simulations go) of None \<Rightarrow> False
    | Some ps \<Rightarrow> adopts ps go go' \<and> \<not> af_second (flow_of_mode (pc_mode pc) (ps_class ps)) \<and>
        (af_double (flow_of_mode (pc_mode pc) (ps_class ps)) \<longrightarrow> pc_double pc)"
  using assms(1)
proof (cases rule: apply_cases)
  case (filed ps pa)
  let ?in = "go\<lparr>go_requests := go_requests go @ [new_request now pc ps go]\<rparr>"
  let ?go1 = "add_trace (call_key pc) (pc_flow pc) (ps_id ps) (ps_class ps) ''CRITICAL_PENDING_4_EYES'' ''pending'' ?in"
  have "go' = snd (ensure_owner now (new_request now pc ps go) ?go1)"
    using filed(3) by (auto simp: request_approval_def Let_def split: prod.splits)
  moreover have "same_limits go ?go1" by simp
  ultimately have "same_limits go go'" using ensure_limits same_limits_trans by blast
  then show ?thesis using assms(2) by simp
next
  case (written ps pa)
  then show ?thesis by (simp add: adopts_def write_policy_def add_trace_def)
qed (use assms(2) in simp_all)

abbreviation changes_limits :: "policy_governance \<Rightarrow> policy_governance \<Rightarrow> bool" where
  "changes_limits go go' \<equiv> (go_policy go', go_version go') \<noteq> (go_policy go, go_version go)"

lemma limits_changed: "changes_limits go go' \<Longrightarrow> \<not> same_limits go go'"
  by (auto simp: same_limits_def)

lemma adopts_limits: "same_limits go go1 \<Longrightarrow> same_limits go2 go3 \<Longrightarrow> adopts ps go1 go2 \<Longrightarrow> adopts ps go go3"
  by (simp add: same_limits_def adopts_def)

lemma normal_limits:
  assumes "apply_policy_from_simulation now pc go = (r, go')" and "changes_limits go go'" and "pc_mode pc = Normal"
  shows "case find_row ps_id (pc_simulation pc) (go_simulations go) of None \<Rightarrow> False | Some ps \<Rightarrow> small_change pc ps \<and> adopts ps go go'"
  using apply_limits [OF assms(1) limits_changed [OF assms(2)]] assms(3)
  by (auto simp: flow_of_mode_def approval_flow_of_def small_change_def split: option.splits if_splits)

lemma simulate_policy_kept:
  "go_policy (snd (simulate_policy_change ge candidate go)) = go_policy go" "go_version (snd (simulate_policy_change ge candidate go)) = go_version go"
  using books_simulate [of go ge candidate] by (simp_all add: same_books_def)

lemma escalations_limits: "same_limits go (process_approval_escalations now go)"
  unfolding process_approval_escalations_def Let_def
  by (rule same_limits_trans [OF expire_stale_limits each_limits]) (rule escalate_limits)

lemma reject_limits: "same_limits go (snd (reject_request now i actor role go))"
  using expire_stale_limits [of go now] unfolding reject_request_def Let_def by (auto split: option.split sum.split)

lemma assign_policy_limits: "same_limits go (snd (assign_policy_request now i assignee auto go))"
proof -
  have a: "same_limits go (snd (assign_request now av who auto' over (expire_stale now go)))" for av who auto' over
    by (rule same_limits_trans [OF expire_stale_limits assign_limits])
  have e: "same_limits go (snd (ensure_owner now av (expire_stale now go)))" for av
    by (rule same_limits_trans [OF expire_stale_limits ensure_limits])
  have e': "same_limits go go2" if "ensure_owner now av (expire_stale now go) = (av1, go2)" for av av1 go2
    using e [of av] that by simp
  show ?thesis unfolding assign_policy_request_def Let_def
    using a expire_stale_limits [of go now] by (auto split: option.split prod.split intro: e')
qed

lemma finalize_limits:
  assumes "finalize_request now av go = (r, go')" and "changes_limits go go'"
  shows "case find_row ps_id (av_simulation av) (go_simulations go) of None \<Rightarrow> False | Some ps \<Rightarrow> adopts ps go go'"
proof -
  obtain r1 go1 where ap: "apply_policy_from_simulation now (finalize_call av) go = (r1, go1)" by fastforce
  have "go' = go \<or> same_limits go1 go'"
    using assms(1) ap by (auto simp: finalize_request_def split: sum.splits if_splits)
  then have same: "same_limits go1 go'" using assms(2) by auto
  then have "\<not> same_limits go go1" using limits_changed [OF assms(2)] same_limits_trans by blast
  from apply_limits [OF ap this] show ?thesis using adopts_limits [OF same_limits_simps(1) same] by (auto split: option.splits)
qed

lemma approve_limits:
  assumes "changes_limits go (snd (approve_request now i actor role go))"
  shows "authorised (Call_Approve now i actor role) go (snd (approve_request now i actor role go))"
proof -
  let ?go1 = "expire_stale now go" and ?go' = "snd (approve_request now i actor role go)"
  have start: "same_limits go ?go1" by (rule expire_stale_limits)
  obtain av where av: "request_row i ?go1 = Some av"
    using assms start by (cases "request_row i ?go1") (auto simp: approve_request_def same_limits_def)
  have free: "decision_error actor role av = None"
    using assms start av by (cases "decision_error actor role av") (auto simp: approve_request_def same_limits_def)
  have first: "actor \<notin> set (map gt_actor (av_votes av))"
    using assms start av free by (auto simp: approve_request_def same_limits_def save_request_def Let_def)
  let ?av1 = "voted now actor role av"
  have quorum: "quorum_reached ?av1"
  proof (rule ccontr)
    assume "\<not> quorum_reached ?av1"
    then have "same_limits go ?go'" using av free first start by (simp add: approve_request_def Let_def)
    then show False using limits_changed [OF assms] by simp
  qed
  then have go': "?go' = snd (finalize_request now ?av1 ?go1)" using av free first by (simp add: approve_request_def Let_def)
  have "changes_limits ?go1 (snd (finalize_request now ?av1 ?go1))" using assms start unfolding go' by (simp add: same_limits_def)
  from finalize_limits [OF prod.collapse [symmetric] this] obtain ps where
    ps: "find_row ps_id (av_simulation av) (go_simulations go) = Some ps" "adopts ps ?go1 ?go'"
    using start by (auto simp: go' voted_def same_limits_def split: option.splits)
  then have "adopts ps go ?go'" using adopts_limits [OF start same_limits_simps(1)] by simp
  moreover have "vote_completes actor role av"
  proof -
    have "2 \<le> card (set (filter (\<lambda>a. a \<noteq> []) (map gt_actor (av_votes ?av1))))"
      using quorum by (simp only: quorum_reached_def MIN_DISTINCT_APPROVERS_def length_remdups_card_conv)
    moreover have "set (filter (\<lambda>a. a \<noteq> []) (map gt_actor (av_votes ?av1))) = insert actor (set (map gt_actor (av_votes av))) - {[]}"
      by (auto simp: voted_def)
    moreover have "role_weight role \<le> (if role = ''super_admin'' then 2 else 1)"
      by (simp add: role_weight_def GOVERNANCE_ROLE_WEIGHTS_def)
    moreover have "3 \<le> sum_list (map gt_weight (av_votes av)) + role_weight role"
      using quorum by (simp add: quorum_reached_def QUORUM_WEIGHT_def voted_def)
    ultimately show ?thesis
      using free first unfolding vote_completes_def decision_error_def by (auto split: if_splits)
  qed
  ultimately show ?thesis using av ps(1) by simp
qed

lemma force_limits:
  assumes "changes_limits go (snd (force_apply_request now i actor role go))"
  shows "authorised (Call_Force now i actor role) go (snd (force_apply_request now i actor role go))"
proof -
  let ?go1 = "expire_stale now go" and ?go' = "snd (force_apply_request now i actor role go)"
  have start: "same_limits go ?go1" by (rule expire_stale_limits)
  have super: "role = ''super_admin''" using assms by (cases "role = ''super_admin''") (simp_all add: force_apply_request_def)
  obtain av where av: "request_row i ?go1 = Some av"
    using assms start super by (cases "request_row i ?go1") (auto simp: force_apply_request_def same_limits_def)
  have state: "av_state av = ''expired''"
    using assms start super av by (cases "av_state av = ''expired''") (auto simp: force_apply_request_def same_limits_def Let_def)
  obtain r1 go2 where ap: "apply_policy_from_simulation now (force_call av) ?go1 = (r1, go2)" by fastforce
  obtain av1 where t: "transition_approval_state now ''approved'' True (av\<lparr>av_force := True\<rparr>) = Inr av1"
    using approved_of [of "av\<lparr>av_force := True\<rparr>" True now] state by auto
  have "?go' = ?go1 \<or> same_limits go2 ?go'"
    using super av state ap t by (auto simp: force_apply_request_def Let_def split: sum.split)
  then have same: "same_limits go2 ?go'" using limits_changed [OF assms] start by auto
  have "\<not> same_limits ?go1 go2"
    using limits_changed [OF assms] same_limits_trans [OF start] same_limits_trans [OF _ same] by blast
  from apply_limits [OF ap this] obtain ps where
    ps: "find_row ps_id (av_simulation av) (go_simulations go) = Some ps" "adopts ps ?go1 go2"
    using start by (auto simp: same_limits_def split: option.splits)
  then show ?thesis using adopts_limits [OF start same] super av state by simp
qed

lemma revert_limits:
  assumes "changes_limits go (snd (apply_revert now i pc go))"
  shows "authorised (Call_Apply_Revert now i pc) go (snd (apply_revert now i pc go))"
proof -
  let ?pc = "pc\<lparr>pc_flow := ''revert'', pc_mode := Normal\<rparr>" and ?go' = "snd (apply_revert now i pc go)"
  obtain pv where pv: "find_row pv_id i (go_versions go) = Some pv"
    using assms by (cases "find_row pv_id i (go_versions go)") (auto simp: apply_revert_def)
  obtain ps where ps: "find_row ps_id (pc_simulation pc) (go_simulations go) = Some ps"
    using assms pv by (cases "find_row ps_id (pc_simulation pc) (go_simulations go)") (auto simp: apply_revert_def)
  have payload: "ps_candidate ps = pv_policy pv"
    using assms pv ps by (cases "ps_candidate ps = pv_policy pv") (auto simp: apply_revert_def)
  obtain r go1 where ap: "apply_policy_from_simulation now ?pc go = (r, go1)" by fastforce
  have "?go' \<in> {go1, mark_reverted i go1}"
    using pv ps payload ap by (auto simp: apply_revert_def split: sum.split)
  moreover have "same_limits go1 (mark_reverted i go1)"
    by (cases "go_versions go1" rule: rev_cases) (simp_all add: mark_reverted_def same_limits_def)
  ultimately have same: "same_limits go1 ?go'" by auto
  then have "changes_limits go go1" using assms by (simp add: same_limits_def)
  from normal_limits [OF ap this] ps have "small_change pc ps" "adopts ps go go1"
    by (simp_all add: small_change_def)
  then show ?thesis using pv ps payload adopts_limits [OF same_limits_simps(1) same] by simp
qed

lemma controls_limits:
  assumes "changes_limits go (snd (update_risk_controls role cq go))"
  shows "authorised (Call_Controls role cq) go (snd (update_risk_controls role cq go))"
proof -
  have "controls_valid cq \<and> role \<in> set MANAGER_ROLES \<and> upper (strip (cq_phrase cq)) = RISK_CONTROL_PHRASE"
    using assms by (auto simp: update_risk_controls_def Let_def split: if_splits)
  then show ?thesis by (simp add: update_risk_controls_def Let_def controls_valid_def MANAGER_ROLES_def RISK_CONTROL_PHRASE_def)
qed

text \<open>
  C9: Nobody changes the limits without authority, and these are all the ways to do it. If a call changes the
  policy or its version, then it applies a simulation of the current version, or a revert to the
  limits of an earlier version, that is safe, or has a warning and is confirmed twice; or it is the
  vote that completes a quorum, of weight three and by two people, on an assigned request, by somebody
  who neither asked for the change nor voted before and who owns the request or is a super
  administrator; or a super administrator forces a request that has expired; and then the policy is
  the simulated one and a version records it. The only other way are the risk controls, by which an
  administrator writes three limits, within bounds, without approval or version.
\<close>

theorem limits_change_with_authority:
  assumes "(go_policy (run_call c go), go_version (run_call c go)) \<noteq> (go_policy go, go_version go)"
  shows "authorised c go (run_call c go)"
proof (cases c)
  case (Call_Apply now pc)
  let ?pc = "pc\<lparr>pc_flow := ''apply'', pc_mode := Normal\<rparr>"
  obtain r go' where ap: "apply_policy_from_simulation now ?pc go = (r, go')" by fastforce
  then have "changes_limits go go'" using assms Call_Apply by simp
  from normal_limits [OF ap this] ap Call_Apply show ?thesis by (auto simp: small_change_def split: option.splits)
next
  case (Call_Simulate_Revert ge i)
  have False using assms simulate_policy_kept
    by (auto simp: Call_Simulate_Revert simulate_revert_def Let_def split: option.splits prod.splits) (metis snd_conv)+
  then show ?thesis ..
next
  case (Call_Escalate now)
  then show ?thesis using assms limits_changed [OF assms] escalations_limits by simp
next
  case (Call_Reject now i actor role)
  then show ?thesis using assms limits_changed [OF assms] reject_limits by simp
next
  case (Call_Assign now i assignee auto)
  then show ?thesis using assms limits_changed [OF assms] assign_policy_limits by simp
next
  case (Call_Approve now i actor role)
  then show ?thesis using approve_limits assms by simp
next
  case (Call_Force now i actor role)
  then show ?thesis using force_limits assms by simp
next
  case (Call_Apply_Revert now i pc)
  then show ?thesis using revert_limits assms by simp
next
  case (Call_Controls role cq)
  then show ?thesis using controls_limits assms by simp
qed (use assms in \<open>simp_all add: simulate_policy_kept\<close>)

section \<open>Overdue requests expire\<close>

text \<open>An operation on a row leaves the others alone.\<close>

lemma assign_other:
  assumes "j \<noteq> av_id av"
  shows "request_row j (snd (assign_request now av who auto over go)) = request_row j go"
proof -
  let ?av = "av\<lparr>av_assigned := Some who, av_assigned_at := now, av_auto := auto\<rparr>"
  have "request_row j (snd (case transition_approval_state now ''assigned'' False ?av of Inl e \<Rightarrow> (Inl e, go) | Inr av2 \<Rightarrow> (Inr av2, save_request av2 go))) = request_row j go"
  proof (cases "transition_approval_state now ''assigned'' False ?av")
    case (Inr av2)
    then have "av_id av2 = av_id av" using transition_cases [OF Inr] by (simp add: same_request_def)
    then show ?thesis using Inr assms by (simp add: saved_other)
  qed simp
  moreover have "request_row j (save_request (append_request_log (Some ''assigned'') ''assigned'' (?av\<lparr>av_active_at := now\<rparr>)) go) = request_row j go"
    by (rule saved_other) (simp add: assms append_request_log_def Let_def)
  ultimately show ?thesis unfolding assign_request_def Let_def by simp
qed

lemma ensure_other: "j \<noteq> av_id av \<Longrightarrow> request_row j (snd (ensure_owner now av go)) = request_row j go"
proof -
  assume j: "j \<noteq> av_id av"
  have "request_row j (snd (case assign_request now av x True True go of (Inl e, go1) \<Rightarrow> (av, go1) | (Inr av1, go1) \<Rightarrow> (av1, go1))) = request_row j go" for x
    using assign_other [OF j, of now x True True go] by (cases "assign_request now av x True True go") (auto split: sum.split)
  then show ?thesis unfolding ensure_owner_def Let_def by (simp split: option.split)
qed

lemma ensure_id: "request_row (av_id av) go = Some av \<Longrightarrow> av_id (fst (ensure_owner now av go)) = av_id av"
  using ensure_owned [of av go now "fst (ensure_owner now av go)" "snd (ensure_owner now av go)"] by (simp add: owned_def same_request_def)

lemma expire_other:
  assumes "request_row (av_id av) go = Some av" and "j \<noteq> av_id av"
  shows "request_row j (expire_request now av go) = request_row j go"
proof -
  let ?s = "if av_state av = ''pending'' then ensure_owner now av go else (av, go)"
  have pre: "av_id (fst ?s) = av_id av" "request_row j (snd ?s) = request_row j go"
    using ensure_id [OF assms(1)] ensure_other [OF assms(2)] by simp_all
  have eq: "expire_request now av go = (case transition_approval_state now ''expired'' False (fst ?s) of Inl _ \<Rightarrow> snd ?s
      | Inr av2 \<Rightarrow> save_request (av2\<lparr>av_trace := Some (fresh_id ''ro-trace-'' (snd ?s))\<rparr>)
          (add_trace (av_key av2) (av_flow av2) (av_simulation av2) (av_class av2) ''FORCED_AUTO_REJECT_SLA_BREACH'' ''expired'' (snd ?s)))"
    by (simp add: expire_request_def Let_def case_prod_beta)
  show ?thesis
  proof (cases "transition_approval_state now ''expired'' False (fst ?s)")
    case (Inr av2)
    then have "av_id av2 = av_id (fst ?s)" using transition_cases [OF Inr] by (simp add: same_request_def)
    with pre assms(2) have "j \<noteq> av_id (av2\<lparr>av_trace := Some (fresh_id ''ro-trace-'' (snd ?s))\<rparr>)" by simp
    then show ?thesis unfolding eq Inr sum.case using pre(2) by (simp only: saved_other request_row_add_trace not_False_eq_True)
  qed (simp only: eq sum.case pre)
qed

lemma escalate_other:
  assumes "request_row (av_id av) go = Some av" and "j \<noteq> av_id av"
  shows "request_row j (escalate_request now av go) = request_row j go"
  using ensure_id [OF assms(1), of now] ensure_other [OF assms(2), of now go] assms(2)
  by (auto simp: escalate_request_def Let_def saved_other split: prod.splits)

lemma each_other:
  assumes "\<And>av go. request_row (av_id av) go = Some av \<Longrightarrow> j \<noteq> av_id av \<Longrightarrow> request_row j (f av go) = request_row j go"
    and "j \<notin> av_id ` set rows"
  shows "request_row j (each_request f rows go) = request_row j go"
  using assms(2) unfolding each_request_def
proof (induction rows arbitrary: go)
  case (Cons row rows)
  have "request_row j (case request_row (av_id row) go of None \<Rightarrow> go | Some av \<Rightarrow> f av go) = request_row j go"
  proof (cases "request_row (av_id row) go")
    case (Some av)
    then have "av_id av = av_id row" by (rule find_row_id)
    then show ?thesis using Some assms(1) [of av go] Cons.prems by simp
  qed simp
  with Cons show ?case by simp
qed simp

lemma expire_assigned:
  assumes "request_row (av_id av) go = Some av" and "av_state av = ''assigned''"
  shows "\<exists>av'. request_row (av_id av) (expire_request now av go) = Some av' \<and> av_state av' = ''expired''"
proof -
  obtain av2 where t: "transition_approval_state now ''expired'' False av = Inr av2" using assms(2) by (simp add: transition_approval_state_def)
  from transition_cases [OF t] have "av_id av2 = av_id av" "av_state av2 = ''expired''" by (simp_all add: same_request_def)
  then show ?thesis using t assms request_row_saved [of "av2\<lparr>av_trace := Some (fresh_id ''ro-trace-'' go)\<rparr>"]
    by (simp add: expire_request_def Let_def)
qed

lemma expired_after:
  assumes num: "numbered go" and row: "request_row i go = Some av" "av_state av = ''assigned''" "av_expires av \<le> now"
  shows "\<exists>av'. request_row i (expire_stale now go) = Some av' \<and> av_state av' = ''expired''"
proof -
  let ?rows = "filter (request_due now) (go_requests go)"
  have i: "av_id av = i" and mem: "av \<in> set ?rows" using row find_row_id row_in_requests by (auto simp: request_due_def is_open_state_def)
  then obtain xs ys where split: "?rows = xs @ av # ys" by (meson split_list)
  have "distinct (map av_id (go_requests go))" using num by (simp add: numbered_def distinct_map inj_on_def)
  then have "distinct (map av_id ?rows)" by (rule distinct_map_filter)
  then have out: "i \<notin> av_id ` set xs" "i \<notin> av_id ` set ys" using i by (auto simp: split)
  let ?a = "each_request (expire_request now) xs go"
  have a: "request_row i ?a = Some av" using each_other [OF expire_other out(1)] row(1) by simp
  obtain av' where b: "request_row i (expire_request now av ?a) = Some av'" "av_state av' = ''expired''"
    using expire_assigned [of av ?a now] a i row(2) by auto
  have "expire_stale now go = each_request (expire_request now) ys (expire_request now av ?a)"
    using a i by (simp add: expire_stale_def each_request_def split)
  then show ?thesis using each_other [OF expire_other out(2)] b by simp
qed

text \<open>
  C32: No assigned request outlives its term: the periodic run expires every request that is assigned and
  past its ten minutes, and leaves it expired.
\<close>

theorem overdue_requests_expire:
  assumes "policy_reachable go" and "request_row i go = Some av" and "av_state av = ''assigned''" and "av_expires av \<le> now"
  shows "case request_row i (process_approval_escalations now go) of None \<Rightarrow> False | Some av' \<Rightarrow> av_state av' = ''expired''"
proof -
  let ?go1 = "expire_stale now go"
  have num: "numbered go" using assms(1) reachable_moves by blast
  obtain av' where e: "request_row i ?go1 = Some av'" "av_state av' = ''expired''" using expired_after [OF num assms(2-4)] by blast
  have "i \<notin> av_id ` set (filter (\<lambda>av. is_open_state (av_state av) \<and> av_class av = ''CRITICAL'') (go_requests ?go1))"
  proof
    assume "i \<in> av_id ` set (filter (\<lambda>av. is_open_state (av_state av) \<and> av_class av = ''CRITICAL'') (go_requests ?go1))"
    then obtain b where b: "b \<in> set (go_requests ?go1)" "is_open_state (av_state b)" "av_id b = i" by auto
    have "numbered ?go1" by (rule moves_numbered [OF moves_expire_stale num])
    from numbered_row [OF this b(1)] b(2,3) e show False by (simp add: is_open_state_def)
  qed
  from each_other [OF escalate_other this] e show ?thesis by (simp add: process_approval_escalations_def Let_def)
qed

section \<open>Where the four eyes are evaded\<close>

text \<open>
  C36: A super administrator needs nobody: once a critical request has expired he may force it, and
  nothing compares him with the requester, so the change he asked for himself is applied by him alone.
\<close>

theorem requester_forces_own_change:
  assumes "request_row i (expire_stale now go) = Some av" and "av_state av = ''expired''"
    and "find_row ps_id (av_simulation av) (go_simulations (expire_stale now go)) = Some ps" and "ps_baseline ps = go_version (expire_stale now go)"
    and "list_all (\<lambda>r. av_key r \<noteq> av_key av @ '':force_apply'') (go_requests (expire_stale now go))"
    and "list_all (\<lambda>dt. dt_key dt \<noteq> av_key av @ '':force_apply'') (go_traces (expire_stale now go))"
  shows "go_policy (snd (force_apply_request now i (av_by av) ''super_admin'' go)) = ps_candidate ps"
proof -
  let ?go1 = "expire_stale now go"
  have none: "find (\<lambda>r. av_key r = call_key (force_call av)) (go_requests ?go1) = None"
    "find (\<lambda>dt. dt_key dt = call_key (force_call av)) (rev (go_traces ?go1)) = None"
    using assms(5,6) by (auto simp: find_None_iff call_key_special list_all_iff)
  have flow: "flow_of_mode Force c = \<lparr>af_double = False, af_second = False, af_blocked = False, af_rule = ''FORCE_OVERRIDE_APPLY''\<rparr>" for c
    by (simp add: flow_of_mode_def)
  have "apply_policy_from_simulation now (force_call av) ?go1 = apply_fresh now (force_call av) ps ?go1"
    unfolding apply_policy_from_simulation_def request_replay_def trace_replay_def special_fields assms(3) none by simp
  also have "\<dots> = (Inr \<lparr>pa_status = ''applied'', pa_applied = True, pa_trace = Some (fresh_id ''ro-trace-'' ?go1), pa_message = ''policy_applied''\<rparr>,
      write_policy (force_call av) ps ''FORCE_OVERRIDE_APPLY'' ?go1)"
    unfolding apply_fresh_def Let_def special_fields flow using assms(4) by (simp add: force_call_def)
  finally have ap: "apply_policy_from_simulation now (force_call av) ?go1 = \<dots>" .
  obtain av1 where t: "transition_approval_state now ''approved'' True (av\<lparr>av_force := True\<rparr>) = Inr av1"
    using approved_of [of "av\<lparr>av_force := True\<rparr>" True now] assms(2) by auto
  show ?thesis using assms(1,2) ap t by (simp add: force_apply_request_def Let_def saved_books written_books)
qed

text \<open>
  C37: A refusal sticks: when a critical change is blocked because the override was missing, the same
  request repeated with it, without a key of its own, is answered from the trace of the refusal.
\<close>

theorem blocked_change_stays_blocked:
  assumes "apply_policy_from_simulation now pc go = (Inr pa, go')"
    and "pa_message pa = ''critical_policy_blocked_use_apply_with_override_and_4eyes''"
    and "list_all (\<lambda>av. av_key av \<noteq> call_key pc) (go_requests go)"
  shows "case fst (apply_policy_from_simulation now' (pc\<lparr>pc_override := True, pc_double := True\<rparr>) go') of Inl _ \<Rightarrow> False
    | Inr pa' \<Rightarrow> pa_status pa' = ''blocked'' \<and> pa_message pa' = ''idempotent_replay_existing_decision_trace''"
proof -
  have key: "call_key (pc\<lparr>pc_override := True, pc_double := True\<rparr>) = call_key pc" by (simp add: call_key_def)
  have none: "find (\<lambda>av. av_key av = call_key pc) (go_requests go) = None" using assms(3) by (auto simp: find_None_iff list_all_iff)
  show ?thesis using assms(1)
  proof (cases rule: apply_cases)
    case (blocked ps pa')
    let ?dt = "\<lparr>dt_id = fresh_id ''ro-trace-'' go, dt_key = call_key pc, dt_flow = pc_flow pc, dt_simulation = ps_id ps, dt_class = ps_class ps,
      dt_rule = ''CRITICAL_BLOCK_DEFAULT'', dt_state = ''blocked''\<rparr>"
    have go': "go' = go\<lparr>go_traces := go_traces go @ [?dt], go_next := Suc (go_next go)\<rparr>" using blocked(4) by (simp add: add_trace_def)
    show ?thesis using blocked(1) none by (simp add: apply_policy_from_simulation_def request_replay_def trace_replay_def key TRACE_STATES_def go')
  next
    case (filed ps pa')
    then show ?thesis using assms(2) by (auto simp: request_approval_def Let_def split: prod.splits)
  qed (use assms(2) in simp_all)
qed

section \<open>Refinement\<close>

text \<open>
  C16: The handlers refine the specification: in a reachable state every step of a handler is a sequence of
  the moves the specification allows.
\<close>

theorem handlers_refine_moves:
  assumes "policy_reachable go" and "policy_step go go'"
  shows "moves go go'"
  using assms step_moves reachable_moves by blast

text \<open>The approvals of a request follow the table: what may come after a state, in any number of steps.\<close>

lemma approval_paths: "follows approval_successors s (ts @ t # us) \<Longrightarrow> t \<in> {''approved'', ''rejected''} \<Longrightarrow> us = []"
  by (rule approval_table.final_is_last)

end
