(* ===== verification/Policy_Examples.thy ===== *)
theory Policy_Examples
  imports Policy_Properties
begin

text \<open>
  The policy governance at work: a tense evening, in which one administrator asks for higher limits and
  another one votes, and the properties at the states that are reached.
\<close>

definition tense_evidence :: gate_evidence where
  "tense_evidence = \<lparr>ge_recent_rejects = 9, ge_previous_rejects = 0, ge_open_losses = [- 300], ge_max_open = 3, ge_volatility = [20, 30],
     ge_breaches = 4, ge_overrides = replicate 16 30,
     ge_signal = \<lparr>sg_recent_breaches = 4, sg_previous_breaches = 0, sg_pending_critical = 0, sg_pending = 0, sg_recent_volatility = [],
       sg_previous_volatility = []\<rparr>\<rparr>"

definition wider_limits :: limit_policy where
  "wider_limits = default_limits_policy\<lparr>lp_account_pct := 80, lp_symbol_pct := 40\<rparr>"

definition team :: "admin_user list" where
  "team = [\<lparr>au_id = ''root'', au_role = ''super_admin'', au_active = True\<rparr>, \<lparr>au_id = ''ann'', au_role = ''admin'', au_active = True\<rparr>]"

definition root_call :: apply_call where
  "root_call = \<lparr>pc_simulation = ''ro-sim-0'', pc_actor = ''root'', pc_role = ''super_admin'', pc_double = True, pc_override = True, pc_key = None,
     pc_expected = None, pc_flow = ''apply'', pc_mode = Normal\<rparr>"

definition simulated_books :: policy_governance where
  "simulated_books = snd (simulate_policy_change tense_evidence wider_limits (initial_books team))"

lemma simulated_books_code [code]:
  "simulated_books = \<lparr>go_policy = default_limits_policy, go_version = 1, go_simulations = [\<lparr>ps_id = ''ro-sim-0'', ps_baseline = 1,
     ps_candidate = wider_limits, ps_class = ''CRITICAL'', ps_score = 100\<rparr>], go_requests = [], go_traces = [], go_versions = [], go_changes = [],
     go_users = team, go_next = 1\<rparr>"
  by code_simp

definition requested_books :: policy_governance where
  "requested_books = snd (apply_policy_from_simulation 0 root_call simulated_books)"

definition approved_books :: policy_governance where
  "approved_books = snd (approve_request 1000 ''ro-appr-0'' ''ann'' ''admin'' requested_books)"

lemma root_call_normal: "root_call = root_call\<lparr>pc_flow := ''apply'', pc_mode := Normal\<rparr>"
  by (simp add: root_call_def)

lemma requested_reachable: "policy_reachable requested_books"
proof -
  have "policy_reachable simulated_books"
    unfolding simulated_books_def by (rule policy_reachable.step [OF policy_reachable.start]) (use policy_step.call [of _ "Call_Simulate tense_evidence wider_limits"] in simp)
  then show ?thesis
    unfolding requested_books_def using policy_step.call [of simulated_books "Call_Apply 0 root_call", simplified run_call.simps, folded root_call_normal] by (rule policy_reachable.step)
qed

lemma approved_reachable: "policy_reachable approved_books"
  unfolding approved_books_def using requested_reachable
    policy_step.call [of requested_books "Call_Approve 1000 ''ro-appr-0'' ''ann'' ''admin''", simplified run_call.simps]
  by (rule policy_reachable.step)

definition the_request :: "policy_governance \<Rightarrow> approval_request" where
  "the_request go = get_or (request_row ''ro-appr-0'' go) (new_request 0 root_call (hd (go_simulations go)) go)"

theorem policy_history_complete_witness:
  "map pv_number (go_versions approved_books) = [2] \<and> map pv_simulation (go_versions approved_books) = [''ro-sim-0'']"
proof -
  have "length (go_versions approved_books) = 1" "map dt_simulation (filter (\<lambda>dt. dt_state dt = ''applied'') (go_traces approved_books)) = [''ro-sim-0'']"
    by code_simp+
  then show ?thesis using policy_history_complete [OF approved_reachable] by simp
qed

theorem limits_change_with_authority_witness:
  "authorised (Call_Approve 1000 ''ro-appr-0'' ''ann'' ''admin'') requested_books approved_books"
proof -
  have "go_version (run_call (Call_Approve 1000 ''ro-appr-0'' ''ann'' ''admin'') requested_books) \<noteq> go_version requested_books"
    by code_simp
  then show ?thesis
    using limits_change_with_authority [of "Call_Approve 1000 ''ro-appr-0'' ''ann'' ''admin''" requested_books] by (simp add: approved_books_def)
qed

theorem decided_requests_stay_witness:
  "case request_row ''ro-appr-0'' (snd (reject_request 2000 ''ro-appr-0'' ''root'' ''super_admin'' approved_books)) of None \<Rightarrow> False
   | Some av' \<Rightarrow> av_state av' = av_state (the_request approved_books) \<and> av_votes av' = av_votes (the_request approved_books)"
  by (rule decided_requests_stay [OF approved_reachable policy_steps.later [OF policy_steps.stay
    policy_step.call [of _ "Call_Reject 2000 ''ro-appr-0'' ''root'' ''super_admin''", simplified run_call.simps]]]) code_simp+

theorem overdue_requests_expire_witness:
  "case request_row ''ro-appr-0'' (process_approval_escalations 600000 requested_books) of None \<Rightarrow> False | Some av' \<Rightarrow> av_state av' = ''expired''"
  by (rule overdue_requests_expire [OF requested_reachable, of _ "the_request requested_books"]) code_simp+

theorem requester_forces_own_change_witness:
  "go_policy (snd (force_apply_request 600000 ''ro-appr-0'' ''root'' ''super_admin'' requested_books)) = wider_limits"
proof -
  let ?av = "the_request (expire_stale 600000 requested_books)" and ?ps = "hd (go_simulations requested_books)"
  have "go_policy (snd (force_apply_request 600000 ''ro-appr-0'' (av_by ?av) ''super_admin'' requested_books)) = ps_candidate ?ps"
    by (rule requester_forces_own_change) code_simp+
  moreover have "av_by ?av = ''root''" "ps_candidate ?ps = wider_limits" by code_simp+
  ultimately show ?thesis by simp
qed

theorem blocked_change_stays_blocked_witness:
  "case fst (apply_policy_from_simulation 1 (root_call\<lparr>pc_override := True, pc_double := True\<rparr>)
      (snd (apply_policy_from_simulation 0 (root_call\<lparr>pc_override := False\<rparr>) simulated_books))) of Inl _ \<Rightarrow> False
   | Inr pa \<Rightarrow> pa_status pa = ''blocked'' \<and> pa_message pa = ''idempotent_replay_existing_decision_trace''"
proof -
  let ?r = "apply_policy_from_simulation 0 (root_call\<lparr>pc_override := False\<rparr>) simulated_books"
  have "?r = (Inr (projr (fst ?r)), snd ?r)" by code_simp
  moreover have "pa_message (projr (fst ?r)) = ''critical_policy_blocked_use_apply_with_override_and_4eyes''" by code_simp
  moreover have "list_all (\<lambda>av. av_key av \<noteq> call_key (root_call\<lparr>pc_override := False\<rparr>)) (go_requests simulated_books)" by code_simp
  ultimately show ?thesis using blocked_change_stays_blocked [of 0 "root_call\<lparr>pc_override := False\<rparr>" simulated_books "projr (fst ?r)" "snd ?r" 1] by simp
qed

theorem handlers_refine_moves_witness: "moves requested_books approved_books"
  using handlers_refine_moves [OF requested_reachable policy_step.call [of requested_books "Call_Approve 1000 ''ro-appr-0'' ''ann'' ''admin''"]]
  by (simp add: approved_books_def)

end
