(* ===== verification/Spec2Isabelle.thy ===== *)
theory Spec2Isabelle
  imports Reconciliation_Properties Query_Parser Quote_Policy Futures_Monitor Futures_Decision
    Decision_Pipeline Spot_Examples Paper_Ledger Unified_Policy Policy_Examples
begin

text \<open>
  A verification development for the trading backend under \<open>src/backend/\<close>: order execution, the
  intents a user submits and an administrator approves, the guards in front of both, the query
  language of the screener, and the risk and decision layers of futures trading.

  Parts and theories:

  \<^item> \<open>Prelude\<close>: the Python idioms used everywhere (\<open>x or default\<close>, strings, \<open>round\<close>,
    \<open>sorted(set(...))\<close>), the reasons a guard collects, and the locale \<open>reason_gate\<close>, the contract
    of a hard gate. \<open>Status_Machine\<close>: the locale \<open>status_flow\<close>, the contract of a table of status
    transitions with final statuses, and \<open>status_table\<close>, where in addition every status can be finished.
  \<^item> \<open>Runtime_Store\<close>: the rows of \<open>execution_jobs\<close>, \<open>orders\<close>, \<open>positions\<close> and the other tables of the
    runtime, the Redis queue and kill switch keys, and the locale \<open>row_table\<close> for look-up and
    write-back by key.
  \<^item> \<open>Order_Lifecycle\<close>: the order states and \<open>handle_execution_result\<close> of \<open>core/execution_engine.py\<close>,
    with the status map of \<open>core/exchanges/binance_adapter.py\<close> and the simulated adapter.
  \<^item> \<open>Runtime_Guards\<close>: \<open>core/safety/kill_switch.py\<close>, \<open>core/safety/canary_mode.py\<close>,
    \<open>core/risk_engine.py\<close> and the alert triggers of \<open>core/alerts/runtime_alert_triggers.py\<close>.
  \<^item> \<open>Execution_Engine\<close> and \<open>Execution_Worker\<close>: submitting a signal, the queue, and the worker with
    its retries (\<open>submit_signal\<close>, \<open>execute_queued_job\<close>, \<open>consume_execution_queue_once\<close>).
    \<open>Runtime_Invariants\<close> proves what both keep of the tables. \<open>Order_Reconciliation\<close>:
    \<open>core/reconciliation/order_reconciliation.py\<close> on the same tables. \<open>Runtime_Properties\<close> has the step
    relation of all of them, the reachable states and the properties over them,
    \<open>Reconciliation_Properties\<close> what a single reconciliation does.
  \<^item> \<open>Quote_Policy\<close>: \<open>core/policy/quote_policy.py\<close>. \<open>Position_Actions\<close>: the paper positions,
    \<open>sync_position_state\<close> of \<open>services/position_management_service.py\<close> and the position actions of
    \<open>services/execution_intent_service.py\<close>. \<open>Intent_Lifecycle\<close> and \<open>Intent_Handlers\<close>: the statuses of
    an intent and the handlers that move it; \<open>Intent_Properties\<close> their step relation and properties.
  \<^item> \<open>Query_Parser\<close>: \<open>services/indicator_screener/query_parser.py\<close> with its tokenizer, parser and
    evaluator, against a grammar given as an inductive predicate.
  \<^item> \<open>Futures_Position\<close>, \<open>Futures_Microstructure\<close>, \<open>Futures_Protection\<close>, \<open>Futures_Monitor\<close>,
    \<open>Futures_Leverage\<close> and \<open>Futures_Decision\<close>: \<open>core/futures/\<close>, \<open>core/risk/futures_risk_engine.py\<close>,
    \<open>core/strategy/futures_paper_decision_flow.py\<close>, \<open>core/strategy/futures/\<close> and the two services
    that compose them.
  \<^item> \<open>Decision_Rows\<close>: the rows a strategy cycle hands from guard to guard, and the locale
    \<open>decision_guard\<close>, the contract of a guard: it keeps the rows and revives none.
    \<open>Correlation_Clusters\<close> and \<open>Cluster_Guard\<close> (\<open>core/risk/correlation/\<close>), \<open>Capital_Guard\<close>
    (\<open>core/risk/capital/\<close>), \<open>Tail_Risk\<close> (\<open>core/risk/tail_risk/\<close>), \<open>Live_Integrity\<close>
    (\<open>core/live/\<close>), \<open>Strategy_Governance\<close> (\<open>core/strategies/governance/\<close>) and
    \<open>Portfolio_Guards\<close> (\<open>core/portfolio/\<close>) each interpret it; \<open>Futures_Execution\<close>
    (\<open>core/execution/\<close>) has the paper executor and the checks of an order.
    \<open>Trading_Strategies\<close> has the market state and the native strategies
    (\<open>core/strategies/components/\<close>, \<open>core/portfolio/strategy_registry.py\<close>), \<open>Legacy_Strategies\<close> the
    indicators and strategies of \<open>core/strategies/legacy/\<close>, the prefilters and the registry.
    \<open>Decision_Pipeline\<close> composes them as \<open>run_futures_strategy_paper_cycle\<close> of
    \<open>services/futures_strategy_service.py\<close> does, from cycle to cycle.

  \<^item> \<open>Spot_Indicators\<close> and \<open>Spot_Selection\<close>: the indicators of
    \<open>services/pipeline/legacy/spot_strategy_service.py\<close>, the market regime with its confirmation, and the
    scoring and selection of candidates in \<open>services/pipeline/spot_dynamic_score_engine.py\<close>.
    \<open>Spot_Risk\<close>: sizing, loss limits, allocation and the risk checks of \<open>services/pipeline/risk_engine.py\<close>.
    \<open>Spot_Execution\<close>: the paper execution of \<open>services/pipeline/execution_engine.py\<close> with the policies that
    drive it. \<open>Spot_Pipeline\<close>: a candle event through the bots of \<open>services/pipeline/runtime.py\<close>, as a step
    relation with the locale \<open>spot_invariant\<close>; \<open>Spot_Examples\<close> runs it on one market and instantiates the
    properties at the state it reaches. \<open>Paper_Ledger\<close> has the paper positions and their ledger under
    everything that writes them, the pipeline and the released intents together.
  \<^item> \<open>Unified_Positions\<close>, \<open>Unified_Exposure\<close>, \<open>Unified_State\<close> and \<open>Unified_Policy\<close>:
    \<open>services/unified_risk_core_service.py\<close>, from the positions and their liquidation prices over clusters,
    stress and budgets to the risk state with its kill switch, hysteresis and execution policy, the
    simulation of an order, the replay, and the calibration and benchmark of the thresholds.
  \<^item> \<open>Policy_Gate\<close>, \<open>Policy_Approvals\<close> and \<open>Policy_Handlers\<close>: the governance of the risk limits in
    \<open>services/risk_orchestrator_service.py\<close>, with the score and class of a change of the limits, the tables of
    requests, decisions and versions with \<open>apply_policy_from_simulation\<close>, and the handlers that approve,
    reject, assign, expire, force and revert; with the risk controls of
    \<open>routers/admin_live_trading_dashboard.py\<close>, which write the same limits. \<open>Policy_Moves\<close> is a specification of the tables by elementary
    moves, which every handler is shown to follow, with the locale \<open>governance_invariant\<close>;
    \<open>Policy_Properties\<close> has the properties and \<open>Policy_Examples\<close> a change from request to approval.

  How state and operations correspond to the code. A table is a list of rows, and an operation
  on a session returns its result or the error it raises together with the tables as it leaves
  them, because a session keeps what was assigned to an object before an exception. Clock,
  fresh identifiers, environment variables and the answers of services outside the modelled
  files are arguments, so every definition is a function and can be evaluated. Floating point
  numbers are rationals, with \<open>round(x, n)\<close> as rounding half to even on the decimal grid; what
  depends on binary rounding is outside the model. Python integers are \<open>int\<close>, strings are
  character lists with ASCII upper and lower case.

  What the lemmas show. The runtime theories show that in every reachable state the tables agree
  and the positions are the fills, but for those only a reconciliation wrote, that retries are bounded
  and end, and which guards an enqueued signal has passed. The intent theories show that an intent acts on positions exactly once,
  which statuses are final, and what gates an execution. The parser is equivalent to its grammar,
  terminates and evaluates every parsed query. The futures theories show what a gate needs to
  pass, that protection is monotone and leverage bounded, and that a rejection names the first
  failing layer. The theories of the strategy cycle show that no guard revives a row, what is left
  after all of them, that the clusters are the components of the correlation graph, that a disabled
  strategy stays out, that every strategy answers what the engine can read, and that the books of a
  cycle balance. The spot and unified risk theories show the limits every state the pipeline
  reaches keeps, that the ledger accounts for every paper position, that a report is consistent and that
  worse measures never improve the state. The policy theories show in which ways the limits change and
  what each needs (the approval by its class, an expired request that is forced, or the risk controls,
  which need neither approval nor version), that a decision is final and that the history of versions is
  complete up to the risk controls. Some properties state what the code does where it differs from what
  its names or comments say: these are the findings of the manifest.

  Bounds. No definition uses fuel. The parser recurses on its tokens with a termination proof; the
  worker is modelled by the call that takes one payload, and \<open>work_rounds\<close> runs it once for each
  element of a list of clock readings, as many as attempts are left (at least eight seconds, the
  longest back-off, apart).

  Not modelled: the HTTP routers (but for the closing of a paper position and the risk controls), the front
  end, migrations and database sessions with the constraints of their tables (the uniqueness of
  \<open>orders.external_order_id\<close> is one), the previews of
  \<open>preview_execution_intent\<close> (they call some thirty services), the pre-trade check, overrides, supervisor and
  dashboards of the risk orchestrator and its \<open>revert_policy_to_version\<close>, which nothing calls, the live mode services, the reports and files of the unified risk core,
  the rows the prefilters write for dashboards, reports and metrics that are only read there, and the exchange
  clients themselves. Of the signal pipeline, the market data engine, the
  universe, the scanner automation, counters, audit and observability rows are left out, the branch of bots
  with other strategies, and an exception inside the processing of a bot; the limits of the spot
  pipeline are those of the states it reaches by itself, while the ledger is followed under every writer.
  Rows of \<open>positions\<close> that mirror paper positions carry the identifier of a paper position and are kept
  apart from those of the engine, whose identifiers are made of user and symbol. Also, the result of \<open>evaluate_strategy\<close>, which the spot cycle
  overwrites in every field that is read later, is not computed.
\<close>

section \<open>Across components\<close>

text \<open>A calm market with a trend, one strategy, nothing open: what the examples run on.\<close>

definition sample_market :: strategy_market where
  "sample_market = (market_state_of ''BTCUSDT'' \<lparr>mf_candles = [], mf_last_price = Some 100, mf_spread_bps = Some 2,
     mf_funding_rate = None, mf_funding_history = None\<rparr>)
     \<lparr>mt_trend_strength := Some (1 / 100), mt_trend_direction := Some ''LONG'', mt_volatility_regime := Some ''TRENDING'',
      mt_funding_alignment := Some True\<rparr>"

definition sample_risk :: "micro_evidence \<Rightarrow> risk_snapshot" where
  "sample_risk mv = \<lparr>rk_policy_leverage_cap = Some 3, rk_margin_usage = Some 20, rk_avg_distance = Some 30,
     rk_portfolio_leverage = Some 1, rk_policy = fi_policy (sample_flow ''LONG'' ''ALLOW'' 0), rk_micro = (\<lambda>_. Some mv)\<rparr>"

definition calm_evidence :: micro_evidence where
  "calm_evidence = fi_micro (sample_flow ''LONG'' ''ALLOW'' 0)"

definition sample_env :: "micro_evidence \<Rightarrow> cycle_env" where
  "sample_env mv =
     \<lparr>en_now = 0, en_registry = [(''trend_follow_v1'', trend_follow_adapter)], en_legacy = legacy_shadow_ids,
      en_markets = [sample_market], en_risk = sample_risk mv,
      en_config = \<lparr>rf_max_leverage = Some 2, rf_min_liquidation_distance = None\<rparr>, en_equity = 10000, en_clusters = [], en_positions = [],
      en_capital = capital_snapshot_of 10000 0 [''trend_follow_v1''] [] (\<lambda>_. None) ''NORMAL'',
      en_global_risk = \<lparr>gk_score = 10, gk_state = ''NORMAL'', gk_events = []\<rparr>,
      en_readiness = Some (evaluate_live_readiness_guard (Some ''READY''))\<rparr>"

definition sample_state :: cycle_state where
  "sample_state = \<lparr>st_governance = sample_governance, st_history = []\<rparr>"

text \<open>
  C11: The guards only tighten. Together they keep every row, with its symbol, side and strategy, and
  the rows allowed at the end are, as trades with their multiplicity, among those the strategy
  engine allowed: no guard brings back what an earlier one rejected.
\<close>

theorem guards_never_revive:
  "mset (map row_key (run_guards en gv rows)) = mset (map row_key rows) \<and>
   mset (map row_key (filter allowed (run_guards en gv rows))) \<subseteq># mset (map row_key (filter allowed rows))"
  using cycle_guards.keeps_rows cycle_guards.never_revives by blast

text \<open>
  C1: What a cycle may trade. No symbol keeps a long and a short order or more than two orders; the
  exposure of a symbol, a strategy and a cluster is at most the default limit; and nothing stays
  allowed for a disabled strategy, while the global risk is \<open>PAUSE\<close>, or while readiness says \<open>BLOCK\<close>.
\<close>

theorem cycle_guarantees:
  "let final = run_guards en gv rows; left = filter allowed final; on = (\<lambda>f k. filter (\<lambda>row. f row = k) left);
       registry = seed_legacy_disabled (en_now en) (en_legacy en) (gv_lifecycle gv)
   in length (on row_symbol symbol) \<le> 2 \<and>
      \<not> (Some ''LONG'' \<in> dr_side ` set (on row_symbol symbol) \<and> Some ''SHORT'' \<in> dr_side ` set (on row_symbol symbol)) \<and>
      sum_list (map exposure_size (on row_symbol symbol)) \<le> xl_symbol default_limits \<and>
      sum_list (map exposure_size (on row_strategy strategy)) \<le> xl_strategy default_limits \<and>
      sum_list (map exposure_size (on row_cluster cl)) \<le> xl_cluster default_limits \<and>
      list_all (\<lambda>row. state_of registry (row_strategy row) \<noteq> ''DISABLED'' \<and> gk_state (en_global_risk en) \<noteq> ''PAUSE'' \<and>
        map_option rv_action (en_readiness en) \<noteq> Some ''BLOCK'') left"
proof -
  have sides: "one_sided 2 (filter (\<lambda>row. row_symbol row = symbol) (filter allowed (run_guards en gv rows)))"
    using run_guards_one_sided by (simp add: conj_commute)
  have "state_of (seed_legacy_disabled (en_now en) (en_legacy en) (gv_lifecycle gv)) (row_strategy row) \<noteq> ''DISABLED'' \<and>
      gk_state (en_global_risk en) \<noteq> ''PAUSE'' \<and> map_option rv_action (en_readiness en) \<noteq> Some ''BLOCK''"
    if "row \<in> set (filter allowed (run_guards en gv rows))" for row
    using run_guards_allowed [of row en gv rows] that by simp
  then show ?thesis
    using sides run_guards_exposure(1) [of symbol en gv rows] run_guards_exposure(2) [of strategy en gv rows]
      run_guards_exposure(3) [of cl en gv rows]
    unfolding Let_def one_sided_def exposure_sum_def list_all_iff by blast
qed

text \<open>
  C5: The books of a cycle balance. When a strategy raises, nothing changes. Otherwise there is one
  row for every strategy and market, every allowed row and no other opens one paper trade, and the
  profit of the cycle is, without a rounding error, that of its trades, of the metrics of its
  strategies together, and of their attribution together.
\<close>

theorem cycle_books_balance:
  assumes "distinct (map fst (en_registry en))"
  shows "case strategy_paper_cycle en st of
     (Inl e, st') \<Rightarrow> st' = st
   | (Inr oc, st') \<Rightarrow> length (oc_rows oc) = length (en_registry en) * length (en_markets en) \<and>
       length (oc_trades oc) = length (filter allowed (oc_rows oc)) \<and>
       oc_pnl oc = sum_of px_pnl (oc_trades oc) \<and>
       sum_list (map ms_pnl (oc_metrics oc)) = oc_pnl oc \<and>
       sum_list (map ar_pnl (oc_attribution oc)) = oc_pnl oc"
proof (cases "strategy_rows (en_registry en) (en_markets en) (en_risk en) (map fst (en_registry en))")
  case (Inl e)
  then show ?thesis by (simp add: strategy_paper_cycle_def)
next
  case (Inr rows)
  let ?final = "run_guards en (st_governance st) rows"
  have "length ?final = length (en_registry en) * length (en_markets en)"
    using cycle_guards.keeps_length strategy_rows_length [OF Inr] by simp
  moreover have "px_strategy px \<in> set (map Some (map fst (en_registry en)))" if "px \<in> set (paper_trades en ?final)" for px
    using that cycle_rows_strategy [OF Inr] by (fastforce simp: paper_trades_def trade_of_def)
  moreover have "distinct (map Some (map fst (en_registry en)))" using assms by (auto simp: distinct_map inj_on_def)
  ultimately show ?thesis
    using sum_of_groups [of "map Some (map fst (en_registry en))" "paper_trades en ?final" px_strategy px_pnl]
    by (simp add: strategy_paper_cycle_def Inr Let_def outcome_of_def metrics_of_def paper_pnl_exact
        attribution_pnl_exact comp_def length_paper_trades)
qed

lemma sample_cycle_trades:
  "case strategy_paper_cycle (sample_env calm_evidence) sample_state of (Inl e, st) \<Rightarrow> False
   | (Inr oc, st) \<Rightarrow> length (oc_trades oc) = 1 \<and> oc_pnl oc = 90009 / 200000"
  by code_simp

lemma sample_cycle_decisions:
  "case strategy_rows [(''trend_follow_v1'', trend_follow_adapter)] [sample_market] (sample_risk calm_evidence) [''trend_follow_v1''] of
     Inl e \<Rightarrow> False | Inr rows \<Rightarrow> map dr_decision rows = [Some ''ALLOW'']"
  by code_simp

theorem cycle_books_balance_witness:
  "case strategy_paper_cycle (sample_env calm_evidence) sample_state of (Inl e, st) \<Rightarrow> False
   | (Inr oc, st) \<Rightarrow> length (filter allowed (oc_rows oc)) = 1 \<and> sum_list (map ms_pnl (oc_metrics oc)) = 90009 / 200000 \<and>
       sum_list (map ar_pnl (oc_attribution oc)) = 90009 / 200000"
proof -
  have "distinct (map fst (en_registry (sample_env calm_evidence)))" by (simp add: sample_env_def)
  from cycle_books_balance [OF this, of sample_state] show ?thesis
    using sample_cycle_trades by (auto split: prod.splits sum.splits)
qed

text \<open>
  C10: A disabled strategy never trades again. From a cycle that starts with a strategy disabled, in
  all later cycles in which it is registered, whatever the markets, its results and the other
  strategies do, no paper trade is its own and it stays disabled.
\<close>

theorem disabled_never_trades_again:
  assumes "state_of (gv_lifecycle (st_governance st)) i = ''DISABLED''" and "i \<noteq> []"
    and "list_all (\<lambda>en. i \<in> set (map fst (en_registry en))) ens"
  shows "state_of (gv_lifecycle (st_governance (snd (run_paper_cycles ens st)))) i = ''DISABLED'' \<and>
    list_all (\<lambda>r. case r of Inl e \<Rightarrow> True | Inr oc \<Rightarrow> list_all (\<lambda>px. px_strategy px \<noteq> Some i) (oc_trades oc))
      (fst (run_paper_cycles ens st))"
  using assms(1,3)
proof (induction ens arbitrary: st)
  case (Cons en ens)
  obtain r st1 where run: "strategy_paper_cycle en st = (r, st1)" by fastforce
  have "state_of (gv_lifecycle (st_governance st1)) i = ''DISABLED''"
    using cycle_state_disabled [OF Cons.prems(1), of en] Cons.prems(2) by (simp add: run)
  with Cons.IH [of st1] Cons.prems show ?case
    using disabled_no_trades [OF Cons.prems(1) assms(2), of en] by (cases r) (simp_all add: run case_prod_beta)
qed simp

definition breakout_env :: cycle_env where
  "breakout_env = (sample_env calm_evidence)\<lparr>en_registry :=
     [(''breakout_v1'', \<lambda>mt. Signal_Dict \<lparr>sd_signal = Some ''LONG'', sd_confidence = Some (9 / 10), sd_strategy_type = None\<rparr>)]\<rparr>"

theorem disabled_never_trades_again_witness:
  "state_of (gv_lifecycle (st_governance (snd (run_paper_cycles [breakout_env, breakout_env] sample_state)))) ''breakout_v1'' = ''DISABLED'' \<and>
   list_all (\<lambda>r. case r of Inl e \<Rightarrow> True | Inr oc \<Rightarrow> list_all (\<lambda>px. px_strategy px \<noteq> Some ''breakout_v1'') (oc_trades oc))
     (fst (run_paper_cycles [breakout_env, breakout_env] sample_state))"
proof (rule disabled_never_trades_again)
  show "state_of (gv_lifecycle (st_governance sample_state)) ''breakout_v1'' = ''DISABLED''"
    by (simp add: sample_state_def sample_disabled)
qed (simp_all add: breakout_env_def)

text \<open>
  No trade on a market that cannot be seen. In a cycle, no row stays allowed for a symbol whose
  microstructure was computed from data older than 30 seconds, or without a bid, an ask or depth on
  both sides, whatever the strategies say and whatever the risk snapshot holds.
\<close>

theorem unseen_market_is_not_traded:
  "case fst (strategy_paper_cycle en st) of Inl e \<Rightarrow> True
   | Inr oc \<Rightarrow> list_all (\<lambda>row. \<not> (allowed row \<and> \<not> (\<not> input_stale mk \<and> book_valid mk) \<and>
       rk_micro (en_risk en) (get_or (dr_symbol row) []) = Some (evidence_of (fst (symbol_microstructure bl mk))))) (oc_rows oc)"
proof (cases "strategy_rows (en_registry en) (en_markets en) (en_risk en) (map fst (en_registry en))")
  case (Inr rows)
  have False if row: "row \<in> set (run_guards en (st_governance st) rows)" "allowed row"
    and micro: "rk_micro (en_risk en) (get_or (dr_symbol row) []) = Some (evidence_of (fst (symbol_microstructure bl mk)))"
    and unseen: "input_stale mk \<or> \<not> book_valid mk" for row
  proof -
    obtain name raw and mt :: strategy_market and d where "evaluate_symbol name raw mt (en_risk en) = Inr d" "sy_decision d = ''ALLOW''" "dr_symbol row = Some (sy_symbol d)"
      using allowed_row_decision [OF Inr row] by blast
    then show False using unseen_market_rejected [OF _ _ unseen] micro by (metis get_or_simps(2))
  qed
  then show ?thesis by (auto simp: strategy_paper_cycle_def Inr Let_def outcome_of_def list_all_iff)
qed (simp add: strategy_paper_cycle_def)

text \<open>
  The strategies a cycle lists as shadow-only never trade, whatever their signals and whatever
  the registry of lifecycles said before: every one of their rows is rejected.
\<close>

theorem shadow_strategies_never_trade:
  "list_all (\<lambda>row. \<not> (allowed row \<and> row_strategy row \<in> set (en_legacy en))) (run_guards en gv rows)"
proof -
  have "state_of (seed_legacy_disabled (en_now en) (en_legacy en) (gv_lifecycle gv)) i = ''DISABLED''" if "i \<in> set (en_legacy en)" for i
    using that by (simp add: state_of_def seed_legacy_disabled_def seed_legacy_def Let_def)
  then show ?thesis using run_guards_allowed(1) by (fastforce simp: list_all_iff)
qed

text \<open>
  The configured minimum distance to liquidation is never enforced. The veto looks for three
  keys that no row of the engine carries and falls back to 999, so for every minimum up to 999 the
  risk configuration changes no decision.
\<close>

theorem liquidation_veto_never_fires:
  assumes "strategy_rows registry mts rk names = Inr rows" and "num_or (rf_min_liquidation_distance rf) 6 \<le> 999"
  shows "map dr_decision (apply_risk_config rf rows) = map dr_decision rows"
proof -
  have "dr_decision (veto_distance (num_or (rf_min_liquidation_distance rf) 6) (cap_leverage cap row)) = dr_decision row"
    if row: "row \<in> set rows" for row cap
  proof -
    obtain name d where "row = row_of_decision name d" using strategy_rows_in [OF assms(1) row] by blast
    then have "dr_lev_distance row = None" "dr_liquidation_distance row = None" "dr_distance_pct row = None"
      by (simp_all add: row_of_decision_def)
    then show ?thesis using assms(2) by (simp add: veto_distance_def cap_leverage_def)
  qed
  then show ?thesis by (simp add: apply_risk_config_def)
qed

theorem liquidation_veto_never_fires_witness:
  "map dr_decision (apply_risk_config \<lparr>rf_max_leverage = Some 2, rf_min_liquidation_distance = Some 500\<rparr>
     (case strategy_rows [(''trend_follow_v1'', trend_follow_adapter)] [sample_market] (sample_risk calm_evidence) [''trend_follow_v1''] of
        Inl e \<Rightarrow> [] | Inr rows \<Rightarrow> rows)) = [Some ''ALLOW'']"
proof -
  obtain rows where rows: "strategy_rows [(''trend_follow_v1'', trend_follow_adapter)] [sample_market] (sample_risk calm_evidence)
      [''trend_follow_v1''] = Inr rows" "map dr_decision rows = [Some ''ALLOW'']"
    using sample_cycle_decisions by (auto split: sum.splits)
  show ?thesis
    using liquidation_veto_never_fires [OF rows(1), of "\<lparr>rf_max_leverage = Some 2, rf_min_liquidation_distance = Some 500\<rparr>"] rows
    by (simp add: num_or_def)
qed

end
